(* ===== verification/Prelude.thy ===== *)
theory Prelude
  imports Complex_Main "HOL-Library.Sublist"
begin

text \<open>
  Shared vocabulary of the development: the names of the model's basic types, the errors a
  request handler can raise, the operations of one database table (a list of rows, in insertion
  order, the way a Prisma delegate reads and writes it) and the generic facts about them.

  A handler that throws is a value \<open>Inl e\<close>; the request transaction is then rolled back,
  so no new state is returned with an error. A handler that returns is \<open>Inr\<close> of the new
  state and its result.
\<close>

section \<open>Basic types\<close>

type_synonym uuid = string
type_synonym time = int \<comment> \<open>milliseconds since the epoch, as \<open>Date.getTime()\<close>\<close>
type_synonym decimal = rat \<comment> \<open>a Prisma \<open>Decimal\<close>\<close>

section \<open>Errors\<close>

text \<open>
  The Nest exceptions the services throw, each with its message; \<open>RecordNotFound\<close> is
  Prisma's P2025, raised by \<open>findUniqueOrThrow\<close> and by \<open>update\<close> on a missing row;
  \<open>ProviderError\<close> is an error of a payment provider that the code lets through, and
  \<open>InternalError\<close> any other exception.
\<close>

datatype error =
    BadRequest string
  | NotFound string
  | Conflict string
  | Forbidden string
  | Unauthorized string
  | Gone string
  | ServiceUnavailable string
  | TooManyRequests string
  | RecordNotFound
  | ProviderError string
  | InternalError string

text \<open>The HTTP status of each (\<open>AllExceptionsFilter.resolve\<close> maps P2025 to 404).\<close>

fun http_status :: "error \<Rightarrow> nat" where
  "http_status (BadRequest _) = 400"
| "http_status (NotFound _) = 404"
| "http_status (Conflict _) = 409"
| "http_status (Forbidden _) = 403"
| "http_status (Unauthorized _) = 401"
| "http_status (Gone _) = 410"
| "http_status (ServiceUnavailable _) = 503"
| "http_status (TooManyRequests _) = 429"
| "http_status RecordNotFound = 404"
| "http_status (ProviderError _) = 500"
| "http_status (InternalError _) = 500"

text \<open>What the filter makes of a constraint of the database that refuses a write.\<close>

definition databaseError :: error where
  "databaseError = BadRequest ''Database request error''"

type_synonym 'a res = "error + 'a"

definition bind_res :: "'a res \<Rightarrow> ('a \<Rightarrow> 'b res) \<Rightarrow> 'b res" where
  "bind_res r k = (case r of Inl e \<Rightarrow> Inl e | Inr a \<Rightarrow> k a)"

lemma bind_res_simps [simp]:
  "bind_res (Inl e) k = Inl e"
  "bind_res (Inr a) k = k a"
  by (simp_all add: bind_res_def)

lemma bind_res_eq_Inr:
  "bind_res r k = Inr b \<longleftrightarrow> (\<exists>a. r = Inr a \<and> k a = Inr b)"
  by (cases r) auto

lemma bind_res_eq_Inl:
  "bind_res r k = Inl e \<longleftrightarrow> r = Inl e \<or> (\<exists>a. r = Inr a \<and> k a = Inl e)"
  by (cases r) auto

lemma if_Inl_eq_Inr: "(if b then Inl e else r) = Inr x \<longleftrightarrow> \<not> b \<and> r = Inr x"
  by simp

lemma if_Inr_Inl_eq_Inr: "(if b then r else Inl e) = Inr x \<longleftrightarrow> b \<and> r = Inr x"
  by simp

text \<open>The shape of every handler: guards that throw, then a result.\<close>

lemmas res_eqs = bind_res_eq_Inr if_Inl_eq_Inr if_Inr_Inl_eq_Inr

lemma map_sum_Inr: "map_sum f g x = Inr y \<longleftrightarrow> (\<exists>z. x = Inr z \<and> y = g z)"
  by (cases x) auto

text \<open>Runs \<open>f\<close> over the list, stopping at the first error: \<open>map\<close> with a throwing body.\<close>

fun map_res :: "('a \<Rightarrow> 'b res) \<Rightarrow> 'a list \<Rightarrow> 'b list res" where
  "map_res f [] = Inr []"
| "map_res f (x # xs) =
     (case f x of Inl e \<Rightarrow> Inl e
      | Inr y \<Rightarrow> (case map_res f xs of Inl e \<Rightarrow> Inl e | Inr ys \<Rightarrow> Inr (y # ys)))"

lemma map_res_Inr_length: "map_res f xs = Inr ys \<Longrightarrow> length ys = length xs"
  by (induction xs arbitrary: ys) (auto split: sum.splits)

lemma map_res_Inr_nth:
  "map_res f xs = Inr ys \<Longrightarrow> i < length xs \<Longrightarrow> f (xs ! i) = Inr (ys ! i)"
  by (induction xs arbitrary: ys i) (auto split: sum.splits simp: nth_Cons split: nat.splits)

lemma map_res_Inr_set:
  assumes "map_res f xs = Inr ys" and "y \<in> set ys"
  shows "\<exists>x \<in> set xs. f x = Inr y"
  using assms by (induction xs arbitrary: ys) (auto split: sum.splits)

lemma map_res_Inr_map:
  assumes "map_res f xs = Inr ys" and "\<And>x y. x \<in> set xs \<Longrightarrow> f x = Inr y \<Longrightarrow> g y = h x"
  shows "map g ys = map h xs"
  using assms by (induction xs arbitrary: ys) (auto split: sum.splits)

section \<open>Tables\<close>

named_theorems table_simps \<open>what a write leaves unchanged\<close>

text \<open>A field an update may name, over the value of the row.\<close>

definition patch :: "'a option \<Rightarrow> 'a \<Rightarrow> 'a" where
  "patch new old = (case new of Some x \<Rightarrow> x | None \<Rightarrow> old)"

lemma patch_simps [simp]: "patch None old = old" "patch (Some x) old = x"
  by (simp_all add: patch_def)

text \<open>\<open>findFirst\<close>, \<open>updateMany\<close> and \<open>count\<close> of a Prisma delegate over a list of rows.\<close>

definition findFirst :: "('r \<Rightarrow> bool) \<Rightarrow> 'r list \<Rightarrow> 'r option" where
  "findFirst P t = List.find P t"

definition updateMany :: "('r \<Rightarrow> bool) \<Rightarrow> ('r \<Rightarrow> 'r) \<Rightarrow> 'r list \<Rightarrow> 'r list" where
  "updateMany P f t = map (\<lambda>r. if P r then f r else r) t"

definition countRows :: "('r \<Rightarrow> bool) \<Rightarrow> 'r list \<Rightarrow> nat" where
  "countRows P t = length (filter P t)"

lemma findFirst_simps [simp]:
  "findFirst P [] = None"
  "findFirst P (x # xs) = (if P x then Some x else findFirst P xs)"
  by (simp_all add: findFirst_def)

lemma findFirst_SomeD: "findFirst P t = Some r \<Longrightarrow> r \<in> set t \<and> P r"
  by (induction t) (auto split: if_splits)

lemma findFirst_None_iff: "findFirst P t = None \<longleftrightarrow> (\<forall>r \<in> set t. \<not> P r)"
  by (induction t) auto

lemma findFirst_append:
  "findFirst P (xs @ ys) = (case findFirst P xs of Some x \<Rightarrow> Some x | None \<Rightarrow> findFirst P ys)"
  by (induction xs) auto

lemma findFirst_Some_ex: "(\<exists>r. findFirst P t = Some r) \<longleftrightarrow> (\<exists>r \<in> set t. P r)"
  by (induction t) auto

lemma findFirst_filter: "(\<And>r. P r \<Longrightarrow> Q r) \<Longrightarrow> findFirst P (filter Q t) = findFirst P t"
  by (induction t) auto

lemma updateMany_simps [simp]:
  "updateMany P f [] = []"
  "updateMany P f (x # xs) = (if P x then f x else x) # updateMany P f xs"
  by (simp_all add: updateMany_def)

lemma length_updateMany [simp]: "length (updateMany P f t) = length t"
  by (simp add: updateMany_def)

lemma updateMany_append [simp]: "updateMany P f (s @ t) = updateMany P f s @ updateMany P f t"
  by (simp add: updateMany_def)

lemma set_updateMany: "set (updateMany P f t) = (\<lambda>r. if P r then f r else r) ` set t"
  by (simp add: updateMany_def)

lemma updateMany_none: "(\<And>r. r \<in> set t \<Longrightarrow> \<not> P r) \<Longrightarrow> updateMany P f t = t"
  by (induction t) auto

lemma updateMany_nochange: "(\<And>r. r \<in> set t \<Longrightarrow> P r \<Longrightarrow> f r = r) \<Longrightarrow> updateMany P f t = t"
  by (induction t) auto

lemma map_updateMany_key:
  "(\<And>r. key (f r) = key r) \<Longrightarrow> map key (updateMany P f t) = map key t"
  by (induction t) auto

lemma countRows_simps [simp]:
  "countRows P [] = 0"
  "countRows P (x # xs) = (if P x then Suc (countRows P xs) else countRows P xs)"
  by (simp_all add: countRows_def)

lemma countRows_0_iff: "countRows P t = 0 \<longleftrightarrow> (\<forall>r \<in> set t. \<not> P r)"
  by (induction t) auto

lemma countRows_append [simp]: "countRows P (s @ t) = countRows P s + countRows P t"
  by (induction s) auto

lemma countRows_mono: "(\<And>r. P r \<Longrightarrow> Q r) \<Longrightarrow> countRows P t \<le> countRows Q t"
  by (induction t) (auto intro: le_SucI)

lemma countRows_filter: "countRows P (filter Q t) = countRows (\<lambda>r. P r \<and> Q r) t"
  by (induction t) auto

lemma list_all_updateMany:
  assumes "\<And>r. P r \<Longrightarrow> Q (f r)" and "\<And>r. \<not> P r \<Longrightarrow> Q r"
  shows "list_all Q (updateMany P f t)"
  using assms by (induction t) auto

text \<open>A bulk update of one owner's rows leaves the rows of every other owner as they were.\<close>

lemma updateMany_others:
  assumes "\<And>r. P r \<Longrightarrow> own r = i" and "\<And>r. own (f r) = own r"
  shows "filter (\<lambda>r. own r \<noteq> i) (updateMany P f t) = filter (\<lambda>r. own r \<noteq> i) t"
  using assms by (induction t) auto

text \<open>Rows named by a unique key.\<close>

definition rowOf :: "('r \<Rightarrow> 'k) \<Rightarrow> 'k \<Rightarrow> 'r list \<Rightarrow> 'r option" where
  "rowOf key k t = findFirst (\<lambda>r. key r = k) t"

definition updateRow :: "('r \<Rightarrow> 'k) \<Rightarrow> 'k \<Rightarrow> ('r \<Rightarrow> 'r) \<Rightarrow> 'r list \<Rightarrow> 'r list" where
  "updateRow key k f t = updateMany (\<lambda>r. key r = k) f t"

definition uniqueKeys :: "('r \<Rightarrow> 'k) \<Rightarrow> 'r list \<Rightarrow> bool" where
  "uniqueKeys key t = distinct (map key t)"

lemma rowOf_simps [simp]:
  "rowOf key k [] = None"
  "rowOf key k (x # xs) = (if key x = k then Some x else rowOf key k xs)"
  by (simp_all add: rowOf_def)

lemma rowOf_SomeD: "rowOf key k t = Some r \<Longrightarrow> r \<in> set t \<and> key r = k"
  by (auto simp: rowOf_def dest: findFirst_SomeD)

lemma rowOf_None_iff: "rowOf key k t = None \<longleftrightarrow> k \<notin> key ` set t"
  by (auto simp: rowOf_def findFirst_None_iff)

lemma rowOf_unique:
  "uniqueKeys key t \<Longrightarrow> r \<in> set t \<Longrightarrow> rowOf key (key r) t = Some r"
  by (induction t) (auto simp: uniqueKeys_def)

lemma unique_row:
  "uniqueKeys key t \<Longrightarrow> q \<in> set t \<Longrightarrow> r \<in> set t \<Longrightarrow> key q = key r \<Longrightarrow> q = r"
  by (auto simp: uniqueKeys_def distinct_map inj_on_def)

lemma rowOf_updateMany:
  assumes "\<And>r. key (f r) = key r"
  shows "rowOf key k (updateMany P f t) =
    map_option (\<lambda>r. if P r then f r else r) (rowOf key k t)"
  using assms by (induction t) auto

lemma rowOf_updateRow_same:
  assumes "\<And>r. key (f r) = key r"
  shows "rowOf key k (updateRow key k f t) = map_option f (rowOf key k t)"
  using assms by (induction t) (auto simp: updateRow_def)

lemma rowOf_updateRow_other:
  assumes "\<And>r. key (f r) = key r" and "k' \<noteq> k"
  shows "rowOf key k' (updateRow key k f t) = rowOf key k' t"
  using assms by (induction t) (auto simp: updateRow_def)

lemma uniqueKeys_updateMany:
  "(\<And>r. key (f r) = key r) \<Longrightarrow> uniqueKeys key (updateMany P f t) = uniqueKeys key t"
  by (simp add: uniqueKeys_def map_updateMany_key)

lemma uniqueKeys_updateRow:
  "(\<And>r. key (f r) = key r) \<Longrightarrow> uniqueKeys key (updateRow key' k f t) = uniqueKeys key t"
  by (simp add: updateRow_def uniqueKeys_updateMany)

lemma uniqueKeys_append1:
  "uniqueKeys key (t @ [r]) \<longleftrightarrow> uniqueKeys key t \<and> rowOf key (key r) t = None"
  by (auto simp: uniqueKeys_def rowOf_None_iff)

lemma rowOf_append1:
  "rowOf key k (t @ [r]) = (case rowOf key k t of Some x \<Rightarrow> Some x
     | None \<Rightarrow> if key r = k then Some r else None)"
  by (induction t) auto

lemma updateRow_missing: "rowOf key k t = None \<Longrightarrow> updateRow key k f t = t"
  by (auto simp: updateRow_def rowOf_None_iff intro!: updateMany_none)

lemma in_set_updateMany:
  "r \<in> set (updateMany P f t) \<longleftrightarrow> (\<exists>q \<in> set t. r = (if P q then f q else q))"
  by (auto simp: set_updateMany)

lemma updateMany_updateMany_id:
  "(\<And>r. P r \<Longrightarrow> P (f r) \<and> g (f r) = r) \<Longrightarrow> updateMany P g (updateMany P f t) = t"
  by (induction t) auto

text \<open>
  \<open>findMany\<close> with an \<open>orderBy\<close>: a stable sort by the key, so rows the order does not tell
  apart keep their insertion order. \<open>firstBy\<close> is \<open>findFirst\<close> with the same \<open>orderBy\<close>.
\<close>

definition findMany :: "('r \<Rightarrow> bool) \<Rightarrow> ('r \<Rightarrow> 'k :: linorder) \<Rightarrow> 'r list \<Rightarrow> 'r list" where
  "findMany P key t = sort_key key (filter P t)"

definition firstBy :: "('r \<Rightarrow> bool) \<Rightarrow> ('r \<Rightarrow> 'k :: linorder) \<Rightarrow> 'r list \<Rightarrow> 'r option" where
  "firstBy P key t = (case findMany P key t of [] \<Rightarrow> None | r # _ \<Rightarrow> Some r)"

lemma sorted_take_drop:
  assumes "sorted (map k L)" "x \<in> set (take n L)" "y \<in> set (drop n L)"
  shows "k x \<le> k y"
proof -
  have "sorted (map k (take n L) @ map k (drop n L))"
    using assms(1) by (simp only: map_append [symmetric] append_take_drop_id)
  with assms(2,3) show ?thesis by (simp add: sorted_append)
qed

lemma set_findMany [simp]: "set (findMany P key t) = {r \<in> set t. P r}"
  by (auto simp: findMany_def)

lemma sorted_findMany: "sorted (map key (findMany P key t))"
  by (simp add: findMany_def)

lemma firstBy_SomeD:
  assumes "firstBy P key t = Some r"
  shows "r \<in> set t" "P r" "\<And>q. q \<in> set t \<Longrightarrow> P q \<Longrightarrow> key r \<le> key q"
proof -
  from assms obtain rs where rs: "findMany P key t = r # rs"
    by (auto simp: firstBy_def split: list.splits)
  have "set (r # rs) = {r \<in> set t. P r}" by (simp only: rs [symmetric] set_findMany)
  then show "r \<in> set t" "P r" by auto
  fix q assume "q \<in> set t" "P q"
  then have "q \<in> set (r # rs)" using rs by (metis (mono_tags) mem_Collect_eq set_findMany)
  moreover have "sorted (map key (r # rs))"
    unfolding rs [symmetric] by (rule sorted_findMany)
  ultimately show "key r \<le> key q" by auto
qed

lemma firstBy_None_iff: "firstBy P key t = None \<longleftrightarrow> (\<forall>r \<in> set t. \<not> P r)"
proof -
  have "findMany P key t = [] \<longleftrightarrow> (\<forall>r \<in> set t. \<not> P r)"
    by (metis (mono_tags, lifting) empty_Collect_eq set_empty set_findMany)
  then show ?thesis by (auto simp: firstBy_def split: list.splits)
qed

text \<open>
  \<open>PaginationDto\<close> and \<open>PaginatedResult\<close> (\<open>common/dto/pagination.dto.ts\<close>): pages are numbered
  from 1 and \<open>validate\<close> keeps both numbers at 1 or more.
\<close>

record PaginationDto =
  pgPage :: nat
  pgLimit :: nat
  pgSearch :: "string option"

record 'r PaginatedResult =
  prItems :: "'r list"
  prPage :: nat
  prLimit :: nat
  prTotal :: nat
  prTotalPages :: nat

definition skip :: "PaginationDto \<Rightarrow> nat" where
  "skip q = (pgPage q - 1) * pgLimit q"

text \<open>\<open>Math.ceil(total / limit)\<close>.\<close>

definition totalPages :: "nat \<Rightarrow> nat \<Rightarrow> nat" where
  "totalPages count limit = (count + limit - 1) div limit"

definition paginate :: "PaginationDto \<Rightarrow> 'r list \<Rightarrow> 'r PaginatedResult" where
  "paginate q rows = \<lparr>prItems = take (pgLimit q) (drop (skip q) rows), prPage = pgPage q,
     prLimit = pgLimit q, prTotal = length rows, prTotalPages = totalPages (length rows) (pgLimit q)\<rparr>"

lemma pages_upto:
  assumes "0 < n"
  shows "concat (map (\<lambda>i. take n (drop (i * n) xs)) [0..<k]) = take (k * n) xs"
proof (induction k)
  case (Suc k)
  have "take (Suc k * n) xs = take (k * n) xs @ take n (drop (k * n) xs)"
    by (simp only: mult_Suc add.commute [of n] take_add)
  with Suc show ?case by simp
qed simp

text \<open>The pages 1 to \<open>totalPages\<close>, one after the other, are all the rows: none lost, none twice.\<close>

lemma all_pages:
  assumes "0 < n"
  shows "concat (map (\<lambda>p. prItems (paginate \<lparr>pgPage = p, pgLimit = n, pgSearch = x\<rparr> rows))
      [1..<totalPages (length rows) n + 1]) = rows"
proof -
  let ?k = "totalPages (length rows) n"
  have "[1..<?k + 1] = map Suc [0..<?k]" by (simp add: map_Suc_upt)
  then have "concat (map (\<lambda>p. prItems (paginate \<lparr>pgPage = p, pgLimit = n, pgSearch = x\<rparr> rows)) [1..<?k + 1])
      = concat (map (\<lambda>i. take n (drop (i * n) rows)) [0..<?k])"
    by (simp add: paginate_def skip_def comp_def)
  also have "\<dots> = take (?k * n) rows" using assms by (rule pages_upto)
  also have "\<dots> = rows"
  proof -
    have "length rows \<le> ?k * n"
    proof -
      define m where "m = length rows + n - 1"
      have "m = m div n * n + m mod n" by simp
      moreover have "m mod n < n" using assms by simp
      moreover have "length rows + n = m + 1" using assms by (simp add: m_def)
      ultimately have "length rows \<le> m div n * n" by linarith
      then show ?thesis by (simp add: totalPages_def m_def)
    qed
    then show ?thesis by simp
  qed
  finally show ?thesis .
qed

text \<open>\<open>[...new Set(xs)]\<close>: first occurrences, in order.\<close>

definition dedup :: "'a list \<Rightarrow> 'a list" where
  "dedup xs = rev (remdups (rev xs))"

lemma set_dedup [simp]: "set (dedup xs) = set xs"
  by (simp add: dedup_def)

lemma distinct_dedup [simp]: "distinct (dedup xs)"
  by (simp add: dedup_def)

text \<open>The JavaScript truthiness of an optional string: neither null, undefined nor empty.\<close>

definition truthy :: "string option \<Rightarrow> bool" where
  "truthy s = (case s of None \<Rightarrow> False | Some t \<Rightarrow> t \<noteq> [])"

lemma truthy_simps [simp]: "truthy None = False" "truthy (Some t) = (t \<noteq> [])"
  by (simp_all add: truthy_def)

section \<open>Number to text\<close>

fun digit :: "nat \<Rightarrow> char" where
  "digit n = char_of (48 + n)"

text \<open>\<open>String(n)\<close> of a non-negative integer, then of any integer.\<close>

fun string_of_nat :: "nat \<Rightarrow> string" where
  "string_of_nat n = (if n < 10 then [digit n] else string_of_nat (n div 10) @ [digit (n mod 10)])"

declare string_of_nat.simps [simp del]

definition string_of_int :: "int \<Rightarrow> string" where
  "string_of_int i = (if i < 0 then ''-'' @ string_of_nat (nat (- i)) else string_of_nat (nat i))"

lemma string_of_nat_not_Nil [simp]: "string_of_nat n \<noteq> []"
  by (subst string_of_nat.simps) simp

text \<open>The number a decimal text reads as.\<close>

definition decimalValue :: "string \<Rightarrow> nat" where
  "decimalValue t = foldl (\<lambda>n c. n * 10 + (of_char c - 48)) 0 t"

lemma decimalValue_string_of_nat: "decimalValue (string_of_nat n) = n"
proof (induction n rule: string_of_nat.induct)
  case (1 n)
  then show ?case
    by (subst string_of_nat.simps) (auto simp: decimalValue_def)
qed

lemma string_of_nat_inj: "string_of_nat m = string_of_nat n \<Longrightarrow> m = n"
  by (metis decimalValue_string_of_nat)

end
