(* ===== verification/Money.thy ===== *)
theory Money
  imports Prelude "HOL-Library.Log_Nat" "HOL-Library.Char_ord"
begin

text \<open>
  Money: the \<open>round2\<close> of \<open>orders/pricing.util.ts\<close>, line pricing and coupon discounts,
  the gateways' minor units (\<open>payments/currency.util.ts\<close>) and the two places where the code
  leaves \<open>Prisma.Decimal\<close> and computes with JavaScript numbers.

  A \<open>Decimal\<close> is an exact rational. A JavaScript number that only carries a decimal from one
  \<open>Decimal\<close> to the next is that decimal (at most 15 significant digits survive the trip
  unchanged). Where the code does binary arithmetic, the sum \<open>subtotal + taxTotal\<close> and the
  product \<open>amount * factor\<close>, the model rounds to 53 bits, and reads a sum back the way
  \<open>new Decimal(number)\<close> does, as the shortest decimal that denotes the same double.
  Overflow and subnormal numbers are outside the range of money and are not modelled.
\<close>

section \<open>Rounding to cents\<close>

text \<open>\<open>toDecimalPlaces(2, ROUND_HALF_UP)\<close>: to the nearest cent, ties away from zero.\<close>

definition round2 :: "decimal \<Rightarrow> decimal" where
  "round2 x = (if 0 \<le> x then of_int \<lfloor>x * 100 + 1 / 2\<rfloor> / 100
               else - (of_int \<lfloor>(- x) * 100 + 1 / 2\<rfloor> / 100))"

text \<open>An amount in whole cents: every stored amount is one, the column being \<open>Decimal(12,2)\<close>.\<close>

definition cents :: "decimal \<Rightarrow> bool" where
  "cents x = (x * 100 \<in> \<int>)"

lemma cents_of_int [simp, intro]: "cents (of_int i)"
  by (simp add: cents_def)

lemma cents_of_int_div [simp, intro]: "cents (of_int i / 100)"
  by (simp add: cents_def)

lemma cents_0 [simp]: "cents 0"
  by (simp add: cents_def)

lemma centsE:
  assumes "cents x"
  obtains i where "x = of_int i / 100"
proof -
  from assms obtain i where "x * 100 = of_int i"
    by (auto simp: cents_def Ints_def)
  then have "x = of_int i / 100" by (simp add: field_simps)
  then show ?thesis by (rule that)
qed

lemma cents_add [intro]: "cents x \<Longrightarrow> cents y \<Longrightarrow> cents (x + y)"
  by (auto simp: cents_def distrib_right)

lemma cents_diff [intro]: "cents x \<Longrightarrow> cents y \<Longrightarrow> cents (x - y)"
  by (auto simp: cents_def left_diff_distrib)

lemma cents_minus [intro]: "cents x \<Longrightarrow> cents (- x)"
  by (auto simp: cents_def)

lemma cents_mult_nat [intro]: "cents x \<Longrightarrow> cents (x * of_nat n)"
proof -
  assume "cents x"
  then have "(x * 100) * of_nat n \<in> \<int>" by (simp add: cents_def)
  then show ?thesis by (simp add: cents_def ac_simps)
qed

lemma cents_round2 [simp, intro]: "cents (round2 x)"
  by (simp add: round2_def cents_minus)

lemma round2_cents: "cents x \<Longrightarrow> round2 x = x"
proof (elim centsE)
  fix i assume x: "x = of_int i / 100"
  have "\<lfloor>of_int j + 1 / 2 :: rat\<rfloor> = j" for j
    by (rule floor_unique) auto
  from this [of i] this [of "- i"] x show "round2 x = x" by (simp add: round2_def)
qed

lemma round2_0 [simp]: "round2 0 = 0"
  by (simp add: round2_cents)

lemma round2_idem [simp]: "round2 (round2 x) = round2 x"
  by (rule round2_cents) simp

lemma round2_error: "\<bar>round2 x - x\<bar> \<le> 1 / 200"
proof -
  have *: "\<bar>of_int \<lfloor>y * 100 + 1 / 2\<rfloor> / 100 - y\<bar> \<le> 1 / 200" for y :: rat
    using floor_correct [of "y * 100 + 1 / 2"] by linarith
  show ?thesis
  proof (cases "0 \<le> x")
    case True
    with * [of x] show ?thesis by (simp add: round2_def)
  next
    case False
    with * [of "- x"] show ?thesis
      by (simp only: round2_def if_False minus_diff_eq abs_minus_commute minus_mult_left)
  qed
qed

lemma round2_mono: "0 \<le> x \<Longrightarrow> x \<le> y \<Longrightarrow> round2 x \<le> round2 y"
proof -
  assume "0 \<le> x" "x \<le> y"
  then have "\<lfloor>x * 100 + 1 / 2\<rfloor> \<le> \<lfloor>y * 100 + 1 / 2\<rfloor>"
    by (intro floor_mono) simp
  with \<open>0 \<le> x\<close> \<open>x \<le> y\<close> show ?thesis by (simp add: round2_def divide_right_mono)
qed

lemma round2_nonneg: "0 \<le> x \<Longrightarrow> 0 \<le> round2 x"
  using round2_mono [of 0 x] by simp

text \<open>A value within half a cent of a whole number of cents rounds to it.\<close>

lemma round2_near:
  assumes "cents c" and "0 \<le> c" and "0 \<le> x" and "\<bar>x - c\<bar> < 1 / 200"
  shows "round2 x = c"
proof -
  from assms(1) obtain i where i: "c = of_int i / 100" by (rule centsE)
  have "\<lfloor>x * 100 + 1 / 2\<rfloor> = i"
    using assms(4) unfolding i by (intro floor_unique) linarith+
  with assms(3) i show ?thesis by (simp add: round2_def)
qed

section \<open>Binary floating point\<close>

text \<open>The exponent of the leading bit of a positive rational.\<close>

definition expo2 :: "rat \<Rightarrow> int" where
  "expo2 x = (let (n, d) = quotient_of x; k = bitlen n - bitlen d
              in if 2 powi k \<le> x then k else k - 1)"

text \<open>Round to the nearest integer, ties to even.\<close>

definition round_even :: "rat \<Rightarrow> int" where
  "round_even x = (let f = \<lfloor>x\<rfloor>; r = x - of_int f
                   in if r < 1 / 2 then f else if 1 / 2 < r then f + 1
                      else if even f then f else f + 1)"

text \<open>The double nearest to a rational: 53 significant bits.\<close>

definition dbl :: "rat \<Rightarrow> rat" where
  "dbl x = (if x = 0 then 0
            else let u = 2 powi (expo2 \<bar>x\<bar> - 52) in of_int (round_even (x / u)) * u)"

text \<open>The shortest decimal that denotes the double \<open>x\<close>, the one nearest to it if several do.\<close>

definition js_decimal :: "rat \<Rightarrow> decimal" where
  "js_decimal x =
     (let cand = (\<lambda>j. of_int (round (x * 10 ^ j)) / 10 ^ j)
      in case List.find (\<lambda>j. dbl (cand j) = x) [0..<25] of
           Some j \<Rightarrow> cand j | None \<Rightarrow> x)"

text \<open>\<open>a + b\<close> on numbers, as the decimal the next \<open>new Decimal\<close> reads.\<close>

definition js_add :: "decimal \<Rightarrow> decimal \<Rightarrow> decimal" where
  "js_add a b = js_decimal (dbl (dbl a + dbl b))"

text \<open>\<open>Math.round(a * f)\<close>: the product is a double, the rounding is half up.\<close>

definition js_round_mult :: "decimal \<Rightarrow> nat \<Rightarrow> int" where
  "js_round_mult a f = \<lfloor>dbl (dbl a * of_nat f) + 1 / 2\<rfloor>"

subsection \<open>Error bounds\<close>

lemma round_even_error: "\<bar>of_int (round_even x) - x\<bar> \<le> 1 / 2"
proof -
  have f: "of_int \<lfloor>x\<rfloor> \<le> x" "x < of_int \<lfloor>x\<rfloor> + 1" by linarith+
  then show ?thesis by (auto simp: round_even_def Let_def)
qed

lemma powi2_pos [simp]: "(0::rat) < 2 powi k"
  by (simp add: zero_less_power_int)

lemma expo2_le: "0 < x \<Longrightarrow> 2 powi (expo2 x) \<le> x"
proof -
  assume pos: "0 < x"
  obtain n d where q: "quotient_of x = (n, d)" by (cases "quotient_of x")
  have d: "0 < d" using quotient_of_denom_pos [OF q] .
  have x: "x = of_int n / of_int d" using quotient_of_div [OF q] .
  with pos d have n: "0 < n" by (simp add: zero_less_divide_iff)
  define a where "a = nat (bitlen n)"
  define b where "b = nat (bitlen d)"
  have "0 < bitlen n" "0 < bitlen d"
    using n d bitlen_nonneg [of n] bitlen_nonneg [of d]
    by (auto simp: bitlen_eq_zero_iff order.order_iff_strict)
  then have bl: "bitlen n = int a" "bitlen d = int b" "0 < a" "0 < b"
    by (auto simp: a_def b_def)
  have "2 ^ nat (int a - 1) \<le> n" "d < 2 ^ nat (int b)"
    using bitlen_bounds [OF n] bitlen_bounds [OF d] bl by auto
  then have "of_int (2 ^ nat (int a - 1)) \<le> (of_int n :: rat)"
      and "(of_int d :: rat) < of_int (2 ^ nat (int b))"
    by (simp_all only: of_int_le_iff of_int_less_iff)
  then have lo: "(2::rat) powi (int a - 1) \<le> of_int n" and hi: "of_int d < (2::rat) powi (int b)"
    using bl by (simp_all add: power_int_def)
  show ?thesis
  proof (cases "2 powi (int a - int b) \<le> x")
    case True
    then show ?thesis by (simp add: expo2_def q bl)
  next
    case False
    have "(2::rat) powi (int a - int b - 1) * of_int d \<le> 2 powi (int a - int b - 1) * 2 powi (int b)"
      using hi by (intro mult_left_mono) auto
    also have "\<dots> = 2 powi (int a - 1)"
      using power_int_add [of "2::rat" "int a - int b - 1" "int b"] by simp
    also have "\<dots> \<le> of_int n" by (rule lo)
    finally have "2 powi (int a - int b - 1) \<le> x"
      using d unfolding x by (subst pos_le_divide_eq) simp_all
    with False show ?thesis by (simp add: expo2_def q bl)
  qed
qed

lemma dbl_0 [simp]: "dbl 0 = 0"
  by (simp add: dbl_def)

lemma dbl_error: "\<bar>dbl x - x\<bar> \<le> \<bar>x\<bar> / 2 ^ 53"
proof (cases "x = 0")
  case True
  then show ?thesis by simp
next
  case False
  define u where "u = (2::rat) powi (expo2 \<bar>x\<bar> - 52)"
  have u: "0 < u" by (simp add: u_def)
  have "u * 2 ^ 52 = 2 powi (expo2 \<bar>x\<bar>)"
    using power_int_add [of "2::rat" "expo2 \<bar>x\<bar> - 52" 52] by (simp add: u_def)
  also have "\<dots> \<le> \<bar>x\<bar>" using False by (intro expo2_le) simp
  finally have le: "u * 2 ^ 52 \<le> \<bar>x\<bar>" .
  have "dbl x - x = (of_int (round_even (x / u)) - x / u) * u"
    using False u by (simp add: dbl_def u_def [symmetric] Let_def left_diff_distrib)
  then have "\<bar>dbl x - x\<bar> = \<bar>of_int (round_even (x / u)) - x / u\<bar> * u"
    using u by (simp add: abs_mult)
  also have "\<dots> \<le> 1 / 2 * u"
    using u round_even_error [of "x / u"] by (intro mult_right_mono) auto
  also have "\<dots> \<le> \<bar>x\<bar> / 2 ^ 53" using le by (simp add: field_simps)
  finally show ?thesis .
qed

lemma dbl_bounds:
  assumes "0 \<le> x"
  shows "x - x / 2 ^ 53 \<le> dbl x" "dbl x \<le> x + x / 2 ^ 53" "0 \<le> dbl x"
proof -
  have e: "\<bar>dbl x - x\<bar> \<le> x / 9007199254740992"
    using dbl_error [of x] assms by simp
  have "x - x / 9007199254740992 \<le> dbl x" using e by linarith
  then show "x - x / 2 ^ 53 \<le> dbl x" by simp
  have "dbl x \<le> x + x / 9007199254740992" using e by linarith
  then show "dbl x \<le> x + x / 2 ^ 53" by simp
  show "0 \<le> dbl x" using e assms by linarith
qed

lemma js_decimal_error: "\<bar>js_decimal x - x\<bar> \<le> \<bar>js_decimal x\<bar> / 2 ^ 53"
proof -
  define cand where "cand = (\<lambda>j. of_int (round (x * 10 ^ j)) / (10::rat) ^ j)"
  show ?thesis
  proof (cases "List.find (\<lambda>j. dbl (cand j) = x) [0..<25]")
    case None
    then show ?thesis by (simp add: js_decimal_def cand_def [symmetric])
  next
    case (Some j)
    then have "dbl (cand j) = x" by (auto simp: find_Some_iff)
    with dbl_error [of "cand j"] Some show ?thesis
      by (simp add: js_decimal_def cand_def [symmetric] abs_minus_commute)
  qed
qed

lemma js_decimal_bounds:
  assumes "0 \<le> x"
  shows "0 \<le> js_decimal x" "\<bar>js_decimal x - x\<bar> \<le> x / 2 ^ 52"
proof -
  have e: "\<bar>js_decimal x - x\<bar> \<le> \<bar>js_decimal x\<bar> / 9007199254740992"
    using js_decimal_error [of x] by simp
  show nn: "0 \<le> js_decimal x"
  proof (rule ccontr)
    assume "\<not> 0 \<le> js_decimal x"
    with e assms show False by linarith
  qed
  have "\<bar>js_decimal x - x\<bar> \<le> x / 4503599627370496"
    using e nn assms by linarith
  then show "\<bar>js_decimal x - x\<bar> \<le> x / 2 ^ 52" by simp
qed

text \<open>Three roundings in a row.\<close>

lemma js_chain:
  fixes c s t y :: rat
  assumes "0 \<le> s" "\<bar>s - c\<bar> \<le> c / 9007199254740992"
    and "0 \<le> t" "\<bar>t - s\<bar> \<le> s / 9007199254740992"
    and "0 \<le> y" "\<bar>y - t\<bar> \<le> t / 4503599627370496"
  shows "\<bar>y - c\<bar> \<le> c / 1125899906842624"
  using assms unfolding abs_le_iff by linarith

lemma js_add_error:
  assumes "0 \<le> a" and "0 \<le> b"
  shows "0 \<le> js_add a b" "\<bar>js_add a b - (a + b)\<bar> \<le> (a + b) / 2 ^ 50"
proof -
  define s where "s = dbl a + dbl b"
  define t where "t = dbl s"
  have ab: "0 \<le> dbl a" "0 \<le> dbl b" "\<bar>dbl a - a\<bar> \<le> a / 9007199254740992"
      "\<bar>dbl b - b\<bar> \<le> b / 9007199254740992"
    using assms dbl_bounds(3) dbl_error [of a] dbl_error [of b] by simp_all
  have s: "0 \<le> s" "\<bar>s - (a + b)\<bar> \<le> (a + b) / 9007199254740992"
    using ab unfolding s_def add_divide_distrib by linarith+
  have t: "0 \<le> t" "\<bar>t - s\<bar> \<le> s / 9007199254740992"
    using dbl_bounds(3) [OF s(1)] dbl_error [of s] s(1) by (simp_all add: t_def)
  have y: "0 \<le> js_decimal t" "\<bar>js_decimal t - t\<bar> \<le> t / 4503599627370496"
    using js_decimal_bounds [OF t(1)] by simp_all
  show "0 \<le> js_add a b" using y by (simp add: js_add_def s_def t_def)
  have "\<bar>js_decimal t - (a + b)\<bar> \<le> (a + b) / 1125899906842624"
    using js_chain [OF s t y] .
  then show "\<bar>js_add a b - (a + b)\<bar> \<le> (a + b) / 2 ^ 50"
    by (simp add: js_add_def s_def t_def)
qed

lemma round2_js_add:
  assumes "cents a" "cents b" "0 \<le> a" "0 \<le> b" "a + b \<le> 10 ^ 12"
  shows "round2 (js_add a b) = a + b"
proof (rule round2_near)
  show "cents (a + b)" using assms(1,2) by (rule cents_add)
  show "0 \<le> a + b" "0 \<le> js_add a b" using assms js_add_error(1) by auto
  have "\<bar>js_add a b - (a + b)\<bar> \<le> (a + b) / 2 ^ 50"
    using assms by (intro js_add_error)
  also have "\<dots> \<le> 10 ^ 12 / 2 ^ 50" using assms(5) by (intro divide_right_mono) auto
  also have "\<dots> < 1 / 200" by simp
  finally show "\<bar>js_add a b - (a + b)\<bar> < 1 / 200" .
qed

lemma js_round_mult_cents:
  assumes "0 \<le> a" and "a \<le> 10 ^ 12" and "f \<le> 100" and "a * of_nat f = of_int i"
  shows "js_round_mult a f = i"
proof -
  define p where "p = dbl a * of_nat f"
  have p: "0 \<le> p" "\<bar>p - of_int i\<bar> \<le> of_int i / 2 ^ 53"
  proof -
    have "\<bar>dbl a * of_nat f - a * of_nat f\<bar> = \<bar>dbl a - a\<bar> * of_nat f"
      by (simp add: left_diff_distrib [symmetric] abs_mult)
    also have "\<dots> \<le> a / 2 ^ 53 * of_nat f"
      using dbl_error [of a] assms(1) by (intro mult_right_mono) auto
    also have "\<dots> = a * of_nat f / 2 ^ 53" by simp
    finally show "\<bar>p - of_int i\<bar> \<le> of_int i / 2 ^ 53"
      using assms(4) by (simp add: p_def)
    show "0 \<le> p" using dbl_bounds(3) [OF assms(1)] by (simp add: p_def)
  qed
  have i: "of_int i \<le> (10::rat) ^ 14"
  proof -
    have "a * of_nat f \<le> 10 ^ 12 * 100"
      using assms by (intro mult_mono) simp_all
    then show ?thesis using assms(4) by simp
  qed
  define r where "r = (of_int i :: rat)"
  have b: "\<bar>dbl p - p\<bar> \<le> p / 9007199254740992" "\<bar>p - r\<bar> \<le> r / 9007199254740992"
      "r \<le> 100000000000000"
    using dbl_error [of p] p i by (simp_all only: r_def abs_of_nonneg) simp_all
  have "\<bar>dbl p - r\<bar> < 1 / 2" using b p(1) by linarith
  then have "\<lfloor>dbl p + 1 / 2\<rfloor> = i" unfolding r_def by (intro floor_unique) linarith+
  then show ?thesis by (simp add: js_round_mult_def p_def)
qed

section \<open>Line pricing and discounts\<close>

datatype DiscountType = PERCENTAGE | FLAT

record TaxLine =
  txName :: string
  txRate :: decimal

text \<open>One row of \<open>taxBreakdown\<close>.\<close>

record TaxAmount =
  taName :: string
  taRate :: decimal
  taAmount :: decimal

record PricedLine =
  plUnitPrice :: decimal
  plQuantity :: nat
  plLineSubtotal :: decimal
  plTaxAmount :: decimal
  plTaxBreakdown :: "TaxAmount list"
  plLineTotal :: decimal

definition priceLineItem :: "decimal \<Rightarrow> nat \<Rightarrow> TaxLine list \<Rightarrow> PricedLine" where
  "priceLineItem unitPrice quantity taxes =
     (let lineSubtotal = round2 (unitPrice * of_nat quantity);
          taxBreakdown = map (\<lambda>tax. \<lparr>taName = txName tax, taRate = txRate tax,
              taAmount = round2 (txRate tax / 100 * lineSubtotal)\<rparr>) taxes;
          taxAmount = round2 (sum_list (map taAmount taxBreakdown))
      in \<lparr>plUnitPrice = unitPrice, plQuantity = quantity, plLineSubtotal = lineSubtotal,
          plTaxAmount = taxAmount, plTaxBreakdown = taxBreakdown,
          plLineTotal = round2 (lineSubtotal + taxAmount)\<rparr>)"

definition applyCouponDiscount :: "decimal \<Rightarrow> DiscountType \<Rightarrow> decimal \<Rightarrow> decimal" where
  "applyCouponDiscount taxedTotal discountType discountValue =
     (let discount = (case discountType of PERCENTAGE \<Rightarrow> taxedTotal / 100 * discountValue
                      | FLAT \<Rightarrow> discountValue)
      in round2 (min discount taxedTotal))"

lemma cents_sum_list: "(\<And>x. x \<in> set xs \<Longrightarrow> cents x) \<Longrightarrow> cents (sum_list xs)"
  by (induction xs) (auto intro: cents_add)

lemma sum_list_rat_nonneg: "(\<And>x. x \<in> set xs \<Longrightarrow> 0 \<le> x) \<Longrightarrow> 0 \<le> sum_list (xs :: rat list)"
  by (induction xs) auto

text \<open>On prices in whole cents no rounding of a line total changes it.\<close>

lemma priceLineItem_exact:
  assumes "cents p"
  shows "plLineSubtotal (priceLineItem p q ts) = p * of_nat q"
    and "plTaxAmount (priceLineItem p q ts) =
      sum_list (map (\<lambda>t. round2 (txRate t / 100 * (p * of_nat q))) ts)"
    and "plLineTotal (priceLineItem p q ts) =
      plLineSubtotal (priceLineItem p q ts) + plTaxAmount (priceLineItem p q ts)"
proof -
  have s: "round2 (p * of_nat q) = p * of_nat q"
    using assms by (intro round2_cents cents_mult_nat)
  then show 1: "plLineSubtotal (priceLineItem p q ts) = p * of_nat q"
    by (simp add: priceLineItem_def Let_def)
  have c: "cents (sum_list (map (\<lambda>t. round2 (txRate t / 100 * (p * of_nat q))) ts))"
    by (rule cents_sum_list) auto
  then show 2: "plTaxAmount (priceLineItem p q ts) =
      sum_list (map (\<lambda>t. round2 (txRate t / 100 * (p * of_nat q))) ts)"
    by (simp add: priceLineItem_def Let_def s comp_def round2_cents)
  have "cents (p * of_nat q)" using assms by (rule cents_mult_nat)
  with c show "plLineTotal (priceLineItem p q ts) =
      plLineSubtotal (priceLineItem p q ts) + plTaxAmount (priceLineItem p q ts)"
    by (simp add: priceLineItem_def Let_def s comp_def round2_cents cents_add)
qed

lemma priceLineItem_nonneg:
  assumes "0 \<le> p" and "\<And>t. t \<in> set ts \<Longrightarrow> 0 \<le> txRate t"
  shows "0 \<le> plLineSubtotal (priceLineItem p q ts)" "0 \<le> plTaxAmount (priceLineItem p q ts)"
proof -
  show s: "0 \<le> plLineSubtotal (priceLineItem p q ts)"
    using assms(1) by (simp add: priceLineItem_def Let_def round2_nonneg)
  have "0 \<le> sum_list (map (\<lambda>t. round2 (txRate t / 100 * round2 (p * of_nat q))) ts)"
    using assms by (intro sum_list_rat_nonneg) (auto intro!: round2_nonneg mult_nonneg_nonneg)
  then show "0 \<le> plTaxAmount (priceLineItem p q ts)"
    by (simp add: priceLineItem_def Let_def comp_def round2_nonneg)
qed

lemma cents_priceLineItem [simp, intro]:
  "cents (plLineSubtotal (priceLineItem p q ts))" "cents (plTaxAmount (priceLineItem p q ts))"
  by (simp_all add: priceLineItem_def Let_def)

lemma applyCouponDiscount_cents [simp, intro]: "cents (applyCouponDiscount t k v)"
  by (simp add: applyCouponDiscount_def Let_def)

text \<open>A discount never exceeds the amount it is taken from, nor is it negative.\<close>

lemma applyCouponDiscount_bounds:
  assumes "cents t" and "0 \<le> t" and "0 \<le> v"
  shows "0 \<le> applyCouponDiscount t k v" "applyCouponDiscount t k v \<le> t"
proof -
  define d where "d = (case k of PERCENTAGE \<Rightarrow> t / 100 * v | FLAT \<Rightarrow> v)"
  have d: "0 \<le> d" using assms by (cases k) (auto simp: d_def)
  show "0 \<le> applyCouponDiscount t k v"
    using assms d by (simp add: applyCouponDiscount_def Let_def d_def round2_nonneg)
  have "round2 (min d t) \<le> round2 t"
    using d assms by (intro round2_mono) auto
  then show "applyCouponDiscount t k v \<le> t"
    using assms(1) by (simp add: applyCouponDiscount_def Let_def d_def round2_cents)
qed

section \<open>Minor units\<close>

definition ZERO_DECIMAL_CURRENCIES :: "string list" where
  "ZERO_DECIMAL_CURRENCIES =
     [''BIF'', ''CLP'', ''DJF'', ''GNF'', ''JPY'', ''KMF'', ''KRW'', ''MGA'', ''PYG'', ''RWF'',
      ''UGX'', ''VND'', ''VUV'', ''XAF'', ''XOF'', ''XPF'']"

text \<open>\<open>toUpperCase\<close> and \<open>toLowerCase\<close> on ASCII letters, which is what currency codes are made of.\<close>

definition upper :: "string \<Rightarrow> string" where
  "upper = map (\<lambda>c. if CHR ''a'' \<le> c \<and> c \<le> CHR ''z'' then char_of (of_char c - 32 :: nat) else c)"

definition lower :: "string \<Rightarrow> string" where
  "lower = map (\<lambda>c. if CHR ''A'' \<le> c \<and> c \<le> CHR ''Z'' then char_of (of_char c + 32 :: nat) else c)"

definition minorFactor :: "string \<Rightarrow> nat" where
  "minorFactor currency = (if upper currency \<in> set ZERO_DECIMAL_CURRENCIES then 1 else 100)"

definition toMinorUnits :: "decimal \<Rightarrow> string \<Rightarrow> int" where
  "toMinorUnits amount currency = js_round_mult amount (minorFactor currency)"

lemma minorFactor_bounds: "0 < minorFactor c" "minorFactor c \<le> 100"
  by (simp_all add: minorFactor_def)

text \<open>On an amount the currency can express, the gateway is asked for exactly that amount.\<close>

lemma toMinorUnits_whole:
  assumes "0 \<le> a" "a \<le> 10 ^ 12" "a * of_nat (minorFactor c) = of_int i"
  shows "toMinorUnits a c = i"
  unfolding toMinorUnits_def
  using assms by (intro js_round_mult_cents) (simp_all add: minorFactor_bounds)

lemma toMinorUnits_cents:
  assumes "cents a" "0 \<le> a" "a \<le> 10 ^ 12" "upper c \<notin> set ZERO_DECIMAL_CURRENCIES"
  shows "of_int (toMinorUnits a c) = a * 100"
proof -
  from assms(1) obtain i where i: "a = of_int i / 100" by (rule centsE)
  with assms have "toMinorUnits a c = i"
    by (intro toMinorUnits_whole) (simp_all add: minorFactor_def)
  with i show ?thesis by simp
qed

section \<open>Showing an amount\<close>

text \<open>\<open>toFixed(2)\<close> of a value in whole cents: the integer part, a point and two digits.\<close>

definition toFixed2 :: "decimal \<Rightarrow> string" where
  "toFixed2 x = (let c = \<lfloor>\<bar>round2 x\<bar> * 100\<rfloor>; n = nat c
     in (if round2 x < 0 then ''-'' else []) @ string_of_nat (n div 100) @ ''.''
        @ [digit (n div 10 mod 10), digit (n mod 10)])"

definition formatTenantMoney :: "decimal \<Rightarrow> string \<Rightarrow> string \<Rightarrow> string" where
  "formatTenantMoney amount symbol position =
     (if position = ''post'' then toFixed2 amount @ symbol else symbol @ toFixed2 amount)"

end
