(* ===== verification/Schema.thy ===== *)
theory Schema
  imports Money
begin

text \<open>
  The data model: the enums and tables of \<open>prisma/schema.prisma\<close> the modelled operations
  read or write, one record per table with a field per column they use, the whole database as one
  record of tables, and the effects that leave the process (queue jobs, e-mails, provider calls,
  file deletions, live order events) as a log in the order they were issued.

  A relation that the code always loads with its row is nested in it: the lines of an order in
  the order, the tax rates of a product in the product. Columns of type \<open>Json\<close> are values
  of the type \<open>json\<close>. Everything the process takes from outside (the clock, fresh random
  values, the configuration, the answers of payment providers) is a field of the record \<open>env\<close>.
\<close>

section \<open>Enums\<close>

datatype GlobalRole = SUPER_ADMIN | USER

datatype TenantMemberRole = OWNER | STAFF

datatype CatalogType = PHYSICAL | DIGITAL

datatype PaymentProvider = STRIPE | MERCADOPAGO | ZELLE | PAYPAL

datatype FulfillmentMethod = WHATSAPP | TELEGRAM | STRIPE | MERCADOPAGO | ZELLE | PAYPAL

datatype TenantStatus = PENDING | ACTIVE | SUSPENDED | BANNED | TRIAL_EXPIRED

datatype SubscriptionStatus = ACTIVE | PENDING_UPGRADE | EXPIRED | CANCELLED

datatype PlanDuration = MONTHLY | YEARLY | LIFETIME

datatype BillingProvider = MANUAL | STRIPE

datatype DigitalDeliveryStatus = PENDING | SENT | REVOKED

datatype PaymentStatus = PENDING | PAID | FAILED | REFUNDED | DISPUTED

datatype OrderStatus = PENDING | CONFIRMED | PROCESSING | COMPLETED | CANCELLED | REFUNDED

text \<open>The text of an enum value, as the messages and the live events print it.\<close>

fun status_text :: "OrderStatus \<Rightarrow> string" where
  "status_text OrderStatus.PENDING = ''PENDING''"
| "status_text OrderStatus.CONFIRMED = ''CONFIRMED''"
| "status_text OrderStatus.PROCESSING = ''PROCESSING''"
| "status_text OrderStatus.COMPLETED = ''COMPLETED''"
| "status_text OrderStatus.CANCELLED = ''CANCELLED''"
| "status_text OrderStatus.REFUNDED = ''REFUNDED''"

fun payment_text :: "PaymentStatus \<Rightarrow> string" where
  "payment_text PaymentStatus.PENDING = ''PENDING''"
| "payment_text PaymentStatus.PAID = ''PAID''"
| "payment_text PaymentStatus.FAILED = ''FAILED''"
| "payment_text PaymentStatus.REFUNDED = ''REFUNDED''"
| "payment_text PaymentStatus.DISPUTED = ''DISPUTED''"

fun method_text :: "FulfillmentMethod \<Rightarrow> string" where
  "method_text FulfillmentMethod.WHATSAPP = ''WHATSAPP''"
| "method_text FulfillmentMethod.TELEGRAM = ''TELEGRAM''"
| "method_text FulfillmentMethod.STRIPE = ''STRIPE''"
| "method_text FulfillmentMethod.MERCADOPAGO = ''MERCADOPAGO''"
| "method_text FulfillmentMethod.ZELLE = ''ZELLE''"
| "method_text FulfillmentMethod.PAYPAL = ''PAYPAL''"

section \<open>JSON columns\<close>

datatype json =
    JNull
  | JBool bool
  | JNum rat
  | JStr string
  | JArr "json list"
  | JObj "(string \<times> json) list"

text \<open>The spread \<open>{ ...a, ...b }\<close>: the fields of \<open>b\<close> over those of \<open>a\<close>, in JavaScript's key order.\<close>

definition spread :: "(string \<times> json) list \<Rightarrow> (string \<times> json) list \<Rightarrow> (string \<times> json) list" where
  "spread a b = map (\<lambda>(k, v). (k, case map_of b k of Some w \<Rightarrow> w | None \<Rightarrow> v)) a
                @ filter (\<lambda>(k, _). k \<notin> fst ` set a) b"

section \<open>Catalog\<close>

record productTax =
  ptId :: uuid
  ptTenantId :: uuid
  ptName :: string
  ptRate :: decimal

definition taxLine :: "productTax \<Rightarrow> TaxLine" where
  "taxLine t = \<lparr>txName = ptName t, txRate = ptRate t\<rparr>"

record productCategory =
  pcId :: uuid
  pcTenantId :: uuid
  pcName :: string
  pcTemplateId :: "uuid option"

record categoryTemplate =
  ctId :: uuid
  ctName :: string
  ctSlug :: string
  ctParentId :: "uuid option"
  ctSortOrder :: int
  ctIsActive :: bool

record product =
  pId :: uuid
  pTenantId :: uuid
  pName :: string
  pSku :: "string option"
  pDescription :: "string option"
  pPrice :: decimal
  pCompareAtPrice :: "decimal option"
  pCost :: "decimal option"
  pQuantity :: int
  pHasVariants :: bool
  pIsActive :: bool
  pIsPublished :: bool
  pAttributes :: json
  pTaxes :: "productTax list"
  pCategories :: "uuid list" \<comment> \<open>the ids of its categories\<close>
  pCreatedAt :: time

record variant =
  vId :: uuid
  vTenantId :: uuid
  vProductId :: uuid
  vName :: string
  vSku :: "string option"
  vPrice :: decimal
  vCost :: "decimal option"
  vQuantity :: int
  vLocationId :: "uuid option"

record productImage =
  imId :: uuid
  imTenantId :: uuid
  imProductId :: uuid
  imUrl :: string
  imIsCover :: bool
  imSortOrder :: int

record location =
  loId :: uuid
  loTenantId :: uuid
  loName :: string
  loAddress :: "string option"
  loCity :: "string option"
  loState :: "string option"
  loZipcode :: "string option"
  loCountry :: "string option"

record coupon =
  cpId :: uuid
  cpTenantId :: uuid
  cpCode :: string
  cpName :: string
  cpDiscountType :: DiscountType
  cpDiscountValue :: decimal
  cpUsageLimit :: "int option"
  cpUsageCount :: int
  cpExpiresAt :: "time option"
  cpIsActive :: bool
  cpCreatedAt :: time

record shipping =
  shId :: uuid
  shTenantId :: uuid
  shLocationId :: "uuid option"
  shName :: string
  shCost :: decimal
  shIsActive :: bool

section \<open>Orders\<close>

record orderItem =
  iId :: uuid
  iProductId :: "uuid option"
  iProductName :: string
  iVariantId :: "uuid option"
  iVariantName :: "string option"
  iSku :: "string option"
  iUnitPrice :: decimal
  iQuantity :: nat
  iTaxAmount :: decimal
  iLineTotal :: decimal
  iTaxBreakdown :: "TaxAmount list"

record order =
  oId :: uuid
  oTenantId :: uuid
  oOrderNumber :: string
  oCustomerId :: "uuid option"
  oCustomerName :: string
  oCustomerEmail :: "string option"
  oCustomerPhone :: "string option"
  oSessionId :: "uuid option"
  oStatus :: OrderStatus
  oPaymentStatus :: PaymentStatus
  oFulfillmentMethod :: FulfillmentMethod
  oCurrency :: string
  oSubtotal :: decimal
  oTaxTotal :: decimal
  oDiscountTotal :: decimal
  oShippingTotal :: decimal
  oGrandTotal :: decimal
  oCouponId :: "uuid option"
  oShippingId :: "uuid option"
  oShippingAddress :: "json option"
  oHiddenAt :: "time option"
  oFulfillmentMessage :: "string option"
  oStripePaymentIntentId :: "string option"
  oStripeCheckoutSessionId :: "string option"
  oMercadoPagoPreferenceId :: "string option"
  oMercadoPagoPaymentId :: "string option"
  oPaypalOrderId :: "string option"
  oPaypalCaptureId :: "string option"
  oPaymentProofUrl :: "string option"
  oPaymentReference :: "string option"
  oCreatedAt :: time
  oItems :: "orderItem list"

section \<open>Digital products\<close>

record digitalAsset =
  daId :: uuid
  daTenantId :: uuid
  daProductId :: uuid
  daLabel :: string
  daFileName :: string
  daStorageKey :: string
  daContentType :: string
  daSizeBytes :: nat
  daSortOrder :: nat
  daCreatedAt :: time

record digitalDelivery =
  ddId :: uuid
  ddTenantId :: uuid
  ddOrderId :: uuid
  ddStatus :: DigitalDeliveryStatus
  ddEmailAttempts :: nat
  ddLastError :: "string option"
  ddSentAt :: "time option"
  ddRevokedAt :: "time option"
  ddRevokedReason :: "string option"
  ddUpdatedAt :: time

record downloadGrant =
  dgId :: uuid
  dgTenantId :: uuid
  dgDeliveryId :: uuid
  dgAssetId :: uuid
  dgTokenHash :: string
  dgExpiresAt :: time
  dgMaxDownloads :: nat
  dgDownloadCount :: nat
  dgRevokedAt :: "time option"

record priceSchedule =
  psId :: uuid
  psTenantId :: uuid
  psProductId :: uuid
  psPrice :: decimal
  psEffectiveFrom :: time
  psAppliedAt :: "time option"

section \<open>Tenants, plans and subscriptions\<close>

text \<open>The columns of a store its page shows and its own admins edit, and its mail server.\<close>

record storePage =
  pgTagline :: "string option"
  pgAbout :: "string option"
  pgTermsOfSaleContent :: "string option"
  pgShippingPolicyContent :: "string option"
  pgReturnPolicyContent :: "string option"
  pgPrivacyPolicyContent :: "string option"
  pgLogoUrl :: "string option"
  pgInvoiceLogoUrl :: "string option"
  pgBannerUrl :: "string option"
  pgTheme :: string
  pgSocialLinks :: json
  pgTrustBadges :: json
  pgSettings :: json

record smtpSettings =
  smEnabled :: bool
  smHost :: "string option"
  smPort :: "int option"
  smUser :: "string option"
  smPassword :: "string option" \<comment> \<open>encrypted\<close>
  smFrom :: "string option"

record tenant =
  tId :: uuid
  tOwnerId :: uuid
  tName :: string
  tSlug :: string
  tSubdomain :: "string option"
  tCustomDomain :: "string option"
  tCurrency :: string
  tCurrencySymbol :: string
  tCurrencySymbolPosition :: string
  tLocale :: string
  tTimezone :: string
  tTracksInventory :: bool
  tCatalogType :: CatalogType
  tWhatsappEnabled :: bool
  tWhatsappNumber :: "string option"
  tTelegramEnabled :: bool
  tTelegramBotToken :: "string option"
  tTelegramChatId :: "string option"
  tOrderMessageTemplate :: string
  tItemLineTemplate :: string
  tStatus :: TenantStatus
  tIsActive :: bool
  tLimitsOverride :: "json option"
  tDeletedAt :: "time option"
  tCreatedAt :: time
  tPage :: storePage
  tSmtp :: smtpSettings
  tAdminMetadata :: json
  tCommissionRate :: "decimal option"

text \<open>The administrators' trail on a store.\<close>

record tenantNote =
  tnId :: uuid
  tnTenantId :: uuid
  tnAuthorId :: uuid
  tnBody :: string
  tnCreatedAt :: time

record tenantStatusHistory =
  thId :: uuid
  thTenantId :: uuid
  thFromStatus :: TenantStatus
  thToStatus :: TenantStatus
  thReason :: string
  thChangedById :: uuid
  thIpAddress :: "string option"
  thUserAgent :: "string option"
  thCreatedAt :: time

record tenantImpersonationLog =
  tlId :: uuid
  tlTenantId :: uuid
  tlAdminId :: uuid
  tlReason :: "string option"
  tlIpAddress :: "string option"
  tlUserAgent :: "string option"
  tlStartedAt :: time
  tlExpiresAt :: time

record paymentSetting =
  pmTenantId :: uuid
  pmProvider :: PaymentProvider
  pmEncrypted :: "string option" \<comment> \<open>\<open>credentials.encrypted\<close>\<close>
  pmIsEnabled :: bool

record plan =
  plId :: uuid
  plName :: string
  plPrice :: decimal
  plDuration :: PlanDuration
  plMaxStores :: int
  plMaxProducts :: int
  plFulfillmentMethods :: "FulfillmentMethod list"
  plIsActive :: bool
  plCreatedAt :: time

record subscription =
  suId :: uuid
  suTenantId :: uuid
  suPlanId :: uuid
  suRequestedPlanId :: "uuid option"
  suStatus :: SubscriptionStatus
  suStartedAt :: time
  suExpiresAt :: "time option"
  suCreatedAt :: time
  suRequestedPaymentReference :: "string option"
  suBillingProvider :: BillingProvider
  suStripeCustomerId :: "string option"
  suStripeSubscriptionId :: "string option"
  suCancelAtPeriodEnd :: bool
  suExpiryNoticesSent :: "string list"

record user =
  uId :: uuid
  uEmail :: string
  uPasswordHash :: string
  uName :: string
  uGlobalRole :: GlobalRole
  uTwoFactorEnabled :: bool
  uTotpSecret :: "string option"
  uIsActive :: bool

record tenantMember =
  tmId :: uuid
  tmTenantId :: uuid
  tmUserId :: uuid
  tmRole :: TenantMemberRole
  tmPermissions :: "string list"
  tmIsActive :: bool
  tmCreatedAt :: time

text \<open>The text of an e-mail, of a store or (without a store) of the platform.\<close>

record emailTemplate =
  etId :: uuid
  etTenantId :: "uuid option"
  etKey :: string
  etLocale :: string
  etSubject :: string
  etBody :: string
  etIsActive :: bool

record platformSetting =
  gsId :: string
  gsDefaultCommissionRate :: decimal
  gsSmtp :: smtpSettings

record visit =
  viId :: uuid
  viTenantId :: uuid
  viSessionId :: "uuid option"
  viPath :: string
  viIp :: "string option"
  viUserAgent :: "string option"
  viReferrer :: "string option"
  viCreatedAt :: time

text \<open>An audit row names its actor and its tenant without a foreign key.\<close>

record auditLog =
  alId :: uuid
  alActorId :: "uuid option"
  alActorEmail :: "string option"
  alActorRole :: "string option"
  alAction :: string
  alEntityType :: string
  alEntityId :: "string option"
  alTenantId :: "uuid option"
  alMetadata :: json
  alIpAddress :: "string option"
  alUserAgent :: "string option"
  alCreatedAt :: time

section \<open>Effects\<close>

text \<open>
  What leaves the process, oldest first. An effect registered with \<open>afterCommit\<close>, and every
  effect of a handler that returns, reaches the log; a handler that throws returns no state, so
  its effects are dropped with its writes.
\<close>

datatype orderEventType = order_created | order_status_updated

datatype effect =
    InvoiceJob uuid uuid \<comment> \<open>tenant, order\<close>
  | EmailJob string "uuid option" string string "(string \<times> string) list" bool
      \<comment> \<open>template key, tenant, locale, recipient, variables, \<open>viaPlatform\<close>\<close>
  | TelegramJob uuid uuid string \<comment> \<open>tenant, order, message\<close>
  | OrderEvt uuid orderEventType uuid string string decimal string OrderStatus
      \<comment> \<open>tenant, type, id, orderNumber, customerName, grandTotal, currency, status\<close>
  | DigitalSend uuid bool \<comment> \<open>delivery, resend\<close>
  | RefundCall PaymentProvider string \<comment> \<open>provider, payment refunded\<close>
  | CaptureCall string \<comment> \<open>PayPal order captured\<close>
  | ExpireSession string
  | DeleteFile string uuid \<comment> \<open>url, tenant\<close>
  | PutObject string \<comment> \<open>storage key\<close>
  | RemoveObject string \<comment> \<open>storage key\<close>
  | CancelStripeSubscription string
  | SetCancelAtPeriodEnd string bool

section \<open>The database\<close>

record db =
  tenants :: "tenant list"
  products :: "product list"
  variants :: "variant list"
  coupons :: "coupon list"
  shippings :: "shipping list"
  orders :: "order list"
  paymentSettings :: "paymentSetting list"
  assets :: "digitalAsset list"
  deliveries :: "digitalDelivery list"
  grants :: "downloadGrant list"
  schedules :: "priceSchedule list"
  plans :: "plan list"
  subscriptions :: "subscription list"
  users :: "user list"
  members :: "tenantMember list"
  taxTable :: "productTax list"
  categoryTable :: "productCategory list"
  categoryTemplates :: "categoryTemplate list"
  imageTable :: "productImage list"
  locations :: "location list"
  tenantNotes :: "tenantNote list"
  statusChanges :: "tenantStatusHistory list"
  impersonationLogs :: "tenantImpersonationLog list"
  emailTemplates :: "emailTemplate list"
  platformSettings :: "platformSetting list"
  visits :: "visit list"
  auditLogs :: "auditLog list"
  outbox :: "effect list"

definition emit :: "effect \<Rightarrow> db \<Rightarrow> db" where
  "emit e s = s\<lparr>outbox := outbox s @ [e]\<rparr>"

definition emits :: "effect list \<Rightarrow> db \<Rightarrow> db" where
  "emits es s = s\<lparr>outbox := outbox s @ es\<rparr>"

lemma outbox_emit [simp]: "outbox (emit e s) = outbox s @ [e]"
  by (simp add: emit_def)

lemma outbox_emits [simp]: "outbox (emits es s) = outbox s @ es"
  by (simp add: emits_def)

lemma emit_tables [simp]:
  "tenants (emit e s) = tenants s" "products (emit e s) = products s"
  "variants (emit e s) = variants s" "coupons (emit e s) = coupons s"
  "shippings (emit e s) = shippings s" "orders (emit e s) = orders s"
  "paymentSettings (emit e s) = paymentSettings s" "assets (emit e s) = assets s"
  "deliveries (emit e s) = deliveries s" "grants (emit e s) = grants s"
  "schedules (emit e s) = schedules s" "plans (emit e s) = plans s"
  "subscriptions (emit e s) = subscriptions s" "users (emit e s) = users s"
  "members (emit e s) = members s" "taxTable (emit e s) = taxTable s"
  "categoryTable (emit e s) = categoryTable s" "categoryTemplates (emit e s) = categoryTemplates s"
  "imageTable (emit e s) = imageTable s" "locations (emit e s) = locations s"
  "tenantNotes (emit e s) = tenantNotes s" "statusChanges (emit e s) = statusChanges s"
  "impersonationLogs (emit e s) = impersonationLogs s"
  "emailTemplates (emit e s) = emailTemplates s" "platformSettings (emit e s) = platformSettings s"
  "visits (emit e s) = visits s" "auditLogs (emit e s) = auditLogs s"
  by (simp_all add: emit_def)

lemma emits_tables [simp]:
  "tenants (emits es s) = tenants s" "products (emits es s) = products s"
  "variants (emits es s) = variants s" "coupons (emits es s) = coupons s"
  "shippings (emits es s) = shippings s" "orders (emits es s) = orders s"
  "paymentSettings (emits es s) = paymentSettings s" "assets (emits es s) = assets s"
  "deliveries (emits es s) = deliveries s" "grants (emits es s) = grants s"
  "schedules (emits es s) = schedules s" "plans (emits es s) = plans s"
  "subscriptions (emits es s) = subscriptions s" "users (emits es s) = users s"
  "members (emits es s) = members s" "taxTable (emits es s) = taxTable s"
  "categoryTable (emits es s) = categoryTable s" "categoryTemplates (emits es s) = categoryTemplates s"
  "imageTable (emits es s) = imageTable s" "locations (emits es s) = locations s"
  "tenantNotes (emits es s) = tenantNotes s" "statusChanges (emits es s) = statusChanges s"
  "impersonationLogs (emits es s) = impersonationLogs s"
  "emailTemplates (emits es s) = emailTemplates s" "platformSettings (emits es s) = platformSettings s"
  "visits (emits es s) = visits s" "auditLogs (emits es s) = auditLogs s"
  by (simp_all add: emits_def)

section \<open>What the process takes from outside\<close>

text \<open>What \<open>new URL(raw)\<close> yields, of which the code reads three parts; it throws for \<open>None\<close>.\<close>

record url =
  urlProtocol :: string
  urlOrigin :: string
  urlHostname :: string

record env =
  eNow :: time
  eFresh :: "nat \<Rightarrow> uuid" \<comment> \<open>the ids the database generates for the rows of one request\<close>
  eToken :: "nat \<Rightarrow> string" \<comment> \<open>random tokens\<close>
  eHash :: "string \<Rightarrow> string" \<comment> \<open>SHA-256\<close>
  eOrderNumber :: string \<comment> \<open>the random order number\<close>
  eEncrypt :: "string \<Rightarrow> string" \<comment> \<open>\<open>encryptSecret\<close> with the key of the application\<close>
  eDecryptSecret :: "string \<Rightarrow> string option" \<comment> \<open>\<open>decryptSecret\<close>, nothing when it throws\<close>
  eDecrypt :: "string \<Rightarrow> (string \<times> string) list option"
      \<comment> \<open>\<open>JSON.parse(decryptSecret(...))\<close>, nothing when it throws\<close>
  eParseUrl :: "string \<Rightarrow> url option"
  eInvoiceExists :: "uuid \<Rightarrow> uuid \<Rightarrow> bool" \<comment> \<open>the invoice file of a tenant's order\<close>
  eRefundError :: "PaymentProvider \<Rightarrow> string \<Rightarrow> string option"
      \<comment> \<open>the provider's error for the refund of a payment, if it fails\<close>
  ePublicWebUrl :: "string option"
  eCorsOrigins :: "string list"
  eRootDomain :: "string option"
  eFormatDate :: "string \<Rightarrow> string \<Rightarrow> time \<Rightarrow> string"
      \<comment> \<open>\<open>Intl.DateTimeFormat\<close> of a locale and a time zone\<close>
  eLinkTtlDays :: nat
  eMaxDownloads :: nat
  eMaxFileMb :: nat

end
