(* ===== verification/Calendar.thy ===== *)
theory Calendar
  imports Prelude
begin

text \<open>
  The proleptic Gregorian calendar of JavaScript's \<open>Date\<close>, in UTC (the container sets no
  time zone): the day number of a year's first day, the year, month and day of a time value, and
  the two mutators the subscription code uses, \<open>setMonth\<close> and \<open>setFullYear\<close>, which let
  an impossible date overflow into the next month.
\<close>

section \<open>Days and years\<close>

definition msPerDay :: int where
  "msPerDay = 86400000"

definition dayOf :: "time \<Rightarrow> int" where
  "dayOf t = t div msPerDay"

definition timeWithinDay :: "time \<Rightarrow> int" where
  "timeWithinDay t = t mod msPerDay"

text \<open>The day number of the first of January of a year (day 0 is 1970-01-01).\<close>

definition dayFromYear :: "int \<Rightarrow> int" where
  "dayFromYear y = 365 * (y - 1970) + (y - 1969) div 4 - (y - 1901) div 100 + (y - 1601) div 400"

definition isLeap :: "int \<Rightarrow> bool" where
  "isLeap y = (y mod 4 = 0 \<and> (y mod 100 \<noteq> 0 \<or> y mod 400 = 0))"

definition daysInYear :: "int \<Rightarrow> int" where
  "daysInYear y = (if isLeap y then 366 else 365)"

lemma div_succ: "0 < k \<Longrightarrow> (a + 1) div k = a div k + (if (a + 1) mod k = 0 then 1 else (0 :: int))"
proof -
  assume k: "0 < k"
  have a: "a = k * (a div k) + a mod k" by simp
  have m: "0 \<le> a mod k" "a mod k < k" using k by simp_all
  show ?thesis
  proof (cases "a mod k = k - 1")
    case True
    with a have "a + 1 = k * (a div k + 1)" by (simp add: algebra_simps)
    then show ?thesis using k by simp
  next
    case False
    have e: "a + 1 = k * (a div k) + (a mod k + 1)" using a by simp
    have r: "0 \<le> a mod k + 1" "a mod k + 1 < k" using m False by simp_all
    have "(a + 1) div k = a div k" "(a + 1) mod k = a mod k + 1"
      using e r k by (metis div_mult_self4 div_pos_pos_trivial add_0 order_less_irrefl add.commute)
        (metis e r mod_mult_self4 mod_pos_pos_trivial)
    then show ?thesis using m by simp
  qed
qed

lemma mod_shift: "(y - k * c) mod k = y mod (k :: int)"
  by (metis mod_mult_self2 diff_conv_add_uminus mult_minus_right)

lemma div_shift:
  fixes k n c y :: int
  assumes "0 < k" "n = k * c + 1"
  shows "(y + 1 - n) div k = (y - n) div k + (if y mod k = 0 then 1 else 0)"
proof -
  have "(y - n + 1) mod k = y mod k"
    using mod_shift [of y k c] assms(2) by (simp only: diff_add_eq diff_diff_eq2 [symmetric]) simp
  moreover have "y + 1 - n = y - n + 1" by simp
  ultimately show ?thesis using div_succ [OF assms(1), of "y - n"] by metis
qed

lemma leap_count:
  "(R \<Longrightarrow> Q) \<Longrightarrow> (Q \<Longrightarrow> P) \<Longrightarrow>
    (if P \<and> (\<not> Q \<or> R) then 366 else (365 :: int))
      = 365 + (if P then 1 else 0) - (if Q then 1 else 0) + (if R then 1 else 0)"
  by (cases P; cases Q; cases R) simp_all

lemma mod0_trans: "k dvd l \<Longrightarrow> y mod l = 0 \<Longrightarrow> y mod k = (0 :: int)"
  by (metis dvd_trans mod_eq_0_iff_dvd)

lemma regroup: "n + 365 + (a + p) - (b + q) + (c + r) = n + a - b + c + (365 + p - q + r)"
  for n :: int
  by simp

lemma dayFromYear_Suc: "dayFromYear (y + 1) = dayFromYear y + daysInYear y"
proof -
  have 4: "(y + 1 - 1969) div 4 = (y - 1969) div 4 + (if y mod 4 = 0 then 1 else 0)"
    by (rule div_shift [of 4 1969 492]) simp_all
  have 100: "(y + 1 - 1901) div 100 = (y - 1901) div 100 + (if y mod 100 = 0 then 1 else 0)"
    by (rule div_shift [of 100 1901 19]) simp_all
  have 400: "(y + 1 - 1601) div 400 = (y - 1601) div 400 + (if y mod 400 = 0 then 1 else 0)"
    by (rule div_shift [of 400 1601 4]) simp_all
  have e: "dayFromYear (y + 1) = 365 * (y - 1970) + 365 + (y + 1 - 1969) div 4
      - (y + 1 - 1901) div 100 + (y + 1 - 1601) div 400"
    by (simp add: dayFromYear_def)
  have "y mod 400 = 0 \<Longrightarrow> y mod 100 = 0" by (rule mod0_trans [of _ 400]) simp_all
  moreover have "y mod 100 = 0 \<Longrightarrow> y mod 4 = 0" by (rule mod0_trans [of _ 100]) simp_all
  ultimately have l: "daysInYear y = 365 + (if y mod 4 = 0 then 1 else 0)
      - (if y mod 100 = 0 then 1 else 0) + (if y mod 400 = 0 then 1 else 0)"
    unfolding daysInYear_def isLeap_def by (rule leap_count)
  show ?thesis
    using e unfolding 4 100 400 l dayFromYear_def [of y] by (simp only: regroup)
qed

text \<open>The year of a day: a guess by the mean length of a year, corrected by at most one.\<close>

definition yearFromDay :: "int \<Rightarrow> int" where
  "yearFromDay d =
     (let y = 1970 + d * 400 div 146097
      in if d < dayFromYear y then y - 1 else if dayFromYear (y + 1) \<le> d then y + 1 else y)"

lemma dayFromYear_bounds:
  "146097 * (y - 1970) - 800 \<le> 400 * dayFromYear y"
  "400 * dayFromYear y \<le> 146097 * (y - 1970) + 800"
proof -
  define a b c where abc: "a = (y - 1969) div 4" "b = (y - 1901) div 100" "c = (y - 1601) div 400"
  have a: "4 * a \<le> y - 1969" "y - 1969 < 4 * a + 4"
    unfolding abc by linarith+
  have b: "100 * b \<le> y - 1901" "y - 1901 < 100 * b + 100"
    unfolding abc by linarith+
  have c: "400 * c \<le> y - 1601" "y - 1601 < 400 * c + 400"
    unfolding abc by linarith+
  have e: "dayFromYear y = 365 * (y - 1970) + a - b + c"
    by (simp add: dayFromYear_def abc)
  show "146097 * (y - 1970) - 800 \<le> 400 * dayFromYear y"
    unfolding e using a b c by (simp add: algebra_simps)
  show "400 * dayFromYear y \<le> 146097 * (y - 1970) + 800"
    unfolding e using a b c by (simp add: algebra_simps)
qed

lemma yearFromDay_bounds:
  "dayFromYear (yearFromDay d) \<le> d" "d < dayFromYear (yearFromDay d + 1)"
proof -
  define y where "y = 1970 + d * 400 div 146097"
  have y: "146097 * (y - 1970) \<le> 400 * d" "400 * d < 146097 * (y - 1970) + 146097"
    using div_mult_mod_eq [of "d * 400" 146097] pos_mod_bound [of 146097 "d * 400"]
      pos_mod_sign [of 146097 "d * 400"] by (simp_all add: y_def)
  have lo: "dayFromYear (y - 1) \<le> d"
    using dayFromYear_bounds(2) [of "y - 1"] y by (simp add: algebra_simps)
  have hi: "d < dayFromYear (y + 2)"
    using dayFromYear_bounds(1) [of "y + 2"] y by (simp add: algebra_simps)
  show "dayFromYear (yearFromDay d) \<le> d" "d < dayFromYear (yearFromDay d + 1)"
    using lo hi by (auto simp: yearFromDay_def y_def [symmetric] Let_def add.assoc)
qed

lemma dayFromYear_mono: "y \<le> z \<Longrightarrow> dayFromYear y \<le> dayFromYear z"
proof (induction rule: int_ge_induct)
  case base
  then show ?case by simp
next
  case (step i)
  then show ?case by (auto simp: dayFromYear_Suc daysInYear_def)
qed

lemma yearFromDay_eqI:
  assumes "dayFromYear y \<le> d" and "d < dayFromYear (y + 1)"
  shows "yearFromDay d = y"
proof (rule ccontr)
  assume "yearFromDay d \<noteq> y"
  then consider "yearFromDay d + 1 \<le> y" | "y + 1 \<le> yearFromDay d" by linarith
  then show False
  proof cases
    case 1
    then show False
      using dayFromYear_mono [OF 1] yearFromDay_bounds(2) [of d] assms(1) by linarith
  next
    case 2
    then show False
      using dayFromYear_mono [OF 2] yearFromDay_bounds(1) [of d] assms(2) by linarith
  qed
qed

section \<open>Months\<close>

text \<open>The day of the year on which month \<open>m\<close> (0 to 11) starts.\<close>

definition monthStart :: "bool \<Rightarrow> nat \<Rightarrow> int" where
  "monthStart leap m =
     [0, 31, 59, 90, 120, 151, 181, 212, 243, 273, 304, 334, 365] ! m
     + (if leap \<and> 2 \<le> m then 1 else 0)"

definition daysInMonth :: "int \<Rightarrow> nat \<Rightarrow> int" where
  "daysInMonth y m = monthStart (isLeap y) (m + 1) - monthStart (isLeap y) m"

definition yearFromTime :: "time \<Rightarrow> int" where
  "yearFromTime t = yearFromDay (dayOf t)"

definition dayInYear :: "time \<Rightarrow> int" where
  "dayInYear t = dayOf t - dayFromYear (yearFromTime t)"

definition monthFromTime :: "time \<Rightarrow> nat" where
  "monthFromTime t =
     length (filter (\<lambda>m. monthStart (isLeap (yearFromTime t)) m \<le> dayInYear t) [1..<12])"

text \<open>\<open>getDate()\<close>, from 1.\<close>

definition dateFromTime :: "time \<Rightarrow> int" where
  "dateFromTime t = dayInYear t - monthStart (isLeap (yearFromTime t)) (monthFromTime t) + 1"

text \<open>\<open>MakeDay\<close>: months and days beyond their range carry over.\<close>

definition makeDay :: "int \<Rightarrow> int \<Rightarrow> int \<Rightarrow> int" where
  "makeDay y m d = (let ym = y + m div 12
                    in dayFromYear ym + monthStart (isLeap ym) (nat (m mod 12)) + d - 1)"

definition setMonth :: "int \<Rightarrow> time \<Rightarrow> time" where
  "setMonth m t = makeDay (yearFromTime t) m (dateFromTime t) * msPerDay + timeWithinDay t"

definition setFullYear :: "int \<Rightarrow> time \<Rightarrow> time" where
  "setFullYear y t = makeDay y (int (monthFromTime t)) (dateFromTime t) * msPerDay + timeWithinDay t"

lemma monthFromTime_less: "monthFromTime t < 12"
proof -
  have "monthFromTime t \<le> length [1..<12::nat]"
    unfolding monthFromTime_def by (rule length_filter_le)
  then show ?thesis by simp
qed

lemma less12_cases:
  "(m::nat) < 12 \<Longrightarrow> m = 0 \<or> m = 1 \<or> m = 2 \<or> m = 3 \<or> m = 4 \<or> m = 5 \<or> m = 6 \<or> m = 7
    \<or> m = 8 \<or> m = 9 \<or> m = 10 \<or> m = 11"
  by (auto simp: less_Suc_eq numeral_eq_Suc)

lemma daysInMonth_bounds: "m < 12 \<Longrightarrow> 28 \<le> daysInMonth y m \<and> daysInMonth y m \<le> 31"
  by (drule less12_cases) (auto simp: daysInMonth_def monthStart_def)

lemma dayOf_split: "t = dayOf t * msPerDay + timeWithinDay t"
  by (simp add: dayOf_def timeWithinDay_def)

lemma monthStart_12: "monthStart (isLeap y) 12 = daysInYear y"
  by (simp add: monthStart_def daysInYear_def)

text \<open>
  The day keeps its place in the month and an impossible one overflows, so moving to the next month
  adds exactly the days of the month one starts in.
\<close>

lemma setMonth_next:
  "setMonth (int (monthFromTime t) + 1) t
     = t + daysInMonth (yearFromTime t) (monthFromTime t) * msPerDay"
proof -
  define y m where "y = yearFromTime t" and "m = monthFromTime t"
  have m: "m < 12" unfolding m_def by (rule monthFromTime_less)
  have d: "dayOf t = dayFromYear y + monthStart (isLeap y) m + dateFromTime t - 1"
    by (simp add: dateFromTime_def dayInYear_def y_def m_def)
  have "makeDay y (int m + 1) (dateFromTime t) = dayOf t + daysInMonth y m"
  proof (cases "m = 11")
    case True
    then show ?thesis
      using d monthStart_12 [of y]
      by (simp add: makeDay_def daysInMonth_def dayFromYear_Suc monthStart_def [of _ 0])
  next
    case False
    with m have l: "m + 1 < 12" by simp
    then have "(int m + 1) div 12 = 0" "(int m + 1) mod 12 = int (m + 1)"
      by simp_all
    then show ?thesis
      using d by (simp only: makeDay_def daysInMonth_def Let_def nat_int) simp
  qed
  then show ?thesis
    using dayOf_split [of t]
    by (simp add: setMonth_def y_def [symmetric] m_def [symmetric] algebra_simps)
qed

lemma setFullYear_next:
  "setFullYear (yearFromTime t + 1) t - t \<in> {365 * msPerDay, 366 * msPerDay}"
proof -
  define y m where "y = yearFromTime t" and "m = monthFromTime t"
  have m: "m < 12" unfolding m_def by (rule monthFromTime_less)
  have d: "dayOf t = dayFromYear y + monthStart (isLeap y) m + dateFromTime t - 1"
    by (simp add: dateFromTime_def dayInYear_def y_def m_def)
  have mm: "int m div 12 = 0" "nat (int m mod 12) = m" using m by simp_all
  have "makeDay (y + 1) (int m) (dateFromTime t)
      = dayOf t + (daysInYear y + monthStart (isLeap (y + 1)) m - monthStart (isLeap y) m)"
    using d by (simp add: makeDay_def mm dayFromYear_Suc)
  moreover have "isLeap y \<Longrightarrow> \<not> isLeap (y + 1)"
  proof -
    have "y mod 4 = 0 \<Longrightarrow> (y + 1) mod 4 \<noteq> 0" by presburger
    then show "isLeap y \<Longrightarrow> \<not> isLeap (y + 1)" by (auto simp: isLeap_def)
  qed
  then have "daysInYear y + monthStart (isLeap (y + 1)) m - monthStart (isLeap y) m \<in> {365, 366}"
    by (auto simp: daysInYear_def monthStart_def)
  ultimately show ?thesis
    using dayOf_split [of t]
    by (auto simp: setFullYear_def y_def [symmetric] m_def [symmetric] algebra_simps)
qed

section \<open>ISO text\<close>

definition pad2 :: "int \<Rightarrow> string" where
  "pad2 n = [digit (nat (n div 10 mod 10)), digit (nat (n mod 10))]"

definition pad3 :: "int \<Rightarrow> string" where
  "pad3 n = digit (nat (n div 100 mod 10)) # pad2 n"

definition pad4 :: "int \<Rightarrow> string" where
  "pad4 n = pad2 (n div 100) @ pad2 n"

text \<open>\<open>toISOString()\<close> of the years 0 to 9999.\<close>

definition toISOString :: "time \<Rightarrow> string" where
  "toISOString t =
     (let w = timeWithinDay t
      in pad4 (yearFromTime t) @ ''-'' @ pad2 (int (monthFromTime t) + 1) @ ''-''
         @ pad2 (dateFromTime t) @ ''T'' @ pad2 (w div 3600000) @ '':''
         @ pad2 (w div 60000 mod 60) @ '':'' @ pad2 (w div 1000 mod 60) @ ''.''
         @ pad3 (w mod 1000) @ ''Z'')"

end
