(* ===== verification/Text.thy ===== *)
theory Text
  imports Schema Calendar
begin

text \<open>
  Text the code builds: \<open>String.prototype.replaceAll\<close> as JavaScript defines it, the order
  messages of \<open>orders/fulfillment/message-renderer.ts\<close>, the links of
  \<open>common/utils/public-links.ts\<close>, the CSV writer of \<open>common/utils/csv.util.ts\<close>, and
  the checks on stored image addresses (\<open>uploads/upload-url.util.ts\<close>) and on the addresses a
  payment provider may return to (\<open>payments/return-url.util.ts\<close>).

  A text is the list of its UTF-8 bytes. The \<open>URL\<close> constructor is a parameter: a function
  from text to the three parts the code reads, or nothing when it throws.
\<close>

section \<open>String primitives\<close>

fun joinWith :: "string \<Rightarrow> string list \<Rightarrow> string" where
  "joinWith sep [] = []"
| "joinWith sep [x] = x"
| "joinWith sep (x # xs) = x @ sep @ joinWith sep xs"

definition isSpace :: "char \<Rightarrow> bool" where
  "isSpace c = (c \<in> {CHR '' '', CHR 0x09, CHR 0x0A, CHR 0x0B, CHR 0x0C, CHR 0x0D})"

text \<open>\<open>trim()\<close> of ASCII white space.\<close>

definition trim :: "string \<Rightarrow> string" where
  "trim s = rev (dropWhile isSpace (rev (dropWhile isSpace s)))"

definition startsWith :: "string \<Rightarrow> string \<Rightarrow> bool" where
  "startsWith p s = prefix p s"

definition endsWith :: "string \<Rightarrow> string \<Rightarrow> bool" where
  "endsWith p s = suffix p s"

text \<open>\<open>includes\<close> on a string.\<close>

fun contains :: "string \<Rightarrow> string \<Rightarrow> bool" where
  "contains p [] = (p = [])"
| "contains p (c # cs) = (prefix p (c # cs) \<or> contains p cs)"

text \<open>\<open>contains\<close> with the insensitive mode.\<close>

definition containsText :: "string \<Rightarrow> string \<Rightarrow> bool" where
  "containsText search s = contains (lower search) (lower s)"

definition isDigitChar :: "char \<Rightarrow> bool" where
  "isDigitChar c = (CHR ''0'' \<le> c \<and> c \<le> CHR ''9'')"

definition isLetterChar :: "char \<Rightarrow> bool" where
  "isLetterChar c = ((CHR ''a'' \<le> c \<and> c \<le> CHR ''z'') \<or> (CHR ''A'' \<le> c \<and> c \<le> CHR ''Z''))"

text \<open>\<open>split\<close> at a character.\<close>

fun splitOn :: "char \<Rightarrow> string \<Rightarrow> string list" where
  "splitOn c [] = [[]]"
| "splitOn c (x # xs) =
     (if x = c then [] # splitOn c xs
      else case splitOn c xs of w # ws \<Rightarrow> (x # w) # ws | [] \<Rightarrow> [[x]])"

lemma splitOn_not_Nil [simp]: "splitOn c t \<noteq> []"
  by (induction t) (auto split: list.splits)

lemma splitOn_append: "splitOn c (a @ c # b) = splitOn c a @ splitOn c b"
proof (induction a)
  case (Cons x a)
  then show ?case by (auto split: list.splits)
qed simp

definition isHexChar :: "char \<Rightarrow> bool" where
  "isHexChar c = (isDigitChar c \<or> lower [c] \<in> {''a'', ''b'', ''c'', ''d'', ''e'', ''f''})"

subsection \<open>replaceAll\<close>

text \<open>
  The replacement text of \<open>replaceAll\<close> is itself a pattern: \<open>$$\<close> is a dollar sign,
  \<open>$&\<close> the match, \<open>$`\<close> what precedes it and \<open>$'\<close> what follows it. (With a string to
  search for there are no captures, so every other use of the dollar sign stands for itself.)
\<close>

fun getSubstitution :: "string \<Rightarrow> string \<Rightarrow> string \<Rightarrow> string \<Rightarrow> string" where
  "getSubstitution matched pre post [] = []"
| "getSubstitution matched pre post [c] = [c]"
| "getSubstitution matched pre post (c # d # r) =
     (if c = CHR ''$'' \<and> d = CHR ''$'' then CHR ''$'' # getSubstitution matched pre post r
      else if c = CHR ''$'' \<and> d = CHR ''&'' then matched @ getSubstitution matched pre post r
      else if c = CHR ''$'' \<and> d = CHR ''`'' then pre @ getSubstitution matched pre post r
      else if c = CHR ''$'' \<and> d = CHR 0x27 then post @ getSubstitution matched pre post r
      else c # getSubstitution matched pre post (d # r))"

text \<open>\<open>pre\<close> is the part of the subject already passed.\<close>

fun replaceFrom :: "string \<Rightarrow> string \<Rightarrow> string \<Rightarrow> string \<Rightarrow> string" where
  "replaceFrom pat rep pre [] = []"
| "replaceFrom pat rep pre (c # cs) =
     (if pat \<noteq> [] \<and> prefix pat (c # cs)
      then let rest = drop (length pat - 1) cs
           in getSubstitution pat pre rest rep @ replaceFrom pat rep (pre @ pat) rest
      else c # replaceFrom pat rep (pre @ [c]) cs)"

text \<open>\<open>s.replaceAll(pat, rep)\<close> for a non-empty pattern.\<close>

definition replaceAll :: "string \<Rightarrow> string \<Rightarrow> string \<Rightarrow> string" where
  "replaceAll pat rep s = replaceFrom pat rep [] s"

text \<open>The same with a replacement that stands for itself (a replacer function).\<close>

fun replacePlain :: "string \<Rightarrow> string \<Rightarrow> string \<Rightarrow> string" where
  "replacePlain pat rep [] = []"
| "replacePlain pat rep (c # cs) =
     (if pat \<noteq> [] \<and> prefix pat (c # cs) then rep @ replacePlain pat rep (drop (length pat - 1) cs)
      else c # replacePlain pat rep cs)"

lemma getSubstitution_plain:
  "CHR ''$'' \<notin> set rep \<Longrightarrow> getSubstitution m b a rep = rep"
  by (induction m b a rep rule: getSubstitution.induct) auto

lemma replaceFrom_plain:
  "CHR ''$'' \<notin> set rep \<Longrightarrow> replaceFrom pat rep pre s = replacePlain pat rep s"
proof (induction pat rep pre s rule: replaceFrom.induct)
  case (2 pat rep pre c cs)
  then show ?case by (auto simp: Let_def getSubstitution_plain)
qed simp

text \<open>A replacement without a dollar sign is copied as it is.\<close>

lemma replaceAll_plain:
  "CHR ''$'' \<notin> set rep \<Longrightarrow> replaceAll pat rep s = replacePlain pat rep s"
  by (simp add: replaceAll_def replaceFrom_plain)

lemma replacePlain_absent: "\<not> contains pat s \<Longrightarrow> replacePlain pat rep s = s"
  by (induction pat rep s rule: replacePlain.induct) auto

subsection \<open>encodeURIComponent\<close>

definition hexDigit :: "nat \<Rightarrow> char" where
  "hexDigit n = (if n < 10 then char_of (48 + n) else char_of (55 + n))"

definition unreserved :: "char \<Rightarrow> bool" where
  "unreserved c = (isLetterChar c \<or> isDigitChar c \<or> c \<in> set ''-_.!~*()'' \<or> c = CHR 0x27)"

definition encodeURIComponent :: "string \<Rightarrow> string" where
  "encodeURIComponent s = concat (map (\<lambda>c. if unreserved c then [c]
     else [CHR ''%'', hexDigit (of_char c div 16), hexDigit (of_char c mod 16)]) s)"

text \<open>\<open>replace(/\/+$/, '')\<close>.\<close>

definition stripTrailingSlashes :: "string \<Rightarrow> string" where
  "stripTrailingSlashes s = rev (dropWhile (\<lambda>c. c = CHR ''/'') (rev s))"

subsection \<open>JSON.stringify\<close>

definition jsonEscape :: "char \<Rightarrow> string" where
  "jsonEscape c =
     (if c = CHR 0x22 then [CHR 0x5C, CHR 0x22]
      else if c = CHR 0x5C then [CHR 0x5C, CHR 0x5C]
      else if c = CHR 0x08 then [CHR 0x5C, CHR ''b'']
      else if c = CHR 0x0C then [CHR 0x5C, CHR ''f'']
      else if c = CHR 0x0A then [CHR 0x5C, CHR ''n'']
      else if c = CHR 0x0D then [CHR 0x5C, CHR ''r'']
      else if c = CHR 0x09 then [CHR 0x5C, CHR ''t'']
      else if c < CHR '' '' then [CHR 0x5C, CHR ''u'', CHR ''0'', CHR ''0'',
              hexDigit (of_char c div 16), lower [hexDigit (of_char c mod 16)] ! 0]
      else [c])"

definition jsonString :: "string \<Rightarrow> string" where
  "jsonString s = [CHR 0x22] @ concat (map jsonEscape s) @ [CHR 0x22]"

text \<open>A number as decimal digits: one of at most 21 decimal places and below \<open>1e21\<close>.\<close>

definition numberText :: "rat \<Rightarrow> string" where
  "numberText x =
     (case List.find (\<lambda>j. of_int \<lfloor>\<bar>x\<bar> * 10 ^ j\<rfloor> = \<bar>x\<bar> * 10 ^ j) [0..<22] of
        None \<Rightarrow> []
      | Some j \<Rightarrow>
          let n = nat \<lfloor>\<bar>x\<bar> * 10 ^ j\<rfloor>; f = string_of_nat (n mod 10 ^ j)
          in (if x < 0 then ''-'' else []) @ string_of_nat (n div 10 ^ j)
             @ (if j = 0 then [] else ''.'' @ replicate (j - length f) (CHR ''0'') @ f))"

fun stringify :: "json \<Rightarrow> string" where
  "stringify JNull = ''null''"
| "stringify (JBool b) = (if b then ''true'' else ''false'')"
| "stringify (JNum n) = numberText n"
| "stringify (JStr s) = jsonString s"
| "stringify (JArr xs) = ''['' @ joinWith '','' (map stringify xs) @ '']''"
| "stringify (JObj fs) =
     ''{'' @ joinWith '','' (map (\<lambda>(k, v). jsonString k @ '':'' @ stringify v) fs) @ ''}''"

text \<open>The em dash of some messages.\<close>

definition emDash :: string where
  "emDash = [CHR 0xE2, CHR 0x80, CHR 0x94]"

section \<open>Order messages\<close>

record OrderMessageContext =
  mcStoreName :: string
  mcOrderNo :: string
  mcCustomerName :: string
  mcBillingAddress :: string
  mcShippingAddress :: string
  mcQtyTotal :: nat
  mcSubTotal :: string
  mcDiscountAmount :: string
  mcShippingAmount :: string
  mcItemTax :: string
  mcItemTotal :: string
  mcItemLines :: "string list"

definition renderOrderMessage :: "string \<Rightarrow> OrderMessageContext \<Rightarrow> string" where
  "renderOrderMessage template ctx =
     fold (\<lambda>(pat, rep) s. replaceAll pat rep s)
       [(''{store_name}'', mcStoreName ctx), (''{order_no}'', mcOrderNo ctx),
        (''{customer_name}'', mcCustomerName ctx), (''{billing_address}'', mcBillingAddress ctx),
        (''{shipping_address}'', mcShippingAddress ctx),
        (''{qty_total}'', string_of_nat (mcQtyTotal ctx)), (''{sub_total}'', mcSubTotal ctx),
        (''{discount_amount}'', mcDiscountAmount ctx), (''{shipping_amount}'', mcShippingAmount ctx),
        (''{item_tax}'', mcItemTax ctx), (''{item_total}'', mcItemTotal ctx),
        (''{item_variable}'', joinWith [CHR 0x0A] (mcItemLines ctx))]
       template"

record ItemLineContext =
  lcSku :: string
  lcQuantity :: nat
  lcProductName :: string
  lcVariantName :: string
  lcItemTax :: string
  lcItemTotal :: string

definition renderItemLine :: "string \<Rightarrow> ItemLineContext \<Rightarrow> string" where
  "renderItemLine template ctx =
     fold (\<lambda>(pat, rep) s. replaceAll pat rep s)
       [(''{sku}'', lcSku ctx), (''{quantity}'', string_of_nat (lcQuantity ctx)),
        (''{product_name}'', lcProductName ctx), (''{variant_name}'', lcVariantName ctx),
        (''{item_tax}'', lcItemTax ctx), (''{item_total}'', lcItemTotal ctx)]
       template"

definition buildWhatsappUrl :: "string \<Rightarrow> string \<Rightarrow> string" where
  "buildWhatsappUrl phoneNumber message =
     ''https://wa.me/'' @ filter isDigitChar phoneNumber @ ''?text='' @ encodeURIComponent message"

section \<open>Public links\<close>

definition resolvePublicWebUrl :: "string option \<Rightarrow> string list \<Rightarrow> string option" where
  "resolvePublicWebUrl explicit corsOrigins =
     (let first = (case explicit of Some e \<Rightarrow> trim e | None \<Rightarrow> []);
          second = (case corsOrigins of o1 # _ \<Rightarrow> trim o1 | [] \<Rightarrow> []);
          candidate = (if first \<noteq> [] then first else second)
      in if candidate \<noteq> [] then Some (stripTrailingSlashes candidate) else None)"

definition staffPasswordLink :: "string option \<Rightarrow> string \<Rightarrow> string" where
  "staffPasswordLink baseUrl token = (case baseUrl of None \<Rightarrow> [] | Some b \<Rightarrow> b) @ ''/login?token='' @ token"

definition storefrontPasswordLink :: "string option \<Rightarrow> string \<Rightarrow> string \<Rightarrow> string" where
  "storefrontPasswordLink baseUrl storeSlug token =
     (case baseUrl of None \<Rightarrow> [] | Some b \<Rightarrow> b) @ ''/store/'' @ encodeURIComponent storeSlug
     @ ''/login?token='' @ token"

definition storefrontOrderLink :: "string option \<Rightarrow> string \<Rightarrow> string \<Rightarrow> string" where
  "storefrontOrderLink baseUrl storeSlug orderId =
     (case baseUrl of None \<Rightarrow> [] | Some b \<Rightarrow> b) @ ''/store/'' @ encodeURIComponent storeSlug
     @ ''/order/'' @ orderId"

definition adminPlansLink :: "string option \<Rightarrow> string" where
  "adminPlansLink baseUrl = (case baseUrl of None \<Rightarrow> [] | Some b \<Rightarrow> b) @ ''/admin/plans''"

section \<open>Addresses\<close>

definition LOCAL_UPLOAD_FILE :: "string \<Rightarrow> bool" where
  "LOCAL_UPLOAD_FILE f =
     (endsWith ''.webp'' f \<and> length f > 5
      \<and> list_all (\<lambda>c. isDigitChar c \<or> isLetterChar c \<or> c = CHR ''_'' \<or> c = CHR ''-'')
          (take (length f - 5) f))"

definition isOwnUploadUrl :: "uuid \<Rightarrow> string \<Rightarrow> bool" where
  "isOwnUploadUrl tenantId u =
     (let pre = ''/uploads/'' @ tenantId @ ''/''
      in startsWith pre u \<and> LOCAL_UPLOAD_FILE (drop (length pre) u))"

definition assertSafeImageUrl ::
    "(string \<Rightarrow> url option) \<Rightarrow> uuid \<Rightarrow> string option \<Rightarrow> string \<Rightarrow> unit res" where
  "assertSafeImageUrl parse tenantId u field =
     (if \<not> truthy u then Inr ()
      else if startsWith ''/'' (the u)
           then if isOwnUploadUrl tenantId (the u) then Inr ()
                else Inl (BadRequest (field @ '' must be one of your own uploads''))
      else case parse (the u) of
             Some p \<Rightarrow> if urlProtocol p \<in> {''http:'', ''https:''} then Inr ()
                       else Inl (BadRequest (field @ '' must be an uploaded image or an http(s) URL''))
           | None \<Rightarrow> Inl (BadRequest (field @ '' must be an uploaded image or an http(s) URL'')))"

record ReturnUrlRules =
  rrCorsOrigins :: "string list"
  rrRootDomain :: "string option"
  rrSlug :: string
  rrSubdomain :: "string option"
  rrCustomDomain :: "string option"

definition isAllowedReturnUrl :: "(string \<Rightarrow> url option) \<Rightarrow> string \<Rightarrow> ReturnUrlRules \<Rightarrow> bool" where
  "isAllowedReturnUrl parse raw rules =
     (case parse raw of
        None \<Rightarrow> False
      | Some u \<Rightarrow>
          if urlProtocol u \<noteq> ''https:'' \<and> urlProtocol u \<noteq> ''http:'' then False
          else if urlOrigin u \<in> set (rrCorsOrigins rules) then True
          else let host = lower (urlHostname u)
               in if truthy (rrCustomDomain rules) \<and> host = lower (the (rrCustomDomain rules)) then True
                  else if \<not> truthy (rrRootDomain rules) then False
                  else list_ex (\<lambda>label. truthy label
                         \<and> host = lower (the label) @ ''.'' @ the (rrRootDomain rules))
                       [Some (rrSlug rules), rrSubdomain rules])"

text \<open>An own upload is a single file name inside the tenant's folder: no further slash, no dots up.\<close>

lemma isOwnUploadUrl_shape:
  assumes "isOwnUploadUrl t u"
  obtains f where "u = ''/uploads/'' @ t @ ''/'' @ f @ ''.webp''"
    and "CHR ''/'' \<notin> set f" and "CHR ''.'' \<notin> set f" and "f \<noteq> []"
proof -
  define pre where "pre = ''/uploads/'' @ t @ ''/''"
  from assms obtain g where u: "u = pre @ g" and g: "LOCAL_UPLOAD_FILE g"
    by (auto simp: isOwnUploadUrl_def startsWith_def pre_def Let_def prefix_def)
  from g obtain f where f: "g = f @ ''.webp''" and l: "length g > 5"
      and a: "list_all (\<lambda>c. isDigitChar c \<or> isLetterChar c \<or> c = CHR ''_'' \<or> c = CHR ''-'') f"
    by (auto simp: LOCAL_UPLOAD_FILE_def endsWith_def suffix_def)
  have "CHR ''/'' \<notin> set f" "CHR ''.'' \<notin> set f"
    using a by (auto simp: list_all_iff isDigitChar_def isLetterChar_def less_eq_char_def)
  with u f l show ?thesis
    by (intro that [of f]) (auto simp: pre_def)
qed

text \<open>\<open>deleteUploadedFile\<close> (\<open>uploads/uploads.util.ts\<close>) of a caller that names its tenant.\<close>

definition deleteUploadedFile :: "string option \<Rightarrow> uuid \<Rightarrow> db \<Rightarrow> db" where
  "deleteUploadedFile u tenantId s =
     (case u of
        None \<Rightarrow> s
      | Some x \<Rightarrow> if startsWith ''/uploads/'' x \<and> isOwnUploadUrl tenantId x
                  then emit (DeleteFile x tenantId) s else s)"

lemma deleteUploadedFile_tables [simp]:
  "tenants (deleteUploadedFile u t s) = tenants s" "products (deleteUploadedFile u t s) = products s"
  "variants (deleteUploadedFile u t s) = variants s" "coupons (deleteUploadedFile u t s) = coupons s"
  "shippings (deleteUploadedFile u t s) = shippings s" "orders (deleteUploadedFile u t s) = orders s"
  "paymentSettings (deleteUploadedFile u t s) = paymentSettings s"
  "assets (deleteUploadedFile u t s) = assets s" "deliveries (deleteUploadedFile u t s) = deliveries s"
  "grants (deleteUploadedFile u t s) = grants s"
  by (simp_all add: deleteUploadedFile_def split: option.splits)

section \<open>CSV\<close>

datatype cell = CNull | CStr string | CDec decimal | CNat nat

text \<open>\<open>String(value)\<close> of a \<open>Decimal\<close> in whole cents: no trailing zeros.\<close>

definition decimal_text :: "decimal \<Rightarrow> string" where
  "decimal_text x =
     (let c = nat \<lfloor>\<bar>x\<bar> * 100\<rfloor>; sign = (if x < 0 then ''-'' else [])
      in sign @ string_of_nat (c div 100)
         @ (if c mod 100 = 0 then []
            else if c mod 10 = 0 then [CHR ''.'', digit (c div 10 mod 10)]
            else [CHR ''.'', digit (c div 10 mod 10), digit (c mod 10)]))"

definition formulaStart :: "string \<Rightarrow> bool" where
  "formulaStart s = (case s of [] \<Rightarrow> False | c # _ \<Rightarrow> c \<in> set ''=+-@'' \<union> {CHR 0x09, CHR 0x0D})"

text \<open>\<open>/^[+-]?\d+(\.\d+)?$/\<close>.\<close>

definition plainNumber :: "string \<Rightarrow> bool" where
  "plainNumber s =
     (let d = (case s of c # r \<Rightarrow> if c \<in> {CHR ''+'', CHR ''-''} then r else s | [] \<Rightarrow> s);
          i = takeWhile isDigitChar d; r = dropWhile isDigitChar d
      in i \<noteq> [] \<and> (r = [] \<or> (hd r = CHR ''.'' \<and> tl r \<noteq> [] \<and> list_all isDigitChar (tl r))))"

definition quoteField :: "string \<Rightarrow> string" where
  "quoteField s =
     (if list_ex (\<lambda>c. c \<in> {CHR 0x22, CHR '','', CHR 0x0A, CHR 0x0D}) s
      then [CHR 0x22] @ concat (map (\<lambda>c. if c = CHR 0x22 then [c, c] else [c]) s) @ [CHR 0x22]
      else s)"

fun escapeCsvField :: "cell \<Rightarrow> string" where
  "escapeCsvField CNull = []"
| "escapeCsvField (CStr s) =
     quoteField (if formulaStart s \<and> \<not> plainNumber s then CHR 0x27 # s else s)"
| "escapeCsvField (CDec d) = quoteField (decimal_text d)"
| "escapeCsvField (CNat n) = quoteField (string_of_nat n)"

definition crlf :: string where
  "crlf = [CHR 0x0D, CHR 0x0A]"

text \<open>The byte order mark in UTF-8, then the lines.\<close>

definition toCsv :: "string list \<Rightarrow> cell list list \<Rightarrow> string" where
  "toCsv headers rows =
     [CHR 0xEF, CHR 0xBB, CHR 0xBF]
     @ joinWith crlf (map (\<lambda>row. joinWith '','' (map escapeCsvField row)) (map CStr headers # rows))"

text \<open>A field of the export never starts a formula, quoted or not.\<close>

lemma quoteField_start:
  assumes "quoteField s = c # r" and "c \<noteq> CHR 0x22"
  shows "s = c # r"
  using assms by (auto simp: quoteField_def split: if_splits)

lemma escapeCsvField_no_formula:
  assumes "formulaStart (escapeCsvField (CStr s))"
  shows "plainNumber s"
proof (rule ccontr)
  assume n: "\<not> plainNumber s"
  define t where "t = (if formulaStart s then CHR 0x27 # s else s)"
  have e: "escapeCsvField (CStr s) = quoteField t" using n by (simp add: t_def)
  have q: "\<not> formulaStart (CHR 0x22 # r)" "\<not> formulaStart (CHR 0x27 # r)" for r
    by (simp_all add: formulaStart_def)
  have t: "\<not> formulaStart t" using q(2) by (simp add: t_def)
  obtain c r where cr: "quoteField t = c # r" "c \<noteq> CHR 0x22"
    using assms q(1) unfolding e by (cases "quoteField t") (auto simp: formulaStart_def)
  then have "t = c # r" by (rule quoteField_start)
  with cr(1) t assms e show False by metis
qed

text \<open>
  Reading a quoted or bare field back (RFC 4180): the inverse of \<open>quoteField\<close> for a field
  followed by a comma, a line end or nothing.
\<close>

fun unquote :: "string \<Rightarrow> string \<times> string" where
  "unquote [] = ([], [])"
| "unquote [c] = (if c = CHR 0x22 then ([], []) else ([c], []))"
| "unquote (c # d # r) =
     (if c = CHR 0x22 then
        if d = CHR 0x22 then (case unquote r of (f, z) \<Rightarrow> (c # f, z)) else ([], d # r)
      else (case unquote (d # r) of (f, z) \<Rightarrow> (c # f, z)))"

definition readField :: "string \<Rightarrow> string \<times> string" where
  "readField s = (case s of c # r \<Rightarrow> if c = CHR 0x22 then unquote r
       else (takeWhile (\<lambda>c. c \<notin> {CHR '','', CHR 0x0D, CHR 0x0A}) s,
             dropWhile (\<lambda>c. c \<notin> {CHR '','', CHR 0x0D, CHR 0x0A}) s)
     | [] \<Rightarrow> ([], []))"

lemma unquote_quoted:
  assumes "z = [] \<or> hd z \<noteq> CHR 0x22"
  shows "unquote (concat (map (\<lambda>c. if c = CHR 0x22 then [c, c] else [c]) s) @ CHR 0x22 # z) = (s, z)"
proof (induction s)
  case Nil
  then show ?case using assms by (cases z) auto
next
  case (Cons c s)
  show ?case
  proof (cases "c = CHR 0x22")
    case True
    with Cons show ?thesis by simp
  next
    case False
    obtain d r where dr: "concat (map (\<lambda>c. if c = CHR 0x22 then [c, c] else [c]) s) @ CHR 0x22 # z = d # r"
      by (cases "concat (map (\<lambda>c. if c = CHR 0x22 then [c, c] else [c]) s)") auto
    from Cons False show ?thesis by (simp add: dr)
  qed
qed

text \<open>What is written is read back.\<close>

lemma readField_quoteField:
  assumes "z = [] \<or> hd z \<in> {CHR '','', CHR 0x0D, CHR 0x0A}"
  shows "readField (quoteField s @ z) = (s, z)"
proof (cases "list_ex (\<lambda>c. c \<in> {CHR 0x22, CHR '','', CHR 0x0A, CHR 0x0D}) s")
  case True
  from assms have "z = [] \<or> hd z \<noteq> CHR 0x22" by auto
  from unquote_quoted [OF this, of s] True show ?thesis
    by (simp add: quoteField_def readField_def)
next
  case False
  then have s: "\<forall>c \<in> set s. c \<notin> {CHR '','', CHR 0x0D, CHR 0x0A}" "CHR 0x22 \<notin> set s"
    by (auto simp: list_ex_iff)
  have tz: "takeWhile (\<lambda>c. c \<notin> {CHR '','', CHR 0x0D, CHR 0x0A}) (s @ z) = s"
      "dropWhile (\<lambda>c. c \<notin> {CHR '','', CHR 0x0D, CHR 0x0A}) (s @ z) = z"
    using s(1) assms by (cases z; auto simp: takeWhile_append dropWhile_append)+
  show ?thesis
  proof (cases "s @ z")
    case Nil
    then show ?thesis by (simp add: quoteField_def readField_def)
  next
    case (Cons c r)
    have "c \<noteq> CHR 0x22" using Cons s assms by (cases s) auto
    with False tz Cons show ?thesis by (simp add: quoteField_def readField_def)
  qed
qed

section \<open>Trimming\<close>

lemma dropWhile_hd: "dropWhile P (dropWhile P xs) = dropWhile P xs"
  by (induction xs) auto

lemma dropWhile_rev_dropWhile:
  assumes "dropWhile P xs = xs"
  shows "dropWhile P (rev (dropWhile P (rev xs))) = rev (dropWhile P (rev xs))"
proof (cases xs)
  case (Cons x ys)
  then have "\<not> P x" using assms by (metis dropWhile.simps(2) dropWhile_eq_self_iff list.sel(1) list.simps(3))
  then have "dropWhile P (rev ys @ [x]) = dropWhile P (rev ys) @ [x]"
    by (cases "\<exists>y \<in> set ys. \<not> P y") (auto simp: dropWhile_append)
  then show ?thesis using \<open>\<not> P x\<close> by (simp add: Cons)
qed simp

lemma trim_trim: "trim (trim s) = trim s"
proof -
  have "dropWhile isSpace (trim s) = trim s"
    unfolding trim_def by (rule dropWhile_rev_dropWhile) (rule dropWhile_hd)
  then show ?thesis by (simp add: trim_def [of "trim s"]) (simp add: trim_def dropWhile_hd)
qed

lemma isSpace_upper:
  "isSpace (if CHR ''a'' \<le> c \<and> c \<le> CHR ''z'' then char_of (of_char c - 32 :: nat) else c) = isSpace c"
proof (cases "CHR ''a'' \<le> c \<and> c \<le> CHR ''z''")
  case True
  then have n: "97 \<le> (of_char c :: nat)" "(of_char c :: nat) \<le> 122" by (simp_all add: less_eq_char_def)
  have z: "of_char (char_of (of_char c - 32 :: nat)) = (of_char c - 32 :: nat)"
    using n by (simp add: of_char_of)
  have sp: "isSpace d \<longleftrightarrow> (of_char d :: nat) \<in> {32, 9, 10, 11, 12, 13}" for d
    unfolding isSpace_def by (simp add: of_char_eq_iff [symmetric, where ?'a = nat])
  have "(of_char c :: nat) - 32 \<ge> 65" using n by linarith
  then show ?thesis using True n by (auto simp: sp z)
next
  case False
  then show ?thesis by (simp only: if_False)
qed

lemma trim_upper: "trim (upper s) = upper (trim s)"
  using isSpace_upper by (simp add: trim_def upper_def dropWhile_map rev_map comp_def)

end
