(* ===== verification/Samples.thy ===== *)
theory Samples
  imports Schema
begin

text \<open>
  Concrete rows, one store with a product and an order, and a concrete environment: the inputs at
  which the properties of the development are applied.
\<close>

definition env0 :: env where
  "env0 = \<lparr>eNow = 1000000000000, eFresh = (\<lambda>n. ''id'' @ string_of_nat n),
     eToken = (\<lambda>n. ''tok'' @ string_of_nat n), eHash = (\<lambda>t. ''h:'' @ t),
     eOrderNumber = ''ORD-1'', eEncrypt = id, eDecryptSecret = Some, eDecrypt = (\<lambda>_. Some []), eParseUrl = (\<lambda>_. None),
     eInvoiceExists = (\<lambda>_ _. False), eRefundError = (\<lambda>_ _. None),
     ePublicWebUrl = Some ''https://web'', eCorsOrigins = [''https://web''], eRootDomain = None,
     eFormatDate = (\<lambda>_ _ _. []), eLinkTtlDays = 7, eMaxDownloads = 2, eMaxFileMb = 50\<rparr>"

definition page0 :: storePage where
  "page0 = \<lparr>pgTagline = None, pgAbout = None, pgTermsOfSaleContent = None, pgShippingPolicyContent = None,
     pgReturnPolicyContent = None, pgPrivacyPolicyContent = None, pgLogoUrl = None, pgInvoiceLogoUrl = None,
     pgBannerUrl = None, pgTheme = ''default'', pgSocialLinks = JObj [], pgTrustBadges = JObj [],
     pgSettings = JObj []\<rparr>"

definition tenant0 :: tenant where
  "tenant0 = \<lparr>tId = ''t1'', tOwnerId = ''u1'', tName = ''Shop'', tSlug = ''shop'',
     tSubdomain = None, tCustomDomain = None, tCurrency = ''USD'', tCurrencySymbol = ''$'',
     tCurrencySymbolPosition = ''pre'', tLocale = ''en'', tTimezone = ''UTC'',
     tTracksInventory = True, tCatalogType = PHYSICAL,
     tWhatsappEnabled = True, tWhatsappNumber = Some ''+1 555'', tTelegramEnabled = False,
     tTelegramBotToken = None, tTelegramChatId = None, tOrderMessageTemplate = ''{order_no}'',
     tItemLineTemplate = ''{sku}'', tStatus = TenantStatus.ACTIVE, tIsActive = True,
     tLimitsOverride = None, tDeletedAt = None, tCreatedAt = 0, tPage = page0,
     tSmtp = \<lparr>smEnabled = False, smHost = None, smPort = None, smUser = None, smPassword = None, smFrom = None\<rparr>,
     tAdminMetadata = JObj [], tCommissionRate = None\<rparr>"

definition tax0 :: productTax where
  "tax0 = \<lparr>ptId = ''tx1'', ptTenantId = ''t1'', ptName = ''VAT'', ptRate = 10\<rparr>"

definition product0 :: product where
  "product0 = \<lparr>pId = ''p1'', pTenantId = ''t1'', pName = ''Cup'', pSku = None,
     pDescription = None, pPrice = 10, pCompareAtPrice = None, pCost = None, pQuantity = 5,
     pHasVariants = False, pIsActive = True, pIsPublished = True,
     pAttributes = JObj [],
     pTaxes = [tax0], pCategories = [], pCreatedAt = 0\<rparr>"

definition coupon0 :: coupon where
  "coupon0 = \<lparr>cpId = ''c1'', cpTenantId = ''t1'', cpCode = ''SAVE'', cpName = ''Save'',
     cpDiscountType = PERCENTAGE, cpDiscountValue = 10, cpUsageLimit = Some 3, cpUsageCount = 0,
     cpExpiresAt = None, cpIsActive = True, cpCreatedAt = 0\<rparr>"

definition item0 :: orderItem where
  "item0 = \<lparr>iId = ''i1'', iProductId = Some ''p1'', iProductName = ''Cup'', iVariantId = None,
     iVariantName = None, iSku = None, iUnitPrice = 10, iQuantity = 2, iTaxAmount = 2,
     iLineTotal = 22, iTaxBreakdown = [\<lparr>taName = ''VAT'', taRate = 10, taAmount = 2\<rparr>]\<rparr>"

definition order0 :: order where
  "order0 = \<lparr>oId = ''o1'', oTenantId = ''t1'', oOrderNumber = ''ORD-0'', oCustomerId = None,
     oCustomerName = ''Ana'', oCustomerEmail = Some ''a@x'', oCustomerPhone = None,
     oSessionId = None, oStatus = OrderStatus.PENDING, oPaymentStatus = PaymentStatus.PENDING,
     oFulfillmentMethod = FulfillmentMethod.STRIPE, oCurrency = ''USD'', oSubtotal = 20,
     oTaxTotal = 2, oDiscountTotal = 0, oShippingTotal = 0, oGrandTotal = 22, oCouponId = None,
     oShippingId = None, oShippingAddress = None, oHiddenAt = None, oFulfillmentMessage = None,
     oStripePaymentIntentId = None, oStripeCheckoutSessionId = None,
     oMercadoPagoPreferenceId = None, oMercadoPagoPaymentId = None, oPaypalOrderId = None,
     oPaypalCaptureId = None, oPaymentProofUrl = None, oPaymentReference = None,
     oCreatedAt = 0, oItems = [item0]\<rparr>"

definition plan0 :: plan where
  "plan0 = \<lparr>plId = ''pl1'', plName = ''Pro'', plPrice = 10, plDuration = MONTHLY,
     plMaxStores = 3, plMaxProducts = 100,
     plFulfillmentMethods = [FulfillmentMethod.WHATSAPP, FulfillmentMethod.TELEGRAM,
       FulfillmentMethod.STRIPE, FulfillmentMethod.MERCADOPAGO, FulfillmentMethod.ZELLE,
       FulfillmentMethod.PAYPAL],
     plIsActive = True, plCreatedAt = 0\<rparr>"

definition freePlan0 :: plan where
  "freePlan0 = plan0\<lparr>plId := ''pl0'', plName := ''Free'', plPrice := 0, plDuration := LIFETIME,
     plMaxStores := 1, plMaxProducts := 1\<rparr>"

definition sub0 :: subscription where
  "sub0 = \<lparr>suId = ''s1'', suTenantId = ''t1'', suPlanId = ''pl1'', suRequestedPlanId = None,
     suStatus = SubscriptionStatus.ACTIVE, suStartedAt = 0, suExpiresAt = Some 1000001000000,
     suCreatedAt = 0, suRequestedPaymentReference = None,
     suBillingProvider = BillingProvider.MANUAL, suStripeCustomerId = None,
     suStripeSubscriptionId = None, suCancelAtPeriodEnd = False, suExpiryNoticesSent = []\<rparr>"

definition db0 :: db where
  "db0 = \<lparr>tenants = [tenant0], products = [product0], variants = [], coupons = [coupon0],
     shippings = [], orders = [order0], paymentSettings = [], assets = [], deliveries = [],
     grants = [], schedules = [], plans = [freePlan0, plan0], subscriptions = [sub0],
     users = [], members = [], taxTable = [tax0], categoryTable = [], categoryTemplates = [],
     imageTable = [], locations = [], tenantNotes = [], statusChanges = [], impersonationLogs = [],
     emailTemplates = [], platformSettings = [], visits = [], auditLogs = [], outbox = []\<rparr>"

lemmas sample_defs = env0_def page0_def tenant0_def tax0_def taxLine_def product0_def coupon0_def item0_def order0_def
  plan0_def freePlan0_def sub0_def db0_def

end
