(* ===== verification/Coupons.thy ===== *)
theory Coupons
  imports Text Samples
begin

text \<open>
  Coupons (\<open>coupons/coupons.service.ts\<close>) and their redemption by an order
  (\<open>redeemCoupon\<close> and the coupon lookup of \<open>priceOrder\<close> in \<open>orders/orders.service.ts\<close>):
  the usage count goes up by one when an order takes the coupon and down by one when the order is
  cancelled, and never passes the limit.
\<close>

section \<open>Management\<close>

record CreateCouponDto =
  ccCode :: string
  ccName :: string
  ccDiscountType :: DiscountType
  ccDiscountValue :: decimal
  ccUsageLimit :: "int option"
  ccExpiresAt :: "time option"
  ccIsActive :: "bool option"

text \<open>\<open>(tenantId, code)\<close> is unique, so the insert fails on a code the store already has.\<close>

definition createCoupon :: "env \<Rightarrow> db \<Rightarrow> uuid \<Rightarrow> CreateCouponDto \<Rightarrow> (db \<times> coupon) res" where
  "createCoupon e s tenantId dto =
     (let c = \<lparr>cpId = eFresh e 0, cpTenantId = tenantId, cpCode = upper (ccCode dto), cpName = ccName dto,
               cpDiscountType = ccDiscountType dto, cpDiscountValue = round2 (ccDiscountValue dto),
               cpUsageLimit = ccUsageLimit dto, cpUsageCount = 0, cpExpiresAt = ccExpiresAt dto,
               cpIsActive = case_option True id (ccIsActive dto), cpCreatedAt = eNow e\<rparr>
      in if \<exists>r \<in> set (coupons s). cpTenantId r = tenantId \<and> cpCode r = cpCode c
         then Inl (Conflict ''A record with this value already exists'')
         else Inr (s\<lparr>coupons := coupons s @ [c]\<rparr>, c))"

definition containsInsensitive :: "string \<Rightarrow> string \<Rightarrow> bool" where
  "containsInsensitive p t = contains (lower p) (lower t)"

definition findAllCoupons :: "db \<Rightarrow> uuid \<Rightarrow> PaginationDto \<Rightarrow> coupon PaginatedResult" where
  "findAllCoupons s tenantId q =
     paginate q (findMany (\<lambda>c. cpTenantId c = tenantId
         \<and> (truthy (pgSearch q) \<longrightarrow> containsInsensitive (the (pgSearch q)) (cpCode c)))
       (\<lambda>c. - cpCreatedAt c) (coupons s))"

definition findOneCoupon :: "db \<Rightarrow> uuid \<Rightarrow> uuid \<Rightarrow> coupon res" where
  "findOneCoupon s tenantId cid =
     (case findFirst (\<lambda>c. cpId c = cid \<and> cpTenantId c = tenantId) (coupons s) of
        None \<Rightarrow> Inl (NotFound ''Coupon not found'')
      | Some c \<Rightarrow> Inr c)"

text \<open>For the two nullable columns the outer option says whether the field was sent, the inner its null.\<close>

record UpdateCouponDto =
  ucName :: "string option"
  ucDiscountType :: "DiscountType option"
  ucDiscountValue :: "decimal option"
  ucUsageLimit :: "int option option"
  ucExpiresAt :: "time option option"
  ucIsActive :: "bool option"

definition updateCoupon :: "db \<Rightarrow> uuid \<Rightarrow> uuid \<Rightarrow> UpdateCouponDto \<Rightarrow> db res" where
  "updateCoupon s tenantId cid dto =
     bind_res (findOneCoupon s tenantId cid) (\<lambda>_.
       Inr (s\<lparr>coupons := updateRow cpId cid (\<lambda>c. c\<lparr>
              cpName := case_option (cpName c) id (ucName dto),
              cpDiscountType := case_option (cpDiscountType c) id (ucDiscountType dto),
              cpDiscountValue := case_option (cpDiscountValue c) round2 (ucDiscountValue dto),
              cpUsageLimit := case_option (cpUsageLimit c) id (ucUsageLimit dto),
              cpExpiresAt := case_option (cpExpiresAt c) id (ucExpiresAt dto),
              cpIsActive := case_option (cpIsActive c) id (ucIsActive dto)\<rparr>) (coupons s)\<rparr>))"

definition removeCoupon :: "db \<Rightarrow> uuid \<Rightarrow> uuid \<Rightarrow> db res" where
  "removeCoupon s tenantId cid =
     bind_res (findOneCoupon s tenantId cid) (\<lambda>_.
       Inr (s\<lparr>coupons := updateRow cpId cid (\<lambda>c. c\<lparr>cpIsActive := False\<rparr>) (coupons s)\<rparr>))"

section \<open>Validity\<close>

definition couponExpired :: "time \<Rightarrow> coupon \<Rightarrow> bool" where
  "couponExpired now c = (case cpExpiresAt c of Some x \<Rightarrow> x < now | None \<Rightarrow> False)"

definition couponUsedUp :: "coupon \<Rightarrow> bool" where
  "couponUsedUp c = (case cpUsageLimit c of Some l \<Rightarrow> cpUsageCount c \<ge> l | None \<Rightarrow> False)"

definition activeCoupon :: "db \<Rightarrow> uuid \<Rightarrow> string \<Rightarrow> coupon option" where
  "activeCoupon s tenantId code =
     findFirst (\<lambda>c. cpTenantId c = tenantId \<and> cpCode c = code \<and> cpIsActive c) (coupons s)"

record CouponCheck =
  kcCode :: string
  kcDiscountType :: DiscountType
  kcDiscountValue :: decimal
  kcDiscountAmount :: decimal
  kcTotal :: decimal

definition validateCoupon :: "time \<Rightarrow> db \<Rightarrow> uuid \<Rightarrow> string \<Rightarrow> decimal \<Rightarrow> CouponCheck res" where
  "validateCoupon now s tenantId code subtotal =
     (case activeCoupon s tenantId (upper code) of
        None \<Rightarrow> Inl (BadRequest ''Invalid or inactive coupon'')
      | Some c \<Rightarrow>
          if couponExpired now c then Inl (BadRequest ''Coupon expired'')
          else if couponUsedUp c then Inl (BadRequest ''Coupon usage limit reached'')
          else let discount = applyCouponDiscount subtotal (cpDiscountType c) (cpDiscountValue c)
               in Inr \<lparr>kcCode = cpCode c, kcDiscountType = cpDiscountType c,
                       kcDiscountValue = cpDiscountValue c, kcDiscountAmount = discount,
                       kcTotal = round2 (subtotal - discount)\<rparr>)"

text \<open>The coupon part of \<open>priceOrder\<close>: the coupon a code names and the reason it cannot be used.\<close>

definition couponReason :: "time \<Rightarrow> coupon option \<Rightarrow> string option" where
  "couponReason now found =
     (case found of
        None \<Rightarrow> Some ''Invalid or expired coupon''
      | Some c \<Rightarrow> if couponExpired now c then Some ''Coupon expired''
                  else if couponUsedUp c then Some ''Coupon usage limit reached'' else None)"

definition orderCoupon :: "db \<Rightarrow> uuid \<Rightarrow> string \<Rightarrow> coupon option" where
  "orderCoupon s tenantId couponCode = activeCoupon s tenantId (upper (trim couponCode))"

section \<open>Redemption\<close>

text \<open>One conditional UPDATE: it takes a use only while one is left.\<close>

definition redeemCoupon :: "db \<Rightarrow> coupon \<Rightarrow> db res" where
  "redeemCoupon s c =
     (let free = (\<lambda>r. cpId r = cpId c \<and> (cpUsageLimit r = None
            \<or> cpUsageCount r < (case cpUsageLimit c of Some l \<Rightarrow> l | None \<Rightarrow> 0)))
      in if countRows free (coupons s) = 0
         then Inl (Conflict (''Coupon '' @ cpCode c @ '' usage limit reached''))
         else Inr (s\<lparr>coupons := updateMany free (\<lambda>r. r\<lparr>cpUsageCount := cpUsageCount r + 1\<rparr>) (coupons s)\<rparr>))"

definition returnCoupon :: "uuid option \<Rightarrow> db \<Rightarrow> db" where
  "returnCoupon cid s =
     (case cid of
        None \<Rightarrow> s
      | Some k \<Rightarrow> s\<lparr>coupons := updateMany (\<lambda>r. cpId r = k \<and> cpUsageCount r > 0)
                          (\<lambda>r. r\<lparr>cpUsageCount := cpUsageCount r - 1\<rparr>) (coupons s)\<rparr>)"

text \<open>A coupon's count is between zero and its limit.\<close>

definition couponOk :: "coupon \<Rightarrow> bool" where
  "couponOk c = (0 \<le> cpUsageCount c \<and> (case cpUsageLimit c of Some l \<Rightarrow> cpUsageCount c \<le> l | None \<Rightarrow> True))"

lemma coupons_only:
  "redeemCoupon s c = Inr s' \<Longrightarrow> \<exists>cs. s' = s\<lparr>coupons := cs\<rparr>"
  by (auto simp: redeemCoupon_def Let_def split: if_splits)

lemma returnCoupon_tables [simp]:
  "tenants (returnCoupon k s) = tenants s" "products (returnCoupon k s) = products s"
  "variants (returnCoupon k s) = variants s" "shippings (returnCoupon k s) = shippings s"
  "orders (returnCoupon k s) = orders s" "paymentSettings (returnCoupon k s) = paymentSettings s"
  "assets (returnCoupon k s) = assets s" "deliveries (returnCoupon k s) = deliveries s"
  "grants (returnCoupon k s) = grants s" "outbox (returnCoupon k s) = outbox s"
  "subscriptions (returnCoupon k s) = subscriptions s" "plans (returnCoupon k s) = plans s"
  by (simp_all add: returnCoupon_def split: option.splits)

lemma redeemCoupon_limit_read:
  assumes "rowOf cpId (cpId c) (coupons s) = Some c" "uniqueKeys cpId (coupons s)"
  shows "redeemCoupon s c =
    (if cpUsageLimit c = None \<or> \<not> couponUsedUp c
     then Inr (s\<lparr>coupons := updateRow cpId (cpId c) (\<lambda>r. r\<lparr>cpUsageCount := cpUsageCount r + 1\<rparr>) (coupons s)\<rparr>)
     else Inl (Conflict (''Coupon '' @ cpCode c @ '' usage limit reached'')))"
proof -
  let ?lim = "case cpUsageLimit c of Some l \<Rightarrow> l | None \<Rightarrow> 0"
  let ?free = "\<lambda>r. cpId r = cpId c \<and> (cpUsageLimit r = None \<or> cpUsageCount r < ?lim)"
  have c: "c \<in> set (coupons s)" using assms(1) by (auto dest: rowOf_SomeD)
  have only: "r = c" if "r \<in> set (coupons s)" "cpId r = cpId c" for r
    using assms(1) that by (intro unique_row [OF assms(2)]) (auto dest: rowOf_SomeD)
  let ?ok = "cpUsageLimit c = None \<or> \<not> couponUsedUp c"
  have free: "?free r \<longleftrightarrow> cpId r = cpId c \<and> ?ok" if "r \<in> set (coupons s)" for r
    using only [OF that] by (auto simp: couponUsedUp_def split: option.splits)
  show ?thesis
  proof (cases ?ok)
    case True
    then have "countRows ?free (coupons s) \<noteq> 0" using c free by (auto simp: countRows_0_iff)
    moreover have "updateMany ?free f (coupons s) = updateMany (\<lambda>r. cpId r = cpId c) f (coupons s)" for f
      unfolding updateMany_def using free True by (intro map_cong) auto
    ultimately show ?thesis using True by (simp add: redeemCoupon_def Let_def updateRow_def)
  next
    case False
    then have "countRows ?free (coupons s) = 0" using free by (auto simp: countRows_0_iff)
    with False show ?thesis by (simp add: redeemCoupon_def Let_def)
  qed
qed

text \<open>Giving back the use just taken restores the table.\<close>

lemma returnCoupon_redeemCoupon:
  assumes "rowOf cpId (cpId c) (coupons s) = Some c" "uniqueKeys cpId (coupons s)"
    and "list_all couponOk (coupons s)" and "redeemCoupon s c = Inr s'"
  shows "coupons (returnCoupon (Some (cpId c)) s') = coupons s"
proof -
  have s': "s' = s\<lparr>coupons := updateRow cpId (cpId c) (\<lambda>r. r\<lparr>cpUsageCount := cpUsageCount r + 1\<rparr>) (coupons s)\<rparr>"
    using assms by (simp add: redeemCoupon_limit_read split: if_splits)
  have "updateMany (\<lambda>r. cpId r = k \<and> cpUsageCount r > 0) (\<lambda>r. r\<lparr>cpUsageCount := cpUsageCount r - 1\<rparr>)
      (updateMany (\<lambda>r. cpId r = k) (\<lambda>r. r\<lparr>cpUsageCount := cpUsageCount r + 1\<rparr>) t) = t"
    if "list_all couponOk t" for k t
    using that by (induction t) (auto simp: couponOk_def)
  with assms(3) show ?thesis by (simp add: s' returnCoupon_def updateRow_def)
qed

lemma couponOk_redeem:
  assumes "rowOf cpId (cpId c) (coupons s) = Some c" "uniqueKeys cpId (coupons s)"
    and "list_all couponOk (coupons s)" and "redeemCoupon s c = Inr s'"
  shows "list_all couponOk (coupons s')"
proof -
  have s': "s' = s\<lparr>coupons := updateRow cpId (cpId c) (\<lambda>r. r\<lparr>cpUsageCount := cpUsageCount r + 1\<rparr>) (coupons s)\<rparr>"
      and ok: "cpUsageLimit c = None \<or> \<not> couponUsedUp c"
    using assms by (simp_all add: redeemCoupon_limit_read split: if_splits)
  have only: "r = c" if "r \<in> set (coupons s)" "cpId r = cpId c" for r
    using assms(1) that by (intro unique_row [OF assms(2)]) (auto dest: rowOf_SomeD)
  show ?thesis
    using assms(3) ok
    by (auto simp: s' updateRow_def list_all_iff set_updateMany couponOk_def couponUsedUp_def
        split: option.splits dest: only)
qed

lemma couponOk_return: "list_all couponOk (coupons s) \<Longrightarrow> list_all couponOk (coupons (returnCoupon k s))"
  by (auto simp: returnCoupon_def list_all_iff set_updateMany couponOk_def split: option.splits)

lemma uniqueKeys_returnCoupon [simp]:
  "uniqueKeys cpId (coupons (returnCoupon k s)) = uniqueKeys cpId (coupons s)"
  by (simp add: returnCoupon_def uniqueKeys_updateMany split: option.splits)

end
