(* ===== verification/Digital.thy ===== *)
theory Digital
  imports Coupons "HOL-Library.AList" "HOL-Library.Product_Lexorder" "HOL-Library.List_Lexorder"
begin

text \<open>
  Digital products (\<open>digital/digital.service.ts\<close>, \<open>digital/download-token.util.ts\<close>): the
  delivery of a paid order, its e-mail, the download links and their revocation, the private files
  of a product, the scheduled prices and the buyers' list.

  The object storage is a parameter: the fresh key, whether it is configured, the address it signs
  for a key, if it does, and whether an upload fails. The e-mail job itself belongs to the queue and appears as an effect.
\<close>

section \<open>Download links\<close>

datatype GrantRejection = revoked | expired | exhausted

fun rejection_text :: "GrantRejection \<Rightarrow> string" where
  "rejection_text revoked = ''revoked''"
| "rejection_text expired = ''expired''"
| "rejection_text exhausted = ''exhausted''"

definition grantRejection :: "downloadGrant \<Rightarrow> time \<Rightarrow> GrantRejection option" where
  "grantRejection g now =
     (if dgRevokedAt g \<noteq> None then Some revoked
      else if dgExpiresAt g \<le> now then Some expired
      else if dgDownloadCount g \<ge> dgMaxDownloads g then Some exhausted
      else None)"

section \<open>Delivery\<close>

definition MAX_EMAIL_ATTEMPTS :: nat where
  "MAX_EMAIL_ATTEMPTS = 12"

definition SWEEP_MIN_AGE_MS :: int where
  "SWEEP_MIN_AGE_MS = 5 * 60 * 1000"

definition orderById :: "db \<Rightarrow> uuid \<Rightarrow> order option" where
  "orderById s orderId = rowOf oId orderId (orders s)"

definition deliveryOfOrder :: "db \<Rightarrow> uuid \<Rightarrow> digitalDelivery option" where
  "deliveryOfOrder s orderId = rowOf ddOrderId orderId (deliveries s)"

text \<open>The files an order delivers.\<close>

definition orderAssets :: "db \<Rightarrow> uuid \<Rightarrow> uuid \<Rightarrow> digitalAsset list" where
  "orderAssets s tenantId orderId =
     (case orderById s orderId of
        None \<Rightarrow> []
      | Some ord \<Rightarrow>
          let productIds = List.map_filter iProductId (oItems ord)
          in findMany (\<lambda>a. daTenantId a = tenantId \<and> daProductId a \<in> set productIds)
               (\<lambda>a. (daProductId a, daSortOrder a, daCreatedAt a)) (assets s))"

definition newGrant :: "env \<Rightarrow> uuid \<Rightarrow> uuid \<Rightarrow> nat \<Rightarrow> digitalAsset \<Rightarrow> downloadGrant" where
  "newGrant e tenantId deliveryId i asset =
     \<lparr>dgId = eFresh e (Suc i), dgTenantId = tenantId, dgDeliveryId = deliveryId, dgAssetId = daId asset,
      dgTokenHash = eHash e (eToken e i),
      dgExpiresAt = eNow e + int (eLinkTtlDays e) * 86400000, dgMaxDownloads = eMaxDownloads e,
      dgDownloadCount = 0, dgRevokedAt = None\<rparr>"

definition enqueueSend :: "uuid \<Rightarrow> bool \<Rightarrow> db \<Rightarrow> db" where
  "enqueueSend deliveryId resend s = emit (DigitalSend deliveryId resend) s"

definition createDeliveryForPaidOrder :: "env \<Rightarrow> db \<Rightarrow> uuid \<Rightarrow> uuid \<Rightarrow> db \<times> bool" where
  "createDeliveryForPaidOrder e s tenantId orderId =
     (let as = orderAssets s tenantId orderId
      in if as = [] then (s, False)
         else if deliveryOfOrder s orderId \<noteq> None then (s, False)
         else let d = \<lparr>ddId = eFresh e 0, ddTenantId = tenantId, ddOrderId = orderId,
                       ddStatus = DigitalDeliveryStatus.PENDING, ddEmailAttempts = 0,
                       ddLastError = None, ddSentAt = None, ddRevokedAt = None,
                       ddRevokedReason = None, ddUpdatedAt = eNow e\<rparr>;
                  gs = map (\<lambda>(i, a). newGrant e tenantId (ddId d) i a) (enumerate 0 as)
              in (enqueueSend (ddId d) False
                    (s\<lparr>deliveries := deliveries s @ [d], grants := grants s @ gs\<rparr>), True))"

record PreparedDelivery =
  pdDeliveryId :: uuid
  pdTenantId :: uuid
  pdTo :: string
  pdLocale :: string
  pdVariables :: "(string \<times> string) list"

definition updateDelivery :: "env \<Rightarrow> (digitalDelivery \<Rightarrow> bool) \<Rightarrow> (digitalDelivery \<Rightarrow> digitalDelivery) \<Rightarrow> db \<Rightarrow> db" where
  "updateDelivery e P f s =
     s\<lparr>deliveries := updateMany P (\<lambda>d. (f d)\<lparr>ddUpdatedAt := eNow e\<rparr>) (deliveries s)\<rparr>"

text \<open>The tokens of one e-mail: the \<open>i\<close>-th grant of the delivery gets the \<open>i\<close>-th fresh token.\<close>

definition rotateGrants :: "env \<Rightarrow> (uuid \<times> nat) list \<Rightarrow> downloadGrant list \<Rightarrow> downloadGrant list" where
  "rotateGrants e numbered =
     map (\<lambda>g. case map_of numbered (dgId g) of
            None \<Rightarrow> g
          | Some i \<Rightarrow> g\<lparr>dgTokenHash := eHash e (eToken e i),
              dgExpiresAt := eNow e + int (eLinkTtlDays e) * 86400000, dgDownloadCount := 0,
              dgRevokedAt := None\<rparr>)"

definition downloadLine :: "env \<Rightarrow> db \<Rightarrow> nat \<times> downloadGrant \<Rightarrow> string" where
  "downloadLine e s ig =
     (let base = stripTrailingSlashes (case ePublicWebUrl e of None \<Rightarrow> [] | Some b \<Rightarrow> b);
          label = (case rowOf daId (dgAssetId (snd ig)) (assets s) of Some a \<Rightarrow> daLabel a | None \<Rightarrow> [])
      in label @ '':'' @ [CHR 0x0A] @ base @ ''/api/v1/downloads/'' @ eToken e (fst ig))"

definition prepareDelivery :: "env \<Rightarrow> db \<Rightarrow> uuid \<Rightarrow> bool \<Rightarrow> db \<times> PreparedDelivery option" where
  "prepareDelivery e s deliveryId resend =
     (case rowOf ddId deliveryId (deliveries s) of
        None \<Rightarrow> (s, None)
      | Some d \<Rightarrow>
          if ddStatus d = REVOKED then (s, None)
          else if ddStatus d = SENT \<and> \<not> resend then (s, None)
          else
            (case orderById s (ddOrderId d) of
               None \<Rightarrow> (s, None)
             | Some ord \<Rightarrow>
                 if oPaymentStatus ord \<noteq> PaymentStatus.PAID then (s, None)
                 else if \<not> truthy (oCustomerEmail ord)
                 then (updateDelivery e (\<lambda>r. ddId r = deliveryId)
                         (\<lambda>r. r\<lparr>ddLastError := Some ''Order has no customer email''\<rparr>) s, None)
                 else
                   let gs = enumerate 0 (filter (\<lambda>g. dgDeliveryId g = deliveryId) (grants s));
                       numbered = map (\<lambda>(i, g). (dgId g, i)) gs;
                       nl = [CHR 0x0A, CHR 0x0A];
                       tn = rowOf tId (oTenantId ord) (tenants s)
                   in (s\<lparr>grants := rotateGrants e numbered (grants s)\<rparr>,
                       Some \<lparr>pdDeliveryId = deliveryId, pdTenantId = oTenantId ord,
                         pdTo = the (oCustomerEmail ord),
                         pdLocale = (case tn of Some t \<Rightarrow> tLocale t | None \<Rightarrow> []),
                         pdVariables = [(''customer_name'', oCustomerName ord),
                           (''store_name'', (case tn of Some t \<Rightarrow> tName t | None \<Rightarrow> [])),
                           (''order_no'', oOrderNumber ord),
                           (''download_links'', joinWith nl (map (downloadLine e s) gs)),
                           (''expiry_days'', string_of_nat (eLinkTtlDays e)),
                           (''max_downloads'', string_of_nat (eMaxDownloads e))]\<rparr>)))"

definition markSent :: "env \<Rightarrow> db \<Rightarrow> uuid \<Rightarrow> db" where
  "markSent e s deliveryId =
     updateDelivery e (\<lambda>d. ddId d = deliveryId \<and> ddStatus d \<noteq> REVOKED)
       (\<lambda>d. d\<lparr>ddStatus := SENT, ddSentAt := Some (eNow e), ddLastError := None,
             ddEmailAttempts := ddEmailAttempts d + 1\<rparr>) s"

definition markFailed :: "env \<Rightarrow> db \<Rightarrow> uuid \<Rightarrow> string \<Rightarrow> db" where
  "markFailed e s deliveryId message =
     updateDelivery e (\<lambda>d. ddId d = deliveryId \<and> ddStatus d \<noteq> REVOKED)
       (\<lambda>d. d\<lparr>ddLastError := Some (take 300 message), ddEmailAttempts := ddEmailAttempts d + 1\<rparr>) s"

definition unsent :: "env \<Rightarrow> db \<Rightarrow> digitalDelivery \<Rightarrow> bool" where
  "unsent e s d =
     (ddStatus d = DigitalDeliveryStatus.PENDING \<and> ddEmailAttempts d < MAX_EMAIL_ATTEMPTS
      \<and> ddUpdatedAt d < eNow e - SWEEP_MIN_AGE_MS
      \<and> (case orderById s (ddOrderId d) of Some ord \<Rightarrow> oPaymentStatus ord = PaymentStatus.PAID | None \<Rightarrow> False))"

definition requeueUnsent :: "env \<Rightarrow> db \<Rightarrow> db \<times> nat" where
  "requeueUnsent e s =
     (let stale = take 200 (filter (unsent e s) (deliveries s))
      in (fold (\<lambda>d. enqueueSend (ddId d) False) stale s, length stale))"

definition revokeForOrder :: "env \<Rightarrow> db \<Rightarrow> uuid \<Rightarrow> string \<Rightarrow> db" where
  "revokeForOrder e s orderId reason =
     (case deliveryOfOrder s orderId of
        None \<Rightarrow> s
      | Some d \<Rightarrow>
          if ddStatus d = REVOKED then s
          else let s' = updateDelivery e (\<lambda>r. ddId r = ddId d)
                     (\<lambda>r. r\<lparr>ddStatus := REVOKED, ddRevokedAt := Some (eNow e),
                            ddRevokedReason := Some reason\<rparr>) s
               in s'\<lparr>grants := updateMany (\<lambda>g. dgDeliveryId g = ddId d \<and> dgRevokedAt g = None)
                        (\<lambda>g. g\<lparr>dgRevokedAt := Some (eNow e)\<rparr>) (grants s')\<rparr>)"

definition resend :: "db \<Rightarrow> uuid \<Rightarrow> uuid \<Rightarrow> db res" where
  "resend s tenantId orderId =
     (case findFirst (\<lambda>d. ddOrderId d = orderId \<and> ddTenantId d = tenantId) (deliveries s) of
        None \<Rightarrow> Inl (NotFound ''This order has no digital delivery'')
      | Some d \<Rightarrow>
          if ddStatus d = REVOKED
          then Inl (Conflict (''Download links were disabled (''
                 @ (case ddRevokedReason d of Some r \<Rightarrow> r | None \<Rightarrow> ''revoked'')
                 @ ''); they cannot be resent''))
          else if (case orderById s (ddOrderId d) of
                     Some ord \<Rightarrow> oPaymentStatus ord \<noteq> PaymentStatus.PAID | None \<Rightarrow> True)
          then Inl (Conflict ''The order is not paid'')
          else Inr (enqueueSend (ddId d) True s))"

section \<open>Redeeming a link\<close>

text \<open>Why a link that exists is dead, if it is.\<close>

definition deadReason :: "env \<Rightarrow> db \<Rightarrow> downloadGrant \<Rightarrow> GrantRejection option" where
  "deadReason e s g =
     (case grantRejection g (eNow e) of
        Some r \<Rightarrow> Some r
      | None \<Rightarrow>
          (case rowOf ddId (dgDeliveryId g) (deliveries s) of
             None \<Rightarrow> Some revoked
           | Some d \<Rightarrow>
               if ddStatus d = REVOKED
                  \<or> (case orderById s (ddOrderId d) of
                       Some ord \<Rightarrow> oPaymentStatus ord \<noteq> PaymentStatus.PAID | None \<Rightarrow> True)
               then Some revoked else None))"

text \<open>
  The object storage as a redemption meets it: whether it is configured, and the address it signs for
  a key and a content disposition, if signing works.
\<close>

record digitalStorage =
  dsConfigured :: bool
  dsSign :: "string \<Rightarrow> string \<Rightarrow> string option"

text \<open>The file name with every run of characters outside \<open>[A-Za-z0-9_.\- ]\<close> replaced by one underscore.\<close>

definition plainNameChar :: "char \<Rightarrow> bool" where
  "plainNameChar c = (isDigitChar c \<or> isLetterChar c \<or> c \<in> set ''_.- '')"

function safeName :: "string \<Rightarrow> string" where
  "safeName [] = []"
| "safeName (c # cs) =
     (if plainNameChar c then c # safeName cs
      else CHR 0x5F # safeName (dropWhile (\<lambda>d. \<not> plainNameChar d) cs))"
  by pat_completeness auto
termination by (relation "measure length") (auto simp: le_imp_less_Suc length_dropWhile_le)

definition signedDownloadUrl :: "digitalStorage \<Rightarrow> string \<Rightarrow> string \<Rightarrow> string res" where
  "signedDownloadUrl st key fileName =
     (if \<not> dsConfigured st then Inl (ServiceUnavailable ''Digital file storage is not configured on this platform'')
      else case dsSign st key (''attachment; filename='' @ [CHR 0x22] @ safeName fileName @ [CHR 0x22]) of
             None \<Rightarrow> Inl (InternalError ''signing failed'')
           | Some u \<Rightarrow> Inr u)"

text \<open>
  The count is committed by the transaction before the address is signed: when signing fails the
  request fails and the download stays counted.
\<close>

definition redeem :: "env \<Rightarrow> digitalStorage \<Rightarrow> db \<Rightarrow> string \<Rightarrow> db \<times> string res" where
  "redeem e st s token =
     (case rowOf dgTokenHash (eHash e token) (grants s) of
        None \<Rightarrow> (s, Inl (NotFound ''Download link not found''))
      | Some g \<Rightarrow>
          (case deadReason e s g of
             Some r \<Rightarrow> (s, Inl (Gone (''This download link is no longer valid ('' @ rejection_text r @ '')'')))
           | None \<Rightarrow>
               let live = (\<lambda>r. dgId r = dgId g \<and> dgRevokedAt r = None \<and> dgExpiresAt r > eNow e
                             \<and> dgDownloadCount r < dgMaxDownloads g)
               in if countRows live (grants s) = 0
                  then (s, Inl (Gone ''This download link is no longer valid (exhausted)''))
                  else (s\<lparr>grants := updateMany live (\<lambda>r. r\<lparr>dgDownloadCount := dgDownloadCount r + 1\<rparr>)
                             (grants s)\<rparr>,
                        (case rowOf daId (dgAssetId g) (assets s) of
                           Some a \<Rightarrow> signedDownloadUrl st (daStorageKey a) (daFileName a)
                         | None \<Rightarrow> Inl RecordNotFound))))"

section \<open>Files\<close>

definition isPdf :: "string \<Rightarrow> bool" where
  "isPdf b = (take 5 b = ''%PDF-'')"

definition isZip :: "string \<Rightarrow> bool" where
  "isZip b = (take 2 b = [CHR 0x50, CHR 0x4B])"

text \<open>Content type, extension and check of the accepted files.\<close>

definition FILE_SIGNATURES :: "(string \<times> string \<times> (string \<Rightarrow> bool)) list" where
  "FILE_SIGNATURES = [(''application/pdf'', ''pdf'', isPdf), (''application/zip'', ''zip'', isZip),
     (''application/epub+zip'', ''epub'', isZip)]"

definition assertDigitalProduct :: "db \<Rightarrow> uuid \<Rightarrow> uuid \<Rightarrow> unit res" where
  "assertDigitalProduct s tenantId productId =
     (case rowOf tId tenantId (tenants s) of
        None \<Rightarrow> Inl RecordNotFound
      | Some t \<Rightarrow>
          if tCatalogType t \<noteq> DIGITAL then Inl (BadRequest ''This store sells physical products'')
          else if findFirst (\<lambda>p. pId p = productId \<and> pTenantId p = tenantId) (products s) = None
          then Inl (NotFound ''Product not found'')
          else Inr ())"

definition ofProduct :: "uuid \<Rightarrow> uuid \<Rightarrow> digitalAsset \<Rightarrow> bool" where
  "ofProduct tenantId productId a = (daTenantId a = tenantId \<and> daProductId a = productId)"

definition listAssets :: "db \<Rightarrow> uuid \<Rightarrow> uuid \<Rightarrow> digitalAsset list" where
  "listAssets s tenantId productId =
     findMany (ofProduct tenantId productId) (\<lambda>a. (daSortOrder a, daCreatedAt a)) (assets s)"

record uploadedFile =
  ufBuffer :: string
  ufOriginalName :: string

definition addAsset ::
    "env \<Rightarrow> (uuid \<Rightarrow> uuid \<Rightarrow> string) \<Rightarrow> (string \<Rightarrow> string option) \<Rightarrow> db \<Rightarrow> uuid \<Rightarrow> uuid \<Rightarrow>
     uploadedFile \<Rightarrow> string \<Rightarrow> (db \<times> digitalAsset) res" where
  "addAsset e newKey putError s tenantId productId file label =
     bind_res (assertDigitalProduct s tenantId productId) (\<lambda>_.
       if ufBuffer file = [] then Inl (BadRequest ''No file received'')
       else if length (ufBuffer file) > eMaxFileMb e * 1024 * 1024
       then Inl (BadRequest (''File exceeds '' @ string_of_nat (eMaxFileMb e) @ '' MB''))
       else
         (case List.find (\<lambda>(_, ext, matches). matches (ufBuffer file)
                 \<and> endsWith (''.'' @ ext) (lower (ufOriginalName file))) FILE_SIGNATURES of
            None \<Rightarrow> Inl (BadRequest ''Only PDF, EPUB or ZIP files are accepted'')
          | Some (type, _) \<Rightarrow>
              let key = newKey tenantId productId
              in (case putError key of
                    Some m \<Rightarrow> Inl (InternalError m)
                  | None \<Rightarrow>
                      let a = \<lparr>daId = eFresh e 0, daTenantId = tenantId, daProductId = productId,
                               daLabel = label, daFileName = take 200 (ufOriginalName file),
                               daStorageKey = key, daContentType = type,
                               daSizeBytes = length (ufBuffer file),
                               daSortOrder = countRows (ofProduct tenantId productId) (assets s),
                               daCreatedAt = eNow e\<rparr>
                      in Inr (emit (PutObject key) (s\<lparr>assets := assets s @ [a]\<rparr>), a))))"

definition removeAsset :: "db \<Rightarrow> uuid \<Rightarrow> uuid \<Rightarrow> uuid \<Rightarrow> db res" where
  "removeAsset s tenantId productId assetId =
     (case findFirst (\<lambda>a. daId a = assetId \<and> ofProduct tenantId productId a) (assets s) of
        None \<Rightarrow> Inl (NotFound ''File not found'')
      | Some a \<Rightarrow>
          if countRows (\<lambda>g. dgAssetId g = assetId) (grants s) > 0
          then Inl (Conflict ''This file was already delivered to buyers and cannot be deleted'')
          else Inr (emit (RemoveObject (daStorageKey a))
                 (s\<lparr>assets := filter (\<lambda>r. daId r \<noteq> assetId) (assets s)\<rparr>)))"

text \<open>The lines of orders that still need the product's files.\<close>

definition dependants :: "db \<Rightarrow> uuid \<Rightarrow> nat" where
  "dependants s productId =
     sum_list (map (\<lambda>ord. if deliveryOfOrder s (oId ord) \<noteq> None
                          \<or> oStatus ord \<in> {OrderStatus.PENDING, CONFIRMED, PROCESSING}
                        then countRows (\<lambda>i. iProductId i = Some productId) (oItems ord) else 0) (orders s))"

definition filesForProductDeletion :: "db \<Rightarrow> uuid \<Rightarrow> uuid \<Rightarrow> string list res" where
  "filesForProductDeletion s tenantId productId =
     (let as = filter (ofProduct tenantId productId) (assets s)
      in if as = [] then Inr []
         else if dependants s productId > 0
         then Inl (Conflict (''This product has orders and cannot be deleted: its buyers would lose ''
                @ ''their downloads. Unpublish it instead.''))
         else Inr (map daStorageKey as))"

definition removeStoredFiles :: "string list \<Rightarrow> db \<Rightarrow> db" where
  "removeStoredFiles keys s = emits (map RemoveObject keys) s"

section \<open>Scheduled prices\<close>

definition listSchedule :: "db \<Rightarrow> uuid \<Rightarrow> uuid \<Rightarrow> priceSchedule list" where
  "listSchedule s tenantId productId =
     findMany (\<lambda>r. psTenantId r = tenantId \<and> psProductId r = productId) psEffectiveFrom (schedules s)"

definition addSchedule ::
    "env \<Rightarrow> db \<Rightarrow> uuid \<Rightarrow> uuid \<Rightarrow> decimal \<Rightarrow> time \<Rightarrow> (db \<times> priceSchedule) res" where
  "addSchedule e s tenantId productId price effectiveFrom =
     (if findFirst (\<lambda>p. pId p = productId \<and> pTenantId p = tenantId) (products s) = None
      then Inl (NotFound ''Product not found'')
      else if effectiveFrom \<le> eNow e
      then Inl (BadRequest ''The effective date must be in the future'')
      else if findFirst (\<lambda>r. psProductId r = productId \<and> psEffectiveFrom r = effectiveFrom) (schedules s) \<noteq> None
      then Inl (Conflict ''A price change is already scheduled for that moment'')
      else let r = \<lparr>psId = eFresh e 0, psTenantId = tenantId, psProductId = productId,
                    psPrice = round2 price, psEffectiveFrom = effectiveFrom, psAppliedAt = None\<rparr>
           in Inr (s\<lparr>schedules := schedules s @ [r]\<rparr>, r))"

definition removeSchedule :: "db \<Rightarrow> uuid \<Rightarrow> uuid \<Rightarrow> uuid \<Rightarrow> db res" where
  "removeSchedule s tenantId productId sid =
     (case findFirst (\<lambda>r. psId r = sid \<and> psTenantId r = tenantId \<and> psProductId r = productId) (schedules s) of
        None \<Rightarrow> Inl (NotFound ''Scheduled price not found'')
      | Some r \<Rightarrow>
          if psAppliedAt r \<noteq> None then Inl (Conflict ''This price change was already applied'')
          else Inr (s\<lparr>schedules := filter (\<lambda>q. psId q \<noteq> sid) (schedules s)\<rparr>))"

text \<open>The \<open>Map\<close> of the latest due row per product, in order of first insertion.\<close>

definition latestDue :: "priceSchedule list \<Rightarrow> (uuid \<times> priceSchedule) list" where
  "latestDue due = fold (\<lambda>row. AList.update (psProductId row) row) due []"

definition dueSchedules :: "time \<Rightarrow> db \<Rightarrow> priceSchedule list" where
  "dueSchedules now s =
     findMany (\<lambda>r. psAppliedAt r = None \<and> psEffectiveFrom r \<le> now) psEffectiveFrom (schedules s)"

definition applyDuePrices :: "time \<Rightarrow> db \<Rightarrow> db \<times> nat" where
  "applyDuePrices now s =
     (let due = dueSchedules now s;
          latest = latestDue due;
          ps = fold (\<lambda>(_, row). updateMany (\<lambda>p. pId p = psProductId row) (\<lambda>p. p\<lparr>pPrice := psPrice row\<rparr>))
                 latest (products s);
          rs = updateMany (\<lambda>r. psId r \<in> set (map psId due)) (\<lambda>r. r\<lparr>psAppliedAt := Some now\<rparr>) (schedules s)
      in (s\<lparr>products := ps, schedules := rs\<rparr>, length latest))"

section \<open>Buyers\<close>

record BuyersQueryDto =
  bqPage :: PaginationDto
  bqPaymentStatus :: "PaymentStatus option"
  bqProvider :: "FulfillmentMethod option"
  bqDateFrom :: "time option"
  bqDateTo :: "time option"

definition buyersWhere :: "uuid \<Rightarrow> BuyersQueryDto \<Rightarrow> order \<Rightarrow> bool" where
  "buyersWhere tenantId q ord =
     (oTenantId ord = tenantId \<and> oHiddenAt ord = None
      \<and> (case bqPaymentStatus q of Some p \<Rightarrow> oPaymentStatus ord = p | None \<Rightarrow> True)
      \<and> (case bqProvider q of Some m \<Rightarrow> oFulfillmentMethod ord = m | None \<Rightarrow> True)
      \<and> (truthy (pgSearch (bqPage q)) \<longrightarrow>
           (let t = the (pgSearch (bqPage q))
            in containsInsensitive t (oOrderNumber ord) \<or> containsInsensitive t (oCustomerName ord)
               \<or> (case oCustomerEmail ord of Some m \<Rightarrow> containsInsensitive t m | None \<Rightarrow> False)))
      \<and> (case bqDateFrom q of Some d \<Rightarrow> d \<le> oCreatedAt ord | None \<Rightarrow> True)
      \<and> (case bqDateTo q of Some d \<Rightarrow> oCreatedAt ord \<le> d | None \<Rightarrow> True))"

record BuyerRow =
  brOrderId :: uuid
  brOrderNumber :: string
  brCustomerName :: string
  brCustomerEmail :: "string option"
  brProducts :: "string list"
  brAmount :: decimal
  brCurrency :: string
  brCreatedAt :: time
  brPaymentStatus :: PaymentStatus
  brOrderStatus :: OrderStatus
  brProvider :: FulfillmentMethod
  brDeliveryStatus :: "DigitalDeliveryStatus option"
  brEmailAttempts :: nat
  brLastError :: "string option"
  brSentAt :: "time option"
  brDownloads :: nat

definition toBuyerRow :: "db \<Rightarrow> order \<Rightarrow> BuyerRow" where
  "toBuyerRow s ord =
     (let d = deliveryOfOrder s (oId ord);
          gs = (case d of None \<Rightarrow> [] | Some dv \<Rightarrow> filter (\<lambda>g. dgDeliveryId g = ddId dv) (grants s))
      in \<lparr>brOrderId = oId ord, brOrderNumber = oOrderNumber ord, brCustomerName = oCustomerName ord,
          brCustomerEmail = oCustomerEmail ord, brProducts = map iProductName (oItems ord),
          brAmount = oGrandTotal ord, brCurrency = oCurrency ord, brCreatedAt = oCreatedAt ord,
          brPaymentStatus = oPaymentStatus ord, brOrderStatus = oStatus ord,
          brProvider = oFulfillmentMethod ord, brDeliveryStatus = map_option ddStatus d,
          brEmailAttempts = (case d of Some dv \<Rightarrow> ddEmailAttempts dv | None \<Rightarrow> 0),
          brLastError = (case d of Some dv \<Rightarrow> ddLastError dv | None \<Rightarrow> None),
          brSentAt = (case d of Some dv \<Rightarrow> ddSentAt dv | None \<Rightarrow> None),
          brDownloads = sum_list (map dgDownloadCount gs)\<rparr>)"

text \<open>Newest first, ties by descending id.\<close>

definition buyersRows :: "db \<Rightarrow> uuid \<Rightarrow> BuyersQueryDto \<Rightarrow> order list" where
  "buyersRows s tenantId q =
     rev (findMany (buyersWhere tenantId q) (\<lambda>ord. (oCreatedAt ord, oId ord)) (orders s))"

definition listBuyers :: "db \<Rightarrow> uuid \<Rightarrow> BuyersQueryDto \<Rightarrow> BuyerRow PaginatedResult" where
  "listBuyers s tenantId q = paginate (bqPage q) (map (toBuyerRow s) (buyersRows s tenantId q))"

fun delivery_text :: "DigitalDeliveryStatus \<Rightarrow> string" where
  "delivery_text DigitalDeliveryStatus.PENDING = ''PENDING''"
| "delivery_text SENT = ''SENT''"
| "delivery_text REVOKED = ''REVOKED''"

definition optCell :: "string option \<Rightarrow> cell" where
  "optCell t = (case t of Some x \<Rightarrow> CStr x | None \<Rightarrow> CNull)"

definition exportBuyersCsv :: "db \<Rightarrow> uuid \<Rightarrow> BuyersQueryDto \<Rightarrow> string" where
  "exportBuyersCsv s tenantId q =
     (let rows = take 20000 (findMany (buyersWhere tenantId q) (\<lambda>ord. - oCreatedAt ord) (orders s))
      in toCsv [''Order'', ''Date'', ''Name'', ''Email'', ''Product'', ''Amount'', ''Currency'',
                ''Payment status'', ''Payment provider'', ''Delivery'', ''Email attempts'', ''Downloads'']
           (map (\<lambda>ord. let b = toBuyerRow s ord in
               [CStr (brOrderNumber b), CStr (toISOString (brCreatedAt b)), CStr (brCustomerName b),
                optCell (brCustomerEmail b), CStr (joinWith '' + '' (brProducts b)), CDec (brAmount b),
                CStr (brCurrency b), CStr (payment_text (brPaymentStatus b)),
                CStr (method_text (brProvider b)), optCell (map_option delivery_text (brDeliveryStatus b)),
                CNat (brEmailAttempts b), CNat (brDownloads b)]) rows))"

section \<open>Facts\<close>

lemma createDelivery_tables [table_simps]:
  "tenants (fst (createDeliveryForPaidOrder e s t k)) = tenants s"
  "products (fst (createDeliveryForPaidOrder e s t k)) = products s"
  "variants (fst (createDeliveryForPaidOrder e s t k)) = variants s"
  "coupons (fst (createDeliveryForPaidOrder e s t k)) = coupons s"
  "orders (fst (createDeliveryForPaidOrder e s t k)) = orders s"
  "paymentSettings (fst (createDeliveryForPaidOrder e s t k)) = paymentSettings s"
  "assets (fst (createDeliveryForPaidOrder e s t k)) = assets s"
  by (simp_all add: createDeliveryForPaidOrder_def enqueueSend_def Let_def)

lemma revokeForOrder_tables [table_simps]:
  "tenants (revokeForOrder e s k r) = tenants s"
  "products (revokeForOrder e s k r) = products s"
  "variants (revokeForOrder e s k r) = variants s"
  "coupons (revokeForOrder e s k r) = coupons s"
  "orders (revokeForOrder e s k r) = orders s"
  "paymentSettings (revokeForOrder e s k r) = paymentSettings s"
  "assets (revokeForOrder e s k r) = assets s"
  "outbox (revokeForOrder e s k r) = outbox s"
  by (simp_all add: revokeForOrder_def updateDelivery_def Let_def split: option.splits)

lemma createDelivery_outbox:
  "outbox (fst (createDeliveryForPaidOrder e s t k)) =
     (if snd (createDeliveryForPaidOrder e s t k) then outbox s @ [DigitalSend (eFresh e 0) False] else outbox s)"
  by (simp add: createDeliveryForPaidOrder_def enqueueSend_def Let_def)

lemma orderById_cong: "orders s' = orders s \<Longrightarrow> orderById s' k = orderById s k"
  by (simp add: orderById_def)

lemma deliveryOfOrder_unique:
  assumes "uniqueKeys ddOrderId (deliveries s)" "d \<in> set (deliveries s)"
  shows "deliveryOfOrder s (ddOrderId d) = Some d"
  unfolding deliveryOfOrder_def using assms by (rule rowOf_unique)

lemma deliveries_unique_create:
  "uniqueKeys ddOrderId (deliveries s) \<Longrightarrow>
    uniqueKeys ddOrderId (deliveries (fst (createDeliveryForPaidOrder e s t k)))"
  by (simp add: createDeliveryForPaidOrder_def enqueueSend_def Let_def deliveryOfOrder_def uniqueKeys_append1)

lemma deliveries_unique_revoke:
  "uniqueKeys ddOrderId (deliveries s) \<Longrightarrow> uniqueKeys ddOrderId (deliveries (revokeForOrder e s k r))"
  by (simp add: revokeForOrder_def updateDelivery_def Let_def uniqueKeys_updateMany split: option.splits)

lemma deliveryOfOrder_create:
  "snd (createDeliveryForPaidOrder e s t k) \<Longrightarrow>
    deliveryOfOrder s k = None \<and> deliveryOfOrder (fst (createDeliveryForPaidOrder e s t k)) k \<noteq> None"
  by (auto simp: createDeliveryForPaidOrder_def enqueueSend_def deliveryOfOrder_def Let_def rowOf_append1
      split: if_splits)

lemma createDelivery_again:
  "deliveryOfOrder s k \<noteq> None \<Longrightarrow> createDeliveryForPaidOrder e s t k = (s, False)"
  by (simp add: createDeliveryForPaidOrder_def Let_def)

lemma revoked_delivery:
  assumes "deliveryOfOrder s k = Some d"
  shows "\<exists>d'. deliveryOfOrder (revokeForOrder e s k r) k = Some d' \<and> ddId d' = ddId d \<and> ddStatus d' = REVOKED"
proof (cases "ddStatus d = REVOKED")
  case False
  have "rowOf ddOrderId k (updateMany (\<lambda>q. ddId q = ddId d)
      (\<lambda>q. q\<lparr>ddStatus := REVOKED, ddRevokedAt := Some (eNow e), ddRevokedReason := Some r, ddUpdatedAt := eNow e\<rparr>)
      (deliveries s)) = Some (d\<lparr>ddStatus := REVOKED, ddRevokedAt := Some (eNow e), ddRevokedReason := Some r,
        ddUpdatedAt := eNow e\<rparr>)"
    using assms by (subst rowOf_updateMany) (simp_all add: deliveryOfOrder_def)
  with False assms show ?thesis
    by (simp add: revokeForOrder_def updateDelivery_def Let_def deliveryOfOrder_def)
qed (use assms in \<open>simp add: revokeForOrder_def\<close>)

lemma revokeForOrder_idem:
  "revokeForOrder e2 (revokeForOrder e s k r) k r2 = revokeForOrder e s k r"
proof (cases "deliveryOfOrder s k")
  case None
  then show ?thesis by (simp add: revokeForOrder_def)
next
  case (Some d)
  from revoked_delivery [OF this] obtain d'
    where "deliveryOfOrder (revokeForOrder e s k r) k = Some d'" "ddStatus d' = REVOKED" by blast
  then show ?thesis by (simp add: revokeForOrder_def [of e2])
qed

subsection \<open>Counting downloads\<close>

text \<open>Whether a redemption counts a download, before anything is signed.\<close>

definition countedGrant :: "env \<Rightarrow> db \<Rightarrow> string \<Rightarrow> bool" where
  "countedGrant e s token =
     (case rowOf dgTokenHash (eHash e token) (grants s) of None \<Rightarrow> False
      | Some g \<Rightarrow> deadReason e s g = None
          \<and> countRows (\<lambda>r. dgId r = dgId g \<and> dgRevokedAt r = None \<and> dgExpiresAt r > eNow e
              \<and> dgDownloadCount r < dgMaxDownloads g) (grants s) \<noteq> 0)"

lemma redeem_refused:
  assumes "\<not> countedGrant e s token"
  shows "\<exists>er. redeem e st s token = (s, Inl er) \<and> http_status er \<in> {404, 410}"
  using assms by (auto simp: redeem_def countedGrant_def split: option.splits)

lemma redeem_counted:
  assumes "countedGrant e s token" and "uniqueKeys dgId (grants s)"
  shows "\<exists>g. rowOf dgTokenHash (eHash e token) (grants s) = Some g
    \<and> dgDownloadCount g < dgMaxDownloads g
    \<and> fst (redeem e st s token)
      = s\<lparr>grants := updateRow dgId (dgId g) (\<lambda>r. r\<lparr>dgDownloadCount := dgDownloadCount r + 1\<rparr>) (grants s)\<rparr>"
proof -
  obtain g where g: "rowOf dgTokenHash (eHash e token) (grants s) = Some g" "deadReason e s g = None"
    using assms(1) by (auto simp: countedGrant_def split: option.splits)
  define live where "live = (\<lambda>r :: downloadGrant. dgId r = dgId g \<and> dgRevokedAt r = None \<and> dgExpiresAt r > eNow e
      \<and> dgDownloadCount r < dgMaxDownloads g)"
  have n: "countRows live (grants s) \<noteq> 0"
    using assms(1) g by (simp add: countedGrant_def live_def)
  have s': "fst (redeem e st s token)
      = s\<lparr>grants := updateMany live (\<lambda>r. r\<lparr>dgDownloadCount := dgDownloadCount r + 1\<rparr>) (grants s)\<rparr>"
    using n g by (simp add: redeem_def Let_def live_def [symmetric])
  have gin: "g \<in> set (grants s)" using g(1) by (auto dest: rowOf_SomeD)
  have only: "q = g" if "q \<in> set (grants s)" "dgId q = dgId g" for q
    using assms(2) that(1) gin that(2) by (rule unique_row)
  from n obtain q where "q \<in> set (grants s)" "live q" by (auto simp: countRows_0_iff)
  moreover from this have "q = g" by (intro only) (simp_all add: live_def)
  ultimately have lg: "live g" by simp
  have "updateMany live f (grants s) = updateMany (\<lambda>r. dgId r = dgId g) f (grants s)" for f
    unfolding updateMany_def
  proof (intro map_cong refl)
    fix q assume "q \<in> set (grants s)"
    then have "live q \<longleftrightarrow> dgId q = dgId g" using only lg by (metis live_def)
    then show "(if live q then f q else q) = (if dgId q = dgId g then f q else q)" by simp
  qed
  with s' lg g show ?thesis by (auto simp: live_def updateRow_def)
qed

text \<open>
  A run of redemptions, each in its own environment and with the storage as it then is: the hashes
  whose file was handed out, and those whose download failed on the storage's side (a status of 500 or above).
\<close>

fun redeemSeq :: "db \<Rightarrow> (env \<times> digitalStorage \<times> string) list \<Rightarrow> db \<times> string list \<times> string list" where
  "redeemSeq s [] = (s, [], [])"
| "redeemSeq s ((e, st, token) # rs) =
     (case redeem e st s token of
        (s', r) \<Rightarrow> (case redeemSeq s' rs of (s'', served, lost) \<Rightarrow>
          (case r of
             Inr _ \<Rightarrow> (s'', eHash e token # served, lost)
           | Inl er \<Rightarrow> (s'', served, (if http_status er \<ge> 500 then eHash e token # lost else lost)))))"

lemma signedDownloadUrl_status:
  "signedDownloadUrl st k n = Inl er \<Longrightarrow> http_status er \<ge> 500"
  by (auto simp: signedDownloadUrl_def split: if_splits option.splits)

text \<open>Every grant keeps its asset (a foreign key of the schema).\<close>

definition grantsOk :: "db \<Rightarrow> bool" where
  "grantsOk s = (uniqueKeys dgId (grants s) \<and> uniqueKeys dgTokenHash (grants s)
     \<and> list_all (\<lambda>g. dgDownloadCount g \<le> dgMaxDownloads g) (grants s)
     \<and> list_all (\<lambda>g. rowOf daId (dgAssetId g) (assets s) \<noteq> None) (grants s))"

lemma grantsOk_redeem:
  assumes "grantsOk s"
  shows "grantsOk (fst (redeem e st s token))" (is ?ok)
    and "rowOf dgTokenHash h (grants (fst (redeem e st s token)))
      = map_option (\<lambda>g. if eHash e token = h \<and> countedGrant e s token
          then g\<lparr>dgDownloadCount := dgDownloadCount g + 1\<rparr> else g) (rowOf dgTokenHash h (grants s))" (is ?row)
proof -
  have u: "uniqueKeys dgId (grants s)" "uniqueKeys dgTokenHash (grants s)"
      "list_all (\<lambda>g. dgDownloadCount g \<le> dgMaxDownloads g) (grants s)"
      "list_all (\<lambda>g. rowOf daId (dgAssetId g) (assets s) \<noteq> None) (grants s)"
    using assms by (auto simp: grantsOk_def)
  have "?ok \<and> ?row"
  proof (cases "countedGrant e s token")
    case False
    then have "fst (redeem e st s token) = s" using redeem_refused [OF False, where st = st] by auto
    with False assms show ?thesis by (simp add: option.map_ident)
  next
    case True
    define s' where "s' = fst (redeem e st s token)"
    from redeem_counted [OF True u(1), where st = st] obtain g where
      g: "rowOf dgTokenHash (eHash e token) (grants s) = Some g" "dgDownloadCount g < dgMaxDownloads g"
      and s': "s' = s\<lparr>grants := updateRow dgId (dgId g)
          (\<lambda>r. r\<lparr>dgDownloadCount := dgDownloadCount r + 1\<rparr>) (grants s)\<rparr>"
      unfolding s'_def by blast
    have gin: "g \<in> set (grants s)" "dgTokenHash g = eHash e token" using g(1) by (auto dest: rowOf_SomeD)
    have only: "q = g" if "q \<in> set (grants s)" "dgId q = dgId g" for q
      using u(1) that(1) gin(1) that(2) by (rule unique_row)
    have rowOk: "dgDownloadCount q \<le> dgMaxDownloads q \<and> rowOf daId (dgAssetId q) (assets s) \<noteq> None"
      if "q \<in> set (grants s')" for q
    proof -
      from that obtain q0 where q0: "q0 \<in> set (grants s)"
          "q = (if dgId q0 = dgId g then q0\<lparr>dgDownloadCount := dgDownloadCount q0 + 1\<rparr> else q0)"
        by (auto simp: s' updateRow_def set_updateMany)
      have "dgDownloadCount q0 \<le> dgMaxDownloads q0" "rowOf daId (dgAssetId q0) (assets s) \<noteq> None"
        using u(3,4) q0(1) by (simp_all add: list_all_iff)
      with q0 only [OF q0(1)] g(2) show ?thesis by (cases "dgId q0 = dgId g") auto
    qed
    have as: "assets s' = assets s" by (simp add: s')
    have "grantsOk s'"
      unfolding grantsOk_def list_all_iff as
      using u(1,2) rowOk by (auto simp: s' uniqueKeys_updateRow)
    moreover have key: "dgId q = dgId g \<longleftrightarrow> dgTokenHash q = eHash e token" if "q \<in> set (grants s)" for q
      using rowOf_unique [OF u(2) that] g(1) only [OF that] gin(2) by (metis option.inject)
    have "updateRow dgId (dgId g) f (grants s) = updateMany (\<lambda>r. dgTokenHash r = eHash e token) f (grants s)" for f
      unfolding updateRow_def updateMany_def using key by (intro map_cong) auto
    then have "rowOf dgTokenHash h (grants s') = map_option (\<lambda>g. if eHash e token = h
        then g\<lparr>dgDownloadCount := dgDownloadCount g + 1\<rparr> else g) (rowOf dgTokenHash h (grants s))"
      by (auto simp: s' rowOf_updateMany dest: rowOf_SomeD intro!: map_option_cong)
    ultimately show ?thesis using True by (simp add: s'_def)
  qed
  then show ?ok ?row by simp_all
qed

text \<open>What one redemption answers: a refusal (404 or 410) when nothing is counted, else the file or a
  failure of the storage.\<close>

lemma redeem_answer:
  assumes "grantsOk s"
  shows "case snd (redeem e st s token) of
      Inr _ \<Rightarrow> countedGrant e s token
    | Inl er \<Rightarrow> countedGrant e s token \<longleftrightarrow> http_status er \<ge> 500"
proof (cases "countedGrant e s token")
  case False
  from redeem_refused [OF False, where st = st] show ?thesis using False by auto
next
  case True
  then obtain g where g: "rowOf dgTokenHash (eHash e token) (grants s) = Some g" "deadReason e s g = None"
    by (auto simp: countedGrant_def split: option.splits)
  have "rowOf daId (dgAssetId g) (assets s) \<noteq> None"
    using rowOf_SomeD [OF g(1)] assms by (auto simp: grantsOk_def list_all_iff)
  then obtain a where "rowOf daId (dgAssetId g) (assets s) = Some a" by blast
  then have "snd (redeem e st s token) = signedDownloadUrl st (daStorageKey a) (daFileName a)"
    using True g by (simp add: redeem_def countedGrant_def)
  with True show ?thesis by (auto split: sum.split dest: signedDownloadUrl_status)
qed

lemma redeemSeq_count:
  assumes "redeemSeq s rs = (s', served, lost)" and "grantsOk s"
    and "rowOf dgTokenHash h (grants s) = Some g"
  shows "grantsOk s' \<and> (\<exists>g'. rowOf dgTokenHash h (grants s') = Some g'
    \<and> dgMaxDownloads g' = dgMaxDownloads g
    \<and> dgDownloadCount g' = dgDownloadCount g + count_list served h + count_list lost h)"
  using assms
proof (induction s rs arbitrary: s' served lost g rule: redeemSeq.induct)
  case (2 s e st token rs)
  obtain s1 r where r: "redeem e st s token = (s1, r)" by fastforce
  obtain served1 lost1 where rest: "redeemSeq s1 rs = (s', served1, lost1)"
    using 2(2) r by (auto split: prod.splits sum.splits if_splits)
  have s1: "s1 = fst (redeem e st s token)" by (simp add: r)
  note step = grantsOk_redeem [OF 2(3), where e = e and st = st and token = token, folded s1]
  have row: "rowOf dgTokenHash h (grants s1) = Some (if eHash e token = h \<and> countedGrant e s token
      then g\<lparr>dgDownloadCount := dgDownloadCount g + 1\<rparr> else g)"
    using step(2) [where h = h] 2(4) by simp
  from 2(1) [OF r [symmetric] rest step(1) row] redeem_answer [OF 2(3), where e = e and st = st and token = token] 2(2) rest
  show ?case by (cases r) (auto simp: r split: if_splits)
qed simp

subsection \<open>Scheduled prices\<close>

lemma map_of_latestDue_aux:
  "map_of (fold (\<lambda>row. AList.update (psProductId row) row) due al) k =
    (case filter (\<lambda>r. psProductId r = k) due of [] \<Rightarrow> map_of al k | x # xs \<Rightarrow> Some (last (x # xs)))"
proof (induction due arbitrary: al)
  case (Cons r due)
  have "map_of (AList.update (psProductId r) r al) k = (if k = psProductId r then Some r else map_of al k)"
    by (simp add: update_conv')
  with Cons show ?case by (auto split: list.splits)
qed simp

lemma map_of_latestDue:
  "map_of (latestDue due) k =
    (if \<exists>r \<in> set due. psProductId r = k then Some (last (filter (\<lambda>r. psProductId r = k) due)) else None)"
  unfolding latestDue_def map_of_latestDue_aux
proof (cases "filter (\<lambda>r. psProductId r = k) due")
  case Nil
  then have "\<not> (\<exists>r \<in> set due. psProductId r = k)" by (simp add: filter_empty_conv)
  with Nil show "(case filter (\<lambda>r. psProductId r = k) due of [] \<Rightarrow> map_of [] k | x # xs \<Rightarrow> Some (last (x # xs)))
    = (if \<exists>r \<in> set due. psProductId r = k then Some (last (filter (\<lambda>r. psProductId r = k) due)) else None)"
    by simp
next
  case (Cons x xs)
  then have "x \<in> set (filter (\<lambda>r. psProductId r = k) due)" by simp
  then have "\<exists>r \<in> set due. psProductId r = k" by auto
  with Cons show "(case filter (\<lambda>r. psProductId r = k) due of [] \<Rightarrow> map_of [] k | x # xs \<Rightarrow> Some (last (x # xs)))
    = (if \<exists>r \<in> set due. psProductId r = k then Some (last (filter (\<lambda>r. psProductId r = k) due)) else None)"
    by simp
qed

definition keyedBy :: "(uuid \<times> priceSchedule) list \<Rightarrow> bool" where
  "keyedBy al = (distinct (map fst al) \<and> list_all (\<lambda>(k, r). psProductId r = k) al)"

lemma keyedBy_update: "keyedBy al \<Longrightarrow> keyedBy (AList.update (psProductId r) r al)"
proof -
  assume a: "keyedBy al"
  have "list_all (\<lambda>(k, r). psProductId r = k) al \<Longrightarrow>
      list_all (\<lambda>(k, r). psProductId r = k) (AList.update (psProductId r) r al)"
    by (induction al) auto
  with a show ?thesis by (simp add: keyedBy_def distinct_update)
qed

lemma latestDue_wf: "keyedBy (latestDue due)"
proof -
  have "keyedBy al \<Longrightarrow> keyedBy (fold (\<lambda>row. AList.update (psProductId row) row) due al)" for al
    by (induction due arbitrary: al) (simp_all add: keyedBy_update)
  then show ?thesis by (simp add: latestDue_def keyedBy_def)
qed

lemma price_fold:
  assumes "keyedBy al"
  shows "rowOf pId k (fold (\<lambda>(_, row). updateMany (\<lambda>p. pId p = psProductId row)
        (\<lambda>p. p\<lparr>pPrice := psPrice row\<rparr>)) al ps)
    = map_option (\<lambda>p. case map_of al k of None \<Rightarrow> p | Some r \<Rightarrow> p\<lparr>pPrice := psPrice r\<rparr>) (rowOf pId k ps)"
  using assms
proof (induction al arbitrary: ps)
  case (Cons kr al)
  obtain j r where kr: "kr = (j, r)" by (cases kr)
  have j: "psProductId r = j" "keyedBy al" using Cons.prems kr by (auto simp: keyedBy_def)
  have "rowOf pId k (updateMany (\<lambda>p. pId p = j) (\<lambda>p. p\<lparr>pPrice := psPrice r\<rparr>) ps)
      = map_option (\<lambda>p. if pId p = j then p\<lparr>pPrice := psPrice r\<rparr> else p) (rowOf pId k ps)"
    by (rule rowOf_updateMany) simp
  moreover have "k = j \<Longrightarrow> map_of al k = None"
    using Cons.prems kr by (simp add: map_of_eq_None_iff keyedBy_def)
  ultimately show ?case
    using Cons kr j
    by (cases "rowOf pId k ps") (auto simp: dest: rowOf_SomeD split: option.splits)
qed (simp add: option.map_ident)

lemma last_sorted_max:
  assumes "sorted (map f xs)" "x \<in> set xs"
  shows "f x \<le> f (last xs)"
  using assms by (induction xs) (auto split: if_splits)

lemma applyDuePrices_row:
  "rowOf pId k (products (fst (applyDuePrices now s))) =
    map_option (\<lambda>p. case map_of (latestDue (dueSchedules now s)) k of None \<Rightarrow> p
       | Some r \<Rightarrow> p\<lparr>pPrice := psPrice r\<rparr>) (rowOf pId k (products s))"
  using price_fold [of "latestDue (dueSchedules now s)" k "products s"] latestDue_wf [of "dueSchedules now s"]
  by (simp add: applyDuePrices_def Let_def)

lemma newest_due:
  assumes "uniqueKeys (\<lambda>r. (psProductId r, psEffectiveFrom r)) (schedules s)"
    and "r \<in> set (schedules s)" "psAppliedAt r = None" "psEffectiveFrom r \<le> now"
    and "\<And>q. q \<in> set (schedules s) \<Longrightarrow> psProductId q = psProductId r \<Longrightarrow> psAppliedAt q = None \<Longrightarrow>
      psEffectiveFrom q \<le> now \<Longrightarrow> psEffectiveFrom q \<le> psEffectiveFrom r"
  shows "map_of (latestDue (dueSchedules now s)) (psProductId r) = Some r"
proof -
  let ?xs = "filter (\<lambda>q. psProductId q = psProductId r) (dueSchedules now s)"
  have r: "r \<in> set ?xs" using assms(2-4) by (simp add: dueSchedules_def)
  then have ne: "?xs \<noteq> []" by (cases ?xs) auto
  have l: "last ?xs \<in> set ?xs" using ne by (rule last_in_set)
  have "sorted (map psEffectiveFrom (dueSchedules now s))"
    unfolding dueSchedules_def by (rule sorted_findMany)
  then have "sorted (map psEffectiveFrom ?xs)" by (rule sorted_filter)
  from last_sorted_max [OF this r] have ge: "psEffectiveFrom r \<le> psEffectiveFrom (last ?xs)" .
  have lq: "last ?xs \<in> set (schedules s)" "psProductId (last ?xs) = psProductId r"
      "psAppliedAt (last ?xs) = None" "psEffectiveFrom (last ?xs) \<le> now"
    using l by (auto simp: dueSchedules_def)
  have "psEffectiveFrom (last ?xs) = psEffectiveFrom r"
    using assms(5) [OF lq] ge by simp
  with lq(1,2) assms(1,2) have "last ?xs = r"
    unfolding uniqueKeys_def distinct_map inj_on_def by blast
  moreover have "\<exists>q \<in> set (dueSchedules now s). psProductId q = psProductId r" using r by auto
  ultimately show ?thesis by (simp add: map_of_latestDue)
qed

section \<open>Properties\<close>

text \<open>
  Exactly one delivery per paid order. When a delivery is created, the order had none, it has
  exactly one afterwards with one live link per file of the order, exactly one e-mail job is
  queued, and whoever tries again (the webhook, the buyer's return, a retry) changes nothing.
\<close>

theorem delivery_created_once:
  assumes "createDeliveryForPaidOrder e s t k = (s', True)"
    and "rowOf ddId (eFresh e 0) (deliveries s) = None"
  shows "deliveryOfOrder s k = None
    \<and> countRows (\<lambda>d. ddOrderId d = k) (deliveries s') = 1
    \<and> outbox s' = outbox s @ [DigitalSend (eFresh e 0) False]
    \<and> map dgAssetId (drop (length (grants s)) (grants s')) = map daId (orderAssets s t k)
    \<and> list_all (\<lambda>g. dgDeliveryId g = eFresh e 0 \<and> dgDownloadCount g = 0 \<and> dgRevokedAt g = None)
        (drop (length (grants s)) (grants s'))
    \<and> createDeliveryForPaidOrder e2 s' t2 k = (s', False)"
proof -
  from assms(1) have n: "deliveryOfOrder s k = None" and
    s': "s' = enqueueSend (eFresh e 0) False
        (s\<lparr>deliveries := deliveries s @ [\<lparr>ddId = eFresh e 0, ddTenantId = t, ddOrderId = k,
            ddStatus = DigitalDeliveryStatus.PENDING, ddEmailAttempts = 0, ddLastError = None,
            ddSentAt = None, ddRevokedAt = None, ddRevokedReason = None, ddUpdatedAt = eNow e\<rparr>],
          grants := grants s @ map (\<lambda>(i, a). newGrant e t (eFresh e 0) i a) (enumerate 0 (orderAssets s t k))\<rparr>)"
    by (auto simp: createDeliveryForPaidOrder_def Let_def split: if_splits)
  have "countRows (\<lambda>d. ddOrderId d = k) (deliveries s) = 0"
    using n by (auto simp: countRows_0_iff deliveryOfOrder_def rowOf_None_iff)
  moreover have "deliveryOfOrder s' k \<noteq> None"
    using deliveryOfOrder_create [of e s t k] assms(1) by simp
  then have "createDeliveryForPaidOrder e2 s' t2 k = (s', False)" by (rule createDelivery_again)
  moreover have "map dgAssetId (map (\<lambda>(i, a). newGrant e t (eFresh e 0) i a) (enumerate 0 (orderAssets s t k)))
      = map daId (orderAssets s t k)"
  proof -
    have "map dgAssetId (map (\<lambda>(i, a). newGrant e t (eFresh e 0) i a) (enumerate 0 (orderAssets s t k)))
        = map daId (map snd (enumerate 0 (orderAssets s t k)))"
      unfolding map_map by (intro map_cong) (auto simp: newGrant_def)
    then show ?thesis by simp
  qed
  ultimately show ?thesis
    using n by (simp add: s' enqueueSend_def list_all_iff newGrant_def case_prod_beta)
qed

definition asset0 :: digitalAsset where
  "asset0 = \<lparr>daId = ''a1'', daTenantId = ''t1'', daProductId = ''p1'', daLabel = ''Book'',
     daFileName = ''b.pdf'', daStorageKey = ''k1'', daContentType = ''application/pdf'',
     daSizeBytes = 9, daSortOrder = 0, daCreatedAt = 0\<rparr>"

definition digitalDb0 :: db where
  "digitalDb0 = db0\<lparr>assets := [asset0], orders := [order0\<lparr>oPaymentStatus := PaymentStatus.PAID\<rparr>]\<rparr>"

lemmas digital_sample = digitalDb0_def asset0_def sample_defs

theorem delivery_created_once_witness:
  "\<exists>s'. createDeliveryForPaidOrder env0 digitalDb0 ''t1'' ''o1'' = (s', True)
    \<and> length (deliveries s') = 1 \<and> createDeliveryForPaidOrder env0 s' ''t1'' ''o1'' = (s', False)"
proof -
  define s' where "s' = fst (createDeliveryForPaidOrder env0 digitalDb0 ''t1'' ''o1'')"
  have c: "createDeliveryForPaidOrder env0 digitalDb0 ''t1'' ''o1'' = (s', True)" "length (deliveries s') = 1"
    by (simp_all add: s'_def createDeliveryForPaidOrder_def enqueueSend_def orderAssets_def orderById_def
        deliveryOfOrder_def findMany_def Let_def map_filter_simps digital_sample)
  have "rowOf ddId (eFresh env0 0) (deliveries digitalDb0) = None" by (simp add: digital_sample)
  from delivery_created_once [OF c(1) this] c show ?thesis by blast
qed

text \<open>
  C6: a link is never redeemed more often than it allows. Over any run of redemptions of any links,
  at any times and whether the object storage then works or not, the stored count of a link goes up by
  exactly one for every file handed out for it and one for every redemption the storage failed after
  the count was committed, and never passes the link's limit; so the files handed out are at most the
  downloads that remained. A redemption that answers 404 or 410 counts nothing and changes nothing.
\<close>

theorem redeem_within_limit:
  assumes "grantsOk s" and "rowOf dgTokenHash h (grants s) = Some g"
  shows "(let (s', served, lost) = redeemSeq s attempts
      in dgDownloadCount g + count_list served h + count_list lost h \<le> dgMaxDownloads g
       \<and> map_option dgDownloadCount (rowOf dgTokenHash h (grants s'))
           = Some (dgDownloadCount g + count_list served h + count_list lost h))
    \<and> (snd (redeem e st s token) = Inl er \<and> http_status er \<in> {404, 410} \<longrightarrow> fst (redeem e st s token) = s)"
proof -
  obtain s' served lost where r: "redeemSeq s attempts = (s', served, lost)" by (cases "redeemSeq s attempts") auto
  from redeemSeq_count [OF r assms] obtain g' where
    ok: "grantsOk s'" and g': "rowOf dgTokenHash h (grants s') = Some g'"
      "dgMaxDownloads g' = dgMaxDownloads g"
      "dgDownloadCount g' = dgDownloadCount g + count_list served h + count_list lost h"
    by blast
  have "dgDownloadCount g' \<le> dgMaxDownloads g'"
    using ok g'(1) by (auto simp: grantsOk_def list_all_iff dest: rowOf_SomeD)
  moreover have "fst (redeem e st s token) = s"
    if "snd (redeem e st s token) = Inl er" "http_status er \<in> {404, 410}"
  proof -
    from redeem_answer [OF assms(1), where e = e and st = st and token = token] that have "\<not> countedGrant e s token" by auto
    from redeem_refused [OF this, where st = st] show ?thesis by auto
  qed
  ultimately show ?thesis using g' r by simp
qed

definition grant0 :: downloadGrant where
  "grant0 = \<lparr>dgId = ''g1'', dgTenantId = ''t1'', dgDeliveryId = ''d1'', dgAssetId = ''a1'',
     dgTokenHash = ''h:abc'', dgExpiresAt = 2000000000000, dgMaxDownloads = 2, dgDownloadCount = 1,
     dgRevokedAt = None\<rparr>"

definition delivery0 :: digitalDelivery where
  "delivery0 = \<lparr>ddId = ''d1'', ddTenantId = ''t1'', ddOrderId = ''o1'',
     ddStatus = DigitalDeliveryStatus.SENT, ddEmailAttempts = 1, ddLastError = None,
     ddSentAt = None, ddRevokedAt = None, ddRevokedReason = None, ddUpdatedAt = 0\<rparr>"

definition redeemDb0 :: db where
  "redeemDb0 = digitalDb0\<lparr>grants := [grant0], deliveries := [delivery0]\<rparr>"

lemmas redeem_sample = redeemDb0_def grant0_def delivery0_def digital_sample

text \<open>A storage that signs every key by itself, and one whose configuration is missing.\<close>

definition storage0 :: digitalStorage where
  "storage0 = \<lparr>dsConfigured = True, dsSign = (\<lambda>k _. Some k)\<rparr>"

lemma redeemDb0_live:
  "redeem env0 st redeemDb0 ''abc''
     = (redeemDb0\<lparr>grants := [grant0\<lparr>dgDownloadCount := 2\<rparr>]\<rparr>, signedDownloadUrl st ''k1'' ''b.pdf'')"
  by (simp add: redeem_def deadReason_def grantRejection_def orderById_def redeem_sample Let_def countRows_def)

theorem redeem_within_limit_witness:
  "(let (s', served, lost) = redeemSeq redeemDb0 [(env0, storage0\<lparr>dsConfigured := False\<rparr>, ''abc''), (env0, storage0, ''abc'')]
    in count_list served ''h:abc'' + count_list lost ''h:abc'' \<le> 1)
   \<and> (\<exists>s' er. redeem env0 (storage0\<lparr>dsConfigured := False\<rparr>) redeemDb0 ''abc'' = (s', Inl er) \<and> s' \<noteq> redeemDb0)
   \<and> (\<exists>s'. redeem env0 storage0 redeemDb0 ''abc'' = (s', Inr ''k1''))"
proof -
  have g: "grantsOk redeemDb0" by (simp add: grantsOk_def uniqueKeys_def redeem_sample)
  have r: "rowOf dgTokenHash ''h:abc'' (grants redeemDb0) = Some grant0"
    by (simp add: redeem_sample)
  have "grant0\<lparr>dgDownloadCount := 2\<rparr> \<noteq> grant0" by (simp add: grant0_def)
  then have "\<exists>s' er. redeem env0 (storage0\<lparr>dsConfigured := False\<rparr>) redeemDb0 ''abc'' = (s', Inl er) \<and> s' \<noteq> redeemDb0"
    unfolding redeemDb0_live by (auto simp: signedDownloadUrl_def storage0_def redeemDb0_def dest: arg_cong [where f = grants])
  moreover have "\<exists>s'. redeem env0 storage0 redeemDb0 ''abc'' = (s', Inr ''k1'')"
    by (simp add: redeemDb0_live signedDownloadUrl_def storage0_def)
  moreover obtain s' served lost where q: "redeemSeq redeemDb0
      [(env0, storage0\<lparr>dsConfigured := False\<rparr>, ''abc''), (env0, storage0, ''abc'')] = (s', served, lost)"
    by (metis prod_cases3)
  moreover have "count_list served ''h:abc'' + count_list lost ''h:abc'' \<le> 1"
    using redeem_within_limit [OF g r, where attempts =
        "[(env0, storage0\<lparr>dsConfigured := False\<rparr>, ''abc''), (env0, storage0, ''abc'')]"]
    unfolding q by (simp add: grant0_def)
  ultimately show ?thesis by (simp only: q Let_def prod.case simp_thms)
qed

text \<open>
  Once an order's delivery is revoked (refund, dispute, cancellation) no link of it can be
  redeemed, no e-mail for it is built, it cannot be resent, and revoking it again changes nothing.
\<close>

theorem revoke_is_final:
  assumes "deliveryOfOrder s k = Some d"
    and "uniqueKeys ddId (deliveries s)" and "uniqueKeys ddOrderId (deliveries s)"
    and "s' = revokeForOrder e s k reason"
  shows "(rowOf dgTokenHash (eHash e2 token) (grants s') = Some g \<and> dgDeliveryId g = ddId d
        \<longrightarrow> (\<exists>m. redeem e2 st s' token = (s', Inl (Gone m))))
    \<and> prepareDelivery e2 s' (ddId d) again = (s', None)
    \<and> (\<exists>er. resend s' t k = Inl er)
    \<and> revokeForOrder e2 s' k reason2 = s'"
proof -
  from revoked_delivery [OF assms(1), of e reason] obtain d'
    where d': "deliveryOfOrder s' k = Some d'" "ddId d' = ddId d" "ddStatus d' = REVOKED"
    unfolding assms(4) by blast
  have u: "uniqueKeys ddId (deliveries s')" "uniqueKeys ddOrderId (deliveries s')"
    using assms(2,3) deliveries_unique_revoke [of s e k reason]
    by (simp_all add: assms(4) revokeForOrder_def updateDelivery_def Let_def
        uniqueKeys_updateMany split: option.splits)
  have d'in: "d' \<in> set (deliveries s')" "ddOrderId d' = k"
    using d'(1) by (auto simp: deliveryOfOrder_def dest: rowOf_SomeD)
  from rowOf_unique [OF u(1) d'in(1)] d'(2) have byId: "rowOf ddId (ddId d) (deliveries s') = Some d'" by simp
  have dead: "\<exists>r. deadReason e2 s' g = Some r" if "dgDeliveryId g = ddId d"
    using that byId d'(3) by (auto simp: deadReason_def split: option.splits)
  have "\<exists>er. resend s' t k = Inl er"
  proof (cases "findFirst (\<lambda>d. ddOrderId d = k \<and> ddTenantId d = t) (deliveries s')")
    case (Some q)
    then have "q \<in> set (deliveries s')" "ddOrderId q = k" by (auto dest: findFirst_SomeD)
    then have "q = d'" using u(2) d'in by (intro unique_row [where key = ddOrderId]) auto
    with Some d'(3) show ?thesis by (simp add: resend_def)
  qed (simp add: resend_def)
  moreover have "prepareDelivery e2 s' (ddId d) again = (s', None)"
    using byId d'(3) by (simp add: prepareDelivery_def)
  moreover have "revokeForOrder e2 s' k reason2 = s'"
    unfolding assms(4) by (rule revokeForOrder_idem)
  ultimately show ?thesis
    using dead by (auto simp: redeem_def)
qed

theorem revoke_is_final_witness:
  "let s' = revokeForOrder env0 redeemDb0 ''o1'' ''refunded''
   in (\<exists>m. redeem env0 storage0 s' ''abc'' = (s', Inl (Gone m)))
     \<and> prepareDelivery env0 s' ''d1'' True = (s', None)
     \<and> (\<exists>s1. redeem env0 storage0 redeemDb0 ''abc'' = (s1, Inr ''k1''))"
proof -
  let ?s' = "revokeForOrder env0 redeemDb0 ''o1'' ''refunded''"
  have d: "deliveryOfOrder redeemDb0 ''o1'' = Some delivery0"
    "uniqueKeys ddId (deliveries redeemDb0)" "uniqueKeys ddOrderId (deliveries redeemDb0)"
    by (simp_all add: deliveryOfOrder_def uniqueKeys_def redeem_sample)
  have g: "rowOf dgTokenHash (eHash env0 ''abc'') (grants ?s') = Some (grant0\<lparr>dgRevokedAt := Some (eNow env0)\<rparr>)"
    by (simp add: revokeForOrder_def updateDelivery_def deliveryOfOrder_def redeem_sample)
  have "\<exists>s1. redeem env0 storage0 redeemDb0 ''abc'' = (s1, Inr ''k1'')"
    by (simp add: redeemDb0_live signedDownloadUrl_def storage0_def)
  with revoke_is_final [OF d refl, of env0 "''abc''" env0 "''refunded''" "grant0\<lparr>dgRevokedAt := Some (eNow env0)\<rparr>"
      storage0 True "''t1''" "''refunded''"] g
  show ?thesis by (simp add: Let_def grant0_def delivery0_def)
qed

text \<open>
  Scheduled prices. Applying the due prices gives each product the price of its newest due
  change, leaves a product with none due as it was, marks every due change applied, and run again
  at the same moment does nothing.
\<close>

theorem applyDuePrices_newest_wins:
  assumes "uniqueKeys (\<lambda>r. (psProductId r, psEffectiveFrom r)) (schedules s)"
    and "s' = fst (applyDuePrices now s)"
    and "r \<in> set (schedules s)" "psAppliedAt r = None" "psEffectiveFrom r \<le> now"
    and "\<And>q. q \<in> set (schedules s) \<Longrightarrow> psProductId q = psProductId r \<Longrightarrow> psAppliedAt q = None \<Longrightarrow>
      psEffectiveFrom q \<le> now \<Longrightarrow> psEffectiveFrom q \<le> psEffectiveFrom r"
    and "\<And>q. q \<in> set (schedules s) \<Longrightarrow> psProductId q = other \<Longrightarrow> psAppliedAt q = None \<Longrightarrow>
      now < psEffectiveFrom q"
  shows "rowOf pId (psProductId r) (products s')
        = map_option (\<lambda>p. p\<lparr>pPrice := psPrice r\<rparr>) (rowOf pId (psProductId r) (products s))
    \<and> rowOf pId other (products s') = rowOf pId other (products s)
    \<and> applyDuePrices now s' = (s', 0)"
proof -
  have 1: "rowOf pId (psProductId r) (products s')
        = map_option (\<lambda>p. p\<lparr>pPrice := psPrice r\<rparr>) (rowOf pId (psProductId r) (products s))"
    by (simp add: assms(2) applyDuePrices_row newest_due [OF assms(1,3-6)])
  have "\<not> (\<exists>q \<in> set (dueSchedules now s). psProductId q = other)"
    using assms(7) by (force simp: dueSchedules_def)
  then have 2: "rowOf pId other (products s') = rowOf pId other (products s)"
    by (simp add: assms(2) applyDuePrices_row map_of_latestDue option.map_ident)
  have "set (dueSchedules now s') = {}"
    by (auto simp: assms(2) applyDuePrices_def dueSchedules_def Let_def set_updateMany split: if_splits)
  then have "dueSchedules now s' = []" by simp
  then have "applyDuePrices now s' = (s', 0)"
    by (simp add: applyDuePrices_def [of now s'] latestDue_def updateMany_def)
  with 1 2 show ?thesis by simp
qed

definition scheduleDb0 :: db where
  "scheduleDb0 = db0\<lparr>schedules := [
     \<lparr>psId = ''x1'', psTenantId = ''t1'', psProductId = ''p1'', psPrice = 8, psEffectiveFrom = 20, psAppliedAt = None\<rparr>,
     \<lparr>psId = ''x2'', psTenantId = ''t1'', psProductId = ''p1'', psPrice = 7, psEffectiveFrom = 10, psAppliedAt = None\<rparr>]\<rparr>"

theorem applyDuePrices_newest_wins_witness:
  "map_option pPrice (rowOf pId ''p1'' (products (fst (applyDuePrices 30 scheduleDb0)))) = Some 8"
proof -
  let ?r = "\<lparr>psId = ''x1'', psTenantId = ''t1'', psProductId = ''p1'', psPrice = 8, psEffectiveFrom = 20, psAppliedAt = None\<rparr>"
  have sc: "schedules scheduleDb0 = [?r, ?r\<lparr>psId := ''x2'', psPrice := 7, psEffectiveFrom := 10\<rparr>]"
    by (simp add: scheduleDb0_def)
  have u: "uniqueKeys (\<lambda>r. (psProductId r, psEffectiveFrom r)) (schedules scheduleDb0)"
    by (simp add: sc uniqueKeys_def)
  have "rowOf pId (psProductId ?r) (products (fst (applyDuePrices 30 scheduleDb0)))
      = map_option (\<lambda>p. p\<lparr>pPrice := psPrice ?r\<rparr>) (rowOf pId (psProductId ?r) (products scheduleDb0))"
    by (rule conjunct1 [OF applyDuePrices_newest_wins [OF u refl, where other = "''p9''"]])
      (auto simp: sc)
  then show ?thesis by (simp add: scheduleDb0_def sample_defs)
qed

end
