(* ===== verification/Payments.thy ===== *)
theory Payments
  imports Digital
begin

text \<open>
  Payments (\<open>payments/payments.service.ts\<close>): opening a checkout, settling a payment from the
  webhooks of Stripe, MercadoPago and PayPal and from the buyer's return, refunds, and the manual
  confirmation of a Zelle transfer; with the amounts the Stripe adapter sends.

  A settlement reads the order in its transaction and confirms it with a conditional UPDATE. The
  row that was read is an argument of the model next to the database the UPDATE runs on, so that
  another transaction may have changed the order in between. What a provider says (a verified
  webhook event, the answer to a capture) is an argument too.
\<close>

section \<open>Preliminaries\<close>

definition TERMINAL_ORDER_STATUSES :: "OrderStatus list" where
  "TERMINAL_ORDER_STATUSES = [OrderStatus.CANCELLED, OrderStatus.REFUNDED]"

definition terminal :: "order \<Rightarrow> bool" where
  "terminal ord = (oStatus ord \<in> set TERMINAL_ORDER_STATUSES)"

lemma terminal_iff [simp]: "terminal ord \<longleftrightarrow> oStatus ord = OrderStatus.CANCELLED \<or> oStatus ord = OrderStatus.REFUNDED"
  by (simp add: terminal_def TERMINAL_ORDER_STATUSES_def)

text \<open>The order of a tenant; inside \<open>withTenant\<close> row-level security shows no other.\<close>

definition tenantOrder :: "db \<Rightarrow> uuid \<Rightarrow> uuid \<Rightarrow> order option" where
  "tenantOrder s tenantId orderId =
     findFirst (\<lambda>ord. oId ord = orderId \<and> oTenantId ord = tenantId) (orders s)"

definition updateOrder :: "uuid \<Rightarrow> (order \<Rightarrow> order) \<Rightarrow> db \<Rightarrow> db" where
  "updateOrder orderId f s = s\<lparr>orders := updateRow oId orderId f (orders s)\<rparr>"

type_synonym credentials = "(string \<times> string) list"

definition getDecryptedCredentials ::
    "env \<Rightarrow> db \<Rightarrow> uuid \<Rightarrow> PaymentProvider \<Rightarrow> credentials option res" where
  "getDecryptedCredentials e s tenantId provider =
     (if provider = PaymentProvider.MERCADOPAGO \<or> provider = PaymentProvider.PAYPAL then Inr None
      else case findFirst (\<lambda>p. pmTenantId p = tenantId \<and> pmProvider p = provider) (paymentSettings s) of
             None \<Rightarrow> Inr None
           | Some p \<Rightarrow>
               if \<not> pmIsEnabled p then Inr None
               else if \<not> truthy (pmEncrypted p) then Inl (BadRequest ''Payment credentials corrupted'')
               else case eDecrypt e (the (pmEncrypted p)) of
                      None \<Rightarrow> Inl (InternalError ''decryptSecret'')
                    | Some c \<Rightarrow> Inr (Some c))"

definition connectedAccountId :: "credentials option \<Rightarrow> string option" where
  "connectedAccountId c = (case c of None \<Rightarrow> None | Some fs \<Rightarrow> map_of fs ''connectedAccountId'')"

section \<open>Opening a checkout\<close>

definition assertPayable :: "order \<Rightarrow> unit res" where
  "assertPayable ord =
     (if oPaymentStatus ord = PaymentStatus.PAID then Inl (Conflict ''Order is already paid'')
      else if terminal ord then Inl (Conflict (''Order is '' @ status_text (oStatus ord)))
      else Inr ())"

record redirectUrls =
  successUrl :: string
  cancelUrl :: string

definition assertRedirectUrlsAllowed :: "env \<Rightarrow> db \<Rightarrow> uuid \<Rightarrow> redirectUrls \<Rightarrow> unit res" where
  "assertRedirectUrlsAllowed e s tenantId urls =
     (case rowOf tId tenantId (tenants s) of
        None \<Rightarrow> Inl RecordNotFound
      | Some t \<Rightarrow>
          let rules = \<lparr>rrCorsOrigins = eCorsOrigins e, rrRootDomain = eRootDomain e, rrSlug = tSlug t,
                       rrSubdomain = tSubdomain t, rrCustomDomain = tCustomDomain t\<rparr>
          in if \<not> isAllowedReturnUrl (eParseUrl e) (successUrl urls) rules
                \<or> \<not> isAllowedReturnUrl (eParseUrl e) (cancelUrl urls) rules
             then Inl (BadRequest ''Redirect URL is not allowed for this store'') else Inr ())"

record checkoutItem =
  ciProductName :: string
  ciVariantName :: "string option"
  ciUnitPrice :: decimal
  ciQuantity :: nat

record CheckoutOrderContext =
  ccxOrderId :: uuid
  ccxOrderNumber :: string
  ccxTenantId :: uuid
  ccxCurrency :: string
  ccxGrandTotal :: decimal
  ccxShippingTotal :: decimal
  ccxTaxTotal :: decimal
  ccxDiscountTotal :: decimal
  ccxCustomerEmail :: "string option"
  ccxItems :: "checkoutItem list"

definition checkoutContext :: "uuid \<Rightarrow> order \<Rightarrow> CheckoutOrderContext" where
  "checkoutContext tenantId ord =
     \<lparr>ccxOrderId = oId ord, ccxOrderNumber = oOrderNumber ord, ccxTenantId = tenantId,
      ccxCurrency = oCurrency ord, ccxGrandTotal = oGrandTotal ord, ccxShippingTotal = oShippingTotal ord,
      ccxTaxTotal = oTaxTotal ord, ccxDiscountTotal = oDiscountTotal ord,
      ccxCustomerEmail = oCustomerEmail ord,
      ccxItems = map (\<lambda>i. \<lparr>ciProductName = iProductName i, ciVariantName = iVariantName i,
                           ciUnitPrice = iUnitPrice i, ciQuantity = iQuantity i\<rparr>) (oItems ord)\<rparr>"

subsection \<open>What the Stripe adapter charges\<close>

record stripeLine =
  slQuantity :: nat
  slUnitAmount :: int
  slName :: string

definition itemName :: "checkoutItem \<Rightarrow> string" where
  "itemName i = joinWith '' - '' (filter (\<lambda>t. t \<noteq> [])
     [ciProductName i, (case ciVariantName i of Some v \<Rightarrow> v | None \<Rightarrow> [])])"

definition stripeLineItems :: "CheckoutOrderContext \<Rightarrow> stripeLine list" where
  "stripeLineItems ctx =
     (let extraLine = (\<lambda>name amount. \<lparr>slQuantity = 1, slUnitAmount = toMinorUnits amount (ccxCurrency ctx), slName = name\<rparr>)
      in map (\<lambda>i. \<lparr>slQuantity = ciQuantity i, slUnitAmount = toMinorUnits (ciUnitPrice i) (ccxCurrency ctx),
                   slName = itemName i\<rparr>) (ccxItems ctx)
         @ (if ccxShippingTotal ctx > 0 then [extraLine ''Shipping'' (ccxShippingTotal ctx)] else [])
         @ (if ccxTaxTotal ctx > 0 then [extraLine ''Tax'' (ccxTaxTotal ctx)] else []))"

definition stripeAmountOff :: "CheckoutOrderContext \<Rightarrow> int" where
  "stripeAmountOff ctx =
     (if ccxDiscountTotal ctx > 0 then toMinorUnits (ccxDiscountTotal ctx) (ccxCurrency ctx) else 0)"

text \<open>What Stripe totals a session of these lines and this one-off coupon to.\<close>

definition stripeSessionTotal :: "CheckoutOrderContext \<Rightarrow> int" where
  "stripeSessionTotal ctx =
     sum_list (map (\<lambda>l. int (slQuantity l) * slUnitAmount l) (stripeLineItems ctx)) - stripeAmountOff ctx"

definition paypalAmountValue :: "decimal \<Rightarrow> string \<Rightarrow> string" where
  "paypalAmountValue amount currency =
     (let minor = toMinorUnits amount currency
      in if toMinorUnits 1 currency = 1 then string_of_int minor else toFixed2 (of_int minor / 100))"

subsection \<open>Checkouts\<close>

record CreateCheckoutResult =
  checkoutUrl :: string
  providerReference :: string

text \<open>\<open>openCheckout\<close> is the provider's answer to the request to open a checkout.\<close>

definition createStripeCheckout ::
    "env \<Rightarrow> (CheckoutOrderContext \<Rightarrow> redirectUrls \<Rightarrow> CreateCheckoutResult res) \<Rightarrow> db \<Rightarrow> uuid \<Rightarrow> uuid \<Rightarrow>
     redirectUrls \<Rightarrow> (db \<times> CreateCheckoutResult) res" where
  "createStripeCheckout e openCheckout s tenantId orderId urls =
     (case tenantOrder s tenantId orderId of
        None \<Rightarrow> Inl (NotFound ''Order not found'')
      | Some ord \<Rightarrow>
          if oFulfillmentMethod ord \<noteq> FulfillmentMethod.STRIPE
          then Inl (BadRequest ''Order is not configured for card payment'')
          else bind_res (assertPayable ord) (\<lambda>_.
               bind_res (assertRedirectUrlsAllowed e s tenantId urls) (\<lambda>_.
               bind_res (getDecryptedCredentials e s tenantId PaymentProvider.STRIPE) (\<lambda>_.
                 let s1 = (if truthy (oStripeCheckoutSessionId ord)
                           then emit (ExpireSession (the (oStripeCheckoutSessionId ord))) s else s)
                 in bind_res (openCheckout (checkoutContext tenantId ord) urls) (\<lambda>result.
                      Inr (updateOrder orderId (\<lambda>r. r\<lparr>oStripeCheckoutSessionId := Some (providerReference result)\<rparr>) s1,
                           result))))))"

definition createMercadoPagoCheckout ::
    "env \<Rightarrow> (CheckoutOrderContext \<Rightarrow> redirectUrls \<Rightarrow> CreateCheckoutResult res) \<Rightarrow> db \<Rightarrow> uuid \<Rightarrow> uuid \<Rightarrow>
     redirectUrls \<Rightarrow> (db \<times> CreateCheckoutResult) res" where
  "createMercadoPagoCheckout e openCheckout s tenantId orderId urls =
     (case tenantOrder s tenantId orderId of
        None \<Rightarrow> Inl (NotFound ''Order not found'')
      | Some ord \<Rightarrow>
          if oFulfillmentMethod ord \<noteq> FulfillmentMethod.MERCADOPAGO
          then Inl (BadRequest ''Order is not configured for card payment'')
          else bind_res (assertPayable ord) (\<lambda>_.
               bind_res (assertRedirectUrlsAllowed e s tenantId urls) (\<lambda>_.
               bind_res (openCheckout (checkoutContext tenantId ord) urls) (\<lambda>result.
                 Inr (updateOrder orderId (\<lambda>r. r\<lparr>oMercadoPagoPreferenceId := Some (providerReference result)\<rparr>) s,
                      result)))))"

definition createPayPalCheckout ::
    "env \<Rightarrow> (CheckoutOrderContext \<Rightarrow> redirectUrls \<Rightarrow> CreateCheckoutResult res) \<Rightarrow> db \<Rightarrow> uuid \<Rightarrow> uuid \<Rightarrow>
     redirectUrls \<Rightarrow> (db \<times> CreateCheckoutResult) res" where
  "createPayPalCheckout e openCheckout s tenantId orderId urls =
     (if rowOf tId tenantId (tenants s) = None then Inl RecordNotFound
      else case tenantOrder s tenantId orderId of
        None \<Rightarrow> Inl (NotFound ''Order not found'')
      | Some ord \<Rightarrow>
          if oFulfillmentMethod ord \<noteq> FulfillmentMethod.PAYPAL
          then Inl (BadRequest ''Order is not configured for PayPal payment'')
          else if (case findFirst (\<lambda>p. pmTenantId p = tenantId \<and> pmProvider p = PaymentProvider.PAYPAL)
                         (paymentSettings s) of
                     Some p \<Rightarrow> \<not> pmIsEnabled p | None \<Rightarrow> True)
          then Inl (BadRequest ''PayPal is not enabled for this store'')
          else bind_res (assertPayable ord) (\<lambda>_.
               bind_res (assertRedirectUrlsAllowed e s tenantId urls) (\<lambda>_.
               bind_res (openCheckout (checkoutContext tenantId ord) urls) (\<lambda>result.
                 Inr (updateOrder orderId (\<lambda>r. r\<lparr>oPaypalOrderId := Some (providerReference result)\<rparr>) s,
                      result)))))"

section \<open>Settling\<close>

text \<open>What a settlement decides from the row it read.\<close>

datatype Decision = Ignore | Refund | Confirm

text \<open>
  The confirm of all three providers: the conditional UPDATE, then, if it matched, the invoice job
  and the delivery; if it matched nothing, whether the payment that won the race is another one.
\<close>

definition confirmable :: "uuid \<Rightarrow> uuid \<Rightarrow> order \<Rightarrow> bool" where
  "confirmable tenantId orderId ord =
     (oId ord = orderId \<and> oTenantId ord = tenantId \<and> oPaymentStatus ord \<noteq> PaymentStatus.PAID \<and> \<not> terminal ord)"

definition confirmPaid ::
    "env \<Rightarrow> db \<Rightarrow> uuid \<Rightarrow> uuid \<Rightarrow> (order \<Rightarrow> order) \<Rightarrow> (order option \<Rightarrow> bool) \<Rightarrow> db \<times> bool" where
  "confirmPaid e s tenantId orderId ref otherWon =
     (if countRows (confirmable tenantId orderId) (orders s) = 0
      then (s, otherWon (tenantOrder s tenantId orderId))
      else let s1 = s\<lparr>orders := updateMany (confirmable tenantId orderId)
                 (\<lambda>ord. (ref ord)\<lparr>oPaymentStatus := PaymentStatus.PAID, oStatus := OrderStatus.CONFIRMED\<rparr>) (orders s)\<rparr>;
               s2 = emit (InvoiceJob tenantId orderId) s1
           in (fst (createDeliveryForPaidOrder e s2 tenantId orderId), False))"

text \<open>A refund the code attempts and whose failure it only logs.\<close>

definition attemptRefund :: "env \<Rightarrow> PaymentProvider \<Rightarrow> string \<Rightarrow> db \<Rightarrow> db" where
  "attemptRefund e provider paymentId s =
     (case eRefundError e provider paymentId of None \<Rightarrow> emit (RefundCall provider paymentId) s | Some _ \<Rightarrow> s)"

subsection \<open>Stripe\<close>

record StripeSession =
  ssKind :: "string option"
  ssTenantId :: "uuid option"
  ssOrderId :: "uuid option"
  ssPaymentIntent :: "string option"
  ssPaymentStatus :: string
  ssAmountTotal :: "int option"
  ssCurrency :: "string option"

text \<open>A verified event: a completed checkout session with the account it came from, or another type.\<close>

datatype StripeEvent = SessionCompleted "string option" StripeSession | OtherStripeEvent

definition PLAN_CHECKOUT_KIND :: string where
  "PLAN_CHECKOUT_KIND = ''plan_subscription''"

definition amountMatches :: "int option \<Rightarrow> string option \<Rightarrow> order \<Rightarrow> bool" where
  "amountMatches amountMinor currency ord =
     (amountMinor = Some (toMinorUnits (oGrandTotal ord) (oCurrency ord))
      \<and> map_option upper currency = Some (upper (oCurrency ord)))"

definition stripeDecision ::
    "env \<Rightarrow> db \<Rightarrow> uuid \<Rightarrow> string option \<Rightarrow> StripeSession \<Rightarrow> order option \<Rightarrow> Decision res" where
  "stripeDecision e s tenantId account session existing =
     (case existing of
        None \<Rightarrow> Inr Ignore
      | Some ord \<Rightarrow>
          if ssPaymentStatus session \<noteq> ''paid'' then Inr Ignore
          else bind_res (getDecryptedCredentials e s tenantId PaymentProvider.STRIPE) (\<lambda>credentials.
            if account \<noteq> connectedAccountId credentials then Inr Ignore
            else if oPaymentStatus ord = PaymentStatus.PAID
            then Inr (if truthy (ssPaymentIntent session) \<and> truthy (oStripePaymentIntentId ord)
                         \<and> ssPaymentIntent session \<noteq> oStripePaymentIntentId ord
                      then Refund else Ignore)
            else if terminal ord
            then Inr (if oStatus ord = OrderStatus.CANCELLED then Refund else Ignore)
            else if \<not> amountMatches (ssAmountTotal session) (ssCurrency session) ord then Inr Refund
            else Inr Confirm))"

definition settleStripe ::
    "env \<Rightarrow> db \<Rightarrow> uuid \<Rightarrow> uuid \<Rightarrow> string option \<Rightarrow> StripeSession \<Rightarrow> order option \<Rightarrow> (db \<times> bool) res" where
  "settleStripe e s tenantId orderId account session existing =
     bind_res (stripeDecision e s tenantId account session existing) (\<lambda>d.
       case d of
         Ignore \<Rightarrow> Inr (s, False)
       | Refund \<Rightarrow> Inr (s, True)
       | Confirm \<Rightarrow>
           Inr (confirmPaid e s tenantId orderId
             (\<lambda>ord. case ssPaymentIntent session of
                      Some intent \<Rightarrow> ord\<lparr>oStripePaymentIntentId := Some intent\<rparr> | None \<Rightarrow> ord)
             (\<lambda>winner. truthy (ssPaymentIntent session)
                \<and> (case winner of Some w \<Rightarrow> oStripePaymentIntentId w | None \<Rightarrow> None) \<noteq> ssPaymentIntent session)))"

definition refundPaymentIntent :: "env \<Rightarrow> db \<Rightarrow> uuid \<Rightarrow> string \<Rightarrow> db res" where
  "refundPaymentIntent e s tenantId paymentIntentId =
     bind_res (getDecryptedCredentials e s tenantId PaymentProvider.STRIPE) (\<lambda>_.
       case eRefundError e PaymentProvider.STRIPE paymentIntentId of
         None \<Rightarrow> Inr (emit (RefundCall PaymentProvider.STRIPE paymentIntentId) s)
       | Some m \<Rightarrow> Inl (BadRequest (''Stripe could not process this refund: '' @ m)))"

text \<open>\<open>event\<close> is the outcome of the signature check; \<open>None\<close> when it throws.\<close>

definition handleStripeWebhook :: "env \<Rightarrow> db \<Rightarrow> StripeEvent option \<Rightarrow> db res" where
  "handleStripeWebhook e s event =
     (case event of
        None \<Rightarrow> Inl (BadRequest ''Invalid webhook signature'')
      | Some OtherStripeEvent \<Rightarrow> Inr s
      | Some (SessionCompleted account session) \<Rightarrow>
          if ssKind session = Some PLAN_CHECKOUT_KIND then Inr s
          else if \<not> truthy (ssTenantId session) \<or> \<not> truthy (ssOrderId session) then Inr s
          else let tenantId = the (ssTenantId session); orderId = the (ssOrderId session)
               in bind_res (settleStripe e s tenantId orderId account session (tenantOrder s tenantId orderId))
                    (\<lambda>(s', refundNeeded).
                      if refundNeeded \<and> truthy (ssPaymentIntent session)
                      then (case refundPaymentIntent e s' tenantId (the (ssPaymentIntent session)) of
                              Inl _ \<Rightarrow> Inr s' | Inr s'' \<Rightarrow> Inr s'')
                      else Inr s'))"

subsection \<open>MercadoPago\<close>

record MercadoPagoPayment =
  mpId :: string
  mpStatus :: string
  mpTenantId :: "uuid option"
  mpOrderId :: "uuid option"
  mpTransactionAmount :: "decimal option"
  mpCurrencyId :: "string option"

definition mercadoPagoDecision :: "MercadoPagoPayment \<Rightarrow> order option \<Rightarrow> Decision" where
  "mercadoPagoDecision payment existing =
     (case existing of
        None \<Rightarrow> Ignore
      | Some ord \<Rightarrow>
          if oPaymentStatus ord = PaymentStatus.PAID
          then (if truthy (oMercadoPagoPaymentId ord) \<and> oMercadoPagoPaymentId ord \<noteq> Some (mpId payment)
                then Refund else Ignore)
          else if terminal ord then (if oStatus ord = OrderStatus.CANCELLED then Refund else Ignore)
          else if map_option (\<lambda>a. js_round_mult a 100) (mpTransactionAmount payment)
                    \<noteq> Some (js_round_mult (oGrandTotal ord) 100)
                  \<or> map_option upper (mpCurrencyId payment) \<noteq> Some (upper (oCurrency ord))
          then Refund
          else Confirm)"

definition settleMercadoPago ::
    "env \<Rightarrow> db \<Rightarrow> uuid \<Rightarrow> uuid \<Rightarrow> MercadoPagoPayment \<Rightarrow> order option \<Rightarrow> db \<times> bool" where
  "settleMercadoPago e s tenantId orderId payment existing =
     (case mercadoPagoDecision payment existing of
        Ignore \<Rightarrow> (s, False)
      | Refund \<Rightarrow> (s, True)
      | Confirm \<Rightarrow>
          confirmPaid e s tenantId orderId (\<lambda>ord. ord\<lparr>oMercadoPagoPaymentId := Some (mpId payment)\<rparr>)
            (\<lambda>winner. (case winner of Some w \<Rightarrow> oMercadoPagoPaymentId w | None \<Rightarrow> None) \<noteq> Some (mpId payment)))"

text \<open>\<open>signed\<close>: the signature check passed; \<open>getPayment\<close>: the provider's record of a payment.\<close>

definition handleMercadoPagoWebhook ::
    "env \<Rightarrow> (string \<Rightarrow> MercadoPagoPayment res) \<Rightarrow> db \<Rightarrow> bool \<Rightarrow> string option \<Rightarrow> string option \<Rightarrow> db res" where
  "handleMercadoPagoWebhook e getPayment s signed dataId type =
     (if \<not> signed then Inl (BadRequest ''Invalid webhook signature'')
      else if type \<noteq> Some ''payment'' \<or> \<not> truthy dataId then Inr s
      else bind_res (getPayment (the dataId)) (\<lambda>payment.
        if \<not> truthy (mpTenantId payment) \<or> \<not> truthy (mpOrderId payment) then Inr s
        else if mpStatus payment \<noteq> ''approved'' then Inr s
        else let tenantId = the (mpTenantId payment); orderId = the (mpOrderId payment);
                 r = settleMercadoPago e s tenantId orderId payment (tenantOrder s tenantId orderId)
             in Inr (if snd r then attemptRefund e PaymentProvider.MERCADOPAGO (mpId payment) (fst r) else fst r)))"

subsection \<open>PayPal\<close>

record PayPalOrderState =
  ppOrderId :: string
  ppOrderStatus :: string
  ppCaptureId :: "string option"
  ppCaptureStatus :: "string option"
  ppAmountMinor :: "int option"
  ppCurrency :: "string option"

definition payPalDecision :: "PayPalOrderState \<Rightarrow> order option \<Rightarrow> Decision" where
  "payPalDecision state existing =
     (case existing of
        None \<Rightarrow> Ignore
      | Some ord \<Rightarrow>
          if oFulfillmentMethod ord \<noteq> FulfillmentMethod.PAYPAL \<or> oPaypalOrderId ord \<noteq> Some (ppOrderId state)
          then Ignore
          else if oPaymentStatus ord = PaymentStatus.PAID
          then (if truthy (oPaypalCaptureId ord) \<and> oPaypalCaptureId ord \<noteq> ppCaptureId state then Refund else Ignore)
          else if terminal ord then (if oStatus ord = OrderStatus.CANCELLED then Refund else Ignore)
          else if \<not> amountMatches (ppAmountMinor state) (ppCurrency state) ord then Refund
          else Confirm)"

definition settlePayPalTx ::
    "env \<Rightarrow> db \<Rightarrow> uuid \<Rightarrow> uuid \<Rightarrow> PayPalOrderState \<Rightarrow> order option \<Rightarrow> db \<times> bool" where
  "settlePayPalTx e s tenantId orderId state existing =
     (case payPalDecision state existing of
        Ignore \<Rightarrow> (s, False)
      | Refund \<Rightarrow> (s, True)
      | Confirm \<Rightarrow>
          confirmPaid e s tenantId orderId (\<lambda>ord. ord\<lparr>oPaypalCaptureId := ppCaptureId state\<rparr>)
            (\<lambda>winner. case winner of None \<Rightarrow> False
               | Some w \<Rightarrow> truthy (oPaypalCaptureId w) \<and> oPaypalCaptureId w \<noteq> ppCaptureId state))"

definition settlePayPal :: "env \<Rightarrow> db \<Rightarrow> uuid \<Rightarrow> uuid \<Rightarrow> PayPalOrderState \<Rightarrow> db" where
  "settlePayPal e s tenantId orderId state =
     (if ppCaptureStatus state = Some ''DECLINED'' \<or> ppCaptureStatus state = Some ''FAILED''
      then s\<lparr>orders := updateMany (\<lambda>ord. oId ord = orderId \<and> oTenantId ord = tenantId
                     \<and> oPaymentStatus ord = PaymentStatus.PENDING)
                   (\<lambda>ord. ord\<lparr>oPaymentStatus := PaymentStatus.FAILED\<rparr>) (orders s)\<rparr>
      else if ppCaptureStatus state \<noteq> Some ''COMPLETED'' \<or> \<not> truthy (ppCaptureId state) then s
      else let r = settlePayPalTx e s tenantId orderId state (tenantOrder s tenantId orderId)
           in if snd r then attemptRefund e PaymentProvider.PAYPAL (the (ppCaptureId state)) (fst r) else fst r)"

text \<open>\<open>captureOrder\<close> is PayPal's answer to the request to capture an order.\<close>

definition capturePayPalOrder ::
    "env \<Rightarrow> (string \<Rightarrow> PayPalOrderState res) \<Rightarrow> db \<Rightarrow> uuid \<Rightarrow> uuid \<Rightarrow> (db \<times> PaymentStatus \<times> OrderStatus) res" where
  "capturePayPalOrder e captureOrder s tenantId orderId =
     (case tenantOrder s tenantId orderId of
        None \<Rightarrow> Inl (NotFound ''Order not found'')
      | Some ord \<Rightarrow>
          if oFulfillmentMethod ord \<noteq> FulfillmentMethod.PAYPAL \<or> \<not> truthy (oPaypalOrderId ord)
          then Inl (NotFound ''Order not found'')
          else if oPaymentStatus ord \<noteq> PaymentStatus.PENDING
          then Inr (s, oPaymentStatus ord, oStatus ord)
          else bind_res (captureOrder (the (oPaypalOrderId ord))) (\<lambda>state.
            let s1 = emit (CaptureCall (the (oPaypalOrderId ord))) s;
                s2 = (if ppOrderStatus state \<noteq> ''NOT_APPROVED''
                      then settlePayPal e s1 tenantId orderId state else s1)
            in (case tenantOrder s2 tenantId orderId of
                  None \<Rightarrow> Inl RecordNotFound
                | Some fresh \<Rightarrow> Inr (s2, oPaymentStatus fresh, oStatus fresh))))"

text \<open>
  The webhook events the code acts on, with the parts of their resource it reads; the amount of a
  capture is already a number.
\<close>

datatype PayPalEvent =
    OrderApproved string
  | CaptureCompleted string "string option" decimal "string option"
      \<comment> \<open>capture, PayPal order, amount, currency\<close>
  | CaptureDenied string "string option" decimal "string option"
  | CaptureRefunded "string option" \<comment> \<open>the refund's \<open>up\<close> link\<close>
  | CaptureReversed string
  | DisputeOpened "string option" \<comment> \<open>CREATED and UPDATED: the first disputed transaction\<close>
  | DisputeResolved
  | OtherPayPalEvent

definition findOrderByPaypalOrderId :: "db \<Rightarrow> string \<Rightarrow> order option" where
  "findOrderByPaypalOrderId s k = findFirst (\<lambda>ord. oPaypalOrderId ord = Some k) (orders s)"

definition findOrderByPaypalCaptureId :: "db \<Rightarrow> string \<Rightarrow> order option" where
  "findOrderByPaypalCaptureId s k = findFirst (\<lambda>ord. oPaypalCaptureId ord = Some k) (orders s)"

datatype LostReason = toREFUNDED | toDISPUTED

definition markPayPalOrderLost :: "env \<Rightarrow> db \<Rightarrow> string \<Rightarrow> LostReason \<Rightarrow> db" where
  "markPayPalOrderLost e s captureId target =
     (case findOrderByPaypalCaptureId s captureId of
        None \<Rightarrow> s
      | Some ref \<Rightarrow>
          let s1 = (case target of
                      toREFUNDED \<Rightarrow> s\<lparr>orders := updateMany
                        (\<lambda>ord. oId ord = oId ref \<and> oPaymentStatus ord = PaymentStatus.PAID)
                        (\<lambda>ord. ord\<lparr>oPaymentStatus := PaymentStatus.REFUNDED, oStatus := OrderStatus.REFUNDED\<rparr>) (orders s)\<rparr>
                    | toDISPUTED \<Rightarrow> s\<lparr>orders := updateMany
                        (\<lambda>ord. oId ord = oId ref
                           \<and> (oPaymentStatus ord = PaymentStatus.PAID \<or> oPaymentStatus ord = PaymentStatus.REFUNDED))
                        (\<lambda>ord. ord\<lparr>oPaymentStatus := PaymentStatus.DISPUTED\<rparr>) (orders s)\<rparr>)
          in revokeForOrder e s1 (oId ref) (case target of toREFUNDED \<Rightarrow> ''refunded'' | toDISPUTED \<Rightarrow> ''dispute''))"

text \<open>\<open>up?.split('/captures/')[1]?.split(/[/?]/)[0]\<close>.\<close>

fun afterCaptures :: "string \<Rightarrow> string option" where
  "afterCaptures [] = None"
| "afterCaptures (c # cs) =
     (if prefix ''/captures/'' (c # cs)
      then Some (takeWhile (\<lambda>d. d \<noteq> CHR ''/'' \<and> d \<noteq> CHR ''?'') (drop 9 cs)) else afterCaptures cs)"

definition settleCapture ::
    "env \<Rightarrow> db \<Rightarrow> string \<Rightarrow> string \<Rightarrow> string option \<Rightarrow> decimal \<Rightarrow> string option \<Rightarrow> db" where
  "settleCapture e s status captureId paypalOrderId value currency =
     (if \<not> truthy paypalOrderId then s
      else case findOrderByPaypalOrderId s (the paypalOrderId) of
        None \<Rightarrow> s
      | Some ref \<Rightarrow> settlePayPal e s (oTenantId ref) (oId ref)
          \<lparr>ppOrderId = the paypalOrderId, ppOrderStatus = ''COMPLETED'', ppCaptureId = Some captureId,
           ppCaptureStatus = Some status,
           ppAmountMinor = Some (toMinorUnits value (case currency of Some c \<Rightarrow> c | None \<Rightarrow> ''USD'')),
           ppCurrency = currency\<rparr>)"

definition handlePayPalWebhook ::
    "env \<Rightarrow> (string \<Rightarrow> PayPalOrderState res) \<Rightarrow> db \<Rightarrow> bool \<Rightarrow> PayPalEvent \<Rightarrow> db res" where
  "handlePayPalWebhook e captureOrder s verified event =
     (if \<not> verified then Inl (BadRequest ''Invalid webhook signature'')
      else case event of
        OrderApproved k \<Rightarrow>
          (case findOrderByPaypalOrderId s k of
             None \<Rightarrow> Inr s
           | Some ref \<Rightarrow>
               if oPaymentStatus ref \<noteq> PaymentStatus.PENDING then Inr s
               else bind_res (captureOrder k) (\<lambda>state.
                 let s1 = emit (CaptureCall k) s
                 in Inr (if ppOrderStatus state \<noteq> ''NOT_APPROVED''
                         then settlePayPal e s1 (oTenantId ref) (oId ref) state else s1)))
      | CaptureCompleted c k v cur \<Rightarrow> Inr (settleCapture e s ''COMPLETED'' c k v cur)
      | CaptureDenied c k v cur \<Rightarrow> Inr (settleCapture e s ''DECLINED'' c k v cur)
      | CaptureRefunded up \<Rightarrow>
          (case up of
             None \<Rightarrow> Inr s
           | Some href \<Rightarrow>
               (if truthy (afterCaptures href)
                then Inr (markPayPalOrderLost e s (the (afterCaptures href)) toREFUNDED) else Inr s))
      | CaptureReversed c \<Rightarrow> Inr (markPayPalOrderLost e s c toDISPUTED)
      | DisputeOpened c \<Rightarrow>
          Inr (if truthy c then markPayPalOrderLost e s (the c) toDISPUTED else s)
      | DisputeResolved \<Rightarrow> Inr s
      | OtherPayPalEvent \<Rightarrow> Inr s)"

section \<open>Refunds and manual payments\<close>

definition refundOrderPayment :: "env \<Rightarrow> db \<Rightarrow> uuid \<Rightarrow> order \<Rightarrow> db res" where
  "refundOrderPayment e s tenantId ord =
     (if oFulfillmentMethod ord = FulfillmentMethod.STRIPE \<and> truthy (oStripePaymentIntentId ord)
      then refundPaymentIntent e s tenantId (the (oStripePaymentIntentId ord))
      else if oFulfillmentMethod ord = FulfillmentMethod.PAYPAL \<and> truthy (oPaypalCaptureId ord)
      then (case eRefundError e PaymentProvider.PAYPAL (the (oPaypalCaptureId ord)) of
              None \<Rightarrow> Inr (emit (RefundCall PaymentProvider.PAYPAL (the (oPaypalCaptureId ord))) s)
            | Some m \<Rightarrow> Inl (BadRequest (''PayPal could not process this refund: '' @ m)))
      else if oFulfillmentMethod ord = FulfillmentMethod.MERCADOPAGO \<and> truthy (oMercadoPagoPaymentId ord)
      then (case eRefundError e PaymentProvider.MERCADOPAGO (the (oMercadoPagoPaymentId ord)) of
              None \<Rightarrow> Inr (emit (RefundCall PaymentProvider.MERCADOPAGO (the (oMercadoPagoPaymentId ord))) s)
            | Some m \<Rightarrow> Inl (BadRequest (''MercadoPago could not process this refund: '' @ m)))
      else Inr s)"

definition requeueInvoice :: "uuid \<Rightarrow> uuid \<Rightarrow> db \<Rightarrow> db" where
  "requeueInvoice tenantId orderId s = emit (InvoiceJob tenantId orderId) s"

definition assertZelleConfigured :: "env \<Rightarrow> db \<Rightarrow> uuid \<Rightarrow> unit res" where
  "assertZelleConfigured e s tenantId =
     bind_res (getDecryptedCredentials e s tenantId PaymentProvider.ZELLE) (\<lambda>config.
       if config = None then Inl (BadRequest ''Zelle is not configured for this store'') else Inr ())"

definition confirmManualPayment :: "env \<Rightarrow> db \<Rightarrow> uuid \<Rightarrow> uuid \<Rightarrow> db res" where
  "confirmManualPayment e s tenantId orderId =
     (case tenantOrder s tenantId orderId of
        None \<Rightarrow> Inl (NotFound ''Order not found'')
      | Some ord \<Rightarrow>
          if oFulfillmentMethod ord \<noteq> FulfillmentMethod.ZELLE
          then Inl (BadRequest ''Only Zelle orders can be confirmed this way'')
          else if terminal ord then Inl (Conflict (''Order is already '' @ status_text (oStatus ord)))
          else if oPaymentStatus ord = PaymentStatus.PAID then Inr s
          else if \<not> truthy (oPaymentProofUrl ord)
          then Inl (BadRequest ''No payment proof has been submitted for this order yet'')
          else let s1 = updateOrder orderId
                     (\<lambda>r. r\<lparr>oPaymentStatus := PaymentStatus.PAID, oStatus := OrderStatus.CONFIRMED\<rparr>) s;
                   s2 = emit (InvoiceJob tenantId orderId) s1
               in Inr (fst (createDeliveryForPaidOrder e s2 tenantId orderId)))"

definition rejectManualPayment :: "db \<Rightarrow> uuid \<Rightarrow> uuid \<Rightarrow> db res" where
  "rejectManualPayment s tenantId orderId =
     (case tenantOrder s tenantId orderId of
        None \<Rightarrow> Inl (NotFound ''Order not found'')
      | Some ord \<Rightarrow>
          if oFulfillmentMethod ord \<noteq> FulfillmentMethod.ZELLE
          then Inl (BadRequest ''Only Zelle orders can be rejected this way'')
          else Inr (deleteUploadedFile (oPaymentProofUrl ord) tenantId
                 (updateOrder orderId (\<lambda>r. r\<lparr>oPaymentProofUrl := None, oPaymentReference := None\<rparr>) s)))"

section \<open>The contract of a settlement\<close>

text \<open>
  What the three providers' settlements have in common, whatever row was read before: either
  nothing is written, or the row read was payable and matched the payment, and the UPDATE confirmed
  every row still confirmable and queued the invoice.
\<close>

definition payable :: "order \<Rightarrow> bool" where
  "payable ord = (oPaymentStatus ord \<noteq> PaymentStatus.PAID \<and> \<not> terminal ord)"

definition markPaid :: "(order \<Rightarrow> order) \<Rightarrow> order \<Rightarrow> order" where
  "markPaid ref ord = (ref ord)\<lparr>oPaymentStatus := PaymentStatus.PAID, oStatus := OrderStatus.CONFIRMED\<rparr>"

definition invoiceJobs :: "uuid \<Rightarrow> uuid \<Rightarrow> effect list \<Rightarrow> nat" where
  "invoiceJobs t k es = count_list es (InvoiceJob t k)"

lemma invoiceJobs_simps [simp]:
  "invoiceJobs t k [] = 0"
  "invoiceJobs t k (x # xs) = (if x = InvoiceJob t k then 1 else 0) + invoiceJobs t k xs"
  "invoiceJobs t k (xs @ ys) = invoiceJobs t k xs + invoiceJobs t k ys"
  by (simp_all add: invoiceJobs_def)

lemma confirmPaid_orders:
  "orders (fst (confirmPaid e s t k ref w)) = updateMany (confirmable t k) (markPaid ref) (orders s)"
proof (cases "countRows (confirmable t k) (orders s) = 0")
  case True
  then have "updateMany (confirmable t k) (markPaid ref) (orders s) = orders s"
    by (intro updateMany_none) (auto simp: countRows_0_iff)
  with True show ?thesis by (simp add: confirmPaid_def)
next
  case False
  then show ?thesis
    by (simp add: confirmPaid_def Let_def table_simps markPaid_def [abs_def])
qed

lemma confirmPaid_invoices:
  "invoiceJobs t' k' (outbox (fst (confirmPaid e s t k ref w))) = invoiceJobs t' k' (outbox s)
     + (if t' = t \<and> k' = k \<and> countRows (confirmable t k) (orders s) \<noteq> 0 then 1 else 0)"
  by (auto simp: confirmPaid_def Let_def createDelivery_outbox)

locale settlement =
  fixes settle :: "env \<Rightarrow> db \<Rightarrow> uuid \<Rightarrow> uuid \<Rightarrow> 'p \<Rightarrow> order option \<Rightarrow> db \<times> bool"
    and matches :: "'p \<Rightarrow> order \<Rightarrow> bool"
    and ref :: "'p \<Rightarrow> order \<Rightarrow> order"
  assumes outcome: "fst (settle e s t k p ex) = s
      \<or> (\<exists>x w. ex = Some x \<and> payable x \<and> matches p x \<and> settle e s t k p ex = confirmPaid e s t k (ref p) w)"
    and ref_keeps: "oId (ref p ord) = oId ord" "oTenantId (ref p ord) = oTenantId ord"
begin

text \<open>A run of settlements of any orders by any payments, each with whatever row it had read.\<close>

fun run :: "db \<Rightarrow> (env \<times> uuid \<times> uuid \<times> 'p \<times> order option) list \<Rightarrow> db" where
  "run s [] = s"
| "run s ((e, t, k, p, ex) # xs) = run (fst (settle e s t k p ex)) xs"

lemma settle_orders:
  "orders (fst (settle e s t k p ex)) = orders s
   \<or> (\<exists>x. ex = Some x \<and> payable x \<and> matches p x)
     \<and> orders (fst (settle e s t k p ex)) = updateMany (confirmable t k) (markPaid (ref p)) (orders s)"
  using outcome [of e s t k p ex] confirmPaid_orders by auto

lemma key_markPaid: "oId (markPaid (ref p) ord) = oId ord" "oTenantId (markPaid (ref p) ord) = oTenantId ord"
  by (simp_all add: markPaid_def ref_keeps)

text \<open>An order that is not payable any more is left alone by every settlement.\<close>

lemma settle_final:
  assumes "rowOf oId k (orders s) = Some ord" and "\<not> payable ord"
  shows "rowOf oId k (orders (fst (settle e s t j p ex))) = Some ord"
proof -
  have "rowOf oId k (updateMany (confirmable t j) (markPaid (ref p)) (orders s)) = Some ord"
    using assms by (subst rowOf_updateMany) (auto simp: key_markPaid confirmable_def payable_def)
  with settle_orders [of e s t j p ex] assms(1) show ?thesis by auto
qed

lemma run_final:
  "rowOf oId k (orders s) = Some ord \<Longrightarrow> \<not> payable ord \<Longrightarrow> rowOf oId k (orders (run s xs)) = Some ord"
  by (induction s xs rule: run.induct) (simp_all add: settle_final)

text \<open>An order that a run left paid was confirmed by a payment matching the row it had read.\<close>

lemma settle_paid:
  assumes "rowOf oId k (orders s) = Some ord" and "payable ord"
    and "rowOf oId k (orders (fst (settle e s t j p ex))) = Some ord'"
  shows "ord' = ord \<or> j = k \<and> (\<exists>x. ex = Some x \<and> payable x \<and> matches p x) \<and> ord' = markPaid (ref p) ord"
proof -
  have "rowOf oId k (updateMany (confirmable t j) (markPaid (ref p)) (orders s))
      = Some (if confirmable t j ord then markPaid (ref p) ord else ord)"
    using assms(1) by (subst rowOf_updateMany) (simp_all add: key_markPaid)
  moreover have "confirmable t j ord \<Longrightarrow> j = k"
    using assms(1) by (auto simp: confirmable_def dest: rowOf_SomeD)
  ultimately show ?thesis
    using settle_orders [of e s t j p ex] assms(1,3) by (auto split: if_splits)
qed

lemma settle_row: "(\<exists>r. rowOf oId k (orders (fst (settle e s t j p ex))) = Some r) \<longleftrightarrow> (\<exists>r. rowOf oId k (orders s) = Some r)"
proof -
  have "map oId (orders (fst (settle e s t j p ex))) = map oId (orders s)"
    using settle_orders [of e s t j p ex] by (auto simp: map_updateMany_key key_markPaid)
  then have "oId ` set (orders (fst (settle e s t j p ex))) = oId ` set (orders s)"
    by (metis set_map)
  then show ?thesis by (metis not_Some_eq rowOf_None_iff)
qed

lemma markPaid_not_payable: "\<not> payable (markPaid r ord)"
  by (simp add: payable_def markPaid_def)

lemma run_paid:
  assumes "rowOf oId k (orders s) = Some ord" and "payable ord"
    and "rowOf oId k (orders (run s xs)) = Some ord'" and "oPaymentStatus ord' = PaymentStatus.PAID"
  shows "\<exists>(e, t, j, p, ex) \<in> set xs. j = k \<and> (\<exists>x. ex = Some x \<and> payable x \<and> matches p x)
    \<and> ord' = markPaid (ref p) ord"
  using assms
proof (induction s xs rule: run.induct)
  case (1 s)
  then show ?case by (simp add: payable_def)
next
  case (2 s e t j p ex xs)
  obtain o1 where o1: "rowOf oId k (orders (fst (settle e s t j p ex))) = Some o1"
    using settle_row [of k e s t j p ex] 2(2) by blast
  from settle_paid [OF 2(2,3) o1] consider "o1 = ord"
    | "j = k" "\<exists>x. ex = Some x \<and> payable x \<and> matches p x" "o1 = markPaid (ref p) ord" by blast
  then show ?case
  proof cases
    case 1
    with 2(1) [OF _ 2(3)] o1 2(4,5) show ?thesis by auto
  next
    case 2
    have "rowOf oId k (orders (run (fst (settle e s t j p ex)) xs)) = Some o1"
      by (rule run_final [OF o1]) (simp add: 2 markPaid_not_payable)
    with 2 \<open>rowOf oId k (orders (run s ((e, t, j, p, ex) # xs))) = Some ord'\<close> show ?thesis by auto
  qed
qed

text \<open>However often and in whatever order payments are delivered, an order is invoiced once at most.\<close>

lemma settle_invoices:
  assumes "uniqueKeys oId (orders s)"
  shows "invoiceJobs t k (outbox (fst (settle e s t' j p ex))) \<le> invoiceJobs t k (outbox s)
      + (case rowOf oId k (orders s) of Some ord \<Rightarrow> if payable ord then 1 else 0 | None \<Rightarrow> 0)"
    and "invoiceJobs t k (outbox (fst (settle e s t' j p ex))) \<noteq> invoiceJobs t k (outbox s) \<Longrightarrow>
      \<exists>ord. rowOf oId k (orders (fst (settle e s t' j p ex))) = Some ord \<and> \<not> payable ord"
proof -
  have c: "rowOf oId k (orders s) = Some ord \<and> payable ord \<and> confirmable t k ord"
    if "ord \<in> set (orders s)" "confirmable t k ord" for ord
    using rowOf_unique [OF assms that(1)] that(2) by (auto simp: confirmable_def payable_def)
  show "invoiceJobs t k (outbox (fst (settle e s t' j p ex))) \<le> invoiceJobs t k (outbox s)
      + (case rowOf oId k (orders s) of Some ord \<Rightarrow> if payable ord then 1 else 0 | None \<Rightarrow> 0)"
    using outcome [of e s t' j p ex] c
    by (auto simp: confirmPaid_invoices countRows_0_iff split: option.splits)
  assume n: "invoiceJobs t k (outbox (fst (settle e s t' j p ex))) \<noteq> invoiceJobs t k (outbox s)"
  then obtain w where w: "settle e s t' j p ex = confirmPaid e s t' j (ref p) w"
    using outcome [of e s t' j p ex] by auto
  with n have j: "t' = t" "j = k" and ne: "countRows (confirmable t k) (orders s) \<noteq> 0"
    by (auto simp: confirmPaid_invoices split: if_splits)
  from ne obtain ord where "ord \<in> set (orders s)" "confirmable t k ord" by (auto simp: countRows_0_iff)
  from c [OF this] have "rowOf oId k (orders (fst (settle e s t' j p ex))) = Some (markPaid (ref p) ord)"
    by (simp add: w [unfolded j] j confirmPaid_orders rowOf_updateMany key_markPaid)
  then show "\<exists>ord. rowOf oId k (orders (fst (settle e s t' j p ex))) = Some ord \<and> \<not> payable ord"
    by (simp add: markPaid_not_payable)
qed

lemma settle_unique: "uniqueKeys oId (orders s) \<Longrightarrow> uniqueKeys oId (orders (fst (settle e s t j p ex)))"
  using settle_orders [of e s t j p ex] by (auto simp: uniqueKeys_updateMany key_markPaid)

lemma run_invoices_final:
  assumes "uniqueKeys oId (orders s)" "rowOf oId k (orders s) = Some ord" "\<not> payable ord"
  shows "invoiceJobs t k (outbox (run s xs)) = invoiceJobs t k (outbox s)"
  using assms
proof (induction s xs rule: run.induct)
  case (2 s e t' j p ex xs)
  have "invoiceJobs t k (outbox (fst (settle e s t' j p ex))) = invoiceJobs t k (outbox s)"
    using settle_invoices(1) [OF 2(2), of t k e t' j p ex] 2(3,4)
      outcome [of e s t' j p ex] by (auto simp: confirmPaid_invoices)
  with 2(1) [OF settle_unique [OF 2(2)] settle_final [OF 2(3,4)] 2(4)] show ?case by simp
qed simp

lemma run_invoices:
  assumes "uniqueKeys oId (orders s)"
  shows "invoiceJobs t k (outbox (run s xs)) \<le> invoiceJobs t k (outbox s) + 1"
  using assms
proof (induction s xs rule: run.induct)
  case (2 s e t' j p ex xs)
  let ?s = "fst (settle e s t' j p ex)"
  show ?case
  proof (cases "invoiceJobs t k (outbox ?s) = invoiceJobs t k (outbox s)")
    case True
    with 2(1) [OF settle_unique [OF 2(2)]] show ?thesis by simp
  next
    case False
    from settle_invoices(2) [OF 2(2) False] obtain ord
      where "rowOf oId k (orders ?s) = Some ord" "\<not> payable ord" by blast
    from run_invoices_final [OF settle_unique [OF 2(2)] this]
    have "invoiceJobs t k (outbox (run ?s xs)) = invoiceJobs t k (outbox ?s)" .
    moreover have "invoiceJobs t k (outbox ?s) \<le> invoiceJobs t k (outbox s) + 1"
      using settle_invoices(1) [OF 2(2), of t k e t' j p ex] by (auto split: option.splits if_splits)
    ultimately show ?thesis by simp
  qed
qed simp

end

section \<open>The providers satisfy it\<close>

text \<open>A payment of any provider, and its settlement; an exception of Stripe's writes nothing.\<close>

datatype Payment =
    StripePayment "string option" StripeSession
  | MercadoPago MercadoPagoPayment
  | PayPal PayPalOrderState

fun settlePayment :: "env \<Rightarrow> db \<Rightarrow> uuid \<Rightarrow> uuid \<Rightarrow> Payment \<Rightarrow> order option \<Rightarrow> db \<times> bool" where
  "settlePayment e s t k (StripePayment account session) ex =
     (case settleStripe e s t k account session ex of Inl _ \<Rightarrow> (s, False) | Inr r \<Rightarrow> r)"
| "settlePayment e s t k (MercadoPago payment) ex = settleMercadoPago e s t k payment ex"
| "settlePayment e s t k (PayPal state) ex = settlePayPalTx e s t k state ex"

text \<open>The amount and the currency are the order's; for PayPal the PayPal order is too.\<close>

fun paymentMatches :: "Payment \<Rightarrow> order \<Rightarrow> bool" where
  "paymentMatches (StripePayment _ session) ord =
     (ssPaymentStatus session = ''paid'' \<and> amountMatches (ssAmountTotal session) (ssCurrency session) ord)"
| "paymentMatches (MercadoPago payment) ord =
     (map_option (\<lambda>a. js_round_mult a 100) (mpTransactionAmount payment) = Some (js_round_mult (oGrandTotal ord) 100)
      \<and> map_option upper (mpCurrencyId payment) = Some (upper (oCurrency ord)))"
| "paymentMatches (PayPal state) ord =
     (oFulfillmentMethod ord = FulfillmentMethod.PAYPAL \<and> oPaypalOrderId ord = Some (ppOrderId state)
      \<and> amountMatches (ppAmountMinor state) (ppCurrency state) ord)"

fun paymentRef :: "Payment \<Rightarrow> order \<Rightarrow> order" where
  "paymentRef (StripePayment _ session) ord =
     (case ssPaymentIntent session of Some intent \<Rightarrow> ord\<lparr>oStripePaymentIntentId := Some intent\<rparr> | None \<Rightarrow> ord)"
| "paymentRef (MercadoPago payment) ord = ord\<lparr>oMercadoPagoPaymentId := Some (mpId payment)\<rparr>"
| "paymentRef (PayPal state) ord = ord\<lparr>oPaypalCaptureId := ppCaptureId state\<rparr>"

lemma stripeDecision_Confirm:
  assumes "stripeDecision e s t account session ex = Inr Confirm"
  shows "\<exists>x. ex = Some x \<and> payable x \<and> paymentMatches (StripePayment account session) x"
  using assms
  by (auto simp: stripeDecision_def payable_def bind_res_eq_Inr split: option.splits if_splits)

lemma mercadoPagoDecision_Confirm:
  assumes "mercadoPagoDecision payment ex = Confirm"
  shows "\<exists>x. ex = Some x \<and> payable x \<and> paymentMatches (MercadoPago payment) x"
  using assms by (auto simp: mercadoPagoDecision_def payable_def split: option.splits if_splits)

lemma payPalDecision_Confirm:
  assumes "payPalDecision state ex = Confirm"
  shows "\<exists>x. ex = Some x \<and> payable x \<and> paymentMatches (PayPal state) x"
  using assms by (auto simp: payPalDecision_def payable_def split: option.splits if_splits)

lemma settlePayment_outcome:
  "fst (settlePayment e s t k p ex) = s
   \<or> (\<exists>x w. ex = Some x \<and> payable x \<and> paymentMatches p x
        \<and> settlePayment e s t k p ex = confirmPaid e s t k (paymentRef p) w)"
proof (cases p)
  case (StripePayment account session)
  show ?thesis
  proof (cases "stripeDecision e s t account session ex")
    case (Inr d)
    show ?thesis
    proof (cases d)
      case Confirm
      have "paymentRef p = (\<lambda>ord. case ssPaymentIntent session of
          Some intent \<Rightarrow> ord\<lparr>oStripePaymentIntentId := Some intent\<rparr> | None \<Rightarrow> ord)"
        by (rule ext) (simp add: StripePayment)
      with Confirm Inr stripeDecision_Confirm [of e s t account session ex] StripePayment
      show ?thesis by (auto simp: settleStripe_def)
    qed (use Inr StripePayment in \<open>simp_all add: settleStripe_def\<close>)
  qed (simp add: StripePayment settleStripe_def)
next
  case (MercadoPago payment)
  then have "paymentRef p = (\<lambda>ord. ord\<lparr>oMercadoPagoPaymentId := Some (mpId payment)\<rparr>)"
    by (simp add: fun_eq_iff)
  with MercadoPago mercadoPagoDecision_Confirm [of payment ex] show ?thesis
    by (cases "mercadoPagoDecision payment ex") (auto simp: settleMercadoPago_def)
next
  case (PayPal state)
  then have "paymentRef p = (\<lambda>ord. ord\<lparr>oPaypalCaptureId := ppCaptureId state\<rparr>)"
    by (simp add: fun_eq_iff)
  with PayPal payPalDecision_Confirm [of state ex] show ?thesis
    by (cases "payPalDecision state ex") (auto simp: settlePayPalTx_def)
qed

lemma paymentRef_keeps: "oId (paymentRef p ord) = oId ord" "oTenantId (paymentRef p ord) = oTenantId ord"
  by (cases p; simp split: option.split)+

interpretation pay: settlement settlePayment paymentMatches paymentRef
  by unfold_locales (rule settlePayment_outcome, rule paymentRef_keeps, rule paymentRef_keeps)

section \<open>Properties\<close>

text \<open>
  C1: an unpaid order becomes paid only by a payment of its amount. After any run of settlements by
  any of the three providers, each acting on whatever possibly outdated row it had read, an order
  that was payable and is now paid was confirmed by one of the run's payments, for this order,
  whose amount and currency match the row that settlement read, and differs from what it was
  only in its status and that payment's reference.
\<close>

theorem paid_only_when_matched:
  assumes "rowOf oId k (orders s) = Some ord" and "payable ord"
    and "rowOf oId k (orders (pay.run s events)) = Some ord'"
    and "oPaymentStatus ord' = PaymentStatus.PAID"
  shows "\<exists>(e, t, j, p, ex) \<in> set events. j = k
    \<and> (\<exists>x. ex = Some x \<and> payable x \<and> paymentMatches p x)
    \<and> ord' = (paymentRef p ord)\<lparr>oPaymentStatus := PaymentStatus.PAID, oStatus := OrderStatus.CONFIRMED\<rparr>"
  using pay.run_paid [OF assms] by (simp only: markPaid_def)

definition mp0 :: MercadoPagoPayment where
  "mp0 = \<lparr>mpId = ''77'', mpStatus = ''approved'', mpTenantId = Some ''t1'', mpOrderId = Some ''o1'',
     mpTransactionAmount = Some 22, mpCurrencyId = Some ''usd''\<rparr>"

lemma settle_mp0:
  "settlePayment env0 db0 ''t1'' ''o1'' (MercadoPago mp0) (Some order0)
     = (emit (InvoiceJob ''t1'' ''o1'') (db0\<lparr>orders := [order0\<lparr>oMercadoPagoPaymentId := Some ''77'',
          oPaymentStatus := PaymentStatus.PAID, oStatus := OrderStatus.CONFIRMED\<rparr>]\<rparr>), False)"
proof -
  have "upper ''usd'' = upper ''USD''" by code_simp
  then have "mercadoPagoDecision mp0 (Some order0) = Confirm"
    by (simp add: mercadoPagoDecision_def mp0_def order0_def)
  then show ?thesis
    by (simp add: settleMercadoPago_def confirmPaid_def confirmable_def createDeliveryForPaidOrder_def
        orderAssets_def orderById_def findMany_def Let_def sample_defs mp0_def)
qed

theorem paid_only_when_matched_witness:
  "\<exists>ord'. rowOf oId ''o1'' (orders (pay.run db0 [(env0, ''t1'', ''o1'', MercadoPago mp0, Some order0)])) = Some ord'
     \<and> oPaymentStatus ord' = PaymentStatus.PAID \<and> paymentMatches (MercadoPago mp0) order0"
proof -
  define ord' where "ord' = order0\<lparr>oMercadoPagoPaymentId := Some ''77'',
          oPaymentStatus := PaymentStatus.PAID, oStatus := OrderStatus.CONFIRMED\<rparr>"
  have "rowOf oId ''o1'' (orders db0) = Some order0" "payable order0"
    by (simp_all add: sample_defs payable_def)
  moreover have o': "rowOf oId ''o1'' (orders (pay.run db0 [(env0, ''t1'', ''o1'', MercadoPago mp0, Some order0)])) = Some ord'"
    by (simp del: settlePayment.simps add: settle_mp0 ord'_def) (simp add: order0_def)
  moreover have "oPaymentStatus ord' = PaymentStatus.PAID" by (simp add: ord'_def)
  ultimately have "\<exists>(e, t, j, p, ex) \<in> set [(env0, ''t1'', ''o1'', MercadoPago mp0, Some order0)]. j = ''o1''
    \<and> (\<exists>x. ex = Some x \<and> payable x \<and> paymentMatches p x)
    \<and> ord' = (paymentRef p order0)\<lparr>oPaymentStatus := PaymentStatus.PAID, oStatus := OrderStatus.CONFIRMED\<rparr>"
    by (rule paid_only_when_matched)
  with o' show ?thesis by (simp add: ord'_def)
qed

lemma tenantOrder_SomeD:
  "tenantOrder s t k = Some ord \<Longrightarrow> ord \<in> set (orders s) \<and> oId ord = k \<and> oTenantId ord = t"
  by (auto simp: tenantOrder_def dest: findFirst_SomeD)

lemma tenantOrder_rowOf:
  "uniqueKeys oId (orders s) \<Longrightarrow> tenantOrder s t k = Some ord \<Longrightarrow> rowOf oId k (orders s) = Some ord"
  using rowOf_unique [of oId "orders s" ord] tenantOrder_SomeD [of s t k ord] by auto

subsection \<open>Redeliveries\<close>

text \<open>
  What can be delivered, again and again: a payment whose settlement acts on whatever row it had read,
  and a PayPal capture in any state, declined and failed ones included.
\<close>

datatype Delivery =
    Settles env uuid uuid Payment "order option"
  | PayPalState env uuid uuid PayPalOrderState

fun settleDelivery :: "Delivery \<Rightarrow> db \<Rightarrow> db" where
  "settleDelivery (Settles e t k p ex) s = fst (settlePayment e s t k p ex)"
| "settleDelivery (PayPalState e t k st) s = settlePayPal e s t k st"

definition settlements :: "Delivery list \<Rightarrow> db \<Rightarrow> db" where
  "settlements ds s = fold settleDelivery ds s"

lemma settlements_simps [simp]:
  "settlements [] s = s" "settlements (d # ds) s = settlements ds (settleDelivery d s)"
  by (simp_all add: settlements_def)

text \<open>A capture that was declined or failed.\<close>

definition captureFailed :: "PayPalOrderState \<Rightarrow> bool" where
  "captureFailed st = (ppCaptureStatus st = Some ''DECLINED'' \<or> ppCaptureStatus st = Some ''FAILED'')"

definition declined :: "uuid \<Rightarrow> uuid \<Rightarrow> order list \<Rightarrow> order list" where
  "declined t k = updateMany (\<lambda>ord. oId ord = k \<and> oTenantId ord = t \<and> oPaymentStatus ord = PaymentStatus.PENDING)
     (\<lambda>ord. ord\<lparr>oPaymentStatus := PaymentStatus.FAILED\<rparr>)"

lemma settlePayPal_failed: "captureFailed st \<Longrightarrow> settlePayPal e s t k st = s\<lparr>orders := declined t k (orders s)\<rparr>"
  by (auto simp: settlePayPal_def captureFailed_def declined_def)

lemma declined_unique: "uniqueKeys oId (declined t k os) = uniqueKeys oId os"
  by (simp add: declined_def uniqueKeys_updateMany)

lemma declined_row:
  "rowOf oId j (declined t k os) = map_option (\<lambda>ord. if j = k \<and> oTenantId ord = t \<and> oPaymentStatus ord = PaymentStatus.PENDING
     then ord\<lparr>oPaymentStatus := PaymentStatus.FAILED\<rparr> else ord) (rowOf oId j os)"
  by (auto simp: declined_def rowOf_updateMany dest: rowOf_SomeD intro!: map_option_cong)

text \<open>A delivery settles like one payment, or marks a pending order failed.\<close>

lemma settleDelivery_effect:
  "(\<exists>e t k p ex. orders (settleDelivery d s) = orders (fst (settlePayment e s t k p ex))
      \<and> (\<forall>t' k'. invoiceJobs t' k' (outbox (settleDelivery d s)) = invoiceJobs t' k' (outbox (fst (settlePayment e s t k p ex)))))
   \<or> (\<exists>t k. settleDelivery d s = s\<lparr>orders := declined t k (orders s)\<rparr>)"
proof (cases d)
  case (PayPalState e t k st)
  show ?thesis
  proof (cases "captureFailed st")
    case True
    with PayPalState settlePayPal_failed [OF True, of e s t k] show ?thesis by auto
  next
    case False
    define ex where "ex = (if ppCaptureStatus st \<noteq> Some ''COMPLETED'' \<or> \<not> truthy (ppCaptureId st)
        then None else tenantOrder s t k)"
    have "orders (settleDelivery d s) = orders (fst (settlePayment e s t k (PayPal st) ex))
      \<and> (\<forall>t' k'. invoiceJobs t' k' (outbox (settleDelivery d s))
          = invoiceJobs t' k' (outbox (fst (settlePayment e s t k (PayPal st) ex))))"
      using False
      by (auto simp: PayPalState settlePayPal_def captureFailed_def ex_def settlePayPalTx_def payPalDecision_def
          attemptRefund_def Let_def split: option.splits)
    then show ?thesis by blast
  qed
next
  case (Settles e t k p ex)
  show ?thesis unfolding Settles settleDelivery.simps by (rule disjI1, (rule exI)+, rule conjI, rule refl, intro allI, rule refl)
qed

lemma settleDelivery_unique: "uniqueKeys oId (orders s) \<Longrightarrow> uniqueKeys oId (orders (settleDelivery d s))"
  using settleDelivery_effect [of d s] pay.settle_unique [of s] by (auto simp: declined_unique)

lemma settleDelivery_final:
  assumes "rowOf oId k (orders s) = Some ord" and "\<not> payable ord"
  shows "\<exists>ord'. rowOf oId k (orders (settleDelivery d s)) = Some ord' \<and> \<not> payable ord'
    \<and> (ord' = ord \<or> oPaymentStatus ord = PaymentStatus.PENDING \<and> ord' = ord\<lparr>oPaymentStatus := PaymentStatus.FAILED\<rparr>)"
proof -
  have "terminal ord" if "oPaymentStatus ord = PaymentStatus.PENDING" using assms(2) that by (simp add: payable_def)
  then have "\<not> payable (ord\<lparr>oPaymentStatus := PaymentStatus.FAILED\<rparr>)" if "oPaymentStatus ord = PaymentStatus.PENDING"
    using that by (simp add: payable_def terminal_def)
  then show ?thesis
    using settleDelivery_effect [of d s] pay.settle_final [OF assms] assms by (auto simp: declined_row)
qed

lemma settleDelivery_invoices:
  assumes "uniqueKeys oId (orders s)"
  shows "invoiceJobs t k (outbox (settleDelivery d s)) \<le> invoiceJobs t k (outbox s)
      + (case rowOf oId k (orders s) of Some ord \<Rightarrow> if payable ord then 1 else 0 | None \<Rightarrow> 0)"
    and "invoiceJobs t k (outbox (settleDelivery d s)) \<noteq> invoiceJobs t k (outbox s) \<Longrightarrow>
      \<exists>ord. rowOf oId k (orders (settleDelivery d s)) = Some ord \<and> \<not> payable ord"
    and "invoiceJobs t k (outbox s) \<le> invoiceJobs t k (outbox (settleDelivery d s))"
proof -
  have mono: "invoiceJobs t k (outbox s) \<le> invoiceJobs t k (outbox (fst (settlePayment e s t' j p ex)))" for e t' j p ex
    using pay.outcome [of e s t' j p ex] by (auto simp: confirmPaid_invoices)
  show "invoiceJobs t k (outbox (settleDelivery d s)) \<le> invoiceJobs t k (outbox s)
      + (case rowOf oId k (orders s) of Some ord \<Rightarrow> if payable ord then 1 else 0 | None \<Rightarrow> 0)"
    using settleDelivery_effect [of d s] pay.settle_invoices(1) [OF assms, of t k] by auto
  show "invoiceJobs t k (outbox s) \<le> invoiceJobs t k (outbox (settleDelivery d s))"
    using settleDelivery_effect [of d s] mono by auto
  show "\<exists>ord. rowOf oId k (orders (settleDelivery d s)) = Some ord \<and> \<not> payable ord"
    if "invoiceJobs t k (outbox (settleDelivery d s)) \<noteq> invoiceJobs t k (outbox s)"
    using settleDelivery_effect [of d s] pay.settle_invoices(2) [OF assms, of t k] that by auto
qed

lemma settlements_final:
  assumes "uniqueKeys oId (orders s)" and "rowOf oId k (orders s) = Some ord" and "\<not> payable ord"
  shows "invoiceJobs t k (outbox (settlements ds s)) = invoiceJobs t k (outbox s)
    \<and> (\<exists>ord'. rowOf oId k (orders (settlements ds s)) = Some ord' \<and> (ord' = ord
        \<or> oPaymentStatus ord = PaymentStatus.PENDING \<and> ord' = ord\<lparr>oPaymentStatus := PaymentStatus.FAILED\<rparr>))"
  using assms
proof (induction ds arbitrary: s ord)
  case (Cons d ds)
  have same: "invoiceJobs t k (outbox (settleDelivery d s)) = invoiceJobs t k (outbox s)"
    using settleDelivery_invoices(1,3) [OF Cons.prems(1), of t k d] Cons.prems(2,3) by simp
  from settleDelivery_final [OF Cons.prems(2,3), of d] obtain o1 where
    o1: "rowOf oId k (orders (settleDelivery d s)) = Some o1" "\<not> payable o1"
    and eq: "o1 = ord \<or> oPaymentStatus ord = PaymentStatus.PENDING \<and> o1 = ord\<lparr>oPaymentStatus := PaymentStatus.FAILED\<rparr>"
    by blast
  from Cons.IH [OF settleDelivery_unique [OF Cons.prems(1)] o1] same eq show ?case by auto
qed simp

lemma settlements_unique: "uniqueKeys oId (orders s) \<Longrightarrow> uniqueKeys oId (orders (settlements ds s))"
  by (induction ds arbitrary: s) (simp_all add: settleDelivery_unique)

lemma settlements_invoices:
  assumes "uniqueKeys oId (orders s)"
  shows "invoiceJobs t k (outbox (settlements ds s)) \<le> invoiceJobs t k (outbox s) + 1"
  using assms
proof (induction ds arbitrary: s)
  case (Cons d ds)
  show ?case
  proof (cases "invoiceJobs t k (outbox (settleDelivery d s)) = invoiceJobs t k (outbox s)")
    case True
    with Cons.IH [OF settleDelivery_unique [OF Cons.prems]] show ?thesis by (metis settlements_simps(2))
  next
    case False
    from settleDelivery_invoices(2) [OF Cons.prems False] obtain ord
      where ord: "rowOf oId k (orders (settleDelivery d s)) = Some ord" "\<not> payable ord" by blast
    have "invoiceJobs t k (outbox (settleDelivery d s)) \<le> invoiceJobs t k (outbox s) + 1"
      using settleDelivery_invoices(1) [OF Cons.prems, of t k d] by (auto split: option.splits if_splits)
    with settlements_final [OF settleDelivery_unique [OF Cons.prems] ord, of t ds] show ?thesis by simp
  qed
qed simp

text \<open>The same payment once more, on the row it paid or on a row still unpaid when it was read.\<close>

lemma redelivered_current: "settlePayment e s t k p (Some (markPaid (paymentRef p) ord)) = (s, False)"
proof (cases p)
  case (StripePayment account session)
  then show ?thesis
    by (cases "getDecryptedCredentials e s t PaymentProvider.STRIPE"; cases "ssPaymentIntent session")
      (simp_all add: settleStripe_def stripeDecision_def markPaid_def)
next
  case (MercadoPago payment)
  then show ?thesis by (simp add: settleMercadoPago_def mercadoPagoDecision_def markPaid_def)
next
  case (PayPal state)
  then show ?thesis by (simp add: settlePayPalTx_def payPalDecision_def markPaid_def)
qed

lemma redelivered_stale:
  assumes "payable x" and "paymentMatches p x" and "countRows (confirmable t k) (orders s) = 0"
    and "tenantOrder s t k = Some (markPaid (paymentRef p) ord)"
  shows "settlePayment e s t k p (Some x) = (s, False)"
proof (cases p)
  case (StripePayment account session)
  with assms show ?thesis
    by (cases "getDecryptedCredentials e s t PaymentProvider.STRIPE"; cases "ssPaymentIntent session")
      (simp_all add: settleStripe_def stripeDecision_def payable_def confirmPaid_def markPaid_def)
next
  case (MercadoPago payment)
  with assms show ?thesis
    by (simp add: settleMercadoPago_def mercadoPagoDecision_def payable_def confirmPaid_def markPaid_def)
next
  case (PayPal state)
  with assms show ?thesis
    by (simp add: settlePayPalTx_def payPalDecision_def payable_def confirmPaid_def markPaid_def)
qed

lemma settled_row:
  assumes "uniqueKeys oId (orders s)" and "orders (fst (settlePayment e s t k p ex)) \<noteq> orders s"
  shows "\<exists>x ord. ex = Some x \<and> payable x \<and> paymentMatches p x \<and> oTenantId ord = t
    \<and> rowOf oId k (orders (fst (settlePayment e s t k p ex))) = Some (markPaid (paymentRef p) ord)"
proof -
  from pay.settle_orders [of e s t k p ex] assms(2) obtain x where x: "ex = Some x" "payable x" "paymentMatches p x"
    and os: "orders (fst (settlePayment e s t k p ex)) = updateMany (confirmable t k) (markPaid (paymentRef p)) (orders s)"
    by blast
  have "\<not> (\<forall>ord \<in> set (orders s). \<not> confirmable t k ord)"
    using updateMany_none [of "orders s" "confirmable t k"] assms(2) os by auto
  then obtain ord where ord: "ord \<in> set (orders s)" "confirmable t k ord" by blast
  then have "rowOf oId k (orders s) = Some ord"
    using rowOf_unique [OF assms(1) ord(1)] by (simp add: confirmable_def)
  then have "rowOf oId k (orders (fst (settlePayment e s t k p ex))) = Some (markPaid (paymentRef p) ord)"
    using ord(2) by (simp add: os rowOf_updateMany pay.key_markPaid)
  with x ord(2) show ?thesis by (auto simp: confirmable_def)
qed

lemma tenantOrder_of_row:
  assumes "rowOf oId k (orders s) = Some ord" "oTenantId ord = t" "uniqueKeys oId (orders s)"
  shows "tenantOrder s t k = Some ord"
proof -
  have "ord \<in> set (orders s)" "oId ord = k" using rowOf_SomeD [OF assms(1)] by auto
  then obtain r where "tenantOrder s t k = Some r"
    using assms(2) by (cases "tenantOrder s t k") (auto simp: tenantOrder_def findFirst_None_iff)
  with tenantOrder_rowOf [OF assms(3) this] assms(1) show ?thesis by simp
qed

lemma redelivered:
  assumes "uniqueKeys oId (orders s)" and "settlePayment e s t k p ex = (s', r)" and "orders s' \<noteq> orders s"
    and "ex' = ex \<or> ex' = tenantOrder (settlements ds s') t k"
  shows "settlePayment e' (settlements ds s') t k p ex' = (settlements ds s', False)"
proof -
  have s': "s' = fst (settlePayment e s t k p ex)" using assms(2) by simp
  from settled_row [OF assms(1), of e t k p ex] assms(3) obtain x ord where
    x: "ex = Some x" "payable x" "paymentMatches p x" and t: "oTenantId ord = t"
    and row: "rowOf oId k (orders s') = Some (markPaid (paymentRef p) ord)"
    unfolding s' by blast
  have u: "uniqueKeys oId (orders s')" using pay.settle_unique [OF assms(1)] by (simp add: s')
  have paid: "oPaymentStatus (markPaid (paymentRef p) ord) = PaymentStatus.PAID" by (simp add: markPaid_def)
  let ?s = "settlements ds s'"
  have row2: "rowOf oId k (orders ?s) = Some (markPaid (paymentRef p) ord)"
    using settlements_final [OF u row pay.markPaid_not_payable, where ds = ds] paid by auto
  have u2: "uniqueKeys oId (orders ?s)" by (rule settlements_unique [OF u])
  have cur: "tenantOrder ?s t k = Some (markPaid (paymentRef p) ord)"
    by (rule tenantOrder_of_row [OF row2 _ u2]) (simp add: pay.key_markPaid t)
  have "\<not> confirmable t k q" if "q \<in> set (orders ?s)" for q
    using rowOf_unique [OF u2 that] row2 paid by (auto simp: confirmable_def)
  then have "countRows (confirmable t k) (orders ?s) = 0" by (simp add: countRows_0_iff)
  with redelivered_stale [OF x(2,3) _ cur] redelivered_current assms(4) x(1) cur show ?thesis by auto
qed

text \<open>
  C2: redelivered and duplicate webhooks have no further effect. Over any run of deliveries of any
  payments and of PayPal captures in any state, declined and failed ones included, with repetitions, in
  any order and each settlement on whatever row it had read: an order is invoiced at most once; an order
  that is paid or finished is not invoiced again and keeps its row, but for the payment status of a
  finished order that was still PENDING, which a declined PayPal capture sets to FAILED; the payment that
  paid an order, delivered again after any such run, by a settlement that reads the order anew or read
  the same row as the first, changes nothing and asks for no refund; and a declined capture delivered
  again changes nothing either.
\<close>

theorem settled_at_most_once:
  assumes "uniqueKeys oId (orders s)"
  shows "invoiceJobs t k (outbox (settlements ds s)) \<le> invoiceJobs t k (outbox s) + 1
    \<and> (\<forall>ord. rowOf oId k (orders s) = Some ord \<and> \<not> payable ord \<longrightarrow>
         invoiceJobs t k (outbox (settlements ds s)) = invoiceJobs t k (outbox s)
         \<and> (\<exists>ord'. rowOf oId k (orders (settlements ds s)) = Some ord' \<and> (ord' = ord
              \<or> oPaymentStatus ord = PaymentStatus.PENDING \<and> ord' = ord\<lparr>oPaymentStatus := PaymentStatus.FAILED\<rparr>)))
    \<and> (\<forall>s' r ex'. settlePayment e s t k p ex = (s', r) \<and> orders s' \<noteq> orders s
         \<and> (ex' = ex \<or> ex' = tenantOrder (settlements ds s') t k) \<longrightarrow>
         settlePayment e' (settlements ds s') t k p ex' = (settlements ds s', False))
    \<and> (captureFailed st \<longrightarrow> settlePayPal e' (settlePayPal e s t k st) t k st = settlePayPal e s t k st)"
proof -
  have "declined t k (declined t k os) = declined t k os" for os
    by (simp add: declined_def updateMany_def)
  then have "captureFailed st \<longrightarrow> settlePayPal e' (settlePayPal e s t k st) t k st = settlePayPal e s t k st"
    by (simp add: settlePayPal_failed)
  with settlements_invoices [OF assms, of t k ds] settlements_final [OF assms, where k = k and t = t and ds = ds]
    redelivered [OF assms, where ds = ds and t = t and k = k and p = p and e' = e'] show ?thesis by blast
qed

theorem settled_at_most_once_witness:
  "invoiceJobs ''t1'' ''o1'' (outbox (settlements [Settles env0 ''t1'' ''o1'' (MercadoPago mp0) (Some order0),
      Settles env0 ''t1'' ''o1'' (MercadoPago mp0) (Some order0)] db0)) = 1
   \<and> (let s1 = fst (settlePayment env0 db0 ''t1'' ''o1'' (MercadoPago mp0) (Some order0))
      in settlePayment env0 s1 ''t1'' ''o1'' (MercadoPago mp0) (Some order0) = (s1, False))"
proof -
  have u: "uniqueKeys oId (orders db0)" by (simp add: uniqueKeys_def db0_def)
  define s1 where "s1 = fst (settlePayment env0 db0 ''t1'' ''o1'' (MercadoPago mp0) (Some order0))"
  have s1: "settlePayment env0 db0 ''t1'' ''o1'' (MercadoPago mp0) (Some order0) = (s1, False)"
      "orders s1 \<noteq> orders db0" "outbox s1 = [InvoiceJob ''t1'' ''o1'']"
    by (simp_all add: s1_def settle_mp0 del: settlePayment.simps) (simp_all add: sample_defs)
  have again: "settlePayment env0 s1 ''t1'' ''o1'' (MercadoPago mp0) (Some order0) = (s1, False)"
    using settled_at_most_once [OF u, where ds = "[]" and e = env0 and e' = env0 and t = "''t1''" and k = "''o1''"
        and p = "MercadoPago mp0" and ex = "Some order0"] s1(1,2)
    by (simp only: settlements_simps) blast
  have "settlements [Settles env0 ''t1'' ''o1'' (MercadoPago mp0) (Some order0),
      Settles env0 ''t1'' ''o1'' (MercadoPago mp0) (Some order0)] db0 = s1"
    by (simp only: settlements_simps settleDelivery.simps s1(1) again fst_conv)
  with s1(3) again show ?thesis by (simp only: s1(1) Let_def fst_conv) simp
qed

text \<open>
  What a completed Stripe session does, branch by branch, when it comes from the account the
  store is set up with. A payment the store cannot keep is refunded, once, and nothing else
  changes: a second payment of a paid order, a payment of a cancelled order, a payment of the
  wrong amount or currency. The same payment again, or one of a refunded order, changes nothing.
  Otherwise the order is confirmed.
\<close>

theorem stripe_webhook_branches:
  assumes "tenantOrder s t k = Some ord"
    and "ssKind session \<noteq> Some PLAN_CHECKOUT_KIND" "ssTenantId session = Some t" "ssOrderId session = Some k"
    and "t \<noteq> []" "k \<noteq> []" "ssPaymentStatus session = ''paid''" "ssPaymentIntent session = Some intent" "intent \<noteq> []"
    and "getDecryptedCredentials e s t PaymentProvider.STRIPE = Inr creds" "account = connectedAccountId creds"
    and "eRefundError e PaymentProvider.STRIPE intent = None"
  shows "handleStripeWebhook e s (Some (SessionCompleted account session)) = Inr
    (let refund = emit (RefundCall PaymentProvider.STRIPE intent) s
     in if oPaymentStatus ord = PaymentStatus.PAID
        then (if truthy (oStripePaymentIntentId ord) \<and> Some intent \<noteq> oStripePaymentIntentId ord then refund else s)
        else if oStatus ord = OrderStatus.CANCELLED then refund
        else if oStatus ord = OrderStatus.REFUNDED then s
        else if \<not> amountMatches (ssAmountTotal session) (ssCurrency session) ord then refund
        else fst (confirmPaid e s t k (\<lambda>r. r\<lparr>oStripePaymentIntentId := Some intent\<rparr>) (\<lambda>_. False)))"
proof -
  have conf: "confirmPaid e s t k f w = (fst (confirmPaid e s t k f (\<lambda>_. False)), False)"
    if "payable ord" for f w
  proof -
    have "confirmable t k ord" "ord \<in> set (orders s)"
      using tenantOrder_SomeD [OF assms(1)] that by (auto simp: confirmable_def payable_def)
    then have "countRows (confirmable t k) (orders s) \<noteq> 0" by (auto simp: countRows_0_iff)
    then show ?thesis by (simp add: confirmPaid_def Let_def)
  qed
  let ?d = "if oPaymentStatus ord = PaymentStatus.PAID
      then (if truthy (oStripePaymentIntentId ord) \<and> Some intent \<noteq> oStripePaymentIntentId ord then Refund else Ignore)
      else if oStatus ord = OrderStatus.CANCELLED then Refund
      else if oStatus ord = OrderStatus.REFUNDED then Ignore
      else if \<not> amountMatches (ssAmountTotal session) (ssCurrency session) ord then Refund else Confirm"
  let ?ref = "\<lambda>r. r\<lparr>oStripePaymentIntentId := Some intent\<rparr>"
  let ?w = "\<lambda>winner. (case winner of Some w \<Rightarrow> oStripePaymentIntentId w | None \<Rightarrow> None) \<noteq> Some intent"
  define d where "d = ?d"
  let ?paid = "fst (confirmPaid e s t k ?ref (\<lambda>_. False))"
  let ?refund = "emit (RefundCall PaymentProvider.STRIPE intent) s"
  have dec: "stripeDecision e s t account session (Some ord) = Inr d"
    using assms by (simp add: stripeDecision_def d_def)
  have c: "confirmPaid e s t k ?ref ?w = (?paid, False)" if "d = Confirm"
    using that by (intro conf) (auto simp: d_def payable_def split: if_splits)
  have st: "settleStripe e s t k account session (Some ord) =
      Inr (case d of Ignore \<Rightarrow> (s, False) | Refund \<Rightarrow> (s, True) | Confirm \<Rightarrow> (?paid, False))"
    using assms(8,9) dec c by (cases d) (simp_all add: settleStripe_def)
  have "handleStripeWebhook e s (Some (SessionCompleted account session)) =
      Inr (case d of Ignore \<Rightarrow> s | Refund \<Rightarrow> ?refund | Confirm \<Rightarrow> ?paid)"
    using assms st by (cases d) (simp_all add: handleStripeWebhook_def refundPaymentIntent_def Let_def)
  also have "(case d of Ignore \<Rightarrow> s | Refund \<Rightarrow> ?refund | Confirm \<Rightarrow> ?paid) =
      (if oPaymentStatus ord = PaymentStatus.PAID
        then (if truthy (oStripePaymentIntentId ord) \<and> Some intent \<noteq> oStripePaymentIntentId ord then ?refund else s)
        else if oStatus ord = OrderStatus.CANCELLED then ?refund
        else if oStatus ord = OrderStatus.REFUNDED then s
        else if \<not> amountMatches (ssAmountTotal session) (ssCurrency session) ord then ?refund
        else ?paid)"
    by (simp add: d_def)
  finally show ?thesis by (simp only: Let_def)
qed

definition session0 :: StripeSession where
  "session0 = \<lparr>ssKind = None, ssTenantId = Some ''t1'', ssOrderId = Some ''o1'', ssPaymentIntent = Some ''pi2'',
     ssPaymentStatus = ''paid'', ssAmountTotal = Some 2200, ssCurrency = Some ''usd''\<rparr>"

theorem stripe_webhook_branches_witness:
  "handleStripeWebhook env0 (db0\<lparr>orders := [order0\<lparr>oPaymentStatus := PaymentStatus.PAID,
       oStripePaymentIntentId := Some ''pi1''\<rparr>]\<rparr>) (Some (SessionCompleted None session0))
   = Inr (emit (RefundCall PaymentProvider.STRIPE ''pi2'') (db0\<lparr>orders := [order0\<lparr>oPaymentStatus := PaymentStatus.PAID,
       oStripePaymentIntentId := Some ''pi1''\<rparr>]\<rparr>))"
  by (subst stripe_webhook_branches [where ord = "order0\<lparr>oPaymentStatus := PaymentStatus.PAID,
        oStripePaymentIntentId := Some ''pi1''\<rparr>" and t = "''t1''" and k = "''o1''" and intent = "''pi2''" and creds = None])
    (simp_all add: session0_def tenantOrder_def PLAN_CHECKOUT_KIND_def getDecryptedCredentials_def
        connectedAccountId_def sample_defs)

text \<open>
  A dispute is not remembered by the settlement. When PayPal redelivers the completed-capture
  event of an order whose payment is under dispute, the order is marked paid again.
\<close>

theorem disputed_order_paid_again:
  assumes "uniqueKeys oId (orders s)" "findOrderByPaypalOrderId s p = Some ord" "p \<noteq> []" "c \<noteq> []"
    and "oFulfillmentMethod ord = FulfillmentMethod.PAYPAL" "oPaymentStatus ord = PaymentStatus.DISPUTED"
    and "oStatus ord = OrderStatus.CONFIRMED"
    and "toMinorUnits v cur = toMinorUnits (oGrandTotal ord) (oCurrency ord)" "upper cur = upper (oCurrency ord)"
  shows "\<exists>s' ord'. handlePayPalWebhook e captureOrder s True (CaptureCompleted c (Some p) v (Some cur)) = Inr s'
    \<and> rowOf oId (oId ord) (orders s') = Some ord' \<and> oPaymentStatus ord' = PaymentStatus.PAID"
proof -
  have ord: "ord \<in> set (orders s)" "oPaypalOrderId ord = Some p"
    using assms(2) by (auto simp: findOrderByPaypalOrderId_def dest: findFirst_SomeD)
  have row: "rowOf oId (oId ord) (orders s) = Some ord" using assms(1) ord(1) by (rule rowOf_unique)
  have "tenantOrder s (oTenantId ord) (oId ord) \<noteq> None"
    using ord(1) by (auto simp: tenantOrder_def findFirst_None_iff)
  then obtain o2 where o2: "tenantOrder s (oTenantId ord) (oId ord) = Some o2" by auto
  then have to: "tenantOrder s (oTenantId ord) (oId ord) = Some ord"
    using tenantOrder_rowOf [OF assms(1) o2] row by simp
  define st where "st = \<lparr>ppOrderId = p, ppOrderStatus = ''COMPLETED'', ppCaptureId = Some c,
     ppCaptureStatus = Some ''COMPLETED'', ppAmountMinor = Some (toMinorUnits v cur), ppCurrency = Some cur\<rparr>"
  have dec: "payPalDecision st (Some ord) = Confirm"
    using assms ord(2) by (simp add: payPalDecision_def st_def amountMatches_def)
  have cnt: "countRows (confirmable (oTenantId ord) (oId ord)) (orders s) \<noteq> 0"
    using ord(1) assms(6,7) by (auto simp: countRows_0_iff confirmable_def)
  define s' where "s' = settlePayPal e s (oTenantId ord) (oId ord) st"
  have "s' = fst (confirmPaid e s (oTenantId ord) (oId ord) (\<lambda>r. r\<lparr>oPaypalCaptureId := Some c\<rparr>) (\<lambda>_. False))"
    using assms(4) dec to cnt
    by (simp add: s'_def settlePayPal_def settlePayPalTx_def) (simp add: st_def confirmPaid_def Let_def)
  then have "rowOf oId (oId ord) (orders s') = Some (markPaid (\<lambda>r. r\<lparr>oPaypalCaptureId := Some c\<rparr>) ord)"
    using row assms(6,7) by (simp add: confirmPaid_orders rowOf_updateMany markPaid_def confirmable_def)
  moreover have "handlePayPalWebhook e captureOrder s True (CaptureCompleted c (Some p) v (Some cur)) = Inr s'"
    using assms(2,3) by (simp add: handlePayPalWebhook_def settleCapture_def s'_def st_def)
  ultimately show ?thesis by (simp add: markPaid_def)
qed

definition disputedOrder0 :: order where
  "disputedOrder0 = order0\<lparr>oFulfillmentMethod := FulfillmentMethod.PAYPAL, oPaypalOrderId := Some ''PP1'',
     oPaypalCaptureId := Some ''C1'', oPaymentStatus := PaymentStatus.DISPUTED, oStatus := OrderStatus.CONFIRMED\<rparr>"

theorem disputed_order_paid_again_witness:
  "\<exists>s' ord'. handlePayPalWebhook env0 (\<lambda>_. Inl (ProviderError ''x'')) (db0\<lparr>orders := [disputedOrder0]\<rparr>) True
       (CaptureCompleted ''C1'' (Some ''PP1'') 22 (Some ''USD'')) = Inr s'
     \<and> rowOf oId ''o1'' (orders s') = Some ord' \<and> oPaymentStatus ord' = PaymentStatus.PAID"
  using disputed_order_paid_again [of "db0\<lparr>orders := [disputedOrder0]\<rparr>" "''PP1''" disputedOrder0 "''C1''" 22 "''USD''" env0
      "\<lambda>_. Inl (ProviderError ''x'')"]
  by (simp add: uniqueKeys_def findOrderByPaypalOrderId_def disputedOrder0_def order0_def)

text \<open>
  A PayPal order whose first payment was declined can open a new PayPal checkout, but what the
  buyer then approves is never captured: neither the buyer's return nor the approval webhook asks
  PayPal for the money, whatever PayPal would answer, and the order stays as it is.
\<close>

theorem declined_order_never_captured:
  assumes "tenantOrder s t k = Some ord" "findOrderByPaypalOrderId s p = Some ord"
    and "oFulfillmentMethod ord = FulfillmentMethod.PAYPAL" "oPaypalOrderId ord = Some p" "p \<noteq> []"
    and "oPaymentStatus ord = PaymentStatus.FAILED" "\<not> terminal ord"
  shows "assertPayable ord = Inr ()
    \<and> capturePayPalOrder e captureOrder s t k = Inr (s, PaymentStatus.FAILED, oStatus ord)
    \<and> handlePayPalWebhook e captureOrder s True (OrderApproved p) = Inr s"
  using assms by (simp add: assertPayable_def capturePayPalOrder_def handlePayPalWebhook_def)

theorem declined_order_never_captured_witness:
  "let s = db0\<lparr>orders := [disputedOrder0\<lparr>oPaymentStatus := PaymentStatus.FAILED\<rparr>]\<rparr>
   in capturePayPalOrder env0 (\<lambda>_. Inl (ProviderError ''x'')) s ''t1'' ''o1'' = Inr (s, PaymentStatus.FAILED, OrderStatus.CONFIRMED)"
  using declined_order_never_captured [of "db0\<lparr>orders := [disputedOrder0\<lparr>oPaymentStatus := PaymentStatus.FAILED\<rparr>]\<rparr>"
      "''t1''" "''o1''" "disputedOrder0\<lparr>oPaymentStatus := PaymentStatus.FAILED\<rparr>" "''PP1''" env0 "\<lambda>_. Inl (ProviderError ''x'')"]
  by (simp add: tenantOrder_def findOrderByPaypalOrderId_def disputedOrder0_def order0_def Let_def)

end
