(* ===== verification/Plans.thy ===== *)
theory Plans
  imports Text Samples "HOL-Library.Product_Lexorder" "HOL-Library.List_Lexorder"
begin

text \<open>
  Plans and subscriptions: \<open>plans/subscription-lifecycle.util.ts\<close> (when a paid plan lapses
  and which reminder is due) and \<open>plans/plans.service.ts\<close> (what a store may do, the free
  switch, the manual upgrade and its approval, hiding products over a limit).

  The limits are the plan's, patched by the tenant's free-form override; a limit of -1 is no limit.
\<close>

section \<open>Lifecycle\<close>

definition GRACE_DAYS :: int where
  "GRACE_DAYS = 7"

definition DAY_MS :: int where
  "DAY_MS = 24 * 60 * 60 * 1000"

datatype ExpiryNotice = D7 | D1 | D0 | DOWNGRADED

fun notice_text :: "ExpiryNotice \<Rightarrow> string" where
  "notice_text D7 = ''D7''"
| "notice_text D1 = ''D1''"
| "notice_text D0 = ''D0''"
| "notice_text DOWNGRADED = ''DOWNGRADED''"

definition isPaidPlan :: "plan \<Rightarrow> bool" where
  "isPaidPlan p = (plPrice p > 0)"

definition graceEndsAt :: "time option \<Rightarrow> time option" where
  "graceEndsAt expiresAt = map_option (\<lambda>t. t + GRACE_DAYS * DAY_MS) expiresAt"

definition isLapsed :: "subscription \<Rightarrow> plan \<Rightarrow> time \<Rightarrow> bool" where
  "isLapsed sub p now =
     (isPaidPlan p \<and> (case graceEndsAt (suExpiresAt sub) of None \<Rightarrow> False | Some g \<Rightarrow> g \<le> now))"

definition autoRenews :: "subscription \<Rightarrow> bool" where
  "autoRenews sub = (suBillingProvider sub = BillingProvider.STRIPE
     \<and> truthy (suStripeSubscriptionId sub) \<and> \<not> suCancelAtPeriodEnd sub)"

definition dueExpiryNotice :: "subscription \<Rightarrow> plan \<Rightarrow> time \<Rightarrow> ExpiryNotice option" where
  "dueExpiryNotice sub p now =
     (case suExpiresAt sub of
        None \<Rightarrow> None
      | Some expiresAt \<Rightarrow>
          if \<not> isPaidPlan p then None
          else if isLapsed sub p now then Some DOWNGRADED
          else if expiresAt \<le> now then Some D0
          else if autoRenews sub then None
          else let left = expiresAt - now
               in if left \<le> DAY_MS then Some D1
                  else if left \<le> 7 * DAY_MS then Some D7
                  else None)"

section \<open>Entitlements\<close>

record PlanEntitlements =
  enPlanId :: "uuid option"
  enPlanName :: "string option"
  enMaxStores :: int
  enMaxProducts :: int
  enFulfillmentMethods :: "FulfillmentMethod list"

definition FULFILLMENT_METHODS :: "FulfillmentMethod list" where
  "FULFILLMENT_METHODS = [FulfillmentMethod.WHATSAPP, FulfillmentMethod.TELEGRAM,
     FulfillmentMethod.STRIPE, FulfillmentMethod.MERCADOPAGO, FulfillmentMethod.ZELLE,
     FulfillmentMethod.PAYPAL]"

definition FALLBACK_ENTITLEMENTS :: PlanEntitlements where
  "FALLBACK_ENTITLEMENTS = \<lparr>enPlanId = None, enPlanName = None, enMaxStores = 1,
     enMaxProducts = 20, enFulfillmentMethods = [FulfillmentMethod.WHATSAPP]\<rparr>"

text \<open>The method a text names, if any.\<close>

definition methodOf :: "json \<Rightarrow> FulfillmentMethod option" where
  "methodOf j = (case j of JStr t \<Rightarrow> List.find (\<lambda>m. method_text m = t) FULFILLMENT_METHODS | _ \<Rightarrow> None)"

definition isLimit :: "json option \<Rightarrow> int option" where
  "isLimit v = (case v of Some (JNum n) \<Rightarrow> if of_int \<lfloor>n\<rfloor> = n \<and> n \<ge> -1 then Some \<lfloor>n\<rfloor> else None
                | _ \<Rightarrow> None)"

definition applyLimitsOverride :: "PlanEntitlements \<Rightarrow> json option \<Rightarrow> PlanEntitlements" where
  "applyLimitsOverride base override =
     (case override of
        Some (JObj fs) \<Rightarrow>
          base\<lparr>enMaxStores := (case isLimit (map_of fs ''maxStores'') of Some n \<Rightarrow> n | None \<Rightarrow> enMaxStores base),
               enMaxProducts := (case isLimit (map_of fs ''maxProducts'') of Some n \<Rightarrow> n | None \<Rightarrow> enMaxProducts base),
               enFulfillmentMethods :=
                 (case map_of fs ''fulfillmentMethods'' of
                    Some (JArr ms) \<Rightarrow> if list_all (\<lambda>m. methodOf m \<noteq> None) ms
                                     then dedup (map (the \<circ> methodOf) ms)
                                     else enFulfillmentMethods base
                  | _ \<Rightarrow> enFulfillmentMethods base)\<rparr>
      | _ \<Rightarrow> base)"

definition currentSubscription :: "db \<Rightarrow> uuid \<Rightarrow> subscription option" where
  "currentSubscription s tenantId =
     firstBy (\<lambda>u. suTenantId u = tenantId) (\<lambda>u. - suCreatedAt u) (subscriptions s)"

text \<open>The plan of a subscription (a foreign key, so there is one).\<close>

definition planOf :: "db \<Rightarrow> subscription \<Rightarrow> plan option" where
  "planOf s u = rowOf plId (suPlanId u) (plans s)"

definition getEntitlements :: "time \<Rightarrow> db \<Rightarrow> uuid \<Rightarrow> PlanEntitlements" where
  "getEntitlements now s tenantId =
     (let base =
        (case currentSubscription s tenantId of
           None \<Rightarrow> FALLBACK_ENTITLEMENTS
         | Some sub \<Rightarrow>
             (case planOf s sub of
                None \<Rightarrow> FALLBACK_ENTITLEMENTS
              | Some p \<Rightarrow>
                  if isLapsed sub p now then FALLBACK_ENTITLEMENTS
                  else \<lparr>enPlanId = Some (plId p), enPlanName = Some (plName p),
                        enMaxStores = plMaxStores p, enMaxProducts = plMaxProducts p,
                        enFulfillmentMethods = plFulfillmentMethods p\<rparr>))
      in applyLimitsOverride base
           (case rowOf tId tenantId (tenants s) of Some t \<Rightarrow> tLimitsOverride t | None \<Rightarrow> None))"

definition assertFulfillmentMethodAllowed :: "time \<Rightarrow> db \<Rightarrow> uuid \<Rightarrow> FulfillmentMethod \<Rightarrow> unit res" where
  "assertFulfillmentMethodAllowed now s tenantId m =
     (if m \<in> set (enFulfillmentMethods (getEntitlements now s tenantId)) then Inr ()
      else Inl (Forbidden (method_text m
        @ '' is not included in this store's plan. Upgrade the plan to enable it.'')))"

record SubscriptionView =
  svSubscription :: subscription
  svGraceEndsAt :: "time option"
  svLapsed :: bool

definition currentSubscriptionView :: "time \<Rightarrow> db \<Rightarrow> uuid \<Rightarrow> SubscriptionView option" where
  "currentSubscriptionView now s tenantId =
     (case currentSubscription s tenantId of
        None \<Rightarrow> None
      | Some sub \<Rightarrow>
          (case planOf s sub of
             None \<Rightarrow> None
           | Some p \<Rightarrow> Some \<lparr>svSubscription = sub,
               svGraceEndsAt = (if isPaidPlan p then graceEndsAt (suExpiresAt sub) else None),
               svLapsed = isLapsed sub p now\<rparr>))"

section \<open>Plan catalogue\<close>

definition listActive :: "db \<Rightarrow> plan list" where
  "listActive s = findMany plIsActive plPrice (plans s)"

definition listAllPlans :: "db \<Rightarrow> plan list" where
  "listAllPlans s = findMany (\<lambda>_. True) plPrice (plans s)"

record CreatePlanDto =
  cpdName :: string
  cpdPrice :: decimal
  cpdDuration :: PlanDuration
  cpdMaxStores :: int
  cpdMaxProducts :: int
  cpdFulfillmentMethods :: "FulfillmentMethod list option"
  cpdIsActive :: "bool option"

definition createPlan :: "env \<Rightarrow> db \<Rightarrow> CreatePlanDto \<Rightarrow> db \<times> plan" where
  "createPlan e s dto =
     (let p = \<lparr>plId = eFresh e 0, plName = cpdName dto, plPrice = round2 (cpdPrice dto),
               plDuration = cpdDuration dto, plMaxStores = cpdMaxStores dto,
               plMaxProducts = cpdMaxProducts dto,
               plFulfillmentMethods = (case cpdFulfillmentMethods dto of Some ms \<Rightarrow> ms
                                       | None \<Rightarrow> [FulfillmentMethod.WHATSAPP]),
               plIsActive = (case cpdIsActive dto of Some b \<Rightarrow> b | None \<Rightarrow> True),
               plCreatedAt = eNow e\<rparr>
      in (s\<lparr>plans := plans s @ [p]\<rparr>, p))"

record UpdatePlanDto =
  updName :: "string option"
  updPrice :: "decimal option"
  updDuration :: "PlanDuration option"
  updMaxStores :: "int option"
  updMaxProducts :: "int option"
  updFulfillmentMethods :: "FulfillmentMethod list option"
  updIsActive :: "bool option"

definition ensureExists :: "db \<Rightarrow> uuid \<Rightarrow> unit res" where
  "ensureExists s pid = (if rowOf plId pid (plans s) = None then Inl (NotFound ''Plan not found'') else Inr ())"

definition updatePlan :: "db \<Rightarrow> uuid \<Rightarrow> UpdatePlanDto \<Rightarrow> db res" where
  "updatePlan s pid dto =
     bind_res (ensureExists s pid) (\<lambda>_.
       Inr (s\<lparr>plans := updateRow plId pid (\<lambda>p. p\<lparr>
              plName := case_option (plName p) id (updName dto),
              plPrice := case_option (plPrice p) round2 (updPrice dto),
              plDuration := case_option (plDuration p) id (updDuration dto),
              plMaxStores := case_option (plMaxStores p) id (updMaxStores dto),
              plMaxProducts := case_option (plMaxProducts p) id (updMaxProducts dto),
              plFulfillmentMethods := case_option (plFulfillmentMethods p) id (updFulfillmentMethods dto),
              plIsActive := case_option (plIsActive p) id (updIsActive dto)\<rparr>) (plans s)\<rparr>))"

definition removePlan :: "db \<Rightarrow> uuid \<Rightarrow> db res" where
  "removePlan s pid =
     bind_res (ensureExists s pid) (\<lambda>_.
       Inr (s\<lparr>plans := updateRow plId pid (\<lambda>p. p\<lparr>plIsActive := False\<rparr>) (plans s)\<rparr>))"

definition findFreePlan :: "db \<Rightarrow> plan option" where
  "findFreePlan s = firstBy (\<lambda>p. plIsActive p \<and> plPrice p = 0) plCreatedAt (plans s)"

section \<open>Changing plan\<close>

definition computeExpiry :: "PlanDuration \<Rightarrow> time \<Rightarrow> time option" where
  "computeExpiry d t =
     (case d of MONTHLY \<Rightarrow> Some (setMonth (int (monthFromTime t) + 1) t)
      | YEARLY \<Rightarrow> Some (setFullYear (yearFromTime t + 1) t)
      | LIFETIME \<Rightarrow> None)"

definition productCount :: "db \<Rightarrow> uuid \<Rightarrow> nat" where
  "productCount s tenantId = countRows (\<lambda>p. pTenantId p = tenantId) (products s)"

definition assertUnderNewProductLimit :: "db \<Rightarrow> uuid \<Rightarrow> int \<Rightarrow> unit res" where
  "assertUnderNewProductLimit s tenantId maxProducts =
     (if maxProducts = -1 then Inr ()
      else if int (productCount s tenantId) > maxProducts
           then Inl (Conflict (''This store has '' @ string_of_nat (productCount s tenantId)
                  @ '' products, over the '' @ string_of_int maxProducts
                  @ '' allowed by this plan. Deactivate or delete products before switching.''))
      else Inr ())"

definition newSubscription :: "uuid \<Rightarrow> uuid \<Rightarrow> uuid \<Rightarrow> time option \<Rightarrow> time \<Rightarrow> subscription" where
  "newSubscription sid tenantId planId expiresAt now =
     \<lparr>suId = sid, suTenantId = tenantId, suPlanId = planId, suRequestedPlanId = None,
      suStatus = SubscriptionStatus.ACTIVE, suStartedAt = now, suExpiresAt = expiresAt,
      suCreatedAt = now, suRequestedPaymentReference = None,
      suBillingProvider = BillingProvider.MANUAL, suStripeCustomerId = None,
      suStripeSubscriptionId = None, suCancelAtPeriodEnd = False, suExpiryNoticesSent = []\<rparr>"

definition updateSubscription :: "uuid \<Rightarrow> (subscription \<Rightarrow> subscription) \<Rightarrow> db \<Rightarrow> db" where
  "updateSubscription sid f s = s\<lparr>subscriptions := updateRow suId sid f (subscriptions s)\<rparr>"

definition subscribe :: "env \<Rightarrow> db \<Rightarrow> uuid \<Rightarrow> uuid \<Rightarrow> (db \<times> uuid) res" where
  "subscribe e s tenantId planId =
     (case findFirst (\<lambda>p. plId p = planId \<and> plIsActive p) (plans s) of
        None \<Rightarrow> Inl (NotFound ''Plan not found'')
      | Some p \<Rightarrow>
          if plPrice p > 0
          then Inl (Forbidden ''Paid plans must be requested as an upgrade and approved by the platform'')
          else bind_res (assertUnderNewProductLimit s tenantId (plMaxProducts p)) (\<lambda>_.
            if (case currentSubscription s tenantId of
                  Some c \<Rightarrow> truthy (suStripeSubscriptionId c) | None \<Rightarrow> False)
            then Inl (Conflict ''Cancel the card subscription from the billing portal before switching to a free plan'')
            else let expiresAt = computeExpiry (plDuration p) (eNow e)
                 in case firstBy (\<lambda>u. suTenantId u = tenantId
                          \<and> suStatus u \<in> {SubscriptionStatus.ACTIVE, SubscriptionStatus.PENDING_UPGRADE})
                        (\<lambda>u. - suCreatedAt u) (subscriptions s) of
                      Some ex \<Rightarrow>
                        Inr (updateSubscription (suId ex) (\<lambda>u. u\<lparr>suPlanId := planId,
                               suExpiresAt := expiresAt, suStatus := SubscriptionStatus.ACTIVE,
                               suRequestedPlanId := None, suRequestedPaymentReference := None,
                               suBillingProvider := BillingProvider.MANUAL,
                               suExpiryNoticesSent := []\<rparr>) s, suId ex)
                    | None \<Rightarrow>
                        Inr (s\<lparr>subscriptions := subscriptions s
                               @ [newSubscription (eFresh e 0) tenantId planId expiresAt (eNow e)]\<rparr>,
                             eFresh e 0)))"

definition requestUpgrade :: "env \<Rightarrow> db \<Rightarrow> uuid \<Rightarrow> uuid \<Rightarrow> string option \<Rightarrow> (db \<times> uuid) res" where
  "requestUpgrade e s tenantId planId paymentReference =
     (case findFirst (\<lambda>p. plId p = planId \<and> plIsActive p) (plans s) of
        None \<Rightarrow> Inl (NotFound ''Plan not found'')
      | Some p \<Rightarrow>
          if \<not> isPaidPlan p
          then Inl (BadRequest ''Free plans are switched to directly, without a request'')
          else
            let request = (\<lambda>sid s'. (updateSubscription sid (\<lambda>u. u\<lparr>suRequestedPlanId := Some planId,
                    suRequestedPaymentReference :=
                      (case paymentReference of Some r \<Rightarrow> if trim r = [] then None else Some (trim r)
                       | None \<Rightarrow> None),
                    suStatus := SubscriptionStatus.PENDING_UPGRADE\<rparr>) s', sid))
            in case currentSubscription s tenantId of
                 Some c \<Rightarrow>
                   if truthy (suStripeSubscriptionId c)
                   then Inl (Conflict (''This store pays by card '' @ emDash
                     @ '' change or renew the plan from the billing portal''))
                   else Inr (request (suId c) s)
               | None \<Rightarrow>
                   (case findFreePlan s of
                      None \<Rightarrow> Inl (BadRequest ''No subscription to upgrade from'')
                    | Some fp \<Rightarrow>
                        Inr (request (eFresh e 0)
                          (s\<lparr>subscriptions := subscriptions s
                             @ [newSubscription (eFresh e 0) tenantId (plId fp) None (eNow e)]\<rparr>))))"

record UpgradeRequest =
  urId :: uuid
  urTenantId :: uuid
  urCurrentPlan :: "plan option"
  urRequestedPlan :: "plan option"
  urIsRenewal :: bool
  urPaymentReference :: "string option"
  urExpiresAt :: "time option"
  urCreatedAt :: time

definition listUpgradeRequests :: "db \<Rightarrow> UpgradeRequest list" where
  "listUpgradeRequests s =
     map (\<lambda>r. \<lparr>urId = suId r, urTenantId = suTenantId r, urCurrentPlan = planOf s r,
               urRequestedPlan = (case suRequestedPlanId r of Some q \<Rightarrow> rowOf plId q (plans s) | None \<Rightarrow> None),
               urIsRenewal = (suRequestedPlanId r = Some (suPlanId r)),
               urPaymentReference = suRequestedPaymentReference r,
               urExpiresAt = suExpiresAt r, urCreatedAt = suCreatedAt r\<rparr>)
       (findMany (\<lambda>u. suStatus u = SubscriptionStatus.PENDING_UPGRADE) (\<lambda>u. - suCreatedAt u)
         (subscriptions s))"

text \<open>
  Keeps the oldest \<open>maxProducts\<close> live products and unpublishes the rest. (A limit below -1
  makes Prisma reject the negative \<open>skip\<close>; no plan or override has one.)
\<close>

definition liveProduct :: "uuid \<Rightarrow> product \<Rightarrow> bool" where
  "liveProduct tenantId p = (pTenantId p = tenantId \<and> pIsActive p \<and> pIsPublished p)"

definition hideProductsOverLimit :: "time \<Rightarrow> db \<Rightarrow> uuid \<Rightarrow> db \<times> nat" where
  "hideProductsOverLimit now s tenantId =
     (let maxProducts = enMaxProducts (getEntitlements now s tenantId)
      in if maxProducts = -1 then (s, 0)
         else let excess = drop (nat maxProducts)
                    (findMany (liveProduct tenantId) (\<lambda>p. (pCreatedAt p, pId p)) (products s))
              in if excess = [] then (s, 0)
                 else (s\<lparr>products := updateMany (\<lambda>p. pId p \<in> set (map pId excess))
                          (\<lambda>p. p\<lparr>pIsPublished := False\<rparr>) (products s)\<rparr>,
                       length excess))"

definition approveUpgrade :: "env \<Rightarrow> db \<Rightarrow> uuid \<Rightarrow> db res" where
  "approveUpgrade e s sid =
     (case rowOf suId sid (subscriptions s) of
        None \<Rightarrow> Inl RecordNotFound
      | Some sub \<Rightarrow>
          (case (suStatus sub, suRequestedPlanId sub) of
             (SubscriptionStatus.PENDING_UPGRADE, Some rp) \<Rightarrow>
               (case rowOf plId rp (plans s) of
                  None \<Rightarrow> Inl RecordNotFound
                | Some p \<Rightarrow>
                    let isRenewal = (suPlanId sub = plId p
                          \<and> (case suExpiresAt sub of Some x \<Rightarrow> x > eNow e | None \<Rightarrow> False)
                          \<and> \<not> (case planOf s sub of Some cp \<Rightarrow> isLapsed sub cp (eNow e) | None \<Rightarrow> False));
                        start = (if isRenewal then the (suExpiresAt sub) else eNow e);
                        s' = updateSubscription sid (\<lambda>u. u\<lparr>suPlanId := plId p,
                               suRequestedPlanId := None, suRequestedPaymentReference := None,
                               suStatus := SubscriptionStatus.ACTIVE,
                               suExpiresAt := computeExpiry (plDuration p) start,
                               suBillingProvider := BillingProvider.MANUAL,
                               suExpiryNoticesSent := []\<rparr>) s
                    in Inr (if plMaxProducts p \<noteq> -1
                            then fst (hideProductsOverLimit (eNow e) s' (suTenantId sub)) else s'))
           | _ \<Rightarrow> Inl (BadRequest ''No pending upgrade request'')))"

definition rejectUpgrade :: "db \<Rightarrow> uuid \<Rightarrow> db res" where
  "rejectUpgrade s sid =
     (case rowOf suId sid (subscriptions s) of
        None \<Rightarrow> Inl RecordNotFound
      | Some sub \<Rightarrow>
          if suStatus sub \<noteq> SubscriptionStatus.PENDING_UPGRADE
          then Inl (BadRequest ''No pending upgrade request'')
          else Inr (updateSubscription sid (\<lambda>u. u\<lparr>suStatus := SubscriptionStatus.ACTIVE,
                      suRequestedPlanId := None, suRequestedPaymentReference := None\<rparr>) s))"

text \<open>The \<open>billing\<close> argument of \<open>activatePlan\<close>; a field left out keeps (or defaults) the column.\<close>

record ActivateBilling =
  abExpiresAt :: "time option"
  abBillingProvider :: BillingProvider
  abStripeCustomerId :: "string option option"
  abStripeSubscriptionId :: "string option"
  abCancelAtPeriodEnd :: "bool option"

definition activate :: "uuid \<Rightarrow> ActivateBilling \<Rightarrow> subscription \<Rightarrow> subscription" where
  "activate planId b u = u\<lparr>suPlanId := planId, suStatus := SubscriptionStatus.ACTIVE,
     suRequestedPlanId := None, suRequestedPaymentReference := None, suExpiryNoticesSent := [],
     suCancelAtPeriodEnd := case_option False id (abCancelAtPeriodEnd b),
     suExpiresAt := abExpiresAt b, suBillingProvider := abBillingProvider b,
     suStripeCustomerId := case_option (suStripeCustomerId u) id (abStripeCustomerId b),
     suStripeSubscriptionId := abStripeSubscriptionId b\<rparr>"

definition activatePlan :: "env \<Rightarrow> db \<Rightarrow> uuid \<Rightarrow> uuid \<Rightarrow> ActivateBilling \<Rightarrow> db" where
  "activatePlan e s tenantId planId b =
     (case currentSubscription s tenantId of
        Some c \<Rightarrow> updateSubscription (suId c) (activate planId b) s
      | None \<Rightarrow> s\<lparr>subscriptions := subscriptions s
          @ [activate planId b (newSubscription (eFresh e 0) tenantId planId None (eNow e))]\<rparr>)"

section \<open>Facts\<close>

subsection \<open>Lifecycle\<close>

lemma isLapsed_iff:
  "isLapsed sub p now \<longleftrightarrow> isPaidPlan p \<and> (\<exists>x. suExpiresAt sub = Some x \<and> x + 7 * DAY_MS \<le> now)"
  by (auto simp: isLapsed_def graceEndsAt_def GRACE_DAYS_def split: option.splits)

text \<open>How far a reminder is along the way to the downgrade.\<close>

fun stage :: "ExpiryNotice option \<Rightarrow> nat" where
  "stage None = 0"
| "stage (Some D7) = 1"
| "stage (Some D1) = 2"
| "stage (Some D0) = 3"
| "stage (Some DOWNGRADED) = 4"

lemma stage_dueExpiryNotice:
  assumes "suExpiresAt sub = Some x" and "isPaidPlan p"
  shows "stage (dueExpiryNotice sub p now) =
    (if x + 7 * DAY_MS \<le> now then 4 else if x \<le> now then 3
     else if autoRenews sub then 0
     else if x - DAY_MS \<le> now then 2 else if x - 7 * DAY_MS \<le> now then 1 else 0)"
  using assms by (simp add: dueExpiryNotice_def isLapsed_iff Let_def)

lemma computeExpiry_bounds:
  assumes "computeExpiry d t = Some x"
  shows "t + 28 * DAY_MS \<le> x" "x \<le> t + 366 * DAY_MS"
proof -
  have ms: "DAY_MS = msPerDay" by (simp add: DAY_MS_def msPerDay_def)
  have "t + 28 * DAY_MS \<le> x \<and> x \<le> t + 366 * DAY_MS"
  proof (cases d)
    case MONTHLY
    have "28 \<le> daysInMonth (yearFromTime t) (monthFromTime t)"
        "daysInMonth (yearFromTime t) (monthFromTime t) \<le> 31"
      using daysInMonth_bounds [OF monthFromTime_less] by auto
    with MONTHLY assms show ?thesis
      by (auto simp: computeExpiry_def setMonth_next ms msPerDay_def)
  next
    case YEARLY
    with assms setFullYear_next [of t] show ?thesis
      by (auto simp: computeExpiry_def ms msPerDay_def)
  next
    case LIFETIME
    with assms show ?thesis by (simp add: computeExpiry_def)
  qed
  then show "t + 28 * DAY_MS \<le> x" "x \<le> t + 366 * DAY_MS" by auto
qed

subsection \<open>Limits\<close>

lemma getEntitlements_lapsed:
  assumes "currentSubscription s t = Some sub" "planOf s sub = Some p" "isLapsed sub p now"
    and "case rowOf tId t (tenants s) of Some tn \<Rightarrow> tLimitsOverride tn = None | None \<Rightarrow> True"
  shows "getEntitlements now s t = FALLBACK_ENTITLEMENTS"
  using assms by (auto simp: getEntitlements_def applyLimitsOverride_def split: option.splits)

lemma getEntitlements_subscriptions_only:
  assumes "subscriptions s' = subscriptions s" "plans s' = plans s" "tenants s' = tenants s"
  shows "getEntitlements now s' t = getEntitlements now s t"
proof -
  have p: "planOf s' = planOf s" using assms by (simp add: planOf_def fun_eq_iff)
  show ?thesis unfolding getEntitlements_def currentSubscription_def assms p ..
qed

lemma hideProductsOverLimit_entitlements [simp]:
  "getEntitlements now (fst (hideProductsOverLimit now' s t')) t = getEntitlements now s t"
  by (rule getEntitlements_subscriptions_only) (simp_all add: hideProductsOverLimit_def Let_def)

lemma hideProductsOverLimit_tables [table_simps]:
  "subscriptions (fst (hideProductsOverLimit now s t)) = subscriptions s"
  "plans (fst (hideProductsOverLimit now s t)) = plans s"
  "tenants (fst (hideProductsOverLimit now s t)) = tenants s"
  "orders (fst (hideProductsOverLimit now s t)) = orders s"
  "outbox (fst (hideProductsOverLimit now s t)) = outbox s"
  by (simp_all add: hideProductsOverLimit_def Let_def)

lemma take_drop_disjoint:
  assumes "distinct (map f L)" "x \<in> set (take n L)" "y \<in> set (drop n L)"
  shows "f x \<noteq> f y"
proof -
  from assms(1) have "distinct (map f (take n L @ drop n L))" by simp
  then have "f ` set (take n L) \<inter> f ` set (drop n L) = {}"
    by (simp only: map_append distinct_append set_map)
  with assms(2,3) show ?thesis by (metis disjoint_iff imageI)
qed

lemma distinct_findMany:
  assumes "uniqueKeys key t"
  shows "distinct (map key (findMany P k t))"
proof -
  have d: "distinct t" "inj_on key (set t)"
    using assms by (simp_all add: uniqueKeys_def distinct_map)
  then have "distinct (findMany P k t)" by (simp add: findMany_def)
  moreover have "inj_on key (set (findMany P k t))"
    using d(2) by (rule inj_on_subset) auto
  ultimately show ?thesis by (simp add: distinct_map)
qed

text \<open>
  The rows left when the keys of everything after the first \<open>n\<close> are taken away are the first \<open>n\<close>.
\<close>

lemma kept_rows:
  assumes "uniqueKeys key t" and "r \<in> set t" "P r"
  shows "key r \<notin> key ` set (drop n (findMany P k t)) \<longleftrightarrow> r \<in> set (take n (findMany P k t))"
proof -
  let ?L = "findMany P k t"
  have r: "r \<in> set (take n ?L) \<or> r \<in> set (drop n ?L)"
    using assms(2,3) by (metis (mono_tags, lifting) Un_iff append_take_drop_id mem_Collect_eq
        set_append set_findMany)
  have d: "x \<in> set (take n ?L) \<Longrightarrow> y \<in> set (drop n ?L) \<Longrightarrow> key x \<noteq> key y" for x y
    using take_drop_disjoint [OF distinct_findMany [OF assms(1)]] .
  show ?thesis using r d by blast
qed

lemma countRows_kept:
  assumes "uniqueKeys key t"
  shows "countRows (\<lambda>r. P r \<and> key r \<notin> key ` set (drop n (findMany P k t))) t
    = min n (countRows P t)"
proof -
  let ?L = "findMany P k t"
  have "distinct t" using assms by (simp add: uniqueKeys_def distinct_map)
  then have "countRows (\<lambda>r. P r \<and> key r \<notin> key ` set (drop n ?L)) t
      = card {r \<in> set t. P r \<and> key r \<notin> key ` set (drop n ?L)}"
    by (simp add: countRows_def distinct_length_filter Int_def conj_commute)
  also have "{r \<in> set t. P r \<and> key r \<notin> key ` set (drop n ?L)} = set (take n ?L)"
  proof (rule set_eqI)
    fix r
    have "r \<in> set (take n ?L) \<Longrightarrow> r \<in> set t \<and> P r"
      using set_take_subset [of n ?L] by (auto dest: in_set_takeD)
    with kept_rows [OF assms, of r P n k]
    show "r \<in> {r \<in> set t. P r \<and> key r \<notin> key ` set (drop n ?L)} \<longleftrightarrow> r \<in> set (take n ?L)"
      by blast
  qed
  also have "card (set (take n ?L)) = length (take n ?L)"
    using distinct_findMany [OF assms, of P k] by (intro distinct_card distinct_take) (simp add: distinct_map)
  also have "\<dots> = min n (countRows P t)"
    by (simp add: findMany_def countRows_def)
  finally show ?thesis .
qed

lemma hideProductsOverLimit_products:
  assumes "enMaxProducts (getEntitlements now s t) \<noteq> -1"
  shows "products (fst (hideProductsOverLimit now s t)) =
    updateMany (\<lambda>p. pId p \<in> pId ` set (drop (nat (enMaxProducts (getEntitlements now s t)))
        (findMany (liveProduct t) (\<lambda>p. (pCreatedAt p, pId p)) (products s))))
      (\<lambda>p. p\<lparr>pIsPublished := False\<rparr>) (products s)"
  using assms by (auto simp: hideProductsOverLimit_def Let_def intro!: updateMany_none [symmetric])

lemma countRows_updateMany:
  "countRows P (updateMany Q f t) = countRows (\<lambda>r. P (if Q r then f r else r)) t"
  by (induction t) auto

lemma countRows_cong: "(\<And>r. r \<in> set t \<Longrightarrow> P r = Q r) \<Longrightarrow> countRows P t = countRows Q t"
  by (induction t) auto

lemma live_after_hide:
  assumes "enMaxProducts (getEntitlements now s t) \<noteq> -1" and "uniqueKeys pId (products s)"
  shows "countRows (liveProduct t) (products (fst (hideProductsOverLimit now s t)))
    = min (nat (enMaxProducts (getEntitlements now s t))) (countRows (liveProduct t) (products s))"
  unfolding hideProductsOverLimit_products [OF assms(1)] countRows_updateMany
  by (subst countRows_kept [OF assms(2), symmetric,
        of _ _ "\<lambda>p. (pCreatedAt p, pId p)"])
    (auto intro!: countRows_cong simp: liveProduct_def)

section \<open>Properties\<close>

text \<open>
  C7: what a store without an override of its limits is entitled to, read from its rows as they are. A
  store whose newest subscription is to a paid plan with an expiry keeps exactly that plan's limits until
  seven days after the expiry, and from that moment on has exactly the built-in free entitlements, without
  any job having to run first; a free plan, or a plan without an expiry, never lapses; a store without a
  subscription has the built-in free entitlements. (Once the hourly job has moved a lapsed row to a free
  plan, that row is an instance of the free case: it has that plan's limits.)
\<close>

theorem entitlements_follow_grace:
  assumes "rowOf tId t (tenants s) = Some tn" and "tLimitsOverride tn = None"
  shows "let free = \<lparr>enPlanId = None, enPlanName = None, enMaxStores = 1, enMaxProducts = 20,
                     enFulfillmentMethods = [FulfillmentMethod.WHATSAPP]\<rparr>
    in (currentSubscription s t = None \<longrightarrow> getEntitlements now s t = free)
     \<and> (currentSubscription s t = Some sub \<and> planOf s sub = Some p \<longrightarrow>
          getEntitlements now s t =
            (if plPrice p > 0 \<and> (\<exists>x. suExpiresAt sub = Some x \<and> x + 7 * DAY_MS \<le> now) then free
             else \<lparr>enPlanId = Some (plId p), enPlanName = Some (plName p), enMaxStores = plMaxStores p,
                   enMaxProducts = plMaxProducts p, enFulfillmentMethods = plFulfillmentMethods p\<rparr>))"
  using assms
  by (auto simp: getEntitlements_def isLapsed_iff isPaidPlan_def applyLimitsOverride_def FALLBACK_ENTITLEMENTS_def Let_def)

theorem entitlements_follow_grace_witness:
  "enMaxProducts (getEntitlements 1000001000000 db0 ''t1'') = 100
   \<and> enMaxProducts (getEntitlements (1000001000000 + 7 * DAY_MS) db0 ''t1'') = 20"
proof -
  have sub: "currentSubscription db0 ''t1'' = Some sub0 \<and> planOf db0 sub0 = Some plan0"
    by (simp add: currentSubscription_def firstBy_def findMany_def planOf_def sample_defs)
  have st: "plPrice plan0 > 0" "suExpiresAt sub0 = Some 1000001000000" "plMaxProducts plan0 = 100"
    by (simp_all add: sample_defs)
  have tn: "rowOf tId ''t1'' (tenants db0) = Some tenant0" "tLimitsOverride tenant0 = None"
    by (simp_all add: sample_defs)
  from entitlements_follow_grace [OF tn, where sub = sub0 and p = plan0 and now = 1000001000000]
    entitlements_follow_grace [OF tn, where sub = sub0 and p = plan0 and now = "1000001000000 + 7 * DAY_MS"]
  show ?thesis using sub st by (simp add: Let_def DAY_MS_def)
qed

text \<open>
  For a paid subscription the due reminder never goes back to an earlier stage as time passes:
  seven days before, one day before, expired, downgraded.
\<close>

theorem expiry_notices_advance:
  assumes "now \<le> later"
  shows "stage (dueExpiryNotice sub p now) \<le> stage (dueExpiryNotice sub p later)"
proof (cases "isPaidPlan p \<and> suExpiresAt sub \<noteq> None")
  case True
  then obtain x where x: "suExpiresAt sub = Some x" "isPaidPlan p" by auto
  then show ?thesis
    using assms by (simp add: stage_dueExpiryNotice DAY_MS_def)
next
  case False
  then have "dueExpiryNotice sub p t = None" for t
    by (auto simp: dueExpiryNotice_def split: option.splits)
  then show ?thesis by simp
qed

theorem expiry_notices_advance_witness:
  "stage (dueExpiryNotice sub0 plan0 (1000001000000 - DAY_MS)) \<le> stage (dueExpiryNotice sub0 plan0 1000001000000)
   \<and> dueExpiryNotice sub0 plan0 (1000001000000 - DAY_MS) = Some D1
   \<and> dueExpiryNotice sub0 plan0 1000001000000 = Some D0"
  using expiry_notices_advance [of "1000001000000 - DAY_MS" 1000001000000 sub0 plan0]
  by (simp add: DAY_MS_def)
    (simp add: dueExpiryNotice_def isLapsed_iff isPaidPlan_def autoRenews_def DAY_MS_def sample_defs)

lemma hideProductsOverLimit_oldest:
  assumes "uniqueKeys pId (products s)" and "0 \<le> enMaxProducts (getEntitlements now s t)"
    and "p \<in> set (products s)" "liveProduct t p" "q \<in> set (products s)" "liveProduct t q"
    and "p \<in> set (products (fst (hideProductsOverLimit now s t)))"
    and "q \<notin> set (products (fst (hideProductsOverLimit now s t)))"
  shows "(pCreatedAt p, pId p) \<le> (pCreatedAt q, pId q)"
proof -
  let ?k = "\<lambda>p. (pCreatedAt p, pId p)"
  let ?L = "findMany (liveProduct t) ?k (products s)"
  let ?n = "nat (enMaxProducts (getEntitlements now s t))"
  have ps: "products (fst (hideProductsOverLimit now s t)) =
      updateMany (\<lambda>p. pId p \<in> pId ` set (drop ?n ?L)) (\<lambda>p. p\<lparr>pIsPublished := False\<rparr>) (products s)"
    using assms(2) by (intro hideProductsOverLimit_products) simp
  have "pId q \<in> pId ` set (drop ?n ?L)"
    using assms(5,8) unfolding ps set_updateMany by (auto split: if_splits)
  then have "q \<in> set (drop ?n ?L)"
    using kept_rows [OF assms(1,5), of "liveProduct t" ?n ?k] assms(1,5)
    by (metis (mono_tags, lifting) append_take_drop_id assms(6) Un_iff mem_Collect_eq set_append
        set_findMany)
  moreover have "p \<in> set (take ?n ?L)"
    using assms(3,4,7) kept_rows [OF assms(1,3), of "liveProduct t" ?n ?k]
    unfolding ps set_updateMany by (auto simp: liveProduct_def split: if_splits)
  ultimately show ?thesis
    by (intro sorted_take_drop [where k = ?k and L = ?L and n = ?n] sorted_findMany)
qed

text \<open>
  Hiding the products over a limit leaves exactly the smaller of the limit and the live
  products live, only withdraws products from publication, keeps the oldest (no product kept live
  is newer than one hidden), and changes nothing when done again.
\<close>

theorem hideProductsOverLimit_keeps_oldest:
  assumes "uniqueKeys pId (products s)"
    and "0 \<le> enMaxProducts (getEntitlements now s t)"
  shows "let s' = fst (hideProductsOverLimit now s t)
    in countRows (liveProduct t) (products s')
         = min (nat (enMaxProducts (getEntitlements now s t))) (countRows (liveProduct t) (products s))
     \<and> map (\<lambda>p. p\<lparr>pIsPublished := False\<rparr>) (products s') = map (\<lambda>p. p\<lparr>pIsPublished := False\<rparr>) (products s)
     \<and> list_all (\<lambda>p. list_all (\<lambda>q. liveProduct t p \<and> liveProduct t q \<and> p \<in> set (products s')
           \<and> q \<notin> set (products s') \<longrightarrow> (pCreatedAt p, pId p) \<le> (pCreatedAt q, pId q)) (products s)) (products s)
     \<and> products (fst (hideProductsOverLimit now s' t)) = products s'"
proof -
  define s' where "s' = fst (hideProductsOverLimit now s t)"
  let ?m = "nat (enMaxProducts (getEntitlements now s t))"
  have n: "enMaxProducts (getEntitlements now s t) \<noteq> -1" using assms(2) by simp
  have live: "countRows (liveProduct t) (products s') = min ?m (countRows (liveProduct t) (products s))"
    unfolding s'_def by (rule live_after_hide [OF n assms(1)])
  have same: "map (\<lambda>p. p\<lparr>pIsPublished := False\<rparr>) (products s') = map (\<lambda>p. p\<lparr>pIsPublished := False\<rparr>) (products s)"
    unfolding s'_def hideProductsOverLimit_products [OF n] by (simp add: updateMany_def)
  have again: "products (fst (hideProductsOverLimit now s' t)) = products s'"
  proof -
    have e: "getEntitlements now s' t = getEntitlements now s t" by (simp add: s'_def)
    have "length (findMany (liveProduct t) (\<lambda>p. (pCreatedAt p, pId p)) (products s')) \<le> ?m"
      using live by (simp add: findMany_def countRows_def)
    with n show ?thesis by (simp add: hideProductsOverLimit_def Let_def e)
  qed
  from live same again hideProductsOverLimit_oldest [OF assms] show ?thesis
    unfolding s'_def Let_def by (auto simp: list_all_iff)
qed

definition hideDb0 :: db where
  "hideDb0 = db0\<lparr>products := [product0\<lparr>pId := ''p2'', pCreatedAt := 5\<rparr>, product0],
     subscriptions := [sub0\<lparr>suPlanId := ''pl0''\<rparr>]\<rparr>"

theorem hideProductsOverLimit_keeps_oldest_witness:
  "countRows (liveProduct ''t1'') (products hideDb0) = 2
   \<and> countRows (liveProduct ''t1'') (products (fst (hideProductsOverLimit 0 hideDb0 ''t1''))) = 1"
proof -
  have e: "enMaxProducts (getEntitlements 0 hideDb0 ''t1'') = 1"
    by (simp add: hideDb0_def sample_defs getEntitlements_def currentSubscription_def firstBy_def
        findMany_def planOf_def isLapsed_iff isPaidPlan_def applyLimitsOverride_def)
  have u: "uniqueKeys pId (products hideDb0)"
    by (simp add: hideDb0_def sample_defs uniqueKeys_def)
  have c: "countRows (liveProduct ''t1'') (products hideDb0) = 2"
    by (simp add: hideDb0_def sample_defs liveProduct_def)
  show ?thesis
    using hideProductsOverLimit_keeps_oldest [OF u, of 0 "''t1''"] e c by (simp add: Let_def)
qed

text \<open>
  Approving the renewal of a plan that has not expired yet extends the paid period from the
  current expiry, by 28 to 366 days, keeps the plan, closes the request and clears the reminders;
  approving it a second time is refused.
\<close>

theorem approveUpgrade_renewal:
  assumes "rowOf suId sid (subscriptions s) = Some sub"
    and "suStatus sub = SubscriptionStatus.PENDING_UPGRADE"
    and "suRequestedPlanId sub = Some (suPlanId sub)" and "planOf s sub = Some p"
    and "suExpiresAt sub = Some x" and "eNow e < x" and "plDuration p \<noteq> LIFETIME"
  shows "\<exists>s' sub' y. approveUpgrade e s sid = Inr s' \<and> rowOf suId sid (subscriptions s') = Some sub'
    \<and> suStatus sub' = SubscriptionStatus.ACTIVE \<and> suPlanId sub' = suPlanId sub
    \<and> suRequestedPlanId sub' = None \<and> suExpiryNoticesSent sub' = []
    \<and> suExpiresAt sub' = Some y \<and> x + 28 * DAY_MS \<le> y \<and> y \<le> x + 366 * DAY_MS
    \<and> approveUpgrade e s' sid = Inl (BadRequest ''No pending upgrade request'')"
proof -
  have p: "rowOf plId (suPlanId sub) (plans s) = Some p" "plId p = suPlanId sub"
    using assms(4) by (auto simp: planOf_def dest: rowOf_SomeD)
  obtain y where y: "computeExpiry (plDuration p) x = Some y"
    using assms(7) by (cases "plDuration p") (auto simp: computeExpiry_def)
  have nl: "\<not> isLapsed sub p (eNow e)"
    using assms(5,6) by (simp add: isLapsed_iff DAY_MS_def)
  define f where "f = (\<lambda>u :: subscription. u\<lparr>suPlanId := plId p, suRequestedPlanId := None,
      suRequestedPaymentReference := None, suStatus := SubscriptionStatus.ACTIVE,
      suExpiresAt := Some y, suBillingProvider := BillingProvider.MANUAL,
      suExpiryNoticesSent := []\<rparr>)"
  define s1 where "s1 = updateSubscription sid f s"
  define s' where "s' = (if plMaxProducts p \<noteq> -1
      then fst (hideProductsOverLimit (eNow e) s1 (suTenantId sub)) else s1)"
  have a: "approveUpgrade e s sid = Inr s'"
    using assms p y nl by (simp add: approveUpgrade_def s'_def s1_def f_def Let_def)
  have r: "rowOf suId sid (subscriptions s') = Some (f sub)"
    using assms(1) by (simp add: s'_def s1_def updateSubscription_def table_simps
        rowOf_updateRow_same f_def)
  have "approveUpgrade e s' sid = Inl (BadRequest ''No pending upgrade request'')"
    using r by (simp add: approveUpgrade_def f_def)
  with a r computeExpiry_bounds [OF y] p show ?thesis
    by (intro exI [of _ s'] exI [of _ "f sub"] exI [of _ y]) (simp add: f_def)
qed

theorem approveUpgrade_renewal_witness:
  "\<exists>s' sub' y. approveUpgrade env0 (db0\<lparr>subscriptions := [sub0\<lparr>suStatus := SubscriptionStatus.PENDING_UPGRADE,
        suRequestedPlanId := Some ''pl1''\<rparr>]\<rparr>) ''s1'' = Inr s'
    \<and> rowOf suId ''s1'' (subscriptions s') = Some sub' \<and> suExpiresAt sub' = Some y
    \<and> 1000001000000 + 28 * DAY_MS \<le> y"
  using approveUpgrade_renewal [of "''s1''" "db0\<lparr>subscriptions := [sub0\<lparr>suStatus := SubscriptionStatus.PENDING_UPGRADE,
        suRequestedPlanId := Some ''pl1''\<rparr>]\<rparr>" "sub0\<lparr>suStatus := SubscriptionStatus.PENDING_UPGRADE,
        suRequestedPlanId := Some ''pl1''\<rparr>" plan0 1000001000000 env0]
  by (auto simp: sample_defs planOf_def)

text \<open>
  The self-service switch only ever moves a store to a free plan whose product limit the store
  respects: whatever plan a request names, the subscription it writes is an active one to an
  active plan of price zero, with no request left open.
\<close>

theorem subscribe_only_free:
  assumes "subscribe e s t planId = Inr (s', sid)"
    and "list_all (\<lambda>p. 0 \<le> plPrice p) (plans s)"
    and "uniqueKeys suId (subscriptions s)" "rowOf suId (eFresh e 0) (subscriptions s) = None"
  shows "\<exists>u p. rowOf suId sid (subscriptions s') = Some u \<and> p \<in> set (plans s')
    \<and> suTenantId u = t \<and> suPlanId u = planId \<and> plId p = planId \<and> plIsActive p \<and> plPrice p = 0
    \<and> (plMaxProducts p = -1 \<or> int (productCount s' t) \<le> plMaxProducts p)
    \<and> suStatus u = SubscriptionStatus.ACTIVE \<and> suRequestedPlanId u = None"
proof -
  obtain p where p: "findFirst (\<lambda>p. plId p = planId \<and> plIsActive p) (plans s) = Some p"
    using assms(1) by (auto simp: subscribe_def split: option.splits)
  then have fp: "p \<in> set (plans s)" "plId p = planId" "plIsActive p"
    by (auto dest: findFirst_SomeD)
  have price: "\<not> plPrice p > 0"
    and lim: "assertUnderNewProductLimit s t (plMaxProducts p) = Inr ()"
    using assms(1) p by (auto simp: subscribe_def bind_res_eq_Inr split: if_splits)
  have lim': "plMaxProducts p = -1 \<or> int (productCount s t) \<le> plMaxProducts p"
    using lim by (auto simp: assertUnderNewProductLimit_def split: if_splits)
  have zero: "plPrice p = 0"
    using price fp(1) assms(2) by (auto simp: list_all_iff intro: antisym)
  let ?live = "\<lambda>u. suTenantId u = t \<and> suStatus u \<in> {SubscriptionStatus.ACTIVE, SubscriptionStatus.PENDING_UPGRADE}"
  show ?thesis
  proof (cases "firstBy ?live (\<lambda>u. - suCreatedAt u) (subscriptions s)")
    case None
    then have "s' = s\<lparr>subscriptions := subscriptions s
          @ [newSubscription (eFresh e 0) t planId (computeExpiry (plDuration p) (eNow e)) (eNow e)]\<rparr>"
        "sid = eFresh e 0"
      using assms(1) p lim price by (auto simp: subscribe_def Let_def split: if_splits)
    then show ?thesis
      using fp zero lim' assms(4)
      by (auto simp: rowOf_append1 newSubscription_def productCount_def intro!: exI [of _ p])
  next
    case (Some ex)
    note x = firstBy_SomeD(1,2) [OF Some]
    define f where "f = (\<lambda>u :: subscription. u\<lparr>suPlanId := planId,
         suExpiresAt := computeExpiry (plDuration p) (eNow e), suStatus := SubscriptionStatus.ACTIVE,
         suRequestedPlanId := None, suRequestedPaymentReference := None,
         suBillingProvider := BillingProvider.MANUAL, suExpiryNoticesSent := []\<rparr>)"
    have s': "s' = updateSubscription (suId ex) f s" "sid = suId ex"
      using assms(1) p lim price Some by (auto simp: subscribe_def Let_def f_def split: if_splits)
    have "rowOf suId (suId ex) (subscriptions s) = Some ex"
      using assms(3) x(1) by (rule rowOf_unique)
    then have r: "rowOf suId sid (subscriptions s') = Some (f ex)"
      by (simp add: s' updateSubscription_def rowOf_updateRow_same f_def)
    have "plans s' = plans s" "productCount s' t = productCount s t"
      by (simp_all add: s' updateSubscription_def productCount_def)
    with r x(2) fp zero lim' show ?thesis
      by (intro exI [of _ "f ex"] exI [of _ p]) (simp add: f_def)
  qed
qed

theorem subscribe_only_free_witness:
  "\<exists>s' sid u. subscribe env0 db0 ''t1'' ''pl0'' = Inr (s', sid)
    \<and> rowOf suId sid (subscriptions s') = Some u \<and> suPlanId u = ''pl0''"
proof -
  have "\<exists>s' sid. subscribe env0 db0 ''t1'' ''pl0'' = Inr (s', sid)"
    by (simp add: subscribe_def assertUnderNewProductLimit_def productCount_def
        currentSubscription_def firstBy_def findMany_def Let_def sample_defs)
  then obtain s' sid where s: "subscribe env0 db0 ''t1'' ''pl0'' = Inr (s', sid)" by auto
  moreover have "list_all (\<lambda>p. 0 \<le> plPrice p) (plans db0)" "uniqueKeys suId (subscriptions db0)"
      "rowOf suId (eFresh env0 0) (subscriptions db0) = None"
    by (simp_all add: sample_defs uniqueKeys_def)
  ultimately show ?thesis using subscribe_only_free [OF s] by auto
qed

end
