(* ===== verification/Orders.thy ===== *)
theory Orders
  imports Payments Plans
begin

text \<open>
  Placing an order (\<open>orders/orders.service.ts\<close>): pricing a basket, reserving and releasing
  stock, the quote, the creation of the order and the message a WhatsApp or Telegram order sends.

  A handler that throws returns no state, which is the rollback of the request's transaction: the
  stock an earlier line took is not kept when a later line is refused. A quantity is a positive
  whole number of at most 10000 (the DTO's validators), an amount column holds less than
  \<open>10 ^ 10\<close> and the insert of a larger one is refused by the database.
\<close>

section \<open>Pricing a basket\<close>

record OrderItemInput =
  inProductId :: uuid
  inVariantId :: "uuid option"
  inQuantity :: nat

record PriceInput =
  piItems :: "OrderItemInput list"
  piCouponCode :: "string option"
  piShippingId :: "uuid option"

record PriceOptions =
  lenientCoupon :: bool
  onlyPublished :: bool

text \<open>A priced line with the product and variant it is for, as they were read.\<close>

record ProductLine =
  lnProduct :: product
  lnVariant :: "variant option"
  lnPriced :: PricedLine

record OrderTotals =
  toSubtotal :: decimal
  toTaxTotal :: decimal
  toDiscountTotal :: decimal
  toShippingTotal :: decimal
  toGrandTotal :: decimal

record PricedOrder =
  poLines :: "ProductLine list"
  poCoupon :: "coupon option"
  poCouponError :: "string option"
  poShipping :: "shipping option"
  poTotals :: OrderTotals

definition variantsOf :: "db \<Rightarrow> product \<Rightarrow> variant list" where
  "variantsOf s p = filter (\<lambda>v. vProductId v = pId p) (variants s)"

definition findProduct :: "db \<Rightarrow> uuid \<Rightarrow> bool \<Rightarrow> uuid \<Rightarrow> product option" where
  "findProduct s tenantId published productId =
     findFirst (\<lambda>p. pId p = productId \<and> pTenantId p = tenantId
       \<and> (published \<longrightarrow> pIsActive p \<and> pIsPublished p)) (products s)"

definition priceLine :: "db \<Rightarrow> uuid \<Rightarrow> bool \<Rightarrow> OrderItemInput \<Rightarrow> ProductLine res" where
  "priceLine s tenantId published item =
     (case findProduct s tenantId published (inProductId item) of
        None \<Rightarrow> Inl (BadRequest (''Product '' @ inProductId item @ '' not found''))
      | Some p \<Rightarrow>
          let vr = (if truthy (inVariantId item)
                    then findFirst (\<lambda>v. vId v = the (inVariantId item)) (variantsOf s p) else None)
          in if truthy (inVariantId item) \<and> vr = None
             then Inl (BadRequest (''Variant '' @ the (inVariantId item) @ '' not found''))
             else if vr = None \<and> pHasVariants p \<and> variantsOf s p \<noteq> []
             then Inl (BadRequest (''Choose a variant for '' @ pName p))
             else Inr \<lparr>lnProduct = p, lnVariant = vr,
                       lnPriced = priceLineItem (case vr of Some v \<Rightarrow> vPrice v | None \<Rightarrow> pPrice p)
                                    (inQuantity item) (map taxLine (pTaxes p))\<rparr>)"

text \<open>The coupon, the discount and the reason a code was not applied.\<close>

definition applyCoupon ::
    "time \<Rightarrow> db \<Rightarrow> uuid \<Rightarrow> PriceOptions \<Rightarrow> string option \<Rightarrow> decimal \<Rightarrow> decimal \<Rightarrow>
     (coupon option \<times> decimal \<times> string option) res" where
  "applyCoupon now s tenantId options couponCode subtotal taxTotal =
     (if \<not> truthy couponCode then Inr (None, 0, None)
      else let found = orderCoupon s tenantId (the couponCode)
           in case (couponReason now found, found) of
                (Some reason, _) \<Rightarrow>
                  if \<not> lenientCoupon options then Inl (BadRequest reason) else Inr (None, 0, Some reason)
              | (None, Some c) \<Rightarrow>
                  Inr (Some c, applyCouponDiscount (js_add subtotal taxTotal) (cpDiscountType c) (cpDiscountValue c), None)
              | (None, None) \<Rightarrow> Inr (None, 0, None))"

definition findShipping :: "db \<Rightarrow> uuid \<Rightarrow> bool \<Rightarrow> uuid option \<Rightarrow> shipping option res" where
  "findShipping s tenantId active shippingId =
     (if \<not> truthy shippingId then Inr None
      else case findFirst (\<lambda>h. shId h = the shippingId \<and> shTenantId h = tenantId \<and> (active \<longrightarrow> shIsActive h))
                  (shippings s) of
             None \<Rightarrow> Inl (BadRequest ''Invalid shipping option'')
           | Some h \<Rightarrow> Inr (Some h))"

definition priceOrder :: "time \<Rightarrow> db \<Rightarrow> uuid \<Rightarrow> PriceInput \<Rightarrow> PriceOptions \<Rightarrow> PricedOrder res" where
  "priceOrder now s tenantId input options =
     bind_res (map_res (priceLine s tenantId (onlyPublished options)) (piItems input)) (\<lambda>pricedLines.
       let subtotal = round2 (sum_list (map (plLineSubtotal \<circ> lnPriced) pricedLines));
           taxTotal = round2 (sum_list (map (plTaxAmount \<circ> lnPriced) pricedLines))
       in bind_res (applyCoupon now s tenantId options (piCouponCode input) subtotal taxTotal)
            (\<lambda>(cp, discountTotal, couponError).
              bind_res (findShipping s tenantId (onlyPublished options) (piShippingId input)) (\<lambda>shipping.
                let shippingTotal = (case shipping of Some h \<Rightarrow> shCost h | None \<Rightarrow> 0);
                    grandTotal = round2 (subtotal + taxTotal - discountTotal + shippingTotal)
                in Inr \<lparr>poLines = pricedLines, poCoupon = cp, poCouponError = couponError,
                        poShipping = shipping,
                        poTotals = \<lparr>toSubtotal = subtotal, toTaxTotal = taxTotal,
                          toDiscountTotal = discountTotal, toShippingTotal = shippingTotal,
                          toGrandTotal = grandTotal\<rparr>\<rparr>)))"

section \<open>Stock\<close>

text \<open>The parts of a priced line that stock handling needs: the interface \<open>PricedLine\<close> of the service.\<close>

record StockLine =
  skProductId :: uuid
  skProductName :: string
  skProductQuantity :: int
  skVariant :: "(uuid \<times> string \<times> int) option"
  skQuantity :: nat

definition stockLineOf :: "ProductLine \<Rightarrow> StockLine" where
  "stockLineOf l = \<lparr>skProductId = pId (lnProduct l), skProductName = pName (lnProduct l),
     skProductQuantity = pQuantity (lnProduct l),
     skVariant = map_option (\<lambda>v. (vId v, vName v, vQuantity v)) (lnVariant l),
     skQuantity = plQuantity (lnPriced l)\<rparr>"

definition stockLabel :: "StockLine \<Rightarrow> string" where
  "stockLabel l = (case skVariant l of
     Some (_, name, _) \<Rightarrow> skProductName l @ '' ('' @ name @ '')'' | None \<Rightarrow> skProductName l)"

definition takeProduct :: "uuid \<Rightarrow> int \<Rightarrow> db \<Rightarrow> db" where
  "takeProduct k n s = s\<lparr>products := updateMany (\<lambda>p. pId p = k \<and> pQuantity p \<ge> n)
     (\<lambda>p. p\<lparr>pQuantity := pQuantity p - n\<rparr>) (products s)\<rparr>"

definition takeVariant :: "uuid \<Rightarrow> int \<Rightarrow> db \<Rightarrow> db" where
  "takeVariant k n s = s\<lparr>variants := updateMany (\<lambda>v. vId v = k \<and> vQuantity v \<ge> n)
     (\<lambda>v. v\<lparr>vQuantity := vQuantity v - n\<rparr>) (variants s)\<rparr>"

text \<open>One line: a conditional UPDATE, refused when it matches no row.\<close>

definition reserveLine :: "db \<Rightarrow> StockLine \<Rightarrow> db res" where
  "reserveLine s l =
     (let n = int (skQuantity l);
          taken = (case skVariant l of
                     Some (k, _, _) \<Rightarrow> countRows (\<lambda>v. vId v = k \<and> vQuantity v \<ge> n) (variants s)
                   | None \<Rightarrow> countRows (\<lambda>p. pId p = skProductId l \<and> pQuantity p \<ge> n) (products s));
          available = (case skVariant l of Some (_, _, q) \<Rightarrow> q | None \<Rightarrow> skProductQuantity l)
      in if taken = 0
         then Inl (Conflict (if available > 0
                then ''Only '' @ string_of_int available @ '' left of '' @ stockLabel l
                else stockLabel l @ '' is out of stock''))
         else Inr (case skVariant l of
                     Some (k, _, _) \<Rightarrow> takeVariant k n s | None \<Rightarrow> takeProduct (skProductId l) n s))"

fun reserveStock :: "db \<Rightarrow> StockLine list \<Rightarrow> db res" where
  "reserveStock s [] = Inr s"
| "reserveStock s (l # ls) = bind_res (reserveLine s l) (\<lambda>s'. reserveStock s' ls)"

text \<open>What an order line holds.\<close>

record StockItem =
  siProductId :: "uuid option"
  siVariantId :: "uuid option"
  siQuantity :: nat

definition stockItemOf :: "orderItem \<Rightarrow> StockItem" where
  "stockItemOf i = \<lparr>siProductId = iProductId i, siVariantId = iVariantId i, siQuantity = iQuantity i\<rparr>"

definition releaseItem :: "StockItem \<Rightarrow> db \<Rightarrow> db" where
  "releaseItem i s =
     (if truthy (siVariantId i)
      then s\<lparr>variants := updateMany (\<lambda>v. vId v = the (siVariantId i))
               (\<lambda>v. v\<lparr>vQuantity := vQuantity v + int (siQuantity i)\<rparr>) (variants s)\<rparr>
      else if truthy (siProductId i)
      then s\<lparr>products := updateMany (\<lambda>p. pId p = the (siProductId i))
               (\<lambda>p. p\<lparr>pQuantity := pQuantity p + int (siQuantity i)\<rparr>) (products s)\<rparr>
      else s)"

definition releaseStock :: "StockItem list \<Rightarrow> db \<Rightarrow> db" where
  "releaseStock is s = fold releaseItem is s"

section \<open>Quoting\<close>

record StockIssue =
  sqProductId :: uuid
  sqVariantId :: "uuid option"
  sqName :: string
  sqRequested :: nat
  sqAvailable :: int

record QuoteItem =
  qiProductId :: uuid
  qiVariantId :: "uuid option"
  qiName :: string
  qiVariantName :: "string option"
  qiUnitPrice :: decimal
  qiQuantity :: nat
  qiTaxAmount :: decimal
  qiLineTotal :: decimal

record Quote =
  quCurrency :: string
  quStockIssues :: "StockIssue list"
  quTotals :: OrderTotals
  quCoupon :: "(string \<times> DiscountType) option"
  quCouponError :: "string option"
  quShipping :: "(uuid \<times> string \<times> decimal) option"
  quItems :: "QuoteItem list"

definition lineAvailable :: "ProductLine \<Rightarrow> int" where
  "lineAvailable l = (case lnVariant l of Some v \<Rightarrow> vQuantity v | None \<Rightarrow> pQuantity (lnProduct l))"

definition stockIssue :: "ProductLine \<Rightarrow> StockIssue" where
  "stockIssue l = \<lparr>sqProductId = pId (lnProduct l), sqVariantId = map_option vId (lnVariant l),
     sqName = stockLabel (stockLineOf l), sqRequested = plQuantity (lnPriced l),
     sqAvailable = lineAvailable l\<rparr>"

definition quote :: "time \<Rightarrow> db \<Rightarrow> uuid \<Rightarrow> PriceInput \<Rightarrow> Quote res" where
  "quote now s tenantId input =
     (case rowOf tId tenantId (tenants s) of
        None \<Rightarrow> Inl RecordNotFound
      | Some t \<Rightarrow>
          bind_res (priceOrder now s tenantId input \<lparr>lenientCoupon = True, onlyPublished = True\<rparr>) (\<lambda>r.
            Inr \<lparr>quCurrency = tCurrency t,
                 quStockIssues = (if tTracksInventory t
                    then map stockIssue (filter (\<lambda>l. lineAvailable l < int (plQuantity (lnPriced l))) (poLines r))
                    else []),
                 quTotals = poTotals r,
                 quCoupon = map_option (\<lambda>c. (cpCode c, cpDiscountType c)) (poCoupon r),
                 quCouponError = poCouponError r,
                 quShipping = map_option (\<lambda>h. (shId h, shName h, shCost h)) (poShipping r),
                 quItems = map (\<lambda>l. \<lparr>qiProductId = pId (lnProduct l), qiVariantId = map_option vId (lnVariant l),
                     qiName = pName (lnProduct l), qiVariantName = map_option vName (lnVariant l),
                     qiUnitPrice = plUnitPrice (lnPriced l), qiQuantity = plQuantity (lnPriced l),
                     qiTaxAmount = plTaxAmount (lnPriced l), qiLineTotal = plLineTotal (lnPriced l)\<rparr>) (poLines r)\<rparr>))"

section \<open>Creating\<close>

record CreateOrderDto =
  coCustomerName :: string
  coCustomerEmail :: "string option"
  coCustomerPhone :: "string option"
  coItems :: "OrderItemInput list"
  coCouponCode :: "string option"
  coShippingId :: "uuid option"
  coFulfillmentMethod :: FulfillmentMethod
  coShippingAddress :: "json option"
  coSessionId :: "uuid option"
  coPaymentProofUrl :: "string option"
  coPaymentReference :: "string option"

definition isDigitalStore :: "tenant \<Rightarrow> bool" where
  "isDigitalStore t = (tCatalogType t = DIGITAL)"

definition messageMethod :: "FulfillmentMethod \<Rightarrow> bool" where
  "messageMethod m = (m = FulfillmentMethod.WHATSAPP \<or> m = FulfillmentMethod.TELEGRAM)"

text \<open>Everything \<open>create\<close> refuses before it prices the basket.\<close>

definition checkDigitalOrder :: "CreateOrderDto \<Rightarrow> unit res" where
  "checkDigitalOrder dto =
     (if \<not> truthy (coCustomerEmail dto)
      then Inl (BadRequest ''An email address is required to deliver digital products'')
      else if messageMethod (coFulfillmentMethod dto) then Inl (BadRequest ''Digital products are paid online'')
      else if truthy (coShippingId dto) then Inl (BadRequest ''Digital products have no shipping'')
      else if list_ex (\<lambda>i. inQuantity i \<noteq> 1) (coItems dto)
      then Inl (BadRequest ''Digital products are sold one copy at a time'')
      else Inr ())"

definition checkCreate :: "env \<Rightarrow> db \<Rightarrow> uuid \<Rightarrow> CreateOrderDto \<Rightarrow> tenant res" where
  "checkCreate e s tenantId dto =
     bind_res (assertSafeImageUrl (eParseUrl e) tenantId (coPaymentProofUrl dto) ''paymentProofUrl'') (\<lambda>_.
       case rowOf tId tenantId (tenants s) of
         None \<Rightarrow> Inl RecordNotFound
       | Some t \<Rightarrow>
           if coFulfillmentMethod dto \<notin> set (enFulfillmentMethods (getEntitlements (eNow e) s tenantId))
           then Inl (BadRequest ''This checkout method is not available for this store'')
           else bind_res (if coFulfillmentMethod dto = FulfillmentMethod.ZELLE
                          then assertZelleConfigured e s tenantId else Inr ()) (\<lambda>_.
                bind_res (if isDigitalStore t then checkDigitalOrder dto else Inr ()) (\<lambda>_. Inr t)))"

definition newOrderItem :: "env \<Rightarrow> nat \<times> ProductLine \<Rightarrow> orderItem" where
  "newOrderItem e il =
     (let l = snd il
      in \<lparr>iId = eFresh e (Suc (fst il)), iProductId = Some (pId (lnProduct l)),
          iProductName = pName (lnProduct l), iVariantId = map_option vId (lnVariant l),
          iVariantName = map_option vName (lnVariant l),
          iSku = (case lnVariant l of
                    Some v \<Rightarrow> (case vSku v of Some k \<Rightarrow> Some k | None \<Rightarrow> pSku (lnProduct l))
                  | None \<Rightarrow> pSku (lnProduct l)),
          iUnitPrice = plUnitPrice (lnPriced l), iQuantity = plQuantity (lnPriced l),
          iTaxAmount = plTaxAmount (lnPriced l), iLineTotal = plLineTotal (lnPriced l),
          iTaxBreakdown = plTaxBreakdown (lnPriced l)\<rparr>)"

definition newOrder :: "env \<Rightarrow> tenant \<Rightarrow> CreateOrderDto \<Rightarrow> uuid option \<Rightarrow> PricedOrder \<Rightarrow> order" where
  "newOrder e t dto customerId r =
     \<lparr>oId = eFresh e 0, oTenantId = tId t, oOrderNumber = eOrderNumber e, oCustomerId = customerId,
      oCustomerName = coCustomerName dto, oCustomerEmail = coCustomerEmail dto,
      oCustomerPhone = coCustomerPhone dto, oSessionId = coSessionId dto,
      oStatus = OrderStatus.PENDING, oPaymentStatus = PaymentStatus.PENDING,
      oFulfillmentMethod = coFulfillmentMethod dto, oCurrency = tCurrency t,
      oSubtotal = toSubtotal (poTotals r), oTaxTotal = toTaxTotal (poTotals r),
      oDiscountTotal = toDiscountTotal (poTotals r), oShippingTotal = toShippingTotal (poTotals r),
      oGrandTotal = toGrandTotal (poTotals r), oCouponId = map_option cpId (poCoupon r),
      oShippingId = coShippingId dto,
      oShippingAddress = (if isDigitalStore t then None else coShippingAddress dto),
      oHiddenAt = None, oFulfillmentMessage = None, oStripePaymentIntentId = None,
      oStripeCheckoutSessionId = None, oMercadoPagoPreferenceId = None, oMercadoPagoPaymentId = None,
      oPaypalOrderId = None, oPaypalCaptureId = None, oPaymentProofUrl = coPaymentProofUrl dto,
      oPaymentReference = coPaymentReference dto, oCreatedAt = eNow e,
      oItems = map (newOrderItem e) (enumerate 0 (poLines r))\<rparr>"

text \<open>What the columns and the unique keys (the id, the order number within the store) refuse.\<close>

definition fitsColumns :: "order \<Rightarrow> bool" where
  "fitsColumns ord =
     (list_all (\<lambda>x. \<bar>x\<bar> < 10 ^ 10) [oSubtotal ord, oTaxTotal ord, oDiscountTotal ord, oShippingTotal ord, oGrandTotal ord]
      \<and> list_all (\<lambda>i. \<bar>iUnitPrice i\<bar> < 10 ^ 10 \<and> \<bar>iTaxAmount i\<bar> < 10 ^ 10 \<and> \<bar>iLineTotal i\<bar> < 10 ^ 10) (oItems ord))"

definition insertOrder :: "order \<Rightarrow> db \<Rightarrow> db res" where
  "insertOrder ord s =
     (if \<not> fitsColumns ord then Inl (BadRequest ''Database request error'')
      else if list_ex (\<lambda>r. oId r = oId ord \<or> oTenantId r = oTenantId ord \<and> oOrderNumber r = oOrderNumber ord) (orders s)
      then Inl (Conflict ''A record with this value already exists'')
      else Inr (s\<lparr>orders := orders s @ [ord]\<rparr>))"

definition DEFAULT_TEMPLATE :: string where
  "DEFAULT_TEMPLATE = joinWith [CHR 0x0A]
     [''Hi,'', ''Welcome to {store_name},'',
      ''Your order is confirmed & your order no. is {order_no}'', ''Your order detail is:'',
      ''Name : {customer_name}'', ''~~~~~~~~~~~~~~~~'', ''{item_variable}'', ''~~~~~~~~~~~~~~~~'',
      ''Qty Total : {qty_total}'', ''Sub Total : {sub_total}'', ''Discount Price : {discount_amount}'',
      ''Shipping Price : {shipping_amount}'', ''Tax : {item_tax}'', ''Total : {item_total}'']"

datatype Fulfillment = ToWhatsapp string | ToTelegram | ToPayment FulfillmentMethod

definition orderMessage :: "tenant \<Rightarrow> order \<Rightarrow> ProductLine list \<Rightarrow> string" where
  "orderMessage t ord ls =
     (let address = stringify (case oShippingAddress ord of Some a \<Rightarrow> a | None \<Rightarrow> JObj []);
          itemLines = map (\<lambda>l. renderItemLine (tItemLineTemplate t)
             \<lparr>lcSku = (case (case lnVariant l of Some v \<Rightarrow> vSku v | None \<Rightarrow> None) of
                         Some k \<Rightarrow> k | None \<Rightarrow> (case pSku (lnProduct l) of Some k \<Rightarrow> k | None \<Rightarrow> ''-'')),
              lcQuantity = plQuantity (lnPriced l), lcProductName = pName (lnProduct l),
              lcVariantName = (case lnVariant l of Some v \<Rightarrow> vName v | None \<Rightarrow> []),
              lcItemTax = toFixed2 (plTaxAmount (lnPriced l)),
              lcItemTotal = toFixed2 (plLineTotal (lnPriced l))\<rparr>) ls
      in renderOrderMessage (if tOrderMessageTemplate t = [] then DEFAULT_TEMPLATE else tOrderMessageTemplate t)
           \<lparr>mcStoreName = tName t, mcOrderNo = oOrderNumber ord, mcCustomerName = oCustomerName ord,
            mcBillingAddress = address, mcShippingAddress = address,
            mcQtyTotal = sum_list (map (plQuantity \<circ> lnPriced) ls),
            mcSubTotal = toFixed2 (oSubtotal ord), mcDiscountAmount = toFixed2 (oDiscountTotal ord),
            mcShippingAmount = toFixed2 (oShippingTotal ord), mcItemTax = toFixed2 (oTaxTotal ord),
            mcItemTotal = toFixed2 (oGrandTotal ord), mcItemLines = itemLines\<rparr>)"

definition dispatchMessageFulfillment ::
    "db \<Rightarrow> tenant \<Rightarrow> order \<Rightarrow> ProductLine list \<Rightarrow> (db \<times> Fulfillment) res" where
  "dispatchMessageFulfillment s t ord ls =
     (let message = orderMessage t ord ls;
          s1 = updateOrder (oId ord) (\<lambda>r. r\<lparr>oFulfillmentMessage := Some message, oStatus := OrderStatus.CONFIRMED\<rparr>) s
      in if oFulfillmentMethod ord = FulfillmentMethod.WHATSAPP
         then if \<not> tWhatsappEnabled t \<or> \<not> truthy (tWhatsappNumber t)
              then Inl (BadRequest ''This store has not enabled WhatsApp checkout'')
              else Inr (s1, ToWhatsapp (buildWhatsappUrl (the (tWhatsappNumber t)) message))
         else if \<not> tTelegramEnabled t \<or> \<not> truthy (tTelegramBotToken t) \<or> \<not> truthy (tTelegramChatId t)
         then Inl (BadRequest ''This store has not enabled Telegram checkout'')
         else Inr (emit (TelegramJob (tId t) (oId ord) message) s1, ToTelegram))"

definition toOrderEvent :: "orderEventType \<Rightarrow> order \<Rightarrow> effect" where
  "toOrderEvent type ord = OrderEvt (oTenantId ord) type (oId ord) (oOrderNumber ord) (oCustomerName ord)
     (oGrandTotal ord) (oCurrency ord) (oStatus ord)"

definition queueConfirmationEmail :: "env \<Rightarrow> tenant \<Rightarrow> order \<Rightarrow> db \<Rightarrow> db" where
  "queueConfirmationEmail e t ord s =
     (if \<not> truthy (oCustomerEmail ord) \<or> isDigitalStore t then s
      else emit (EmailJob ''order-confirmation'' (Some (tId t)) (tLocale t) (the (oCustomerEmail ord))
             [(''customer_name'', oCustomerName ord), (''store_name'', tName t),
              (''order_no'', oOrderNumber ord),
              (''grand_total'', formatTenantMoney (oGrandTotal ord) (tCurrencySymbol t) (tCurrencySymbolPosition t)),
              (''order_link'', storefrontOrderLink (ePublicWebUrl e) (tSlug t) (oId ord))] False) s)"

text \<open>The writes: stock, coupon, order.\<close>

definition placeOrder :: "env \<Rightarrow> db \<Rightarrow> tenant \<Rightarrow> CreateOrderDto \<Rightarrow> uuid option \<Rightarrow> PricedOrder \<Rightarrow> (db \<times> order) res" where
  "placeOrder e s t dto customerId r =
     bind_res (if tTracksInventory t \<and> \<not> isDigitalStore t
               then reserveStock s (map stockLineOf (poLines r)) else Inr s) (\<lambda>s1.
     bind_res (case poCoupon r of Some c \<Rightarrow> redeemCoupon s1 c | None \<Rightarrow> Inr s1) (\<lambda>s2.
       let ord = newOrder e t dto customerId r
       in bind_res (insertOrder ord s2) (\<lambda>s3. Inr (s3, ord))))"

definition priceInputOf :: "CreateOrderDto \<Rightarrow> PriceInput" where
  "priceInputOf dto = \<lparr>piItems = coItems dto, piCouponCode = coCouponCode dto, piShippingId = coShippingId dto\<rparr>"

definition createOrder ::
    "env \<Rightarrow> db \<Rightarrow> uuid \<Rightarrow> CreateOrderDto \<Rightarrow> uuid option \<Rightarrow> (db \<times> order \<times> Fulfillment) res" where
  "createOrder e s tenantId dto customerId =
     bind_res (checkCreate e s tenantId dto) (\<lambda>t.
     bind_res (priceOrder (eNow e) s tenantId (priceInputOf dto) \<lparr>lenientCoupon = False, onlyPublished = True\<rparr>) (\<lambda>r.
     bind_res (placeOrder e s t dto customerId r) (\<lambda>(s1, ord).
       if messageMethod (coFulfillmentMethod dto)
       then bind_res (dispatchMessageFulfillment s1 t ord (poLines r)) (\<lambda>(s2, f).
              let s3 = queueConfirmationEmail e t ord s2
              in Inr (emit (toOrderEvent order_created (ord\<lparr>oStatus := OrderStatus.CONFIRMED\<rparr>)) s3, ord, f))
       else let s2 = queueConfirmationEmail e t ord s1
            in Inr (emit (toOrderEvent order_created ord) s2, ord, ToPayment (coFulfillmentMethod dto)))))"

section \<open>Stock, as a count per article\<close>

text \<open>
  What a line takes stock from is a product or one of its variants. \<open>stockOf\<close> reads the count of
  such an article, \<open>need\<close> adds up what a basket asks of it and \<open>shiftStock\<close> moves every count by
  an amount: taking and giving back are shifts, and shifts compose.
\<close>

datatype StockKey = OfProduct uuid | OfVariant uuid

definition lineKey :: "StockLine \<Rightarrow> StockKey" where
  "lineKey l = (case skVariant l of Some (k, _, _) \<Rightarrow> OfVariant k | None \<Rightarrow> OfProduct (skProductId l))"

fun stockOf :: "db \<Rightarrow> StockKey \<Rightarrow> int option" where
  "stockOf s (OfProduct k) = map_option pQuantity (rowOf pId k (products s))"
| "stockOf s (OfVariant k) = map_option vQuantity (rowOf vId k (variants s))"

definition need :: "StockLine list \<Rightarrow> StockKey \<Rightarrow> int" where
  "need ls k = sum_list (map (\<lambda>l. if lineKey l = k then int (skQuantity l) else 0) ls)"

definition shiftStock :: "(StockKey \<Rightarrow> int) \<Rightarrow> db \<Rightarrow> db" where
  "shiftStock f s = s\<lparr>
     products := map (\<lambda>p. p\<lparr>pQuantity := pQuantity p + f (OfProduct (pId p))\<rparr>) (products s),
     variants := map (\<lambda>v. v\<lparr>vQuantity := vQuantity v + f (OfVariant (vId v))\<rparr>) (variants s)\<rparr>"

definition uniqueStock :: "db \<Rightarrow> bool" where
  "uniqueStock s = (uniqueKeys pId (products s) \<and> uniqueKeys vId (variants s))"

definition stockOk :: "db \<Rightarrow> bool" where
  "stockOk s = (list_all (\<lambda>p. 0 \<le> pQuantity p) (products s) \<and> list_all (\<lambda>v. 0 \<le> vQuantity v) (variants s))"

lemma need_simps [simp]:
  "need [] k = 0"
  "need (l # ls) k = (if lineKey l = k then int (skQuantity l) else 0) + need ls k"
  by (simp_all add: need_def)

lemma need_nonneg [simp]: "0 \<le> need ls k"
  by (induction ls) auto

lemma shiftStock_0 [simp]: "shiftStock (\<lambda>_. 0) s = s"
  by (simp add: shiftStock_def)

lemma shiftStock_shiftStock [simp]: "shiftStock f (shiftStock g s) = shiftStock (\<lambda>k. f k + g k) s"
  by (simp add: shiftStock_def comp_def add.assoc add.commute)

lemma shiftStock_tables [table_simps]:
  "tenants (shiftStock f s) = tenants s" "coupons (shiftStock f s) = coupons s"
  "shippings (shiftStock f s) = shippings s" "orders (shiftStock f s) = orders s"
  "paymentSettings (shiftStock f s) = paymentSettings s" "deliveries (shiftStock f s) = deliveries s"
  "grants (shiftStock f s) = grants s" "outbox (shiftStock f s) = outbox s"
  "subscriptions (shiftStock f s) = subscriptions s" "plans (shiftStock f s) = plans s"
  by (simp_all add: shiftStock_def)

lemma rowOf_map:
  assumes "\<And>r. key (f r) = key r"
  shows "rowOf key k (map f t) = map_option f (rowOf key k t)"
  using assms by (induction t) auto

lemma stockOf_shiftStock [simp]: "stockOf (shiftStock f s) k = map_option (\<lambda>q. q + f k) (stockOf s k)"
proof (cases k)
  case (OfProduct p)
  then show ?thesis
    by (cases "rowOf pId p (products s)") (auto simp: shiftStock_def rowOf_map dest: rowOf_SomeD)
next
  case (OfVariant v)
  then show ?thesis
    by (cases "rowOf vId v (variants s)") (auto simp: shiftStock_def rowOf_map dest: rowOf_SomeD)
qed

lemma uniqueStock_shiftStock [simp]: "uniqueStock (shiftStock f s) = uniqueStock s"
  by (simp add: uniqueStock_def uniqueKeys_def shiftStock_def comp_def)

text \<open>A conditional decrement of the one row with a key.\<close>

lemma conditional_take:
  assumes "uniqueKeys key t"
  shows "countRows (\<lambda>r. key r = k \<and> q r \<ge> n) t = 0 \<longleftrightarrow>
      (case rowOf key k t of None \<Rightarrow> True | Some r \<Rightarrow> q r < (n :: int))"
    and "rowOf key k t = Some r \<Longrightarrow> q r \<ge> n \<Longrightarrow>
      updateMany (\<lambda>r. key r = k \<and> q r \<ge> n) f t = map (\<lambda>r. if key r = k then f r else r) t"
proof -
  have only: "r = r'" if "rowOf key k t = Some r'" "r \<in> set t" "key r = k" for r r'
    using rowOf_SomeD [OF that(1)] that by (intro unique_row [OF assms]) auto
  show "countRows (\<lambda>r. key r = k \<and> q r \<ge> n) t = 0 \<longleftrightarrow>
      (case rowOf key k t of None \<Rightarrow> True | Some r \<Rightarrow> q r < n)"
  proof (cases "rowOf key k t")
    case None
    then have "\<forall>r \<in> set t. key r \<noteq> k" by (auto simp: rowOf_None_iff)
    with None show ?thesis by (simp add: countRows_0_iff)
  next
    case (Some r)
    with rowOf_SomeD [OF Some] only [OF Some] show ?thesis by (force simp: countRows_0_iff)
  qed
  show "updateMany (\<lambda>r. key r = k \<and> q r \<ge> n) f t = map (\<lambda>r. if key r = k then f r else r) t"
    if "rowOf key k t = Some r" "q r \<ge> n"
    unfolding updateMany_def using that only by (intro map_cong) auto
qed

lemma reserveLine_eq:
  assumes "uniqueStock s"
  shows "\<exists>msg. reserveLine s l = (case stockOf s (lineKey l) of
      Some q \<Rightarrow> if int (skQuantity l) \<le> q
                then Inr (shiftStock (\<lambda>k. if lineKey l = k then - int (skQuantity l) else 0) s)
                else Inl (Conflict msg)
    | None \<Rightarrow> Inl (Conflict msg))"
proof (cases "skVariant l")
  case None
  have u: "uniqueKeys pId (products s)" using assms by (simp add: uniqueStock_def)
  have "takeProduct (skProductId l) (int (skQuantity l)) s =
      shiftStock (\<lambda>k. if OfProduct (skProductId l) = k then - int (skQuantity l) else 0) s"
    if "rowOf pId (skProductId l) (products s) = Some p" "int (skQuantity l) \<le> pQuantity p" for p
    by (simp add: takeProduct_def shiftStock_def conditional_take(2) [where q = pQuantity, OF u that] cong: if_cong)
  with None show ?thesis
    by (auto simp: reserveLine_def lineKey_def Let_def conditional_take(1) [OF u] split: option.splits)
next
  case (Some v)
  have u: "uniqueKeys vId (variants s)" using assms by (simp add: uniqueStock_def)
  obtain k a b where v: "v = (k, a, b)" by (cases v)
  have "takeVariant k (int (skQuantity l)) s =
      shiftStock (\<lambda>k'. if OfVariant k = k' then - int (skQuantity l) else 0) s"
    if "rowOf vId k (variants s) = Some p" "int (skQuantity l) \<le> vQuantity p" for p
    by (simp add: takeVariant_def shiftStock_def conditional_take(2) [where q = vQuantity, OF u that] cong: if_cong)
  with Some v show ?thesis
    by (auto simp: reserveLine_def lineKey_def Let_def conditional_take(1) [OF u] split: option.splits)
qed

lemma reserveStock_shift:
  assumes "uniqueStock s" "reserveStock s ls = Inr s'"
  shows "s' = shiftStock (\<lambda>k. - need ls k) s"
  using assms
proof (induction ls arbitrary: s)
  case (Cons l ls)
  from Cons.prems(2) obtain s1 where s1: "reserveLine s l = Inr s1" "reserveStock s1 ls = Inr s'"
    by (auto simp: res_eqs)
  have s1': "s1 = shiftStock (\<lambda>k. if lineKey l = k then - int (skQuantity l) else 0) s"
    using reserveLine_eq [OF Cons.prems(1), of l] s1(1) by (auto split: option.splits if_splits)
  then have "s' = shiftStock (\<lambda>k. - need ls k) s1"
    using Cons.IH [of s1] s1(2) Cons.prems(1) by simp
  also have "\<dots> = shiftStock (\<lambda>k. - need (l # ls) k) s"
    by (simp add: s1') (rule arg_cong2 [where f = shiftStock], auto)
  finally show ?case .
qed simp

lemma reserveStock_enough:
  assumes "uniqueStock s"
  shows "(\<exists>s'. reserveStock s ls = Inr s') \<longleftrightarrow>
    (\<forall>l \<in> set ls. \<exists>q. stockOf s (lineKey l) = Some q \<and> need ls (lineKey l) \<le> q)"
  using assms
proof (induction ls arbitrary: s)
  case (Cons l ls)
  let ?n = "int (skQuantity l)"
  let ?s1 = "shiftStock (\<lambda>k. if lineKey l = k then - ?n else 0) s"
  show ?case
  proof (cases "\<exists>q. stockOf s (lineKey l) = Some q \<and> ?n \<le> q")
    case True
    then have r: "reserveLine s l = Inr ?s1" using reserveLine_eq [OF Cons.prems, of l] by auto
    obtain q where q: "stockOf s (lineKey l) = Some q" "?n \<le> q" using True by blast
    have IH: "(\<exists>s'. reserveStock ?s1 ls = Inr s') \<longleftrightarrow>
      (\<forall>m \<in> set ls. \<exists>q. stockOf ?s1 (lineKey m) = Some q \<and> need ls (lineKey m) \<le> q)"
      using Cons.IH [of ?s1] Cons.prems by simp
    have m: "(\<exists>q. stockOf ?s1 (lineKey m) = Some q \<and> need ls (lineKey m) \<le> q) \<longleftrightarrow>
        (\<exists>q. stockOf s (lineKey m) = Some q \<and> need (l # ls) (lineKey m) \<le> q)" for m
      by (cases "stockOf s (lineKey m)") auto
    have zero: "need ls (lineKey l) = 0" if "\<forall>m \<in> set ls. lineKey m \<noteq> lineKey l" for ls
      using that by (induction ls) auto
    let ?ok = "\<lambda>m. \<exists>q. stockOf s (lineKey m) = Some q \<and> need (l # ls) (lineKey m) \<le> q"
    have l: "?ok l" if all: "\<forall>m \<in> set ls. ?ok m"
    proof (cases "\<exists>m \<in> set ls. lineKey m = lineKey l")
      case True
      then obtain m where m: "m \<in> set ls" "lineKey m = lineKey l" by blast
      have "?ok m" using all m(1) by blast
      then show ?thesis by (simp only: m(2))
    next
      case False
      then show ?thesis using zero [of ls] q by simp
    qed
    have "(\<exists>s'. reserveStock s (l # ls) = Inr s') \<longleftrightarrow> (\<forall>m \<in> set ls. ?ok m)"
      by (simp only: reserveStock.simps r bind_res_simps IH m)
    also have "\<dots> \<longleftrightarrow> (\<forall>m \<in> set (l # ls). ?ok m)"
      using l by (simp only: list.set ball_simps insert_iff) blast
    finally show ?thesis .
  next
    case False
    then have "\<nexists>s'. reserveLine s l = Inr s'"
      using reserveLine_eq [OF Cons.prems, of l] by (auto split: option.splits)
    then have "\<nexists>s'. reserveStock s (l # ls) = Inr s'" by (simp add: res_eqs)
    moreover have "\<not> (\<exists>q. stockOf s (lineKey l) = Some q \<and> need (l # ls) (lineKey l) \<le> q)"
    proof
      assume "\<exists>q. stockOf s (lineKey l) = Some q \<and> need (l # ls) (lineKey l) \<le> q"
      then obtain q where q: "stockOf s (lineKey l) = Some q" "need (l # ls) (lineKey l) \<le> q" by blast
      from q(2) have "?n + need ls (lineKey l) \<le> q" by simp
      moreover have "0 \<le> need ls (lineKey l)" by simp
      ultimately have "?n \<le> q" by linarith
      with False q(1) show False by blast
    qed
    ultimately show ?thesis by (simp only: list.set ball_simps insert_iff) blast
  qed
qed simp

lemma reserveLine_stockOk:
  "stockOk s \<Longrightarrow> reserveLine s l = Inr s' \<Longrightarrow> stockOk s'"
  by (auto simp: reserveLine_def stockOk_def takeProduct_def takeVariant_def list_all_iff set_updateMany Let_def
      split: option.splits if_splits)

lemma reserveStock_stockOk:
  "stockOk s \<Longrightarrow> reserveStock s ls = Inr s' \<Longrightarrow> stockOk s'"
  by (induction ls arbitrary: s) (auto simp: res_eqs intro: reserveLine_stockOk)

text \<open>Releasing the lines of an order.\<close>

definition itemKey :: "StockItem \<Rightarrow> StockKey option" where
  "itemKey i = (if truthy (siVariantId i) then Some (OfVariant (the (siVariantId i)))
                else if truthy (siProductId i) then Some (OfProduct (the (siProductId i))) else None)"

definition held :: "StockItem list \<Rightarrow> StockKey \<Rightarrow> int" where
  "held is k = sum_list (map (\<lambda>i. if itemKey i = Some k then int (siQuantity i) else 0) is)"

lemma held_simps [simp]:
  "held [] k = 0"
  "held (i # is) k = (if itemKey i = Some k then int (siQuantity i) else 0) + held is k"
  by (simp_all add: held_def)

lemma held_nonneg [simp]: "0 \<le> held is k"
  by (induction "is") auto

lemma releaseItem_shift:
  "releaseItem i s = shiftStock (\<lambda>k. if itemKey i = Some k then int (siQuantity i) else 0) s"
  by (auto simp: releaseItem_def shiftStock_def itemKey_def updateMany_def cong: if_cong)

lemma releaseStock_shift: "releaseStock is s = shiftStock (held is) s"
  unfolding releaseStock_def
proof (induction "is" arbitrary: s)
  case (Cons i "is")
  then show ?case
    by (simp add: releaseItem_shift) (rule arg_cong2 [where f = shiftStock], auto)
qed (simp add: shiftStock_def)

lemma releaseStock_stockOk: "stockOk s \<Longrightarrow> stockOk (releaseStock is s)"
  by (auto simp: releaseStock_shift stockOk_def shiftStock_def list_all_iff)

lemma releaseStock_tables [simp]:
  "tenants (releaseStock is s) = tenants s" "coupons (releaseStock is s) = coupons s"
  "shippings (releaseStock is s) = shippings s" "orders (releaseStock is s) = orders s"
  "paymentSettings (releaseStock is s) = paymentSettings s" "deliveries (releaseStock is s) = deliveries s"
  "grants (releaseStock is s) = grants s" "outbox (releaseStock is s) = outbox s"
  "subscriptions (releaseStock is s) = subscriptions s" "plans (releaseStock is s) = plans s"
  by (simp_all add: releaseStock_shift table_simps)

lemma releaseStock_reserveStock:
  assumes "uniqueStock s" "reserveStock s ls = Inr s'" "\<And>k. held is k = need ls k"
  shows "releaseStock is s' = s"
  by (simp add: reserveStock_shift [OF assms(1,2)] releaseStock_shift assms(3))

section \<open>Totals\<close>

text \<open>Prices, tax rates, discounts and shipping costs as their columns and the DTOs keep them.\<close>

definition catalogOk :: "db \<Rightarrow> bool" where
  "catalogOk s =
     (list_all (\<lambda>p. cents (pPrice p) \<and> 0 \<le> pPrice p \<and> list_all (\<lambda>t. 0 \<le> ptRate t) (pTaxes p)) (products s)
      \<and> list_all (\<lambda>v. cents (vPrice v) \<and> 0 \<le> vPrice v) (variants s)
      \<and> list_all (\<lambda>c. 0 \<le> cpDiscountValue c) (coupons s)
      \<and> list_all (\<lambda>h. cents (shCost h) \<and> 0 \<le> shCost h) (shippings s))"

text \<open>What the totals of an order are: exact sums of its lines, a discount within bounds.\<close>

definition totalsExact :: "order \<Rightarrow> bool" where
  "totalsExact ord =
     (oSubtotal ord = sum_list (map (\<lambda>i. iUnitPrice i * of_nat (iQuantity i)) (oItems ord))
      \<and> oTaxTotal ord = sum_list (map iTaxAmount (oItems ord))
      \<and> oSubtotal ord + oTaxTotal ord = sum_list (map iLineTotal (oItems ord))
      \<and> 0 \<le> oDiscountTotal ord \<and> oDiscountTotal ord \<le> oSubtotal ord + oTaxTotal ord
      \<and> 0 \<le> oShippingTotal ord
      \<and> oGrandTotal ord = oSubtotal ord + oTaxTotal ord - oDiscountTotal ord + oShippingTotal ord)"

definition centsTotals :: "OrderTotals \<Rightarrow> bool" where
  "centsTotals t = (cents (toSubtotal t) \<and> cents (toTaxTotal t) \<and> cents (toDiscountTotal t)
      \<and> cents (toShippingTotal t) \<and> cents (toGrandTotal t))"

text \<open>A priced line: a catalogue price, and amounts computed from it.\<close>

definition lineOk :: "ProductLine \<Rightarrow> bool" where
  "lineOk l = (\<exists>p q ts. cents p \<and> 0 \<le> p \<and> list_all (\<lambda>t. 0 \<le> txRate t) ts \<and> lnPriced l = priceLineItem p q ts)"

lemma priceLine_lineOk:
  assumes "catalogOk s" "priceLine s tn pub i = Inr l"
  shows "lineOk l"
  unfolding lineOk_def
proof (intro exI conjI)
  obtain p where p: "findProduct s tn pub (inProductId i) = Some p" "lnProduct l = p"
    using assms(2) by (auto simp: priceLine_def Let_def split: option.splits if_splits)
  have pp: "p \<in> set (products s)" using p(1) by (auto simp: findProduct_def dest: findFirst_SomeD)
  have vv: "v \<in> set (variants s)" if "lnVariant l = Some v" for v
    using assms(2) that
    by (auto simp: priceLine_def Let_def variantsOf_def dest!: findFirst_SomeD split: option.splits if_splits)
  let ?u = "case lnVariant l of Some v \<Rightarrow> vPrice v | None \<Rightarrow> pPrice (lnProduct l)"
  show "lnPriced l = priceLineItem ?u (inQuantity i) (map taxLine (pTaxes (lnProduct l)))"
    using assms(2) by (auto simp: priceLine_def Let_def split: option.splits if_splits)
  show "cents ?u" "0 \<le> ?u" "list_all (\<lambda>t. 0 \<le> txRate t) (map taxLine (pTaxes (lnProduct l)))"
    using assms(1) pp vv p(2) by (auto simp: catalogOk_def taxLine_def list_all_iff split: option.splits)
qed

lemma lineOk_facts:
  assumes "lineOk l"
  shows "plLineSubtotal (lnPriced l) = plUnitPrice (lnPriced l) * of_nat (plQuantity (lnPriced l))"
    and "plLineTotal (lnPriced l) = plLineSubtotal (lnPriced l) + plTaxAmount (lnPriced l)"
    and "cents (plLineSubtotal (lnPriced l))" "cents (plTaxAmount (lnPriced l))"
    and "0 \<le> plLineSubtotal (lnPriced l)" "0 \<le> plTaxAmount (lnPriced l)"
    and "cents (plUnitPrice (lnPriced l))" "0 \<le> plUnitPrice (lnPriced l)"
proof -
  from assms obtain p q ts where l: "cents p" "0 \<le> p" "list_all (\<lambda>t. 0 \<le> txRate t) ts"
    "lnPriced l = priceLineItem p q ts" by (auto simp: lineOk_def)
  have u: "plUnitPrice (priceLineItem p q ts) = p" "plQuantity (priceLineItem p q ts) = q"
    by (simp_all add: priceLineItem_def Let_def)
  show "plLineSubtotal (lnPriced l) = plUnitPrice (lnPriced l) * of_nat (plQuantity (lnPriced l))"
    "plLineTotal (lnPriced l) = plLineSubtotal (lnPriced l) + plTaxAmount (lnPriced l)"
    using priceLineItem_exact [OF l(1)] by (simp_all only: l(4) u)
  show "cents (plUnitPrice (lnPriced l))" "0 \<le> plUnitPrice (lnPriced l)"
    using l(1,2) by (simp_all only: l(4) u)
  show "cents (plLineSubtotal (lnPriced l))" "cents (plTaxAmount (lnPriced l))"
    by (simp_all only: l(4) cents_priceLineItem)
  show "0 \<le> plLineSubtotal (lnPriced l)" "0 \<le> plTaxAmount (lnPriced l)"
    using l(2,3) by (auto simp only: l(4) list_all_iff intro: priceLineItem_nonneg)
qed

lemma applyCoupon_discount:
  assumes cat: "catalogOk s" and c: "cents sub" "cents tax" and nn: "0 \<le> sub" "0 \<le> tax"
    and small: "sub + tax \<le> 10 ^ 12" and cp: "applyCoupon now s tn opts code sub tax = Inr (cp, d, err)"
  shows "cents d \<and> 0 \<le> d \<and> d \<le> sub + tax"
proof (cases "cp")
  case None
  then show ?thesis using cp nn by (auto simp: applyCoupon_def Let_def split: if_splits option.splits)
next
  case (Some k)
  then have k: "d = applyCouponDiscount (js_add sub tax) (cpDiscountType k) (cpDiscountValue k)"
      "k \<in> set (coupons s)"
    using cp by (auto simp: applyCoupon_def Let_def orderCoupon_def activeCoupon_def dest: findFirst_SomeD
        split: if_splits option.splits)
  have v: "0 \<le> cpDiscountValue k" using cat k(2) by (auto simp: catalogOk_def list_all_iff)
  have j: "0 \<le> js_add sub tax" using js_add_error(1) nn by blast
  define m where "m = min (case cpDiscountType k of PERCENTAGE \<Rightarrow> js_add sub tax / 100 * cpDiscountValue k
      | FLAT \<Rightarrow> cpDiscountValue k) (js_add sub tax)"
  have m: "0 \<le> m" "m \<le> js_add sub tax"
    using v j by (auto simp: m_def split: DiscountType.splits)
  have "d = round2 m" by (simp add: k(1) applyCouponDiscount_def Let_def m_def)
  moreover have "round2 m \<le> round2 (js_add sub tax)" using m by (rule round2_mono)
  moreover have "round2 (js_add sub tax) = sub + tax" using c nn small by (rule round2_js_add)
  ultimately show ?thesis using m(1) by (simp add: round2_nonneg)
qed

text \<open>The totals of a basket, as sums and differences without any rounding left.\<close>

lemma priceOrder_totals:
  assumes cat: "catalogOk s" and ok: "priceOrder now s tn input opts = Inr r"
    and small: "toSubtotal (poTotals r) + toTaxTotal (poTotals r) \<le> 10 ^ 12"
  shows "list_all lineOk (poLines r)"
    and "toSubtotal (poTotals r) = sum_list (map (plLineSubtotal \<circ> lnPriced) (poLines r))"
    and "toTaxTotal (poTotals r) = sum_list (map (plTaxAmount \<circ> lnPriced) (poLines r))"
    and "0 \<le> toDiscountTotal (poTotals r)"
    and "toDiscountTotal (poTotals r) \<le> toSubtotal (poTotals r) + toTaxTotal (poTotals r)"
    and "0 \<le> toShippingTotal (poTotals r)"
    and "toGrandTotal (poTotals r) = toSubtotal (poTotals r) + toTaxTotal (poTotals r)
           - toDiscountTotal (poTotals r) + toShippingTotal (poTotals r)"
    and "centsTotals (poTotals r)"
proof -
  obtain ls cp d err sh where
    ls: "map_res (priceLine s tn (onlyPublished opts)) (piItems input) = Inr ls"
    and cp: "applyCoupon now s tn opts (piCouponCode input) (round2 (sum_list (map (plLineSubtotal \<circ> lnPriced) ls)))
        (round2 (sum_list (map (plTaxAmount \<circ> lnPriced) ls))) = Inr (cp, d, err)"
    and sh: "findShipping s tn (onlyPublished opts) (piShippingId input) = Inr sh"
    and r: "poLines r = ls" "poTotals r = \<lparr>toSubtotal = round2 (sum_list (map (plLineSubtotal \<circ> lnPriced) ls)),
        toTaxTotal = round2 (sum_list (map (plTaxAmount \<circ> lnPriced) ls)), toDiscountTotal = d,
        toShippingTotal = (case sh of Some h \<Rightarrow> shCost h | None \<Rightarrow> 0),
        toGrandTotal = round2 (round2 (sum_list (map (plLineSubtotal \<circ> lnPriced) ls))
          + round2 (sum_list (map (plTaxAmount \<circ> lnPriced) ls)) - d
          + (case sh of Some h \<Rightarrow> shCost h | None \<Rightarrow> 0))\<rparr>"
    using ok by (auto simp: priceOrder_def Let_def res_eqs split: prod.splits)
  have lok: "lineOk l" if "l \<in> set ls" for l
    using map_res_Inr_set [OF ls that] priceLine_lineOk [OF cat] by blast
  then show "list_all lineOk (poLines r)" by (simp add: r list_all_iff)
  let ?sub = "sum_list (map (plLineSubtotal \<circ> lnPriced) ls)"
  let ?tax = "sum_list (map (plTaxAmount \<circ> lnPriced) ls)"
  let ?ship = "case sh of Some h \<Rightarrow> shCost h | None \<Rightarrow> 0"
  have c: "cents ?sub" "cents ?tax" and nn: "0 \<le> ?sub" "0 \<le> ?tax"
    using lok lineOk_facts by (auto intro!: cents_sum_list sum_list_rat_nonneg)
  have rr: "round2 ?sub = ?sub" "round2 ?tax = ?tax" using c by (simp_all add: round2_cents)
  show "toSubtotal (poTotals r) = sum_list (map (plLineSubtotal \<circ> lnPriced) (poLines r))"
    "toTaxTotal (poTotals r) = sum_list (map (plTaxAmount \<circ> lnPriced) (poLines r))"
    by (simp_all add: r rr)
  have ship: "cents ?ship" "0 \<le> ?ship"
    using sh cat by (auto simp: findShipping_def catalogOk_def list_all_iff dest!: findFirst_SomeD
        split: if_splits option.splits)
  have d: "cents d \<and> 0 \<le> d \<and> d \<le> ?sub + ?tax"
    using small by (intro applyCoupon_discount [OF cat c nn _ cp [unfolded rr]]) (simp add: r rr)
  then show "0 \<le> toDiscountTotal (poTotals r)"
    "toDiscountTotal (poTotals r) \<le> toSubtotal (poTotals r) + toTaxTotal (poTotals r)"
    by (simp_all add: r rr)
  show "0 \<le> toShippingTotal (poTotals r)" using ship by (simp add: r)
  have "cents (?sub + ?tax - d + ?ship)" using c d ship by (intro cents_add cents_diff) simp_all
  then show "toGrandTotal (poTotals r) = toSubtotal (poTotals r) + toTaxTotal (poTotals r)
           - toDiscountTotal (poTotals r) + toShippingTotal (poTotals r)"
    by (simp add: r rr round2_cents)
  show "centsTotals (poTotals r)" using d ship by (simp add: centsTotals_def r)
qed

section \<open>Properties of placing an order\<close>

text \<open>Reserving writes to products and variants only.\<close>

definition sameButStock :: "db \<Rightarrow> db \<Rightarrow> bool" where
  "sameButStock s s' = (tenants s' = tenants s \<and> coupons s' = coupons s \<and> shippings s' = shippings s
     \<and> orders s' = orders s \<and> deliveries s' = deliveries s \<and> grants s' = grants s \<and> outbox s' = outbox s)"

lemma reserveStock_sameButStock: "reserveStock s ls = Inr s' \<Longrightarrow> sameButStock s s'"
proof (induction ls arbitrary: s)
  case (Cons l ls)
  then obtain s1 where s1: "reserveLine s l = Inr s1" "reserveStock s1 ls = Inr s'" by (auto simp: res_eqs)
  have "sameButStock s s1"
    using s1(1) by (auto simp: reserveLine_def takeProduct_def takeVariant_def sameButStock_def Let_def
        split: option.splits if_splits)
  with Cons.IH [OF s1(2)] show ?case by (simp add: sameButStock_def)
qed (simp add: sameButStock_def)

text \<open>What the last steps of \<open>create\<close>, the message, the e-mail and the event, leave alone.\<close>

lemma queueConfirmationEmail_tables [simp]:
  "orders (queueConfirmationEmail e t ord s) = orders s"
  "products (queueConfirmationEmail e t ord s) = products s"
  "variants (queueConfirmationEmail e t ord s) = variants s"
  "coupons (queueConfirmationEmail e t ord s) = coupons s"
  "tenants (queueConfirmationEmail e t ord s) = tenants s"
  by (simp_all add: queueConfirmationEmail_def)

definition messaged :: "string option \<Rightarrow> order \<Rightarrow> order" where
  "messaged msg ord = ord\<lparr>oFulfillmentMessage := msg, oStatus := OrderStatus.CONFIRMED\<rparr>"

lemma dispatchMessageFulfillment_tables:
  assumes "dispatchMessageFulfillment s t ord ls = Inr (s', f)"
  shows "products s' = products s" "variants s' = variants s" "coupons s' = coupons s" "tenants s' = tenants s"
    and "\<exists>msg. orders s' = updateRow oId (oId ord) (messaged msg) (orders s)"
  using assms
  by (auto simp: dispatchMessageFulfillment_def Let_def updateOrder_def messaged_def [abs_def] split: if_splits)

text \<open>What a successful \<open>create\<close> has computed and written.\<close>

lemma createOrder_InrE:
  assumes "createOrder e s tn dto cid = Inr (s', ord, f)"
  obtains t r s1 s2 msg where "checkCreate e s tn dto = Inr t"
    "priceOrder (eNow e) s tn (priceInputOf dto) \<lparr>lenientCoupon = False, onlyPublished = True\<rparr> = Inr r"
    "(if tTracksInventory t \<and> \<not> isDigitalStore t then reserveStock s (map stockLineOf (poLines r)) else Inr s) = Inr s1"
    "(case poCoupon r of Some c \<Rightarrow> redeemCoupon s1 c | None \<Rightarrow> Inr s1) = Inr s2"
    "ord = newOrder e t dto cid r" "fitsColumns ord"
    "products s' = products s1" "variants s' = variants s1" "coupons s1 = coupons s" "coupons s' = coupons s2"
    "tenants s' = tenants s"
    "orders s' = (if messageMethod (coFulfillmentMethod dto)
       then updateRow oId (oId ord) (messaged msg) (orders s @ [ord]) else orders s @ [ord])"
    "rowOf oId (oId ord) (orders s) = None"
proof -
  let ?tail = "\<lambda>t r (s1, ord).
      if messageMethod (coFulfillmentMethod dto)
      then bind_res (dispatchMessageFulfillment s1 t ord (poLines r)) (\<lambda>(s2, f).
        let s3 = queueConfirmationEmail e t ord s2
        in Inr (emit (toOrderEvent order_created (ord\<lparr>oStatus := OrderStatus.CONFIRMED\<rparr>)) s3, ord, f))
      else let s2 = queueConfirmationEmail e t ord s1
        in Inr (emit (toOrderEvent order_created ord) s2, ord, ToPayment (coFulfillmentMethod dto))"
  from assms obtain t r p where
    t: "checkCreate e s tn dto = Inr t" and
    r: "priceOrder (eNow e) s tn (priceInputOf dto) \<lparr>lenientCoupon = False, onlyPublished = True\<rparr> = Inr r" and
    p: "placeOrder e s t dto cid r = Inr p" and tail: "?tail t r p = Inr (s', ord, f)"
    unfolding createOrder_def bind_res_eq_Inr by blast
  from p obtain s1 s2 s3 where
    s1: "(if tTracksInventory t \<and> \<not> isDigitalStore t then reserveStock s (map stockLineOf (poLines r)) else Inr s) = Inr s1" and
    s2: "(case poCoupon r of Some c \<Rightarrow> redeemCoupon s1 c | None \<Rightarrow> Inr s1) = Inr s2" and
    ins: "insertOrder (newOrder e t dto cid r) s2 = Inr s3" and p': "p = (s3, newOrder e t dto cid r)"
    unfolding placeOrder_def bind_res_eq_Inr Let_def by blast
  have ord: "ord = newOrder e t dto cid r"
    using tail by (auto simp: p' Let_def res_eqs split: if_splits)
  note ins = ins [folded ord] ord
  have rest: "s' = emit (toOrderEvent order_created ord) (queueConfirmationEmail e t ord s3) \<and> \<not> messageMethod (coFulfillmentMethod dto)
      \<or> (\<exists>s4. dispatchMessageFulfillment s3 t ord (poLines r) = Inr (s4, f) \<and> messageMethod (coFulfillmentMethod dto) \<and>
         s' = emit (toOrderEvent order_created (ord\<lparr>oStatus := OrderStatus.CONFIRMED\<rparr>)) (queueConfirmationEmail e t ord s4))"
    using tail [unfolded p' ord [symmetric]] by (auto simp: Let_def res_eqs split: if_splits)
  have s3: "s3 = s2\<lparr>orders := orders s2 @ [ord]\<rparr>" "fitsColumns ord" "rowOf oId (oId ord) (orders s2) = None"
    using ins(1) by (auto simp: insertOrder_def list_ex_iff rowOf_None_iff split: if_splits)
  have o1: "orders s1 = orders s" "tenants s1 = tenants s" "coupons s1 = coupons s"
    using s1 by (auto split: if_splits dest!: reserveStock_sameButStock simp: sameButStock_def)
  have o2: "orders s2 = orders s1" "tenants s2 = tenants s1" "products s2 = products s1" "variants s2 = variants s1"
    using s2 by (auto split: option.splits dest: coupons_only)
  from rest show thesis
  proof (elim disjE conjE exE)
    assume "s' = emit (toOrderEvent order_created ord) (queueConfirmationEmail e t ord s3)"
      "\<not> messageMethod (coFulfillmentMethod dto)"
    then show thesis
      using t r s1 s2 ins(2) s3 o1 o2 by (intro that [of t r s1 s2]) simp_all
  next
    fix s4 assume d: "dispatchMessageFulfillment s3 t ord (poLines r) = Inr (s4, f)"
      "messageMethod (coFulfillmentMethod dto)"
      "s' = emit (toOrderEvent order_created (ord\<lparr>oStatus := OrderStatus.CONFIRMED\<rparr>)) (queueConfirmationEmail e t ord s4)"
    obtain msg where "orders s4 = updateRow oId (oId ord) (messaged msg) (orders s3)"
      using dispatchMessageFulfillment_tables(5) [OF d(1)] by blast
    then show thesis
      using t r s1 s2 ins(2) s3 o1 o2 d dispatchMessageFulfillment_tables(1-4) [OF d(1)]
      by (intro that [of t r s1 s2 msg]) simp_all
  qed
qed

subsection \<open>What the customer is charged\<close>

lemma map_newOrderItem:
  assumes "\<And>i l. f (newOrderItem e (i, l)) = h l"
  shows "map f (map (newOrderItem e) (enumerate n ls)) = map h ls"
  using assms by (induction ls arbitrary: n) auto

lemma newOrder_sums:
  "map iTaxAmount (oItems (newOrder e t dto cid r)) = map (plTaxAmount \<circ> lnPriced) (poLines r)"
  "map iLineTotal (oItems (newOrder e t dto cid r)) = map (plLineTotal \<circ> lnPriced) (poLines r)"
  "map (\<lambda>i. iUnitPrice i * of_nat (iQuantity i)) (oItems (newOrder e t dto cid r))
     = map (\<lambda>l. plUnitPrice (lnPriced l) * of_nat (plQuantity (lnPriced l))) (poLines r)"
  unfolding newOrder_def order.simps by (rule map_newOrderItem, simp add: newOrderItem_def Let_def)+

lemma created_order_amounts:
  assumes "catalogOk s" and "createOrder e s tn dto cid = Inr (s', ord, f)"
  shows "totalsExact ord" "fitsColumns ord"
    and "\<forall>i \<in> set (oItems ord). cents (iUnitPrice i) \<and> 0 \<le> iUnitPrice i"
    and "cents (oTaxTotal ord)" "0 \<le> oTaxTotal ord" "cents (oDiscountTotal ord)" "cents (oShippingTotal ord)"
proof -
  obtain t r where r: "priceOrder (eNow e) s tn (priceInputOf dto) \<lparr>lenientCoupon = False, onlyPublished = True\<rparr> = Inr r"
    and ord: "ord = newOrder e t dto cid r" and fits: "fitsColumns ord"
    by (rule createOrder_InrE [OF assms(2)])
  have "\<bar>toSubtotal (poTotals r)\<bar> < 10 ^ 10" "\<bar>toTaxTotal (poTotals r)\<bar> < 10 ^ 10"
    using fits by (simp_all add: fitsColumns_def ord newOrder_def)
  then have "toSubtotal (poTotals r) + toTaxTotal (poTotals r) \<le> 10 ^ 12" by simp
  note tot = priceOrder_totals [OF assms(1) r this]
  have lines: "plLineSubtotal (lnPriced l) = plUnitPrice (lnPriced l) * of_nat (plQuantity (lnPriced l))"
    "plLineTotal (lnPriced l) = plLineSubtotal (lnPriced l) + plTaxAmount (lnPriced l)"
    if "l \<in> set (poLines r)" for l
    using tot(1) that lineOk_facts by (auto simp: list_all_iff)
  have "map (\<lambda>l. plUnitPrice (lnPriced l) * of_nat (plQuantity (lnPriced l))) (poLines r)
      = map (plLineSubtotal \<circ> lnPriced) (poLines r)"
    "map (plLineTotal \<circ> lnPriced) (poLines r)
      = map (\<lambda>l. (plLineSubtotal \<circ> lnPriced) l + (plTaxAmount \<circ> lnPriced) l) (poLines r)"
    using lines by simp_all
  moreover have "sum_list (map (\<lambda>l. (plLineSubtotal \<circ> lnPriced) l + (plTaxAmount \<circ> lnPriced) l) (poLines r))
      = toSubtotal (poTotals r) + toTaxTotal (poTotals r)"
    by (simp only: sum_list_addf tot(2,3))
  ultimately show "totalsExact ord"
    unfolding totalsExact_def ord newOrder_sums
    using tot(4-7) by (simp only: tot(2) [symmetric] tot(3) [symmetric])
      (simp add: newOrder_def)
  show "fitsColumns ord" by (rule fits)
  show "\<forall>i \<in> set (oItems ord). cents (iUnitPrice i) \<and> 0 \<le> iUnitPrice i"
    using tot(1) lineOk_facts(7,8)
    by (auto simp: ord newOrder_def newOrderItem_def Let_def list_all_iff in_set_enumerate_eq)
  have "0 \<le> sum_list (map (plTaxAmount \<circ> lnPriced) (poLines r))"
    using tot(1) lineOk_facts(6) by (intro sum_list_rat_nonneg) (auto simp: list_all_iff)
  then show "cents (oTaxTotal ord)" "0 \<le> oTaxTotal ord" "cents (oDiscountTotal ord)" "cents (oShippingTotal ord)"
    using tot(8) by (simp_all add: centsTotals_def ord newOrder_def tot(3))
qed

text \<open>
  C3: an order is charged what its lines add up to. On a catalogue of whole-cent prices, the order
  \<open>create\<close> stores has as its subtotal the exact sum of unit price times quantity, as its tax the
  sum of the lines' taxes, a discount between nothing and subtotal plus tax, and as its grand total
  subtotal plus tax less the discount plus shipping, with nothing lost to any of the roundings or
  to the floating-point sum the discount is computed from.
\<close>

theorem created_order_totals_exact:
  assumes "catalogOk s" and "createOrder e s tn dto cid = Inr (s', ord, f)"
  shows "totalsExact ord"
  by (rule created_order_amounts(1) [OF assms])

definition basket0 :: CreateOrderDto where
  "basket0 = \<lparr>coCustomerName = ''Ana'', coCustomerEmail = Some ''a@x'', coCustomerPhone = None,
     coItems = [\<lparr>inProductId = ''p1'', inVariantId = None, inQuantity = 2\<rparr>],
     coCouponCode = None, coShippingId = None, coFulfillmentMethod = FulfillmentMethod.STRIPE,
     coShippingAddress = None, coSessionId = None, coPaymentProofUrl = None, coPaymentReference = None\<rparr>"

text \<open>An order of two cups at the sample store, and the state it leaves.\<close>

definition placed0 :: "db \<times> order \<times> Fulfillment" where
  "placed0 = projr (createOrder env0 db0 ''t1'' basket0 None)"

lemma createOrder_placed0: "createOrder env0 db0 ''t1'' basket0 None = Inr (fst placed0, fst (snd placed0), snd (snd placed0))"
proof -
  have "\<not> isl (createOrder env0 db0 ''t1'' basket0 None)" by code_simp
  then show ?thesis by (simp add: placed0_def)
qed

lemma db0_ok: "catalogOk db0" "uniqueStock db0" "stockOk db0"
  by (simp_all add: sample_defs catalogOk_def uniqueStock_def uniqueKeys_def stockOk_def
      cents_of_int [of 10, simplified] cents_def)

theorem created_order_totals_exact_witness:
  "totalsExact (fst (snd placed0))"
  by (rule created_order_totals_exact [OF db0_ok(1) createOrder_placed0])

lemma priceOrder_lenient:
  assumes "priceOrder now s tn input \<lparr>lenientCoupon = False, onlyPublished = pub\<rparr> = Inr r"
  shows "priceOrder now s tn input \<lparr>lenientCoupon = True, onlyPublished = pub\<rparr> = Inr r"
    and "poCouponError r = None"
proof -
  have c: "applyCoupon now s tn \<lparr>lenientCoupon = True, onlyPublished = pub\<rparr> code a b = Inr x \<and> snd (snd x) = None"
    if "applyCoupon now s tn \<lparr>lenientCoupon = False, onlyPublished = pub\<rparr> code a b = Inr x" for code a b x
    using that by (auto simp: applyCoupon_def Let_def split: if_splits option.splits)
  from assms show "priceOrder now s tn input \<lparr>lenientCoupon = True, onlyPublished = pub\<rparr> = Inr r"
    "poCouponError r = None"
    by (auto simp: priceOrder_def Let_def res_eqs dest!: c split: prod.splits)
qed

text \<open>The stock a priced line was read with is the stock of its article.\<close>

lemma priceOrder_lines:
  assumes "priceOrder now s tn input opts = Inr r"
  shows "map_res (priceLine s tn (onlyPublished opts)) (piItems input) = Inr (poLines r)"
  using assms by (auto simp: priceOrder_def Let_def res_eqs split: prod.splits)

lemma priceLine_stock:
  assumes "uniqueStock s" "priceLine s tn pub i = Inr l"
  shows "stockOf s (lineKey (stockLineOf l)) = Some (lineAvailable l)"
    and "skQuantity (stockLineOf l) = inQuantity i" "plQuantity (lnPriced l) = inQuantity i"
    and "lnVariant l \<noteq> None \<longleftrightarrow> truthy (inVariantId i)"
    and "lnProduct l \<in> set (products s)" "\<And>v. lnVariant l = Some v \<Longrightarrow> inVariantId i = Some (vId v)"
proof -
  have p: "lnProduct l \<in> set (products s)" and v: "\<And>v. lnVariant l = Some v \<Longrightarrow> v \<in> set (variants s)"
    and q: "plQuantity (lnPriced l) = inQuantity i"
    using assms(2) by (auto simp: priceLine_def Let_def findProduct_def variantsOf_def priceLineItem_def
        dest!: findFirst_SomeD split: option.splits if_splits)
  then show "lnProduct l \<in> set (products s)" "skQuantity (stockLineOf l) = inQuantity i"
    "plQuantity (lnPriced l) = inQuantity i" by (simp_all add: stockLineOf_def)
  show "stockOf s (lineKey (stockLineOf l)) = Some (lineAvailable l)"
    using assms(1) p v rowOf_unique [of pId "products s"] rowOf_unique [of vId "variants s"]
    by (cases "lnVariant l") (auto simp: lineKey_def stockLineOf_def lineAvailable_def uniqueStock_def)
  show "lnVariant l \<noteq> None \<longleftrightarrow> truthy (inVariantId i)"
    using assms(2) by (auto simp: priceLine_def Let_def split: option.splits if_splits)
  show "inVariantId i = Some (vId v)" if "lnVariant l = Some v" for v
    using assms(2) that by (cases "inVariantId i")
      (auto simp: priceLine_def Let_def dest!: findFirst_SomeD split: option.splits if_splits)
qed

lemma need_ge: "l \<in> set ls \<Longrightarrow> int (skQuantity l) \<le> need ls (lineKey l)"
  by (induction ls) (auto simp: add_increasing add_increasing2)

text \<open>
  C4: the quote and the order cannot drift apart. If \<open>create\<close> accepts a basket, then \<open>quote\<close> of
  the same basket in the same state succeeds with the very totals and currency of the order, no
  coupon error, and, unless the store is digital, no stock warning.
\<close>

theorem quote_shows_what_create_charges:
  assumes "uniqueStock s" and "createOrder e s tn dto cid = Inr (s', ord, f)"
  shows "\<exists>q t. quote (eNow e) s tn (priceInputOf dto) = Inr q \<and> rowOf tId tn (tenants s) = Some t
    \<and> quTotals q = \<lparr>toSubtotal = oSubtotal ord, toTaxTotal = oTaxTotal ord,
        toDiscountTotal = oDiscountTotal ord, toShippingTotal = oShippingTotal ord, toGrandTotal = oGrandTotal ord\<rparr>
    \<and> quCurrency q = oCurrency ord \<and> quCouponError q = None
    \<and> (quCoupon q = None \<longleftrightarrow> oCouponId ord = None)
    \<and> (isDigitalStore t \<or> quStockIssues q = [])"
proof (rule createOrder_InrE [OF assms(2)])
  fix t r s1
  assume t: "checkCreate e s tn dto = Inr t"
    and r: "priceOrder (eNow e) s tn (priceInputOf dto) \<lparr>lenientCoupon = False, onlyPublished = True\<rparr> = Inr r"
    and s1: "(if tTracksInventory t \<and> \<not> isDigitalStore t then reserveStock s (map stockLineOf (poLines r)) else Inr s) = Inr s1"
    and ord: "ord = newOrder e t dto cid r"
  have row: "rowOf tId tn (tenants s) = Some t"
    using t by (auto simp: checkCreate_def res_eqs split: option.splits if_splits)
  have len: "priceOrder (eNow e) s tn (priceInputOf dto) \<lparr>lenientCoupon = True, onlyPublished = True\<rparr> = Inr r"
      "poCouponError r = None"
    using priceOrder_lenient [OF r] by simp_all
  have stock: "\<not> lineAvailable l < int (plQuantity (lnPriced l))"
    if l: "l \<in> set (poLines r)" and tr: "tTracksInventory t" "\<not> isDigitalStore t" for l
  proof -
    obtain i where i: "priceLine s tn True i = Inr l"
      using map_res_Inr_set [OF priceOrder_lines [OF r] l] by auto
    have "\<exists>s'. reserveStock s (map stockLineOf (poLines r)) = Inr s'" using s1 tr by auto
    then have "\<forall>m \<in> set (map stockLineOf (poLines r)). \<exists>q. stockOf s (lineKey m) = Some q
        \<and> need (map stockLineOf (poLines r)) (lineKey m) \<le> q"
      by (simp only: reserveStock_enough [OF assms(1)])
    moreover have "stockLineOf l \<in> set (map stockLineOf (poLines r))" using l by simp
    ultimately have "need (map stockLineOf (poLines r)) (lineKey (stockLineOf l)) \<le> lineAvailable l"
      using priceLine_stock(1) [OF assms(1) i] by auto
    moreover have "int (skQuantity (stockLineOf l)) \<le> need (map stockLineOf (poLines r)) (lineKey (stockLineOf l))"
      using l by (intro need_ge) simp
    ultimately show ?thesis using priceLine_stock(2,3) [OF assms(1) i] by simp
  qed
  show ?thesis
    using stock by (auto simp: quote_def row len ord newOrder_def filter_empty_conv)
qed

theorem quote_shows_what_create_charges_witness:
  "\<exists>q. quote (eNow env0) db0 ''t1'' (priceInputOf basket0) = Inr q \<and> quCouponError q = None
    \<and> toGrandTotal (quTotals q) = oGrandTotal (fst (snd placed0))"
  using quote_shows_what_create_charges [OF db0_ok(2) createOrder_placed0] by force

subsection \<open>What it takes from the shelf\<close>

text \<open>
  The stock check is exact. A basket is reserved exactly when every article it names exists and
  has enough for all the lines that name it taken together; then each count goes down by precisely
  that sum, whatever the order of the lines, and otherwise the whole basket is refused as a conflict.
\<close>

theorem reserveStock_all_or_nothing:
  assumes "uniqueStock s"
  shows "\<exists>msg. reserveStock s ls =
    (if \<forall>l \<in> set ls. \<exists>q. stockOf s (lineKey l) = Some q \<and> need ls (lineKey l) \<le> q
     then Inr (shiftStock (\<lambda>k. - need ls k) s) else Inl (Conflict msg))"
proof (cases "reserveStock s ls")
  case (Inr s')
  then show ?thesis
    using reserveStock_enough [OF assms, of ls] reserveStock_shift [OF assms Inr] by auto
next
  case (Inl err)
  have "\<exists>msg. err = Conflict msg"
    using Inl by (induction ls arbitrary: s)
      (auto simp: bind_res_eq_Inl reserveLine_def Let_def split: if_splits option.splits)
  with Inl reserveStock_enough [OF assms, of ls] show ?thesis by auto
qed

theorem reserveStock_all_or_nothing_witness:
  "\<exists>msg. reserveStock db0 [\<lparr>skProductId = ''p1'', skProductName = ''Cup'', skProductQuantity = 5,
      skVariant = None, skQuantity = 6\<rparr>] = Inl (Conflict msg)"
  using reserveStock_all_or_nothing [OF db0_ok(2), of "[\<lparr>skProductId = ''p1'', skProductName = ''Cup'',
      skProductQuantity = 5, skVariant = None, skQuantity = 6\<rparr>]"]
  by (simp add: lineKey_def sample_defs)

definition idsOk :: "db \<Rightarrow> bool" where
  "idsOk s = (list_all (\<lambda>p. pId p \<noteq> []) (products s) \<and> list_all (\<lambda>v. vId v \<noteq> []) (variants s))"

lemma held_newOrder:
  assumes "uniqueStock s" "idsOk s" "priceOrder now s tn input opts = Inr r"
  shows "held (map stockItemOf (oItems (newOrder e t dto cid r))) k = need (map stockLineOf (poLines r)) k"
proof -
  have key: "itemKey (stockItemOf (newOrderItem e (i, l))) = Some (lineKey (stockLineOf l))"
    if l: "l \<in> set (poLines r)" for i l
  proof -
    obtain x where "priceLine s tn (onlyPublished opts) x = Inr l"
      using map_res_Inr_set [OF priceOrder_lines [OF assms(3)] l] by blast
    note x = priceLine_stock [OF assms(1) this]
    have "pId (lnProduct l) \<noteq> []" using assms(2) x(5) by (auto simp: idsOk_def list_all_iff)
    moreover have "vId v \<noteq> []" if "lnVariant l = Some v" for v using x(4,6) that by auto
    ultimately show ?thesis
      by (auto simp: itemKey_def stockItemOf_def newOrderItem_def Let_def lineKey_def stockLineOf_def
          split: option.splits)
  qed
  have "map (\<lambda>i. if itemKey (stockItemOf i) = Some k then int (siQuantity (stockItemOf i)) else 0)
        (map (newOrderItem e) (enumerate n ls))
      = map (\<lambda>l. if lineKey (stockLineOf l) = k then int (skQuantity (stockLineOf l)) else 0) ls"
    if "set ls \<subseteq> set (poLines r)" for n ls
    using that
  proof (induction ls arbitrary: n)
    case (Cons l ls)
    have "siQuantity (stockItemOf (newOrderItem e (n, l))) = skQuantity (stockLineOf l)"
      by (simp add: stockItemOf_def newOrderItem_def Let_def stockLineOf_def)
    with Cons key [of l n] show ?case by simp
  qed simp
  from this [of "poLines r" 0] show ?thesis
    by (simp add: held_def need_def newOrder_def comp_def)
qed

text \<open>
  An order takes from the shelf exactly what its lines say, and never more than there is. After
  \<open>create\<close> the count of every product and variant is what it was less the quantities of the
  order's lines for it (nothing at a store that does not track inventory or sells files), and
  no count is negative.
\<close>

theorem create_takes_exactly_the_stock:
  assumes "uniqueStock s" "stockOk s" "idsOk s" and "rowOf tId tn (tenants s) = Some t"
    and "createOrder e s tn dto cid = Inr (s', ord, f)"
  shows "stockOk s' \<and> (\<forall>k. stockOf s' k = map_option (\<lambda>q. q -
      (if tTracksInventory t \<and> \<not> isDigitalStore t then held (map stockItemOf (oItems ord)) k else 0)) (stockOf s k))"
proof (rule createOrder_InrE [OF assms(5)])
  fix t' r s1
  assume t: "checkCreate e s tn dto = Inr t'"
    and r: "priceOrder (eNow e) s tn (priceInputOf dto) \<lparr>lenientCoupon = False, onlyPublished = True\<rparr> = Inr r"
    and s1: "(if tTracksInventory t' \<and> \<not> isDigitalStore t' then reserveStock s (map stockLineOf (poLines r)) else Inr s) = Inr s1"
    and ord: "ord = newOrder e t' dto cid r"
    and s': "products s' = products s1" "variants s' = variants s1"
  have t': "t' = t" using t assms(4) by (auto simp: checkCreate_def res_eqs split: option.splits if_splits)
  have same: "stockOk s' = stockOk s1" "stockOf s' k = stockOf s1 k" for k
    by (cases k; simp add: s' stockOk_def)+
  show ?thesis
  proof (cases "tTracksInventory t \<and> \<not> isDigitalStore t")
    case True
    then have res: "reserveStock s (map stockLineOf (poLines r)) = Inr s1" using s1 t' by simp
    then have "s1 = shiftStock (\<lambda>k. - need (map stockLineOf (poLines r)) k) s"
      by (rule reserveStock_shift [OF assms(1)])
    then show ?thesis
      using True reserveStock_stockOk [OF assms(2) res]
      by (simp add: same ord t' held_newOrder [OF assms(1,3) r])
  next
    case False
    then have "s1 = s" using s1 t' by auto
    moreover have "(if tTracksInventory t \<and> \<not> isDigitalStore t then x else 0) = 0" for x :: int
      using False by auto
    ultimately show ?thesis using assms(2) \<open>s1 = s\<close> by (simp only: same diff_zero option.map_ident) simp
  qed
qed

theorem create_takes_exactly_the_stock_witness:
  "stockOf (fst placed0) (OfProduct ''p1'') = Some (5 - held (map stockItemOf (oItems (fst (snd placed0)))) (OfProduct ''p1''))"
proof -
  have "idsOk db0" "rowOf tId ''t1'' (tenants db0) = Some tenant0" by (simp_all add: idsOk_def sample_defs)
  from create_takes_exactly_the_stock [OF db0_ok(2,3) this createOrder_placed0]
  have "stockOf (fst placed0) (OfProduct ''p1'') = map_option (\<lambda>q. q - (if tTracksInventory tenant0 \<and> \<not> isDigitalStore tenant0
      then held (map stockItemOf (oItems (fst (snd placed0)))) (OfProduct ''p1'') else 0)) (stockOf db0 (OfProduct ''p1''))"
    by blast
  moreover have "tTracksInventory tenant0" "\<not> isDigitalStore tenant0" "stockOf db0 (OfProduct ''p1'') = Some 5"
    by (simp_all add: isDigitalStore_def sample_defs)
  ultimately show ?thesis by simp
qed

subsection \<open>What the gateway is asked for\<close>

lemma toMinorUnits_positive:
  assumes "cents a" "0 \<le> a" "a \<le> 10 ^ 12" "upper c \<notin> set ZERO_DECIMAL_CURRENCIES"
  shows "(if a > 0 then rat_of_int (toMinorUnits a c) else 0) = a * 100"
  using toMinorUnits_cents [OF assms] assms(2) by auto

lemma stripe_items_total:
  assumes "\<forall>i \<in> set items. cents (iUnitPrice i) \<and> 0 \<le> iUnitPrice i \<and> iUnitPrice i \<le> 10 ^ 12"
    and "upper c \<notin> set ZERO_DECIMAL_CURRENCIES"
  shows "rat_of_int (sum_list (map (\<lambda>i. int (iQuantity i) * toMinorUnits (iUnitPrice i) c) items))
    = sum_list (map (\<lambda>i. iUnitPrice i * of_nat (iQuantity i)) items) * 100"
  using assms(1)
proof (induction items)
  case (Cons i items)
  then have "rat_of_int (toMinorUnits (iUnitPrice i) c) = iUnitPrice i * 100"
    using toMinorUnits_cents assms(2) by auto
  with Cons show ?case by (simp add: algebra_simps)
qed simp

lemma stripeSessionTotal_exact:
  assumes "totalsExact ord" "fitsColumns ord"
    and "\<forall>i \<in> set (oItems ord). cents (iUnitPrice i) \<and> 0 \<le> iUnitPrice i"
    and "cents (oTaxTotal ord)" "0 \<le> oTaxTotal ord" "cents (oDiscountTotal ord)" "cents (oShippingTotal ord)"
    and "upper (oCurrency ord) \<notin> set ZERO_DECIMAL_CURRENCIES"
  shows "of_int (stripeSessionTotal (checkoutContext tn ord)) = oGrandTotal ord * 100"
proof -
  let ?c = "oCurrency ord"
  have small: "oTaxTotal ord \<le> 10 ^ 12" "oDiscountTotal ord \<le> 10 ^ 12" "oShippingTotal ord \<le> 10 ^ 12"
    "\<forall>i \<in> set (oItems ord). iUnitPrice i \<le> 10 ^ 12"
    using assms(2) by (auto simp: fitsColumns_def list_all_iff)
  have nn: "0 \<le> oDiscountTotal ord" "0 \<le> oShippingTotal ord" using assms(1) by (simp_all add: totalsExact_def)
  note m = toMinorUnits_positive [OF assms(4,5) small(1) assms(8)]
    toMinorUnits_positive [OF assms(6) nn(1) small(2) assms(8)]
    toMinorUnits_positive [OF assms(7) nn(2) small(3) assms(8)]
  have i: "rat_of_int (sum_list (map (\<lambda>i. int (iQuantity i) * toMinorUnits (iUnitPrice i) ?c) (oItems ord)))
    = oSubtotal ord * 100"
    using stripe_items_total [of "oItems ord" ?c] assms(1,3,8) small(4) by (simp add: totalsExact_def)
  have "of_int (stripeSessionTotal (checkoutContext tn ord)) =
      rat_of_int (sum_list (map (\<lambda>i. int (iQuantity i) * toMinorUnits (iUnitPrice i) ?c) (oItems ord)))
      + (if oShippingTotal ord > 0 then rat_of_int (toMinorUnits (oShippingTotal ord) ?c) else 0)
      + (if oTaxTotal ord > 0 then rat_of_int (toMinorUnits (oTaxTotal ord) ?c) else 0)
      - (if oDiscountTotal ord > 0 then rat_of_int (toMinorUnits (oDiscountTotal ord) ?c) else 0)"
    by (simp add: stripeSessionTotal_def stripeLineItems_def stripeAmountOff_def checkoutContext_def Let_def comp_def)
  also have "\<dots> = oGrandTotal ord * 100"
    using assms(1) unfolding i m totalsExact_def by (simp add: algebra_simps)
  finally show ?thesis .
qed

text \<open>
  C5: what the gateway charges is what the order says. For an order \<open>create\<close> has stored, in a
  currency with cents, the amount Stripe computes from the session's line items, the extra lines
  for shipping and tax and the one-off coupon is the order's grand total in cents, exactly.
\<close>

theorem stripe_charges_the_order_total:
  assumes "catalogOk s" and "createOrder e s tn dto cid = Inr (s', ord, f)"
    and "upper (oCurrency ord) \<notin> set ZERO_DECIMAL_CURRENCIES"
  shows "of_int (stripeSessionTotal (checkoutContext tn ord)) = oGrandTotal ord * 100"
  using created_order_amounts [OF assms(1,2)] assms(3) by (intro stripeSessionTotal_exact) auto

theorem stripe_charges_the_order_total_witness:
  "rat_of_int (stripeSessionTotal (checkoutContext ''t1'' (fst (snd placed0)))) = oGrandTotal (fst (snd placed0)) * 100"
proof (rule stripe_charges_the_order_total [OF db0_ok(1) createOrder_placed0])
  have "oCurrency (fst (snd placed0)) = ''USD''" by code_simp
  moreover have "upper ''USD'' \<notin> set ZERO_DECIMAL_CURRENCIES" by code_simp
  ultimately show "upper (oCurrency (fst (snd placed0))) \<notin> set ZERO_DECIMAL_CURRENCIES" by simp
qed

subsection \<open>Coupons\<close>

lemma priceOrder_coupon:
  assumes "priceOrder now s tn input opts = Inr r" "poCoupon r = Some c"
  shows "c \<in> set (coupons s)" "cpTenantId c = tn" "cpIsActive c" "\<not> couponExpired now c" "\<not> couponUsedUp c"
proof -
  obtain sub tax d err where "applyCoupon now s tn opts (piCouponCode input) sub tax = Inr (Some c, d, err)"
    using assms by (auto simp: priceOrder_def Let_def res_eqs split: prod.splits)
  then show "c \<in> set (coupons s)" "cpTenantId c = tn" "cpIsActive c" "\<not> couponExpired now c" "\<not> couponUsedUp c"
    by (auto simp: applyCoupon_def Let_def orderCoupon_def activeCoupon_def couponReason_def
        dest: findFirst_SomeD split: if_splits option.splits)
qed

text \<open>
  A coupon is used once per order and never past its limit. An order that carries a coupon was
  placed with an active, unexpired coupon of its own store that had a use left; \<open>create\<close> counts one
  use on it, on no other coupon, and every count stays between zero and its limit.
\<close>

theorem create_counts_one_use:
  assumes "uniqueKeys cpId (coupons s)" "list_all couponOk (coupons s)"
    and "createOrder e s tn dto cid = Inr (s', ord, f)"
  shows "list_all couponOk (coupons s')
    \<and> (case oCouponId ord of
         None \<Rightarrow> coupons s' = coupons s
       | Some k \<Rightarrow> \<exists>c \<in> set (coupons s). cpId c = k \<and> cpTenantId c = tn \<and> cpIsActive c
           \<and> \<not> couponExpired (eNow e) c \<and> \<not> couponUsedUp c
           \<and> coupons s' = updateRow cpId k (\<lambda>r. r\<lparr>cpUsageCount := cpUsageCount r + 1\<rparr>) (coupons s))"
proof (rule createOrder_InrE [OF assms(3)])
  fix t r s1 s2
  assume r: "priceOrder (eNow e) s tn (priceInputOf dto) \<lparr>lenientCoupon = False, onlyPublished = True\<rparr> = Inr r"
    and s2: "(case poCoupon r of Some c \<Rightarrow> redeemCoupon s1 c | None \<Rightarrow> Inr s1) = Inr s2"
    and ord: "ord = newOrder e t dto cid r"
    and cs: "coupons s1 = coupons s" "coupons s' = coupons s2"
  show ?thesis
  proof (cases "poCoupon r")
    case None
    then show ?thesis using s2 assms(2) cs(1) by (simp add: cs(2) ord newOrder_def)
  next
    case (Some c)
    note c = priceOrder_coupon [OF r Some]
    have row: "rowOf cpId (cpId c) (coupons s1) = Some c" "uniqueKeys cpId (coupons s1)"
      using rowOf_unique [OF assms(1) c(1)] assms(1) by (simp_all add: cs)
    have red: "redeemCoupon s1 c = Inr s2" using s2 Some by simp
    have "list_all couponOk (coupons s2)"
      using couponOk_redeem [OF row _ red] assms(2) by (simp add: cs)
    moreover have "coupons s2 = updateRow cpId (cpId c) (\<lambda>r. r\<lparr>cpUsageCount := cpUsageCount r + 1\<rparr>) (coupons s)"
      using red row by (auto simp: redeemCoupon_limit_read cs split: if_splits)
    moreover have "oCouponId ord = Some (cpId c)" using Some by (simp add: ord newOrder_def)
    ultimately show ?thesis using c by (auto simp: cs(2))
  qed
qed

theorem create_counts_one_use_witness:
  "list_all couponOk (coupons (fst placed0))"
proof -
  have "uniqueKeys cpId (coupons db0)" "list_all couponOk (coupons db0)"
    by (simp_all add: sample_defs uniqueKeys_def couponOk_def)
  from create_counts_one_use [OF this createOrder_placed0] show ?thesis by blast
qed

text \<open>
  A coupon saved with a space around its code can be validated but never redeemed. \<open>create\<close> of
  the coupon keeps the space and \<open>validate\<close> accepts the code as it was entered, but an order trims
  the code first, so no code a customer can send finds the coupon.
\<close>

theorem coupon_with_space_never_redeemed:
  assumes "createCoupon e s tn dto = Inr (s', c)" and "trim (upper (ccCode dto)) \<noteq> upper (ccCode dto)"
    and "cpIsActive c" "\<not> couponExpired now c" "\<not> couponUsedUp c"
  shows "(\<exists>check. validateCoupon now s' tn (ccCode dto) subtotal = Inr check)
    \<and> (\<forall>code. orderCoupon s' tn code \<noteq> Some c)"
proof
  have c: "cpCode c = upper (ccCode dto)" "cpTenantId c = tn" "coupons s' = coupons s @ [c]"
      "\<forall>r \<in> set (coupons s). \<not> (cpTenantId r = tn \<and> cpCode r = upper (ccCode dto))"
    using assms(1) by (auto simp: createCoupon_def Let_def split: if_splits)
  have skip: "findFirst P (t @ [x]) = Some x" if "\<forall>r \<in> set t. \<not> P r" "P x" for P t and x :: coupon
    using that by (induction t) auto
  have "activeCoupon s' tn (upper (ccCode dto)) = Some c"
    unfolding activeCoupon_def c(3) using c assms(3) by (intro skip) auto
  then show "\<exists>check. validateCoupon now s' tn (ccCode dto) subtotal = Inr check"
    using assms(4,5) by (simp add: validateCoupon_def Let_def)
  show "\<forall>code. orderCoupon s' tn code \<noteq> Some c"
  proof (intro allI notI)
    fix code assume "orderCoupon s' tn code = Some c"
    then have "upper (ccCode dto) = upper (trim code)"
      by (auto simp: orderCoupon_def activeCoupon_def c(1) dest: findFirst_SomeD)
    then have "trim (upper (ccCode dto)) = upper (ccCode dto)" by (simp add: trim_upper trim_trim)
    with assms(2) show False by simp
  qed
qed

definition spaceCoupon0 :: CreateCouponDto where
  "spaceCoupon0 = \<lparr>ccCode = ''NEW '', ccName = ''New'', ccDiscountType = PERCENTAGE, ccDiscountValue = 10,
     ccUsageLimit = None, ccExpiresAt = None, ccIsActive = None\<rparr>"

theorem coupon_with_space_never_redeemed_witness:
  "\<exists>s' c. createCoupon env0 db0 ''t1'' spaceCoupon0 = Inr (s', c)
    \<and> (\<exists>check. validateCoupon 0 s' ''t1'' ''NEW '' 100 = Inr check) \<and> (\<forall>code. orderCoupon s' ''t1'' code \<noteq> Some c)"
proof -
  have up: "upper ''NEW '' = ''NEW ''" by code_simp
  have sp: "trim ''NEW '' \<noteq> ''NEW ''" by code_simp
  obtain s' c where sc: "createCoupon env0 db0 ''t1'' spaceCoupon0 = Inr (s', c)"
      "cpIsActive c" "\<not> couponExpired 0 c" "\<not> couponUsedUp c"
    by (auto simp: createCoupon_def spaceCoupon0_def sample_defs Let_def up couponExpired_def couponUsedUp_def)
  have "trim (upper (ccCode spaceCoupon0)) \<noteq> upper (ccCode spaceCoupon0)"
    using sp by (simp add: spaceCoupon0_def up)
  from coupon_with_space_never_redeemed [OF sc(1) this sc(2-4), of 100] sc(1) show ?thesis
    by (auto simp: spaceCoupon0_def)
qed

end
