(* ===== verification/OrderOps.thy ===== *)
theory OrderOps
  imports Orders "HOL-Library.List_Lexorder" "HOL-Library.Word" "HOL-Library.Multiset"
begin

text \<open>
  What happens to an order after it was placed (\<open>orders/orders.service.ts\<close>): the payment proof of a
  Zelle order, the customer's and the merchant's views of orders, the status changes with the refund,
  the revocation and the release of stock and coupon they bring, and hiding. The text order of a
  sorted list is by code point; the database may use another collation.
\<close>

section \<open>Live events\<close>

record StreamUser =
  stId :: uuid
  stImpersonatedBy :: "uuid option"

text \<open>The argument is \<open>None\<close> when a lookup fails: the stream is then kept.\<close>

definition isStreamAllowed :: "db option \<Rightarrow> StreamUser \<Rightarrow> uuid \<Rightarrow> bool" where
  "isStreamAllowed lookup u tenantId =
     (case lookup of
        None \<Rightarrow> True
      | Some s \<Rightarrow>
          let account = rowOf uId (case stImpersonatedBy u of Some a \<Rightarrow> a | None \<Rightarrow> stId u) (users s);
              t = rowOf tId tenantId (tenants s);
              membership = (if truthy (stImpersonatedBy u) then True
                else list_ex (\<lambda>m. tmUserId m = stId u \<and> tmTenantId m = tenantId \<and> tmIsActive m) (members s))
          in case_option False uIsActive account \<and> case_option False tIsActive t \<and> membership)"

section \<open>Payment proof\<close>

record PaymentProofDto =
  ppProofUrl :: string
  ppReference :: "string option"

definition assertAcceptsPaymentProof :: "db \<Rightarrow> uuid \<Rightarrow> uuid \<Rightarrow> order res" where
  "assertAcceptsPaymentProof s tenantId orderId =
     (case tenantOrder s tenantId orderId of
        None \<Rightarrow> Inl (NotFound ''Order not found'')
      | Some ord \<Rightarrow>
          if oFulfillmentMethod ord \<noteq> FulfillmentMethod.ZELLE
          then Inl (BadRequest ''This order is not a Zelle order'')
          else if oPaymentStatus ord = PaymentStatus.PAID
          then Inl (Conflict ''This order has already been paid'')
          else Inr ord)"

text \<open>An omitted reference is \<open>undefined\<close> to Prisma and leaves the column alone.\<close>

definition submitPaymentProof :: "env \<Rightarrow> db \<Rightarrow> uuid \<Rightarrow> uuid \<Rightarrow> PaymentProofDto \<Rightarrow> db res" where
  "submitPaymentProof e s tenantId orderId dto =
     bind_res (assertSafeImageUrl (eParseUrl e) tenantId (Some (ppProofUrl dto)) ''proofUrl'') (\<lambda>_.
     bind_res (assertAcceptsPaymentProof s tenantId orderId) (\<lambda>earlier.
       let change = (\<lambda>r. r\<lparr>oPaymentProofUrl := Some (ppProofUrl dto),
             oPaymentReference := (case ppReference dto of Some x \<Rightarrow> Some x | None \<Rightarrow> oPaymentReference r)\<rparr>);
           s1 = updateOrder orderId change s;
           s2 = (if truthy (oPaymentProofUrl earlier) \<and> oPaymentProofUrl earlier \<noteq> Some (ppProofUrl dto)
                 then deleteUploadedFile (oPaymentProofUrl earlier) tenantId s1 else s1)
       in Inr (emit (toOrderEvent order_status_updated (change earlier)) s2)))"

section \<open>Views\<close>

record PublicItem =
  puItemId :: uuid
  puProductName :: string
  puVariantName :: "string option"
  puQuantity :: nat
  puUnitPrice :: decimal
  puTaxAmount :: decimal
  puLineTotal :: decimal

record PublicOrder =
  puId :: uuid
  puOrderNumber :: string
  puStatus :: OrderStatus
  puPaymentStatus :: PaymentStatus
  puFulfillmentMethod :: FulfillmentMethod
  puCurrency :: string
  puCreatedAt :: time
  puCustomerName :: string
  puCustomerEmail :: "string option"
  puCustomerPhone :: "string option"
  puShippingAddress :: "json option"
  puShipping :: "(string \<times> decimal) option"
  puSubtotal :: decimal
  puTaxTotal :: decimal
  puDiscountTotal :: decimal
  puShippingTotal :: decimal
  puGrandTotal :: decimal
  puItems :: "PublicItem list"

definition findPublic :: "db \<Rightarrow> uuid \<Rightarrow> uuid \<Rightarrow> PublicOrder res" where
  "findPublic s tenantId orderId =
     (case tenantOrder s tenantId orderId of
        None \<Rightarrow> Inl (NotFound ''Order not found'')
      | Some ord \<Rightarrow> Inr
          \<lparr>puId = oId ord, puOrderNumber = oOrderNumber ord, puStatus = oStatus ord,
           puPaymentStatus = oPaymentStatus ord, puFulfillmentMethod = oFulfillmentMethod ord,
           puCurrency = oCurrency ord, puCreatedAt = oCreatedAt ord, puCustomerName = oCustomerName ord,
           puCustomerEmail = oCustomerEmail ord, puCustomerPhone = oCustomerPhone ord,
           puShippingAddress = oShippingAddress ord,
           puShipping = map_option (\<lambda>h. (shName h, shCost h))
             (findFirst (\<lambda>h. Some (shId h) = oShippingId ord) (shippings s)),
           puSubtotal = oSubtotal ord, puTaxTotal = oTaxTotal ord, puDiscountTotal = oDiscountTotal ord,
           puShippingTotal = oShippingTotal ord, puGrandTotal = oGrandTotal ord,
           puItems = map (\<lambda>i. \<lparr>puItemId = iId i, puProductName = iProductName i,
             puVariantName = iVariantName i, puQuantity = iQuantity i, puUnitPrice = iUnitPrice i,
             puTaxAmount = iTaxAmount i, puLineTotal = iLineTotal i\<rparr>) (oItems ord)\<rparr>)"

datatype OrderSortField = ByCreatedAt | ByOrderNumber | ByCustomerName | ByGrandTotal

datatype SortDir = Asc | Desc

record OrderQueryDto =
  oqPagination :: PaginationDto
  oqSortBy :: "OrderSortField option"
  oqSortDir :: "SortDir option"
  oqStatus :: "OrderStatus option"
  oqDateFrom :: "time option"
  oqDateTo :: "time option"

definition buildFilterWhere :: "uuid \<Rightarrow> OrderQueryDto \<Rightarrow> order \<Rightarrow> bool" where
  "buildFilterWhere tenantId query ord =
     (oTenantId ord = tenantId \<and> oHiddenAt ord = None
      \<and> (let q = pgSearch (oqPagination query)
         in truthy q \<longrightarrow> containsInsensitive (the q) (oOrderNumber ord)
              \<or> containsInsensitive (the q) (oCustomerName ord)
              \<or> (case oCustomerEmail ord of Some m \<Rightarrow> containsInsensitive (the q) m | None \<Rightarrow> False))
      \<and> (case oqStatus query of Some st \<Rightarrow> oStatus ord = st | None \<Rightarrow> True)
      \<and> (case oqDateFrom query of Some d \<Rightarrow> d \<le> oCreatedAt ord | None \<Rightarrow> True)
      \<and> (case oqDateTo query of Some d \<Rightarrow> oCreatedAt ord \<le> d | None \<Rightarrow> True))"

text \<open>\<open>orderBy\<close> one key in one direction; rows with equal keys keep the order they come in.\<close>

definition sortDirection :: "SortDir \<Rightarrow> ('r \<Rightarrow> 'k :: linorder) \<Rightarrow> 'r list \<Rightarrow> 'r list" where
  "sortDirection dir key xs = (case dir of Asc \<Rightarrow> sort_key key xs | Desc \<Rightarrow> rev (sort_key key (rev xs)))"

definition sortOrders :: "OrderSortField \<Rightarrow> SortDir \<Rightarrow> order list \<Rightarrow> order list" where
  "sortOrders field dir xs =
     (let ys = sortDirection Desc oId xs
      in case field of
           ByCreatedAt \<Rightarrow> sortDirection dir oCreatedAt ys
         | ByOrderNumber \<Rightarrow> sortDirection dir oOrderNumber ys
         | ByCustomerName \<Rightarrow> sortDirection dir oCustomerName ys
         | ByGrandTotal \<Rightarrow> sortDirection dir oGrandTotal ys)"

definition findAllOrders :: "db \<Rightarrow> uuid \<Rightarrow> OrderQueryDto \<Rightarrow> order PaginatedResult" where
  "findAllOrders s tenantId query =
     paginate (oqPagination query)
       (sortOrders (case_option ByCreatedAt id (oqSortBy query)) (case_option Desc id (oqSortDir query))
          (filter (buildFilterWhere tenantId query) (orders s)))"

definition optText :: "string option \<Rightarrow> cell" where
  "optText x = (case x of Some t \<Rightarrow> CStr t | None \<Rightarrow> CNull)"

definition exportRow :: "order \<Rightarrow> cell list" where
  "exportRow ord =
     [CStr (oOrderNumber ord), CStr (toISOString (oCreatedAt ord)), CStr (oCustomerName ord),
      optText (oCustomerEmail ord), optText (oCustomerPhone ord), CStr (status_text (oStatus ord)),
      CStr (payment_text (oPaymentStatus ord)), CStr (method_text (oFulfillmentMethod ord)),
      CStr (oCurrency ord), CDec (oSubtotal ord), CDec (oTaxTotal ord), CDec (oDiscountTotal ord),
      CDec (oShippingTotal ord), CDec (oGrandTotal ord)]"

definition exportCsv :: "db \<Rightarrow> uuid \<Rightarrow> OrderQueryDto \<Rightarrow> string" where
  "exportCsv s tenantId query =
     toCsv [''Order number'', ''Date'', ''Customer name'', ''Customer email'', ''Customer phone'', ''Status'',
            ''Payment status'', ''Fulfillment method'', ''Currency'', ''Subtotal'', ''Tax'', ''Discount'',
            ''Shipping'', ''Total'']
       (map exportRow (take 20000
          (findMany (buildFilterWhere tenantId query) (\<lambda>ord. - oCreatedAt ord) (orders s))))"

definition findOneOrder :: "env \<Rightarrow> db \<Rightarrow> uuid \<Rightarrow> uuid \<Rightarrow> (order \<times> bool) res" where
  "findOneOrder e s tenantId k =
     (case tenantOrder s tenantId k of
        None \<Rightarrow> Inl (NotFound ''Order not found'')
      | Some ord \<Rightarrow> Inr (ord, eInvoiceExists e tenantId k))"

text \<open>The path is that of the tenant's file of the order.\<close>

definition getInvoiceFile :: "env \<Rightarrow> db \<Rightarrow> uuid \<Rightarrow> uuid \<Rightarrow> ((uuid \<times> uuid) \<times> string) res" where
  "getInvoiceFile e s tenantId k =
     (case tenantOrder s tenantId k of
        None \<Rightarrow> Inl (NotFound ''Order not found'')
      | Some ord \<Rightarrow> if \<not> eInvoiceExists e tenantId k
                    then Inl (NotFound ''Invoice not available for this order yet'')
                    else Inr ((tenantId, k), oOrderNumber ord))"

section \<open>Status changes\<close>

definition isPaidGatewayOrder :: "order \<Rightarrow> bool" where
  "isPaidGatewayOrder ord = (oPaymentStatus ord = PaymentStatus.PAID
     \<and> (oFulfillmentMethod ord = FulfillmentMethod.STRIPE
        \<or> oFulfillmentMethod ord = FulfillmentMethod.MERCADOPAGO
        \<or> oFulfillmentMethod ord = FulfillmentMethod.PAYPAL))"

definition returnsMoney :: "order \<Rightarrow> OrderStatus \<Rightarrow> bool" where
  "returnsMoney ord st = (oPaymentStatus ord = PaymentStatus.PAID
     \<and> (st = OrderStatus.REFUNDED \<or> (st = OrderStatus.CANCELLED \<and> isPaidGatewayOrder ord)))"

text \<open>The columns written: the status, and the payment status when money goes back.\<close>

definition setsRefunded :: "order \<Rightarrow> OrderStatus \<Rightarrow> bool" where
  "setsRefunded ord st =
     ((st = OrderStatus.REFUNDED \<and> oPaymentStatus ord = PaymentStatus.PAID)
      \<or> (st = OrderStatus.CANCELLED \<and> returnsMoney ord st))"

definition statusChange :: "order \<Rightarrow> OrderStatus \<Rightarrow> order \<Rightarrow> order" where
  "statusChange ord st r =
     (if setsRefunded ord st then r\<lparr>oStatus := st, oPaymentStatus := PaymentStatus.REFUNDED\<rparr>
      else r\<lparr>oStatus := st\<rparr>)"

text \<open>The claim: an UPDATE conditional on the status that was read.\<close>

definition claimStatus :: "db \<Rightarrow> uuid \<Rightarrow> order \<Rightarrow> OrderStatus \<Rightarrow> db res" where
  "claimStatus s tenantId ord st =
     (if st \<noteq> oStatus ord
      then let hit = (\<lambda>r. oId r = oId ord \<and> oTenantId r = tenantId \<and> oStatus r = oStatus ord)
           in if countRows hit (orders s) = 0
              then Inl (Conflict ''The order changed while you were editing it; reload and try again'')
              else Inr (s\<lparr>orders := updateMany hit (statusChange ord st) (orders s)\<rparr>)
      else if setsRefunded ord st then Inr (updateOrder (oId ord) (statusChange ord st) s)
      else Inr s)"

text \<open>What cancelling gives back.\<close>

definition freeHeld :: "db \<Rightarrow> uuid \<Rightarrow> order \<Rightarrow> db res" where
  "freeHeld s tenantId ord =
     (case rowOf tId tenantId (tenants s) of
        None \<Rightarrow> Inl RecordNotFound
      | Some t \<Rightarrow>
          let s1 = (if tTracksInventory t then releaseStock (map stockItemOf (oItems ord)) s else s)
          in Inr (if truthy (oCouponId ord) then returnCoupon (oCouponId ord) s1 else s1))"

text \<open>
  \<open>updateStatus\<close> after it has read the order; \<open>ord\<close> may be older than the row the claim finds.
\<close>

definition applyStatus :: "env \<Rightarrow> db \<Rightarrow> uuid \<Rightarrow> order \<Rightarrow> OrderStatus \<Rightarrow> bool \<Rightarrow> db res" where
  "applyStatus e s tenantId ord st canRefund =
     (if terminal ord \<and> st \<noteq> oStatus ord
      then Inl (Conflict (''Order is already '' @ status_text (oStatus ord) @ '' and cannot move to '' @ status_text st))
      else if (returnsMoney ord st \<or> st = OrderStatus.REFUNDED) \<and> \<not> canRefund
      then Inl (Forbidden ''Only the store owner can refund an order'')
      else bind_res (claimStatus s tenantId ord st) (\<lambda>s1.
        let s2 = (if (st = OrderStatus.REFUNDED \<or> st = OrderStatus.CANCELLED) \<and> oPaymentStatus ord = PaymentStatus.PAID
                  then revokeForOrder e s1 (oId ord) (if st = OrderStatus.REFUNDED then ''refunded'' else ''cancelled'')
                  else s1)
        in bind_res (if st = OrderStatus.CANCELLED \<and> oStatus ord \<noteq> OrderStatus.CANCELLED
                     then freeHeld s2 tenantId ord else Inr s2) (\<lambda>s3.
           bind_res (if returnsMoney ord st \<and> oStatus ord \<noteq> st
                     then refundOrderPayment e s3 tenantId ord else Inr s3) (\<lambda>s4.
             case tenantOrder s4 tenantId (oId ord) of
               None \<Rightarrow> Inl (NotFound ''Order not found'')
             | Some updated \<Rightarrow> Inr (emit (toOrderEvent order_status_updated updated) s4)))))"

definition updateStatus :: "env \<Rightarrow> db \<Rightarrow> uuid \<Rightarrow> uuid \<Rightarrow> OrderStatus \<Rightarrow> bool \<Rightarrow> db res" where
  "updateStatus e s tenantId k st canRefund =
     bind_res (findOneOrder e s tenantId k) (\<lambda>(ord, _). applyStatus e s tenantId ord st canRefund)"

section \<open>Hiding\<close>

definition HIDEABLE_ORDER_STATUSES :: "OrderStatus list" where
  "HIDEABLE_ORDER_STATUSES = [OrderStatus.COMPLETED, OrderStatus.CANCELLED, OrderStatus.REFUNDED]"

definition hide :: "env \<Rightarrow> db \<Rightarrow> uuid \<Rightarrow> uuid \<Rightarrow> db res" where
  "hide e s tenantId k =
     bind_res (findOneOrder e s tenantId k) (\<lambda>(ord, _).
       if oStatus ord \<notin> set HIDEABLE_ORDER_STATUSES
       then Inl (Conflict ''Only completed, cancelled or refunded orders can be deleted'')
       else Inr (updateOrder k (\<lambda>r. r\<lparr>oHiddenAt := Some (eNow e)\<rparr>) s))"

section \<open>Order numbers\<close>

text \<open>The date and three random bytes in upper-case hexadecimal.\<close>

definition generateOrderNumber :: "time \<Rightarrow> 8 word list \<Rightarrow> string" where
  "generateOrderNumber now randomBytes =
     ''ORD-'' @ filter (\<lambda>c. c \<noteq> CHR ''-'') (take 10 (toISOString now)) @ ''-''
     @ concat (map (\<lambda>b. [hexDigit (unat b div 16), hexDigit (unat b mod 16)]) randomBytes)"

section \<open>Listing\<close>

lemma insort_key_lex:
  assumes "sorted_wrt (\<lambda>a b. key a < key b \<or> key a = key b \<and> P a b) zs" "\<forall>z \<in> set zs. P y z"
  shows "sorted_wrt (\<lambda>a b. key a < (key b :: 'k :: linorder) \<or> key a = key b \<and> P a b) (insort_key key y zs)"
  using assms
proof (induction zs)
  case (Cons z zs)
  show ?case
  proof (cases "key y \<le> key z")
    case True
    have "\<forall>x \<in> set (z # zs). key y < key x \<or> key y = key x \<and> P y x"
    proof
      fix x assume x: "x \<in> set (z # zs)"
      then have "key z \<le> key x" using Cons.prems(1) by (auto dest: less_imp_le)
      then have "key y < key x \<or> key y = key x" using True by (metis order.trans order.order_iff_strict)
      then show "key y < key x \<or> key y = key x \<and> P y x" using Cons.prems(2) x by blast
    qed
    then show ?thesis using True Cons.prems(1) by simp
  next
    case False
    then show ?thesis using Cons.prems Cons.IH by (auto simp: set_insort_key)
  qed
qed simp

text \<open>A sort is stable: where the key does not tell, the earlier order stands.\<close>

lemma sort_key_lex:
  assumes "sorted_wrt P xs"
  shows "sorted_wrt (\<lambda>a b. key a < (key b :: 'k :: linorder) \<or> key a = key b \<and> P a b) (sort_key key xs)"
  using assms
proof (induction xs)
  case (Cons x xs)
  then show ?case by (simp add: insort_key_lex)
qed simp

definition inOrder :: "SortDir \<Rightarrow> ('r \<Rightarrow> 'k :: linorder) \<Rightarrow> 'r \<Rightarrow> 'r \<Rightarrow> bool" where
  "inOrder dir key a b = (case dir of Asc \<Rightarrow> key a < key b | Desc \<Rightarrow> key b < key a)"

lemma sortDirection_lex:
  assumes "sorted_wrt P xs"
  shows "sorted_wrt (\<lambda>a b. inOrder dir key a b \<or> key a = key b \<and> P a b) (sortDirection dir key xs)"
proof (cases dir)
  case Asc
  then show ?thesis using sort_key_lex [OF assms, of key] by (simp add: sortDirection_def inOrder_def)
next
  case Desc
  have "sorted_wrt (\<lambda>a b. P b a) (rev xs)" using assms by (simp add: sorted_wrt_rev)
  from sort_key_lex [OF this, of key]
  have "sorted_wrt (\<lambda>a b. key b < key a \<or> key a = key b \<and> P a b) (rev (sort_key key (rev xs)))"
    unfolding sorted_wrt_rev by (rule sorted_wrt_mono_rel [rotated]) auto
  then show ?thesis using Desc by (simp add: sortDirection_def inOrder_def)
qed

lemma mset_sortDirection [simp]: "mset (sortDirection dir key xs) = mset xs"
  by (cases dir) (simp_all add: sortDirection_def)

definition listedBefore :: "OrderSortField \<Rightarrow> SortDir \<Rightarrow> order \<Rightarrow> order \<Rightarrow> bool" where
  "listedBefore field dir a b =
     (case field of
        ByCreatedAt \<Rightarrow> inOrder dir oCreatedAt a b \<or> oCreatedAt a = oCreatedAt b \<and> oId b \<le> oId a
      | ByOrderNumber \<Rightarrow> inOrder dir oOrderNumber a b \<or> oOrderNumber a = oOrderNumber b \<and> oId b \<le> oId a
      | ByCustomerName \<Rightarrow> inOrder dir oCustomerName a b \<or> oCustomerName a = oCustomerName b \<and> oId b \<le> oId a
      | ByGrandTotal \<Rightarrow> inOrder dir oGrandTotal a b \<or> oGrandTotal a = oGrandTotal b \<and> oId b \<le> oId a)"

lemma sortOrders_listed: "sorted_wrt (listedBefore field dir) (sortOrders field dir xs)"
proof -
  have ids: "sorted_wrt (\<lambda>a b. oId b \<le> oId a) (sortDirection Desc oId xs)"
    using sortDirection_lex [of "\<lambda>_ _. True" xs Desc oId]
    by (auto simp: inOrder_def intro: sorted_wrt_mono_rel [rotated])
  show ?thesis
    by (cases field) (simp_all add: sortOrders_def Let_def listedBefore_def [abs_def] sortDirection_lex [OF ids])
qed

lemma mset_sortOrders [simp]: "mset (sortOrders field dir xs) = mset xs"
  by (cases field) (simp_all add: sortOrders_def Let_def)

text \<open>
  Paging through the merchant's orders misses none and repeats none. For any filter, field and
  direction, the pages from the first to the last one after the other are the matching, unhidden
  orders of the store, each as often as it is stored, sorted by the field with the id (descending)
  deciding between equal values.
\<close>

theorem order_pages_complete:
  assumes "0 < n"
  shows "\<exists>xs. concat (map (\<lambda>p. prItems (findAllOrders s tn (query\<lparr>oqPagination := \<lparr>pgPage = p, pgLimit = n, pgSearch = x\<rparr>\<rparr>)))
       [1..<prTotalPages (findAllOrders s tn (query\<lparr>oqPagination := \<lparr>pgPage = 1, pgLimit = n, pgSearch = x\<rparr>\<rparr>)) + 1]) = xs
    \<and> mset xs = mset (filter (buildFilterWhere tn (query\<lparr>oqPagination := \<lparr>pgPage = 1, pgLimit = n, pgSearch = x\<rparr>\<rparr>)) (orders s))
    \<and> sorted_wrt (listedBefore (case_option ByCreatedAt id (oqSortBy query)) (case_option Desc id (oqSortDir query))) xs"
proof -
  let ?q = "\<lambda>p. query\<lparr>oqPagination := \<lparr>pgPage = p, pgLimit = n, pgSearch = x\<rparr>\<rparr>"
  let ?rows = "sortOrders (case_option ByCreatedAt id (oqSortBy query)) (case_option Desc id (oqSortDir query))
      (filter (buildFilterWhere tn (?q 1)) (orders s))"
  have w: "buildFilterWhere tn (?q p) = buildFilterWhere tn (?q 1)" for p
    by (rule ext) (simp add: buildFilterWhere_def)
  have page: "findAllOrders s tn (?q p) = paginate \<lparr>pgPage = p, pgLimit = n, pgSearch = x\<rparr> ?rows" for p
    by (simp add: findAllOrders_def w [of p])
  have "prTotalPages (findAllOrders s tn (?q 1)) = totalPages (length ?rows) n"
    unfolding page by (simp add: paginate_def)
  then show ?thesis
    using all_pages [OF assms, of x ?rows] sortOrders_listed by (simp add: page)
qed

definition orderQuery0 :: OrderQueryDto where
  "orderQuery0 = \<lparr>oqPagination = \<lparr>pgPage = 1, pgLimit = 20, pgSearch = None\<rparr>, oqSortBy = None, oqSortDir = None,
     oqStatus = None, oqDateFrom = None, oqDateTo = None\<rparr>"

theorem order_pages_complete_witness:
  "\<exists>xs. concat (map (\<lambda>p. prItems (findAllOrders db0 ''t1'' (orderQuery0\<lparr>oqPagination := \<lparr>pgPage = p, pgLimit = 2, pgSearch = None\<rparr>\<rparr>)))
       [1..<prTotalPages (findAllOrders db0 ''t1'' (orderQuery0\<lparr>oqPagination := \<lparr>pgPage = 1, pgLimit = 2, pgSearch = None\<rparr>\<rparr>)) + 1]) = xs
    \<and> mset xs = mset [order0]"
  using order_pages_complete [where n = 2 and s = db0 and tn = "''t1''" and query = orderQuery0 and x = None]
  by (force simp: buildFilterWhere_def orderQuery0_def sample_defs)

section \<open>Money back\<close>

text \<open>The refunds asked of a provider, in order.\<close>

definition refundsAsked :: "effect list \<Rightarrow> (PaymentProvider \<times> string) list" where
  "refundsAsked xs = List.map_filter (\<lambda>x. case x of RefundCall p r \<Rightarrow> Some (p, r) | _ \<Rightarrow> None) xs"

lemma refundsAsked_simps [simp]:
  "refundsAsked [] = []" "refundsAsked (xs @ ys) = refundsAsked xs @ refundsAsked ys"
  "refundsAsked (RefundCall p r # xs) = (p, r) # refundsAsked xs"
  "refundsAsked (toOrderEvent t ord # xs) = refundsAsked xs"
  by (simp_all add: refundsAsked_def List.map_filter_def toOrderEvent_def)

text \<open>An order paid through a gateway, with the gateway and its name of the payment.\<close>

definition paidThrough :: "order \<Rightarrow> PaymentProvider \<Rightarrow> string \<Rightarrow> bool" where
  "paidThrough ord p r = (r \<noteq> [] \<and> oPaymentStatus ord = PaymentStatus.PAID \<and>
     (p = PaymentProvider.STRIPE \<and> oFulfillmentMethod ord = FulfillmentMethod.STRIPE \<and> oStripePaymentIntentId ord = Some r
      \<or> p = PaymentProvider.PAYPAL \<and> oFulfillmentMethod ord = FulfillmentMethod.PAYPAL \<and> oPaypalCaptureId ord = Some r
      \<or> p = PaymentProvider.MERCADOPAGO \<and> oFulfillmentMethod ord = FulfillmentMethod.MERCADOPAGO
          \<and> oMercadoPagoPaymentId ord = Some r))"

lemma findFirst_updateMany:
  assumes "\<And>r. P (f r) = P r"
  shows "findFirst P (updateMany Q f t) = map_option (\<lambda>r. if Q r then f r else r) (findFirst P t)"
  using assms by (induction t) auto

lemma statusChange_simps [simp]:
  "oId (statusChange ord st r) = oId r" "oTenantId (statusChange ord st r) = oTenantId r"
  "oStatus (statusChange ord st r) = st" "oItems (statusChange ord st r) = oItems r"
  "oCouponId (statusChange ord st r) = oCouponId r"
  "oFulfillmentMethod (statusChange ord st r) = oFulfillmentMethod r"
  "oPaymentStatus (statusChange ord st r) = (if setsRefunded ord st then PaymentStatus.REFUNDED else oPaymentStatus r)"
  by (simp_all add: statusChange_def)

lemma freeHeld_InrD:
  assumes "freeHeld s tn ord = Inr s'"
  shows "orders s' = orders s" "outbox s' = outbox s" "tenants s' = tenants s" "deliveries s' = deliveries s" "grants s' = grants s"
  using assms by (auto simp: freeHeld_def Let_def split: option.splits if_splits)

lemma refundOrderPayment_InrD:
  "refundOrderPayment e s tn ord = Inr s' \<Longrightarrow> s' = s \<or> (\<exists>p q. s' = emit (RefundCall p q) s)"
  by (auto simp: refundOrderPayment_def refundPaymentIntent_def res_eqs split: if_splits option.splits)

lemma refundOrderPayment_asks:
  assumes "refundOrderPayment e s tn ord = Inr s'" "oPaymentStatus ord = PaymentStatus.PAID"
  shows "(\<exists>p r. paidThrough ord p r \<and> s' = emit (RefundCall p r) s) \<or> s' = s \<and> (\<forall>p r. \<not> paidThrough ord p r)"
proof (cases "oFulfillmentMethod ord")
  case STRIPE
  show ?thesis
  proof (cases "truthy (oStripePaymentIntentId ord)")
    case True
    then obtain r where "oStripePaymentIntentId ord = Some r" "r \<noteq> []" by (cases "oStripePaymentIntentId ord") auto
    then show ?thesis using assms STRIPE
      by (simp add: refundOrderPayment_def refundPaymentIntent_def paidThrough_def bind_res_eq_Inr split: option.splits)
  qed (use assms STRIPE in \<open>auto simp: refundOrderPayment_def paidThrough_def\<close>)
next
  case PAYPAL
  show ?thesis
  proof (cases "truthy (oPaypalCaptureId ord)")
    case True
    then obtain r where "oPaypalCaptureId ord = Some r" "r \<noteq> []" by (cases "oPaypalCaptureId ord") auto
    then show ?thesis using assms PAYPAL by (simp add: refundOrderPayment_def paidThrough_def split: option.splits)
  qed (use assms PAYPAL in \<open>auto simp: refundOrderPayment_def paidThrough_def\<close>)
next
  case MERCADOPAGO
  show ?thesis
  proof (cases "truthy (oMercadoPagoPaymentId ord)")
    case True
    then obtain r where "oMercadoPagoPaymentId ord = Some r" "r \<noteq> []" by (cases "oMercadoPagoPaymentId ord") auto
    then show ?thesis using assms MERCADOPAGO by (simp add: refundOrderPayment_def paidThrough_def split: option.splits)
  qed (use assms MERCADOPAGO in \<open>auto simp: refundOrderPayment_def paidThrough_def\<close>)
qed (use assms in \<open>auto simp: refundOrderPayment_def paidThrough_def\<close>)

lemma paidThrough_same: "paidThrough ord p r \<Longrightarrow> paidThrough ord p' r' \<Longrightarrow> p' = p \<and> r' = r"
  by (auto simp: paidThrough_def)

lemma paidThrough_gateway: "paidThrough ord p r \<Longrightarrow> isPaidGatewayOrder ord"
  by (auto simp: paidThrough_def isPaidGatewayOrder_def)

lemma applyStatus_InrE:
  assumes "applyStatus e s tn ord st canRefund = Inr s'"
  obtains s1 s2 s3 s4 updated where "\<not> (terminal ord \<and> st \<noteq> oStatus ord)"
    "\<not> ((returnsMoney ord st \<or> st = OrderStatus.REFUNDED) \<and> \<not> canRefund)"
    "claimStatus s tn ord st = Inr s1"
    "s2 = (if (st = OrderStatus.REFUNDED \<or> st = OrderStatus.CANCELLED) \<and> oPaymentStatus ord = PaymentStatus.PAID
           then revokeForOrder e s1 (oId ord) (if st = OrderStatus.REFUNDED then ''refunded'' else ''cancelled'') else s1)"
    "(if st = OrderStatus.CANCELLED \<and> oStatus ord \<noteq> OrderStatus.CANCELLED then freeHeld s2 tn ord else Inr s2) = Inr s3"
    "(if returnsMoney ord st \<and> oStatus ord \<noteq> st then refundOrderPayment e s3 tn ord else Inr s3) = Inr s4"
    "tenantOrder s4 tn (oId ord) = Some updated" "s' = emit (toOrderEvent order_status_updated updated) s4"
proof -
  from assms have g: "\<not> (terminal ord \<and> st \<noteq> oStatus ord)"
    "\<not> ((returnsMoney ord st \<or> st = OrderStatus.REFUNDED) \<and> \<not> canRefund)"
    unfolding applyStatus_def by (auto split: if_splits)
  let ?s2 = "\<lambda>s1. if (st = OrderStatus.REFUNDED \<or> st = OrderStatus.CANCELLED) \<and> oPaymentStatus ord = PaymentStatus.PAID
           then revokeForOrder e s1 (oId ord) (if st = OrderStatus.REFUNDED then ''refunded'' else ''cancelled'') else s1"
  from assms obtain s1 s3 s4 where c: "claimStatus s tn ord st = Inr s1"
    and s3: "(if st = OrderStatus.CANCELLED \<and> oStatus ord \<noteq> OrderStatus.CANCELLED then freeHeld (?s2 s1) tn ord
              else Inr (?s2 s1)) = Inr s3"
    and s4: "(if returnsMoney ord st \<and> oStatus ord \<noteq> st then refundOrderPayment e s3 tn ord else Inr s3) = Inr s4"
    and last: "(case tenantOrder s4 tn (oId ord) of None \<Rightarrow> Inl (NotFound ''Order not found'')
       | Some updated \<Rightarrow> Inr (emit (toOrderEvent order_status_updated updated) s4)) = Inr s'"
    unfolding applyStatus_def if_not_P [OF g(1)] if_not_P [OF g(2)] bind_res_eq_Inr Let_def by blast
  from last obtain updated where "tenantOrder s4 tn (oId ord) = Some updated"
    "s' = emit (toOrderEvent order_status_updated updated) s4"
    by (auto split: option.splits)
  then show thesis by (rule that [OF g c refl s3 s4])
qed

text \<open>Only the claim writes to the orders.\<close>

lemma applyStatus_orders:
  assumes "claimStatus s tn ord st = Inr s1"
    "s2 = (if (st = OrderStatus.REFUNDED \<or> st = OrderStatus.CANCELLED) \<and> oPaymentStatus ord = PaymentStatus.PAID
           then revokeForOrder e s1 (oId ord) r else s1)"
    "(if st = OrderStatus.CANCELLED \<and> oStatus ord \<noteq> OrderStatus.CANCELLED then freeHeld s2 tn ord else Inr s2) = Inr s3"
    "(if returnsMoney ord st \<and> oStatus ord \<noteq> st then refundOrderPayment e s3 tn ord else Inr s3) = Inr s4"
  shows "orders s4 = orders s1" "tenants s4 = tenants s1" "outbox s3 = outbox s1" "products s4 = products s3"
    "variants s4 = variants s3" "coupons s4 = coupons s3" "products s2 = products s1" "variants s2 = variants s1"
    "coupons s2 = coupons s1" "tenants s2 = tenants s1"
proof -
  have 2: "orders s2 = orders s1" "tenants s2 = tenants s1" "outbox s2 = outbox s1" "products s2 = products s1"
    "variants s2 = variants s1" "coupons s2 = coupons s1"
    using assms(2) by (simp_all add: table_simps)
  then have 3: "orders s3 = orders s1" "tenants s3 = tenants s1" "outbox s3 = outbox s1"
    using assms(3) by (auto split: if_splits dest: freeHeld_InrD)
  moreover have "orders s4 = orders s3 \<and> tenants s4 = tenants s3 \<and> products s4 = products s3
      \<and> variants s4 = variants s3 \<and> coupons s4 = coupons s3"
    using assms(4) by (auto split: if_splits dest!: refundOrderPayment_InrD)
  ultimately show "orders s4 = orders s1" "tenants s4 = tenants s1" "outbox s3 = outbox s1" "products s4 = products s3"
    "variants s4 = variants s3" "coupons s4 = coupons s3" "products s2 = products s1" "variants s2 = variants s1"
    "coupons s2 = coupons s1" "tenants s2 = tenants s1"
    using 2 by simp_all
qed

lemma claimStatus_row:
  assumes "claimStatus s tn ord st = Inr s1" "tenantOrder s tn (oId ord) = Some r" "oStatus r = oStatus ord"
  shows "\<exists>r'. tenantOrder s1 tn (oId ord) = Some r' \<and> oStatus r' = st
    \<and> oPaymentStatus r' = (if setsRefunded ord st then PaymentStatus.REFUNDED else oPaymentStatus r)"
    "outbox s1 = outbox s" "tenants s1 = tenants s" "products s1 = products s" "variants s1 = variants s" "coupons s1 = coupons s"
proof -
  have r: "oId r = oId ord" "oTenantId r = tn" using assms(2) by (auto simp: tenantOrder_def dest: findFirst_SomeD)
  show "outbox s1 = outbox s" "tenants s1 = tenants s" "products s1 = products s" "variants s1 = variants s" "coupons s1 = coupons s"
    using assms(1) by (auto simp: claimStatus_def updateOrder_def Let_def split: if_splits)
  show "\<exists>r'. tenantOrder s1 tn (oId ord) = Some r' \<and> oStatus r' = st
    \<and> oPaymentStatus r' = (if setsRefunded ord st then PaymentStatus.REFUNDED else oPaymentStatus r)"
    using assms r
    by (auto simp: claimStatus_def updateOrder_def updateRow_def Let_def tenantOrder_def findFirst_updateMany split: if_splits)
qed

text \<open>The refunds a status change asks for.\<close>

lemma updateStatus_asks:
  assumes "updateStatus e s tn k st canRefund = Inr s'"
  shows "\<exists>ord ord' asked. tenantOrder s tn k = Some ord \<and> tenantOrder s' tn k = Some ord'
    \<and> refundsAsked (outbox s') = refundsAsked (outbox s) @ asked
    \<and> (asked = [] \<or> (\<exists>p r. asked = [(p, r)] \<and> paidThrough ord p r \<and> canRefund \<and> \<not> terminal ord
         \<and> terminal ord' \<and> oPaymentStatus ord' = PaymentStatus.REFUNDED))
    \<and> (\<forall>p r. paidThrough ord p r \<and> \<not> terminal ord \<and> st \<in> {OrderStatus.CANCELLED, OrderStatus.REFUNDED} \<longrightarrow> asked = [(p, r)])"
proof -
  obtain ord where ord: "tenantOrder s tn k = Some ord" and app: "applyStatus e s tn ord st canRefund = Inr s'"
    using assms by (auto simp: updateStatus_def findOneOrder_def res_eqs split: option.splits)
  have k: "oId ord = k" using ord by (auto simp: tenantOrder_def dest: findFirst_SomeD)
  show ?thesis
  proof (rule applyStatus_InrE [OF app])
    fix s1 s2 s3 s4 updated
    assume g: "\<not> (terminal ord \<and> st \<noteq> oStatus ord)" "\<not> ((returnsMoney ord st \<or> st = OrderStatus.REFUNDED) \<and> \<not> canRefund)"
      and c: "claimStatus s tn ord st = Inr s1"
      and s2: "s2 = (if (st = OrderStatus.REFUNDED \<or> st = OrderStatus.CANCELLED) \<and> oPaymentStatus ord = PaymentStatus.PAID
           then revokeForOrder e s1 (oId ord) (if st = OrderStatus.REFUNDED then ''refunded'' else ''cancelled'') else s1)"
      and s3: "(if st = OrderStatus.CANCELLED \<and> oStatus ord \<noteq> OrderStatus.CANCELLED then freeHeld s2 tn ord else Inr s2) = Inr s3"
      and s4: "(if returnsMoney ord st \<and> oStatus ord \<noteq> st then refundOrderPayment e s3 tn ord else Inr s3) = Inr s4"
      and s': "s' = emit (toOrderEvent order_status_updated updated) s4"
    note fr = applyStatus_orders [OF c s2 s3 s4]
    note row = claimStatus_row [OF c ord [folded k] refl]
    have out: "outbox s3 = outbox s" using fr(3) row(2) by simp
    obtain r' where r': "tenantOrder s1 tn k = Some r'" "oStatus r' = st"
      "oPaymentStatus r' = (if setsRefunded ord st then PaymentStatus.REFUNDED else oPaymentStatus ord)"
      using row(1) k by blast
    have t': "tenantOrder s' tn k = Some r'" using r'(1) fr(1) by (simp add: s' tenantOrder_def)
    show ?thesis
    proof (cases "returnsMoney ord st \<and> oStatus ord \<noteq> st")
      case True
      then have paid: "oPaymentStatus ord = PaymentStatus.PAID" by (simp add: returnsMoney_def)
      have "\<not> terminal ord" "canRefund" "terminal r'" "oPaymentStatus r' = PaymentStatus.REFUNDED"
        using True g r' by (auto simp: returnsMoney_def setsRefunded_def)
      moreover have "refundOrderPayment e s3 tn ord = Inr s4" using s4 True by simp
      ultimately show ?thesis
        using refundOrderPayment_asks [OF _ paid, of e s3 tn s4] ord t' out
        by (auto simp: s' dest: paidThrough_same)
    next
      case False
      have "\<not> (paidThrough ord p r \<and> \<not> terminal ord \<and> st \<in> {OrderStatus.CANCELLED, OrderStatus.REFUNDED})" for p r
        using False paidThrough_gateway [of ord p r] by (auto simp: returnsMoney_def isPaidGatewayOrder_def)
      then show ?thesis using False s4 out ord t' by (auto simp: s')
    qed
  qed
qed

text \<open>
  C14: money goes back once, and only for the owner. A status change asks payment providers for at
  most one refund. It asks only when the caller may refund and the order was still open, was paid,
  and was paid through Stripe, PayPal or MercadoPago, and then it asks that provider to refund the
  payment stored on the order; afterwards the order is cancelled or refunded and its payment is
  marked refunded, so that no later status change can ask again. And it does ask whenever such an
  order is cancelled or refunded.
\<close>

theorem refund_once_by_owner:
  assumes "updateStatus e s tn k st canRefund = Inr s'"
  shows "\<exists>ord ord' asked. tenantOrder s tn k = Some ord \<and> tenantOrder s' tn k = Some ord'
    \<and> refundsAsked (outbox s') = refundsAsked (outbox s) @ asked
    \<and> (asked = [] \<or> (\<exists>p r. asked = [(p, r)] \<and> paidThrough ord p r \<and> canRefund \<and> \<not> terminal ord
         \<and> terminal ord' \<and> oPaymentStatus ord' = PaymentStatus.REFUNDED))
    \<and> (\<forall>p r. paidThrough ord p r \<and> \<not> terminal ord \<and> st \<in> {OrderStatus.CANCELLED, OrderStatus.REFUNDED} \<longrightarrow> asked = [(p, r)])"
  using assms by (rule updateStatus_asks)

definition paidOrder0 :: order where
  "paidOrder0 = order0\<lparr>oPaymentStatus := PaymentStatus.PAID, oStripePaymentIntentId := Some ''pi_1''\<rparr>"

theorem refund_once_by_owner_witness:
  "\<exists>s'. updateStatus env0 (db0\<lparr>orders := [paidOrder0]\<rparr>) ''t1'' ''o1'' OrderStatus.REFUNDED True = Inr s'
    \<and> refundsAsked (outbox s') = [(PaymentProvider.STRIPE, ''pi_1'')]"
proof -
  let ?s = "db0\<lparr>orders := [paidOrder0]\<rparr>"
  have "\<not> isl (updateStatus env0 ?s ''t1'' ''o1'' OrderStatus.REFUNDED True)" by code_simp
  then obtain s' where s': "updateStatus env0 ?s ''t1'' ''o1'' OrderStatus.REFUNDED True = Inr s'"
    by (cases "updateStatus env0 ?s ''t1'' ''o1'' OrderStatus.REFUNDED True") auto
  have o0: "tenantOrder ?s ''t1'' ''o1'' = Some paidOrder0" "refundsAsked (outbox ?s) = []"
    "paidThrough paidOrder0 PaymentProvider.STRIPE ''pi_1''" "\<not> terminal paidOrder0"
    by (simp_all add: tenantOrder_def paidOrder0_def paidThrough_def sample_defs)
  from refund_once_by_owner [OF s'] o0 have "refundsAsked (outbox s') = [(PaymentProvider.STRIPE, ''pi_1'')]"
    by auto
  with s' show ?thesis by blast
qed

end
