(* ===== verification/Sweep.thy ===== *)
theory Sweep
  imports OrderOps
begin

text \<open>
  The stale-orders sweep (\<open>queue/processors/stale-orders.processor.ts\<close>): unpaid gateway orders older
  than two hours are cancelled and what they held is given back. The list is read first and each
  order is cancelled in a transaction of its own, so a payment may come between: \<open>expireOrder\<close> is
  that transaction, on whatever state it finds.
\<close>

definition STALE_ORDER_TTL_MS :: int where
  "STALE_ORDER_TTL_MS = 2 * 60 * 60 * 1000"

definition isStale :: "time \<Rightarrow> order \<Rightarrow> bool" where
  "isStale now ord =
     (oFulfillmentMethod ord \<in> {FulfillmentMethod.STRIPE, FulfillmentMethod.MERCADOPAGO, FulfillmentMethod.PAYPAL}
      \<and> oStatus ord = OrderStatus.PENDING \<and> oPaymentStatus ord = PaymentStatus.PENDING
      \<and> oCreatedAt ord < now - STALE_ORDER_TTL_MS)"

definition staleOrders :: "time \<Rightarrow> db \<Rightarrow> (uuid \<times> uuid) list" where
  "staleOrders now s = map (\<lambda>ord. (oId ord, oTenantId ord)) (take 500 (filter (isStale now) (orders s)))"

text \<open>The transaction of one order; a row-level policy limits it to the store's own rows.\<close>

definition expireOrder :: "db \<Rightarrow> uuid \<times> uuid \<Rightarrow> (db \<times> nat) res" where
  "expireOrder s kt =
     (let k = fst kt; tenantId = snd kt;
          hit = (\<lambda>r. oId r = k \<and> oTenantId r = tenantId \<and> oStatus r = OrderStatus.PENDING
                      \<and> oPaymentStatus r = PaymentStatus.PENDING)
      in if countRows hit (orders s) = 0 then Inr (s, 0)
         else let s1 = s\<lparr>orders := updateMany hit (\<lambda>r. r\<lparr>oStatus := OrderStatus.CANCELLED\<rparr>) (orders s)\<rparr>
              in case (tenantOrder s1 tenantId k, rowOf tId tenantId (tenants s1)) of
                   (Some ord, Some t) \<Rightarrow>
                     let s2 = (if tTracksInventory t \<and> tCatalogType t \<noteq> DIGITAL
                               then releaseStock (map stockItemOf (oItems ord)) s1 else s1)
                     in Inr (if truthy (oCouponId ord) then returnCoupon (oCouponId ord) s2 else s2, 1)
                 | _ \<Rightarrow> Inl RecordNotFound)"

text \<open>The job: an order whose transaction fails is logged and left for the next run.\<close>

definition sweepOne :: "uuid \<times> uuid \<Rightarrow> db \<Rightarrow> db" where
  "sweepOne kt s = (case expireOrder s kt of Inl _ \<Rightarrow> s | Inr (s', _) \<Rightarrow> s')"

definition processStaleOrders :: "time \<Rightarrow> db \<Rightarrow> db" where
  "processStaleOrders now s = fold sweepOne (staleOrders now s) s"

end
