(* ===== verification/OrderEdit.thy ===== *)
theory OrderEdit
  imports OrderOps "HOL-Library.Multiset"
begin

text \<open>
  The merchant's correction of an open order (\<open>updateDetails\<close>, \<open>reprice\<close> and
  \<open>applyItemChanges\<close> in \<open>orders/orders.service.ts\<close>): the new lines and totals are worked out
  without writing, then the lines are written and stock is moved by the difference. The JSON null
  written when an order becomes a pick-up reads as null, like a missing address, and is modelled so.
\<close>

section \<open>Repricing\<close>

text \<open>A field that may be omitted or null is an option of an option.\<close>

record UpdateOrderDto =
  uoCustomerName :: "string option"
  uoCustomerEmail :: "string option option"
  uoCustomerPhone :: "string option option"
  uoShippingAddress :: "(string \<times> json) list option"
  uoItems :: "OrderItemInput list option"
  uoShippingId :: "uuid option option"
  uoPaymentStatus :: "PaymentStatus option"

definition keyOf :: "uuid option \<Rightarrow> uuid option \<Rightarrow> string" where
  "keyOf productId variantId =
     (case productId of Some p \<Rightarrow> p | None \<Rightarrow> ''null'') @ ''|'' @ (case variantId of Some v \<Rightarrow> v | None \<Rightarrow> [])"

definition itemKeyOf :: "orderItem \<Rightarrow> string" where
  "itemKeyOf i = keyOf (iProductId i) (iVariantId i)"

text \<open>\<open>new Map(...)\<close> keeps the last entry of a key.\<close>

definition existingItem :: "order \<Rightarrow> string \<Rightarrow> orderItem option" where
  "existingItem ord key = findFirst (\<lambda>i. itemKeyOf i = key) (rev (oItems ord))"

record WantedItem =
  wiProductId :: "uuid option"
  wiVariantId :: "uuid option"
  wiQuantity :: nat

definition wantedKey :: "WantedItem \<Rightarrow> string" where
  "wantedKey w = keyOf (wiProductId w) (wiVariantId w)"

text \<open>A map in insertion order; a repeated key adds to the quantity of the first.\<close>

fun addWanted :: "WantedItem \<Rightarrow> WantedItem list \<Rightarrow> WantedItem list" where
  "addWanted w [] = [w]"
| "addWanted w (x # xs) =
     (if wantedKey x = wantedKey w then x\<lparr>wiQuantity := wiQuantity x + wiQuantity w\<rparr> # xs
      else x # addWanted w xs)"

definition wantedItems :: "order \<Rightarrow> OrderItemInput list option \<Rightarrow> WantedItem list" where
  "wantedItems ord items =
     (let asked = (case items of
            Some xs \<Rightarrow> map (\<lambda>i. \<lparr>wiProductId = Some (inProductId i), wiVariantId = inVariantId i, wiQuantity = inQuantity i\<rparr>) xs
          | None \<Rightarrow> map (\<lambda>i. \<lparr>wiProductId = iProductId i, wiVariantId = iVariantId i, wiQuantity = iQuantity i\<rparr>) (oItems ord))
      in fold addWanted asked [])"

record EditLine =
  elKey :: string
  elExisting :: "orderItem option"
  elNewLine :: "(product \<times> variant option) option"
  elPriced :: PricedLine
  elQuantity :: nat

definition editLine :: "db \<Rightarrow> uuid \<Rightarrow> order \<Rightarrow> WantedItem \<Rightarrow> EditLine res" where
  "editLine s tenantId ord w =
     (let key = wantedKey w
      in case existingItem ord key of
           Some ex \<Rightarrow>
             let rates = map (\<lambda>t. \<lparr>txName = taName t, txRate = taRate t\<rparr>) (iTaxBreakdown ex)
             in Inr \<lparr>elKey = key, elExisting = Some ex, elNewLine = None,
                     elPriced = priceLineItem (iUnitPrice ex) (wiQuantity w) rates, elQuantity = wiQuantity w\<rparr>
         | None \<Rightarrow>
             (case findFirst (\<lambda>p. Some (pId p) = wiProductId w \<and> pTenantId p = tenantId) (products s) of
                None \<Rightarrow> Inl (BadRequest (''Product '' @ (case wiProductId w of Some p \<Rightarrow> p | None \<Rightarrow> ''null'') @ '' not found''))
              | Some p \<Rightarrow>
                  let vr = (if truthy (wiVariantId w)
                            then findFirst (\<lambda>v. vId v = the (wiVariantId w)) (variantsOf s p) else None)
                  in if truthy (wiVariantId w) \<and> vr = None
                     then Inl (BadRequest (''Variant '' @ the (wiVariantId w) @ '' not found''))
                     else Inr \<lparr>elKey = key, elExisting = None, elNewLine = Some (p, vr),
                               elPriced = priceLineItem (case vr of Some v \<Rightarrow> vPrice v | None \<Rightarrow> pPrice p)
                                 (wiQuantity w) (map taxLine (pTaxes p)),
                               elQuantity = wiQuantity w\<rparr>))"

record Repriced =
  rpLines :: "EditLine list"
  rpRemoved :: "orderItem list"
  rpTotals :: OrderTotals
  rpShippingId :: "uuid option option" \<comment> \<open>\<open>orderFields\<close>: the new shipping option, if it is written\<close>

text \<open>The coupon the order was placed with, applied to the new amount without checking it again.\<close>

definition repriceDiscount :: "db \<Rightarrow> uuid \<Rightarrow> order \<Rightarrow> decimal \<Rightarrow> decimal \<Rightarrow> decimal" where
  "repriceDiscount s tenantId ord subtotal taxTotal =
     (if truthy (oCouponId ord)
      then case findFirst (\<lambda>c. Some (cpId c) = oCouponId ord \<and> cpTenantId c = tenantId) (coupons s) of
             Some c \<Rightarrow> applyCouponDiscount (js_add subtotal taxTotal) (cpDiscountType c) (cpDiscountValue c)
           | None \<Rightarrow> oDiscountTotal ord
      else oDiscountTotal ord)"

definition repriceShipping :: "db \<Rightarrow> uuid \<Rightarrow> order \<Rightarrow> uuid option option \<Rightarrow> decimal res" where
  "repriceShipping s tenantId ord shippingId =
     (case shippingId of
        None \<Rightarrow> Inr (oShippingTotal ord)
      | Some None \<Rightarrow> Inr 0
      | Some (Some k) \<Rightarrow>
          (case findFirst (\<lambda>h. shId h = k \<and> shTenantId h = tenantId) (shippings s) of
             None \<Rightarrow> Inl (BadRequest ''Invalid shipping option'')
           | Some h \<Rightarrow> Inr (shCost h)))"

definition reprice ::
    "db \<Rightarrow> uuid \<Rightarrow> order \<Rightarrow> OrderItemInput list option \<Rightarrow> uuid option option \<Rightarrow> Repriced res" where
  "reprice s tenantId ord items shippingId =
     (let wanted = wantedItems ord items
      in bind_res (map_res (editLine s tenantId ord) wanted) (\<lambda>ls.
           let subtotal = round2 (sum_list (map (plLineSubtotal \<circ> elPriced) ls));
               taxTotal = round2 (sum_list (map (plTaxAmount \<circ> elPriced) ls));
               discountTotal = repriceDiscount s tenantId ord subtotal taxTotal
           in bind_res (repriceShipping s tenantId ord shippingId) (\<lambda>shippingTotal.
                Inr \<lparr>rpLines = ls,
                     rpRemoved = filter (\<lambda>i. itemKeyOf i \<notin> wantedKey ` set wanted) (oItems ord),
                     rpTotals = \<lparr>toSubtotal = subtotal, toTaxTotal = taxTotal, toDiscountTotal = discountTotal,
                       toShippingTotal = shippingTotal,
                       toGrandTotal = round2 (subtotal + taxTotal - discountTotal + shippingTotal)\<rparr>,
                     rpShippingId = shippingId\<rparr>)))"

section \<open>Writing the lines\<close>

text \<open>A stock line for a line already on the order; nothing when its article was deleted since.\<close>

definition stockLine :: "db \<Rightarrow> uuid option \<Rightarrow> uuid option \<Rightarrow> nat \<Rightarrow> StockLine option" where
  "stockLine s productId variantId quantity =
     (if truthy variantId
      then case rowOf vId (the variantId) (variants s) of
             None \<Rightarrow> None
           | Some v \<Rightarrow> map_option (\<lambda>p. \<lparr>skProductId = pId p, skProductName = pName p, skProductQuantity = pQuantity p,
               skVariant = Some (vId v, vName v, vQuantity v), skQuantity = quantity\<rparr>)
               (rowOf pId (vProductId v) (products s))
      else if \<not> truthy productId then None
      else map_option (\<lambda>p. \<lparr>skProductId = pId p, skProductName = pName p, skProductQuantity = pQuantity p,
             skVariant = None, skQuantity = quantity\<rparr>) (rowOf pId (the productId) (products s)))"

definition lineRow :: "EditLine \<Rightarrow> orderItem \<Rightarrow> orderItem" where
  "lineRow l i = i\<lparr>iQuantity := elQuantity l, iTaxAmount := plTaxAmount (elPriced l),
     iLineTotal := plLineTotal (elPriced l), iTaxBreakdown := plTaxBreakdown (elPriced l)\<rparr>"

definition newLineItem :: "env \<Rightarrow> nat \<Rightarrow> EditLine \<Rightarrow> product \<Rightarrow> variant option \<Rightarrow> orderItem" where
  "newLineItem e n l p vr =
     \<lparr>iId = eFresh e n, iProductId = Some (pId p), iProductName = pName p, iVariantId = map_option vId vr,
      iVariantName = map_option vName vr,
      iSku = (case vr of Some v \<Rightarrow> (case vSku v of Some k \<Rightarrow> Some k | None \<Rightarrow> pSku p) | None \<Rightarrow> pSku p),
      iUnitPrice = plUnitPrice (elPriced l), iQuantity = elQuantity l, iTaxAmount = plTaxAmount (elPriced l),
      iLineTotal = plLineTotal (elPriced l), iTaxBreakdown = plTaxBreakdown (elPriced l)\<rparr>"

type_synonym itemChanges = "orderItem list \<times> StockLine list \<times> StockItem list"

definition applyLine :: "env \<Rightarrow> db \<Rightarrow> nat \<times> EditLine \<Rightarrow> itemChanges \<Rightarrow> itemChanges" where
  "applyLine e s nl acc =
     (case acc of (items, toReserve, toRelease) \<Rightarrow>
        let l = snd nl
        in case elExisting l of
             Some ex \<Rightarrow>
               if elQuantity l = iQuantity ex then acc
               else let items' = updateRow iId (iId ex) (lineRow l) items
                    in if elQuantity l > iQuantity ex
                       then (items',
                             toReserve @ (case stockLine s (iProductId ex) (iVariantId ex) (elQuantity l - iQuantity ex) of
                                            Some x \<Rightarrow> [x] | None \<Rightarrow> []),
                             toRelease)
                       else (items', toReserve,
                             toRelease @ [\<lparr>siProductId = iProductId ex, siVariantId = iVariantId ex,
                                           siQuantity = iQuantity ex - elQuantity l\<rparr>])
           | None \<Rightarrow>
               (case elNewLine l of
                  Some (p, vr) \<Rightarrow>
                    (items @ [newLineItem e (fst nl) l p vr],
                     toReserve @ [stockLineOf \<lparr>lnProduct = p, lnVariant = vr, lnPriced = elPriced l\<rparr>],
                     toRelease)
                | None \<Rightarrow> acc))"

definition applyItemChanges :: "env \<Rightarrow> db \<Rightarrow> order \<Rightarrow> Repriced \<Rightarrow> bool \<Rightarrow> db res" where
  "applyItemChanges e s ord repriced tracksInventory =
     (case fold (applyLine e s) (enumerate 0 (rpLines repriced)) (oItems ord, [], []) of
        (items, toReserve, toRelease) \<Rightarrow>
          let items' = filter (\<lambda>i. iId i \<notin> iId ` set (rpRemoved repriced)) items;
              s1 = updateOrder (oId ord) (\<lambda>r. r\<lparr>oItems := items'\<rparr>) s
          in if tracksInventory
             then bind_res (reserveStock s1 toReserve) (\<lambda>s2.
                    Inr (releaseStock (toRelease @ map stockItemOf (rpRemoved repriced)) s2))
             else Inr s1)"

section \<open>The edit\<close>

definition contactChanges :: "UpdateOrderDto \<Rightarrow> order \<Rightarrow> order" where
  "contactChanges dto r = r\<lparr>
     oCustomerName := case_option (oCustomerName r) id (uoCustomerName dto),
     oCustomerEmail := case_option (oCustomerEmail r) id (uoCustomerEmail dto),
     oCustomerPhone := case_option (oCustomerPhone r) id (uoCustomerPhone dto)\<rparr>"

definition mergeAddress :: "json option \<Rightarrow> (string \<times> json) list \<Rightarrow> json" where
  "mergeAddress stored change =
     JObj (spread (case stored of Some (JObj old) \<Rightarrow> old | _ \<Rightarrow> []) change)"

definition addressChange :: "UpdateOrderDto \<Rightarrow> order \<Rightarrow> order" where
  "addressChange dto r =
     (if uoShippingId dto = Some None then r\<lparr>oShippingAddress := None\<rparr>
      else case uoShippingAddress dto of
             Some change \<Rightarrow> r\<lparr>oShippingAddress := Some (mergeAddress (oShippingAddress r) change)\<rparr>
           | None \<Rightarrow> r)"

definition totalsChange :: "Repriced \<Rightarrow> order \<Rightarrow> order" where
  "totalsChange rp r = r\<lparr>oSubtotal := toSubtotal (rpTotals rp), oTaxTotal := toTaxTotal (rpTotals rp),
     oDiscountTotal := toDiscountTotal (rpTotals rp), oShippingTotal := toShippingTotal (rpTotals rp),
     oGrandTotal := toGrandTotal (rpTotals rp),
     oShippingId := case_option (oShippingId r) id (rpShippingId rp)\<rparr>"

text \<open>\<open>isGateway\<close>, as the edit computes it.\<close>

definition isGateway :: "order \<Rightarrow> bool" where
  "isGateway ord = (oFulfillmentMethod ord = FulfillmentMethod.STRIPE
     \<or> oFulfillmentMethod ord = FulfillmentMethod.MERCADOPAGO)"

definition paymentChange :: "UpdateOrderDto \<Rightarrow> order \<Rightarrow> PaymentStatus res" where
  "paymentChange dto ord =
     (case uoPaymentStatus dto of
        None \<Rightarrow> Inr (oPaymentStatus ord)
      | Some ps \<Rightarrow>
          if ps \<noteq> oPaymentStatus ord \<and> isGateway ord
          then Inl (Conflict ''Payment status of a card order is set by the payment provider'')
          else Inr ps)"

text \<open>
  The part for items and shipping: the state with the lines written and what else the row is to get,
  with whether the grand total changed.
\<close>

definition editItems ::
    "env \<Rightarrow> db \<Rightarrow> uuid \<Rightarrow> order \<Rightarrow> UpdateOrderDto \<Rightarrow> (db \<times> (order \<Rightarrow> order) \<times> bool) res" where
  "editItems e s tenantId ord dto =
     (if uoItems dto = None \<and> uoShippingId dto = None then Inr (s, id, False)
      else bind_res (reprice s tenantId ord (uoItems dto) (uoShippingId dto)) (\<lambda>rp.
        let totalsChanged = toGrandTotal (rpTotals rp) \<noteq> oGrandTotal ord
        in if isGateway ord \<and> oPaymentStatus ord = PaymentStatus.PAID \<and> totalsChanged
           then Inl (Conflict ''This order was paid by card; its items and shipping can no longer change'')
           else case rowOf tId tenantId (tenants s) of
                  None \<Rightarrow> Inl RecordNotFound
                | Some t \<Rightarrow> bind_res (applyItemChanges e s ord rp (tTracksInventory t)) (\<lambda>s1.
                              Inr (s1, totalsChange rp, totalsChanged))))"

definition updateDetails :: "env \<Rightarrow> db \<Rightarrow> uuid \<Rightarrow> uuid \<Rightarrow> UpdateOrderDto \<Rightarrow> db res" where
  "updateDetails e s tenantId k dto =
     bind_res (findOneOrder e s tenantId k) (\<lambda>(ord, _).
       if terminal ord
       then Inl (Conflict (''Order is '' @ status_text (oStatus ord) @ '' and can no longer be edited''))
       else bind_res (paymentChange dto ord) (\<lambda>payment.
         bind_res (editItems e s tenantId ord dto) (\<lambda>(s1, totals, totalsChanged).
           let change = (\<lambda>r. (totals (addressChange dto (contactChanges dto r)))\<lparr>oPaymentStatus := payment\<rparr>);
               s2 = updateOrder k change s1;
               s3 = (if totalsChanged \<and> eInvoiceExists e tenantId k then requeueInvoice tenantId k s2 else s2)
           in case tenantOrder s2 tenantId k of
                None \<Rightarrow> Inl RecordNotFound
              | Some updated \<Rightarrow> Inr (emit (toOrderEvent order_status_updated updated) s3))))"

section \<open>What the edit writes\<close>

text \<open>The row of a line once it is written, and what the line reserves and releases.\<close>

definition itemOfLine :: "env \<Rightarrow> nat \<times> EditLine \<Rightarrow> orderItem" where
  "itemOfLine e nl = (case elExisting (snd nl) of
     Some ex \<Rightarrow> if elQuantity (snd nl) = iQuantity ex then ex else lineRow (snd nl) ex
   | None \<Rightarrow> (case the (elNewLine (snd nl)) of (p, vr) \<Rightarrow> newLineItem e (fst nl) (snd nl) p vr))"

definition reserves :: "db \<Rightarrow> EditLine \<Rightarrow> StockLine list" where
  "reserves s l = (case elExisting l of
     Some ex \<Rightarrow> if elQuantity l > iQuantity ex
               then (case stockLine s (iProductId ex) (iVariantId ex) (elQuantity l - iQuantity ex) of
                       Some x \<Rightarrow> [x] | None \<Rightarrow> []) else []
   | None \<Rightarrow> (case elNewLine l of
       Some (p, vr) \<Rightarrow> [stockLineOf \<lparr>lnProduct = p, lnVariant = vr, lnPriced = elPriced l\<rparr>] | None \<Rightarrow> []))"

definition releases :: "EditLine \<Rightarrow> StockItem list" where
  "releases l = (case elExisting l of
     Some ex \<Rightarrow> if elQuantity l < iQuantity ex
               then [\<lparr>siProductId = iProductId ex, siVariantId = iVariantId ex,
                      siQuantity = iQuantity ex - elQuantity l\<rparr>] else []
   | None \<Rightarrow> [])"

definition existingLines :: "EditLine list \<Rightarrow> orderItem list" where
  "existingLines ls = List.map_filter elExisting ls"

lemma existingLines_simps [simp]:
  "existingLines [] = []"
  "existingLines (l # ls) = (case elExisting l of Some x \<Rightarrow> x # existingLines ls | None \<Rightarrow> existingLines ls)"
  by (simp_all add: existingLines_def List.map_filter_simps split: option.split)

lemma applyLine_moves:
  "snd (applyLine e s nl (items, res, rel)) = (res @ reserves s (snd nl), rel @ releases (snd nl))"
  by (auto simp: applyLine_def reserves_def releases_def Let_def split: option.splits)

lemma fold_applyLine_moves:
  "snd (fold (applyLine e s) nls (items, res, rel))
     = (res @ concat (map (reserves s \<circ> snd) nls), rel @ concat (map (releases \<circ> snd) nls))"
proof (induction nls arbitrary: items res rel)
  case (Cons nl nls)
  obtain i r q where a: "applyLine e s nl (items, res, rel) = (i, r, q)"
    by (cases "applyLine e s nl (items, res, rel)")
  then show ?case using Cons.IH [of i r q] applyLine_moves [of e s nl items res rel] by simp
qed simp

text \<open>A line has a row to change, one of its own, or an article to add with a fresh id.\<close>

definition writable :: "env \<Rightarrow> orderItem list \<Rightarrow> (nat \<times> EditLine) list \<Rightarrow> bool" where
  "writable e items nls =
     (distinct (map iId items) \<and> set (existingLines (map snd nls)) \<subseteq> set items
      \<and> distinct (existingLines (map snd nls)) \<and> distinct (map (eFresh e \<circ> fst) nls)
      \<and> (\<forall>nl \<in> set nls. elExisting (snd nl) = None \<longrightarrow>
           elNewLine (snd nl) \<noteq> None \<and> eFresh e (fst nl) \<notin> iId ` set items))"

lemma mset_updateRow:
  assumes "distinct (map key t)" "r \<in> set t"
  shows "mset (updateRow key (key r) f t) = mset t - {#r#} + {#f r#}"
  using assms
proof (induction t)
  case (Cons x t)
  show ?case
  proof (cases "x = r")
    case True
    then have "rowOf key (key r) t = None" using Cons.prems(1) by (simp add: rowOf_None_iff)
    then have "updateRow key (key r) f t = t" by (rule updateRow_missing)
    then show ?thesis using True by (simp add: updateRow_def)
  next
    case False
    then have r: "r \<in> set t" "key x \<noteq> key r" using Cons.prems by (auto simp: image_iff)
    then have "mset (updateRow key (key r) f (x # t)) = add_mset x (mset t - {#r#} + {#f r#})"
      using Cons by (simp add: updateRow_def)
    then show ?thesis using r False by (simp add: add_mset_commute)
  qed
qed simp

lemma distinct_subset_mset:
  assumes "distinct xs" "set xs \<subseteq> set ys"
  shows "mset xs \<subseteq># mset ys"
proof (rule mset_subset_eqI)
  fix x
  show "count (mset xs) x \<le> count (mset ys) x"
  proof (cases "x \<in> set xs")
    case True
    then have "0 < count (mset ys) x" using assms(2) by (auto simp: count_greater_zero_iff)
    then show ?thesis using assms(1) True by (simp add: distinct_count_atmost_1 Suc_le_eq)
  qed (simp add: count_eq_zero_iff [THEN iffD2])
qed

lemma applyLine_rows:
  assumes "writable e items (nl # nls)"
  shows "mset (fst (applyLine e s nl (items, res, rel)))
      = mset items - mset (existingLines [snd nl]) + {#itemOfLine e nl#}"
    and "writable e (fst (applyLine e s nl (items, res, rel))) nls"
proof -
  obtain n l where nl: "nl = (n, l)" by (cases nl)
  have w: "distinct (map iId items)" using assms by (simp add: writable_def)
  have both: "mset (fst (applyLine e s nl (items, res, rel)))
      = mset items - mset (existingLines [snd nl]) + {#itemOfLine e nl#}
    \<and> writable e (fst (applyLine e s nl (items, res, rel))) nls"
  proof (cases "elExisting l")
    case (Some ex)
    let ?f = "if elQuantity l = iQuantity ex then id else lineRow l"
    let ?new = "updateRow iId (iId ex) ?f items"
    have ex: "ex \<in> set items" using assms Some by (simp add: writable_def nl)
    have "updateRow iId (iId ex) id items = items"
      by (auto simp: updateRow_def intro!: updateMany_nochange)
    then have new: "fst (applyLine e s nl (items, res, rel)) = ?new"
      by (auto simp: applyLine_def nl Some Let_def)
    have ids: "map iId ?new = map iId items"
      by (auto simp: updateRow_def lineRow_def intro!: map_updateMany_key)
    have keep: "i \<in> set ?new" if "i \<in> set items" "i \<noteq> ex" for i
    proof -
      have "iId i \<noteq> iId ex" using that ex w by (auto simp: distinct_map inj_on_def)
      with that show ?thesis by (auto simp: updateRow_def in_set_updateMany)
    qed
    have "set (existingLines (map snd nls)) \<subseteq> set ?new"
    proof
      fix i assume i: "i \<in> set (existingLines (map snd nls))"
      then have "i \<in> set items" "i \<noteq> ex" using assms Some by (auto simp: writable_def nl)
      then show "i \<in> set ?new" by (rule keep)
    qed
    moreover have "iId ` set ?new = iId ` set items" using ids by (metis list.set_map)
    ultimately have "writable e ?new nls"
      using assms Some ids by (auto simp: writable_def nl)
    moreover have "mset ?new = mset items - {#ex#} + {#itemOfLine e nl#}"
      using mset_updateRow [OF w ex, of ?f] by (simp add: itemOfLine_def nl Some)
    ultimately show ?thesis using Some new by (simp add: nl)
  next
    case None
    then obtain p vr where nw: "elNewLine l = Some (p, vr)" "eFresh e n \<notin> iId ` set items"
      using assms by (auto simp: writable_def nl)
    let ?i = "newLineItem e n l p vr"
    have new: "fst (applyLine e s nl (items, res, rel)) = items @ [?i]"
      by (simp add: applyLine_def nl None nw(1) Let_def)
    have id: "iId ?i = eFresh e n" by (simp add: newLineItem_def)
    have other: "eFresh e (fst x) \<noteq> eFresh e n" if "x \<in> set nls" for x
      using assms that by (auto simp: writable_def nl image_iff)
    have "writable e (items @ [?i]) nls"
      using assms None nw(2) id other by (auto simp: writable_def nl)
    then show ?thesis using None nw(1) new by (simp add: itemOfLine_def nl)
  qed
  from both show "mset (fst (applyLine e s nl (items, res, rel)))
      = mset items - mset (existingLines [snd nl]) + {#itemOfLine e nl#}" by (rule conjunct1)
  from both show "writable e (fst (applyLine e s nl (items, res, rel))) nls" by (rule conjunct2)
qed

lemma fold_applyLine_rows:
  assumes "writable e items nls"
  shows "mset (fst (fold (applyLine e s) nls (items, res, rel)))
    = mset items - mset (existingLines (map snd nls)) + mset (map (itemOfLine e) nls)"
  using assms
proof (induction nls arbitrary: items res rel)
  case (Cons nl nls)
  obtain i r q where a: "applyLine e s nl (items, res, rel) = (i, r, q)"
    by (cases "applyLine e s nl (items, res, rel)")
  note rows = applyLine_rows [OF Cons.prems, of s res rel, unfolded a fst_conv]
  have "mset (fst (fold (applyLine e s) (nl # nls) (items, res, rel)))
      = mset i - mset (existingLines (map snd nls)) + mset (map (itemOfLine e) nls)"
    using Cons.IH [OF rows(2), of r q] by (simp add: a)
  also have "\<dots> = mset items - mset (existingLines (map snd (nl # nls))) + mset (map (itemOfLine e) (nl # nls))"
  proof -
    have "mset (existingLines (map snd (nl # nls))) \<subseteq># mset items"
    proof -
      have "distinct (existingLines (map snd (nl # nls)))" "set (existingLines (map snd (nl # nls))) \<subseteq> set items"
        using Cons.prems by (simp_all add: writable_def)
      then show ?thesis by (rule distinct_subset_mset)
    qed
    then obtain R where "mset items = mset (existingLines (map snd (nl # nls))) + R"
      by (auto simp: subset_mset.le_iff_add)
    then show ?thesis unfolding rows(1) by (cases "elExisting (snd nl)") simp_all
  qed
  finally show ?case .
qed simp

subsection \<open>The lines of a repricing\<close>

lemma addWanted_keys:
  "map wantedKey (addWanted w ws) = (if wantedKey w \<in> set (map wantedKey ws) then map wantedKey ws
     else map wantedKey ws @ [wantedKey w])"
  by (induction ws) (auto simp: wantedKey_def)

lemma distinct_wantedItems: "distinct (map wantedKey (wantedItems ord items))"
proof -
  have "distinct (map wantedKey ws) \<Longrightarrow> distinct (map wantedKey (fold addWanted as ws))" for as ws
    by (induction as arbitrary: ws) (simp_all add: addWanted_keys)
  then show ?thesis by (simp add: wantedItems_def Let_def)
qed

text \<open>The quantity a list of wanted items, or of order lines, has under a key.\<close>

definition wantedQuantity :: "WantedItem list \<Rightarrow> string \<Rightarrow> nat" where
  "wantedQuantity ws key = sum_list (map (\<lambda>w. if wantedKey w = key then wiQuantity w else 0) ws)"

definition basketQuantity :: "orderItem list \<Rightarrow> string \<Rightarrow> nat" where
  "basketQuantity is key = sum_list (map (\<lambda>i. if itemKeyOf i = key then iQuantity i else 0) is)"

lemma wantedQuantity_addWanted:
  "wantedQuantity (addWanted w ws) key = wantedQuantity ws key + (if wantedKey w = key then wiQuantity w else 0)"
  by (induction ws) (auto simp: wantedQuantity_def wantedKey_def)

lemma wantedQuantity_fold:
  "wantedQuantity (fold addWanted as ws) key = wantedQuantity ws key + wantedQuantity as key"
proof (induction as arbitrary: ws)
  case (Cons a as)
  have "wantedQuantity (a # as) key = (if wantedKey a = key then wiQuantity a else 0) + wantedQuantity as key"
    by (simp add: wantedQuantity_def)
  then show ?case using Cons [of "addWanted a ws"] by (simp add: wantedQuantity_addWanted)
qed (simp add: wantedQuantity_def)

lemma editLine_Inr:
  assumes "editLine s tn ord w = Inr l"
  shows "elKey l = wantedKey w" "elQuantity l = wiQuantity w"
    and "elExisting l = existingItem ord (wantedKey w)"
    and "elExisting l = None \<Longrightarrow> \<exists>p vr. elNewLine l = Some (p, vr) \<and> plQuantity (elPriced l) = wiQuantity w
      \<and> p \<in> set (products s) \<and> Some (pId p) = wiProductId w
      \<and> (if truthy (wiVariantId w) then \<exists>v. vr = Some v \<and> v \<in> set (variants s) \<and> wiVariantId w = Some (vId v)
         else vr = None)"
proof -
  show "elKey l = wantedKey w" "elQuantity l = wiQuantity w" "elExisting l = existingItem ord (wantedKey w)"
    using assms by (auto simp: editLine_def Let_def split: option.splits if_splits)
  assume "elExisting l = None"
  then show "\<exists>p vr. elNewLine l = Some (p, vr) \<and> plQuantity (elPriced l) = wiQuantity w
      \<and> p \<in> set (products s) \<and> Some (pId p) = wiProductId w
      \<and> (if truthy (wiVariantId w) then \<exists>v. vr = Some v \<and> v \<in> set (variants s) \<and> wiVariantId w = Some (vId v)
         else vr = None)"
    using assms
    by (auto simp: editLine_def Let_def priceLineItem_def variantsOf_def truthy_def
        split: option.splits if_splits dest!: findFirst_SomeD)
qed

lemma existingItem_SomeD: "existingItem ord key = Some i \<Longrightarrow> i \<in> set (oItems ord) \<and> itemKeyOf i = key"
  by (auto simp: existingItem_def dest: findFirst_SomeD)

lemma existingItem_unique:
  assumes "distinct (map itemKeyOf (oItems ord))" "i \<in> set (oItems ord)"
  shows "existingItem ord (itemKeyOf i) = Some i"
proof -
  obtain j where j: "existingItem ord (itemKeyOf i) = Some j"
    using assms(2) findFirst_None_iff [of "\<lambda>x. itemKeyOf x = itemKeyOf i" "rev (oItems ord)"]
    by (cases "existingItem ord (itemKeyOf i)") (auto simp: existingItem_def)
  then have "j = i" using existingItem_SomeD [OF j] assms by (auto simp: distinct_map inj_on_def)
  with j show ?thesis by simp
qed

lemma existingLines_kept:
  assumes "distinct (map itemKeyOf (oItems ord))" and "map_res (editLine s tn ord) ws = Inr ls"
    and "distinct (map wantedKey ws)"
  shows "distinct (existingLines ls)"
    and "set (existingLines ls) = {i \<in> set (oItems ord). itemKeyOf i \<in> wantedKey ` set ws}"
proof -
  have both: "distinct (map itemKeyOf (existingLines ls))
    \<and> set (existingLines ls) = {i \<in> set (oItems ord). itemKeyOf i \<in> wantedKey ` set ws}"
    using assms(2,3)
  proof (induction ws arbitrary: ls)
    case (Cons w ws)
    from Cons.prems(1) obtain l ls' where l: "editLine s tn ord w = Inr l" "map_res (editLine s tn ord) ws = Inr ls'"
        "ls = l # ls'" by (auto split: sum.splits)
    have IH: "distinct (map itemKeyOf (existingLines ls'))"
        "set (existingLines ls') = {i \<in> set (oItems ord). itemKeyOf i \<in> wantedKey ` set ws}"
      using Cons.IH [OF l(2)] Cons.prems(2) by simp_all
    show ?case
    proof (cases "existingItem ord (wantedKey w)")
      case None
      then have "itemKeyOf i \<noteq> wantedKey w" if "i \<in> set (oItems ord)" for i
        using existingItem_unique [OF assms(1) that] by auto
      with None IH show ?thesis by (auto simp: l(3) editLine_Inr(3) [OF l(1)])
    next
      case (Some ex)
      note x = existingItem_SomeD [OF Some]
      have "i = ex" if "i \<in> set (oItems ord)" "itemKeyOf i = wantedKey w" for i
        using existingItem_unique [OF assms(1) that(1)] that(2) Some by simp
      moreover have "itemKeyOf ex \<notin> itemKeyOf ` set (existingLines ls')"
        using IH(2) x Cons.prems(2) by auto
      ultimately show ?thesis using IH x by (auto simp: l(3) editLine_Inr(3) [OF l(1)] Some)
    qed
  qed simp
  then show "distinct (existingLines ls)"
    and "set (existingLines ls) = {i \<in> set (oItems ord). itemKeyOf i \<in> wantedKey ` set ws}"
    by (simp_all add: distinct_map)
qed

text \<open>
  The order lines after the edit are exactly one row per wanted item, whatever order the writes were
  made in: rows kept or rewritten for the items the order had, new rows for the others.
\<close>

definition editedItems :: "env \<Rightarrow> db \<Rightarrow> order \<Rightarrow> Repriced \<Rightarrow> orderItem list" where
  "editedItems e s ord rp =
     filter (\<lambda>i. iId i \<notin> iId ` set (rpRemoved rp))
       (fst (fold (applyLine e s) (enumerate 0 (rpLines rp)) (oItems ord, [], [])))"

definition freshIds :: "env \<Rightarrow> order \<Rightarrow> bool" where
  "freshIds e ord = (inj (eFresh e) \<and> (\<forall>n. eFresh e n \<notin> iId ` set (oItems ord)))"

lemma reprice_Inr:
  assumes "reprice s tn ord items sh = Inr rp"
  shows "map_res (editLine s tn ord) (wantedItems ord items) = Inr (rpLines rp)"
    and "rpRemoved rp = filter (\<lambda>i. itemKeyOf i \<notin> wantedKey ` set (wantedItems ord items)) (oItems ord)"
  using assms by (auto simp: reprice_def Let_def res_eqs)

lemma writable_reprice:
  assumes "distinct (map itemKeyOf (oItems ord))" "distinct (map iId (oItems ord))" "freshIds e ord"
    and "reprice s tn ord items sh = Inr rp"
  shows "writable e (oItems ord) (enumerate 0 (rpLines rp))"
proof -
  note r = reprice_Inr [OF assms(4)]
  note k = existingLines_kept [OF assms(1) r(1) distinct_wantedItems]
  have "elNewLine l \<noteq> None" if l: "l \<in> set (rpLines rp)" "elExisting l = None" for l
  proof -
    obtain w where w: "editLine s tn ord w = Inr l" using map_res_Inr_set [OF r(1) l(1)] by blast
    show ?thesis using editLine_Inr(4) [OF w l(2)] by auto
  qed
  then have new: "\<forall>nl \<in> set (enumerate 0 (rpLines rp)). elExisting (snd nl) = None \<longrightarrow> elNewLine (snd nl) \<noteq> None"
    by (auto dest: in_set_enumerate_eq [THEN iffD1] nth_mem simp: in_set_enumerate_eq)
  have "map (eFresh e \<circ> fst) (enumerate 0 (rpLines rp)) = map (eFresh e) [0..<length (rpLines rp)]"
    by (simp flip: map_map)
  then have "distinct (map (eFresh e \<circ> fst) (enumerate 0 (rpLines rp)))"
    using assms(3) by (auto simp: freshIds_def distinct_map intro: inj_on_subset)
  with assms(2,3) k new show ?thesis by (auto simp: writable_def freshIds_def)
qed

lemma itemOfLine_id:
  assumes "writable e items nls" "nl \<in> set nls"
  shows "iId (itemOfLine e nl) = (case elExisting (snd nl) of Some ex \<Rightarrow> iId ex | None \<Rightarrow> eFresh e (fst nl))"
  using assms
  by (auto simp: itemOfLine_def lineRow_def newLineItem_def writable_def split: option.splits)

lemma in_existingLines: "ex \<in> set (existingLines ls) \<longleftrightarrow> (\<exists>l \<in> set ls. elExisting l = Some ex)"
  by (auto simp: existingLines_def List.map_filter_def intro: rev_image_eqI)

lemma editedItems_mset:
  assumes "distinct (map itemKeyOf (oItems ord))" "distinct (map iId (oItems ord))" "freshIds e ord"
    and "reprice s tn ord items sh = Inr rp"
  shows "mset (editedItems e s ord rp) = mset (map (itemOfLine e) (enumerate 0 (rpLines rp)))"
    and "mset (oItems ord) = mset (existingLines (rpLines rp)) + mset (rpRemoved rp)"
proof -
  let ?nls = "enumerate 0 (rpLines rp)"
  let ?K = "wantedKey ` set (wantedItems ord items)"
  note w = writable_reprice [OF assms]
  note r = reprice_Inr [OF assms(4)]
  note k = existingLines_kept [OF assms(1) r(1) distinct_wantedItems]
  have d: "distinct (oItems ord)" using assms(1) by (simp add: distinct_map)
  have "mset (existingLines (rpLines rp)) = mset (filter (\<lambda>i. itemKeyOf i \<in> ?K) (oItems ord))"
    using k d by (intro set_eq_iff_mset_eq_distinct [THEN iffD1]) auto
  then show split: "mset (oItems ord) = mset (existingLines (rpLines rp)) + mset (rpRemoved rp)"
    using multiset_partition [of "mset (oItems ord)" "\<lambda>i. itemKeyOf i \<in> ?K"] by (simp add: r(2))
  have all: "mset (fst (fold (applyLine e s) ?nls (oItems ord, [], []))) = mset (rpRemoved rp) + mset (map (itemOfLine e) ?nls)"
    using fold_applyLine_rows [OF w, of s "[]" "[]"] split by simp
  let ?P = "\<lambda>i. iId i \<notin> iId ` set (rpRemoved rp)"
  have "?P (itemOfLine e nl)" if nl: "nl \<in> set ?nls" for nl
  proof
    assume "iId (itemOfLine e nl) \<in> iId ` set (rpRemoved rp)"
    then obtain i where i: "i \<in> set (oItems ord)" "itemKeyOf i \<notin> ?K" "iId i = iId (itemOfLine e nl)"
      by (auto simp: r(2))
    show False
    proof (cases "elExisting (snd nl)")
      case None
      then have "eFresh e (fst nl) \<in> iId ` set (oItems ord)"
        using i itemOfLine_id [OF w nl] by (intro image_eqI [where x = i]) simp_all
      then show False using assms(3) by (simp add: freshIds_def)
    next
      case (Some ex)
      then have "ex \<in> set (existingLines (rpLines rp))"
        using nl by (auto simp: in_existingLines in_set_enumerate_eq intro!: bexI [of _ "snd nl"])
          (metis nth_mem)
      then have "ex \<in> set (oItems ord)" "itemKeyOf ex \<in> ?K" using k(2) by auto
      moreover have "iId ex = iId i" using itemOfLine_id [OF w nl] Some i(3) by simp
      ultimately have "ex = i" using assms(2) i(1) by (auto simp: distinct_map inj_on_def)
      with i(2) \<open>itemKeyOf ex \<in> ?K\<close> show False by simp
    qed
  qed
  then have "filter_mset ?P (mset (map (itemOfLine e) ?nls)) = mset (map (itemOfLine e) ?nls)"
    by (intro filter_mset_eq_conv [THEN iffD2]) auto
  moreover have "filter_mset ?P (mset (rpRemoved rp)) = {#}" by (auto simp: filter_mset_eq_conv)
  ultimately show "mset (editedItems e s ord rp) = mset (map (itemOfLine e) ?nls)"
    by (simp add: editedItems_def all)
qed

subsection \<open>Stock\<close>

lemma need_append: "need (xs @ ys) k = need xs k + need ys k"
  by (induction xs) simp_all

lemma held_append: "held (xs @ ys) k = held xs k + held ys k"
  by (induction xs) simp_all

lemma held_mset:
  assumes "mset xs = mset ys"
  shows "held (map stockItemOf xs) k = held (map stockItemOf ys) k"
proof -
  let ?f = "\<lambda>i. if itemKey (stockItemOf i) = Some k then int (siQuantity (stockItemOf i)) else 0"
  have "held (map stockItemOf zs) k = sum_mset (image_mset ?f (mset zs))" for zs
    by (induction zs) simp_all
  with assms show ?thesis by simp
qed

lemma stockLine_SomeD:
  assumes "stockLine s p v n = Some x"
  shows "itemKey \<lparr>siProductId = p, siVariantId = v, siQuantity = m\<rparr> = Some (lineKey x)" "skQuantity x = n"
  using assms
  by (auto simp: stockLine_def itemKey_def lineKey_def split: if_splits option.splits dest!: rowOf_SomeD)

text \<open>Every variant belongs to a product there is (a foreign key).\<close>

definition articlesOk :: "db \<Rightarrow> bool" where
  "articlesOk s = list_all (\<lambda>v. rowOf pId (vProductId v) (products s) \<noteq> None) (variants s)"

lemma stockLine_None:
  assumes "stockLine s p v n = None" "articlesOk s" "stockOf s k = Some q"
  shows "itemKey \<lparr>siProductId = p, siVariantId = v, siQuantity = m\<rparr> \<noteq> Some k"
  using assms
  by (auto simp: stockLine_def itemKey_def articlesOk_def list_all_iff split: if_splits option.splits
      dest!: rowOf_SomeD simp del: not_None_eq)

text \<open>A line moves stock by exactly what its row gains or loses.\<close>

lemma line_stock:
  assumes "editLine s tn ord w = Inr l" and "idsOk s" "articlesOk s" "stockOf s k = Some q"
  shows "need (reserves s l) k - held (releases l) k
    = held [stockItemOf (itemOfLine e (n, l))] k
      - held (map stockItemOf (existingLines [l])) k"
proof (cases "elExisting l")
  case None
  obtain p vr where n: "elNewLine l = Some (p, vr)" "plQuantity (elPriced l) = wiQuantity w" "p \<in> set (products s)"
      "if truthy (wiVariantId w) then \<exists>v. vr = Some v \<and> v \<in> set (variants s) \<and> wiVariantId w = Some (vId v) else vr = None"
    using editLine_Inr(4) [OF assms(1) None] by blast
  have "pId p \<noteq> []" using assms(2) n(3) by (auto simp: idsOk_def list_all_iff)
  moreover have "vId v \<noteq> []" if "vr = Some v" for v
    using n(4) that assms(2) by (auto simp: idsOk_def list_all_iff split: if_splits)
  ultimately show ?thesis
    using None n(1,2) editLine_Inr(2) [OF assms(1)]
    by (cases vr) (simp_all add: reserves_def releases_def itemOfLine_def newLineItem_def stockItemOf_def itemKey_def
        stockLineOf_def lineKey_def)
next
  case (Some ex)
  let ?d = "elQuantity l - iQuantity ex"
  have row: "stockItemOf (itemOfLine e (n, l)) = \<lparr>siProductId = iProductId ex, siVariantId = iVariantId ex, siQuantity = elQuantity l\<rparr>"
    by (simp add: itemOfLine_def Some stockItemOf_def lineRow_def)
  have key: "itemKey \<lparr>siProductId = p, siVariantId = v, siQuantity = a\<rparr> = itemKey \<lparr>siProductId = p, siVariantId = v, siQuantity = b\<rparr>" for p v a b
    by (simp add: itemKey_def)
  let ?key = "itemKey \<lparr>siProductId = iProductId ex, siVariantId = iVariantId ex, siQuantity = elQuantity l\<rparr>"
  consider (more) "elQuantity l > iQuantity ex" | (less) "elQuantity l < iQuantity ex" | (same) "elQuantity l = iQuantity ex"
    by linarith
  then show ?thesis
  proof cases
    case more
    then show ?thesis
    proof (cases "stockLine s (iProductId ex) (iVariantId ex) ?d")
      case None
      note stockLine_None [OF None assms(3,4), of "elQuantity l"]
      with None more Some show ?thesis
        unfolding row
        by (simp add: reserves_def releases_def stockItemOf_def key [of _ _ "iQuantity ex" "elQuantity l"])
    next
      case st: (Some x)
      note stockLine_SomeD(1) [OF st, of "elQuantity l"] stockLine_SomeD(2) [OF st]
      with st more Some show ?thesis
        unfolding row
        by (simp add: reserves_def releases_def stockItemOf_def key [of _ _ "iQuantity ex" "elQuantity l"])
    qed
  next
    case less
    with Some show ?thesis
      unfolding row
      by (simp add: reserves_def releases_def stockItemOf_def key [of _ _ "iQuantity ex" "elQuantity l"]
          key [of _ _ "iQuantity ex - elQuantity l" "elQuantity l"])
  next
    case same
    with Some show ?thesis
      unfolding row by (simp add: reserves_def releases_def stockItemOf_def)
  qed
qed

lemma lines_stock:
  assumes "map_res (editLine s tn ord) ws = Inr ls" and "idsOk s" "articlesOk s" "stockOf s k = Some q"
  shows "need (concat (map (reserves s \<circ> snd) (enumerate n ls))) k
      - held (concat (map (releases \<circ> snd) (enumerate n ls))) k
    = held (map (stockItemOf \<circ> itemOfLine e) (enumerate n ls)) k - held (map stockItemOf (existingLines ls)) k"
  using assms(1)
proof (induction ws arbitrary: ls n)
  case (Cons w ws)
  from Cons.prems obtain l ls' where l: "editLine s tn ord w = Inr l" "map_res (editLine s tn ord) ws = Inr ls'"
      "ls = l # ls'" by (auto split: sum.splits)
  have e: "existingLines (l # ls') = existingLines [l] @ existingLines ls'" by (simp split: option.split)
  have h: "held (x # xs) k = held [x] k + held xs k" for x xs by simp
  show ?case
    using Cons.IH [OF l(2), of "Suc n"] line_stock [OF l(1) assms(2-4), of e n]
      h [of "stockItemOf (itemOfLine e (n, l))" "map (stockItemOf \<circ> itemOfLine e) (enumerate (Suc n) ls')"]
    unfolding l(3) e enumerate_simps list.map concat.simps o_apply snd_conv
      need_append held_append map_append
    by linarith
qed simp

text \<open>The stock the edit of the items of an order leaves, and the rows it writes.\<close>

lemma applyItemChanges_Inr:
  assumes "distinct (map itemKeyOf (oItems ord))" "distinct (map iId (oItems ord))" "freshIds e ord"
    and "reprice s tn ord items sh = Inr rp"
    and "uniqueStock s" "stockOk s" "idsOk s" "articlesOk s"
    and "applyItemChanges e s ord rp True = Inr s'"
  shows "stockOf s a = Some q \<Longrightarrow> stockOf s' a = Some (q + held (map stockItemOf (oItems ord)) a
      - held (map stockItemOf (editedItems e s ord rp)) a)"
    and "orders s' = updateRow oId (oId ord) (\<lambda>r. r\<lparr>oItems := editedItems e s ord rp\<rparr>) (orders s)"
    and "stockOk s'" "tenants s' = tenants s"
proof -
  let ?nls = "enumerate 0 (rpLines rp)"
  let ?s1 = "updateOrder (oId ord) (\<lambda>r. r\<lparr>oItems := editedItems e s ord rp\<rparr>) s"
  let ?res = "concat (map (reserves s \<circ> snd) ?nls)"
  let ?rel = "concat (map (releases \<circ> snd) ?nls) @ map stockItemOf (rpRemoved rp)"
  have f: "fold (applyLine e s) ?nls (oItems ord, [], [])
      = (fst (fold (applyLine e s) ?nls (oItems ord, [], [])), concat (map (reserves s \<circ> snd) ?nls),
         concat (map (releases \<circ> snd) ?nls))"
    using fold_applyLine_moves [of e s ?nls "oItems ord" "[]" "[]"] by (simp add: prod_eq_iff)
  obtain s2 where s2: "reserveStock ?s1 ?res = Inr s2" "s' = releaseStock ?rel s2"
    using assms(9) unfolding applyItemChanges_def by (subst (asm) f) (auto simp: Let_def editedItems_def res_eqs)
  have u: "uniqueStock ?s1" using assms(5) by (simp add: uniqueStock_def updateOrder_def)
  have s': "s' = shiftStock (\<lambda>k. held ?rel k - need ?res k) ?s1"
    unfolding s2(2) releaseStock_shift reserveStock_shift [OF u s2(1)] by simp
  show "orders s' = updateRow oId (oId ord) (\<lambda>r. r\<lparr>oItems := editedItems e s ord rp\<rparr>) (orders s)"
    and "tenants s' = tenants s"
    by (simp_all add: s' updateOrder_def table_simps)
  show "stockOk s'"
  proof -
    have "stockOk ?s1" using assms(6) by (simp add: stockOk_def updateOrder_def)
    then have "stockOk s2" using s2(1) by (rule reserveStock_stockOk)
    then show ?thesis unfolding s2(2) by (rule releaseStock_stockOk)
  qed
  assume a: "stockOf s a = Some q"
  have st: "stockOf ?s1 a = stockOf s a" by (cases a) (simp_all add: updateOrder_def)
  note ms = editedItems_mset [OF assms(1-4)]
  have new: "held (map stockItemOf (editedItems e s ord rp)) a = held (map (stockItemOf \<circ> itemOfLine e) ?nls) a"
    using held_mset [OF ms(1), of a] by simp
  have old: "held (map stockItemOf (oItems ord)) a
      = held (map stockItemOf (existingLines (rpLines rp))) a + held (map stockItemOf (rpRemoved rp)) a"
    using held_mset [of "oItems ord" "existingLines (rpLines rp) @ rpRemoved rp" a] ms(2)
    by (simp add: held_append)
  show "stockOf s' a = Some (q + held (map stockItemOf (oItems ord)) a
      - held (map stockItemOf (editedItems e s ord rp)) a)"
    using lines_stock [OF reprice_Inr(1) [OF assms(4)] assms(7,8) a, of 0 e]
    by (simp add: s' st a held_append new old)
qed

subsection \<open>Quantities\<close>

definition askedQuantity :: "OrderItemInput list \<Rightarrow> string \<Rightarrow> nat" where
  "askedQuantity xs key =
     sum_list (map (\<lambda>i. if keyOf (Some (inProductId i)) (inVariantId i) = key then inQuantity i else 0) xs)"

lemma itemOfLine_quantity:
  assumes "editLine s tn ord w = Inr l"
  shows "itemKeyOf (itemOfLine e (n, l)) = wantedKey w" "iQuantity (itemOfLine e (n, l)) = wiQuantity w"
proof -
  have "itemKeyOf (itemOfLine e (n, l)) = wantedKey w \<and> iQuantity (itemOfLine e (n, l)) = wiQuantity w"
  proof (cases "elExisting l")
    case None
    obtain p vr where n: "elNewLine l = Some (p, vr)" "Some (pId p) = wiProductId w"
        "if truthy (wiVariantId w) then \<exists>v. vr = Some v \<and> v \<in> set (variants s) \<and> wiVariantId w = Some (vId v) else vr = None"
      using editLine_Inr(4) [OF assms None] by blast
    have "keyOf (Some (pId p)) (map_option vId vr) = wantedKey w"
    proof (cases "truthy (wiVariantId w)")
      case False
      then have "vr = None" "wiVariantId w = None \<or> wiVariantId w = Some []"
        using n(3) by (auto simp: truthy_def split: option.splits)
      then show ?thesis unfolding wantedKey_def n(2) [symmetric] by (auto simp: keyOf_def)
    qed (use n(2,3) in \<open>auto simp: wantedKey_def\<close>)
    then show ?thesis
      using None n(1) editLine_Inr(2) [OF assms]
      by (simp add: itemOfLine_def newLineItem_def itemKeyOf_def)
  next
    case (Some ex)
    then have "itemKeyOf ex = wantedKey w"
      using editLine_Inr(3) [OF assms] by (auto dest: existingItem_SomeD)
    with Some show ?thesis
      using editLine_Inr(2) [OF assms]
      by (simp add: itemOfLine_def itemKeyOf_def lineRow_def)
  qed
  then show "itemKeyOf (itemOfLine e (n, l)) = wantedKey w" "iQuantity (itemOfLine e (n, l)) = wiQuantity w"
    by simp_all
qed

lemma basketQuantity_mset:
  assumes "mset xs = mset ys"
  shows "basketQuantity xs key = basketQuantity ys key"
proof -
  have "basketQuantity zs key = sum_mset (image_mset (\<lambda>i. if itemKeyOf i = key then iQuantity i else 0) (mset zs))" for zs
    by (induction zs) (simp_all add: basketQuantity_def)
  with assms show ?thesis by simp
qed

lemma edited_quantities:
  assumes "distinct (map itemKeyOf (oItems ord))" "distinct (map iId (oItems ord))" "freshIds e ord"
    and "reprice s tn ord (Some xs) sh = Inr rp"
  shows "basketQuantity (editedItems e s ord rp) key = askedQuantity xs key"
proof -
  have lines: "basketQuantity (map (itemOfLine e) (enumerate n ls)) key = wantedQuantity ws key"
    if "map_res (editLine s tn ord) ws = Inr ls" for n ws ls
    using that
  proof (induction ws arbitrary: ls n)
    case (Cons w ws)
    from Cons.prems obtain l ls' where l: "editLine s tn ord w = Inr l" "map_res (editLine s tn ord) ws = Inr ls'"
        "ls = l # ls'" by (auto split: sum.splits)
    show ?case
      using Cons.IH [OF l(2), of "Suc n"] itemOfLine_quantity [OF l(1), of e n]
      by (simp add: l(3) basketQuantity_def wantedQuantity_def)
  qed (simp add: basketQuantity_def wantedQuantity_def)
  have "basketQuantity (editedItems e s ord rp) key = wantedQuantity (wantedItems ord (Some xs)) key"
    using basketQuantity_mset [OF editedItems_mset(1) [OF assms]] lines [OF reprice_Inr(1) [OF assms(4)]] by simp
  also have "\<dots> = askedQuantity xs key"
    by (simp add: wantedItems_def Let_def wantedQuantity_fold)
      (simp add: wantedQuantity_def askedQuantity_def wantedKey_def comp_def cong: if_cong)
  finally show ?thesis .
qed

lemma editItems_Inr:
  assumes "editItems e s tn ord dto = Inr (s1, totals, changed)" "uoItems dto = Some xs"
    and "rowOf tId tn (tenants s) = Some t"
  obtains rp where "reprice s tn ord (Some xs) (uoShippingId dto) = Inr rp"
    "applyItemChanges e s ord rp (tTracksInventory t) = Inr s1" "totals = totalsChange rp"
  using assms by (auto simp: editItems_def Let_def res_eqs split: if_splits)

lemma contactChanges_keeps [simp]:
  "oId (contactChanges d r) = oId r" "oItems (contactChanges d r) = oItems r"
  "oId (addressChange d r) = oId r" "oItems (addressChange d r) = oItems r"
  "oId (totalsChange rp r) = oId r" "oItems (totalsChange rp r) = oItems r"
  by (simp_all add: contactChanges_def addressChange_def totalsChange_def split: option.split)

section \<open>Properties\<close>

text \<open>
  C18: editing the items of an open order of a store that tracks stock implements its specification:
  afterwards the order has of every article exactly the quantity asked for (lines of the same article
  added up), every stock count has moved by exactly what the order now holds less of it or more, and
  none is negative, provided no two lines of the order were of the same article.
\<close>

theorem edit_refines_basket:
  assumes "updateDetails e s tn k dto = Inr s'" and "tenantOrder s tn k = Some ord" and "uoItems dto = Some xs"
    and "distinct (map itemKeyOf (oItems ord))" "distinct (map iId (oItems ord))" "freshIds e ord"
    and "uniqueKeys oId (orders s)" "uniqueStock s" "stockOk s" "idsOk s" "articlesOk s"
    and "rowOf tId tn (tenants s) = Some t" "tTracksInventory t"
  shows "\<exists>ord'. rowOf oId k (orders s') = Some ord'
    \<and> (\<forall>key. basketQuantity (oItems ord') key = askedQuantity xs key)
    \<and> (\<forall>a q. stockOf s a = Some q \<longrightarrow> stockOf s' a = Some (q + held (map stockItemOf (oItems ord)) a
          - held (map stockItemOf (oItems ord')) a))
    \<and> stockOk s'"
proof -
  have o': "oId ord = k" "rowOf oId k (orders s) = Some ord"
    using tenantOrder_SomeD [OF assms(2)] tenantOrder_rowOf [OF assms(7,2)] by simp_all
  obtain payment s1 totals changed updated where h: "editItems e s tn ord dto = Inr (s1, totals, changed)"
      and s': "s' = emit (toOrderEvent order_status_updated updated)
        (if changed \<and> eInvoiceExists e tn k
         then requeueInvoice tn k (updateOrder k (\<lambda>r. (totals (addressChange dto (contactChanges dto r)))\<lparr>oPaymentStatus := payment\<rparr>) s1)
         else updateOrder k (\<lambda>r. (totals (addressChange dto (contactChanges dto r)))\<lparr>oPaymentStatus := payment\<rparr>) s1)"
    using assms(1,2) by (auto simp: updateDetails_def findOneOrder_def res_eqs Let_def split: option.splits)
  obtain rp where rp: "reprice s tn ord (Some xs) (uoShippingId dto) = Inr rp"
      "applyItemChanges e s ord rp (tTracksInventory t) = Inr s1" "totals = totalsChange rp"
    using h assms(3,12) by (rule editItems_Inr)
  have "applyItemChanges e s ord rp True = Inr s1" using rp(2) assms(13) by simp
  note app = applyItemChanges_Inr [OF assms(4-6) rp(1) assms(8-11) this]
  define f where "f = (\<lambda>r. (totals (addressChange dto (contactChanges dto r)))\<lparr>oPaymentStatus := payment\<rparr>)"
  let ?ord' = "f (ord\<lparr>oItems := editedItems e s ord rp\<rparr>)"
  have fid: "oId (f r) = oId r" "oItems (f r) = oItems r" for r by (simp_all add: f_def rp(3))
  have "orders s' = updateRow oId k f (orders s1)"
    by (simp add: s' f_def updateOrder_def requeueInvoice_def)
  then have "rowOf oId k (orders s') = Some ?ord'"
    using o' fid by (simp add: app(2) rowOf_updateRow_same)
  moreover have tables: "products s' = products s1" "variants s' = variants s1"
    by (simp_all add: s' updateOrder_def requeueInvoice_def)
  then have "stockOf s' a = stockOf s1 a" for a by (cases a) simp_all
  moreover have "stockOk s'" using app(3) tables by (simp add: stockOk_def)
  ultimately show ?thesis
    using app(1) edited_quantities [OF assms(4-6) rp(1)] fid by (intro exI [of _ ?ord']) simp
qed

definition editDto0 :: UpdateOrderDto where
  "editDto0 = \<lparr>uoCustomerName = None, uoCustomerEmail = None, uoCustomerPhone = None,
     uoShippingAddress = None, uoItems = Some [\<lparr>inProductId = ''p1'', inVariantId = None, inQuantity = 1\<rparr>,
       \<lparr>inProductId = ''p1'', inVariantId = None, inQuantity = 3\<rparr>],
     uoShippingId = None, uoPaymentStatus = None\<rparr>"

definition freshEnv0 :: env where
  "freshEnv0 = env0\<lparr>eFresh := \<lambda>n. replicate (Suc n) (CHR ''x'')\<rparr>"

theorem edit_refines_basket_witness:
  "\<exists>s' ord'. updateDetails freshEnv0 db0 ''t1'' ''o1'' editDto0 = Inr s' \<and> rowOf oId ''o1'' (orders s') = Some ord'
    \<and> basketQuantity (oItems ord') ''p1|'' = 4 \<and> stockOk s'"
proof -
  have "case updateDetails freshEnv0 db0 ''t1'' ''o1'' editDto0 of Inr _ \<Rightarrow> True | Inl _ \<Rightarrow> False"
    by code_simp
  then obtain s' where s': "updateDetails freshEnv0 db0 ''t1'' ''o1'' editDto0 = Inr s'"
    by (auto split: sum.splits)
  have "freshIds freshEnv0 order0"
    by (auto simp: freshIds_def freshEnv0_def sample_defs inj_def dest: arg_cong [where f = length])
  moreover have "tenantOrder db0 ''t1'' ''o1'' = Some order0" by (simp add: tenantOrder_def sample_defs)
  moreover have "askedQuantity (the (uoItems editDto0)) ''p1|'' = 4"
    by (simp add: askedQuantity_def editDto0_def keyOf_def)
  ultimately show ?thesis
    using edit_refines_basket [OF s', of order0 "the (uoItems editDto0)" tenant0] db0_ok s'
    by (auto simp: sample_defs editDto0_def uniqueKeys_def idsOk_def articlesOk_def)
qed

text \<open>An order with two lines of one article, and an edit of its shipping only.\<close>

definition twiceOrder0 :: order where
  "twiceOrder0 = order0\<lparr>oSubtotal := 30, oTaxTotal := 3, oGrandTotal := 33,
     oItems := [item0, item0\<lparr>iId := ''i2'', iQuantity := 1, iTaxAmount := 1, iLineTotal := 11\<rparr>]\<rparr>"

definition pickupDto0 :: UpdateOrderDto where
  "pickupDto0 = editDto0\<lparr>uoItems := None, uoShippingId := Some None\<rparr>"

text \<open>
  editing an order that holds two lines of one article corrupts it. An order may hold such lines
  (a basket may list it twice); then a change of the shipping alone rewrites the second line to the
  quantity of both, so the lines no longer add up to what the order charges, and takes stock that
  nobody asked for: here 3 pieces charged, 5 on the lines, 2 more taken from the shelf.
\<close>

theorem repeated_article_edit_corrupts:
  "totalsExact twiceOrder0 \<and>
   (case updateDetails freshEnv0 (db0\<lparr>orders := [twiceOrder0]\<rparr>) ''t1'' ''o1'' pickupDto0 of
      Inl _ \<Rightarrow> False
    | Inr s' \<Rightarrow> map (map iQuantity \<circ> oItems) (orders s') = [[2, 3]] \<and> map oGrandTotal (orders s') = [33]
        \<and> map pQuantity (products s') = [3] \<and> \<not> list_all totalsExact (orders s'))"
  by code_simp

text \<open>
  a card payment is only what the provider reported, except for PayPal: the edit refuses to
  change the payment status of an order paid through Stripe or MercadoPago, but does as told for an
  order paid through PayPal, which it does not count among the gateways.
\<close>

theorem paypal_payment_editable:
  assumes "tenantOrder s tn k = Some ord" "\<not> terminal ord" "uniqueKeys oId (orders s)"
    and "uoItems dto = None" "uoShippingId dto = None" "uoPaymentStatus dto = Some st" "st \<noteq> oPaymentStatus ord"
  shows "(oFulfillmentMethod ord \<in> {FulfillmentMethod.STRIPE, FulfillmentMethod.MERCADOPAGO} \<longrightarrow>
      updateDetails e s tn k dto = Inl (Conflict ''Payment status of a card order is set by the payment provider''))
    \<and> (oFulfillmentMethod ord = FulfillmentMethod.PAYPAL \<longrightarrow>
      (\<exists>s' ord'. updateDetails e s tn k dto = Inr s' \<and> rowOf oId k (orders s') = Some ord' \<and> oPaymentStatus ord' = st))"
proof (intro conjI impI)
  assume "oFulfillmentMethod ord \<in> {FulfillmentMethod.STRIPE, FulfillmentMethod.MERCADOPAGO}"
  then show "updateDetails e s tn k dto = Inl (Conflict ''Payment status of a card order is set by the payment provider'')"
    using assms by (auto simp: updateDetails_def findOneOrder_def paymentChange_def isGateway_def)
next
  assume m: "oFulfillmentMethod ord = FulfillmentMethod.PAYPAL"
  define f where "f = (\<lambda>r. (addressChange dto (contactChanges dto r))\<lparr>oPaymentStatus := st\<rparr>)"
  have f: "oId (f r) = oId r" "oTenantId (f r) = oTenantId r" "oPaymentStatus (f r) = st" for r
    using assms(5) by (simp_all add: f_def addressChange_def contactChanges_def split: option.split)
  have row: "rowOf oId k (orders (updateOrder k f s)) = Some (f ord)"
    using tenantOrder_rowOf [OF assms(3,1)] f(1) by (simp add: updateOrder_def rowOf_updateRow_same)
  have "tenantOrder (updateOrder k f s) tn k \<noteq> None"
    using tenantOrder_SomeD [OF assms(1)] f(1,2)
    by (auto simp: tenantOrder_def updateOrder_def updateRow_def findFirst_None_iff set_updateMany simp del: not_None_eq)
  then obtain u where "tenantOrder (updateOrder k f s) tn k = Some u" by blast
  then have "updateDetails e s tn k dto = Inr (emit (toOrderEvent order_status_updated u) (updateOrder k f s))"
    using assms m
    by (simp add: updateDetails_def findOneOrder_def paymentChange_def isGateway_def editItems_def f_def)
  with row f(3) show "\<exists>s' ord'. updateDetails e s tn k dto = Inr s' \<and> rowOf oId k (orders s') = Some ord' \<and> oPaymentStatus ord' = st"
    by (intro exI [of _ "f ord"] exI) (auto simp: exI)
qed

theorem paypal_payment_editable_witness:
  "\<exists>s' ord'. updateDetails env0 (db0\<lparr>orders := [order0\<lparr>oFulfillmentMethod := FulfillmentMethod.PAYPAL,
        oPaymentStatus := PaymentStatus.PAID\<rparr>]\<rparr>) ''t1'' ''o1''
      (editDto0\<lparr>uoItems := None, uoPaymentStatus := Some PaymentStatus.PENDING\<rparr>) = Inr s'
    \<and> rowOf oId ''o1'' (orders s') = Some ord' \<and> oPaymentStatus ord' = PaymentStatus.PENDING"
  using paypal_payment_editable [of "db0\<lparr>orders := [order0\<lparr>oFulfillmentMethod := FulfillmentMethod.PAYPAL,
        oPaymentStatus := PaymentStatus.PAID\<rparr>]\<rparr>" "''t1''" "''o1''" "order0\<lparr>oFulfillmentMethod := FulfillmentMethod.PAYPAL,
        oPaymentStatus := PaymentStatus.PAID\<rparr>" "editDto0\<lparr>uoItems := None, uoPaymentStatus := Some PaymentStatus.PENDING\<rparr>"
      PaymentStatus.PENDING env0]
  by (simp add: tenantOrder_def terminal_def uniqueKeys_def editDto0_def sample_defs)

end
