(* ===== verification/OrderSystem.thy ===== *)
theory OrderSystem
  imports Sweep OrderEdit
begin

text \<open>
  The life of the orders of all stores: every request, webhook and job that writes an order,
  interleaved in any way, as a step relation: an order is placed, moved, edited, hidden, a checkout is
  opened for it, it is settled, refunded or disputed by a provider, paid by hand, cancelled by the sweep.
  The stock ledger (what is on the shelf plus what the orders of tracking stores that are not cancelled
  hold) is conserved, no count goes negative and a cancelled or refunded order stays so. A
  settlement may act on any row of its order read before; the other requests read and write in one
  transaction (what a status change on an outdated row does is the last section). Not steps of this relation: a
  store that switches its tracking on or off, changes of the catalogue and the purge of a store.
\<close>

section \<open>The ledger\<close>

text \<open>The store of the order tracks its inventory.\<close>

definition tracked :: "db \<Rightarrow> order \<Rightarrow> bool" where
  "tracked s ord =
     (case rowOf tId (oTenantId ord) (tenants s) of Some t \<Rightarrow> tTracksInventory t | None \<Rightarrow> False)"

definition orderHeld :: "db \<Rightarrow> StockKey \<Rightarrow> order \<Rightarrow> int" where
  "orderHeld s k ord =
     (if oStatus ord = OrderStatus.CANCELLED \<or> \<not> tracked s ord then 0 else held (map stockItemOf (oItems ord)) k)"

definition outstanding :: "db \<Rightarrow> StockKey \<Rightarrow> int" where
  "outstanding s k = sum_list (map (orderHeld s k) (orders s))"

definition ledger :: "db \<Rightarrow> StockKey \<Rightarrow> int option" where
  "ledger s k = map_option (\<lambda>q. q + outstanding s k) (stockOf s k)"

lemma orderHeld_cong: "tenants s' = tenants s \<Longrightarrow> orderHeld s' = orderHeld s"
  by (simp add: fun_eq_iff orderHeld_def tracked_def)

lemma sum_updateRow:
  assumes "uniqueKeys key t" "r \<in> set t"
  shows "sum_list (map g (updateRow key (key r) f t)) = sum_list (map g t) - g r + (g (f r) :: int)"
  using assms
proof (induction t)
  case (Cons x t)
  show ?case
  proof (cases "x = r")
    case True
    then have "key r \<notin> set (map key t)" using Cons.prems(1) by (simp add: uniqueKeys_def)
    then have "rowOf key (key r) t = None" by (simp add: rowOf_None_iff)
    then have "updateRow key (key r) f t = t" by (rule updateRow_missing)
    then show ?thesis using True by (simp add: updateRow_def)
  next
    case False
    then have "r \<in> set t" "key x \<noteq> key r" using Cons.prems by (auto simp: uniqueKeys_def)
    then show ?thesis using Cons by (simp add: updateRow_def uniqueKeys_def)
  qed
qed simp

lemma updateMany_updateRow:
  assumes "uniqueKeys key t" "r \<in> set t" "Q r" "\<And>x. Q x \<Longrightarrow> key x = key r"
  shows "updateMany Q f t = updateRow key (key r) f t"
  unfolding updateMany_def updateRow_def
proof (rule map_cong [OF refl])
  fix x assume "x \<in> set t"
  then show "(if Q x then f x else x) = (if key x = key r then f x else x)"
    using assms unique_row [OF assms(1)] by metis
qed

section \<open>Operations on the books\<close>

text \<open>
  A PayPal capture belongs to a PayPal order, and no PayPal order is both cancelled and paid. (Only a
  status change on an outdated row leaves such an order behind.)
\<close>

definition payPalOk :: "order \<Rightarrow> bool" where
  "payPalOk ord = ((oPaypalCaptureId ord \<noteq> None \<longrightarrow> oFulfillmentMethod ord = FulfillmentMethod.PAYPAL)
     \<and> (oFulfillmentMethod ord = FulfillmentMethod.PAYPAL \<longrightarrow>
          \<not> (oStatus ord = OrderStatus.CANCELLED \<and> oPaymentStatus ord = PaymentStatus.PAID)))"

text \<open>
  A well-formed state: ids are unique and not empty, no count is negative, no digital store tracks
  inventory (the store settings refuse it), and the PayPal orders are as said.
\<close>

definition wf :: "db \<Rightarrow> bool" where
  "wf s = (uniqueKeys oId (orders s) \<and> uniqueStock s \<and> idsOk s \<and> stockOk s
     \<and> (\<forall>t \<in> set (tenants s). isDigitalStore t \<longrightarrow> \<not> tTracksInventory t)
     \<and> (\<forall>ord \<in> set (orders s). payPalOk ord))"

definition keepsFinal :: "db \<Rightarrow> db \<Rightarrow> bool" where
  "keepsFinal s s' = (\<forall>k ord. rowOf oId k (orders s) = Some ord \<longrightarrow>
     (\<exists>ord'. rowOf oId k (orders s') = Some ord' \<and> oTenantId ord' = oTenantId ord
        \<and> (terminal ord \<longrightarrow> oStatus ord' = oStatus ord)))"

definition balanced :: "db \<Rightarrow> db \<Rightarrow> bool" where
  "balanced s s' = (wf s' \<and> tenants s' = tenants s \<and> (\<forall>k. ledger s' k = ledger s k) \<and> keepsFinal s s')"

lemma balanced_refl: "wf s \<Longrightarrow> balanced s s"
  by (simp add: balanced_def keepsFinal_def)

lemma keepsFinal_trans:
  assumes "keepsFinal s s'" "keepsFinal s' s''"
  shows "keepsFinal s s''"
  unfolding keepsFinal_def
proof (intro allI impI)
  fix k ord assume "rowOf oId k (orders s) = Some ord"
  then obtain o1 where o1: "rowOf oId k (orders s') = Some o1" "oTenantId o1 = oTenantId ord"
    "terminal ord \<longrightarrow> oStatus o1 = oStatus ord"
    using assms(1) by (auto simp: keepsFinal_def)
  then obtain o2 where "rowOf oId k (orders s'') = Some o2" "oTenantId o2 = oTenantId o1"
    "terminal o1 \<longrightarrow> oStatus o2 = oStatus o1"
    using assms(2) unfolding keepsFinal_def by blast
  with o1 show "\<exists>ord'. rowOf oId k (orders s'') = Some ord' \<and> oTenantId ord' = oTenantId ord
      \<and> (terminal ord \<longrightarrow> oStatus ord' = oStatus ord)"
    by auto
qed

lemma balanced_trans: "balanced s s' \<Longrightarrow> balanced s' s'' \<Longrightarrow> balanced s s''"
  by (auto simp: balanced_def intro: keepsFinal_trans)

text \<open>An operation on the orders: the contract every step of the system keeps.\<close>

locale order_operation =
  fixes operation :: "db \<Rightarrow> db \<Rightarrow> bool"
  assumes balances: "operation s s' \<Longrightarrow> wf s \<Longrightarrow> balanced s s'"
begin

lemma run_balanced:
  assumes "operation\<^sup>*\<^sup>* s s'" "wf s"
  shows "balanced s s'"
  using assms
proof (induction rule: rtranclp_induct)
  case base
  then show ?case by (rule balanced_refl)
next
  case (step x y)
  then have "balanced s x" by simp
  moreover have "wf x" using \<open>balanced s x\<close> by (simp add: balanced_def)
  ultimately show ?case using step.hyps(2) balances balanced_trans by blast
qed

lemma run_ledger: "operation\<^sup>*\<^sup>* s s' \<Longrightarrow> wf s \<Longrightarrow> ledger s' k = ledger s k \<and> stockOk s'"
  using run_balanced [of s s'] unfolding balanced_def wf_def by blast

lemma run_final:
  assumes "operation\<^sup>*\<^sup>* s s'" "wf s" "rowOf oId k (orders s) = Some ord" "terminal ord"
  shows "\<exists>ord'. rowOf oId k (orders s') = Some ord' \<and> oStatus ord' = oStatus ord"
proof -
  have "keepsFinal s s'" using run_balanced [OF assms(1,2)] by (simp add: balanced_def)
  with assms(3,4) show ?thesis unfolding keepsFinal_def by blast
qed

end

text \<open>Writes that touch no stock and move no order in or out of the cancelled ones.\<close>

definition harmless :: "order \<Rightarrow> order \<Rightarrow> bool" where
  "harmless r r' = ((oStatus r' = OrderStatus.CANCELLED \<longleftrightarrow> oStatus r = OrderStatus.CANCELLED)
     \<and> (terminal r \<longrightarrow> oStatus r' = oStatus r) \<and> (payPalOk r \<longrightarrow> payPalOk r'))"

definition quiet :: "db \<Rightarrow> db \<Rightarrow> bool" where
  "quiet s s' = (products s' = products s \<and> variants s' = variants s \<and> tenants s' = tenants s
     \<and> (\<exists>Q f. orders s' = updateMany Q f (orders s)
        \<and> (\<forall>r. oId (f r) = oId r \<and> oTenantId (f r) = oTenantId r \<and> oItems (f r) = oItems r)
        \<and> (\<forall>r \<in> set (orders s). Q r \<longrightarrow> harmless r (f r))))"

lemma quiet_tables:
  assumes "quiet s s1" "products s2 = products s1" "variants s2 = variants s1" "tenants s2 = tenants s1" "orders s2 = orders s1"
  shows "quiet s s2"
  using assms unfolding quiet_def by simp

lemma quiet_refl: "quiet s s"
proof -
  have "orders s = updateMany (\<lambda>_. False) id (orders s)" by (simp add: updateMany_none)
  then show ?thesis unfolding quiet_def by fastforce
qed

lemma sameStock:
  assumes "products s' = products s" "variants s' = variants s"
  shows "stockOf s' k = stockOf s k" "uniqueStock s' = uniqueStock s" "idsOk s' = idsOk s" "stockOk s' = stockOk s"
  using assms by (cases k; simp add: uniqueStock_def idsOk_def stockOk_def)+

lemma quiet_balanced:
  assumes "quiet s s'" "wf s"
  shows "balanced s s'"
proof -
  from assms(1) obtain Q f where
    p: "products s' = products s" "variants s' = variants s" "tenants s' = tenants s" and
    ord: "orders s' = updateMany Q f (orders s)" and
    f: "\<And>r. oId (f r) = oId r" "\<And>r. oTenantId (f r) = oTenantId r" "\<And>r. oItems (f r) = oItems r" and
    h: "\<And>r. r \<in> set (orders s) \<Longrightarrow> Q r \<Longrightarrow> harmless r (f r)"
    unfolding quiet_def by blast
  have "map (orderHeld s k) (orders s') = map (orderHeld s k) (orders s)" for k
    unfolding ord updateMany_def using h f(2,3) by (auto simp: orderHeld_def tracked_def harmless_def)
  then have "outstanding s' k = outstanding s k" for k
    by (simp add: outstanding_def orderHeld_cong [OF p(3)])
  then have "ledger s' k = ledger s k" for k using sameStock(1) [OF p(1,2)] by (simp add: ledger_def)
  moreover have "payPalOk r" if "r \<in> set (orders s')" for r
    using that h assms(2) by (auto simp: ord set_updateMany wf_def harmless_def)
  then have "wf s'"
    using assms(2) sameStock(2-4) [OF p(1,2)] p(3) f(1)
    by (simp add: wf_def ord uniqueKeys_updateMany)
  moreover have "keepsFinal s s'"
    unfolding keepsFinal_def ord using h f
    by (auto simp: rowOf_updateMany harmless_def dest: rowOf_SomeD)
  ultimately show ?thesis using p(3) by (simp add: balanced_def)
qed

text \<open>A new order that takes its stock, if its store tracks any.\<close>

lemma take_balanced:
  assumes "wf s" and o: "orders s' = orders s @ [ord]" "rowOf oId (oId ord) (orders s) = None" "oStatus ord \<noteq> OrderStatus.CANCELLED"
    "payPalOk ord"
    and p: "products s' = products (shiftStock g s)" "variants s' = variants (shiftStock g s)" "tenants s' = tenants s"
    and g: "\<And>k. g k = (if tracked s ord then - held (map stockItemOf (oItems ord)) k else 0)" and ok: "stockOk s'"
  shows "balanced s s'"
proof -
  note st = sameStock [OF p(1,2)]
  have "outstanding s' k = outstanding s k - g k" for k
    using o(3) by (simp add: outstanding_def o(1) orderHeld_cong [OF p(3)] orderHeld_def [of s k ord] g)
  then have "ledger s' k = ledger s k" for k
    by (simp add: ledger_def st option.map_comp comp_def)
  moreover have "wf s'"
    using assms(1) o(2,4) ok st(2,3) p(3) by (simp add: wf_def o(1) uniqueKeys_append1)
      (simp add: idsOk_def shiftStock_def list_all_iff)
  moreover have "keepsFinal s s'" by (auto simp: keepsFinal_def o(1) rowOf_append1)
  ultimately show ?thesis using p(3) by (simp add: balanced_def)
qed

text \<open>An open order rewritten in place, with the stock moved by what it holds less.\<close>

lemma rewrite_balanced:
  assumes "wf s" and r: "r \<in> set (orders s)" "\<not> terminal r" and o: "orders s' = updateRow oId (oId r) f (orders s)"
    and f: "\<And>x. oId (f x) = oId x" "\<And>x. oTenantId (f x) = oTenantId x" "payPalOk (f r)"
    and st: "\<And>k q. stockOf s k = Some q \<Longrightarrow> stockOf s' k = Some (q + orderHeld s k r - orderHeld s k (f r))"
      "\<And>k. stockOf s k = None \<Longrightarrow> stockOf s' k = None"
    and ok: "tenants s' = tenants s" "stockOk s'" "uniqueStock s'" "idsOk s'"
  shows "balanced s s'"
proof -
  have u: "uniqueKeys oId (orders s)" using assms(1) by (simp add: wf_def)
  have "outstanding s' k = outstanding s k - orderHeld s k r + orderHeld s k (f r)" for k
    using sum_updateRow [OF u r(1), of "orderHeld s k" f]
    by (simp add: outstanding_def o orderHeld_cong [OF ok(1)])
  then have "ledger s' k = ledger s k" for k
    using st [of k] by (cases "stockOf s k") (simp_all add: ledger_def)
  moreover have "payPalOk x" if "x \<in> set (orders s')" for x
  proof -
    from that obtain y where y: "y \<in> set (orders s)" "x = (if oId y = oId r then f y else y)"
      by (auto simp: o updateRow_def set_updateMany)
    moreover have "y = r" if "oId y = oId r" using u y(1) r(1) that by (rule unique_row)
    ultimately show ?thesis using f(3) assms(1) by (auto simp: wf_def)
  qed
  then have "wf s'"
    using assms(1) ok f(1) by (simp add: wf_def o uniqueKeys_updateRow)
  moreover have "keepsFinal s s'"
    unfolding keepsFinal_def
  proof (intro allI impI)
    fix k ord assume k: "rowOf oId k (orders s) = Some ord"
    show "\<exists>ord'. rowOf oId k (orders s') = Some ord' \<and> oTenantId ord' = oTenantId ord \<and> (terminal ord \<longrightarrow> oStatus ord' = oStatus ord)"
    proof (cases "k = oId r")
      case True
      then have "ord = r" using k rowOf_unique [OF u r(1)] by simp
      then show ?thesis using k r(2) f True by (simp add: o rowOf_updateRow_same)
    next
      case False
      then show ?thesis using k f by (simp add: o rowOf_updateRow_other)
    qed
  qed
  ultimately show ?thesis using ok(1) by (simp add: balanced_def)
qed

text \<open>An open order that is cancelled and gives its stock back, if its store tracks any.\<close>

lemma release_balanced:
  assumes "wf s" and r: "r \<in> set (orders s)" "\<not> terminal r" and o: "orders s' = updateRow oId (oId r) f (orders s)"
    and f: "\<And>x. oId (f x) = oId x" "\<And>x. oTenantId (f x) = oTenantId x" "\<And>x. oStatus (f x) = OrderStatus.CANCELLED"
      "payPalOk (f r)"
    and p: "products s' = products (shiftStock (\<lambda>k. if tracked s r then held (map stockItemOf (oItems r)) k else 0) s)"
      "variants s' = variants (shiftStock (\<lambda>k. if tracked s r then held (map stockItemOf (oItems r)) k else 0) s)"
      "tenants s' = tenants s"
  shows "balanced s s'"
proof -
  note st = sameStock [OF p(1,2)]
  have "stockOk (shiftStock (\<lambda>k. if tracked s r then held (map stockItemOf (oItems r)) k else 0) s)"
  proof (cases "tracked s r")
    case True
    then show ?thesis using releaseStock_stockOk [of s "map stockItemOf (oItems r)"] assms(1)
      by (simp add: releaseStock_shift wf_def)
  next
    case False
    then show ?thesis using assms(1) by (simp add: wf_def)
  qed
  then show ?thesis
    using assms(1) st r(2) f(3)
    by (intro rewrite_balanced [OF assms(1) r o f(1,2,4)])
      (simp_all add: orderHeld_def p(3) wf_def, simp_all add: idsOk_def shiftStock_def list_all_iff)
qed

section \<open>Each operation keeps the books\<close>

lemma wfD:
  assumes "wf s"
  shows "uniqueKeys oId (orders s)" "uniqueStock s" "idsOk s" "stockOk s"
    and "rowOf tId tn (tenants s) = Some t \<Longrightarrow> tTracksInventory t \<Longrightarrow> \<not> isDigitalStore t"
    and "ord \<in> set (orders s) \<Longrightarrow> payPalOk ord"
  using assms by (auto simp: wf_def dest: rowOf_SomeD)

lemma createOrder_balanced:
  assumes "createOrder e s tn dto cid = Inr (s', ord, f)" "wf s"
  shows "balanced s s'"
proof (rule createOrder_InrE [OF assms(1)])
  fix t r s1 s2 msg
  assume t: "checkCreate e s tn dto = Inr t"
    and r: "priceOrder (eNow e) s tn (priceInputOf dto) \<lparr>lenientCoupon = False, onlyPublished = True\<rparr> = Inr r"
    and s1: "(if tTracksInventory t \<and> \<not> isDigitalStore t then reserveStock s (map stockLineOf (poLines r)) else Inr s) = Inr s1"
    and ord: "ord = newOrder e t dto cid r"
    and p: "products s' = products s1" "variants s' = variants s1" "tenants s' = tenants s"
    and os: "orders s' = (if messageMethod (coFulfillmentMethod dto)
       then updateRow oId (oId ord) (messaged msg) (orders s @ [ord]) else orders s @ [ord])"
    and new: "rowOf oId (oId ord) (orders s) = None"
  have row: "rowOf tId tn (tenants s) = Some t" and tn: "tId t = tn"
    using t by (auto simp: checkCreate_def res_eqs dest: rowOf_SomeD split: option.splits if_splits)
  then have cond: "(tTracksInventory t \<and> \<not> isDigitalStore t) = tTracksInventory t"
    using wfD(5) [OF assms(2)] by blast
  let ?o = "if messageMethod (coFulfillmentMethod dto) then messaged msg ord else ord"
  let ?g = "\<lambda>k. if tTracksInventory t then - held (map stockItemOf (oItems ord)) k else 0"
  have "orders s' = orders s @ [?o]"
    using os updateRow_missing [OF new, of "messaged msg"] by (auto simp: updateRow_def)
  moreover have o: "oId ?o = oId ord" "oStatus ?o \<noteq> OrderStatus.CANCELLED" "oItems ?o = oItems ord" "oTenantId ?o = tn"
      "payPalOk ?o"
    by (simp_all add: messaged_def ord newOrder_def tn payPalOk_def)
  moreover have "tracked s ?o = tTracksInventory t" by (simp add: tracked_def o(4) row)
  moreover have "products s1 = products (shiftStock ?g s)" "variants s1 = variants (shiftStock ?g s)" "stockOk s1"
  proof -
    have "products s1 = products (shiftStock ?g s) \<and> variants s1 = variants (shiftStock ?g s) \<and> stockOk s1"
    proof (cases "tTracksInventory t")
      case True
      have res: "reserveStock s (map stockLineOf (poLines r)) = Inr s1" using s1 cond True by simp
      have "- need (map stockLineOf (poLines r)) k = - held (map stockItemOf (oItems ord)) k" for k
        using held_newOrder [OF wfD(2,3) [OF assms(2)] r] by (simp add: ord)
      with True reserveStock_shift [OF wfD(2) [OF assms(2)] res] reserveStock_stockOk [OF wfD(4) [OF assms(2)] res]
      show ?thesis by simp
    next
      case False
      then show ?thesis using s1 wfD(4) [OF assms(2)] by simp
    qed
    then show "products s1 = products (shiftStock ?g s)" "variants s1 = variants (shiftStock ?g s)" "stockOk s1" by simp_all
  qed
  ultimately show ?thesis
    using p new
    by (intro take_balanced [OF assms(2), where ord = ?o and g = ?g]) (simp_all add: stockOk_def)
qed

lemma claimStatus_updateRow:
  assumes "claimStatus s tn ord st = Inr s1" "uniqueKeys oId (orders s)" "tenantOrder s tn k = Some ord" "st \<noteq> oStatus ord"
  shows "orders s1 = updateRow oId (oId ord) (statusChange ord st) (orders s)" "ord \<in> set (orders s)"
proof -
  have ord: "ord \<in> set (orders s)" "oTenantId ord = tn"
    using assms(3) by (auto simp: tenantOrder_def dest: findFirst_SomeD)
  then show "ord \<in> set (orders s)" by simp
  show "orders s1 = updateRow oId (oId ord) (statusChange ord st) (orders s)"
    using assms(1,4) ord by (auto simp: claimStatus_def Let_def intro!: updateMany_updateRow [OF assms(2)] split: if_splits)
qed

lemma updateStatus_balanced:
  assumes "updateStatus e s tn k st canRefund = Inr s'" "wf s"
  shows "balanced s s'"
proof -
  obtain ord where ord: "tenantOrder s tn k = Some ord" and app: "applyStatus e s tn ord st canRefund = Inr s'"
    using assms(1) by (auto simp: updateStatus_def findOneOrder_def res_eqs split: option.splits)
  have k: "oId ord = k" using ord by (auto simp: tenantOrder_def dest: findFirst_SomeD)
  show ?thesis
  proof (rule applyStatus_InrE [OF app])
    fix s1 s2 s3 s4 updated
    assume g: "\<not> (terminal ord \<and> st \<noteq> oStatus ord)"
      and c: "claimStatus s tn ord st = Inr s1"
      and s2: "s2 = (if (st = OrderStatus.REFUNDED \<or> st = OrderStatus.CANCELLED) \<and> oPaymentStatus ord = PaymentStatus.PAID
           then revokeForOrder e s1 (oId ord) (if st = OrderStatus.REFUNDED then ''refunded'' else ''cancelled'') else s1)"
      and s3: "(if st = OrderStatus.CANCELLED \<and> oStatus ord \<noteq> OrderStatus.CANCELLED then freeHeld s2 tn ord else Inr s2) = Inr s3"
      and s4: "(if returnsMoney ord st \<and> oStatus ord \<noteq> st then refundOrderPayment e s3 tn ord else Inr s3) = Inr s4"
      and s': "s' = emit (toOrderEvent order_status_updated updated) s4"
    note fr = applyStatus_orders [OF c s2 s3 s4]
    note row = claimStatus_row(2-6) [OF c ord [folded k] refl]
    have os: "orders s' = orders s1" "tenants s' = tenants s" "products s' = products s3" "variants s' = variants s3"
      using fr row by (simp_all add: s')
    show ?thesis
    proof (cases "st = OrderStatus.CANCELLED \<and> oStatus ord \<noteq> OrderStatus.CANCELLED")
      case True
      then have "freeHeld s2 tn ord = Inr s3" using s3 by simp
      then obtain t where t: "rowOf tId tn (tenants s) = Some t"
        and freed: "products s3 = products (if tTracksInventory t then releaseStock (map stockItemOf (oItems ord)) s2 else s2)"
          "variants s3 = variants (if tTracksInventory t then releaseStock (map stockItemOf (oItems ord)) s2 else s2)"
        using fr(10) row(2) by (auto simp: freeHeld_def Let_def returnCoupon_def split: option.splits if_splits)
      have tr: "tracked s ord = tTracksInventory t"
        using t ord by (auto simp: tracked_def tenantOrder_def dest: findFirst_SomeD)
      let ?g = "\<lambda>k. if tracked s ord then held (map stockItemOf (oItems ord)) k else 0"
      have "products s' = products (shiftStock ?g s) \<and> variants s' = variants (shiftStock ?g s)"
        using freed os fr row by (cases "tTracksInventory t") (simp_all add: tr releaseStock_shift shiftStock_def)
      moreover have "\<not> terminal ord" using True g by auto
      moreover have "st \<noteq> oStatus ord" using True by auto
      moreover have "payPalOk (statusChange ord st ord)"
        using wfD(6) [OF assms(2), of ord] tenantOrder_SomeD [OF ord] True
        by (auto simp: payPalOk_def setsRefunded_def returnsMoney_def isPaidGatewayOrder_def statusChange_def)
      ultimately show ?thesis
        using claimStatus_updateRow [OF c wfD(1) [OF assms(2)] ord] True os
        by (intro release_balanced [OF assms(2), where r = ord and f = "statusChange ord st"]) simp_all
    next
      case False
      then have p: "products s' = products s" "variants s' = variants s" using s3 os fr row by auto
      have in': "ord \<in> set (orders s)" using ord by (auto simp: tenantOrder_def dest: findFirst_SomeD)
      have only: "r = ord" if "r \<in> set (orders s)" "oId r = oId ord" for r
        using that in' by (intro unique_row [OF wfD(1) [OF assms(2)]]) auto
      have h: "harmless ord (statusChange ord st ord)"
        using False g by (auto simp: harmless_def payPalOk_def statusChange_def setsRefunded_def)
      have "\<exists>Q. orders s' = updateMany Q (statusChange ord st) (orders s) \<and> (\<forall>r \<in> set (orders s). Q r \<longrightarrow> r = ord)"
      proof (cases "st = oStatus ord")
        case True
        have "orders s' = updateMany (\<lambda>r. oId r = oId ord \<and> setsRefunded ord st) (statusChange ord st) (orders s)"
          using c True os by (auto simp: claimStatus_def updateOrder_def updateRow_def Let_def intro!: updateMany_none [symmetric] split: if_splits)
        with only show ?thesis by (intro exI conjI) (assumption, auto)
      next
        case st: False
        have "orders s' = updateMany (\<lambda>r. oId r = oId ord) (statusChange ord st) (orders s)"
          using claimStatus_updateRow [OF c wfD(1) [OF assms(2)] ord st] os by (simp add: updateRow_def)
        with only show ?thesis by blast
      qed
      then obtain Q where Q: "orders s' = updateMany Q (statusChange ord st) (orders s)"
        "\<And>r. r \<in> set (orders s) \<Longrightarrow> Q r \<Longrightarrow> r = ord" by blast
      have "harmless r (statusChange ord st r)" if "r \<in> set (orders s)" "Q r" for r
        using Q(2) [OF that] h by simp
      with Q(1) have "\<exists>Q f. orders s' = updateMany Q f (orders s)
        \<and> (\<forall>r. oId (f r) = oId r \<and> oTenantId (f r) = oTenantId r \<and> oItems (f r) = oItems r)
        \<and> (\<forall>r \<in> set (orders s). Q r \<longrightarrow> harmless r (f r))"
        by (intro exI [of _ Q] exI [of _ "statusChange ord st"]) simp
      then show ?thesis using p os by (intro quiet_balanced [OF _ assms(2)]) (simp add: quiet_def)
    qed
  qed
qed

lemma expireOrder_balanced:
  assumes "expireOrder s (k, tn) = Inr (s', n)" "wf s"
  shows "balanced s s'"
proof -
  let ?hit = "\<lambda>r. oId r = k \<and> oTenantId r = tn \<and> oStatus r = OrderStatus.PENDING \<and> oPaymentStatus r = PaymentStatus.PENDING"
  let ?f = "\<lambda>r :: order. r\<lparr>oStatus := OrderStatus.CANCELLED\<rparr>"
  show ?thesis
  proof (cases "countRows ?hit (orders s) = 0")
    case True
    then show ?thesis using assms balanced_refl by (simp add: expireOrder_def)
  next
    case False
    then obtain r where r: "r \<in> set (orders s)" "?hit r" by (auto simp: countRows_0_iff)
    let ?s1 = "s\<lparr>orders := updateMany ?hit ?f (orders s)\<rparr>"
    have u: "uniqueKeys oId (orders s)" using wfD(1) [OF assms(2)] .
    have up: "updateMany ?hit ?f (orders s) = updateRow oId (oId r) ?f (orders s)"
      using r by (intro updateMany_updateRow [OF u]) auto
    have "tenantOrder s tn k = Some r"
    proof -
      have "\<exists>q. tenantOrder s tn k = Some q" using r by (auto simp: tenantOrder_def findFirst_Some_ex)
      then obtain q where q: "tenantOrder s tn k = Some q" by blast
      then have "q = r" using r by (intro unique_row [OF u]) (auto simp: tenantOrder_def dest: findFirst_SomeD)
      with q show ?thesis by simp
    qed
    then have "tenantOrder ?s1 tn k = Some (?f r)"
      using r by (simp add: tenantOrder_def findFirst_updateMany)
    then obtain t where t: "rowOf tId tn (tenants s) = Some t"
      and s': "s' = (let s2 = (if tTracksInventory t \<and> tCatalogType t \<noteq> DIGITAL then releaseStock (map stockItemOf (oItems r)) ?s1 else ?s1)
          in if truthy (oCouponId r) then returnCoupon (oCouponId r) s2 else s2)"
      using assms(1) False by (auto simp: expireOrder_def Let_def split: option.splits)
    have dig: "(tTracksInventory t \<and> tCatalogType t \<noteq> DIGITAL) = tTracksInventory t"
      using wfD(5) [OF assms(2) t] by (auto simp: isDigitalStore_def)
    have tr: "tracked s r = tTracksInventory t" using t r(2) by (simp add: tracked_def)
    let ?g = "\<lambda>k. if tracked s r then held (map stockItemOf (oItems r)) k else 0"
    have "products s' = products (shiftStock ?g s) \<and> variants s' = variants (shiftStock ?g s) \<and> tenants s' = tenants s
      \<and> orders s' = updateRow oId (oId r) ?f (orders s)"
      unfolding s' dig
      by (cases "tTracksInventory t") (simp_all add: Let_def up tr releaseStock_shift shiftStock_def returnCoupon_def split: option.split)
    then show ?thesis
      using r by (intro release_balanced [OF assms(2), where r = r and f = ?f]) (auto simp: payPalOk_def dest: wfD(6) [OF assms(2)])
  qed
qed

lemma quietI:
  assumes "products s' = products s" "variants s' = variants s" "tenants s' = tenants s"
    and "orders s' = updateMany Q f (orders s)"
    and "\<And>r. oId (f r) = oId r" "\<And>r. oTenantId (f r) = oTenantId r" "\<And>r. oItems (f r) = oItems r"
    and "\<And>r. r \<in> set (orders s) \<Longrightarrow> Q r \<Longrightarrow> harmless r (f r)"
  shows "quiet s s'"
  using assms unfolding quiet_def by blast

lemma harmless_same:
  "oStatus r' = oStatus r \<Longrightarrow> oPaymentStatus r' = oPaymentStatus r \<Longrightarrow> oFulfillmentMethod r' = oFulfillmentMethod r
    \<Longrightarrow> oPaypalCaptureId r' = oPaypalCaptureId r \<Longrightarrow> harmless r r'"
  by (simp add: harmless_def payPalOk_def)

text \<open>Writes of references of a checkout, of a proof, of the mark that hides an order.\<close>

lemma quiet_updateOrder:
  assumes "\<And>r. oId (f r) = oId r" "\<And>r. oTenantId (f r) = oTenantId r" "\<And>r. oItems (f r) = oItems r"
    "\<And>r. oStatus (f r) = oStatus r" "\<And>r. oPaymentStatus (f r) = oPaymentStatus r"
    "\<And>r. oFulfillmentMethod (f r) = oFulfillmentMethod r" "\<And>r. oPaypalCaptureId (f r) = oPaypalCaptureId r"
  shows "quiet s (updateOrder k f s)"
  by (rule quietI [where Q = "\<lambda>r. oId r = k" and f = f])
    (simp_all add: updateOrder_def updateRow_def assms harmless_same)

lemma paymentRef_items: "oItems (paymentRef p r) = oItems r"
  by (cases p) (simp_all split: option.split)

lemma paymentRef_method: "oFulfillmentMethod (paymentRef p r) = oFulfillmentMethod r"
  by (cases p) (simp_all split: option.split)

text \<open>The row a settlement acts on was read from its order, at some time: an order keeps its method.\<close>

definition readOf :: "db \<Rightarrow> uuid \<Rightarrow> uuid \<Rightarrow> order option \<Rightarrow> bool" where
  "readOf s tn k ex = (case ex of None \<Rightarrow> True | Some x \<Rightarrow>
     (case tenantOrder s tn k of None \<Rightarrow> False | Some r \<Rightarrow> oFulfillmentMethod x = oFulfillmentMethod r))"

lemma readOf_current: "readOf s tn k (tenantOrder s tn k)"
  by (simp add: readOf_def split: option.split)

lemma settlePayment_quiet:
  assumes "wf s" "readOf s tn k ex"
  shows "quiet s (fst (settlePayment e s tn k p ex))"
proof -
  have tables: "products (fst (confirmPaid e s tn k ref w)) = products s"
    "variants (fst (confirmPaid e s tn k ref w)) = variants s"
    "tenants (fst (confirmPaid e s tn k ref w)) = tenants s" for ref w
    by (simp_all add: confirmPaid_def Let_def table_simps)
  have "quiet s (fst (confirmPaid e s tn k (paymentRef p) w))"
    if x: "ex = Some x" "paymentMatches p x" for w x
  proof (rule quietI [OF tables confirmPaid_orders])
    fix r assume r: "r \<in> set (orders s)" "confirmable tn k r"
    obtain q where q: "tenantOrder s tn k = Some q" "oFulfillmentMethod x = oFulfillmentMethod q"
      using assms(2) x(1) by (auto simp: readOf_def split: option.splits)
    have "q = r"
      using r tenantOrder_SomeD [OF q(1)] by (intro unique_row [OF wfD(1) [OF assms(1)]]) (auto simp: confirmable_def)
    then have "oPaypalCaptureId (paymentRef p r) \<noteq> None \<Longrightarrow> payPalOk r \<Longrightarrow> oFulfillmentMethod r = FulfillmentMethod.PAYPAL"
      using x(2) q(2) by (cases p) (auto simp: payPalOk_def split: option.splits)
    then show "harmless r (markPaid (paymentRef p) r)"
      using r(2) by (auto simp: harmless_def payPalOk_def markPaid_def confirmable_def paymentRef_method)
  qed (simp_all add: markPaid_def paymentRef_keeps paymentRef_items)
  with quiet_refl settlePayment_outcome [of e s tn k p ex] show ?thesis by auto
qed

lemma sameTables_refund:
  "refundPaymentIntent e s tn i = Inr s' \<Longrightarrow> products s' = products s \<and> variants s' = variants s \<and> tenants s' = tenants s \<and> orders s' = orders s"
  by (auto simp: refundPaymentIntent_def res_eqs split: option.splits)

lemma quiet_emit: "quiet s s1 \<Longrightarrow> quiet s (emit x s1)"
  by (rule quiet_tables) simp_all

lemma handleStripeWebhook_quiet:
  assumes "handleStripeWebhook e s ev = Inr s'" "wf s"
  shows "quiet s s'"
proof -
  have q: "quiet s s1" if "settleStripe e s tn k account session (tenantOrder s tn k) = Inr (s1, nd)"
    for tn k account session s1 nd
    using settlePayment_quiet [OF assms(2) readOf_current, of e tn k "StripePayment account session"] that by simp
  have r: "quiet s s1 \<Longrightarrow> refundPaymentIntent e s1 tn i = Inr s2 \<Longrightarrow> quiet s s2" for tn i s1 s2
    using sameTables_refund quiet_tables by blast
  show ?thesis
    using assms(1) quiet_refl
    by (auto simp: handleStripeWebhook_def Let_def bind_res_eq_Inr split: option.splits StripeEvent.splits if_splits sum.splits
        dest!: q intro: r)
qed

lemma attemptRefund_quiet: "quiet s s1 \<Longrightarrow> quiet s (attemptRefund e p i s1)"
  by (auto simp: attemptRefund_def quiet_emit split: option.split)

lemma handleMercadoPagoWebhook_quiet:
  assumes "handleMercadoPagoWebhook e gp s ok d ty = Inr s'" "wf s"
  shows "quiet s s'"
proof -
  have q: "quiet s (fst (settleMercadoPago e s tn k payment (tenantOrder s tn k)))" for tn k payment
    using settlePayment_quiet [OF assms(2) readOf_current, of e tn k "MercadoPago payment"] by simp
  show ?thesis
    using assms(1) quiet_refl q attemptRefund_quiet [OF q]
    by (auto simp: handleMercadoPagoWebhook_def Let_def res_eqs split: if_splits)
qed

lemma settlePayPal_quiet:
  assumes "wf s"
  shows "quiet s (settlePayPal e s tn k st)"
proof -
  have q: "quiet s (fst (settlePayPalTx e s tn k st (tenantOrder s tn k)))"
    using settlePayment_quiet [OF assms readOf_current, of e tn k "PayPal st"] by simp
  have "quiet s (s\<lparr>orders := declined tn k (orders s)\<rparr>)"
    by (rule quietI [where Q = "\<lambda>ord. oId ord = k \<and> oTenantId ord = tn \<and> oPaymentStatus ord = PaymentStatus.PENDING"
          and f = "\<lambda>ord. ord\<lparr>oPaymentStatus := PaymentStatus.FAILED\<rparr>"])
      (simp_all add: declined_def harmless_def payPalOk_def)
  then show ?thesis
    using q attemptRefund_quiet [OF q] quiet_refl by (auto simp: settlePayPal_def declined_def Let_def)
qed

lemma findFirst_unique:
  assumes "findFirst P t = Some r" "uniqueKeys key t" "x \<in> set t" "key x = key r"
  shows "x = r"
  using findFirst_SomeD [OF assms(1)] assms(2-4) by (intro unique_row [OF assms(2)]) auto

lemma markPayPalOrderLost_quiet:
  assumes "wf s"
  shows "quiet s (markPayPalOrderLost e s c target)"
proof (cases "findOrderByPaypalCaptureId s c")
  case None
  then show ?thesis using quiet_refl by (simp add: markPayPalOrderLost_def)
next
  case (Some ref)
  then have find: "findFirst (\<lambda>ord. oPaypalCaptureId ord = Some c) (orders s) = Some ref"
    by (simp add: findOrderByPaypalCaptureId_def)
  have cap: "oPaypalCaptureId ref = Some c" "payPalOk ref"
    using findFirst_SomeD [OF find] wfD(6) [OF assms] by auto
  note only = findFirst_unique [OF find wfD(1) [OF assms]]
  show ?thesis
  proof (cases target)
    case toREFUNDED
    show ?thesis
      by (rule quietI [where Q = "\<lambda>ord. oId ord = oId ref \<and> oPaymentStatus ord = PaymentStatus.PAID"
            and f = "\<lambda>ord. ord\<lparr>oPaymentStatus := PaymentStatus.REFUNDED, oStatus := OrderStatus.REFUNDED\<rparr>"])
        (use Some toREFUNDED cap only in \<open>auto simp: markPayPalOrderLost_def Let_def table_simps harmless_def payPalOk_def terminal_iff\<close>)
  next
    case toDISPUTED
    show ?thesis
      by (rule quietI [where Q = "\<lambda>ord. oId ord = oId ref
              \<and> (oPaymentStatus ord = PaymentStatus.PAID \<or> oPaymentStatus ord = PaymentStatus.REFUNDED)"
            and f = "\<lambda>ord. ord\<lparr>oPaymentStatus := PaymentStatus.DISPUTED\<rparr>"])
        (use Some toDISPUTED in \<open>auto simp: markPayPalOrderLost_def Let_def table_simps harmless_def payPalOk_def\<close>)
  qed
qed

lemma handlePayPalWebhook_quiet:
  assumes "handlePayPalWebhook e capture s verified ev = Inr s'" "wf s"
  shows "quiet s s'"
proof -
  have emitted: "wf (emit x s)" for x
    using assms(2) by (simp add: wf_def uniqueStock_def idsOk_def stockOk_def)
  have q: "quiet s (settlePayPal e (emit x s) tn k st)" for x tn k st
    using settlePayPal_quiet [OF emitted, where e = e and tn = tn and k = k and st = st] by (simp add: quiet_def)
  show ?thesis
    using assms(1) quiet_refl q quiet_emit [OF quiet_refl] settlePayPal_quiet [OF assms(2)] markPayPalOrderLost_quiet [OF assms(2)]
    by (auto simp: handlePayPalWebhook_def settleCapture_def Let_def res_eqs
        split: if_splits PayPalEvent.splits option.splits)
qed

lemma capturePayPalOrder_quiet:
  assumes "capturePayPalOrder e capture s tn k = Inr (s', r)" "wf s"
  shows "quiet s s'"
proof -
  have emitted: "wf (emit x s)" for x
    using assms(2) by (simp add: wf_def uniqueStock_def idsOk_def stockOk_def)
  have q: "quiet s (settlePayPal e (emit x s) tn k st)" for x tn k st
    using settlePayPal_quiet [OF emitted, where e = e and tn = tn and k = k and st = st] by (simp add: quiet_def)
  show ?thesis
    using assms(1) quiet_refl q quiet_emit [OF quiet_refl]
    by (auto simp: capturePayPalOrder_def Let_def res_eqs split: if_splits option.splits)
qed

lemma createStripeCheckout_quiet:
  assumes "createStripeCheckout e openCheckout s tn k urls = Inr (s', r)"
  shows "quiet s s'"
proof -
  obtain s1 x where s1: "s1 = s \<or> (\<exists>y. s1 = emit y s)"
    and s': "s' = updateOrder k (\<lambda>r. r\<lparr>oStripeCheckoutSessionId := x\<rparr>) s1"
    using assms by (auto simp: createStripeCheckout_def Let_def res_eqs split: if_splits option.splits)
  have "quiet s1 s'" unfolding s' by (rule quiet_updateOrder) simp_all
  moreover have "products s1 = products s \<and> variants s1 = variants s \<and> tenants s1 = tenants s \<and> orders s1 = orders s"
    using s1 by auto
  ultimately show ?thesis unfolding quiet_def by simp
qed

lemma otherCheckout_quiet:
  "createMercadoPagoCheckout e openCheckout s tn k urls = Inr (s', r) \<Longrightarrow> quiet s s'"
  "createPayPalCheckout e openCheckout s tn k urls = Inr (s', r) \<Longrightarrow> quiet s s'"
  by (auto simp: createMercadoPagoCheckout_def createPayPalCheckout_def res_eqs split: if_splits option.splits
      intro!: quiet_updateOrder)

lemma confirmManualPayment_quiet:
  assumes "confirmManualPayment e s tn k = Inr s'" "wf s"
  shows "quiet s s'"
proof -
  obtain ord where ord: "tenantOrder s tn k = Some ord" "\<not> terminal ord" "oFulfillmentMethod ord = FulfillmentMethod.ZELLE"
    using assms(1) by (auto simp: confirmManualPayment_def split: option.splits if_splits)
  have "r = ord" if "r \<in> set (orders s)" "oId r = k" for r
    using that ord(1) by (intro unique_row [OF wfD(1) [OF assms(2)]]) (auto simp: tenantOrder_def dest: findFirst_SomeD)
  then show ?thesis
    using assms(1) ord
    by (intro quietI [where Q = "\<lambda>r. oId r = k \<and> oPaymentStatus ord \<noteq> PaymentStatus.PAID" and f = "\<lambda>r. r\<lparr>oPaymentStatus := PaymentStatus.PAID, oStatus := OrderStatus.CONFIRMED\<rparr>"])
      (auto simp: confirmManualPayment_def Let_def updateOrder_def updateRow_def table_simps updateMany_none
        harmless_def payPalOk_def terminal_def split: if_splits)
qed

lemma rejectManualPayment_quiet: "rejectManualPayment s tn k = Inr s' \<Longrightarrow> quiet s s'"
  by (auto simp: rejectManualPayment_def split: option.splits if_splits
      intro!: quiet_tables [OF quiet_updateOrder [where f = "\<lambda>r. r\<lparr>oPaymentProofUrl := None, oPaymentReference := None\<rparr>"]])

lemma submitPaymentProof_quiet: "submitPaymentProof e s tn k dto = Inr s' \<Longrightarrow> quiet s s'"
  by (rule quietI [where Q = "\<lambda>r. oId r = k" and f = "\<lambda>r. r\<lparr>oPaymentProofUrl := Some (ppProofUrl dto),
       oPaymentReference := (case ppReference dto of Some x \<Rightarrow> Some x | None \<Rightarrow> oPaymentReference r)\<rparr>"])
    (auto simp: submitPaymentProof_def updateOrder_def updateRow_def Let_def res_eqs harmless_same split: if_splits)

lemma hide_quiet: "hide e s tn k = Inr s' \<Longrightarrow> quiet s s'"
  by (auto simp: hide_def res_eqs split: if_splits intro!: quiet_updateOrder)

text \<open>
  An edit of an order as the code handles it: no two of its lines are of one article (what an edit
  does to an order with such lines is \<open>repeated_article_edit_corrupts\<close>), new rows get ids of their own, and
  every variant has its product.
\<close>

definition editable :: "env \<Rightarrow> db \<Rightarrow> uuid \<Rightarrow> uuid \<Rightarrow> bool" where
  "editable e s tn k = (articlesOk s \<and> (case tenantOrder s tn k of None \<Rightarrow> True | Some ord \<Rightarrow>
     distinct (map itemKeyOf (oItems ord)) \<and> distinct (map iId (oItems ord)) \<and> freshIds e ord))"

lemma applyItemChanges_untracked:
  assumes "applyItemChanges e s ord rp False = Inr s'"
  shows "s' = updateOrder (oId ord) (\<lambda>r. r\<lparr>oItems := editedItems e s ord rp\<rparr>) s"
  using assms by (auto simp: applyItemChanges_def editedItems_def Let_def split: prod.splits)

lemma applyItemChanges_tables:
  assumes "applyItemChanges e s ord rp True = Inr s'" "uniqueStock s" "idsOk s"
  shows "(\<forall>k. stockOf s k = None \<longrightarrow> stockOf s' k = None) \<and> uniqueStock s' \<and> idsOk s'"
proof -
  obtain f res rel s2 where s2: "reserveStock (updateOrder (oId ord) f s) res = Inr s2" "s' = releaseStock rel s2"
    using assms(1) by (auto simp: applyItemChanges_def Let_def res_eqs split: prod.splits)
  let ?s1 = "updateOrder (oId ord) f s"
  have u: "uniqueStock ?s1" "idsOk ?s1" using assms(2,3) by (simp_all add: uniqueStock_def idsOk_def updateOrder_def)
  have s': "s' = shiftStock (\<lambda>k. held rel k - need res k) ?s1"
    unfolding s2(2) releaseStock_shift reserveStock_shift [OF u(1) s2(1)] by simp
  have "stockOf ?s1 k = stockOf s k" for k by (cases k) (simp_all add: updateOrder_def)
  with u show ?thesis by (simp add: s') (simp add: idsOk_def shiftStock_def list_all_iff)
qed

text \<open>What the edit of the items leaves: the order's lines, and the stock moved by the difference.\<close>

definition itemsMoved :: "db \<Rightarrow> order \<Rightarrow> orderItem list \<Rightarrow> db \<Rightarrow> bool" where
  "itemsMoved s ord xs s1 = (orders s1 = updateRow oId (oId ord) (\<lambda>r. r\<lparr>oItems := xs\<rparr>) (orders s)
     \<and> tenants s1 = tenants s \<and> stockOk s1 \<and> uniqueStock s1 \<and> idsOk s1
     \<and> (\<forall>k. stockOf s1 k = map_option (\<lambda>q. q + orderHeld s k ord - orderHeld s k (ord\<lparr>oItems := xs\<rparr>)) (stockOf s k)))"

lemma editItems_moved:
  assumes "editItems e s tn ord dto = Inr (s1, totals, changed)" and "wf s"
    and "ord \<in> set (orders s)" "oTenantId ord = tn" "\<not> terminal ord"
    and "articlesOk s" "distinct (map itemKeyOf (oItems ord))" "distinct (map iId (oItems ord))" "freshIds e ord"
  shows "\<exists>xs. itemsMoved s ord xs s1 \<and> (totals = id \<or> (\<exists>rp. totals = totalsChange rp))"
proof (cases "uoItems dto = None \<and> uoShippingId dto = None")
  case True
  have "itemsMoved s ord (oItems ord) s"
  proof -
    have "r\<lparr>oItems := oItems ord\<rparr> = r" if "r \<in> set (orders s)" "oId r = oId ord" for r
      using unique_row [OF wfD(1) [OF assms(2)] that(1) assms(3) that(2)] by simp
    then have "updateRow oId (oId ord) (\<lambda>r. r\<lparr>oItems := oItems ord\<rparr>) (orders s) = orders s"
      unfolding updateRow_def by (intro updateMany_nochange) auto
    then show ?thesis using wfD(2-4) [OF assms(2)] by (simp add: itemsMoved_def option.map_ident)
  qed
  with True assms(1) show ?thesis by (auto simp: editItems_def)
next
  case False
  then obtain rp t where rp: "reprice s tn ord (uoItems dto) (uoShippingId dto) = Inr rp"
      "rowOf tId tn (tenants s) = Some t" "applyItemChanges e s ord rp (tTracksInventory t) = Inr s1" "totals = totalsChange rp"
    using assms(1) by (auto simp: editItems_def Let_def res_eqs split: if_splits option.splits)
  let ?xs = "editedItems e s ord rp"
  have tr: "tracked s (ord\<lparr>oItems := xs\<rparr>) = tTracksInventory t" for xs using rp(2) assms(4) by (simp add: tracked_def)
  have nc: "oStatus ord \<noteq> OrderStatus.CANCELLED" using assms(5) by auto
  have "itemsMoved s ord ?xs s1"
  proof (cases "tTracksInventory t")
    case True
    then have ap: "applyItemChanges e s ord rp True = Inr s1" using rp(3) by simp
    note a = applyItemChanges_Inr [OF assms(7-9) rp(1) wfD(2,4,3) [OF assms(2)] assms(6) ap]
    have none: "stockOf s k = None \<Longrightarrow> stockOf s1 k = None" and u: "uniqueStock s1" "idsOk s1" for k
      using applyItemChanges_tables [OF ap wfD(2,3) [OF assms(2)]] by blast+
    have "stockOf s1 k = map_option (\<lambda>q. q + orderHeld s k ord - orderHeld s k (ord\<lparr>oItems := ?xs\<rparr>)) (stockOf s k)" for k
      using a(1) [of k] none [of k] tr [of ?xs] tr [of "oItems ord"] True nc
      by (cases "stockOf s k") (simp_all add: orderHeld_def)
    with a(2-4) u show ?thesis by (simp add: itemsMoved_def)
  next
    case False
    then have s1: "s1 = updateOrder (oId ord) (\<lambda>r. r\<lparr>oItems := ?xs\<rparr>) s"
      using rp(3) applyItemChanges_untracked by simp
    have "stockOf s1 k = stockOf s k" for k by (cases k) (simp_all add: s1 updateOrder_def)
    then show ?thesis
      using tr [of ?xs] tr [of "oItems ord"] False wfD(2-4) [OF assms(2)]
      by (simp add: itemsMoved_def s1 updateOrder_def orderHeld_def option.map_ident uniqueStock_def idsOk_def stockOk_def)
  qed
  with rp(4) show ?thesis by blast
qed

lemma contactChanges_status:
  "oTenantId (contactChanges d r) = oTenantId r" "oTenantId (addressChange d r) = oTenantId r" "oTenantId (totalsChange rp r) = oTenantId r"
  "oStatus (contactChanges d r) = oStatus r" "oStatus (addressChange d r) = oStatus r" "oStatus (totalsChange rp r) = oStatus r"
  "oFulfillmentMethod (contactChanges d r) = oFulfillmentMethod r" "oFulfillmentMethod (addressChange d r) = oFulfillmentMethod r"
  "oFulfillmentMethod (totalsChange rp r) = oFulfillmentMethod r"
  "oPaypalCaptureId (contactChanges d r) = oPaypalCaptureId r" "oPaypalCaptureId (addressChange d r) = oPaypalCaptureId r"
  "oPaypalCaptureId (totalsChange rp r) = oPaypalCaptureId r"
  by (simp_all add: contactChanges_def addressChange_def totalsChange_def split: option.split)

lemma updateDetails_balanced:
  assumes "updateDetails e s tn k dto = Inr s'" "editable e s tn k" "wf s"
  shows "balanced s s'"
proof -
  obtain ord where ord: "tenantOrder s tn k = Some ord" "\<not> terminal ord"
    using assms(1) by (auto simp: updateDetails_def findOneOrder_def res_eqs split: option.splits if_splits)
  have in': "ord \<in> set (orders s)" "oId ord = k" "oTenantId ord = tn" using tenantOrder_SomeD [OF ord(1)] by auto
  have ed: "articlesOk s" "distinct (map itemKeyOf (oItems ord))" "distinct (map iId (oItems ord))" "freshIds e ord"
    using assms(2) ord(1) by (simp_all add: editable_def)
  obtain payment s1 totals changed updated where h: "editItems e s tn ord dto = Inr (s1, totals, changed)"
      and s': "s' = emit (toOrderEvent order_status_updated updated)
        (if changed \<and> eInvoiceExists e tn k
         then requeueInvoice tn k (updateOrder k (\<lambda>r. (totals (addressChange dto (contactChanges dto r)))\<lparr>oPaymentStatus := payment\<rparr>) s1)
         else updateOrder k (\<lambda>r. (totals (addressChange dto (contactChanges dto r)))\<lparr>oPaymentStatus := payment\<rparr>) s1)"
    using assms(1) ord by (auto simp: updateDetails_def findOneOrder_def res_eqs Let_def split: option.splits)
  from editItems_moved [OF h assms(3) in'(1,3) ord(2) ed] obtain xs where
    m: "itemsMoved s ord xs s1" and tot: "totals = id \<or> (\<exists>rp. totals = totalsChange rp)" by blast
  define f where "f = (\<lambda>r. (totals (addressChange dto (contactChanges dto (r\<lparr>oItems := xs\<rparr>))))\<lparr>oPaymentStatus := payment\<rparr>)"
  have f: "oId (f r) = oId r" "oTenantId (f r) = oTenantId r" "oItems (f r) = xs" "oStatus (f r) = oStatus r"
    "oFulfillmentMethod (f r) = oFulfillmentMethod r" "oPaypalCaptureId (f r) = oPaypalCaptureId r" for r
    using tot by (auto simp: f_def contactChanges_status)
  have twice: "updateRow oId k g (updateRow oId k h t) = updateRow oId k (g \<circ> h) t"
    if "\<And>r. oId (h r) = oId r" for g h and t :: "order list"
    using that by (simp add: updateRow_def updateMany_def comp_def)
  have "orders s' = updateRow oId k (\<lambda>r. (totals (addressChange dto (contactChanges dto r)))\<lparr>oPaymentStatus := payment\<rparr>) (orders s1)"
    by (simp add: s' updateOrder_def requeueInvoice_def)
  then have os: "orders s' = updateRow oId (oId ord) f (orders s)"
    using m in'(2) by (simp add: itemsMoved_def twice f_def comp_def)
  have tables: "products s' = products s1" "variants s' = variants s1" "tenants s' = tenants s1"
    by (simp_all add: s' updateOrder_def requeueInvoice_def)
  have held: "orderHeld s a (f ord) = orderHeld s a (ord\<lparr>oItems := xs\<rparr>)" for a
    using f by (simp add: orderHeld_def tracked_def)
  have st: "stockOf s' a = stockOf s1 a" for a using sameStock(1) [OF tables(1,2)] .
  have pp: "payPalOk (f ord)"
    using wfD(6) [OF assms(3) in'(1)] ord(2) f by (auto simp: payPalOk_def)
  show ?thesis
    using m tables
    by (intro rewrite_balanced [OF assms(3) in'(1) ord(2) os f(1,2) pp])
      (simp_all add: st held itemsMoved_def sameStock(2-4) [OF tables(1,2)])
qed

section \<open>The system\<close>

inductive step :: "db \<Rightarrow> db \<Rightarrow> bool" where
  Create: "createOrder e s tn dto cid = Inr (s', ord, f) \<Longrightarrow> step s s'"
| Status: "updateStatus e s tn k st canRefund = Inr s' \<Longrightarrow> step s s'"
| Edit: "updateDetails e s tn k change = Inr s' \<Longrightarrow> editable e s tn k \<Longrightarrow> step s s'"
| Sweep: "expireOrder s (k, tn) = Inr (s', n) \<Longrightarrow> step s s'"
| Settle: "settlePayment e s tn k p ex = (s', refund) \<Longrightarrow> readOf s tn k ex \<Longrightarrow> step s s'"
| StripeCheckout: "createStripeCheckout e openCheckout s tn k urls = Inr (s', r) \<Longrightarrow> step s s'"
| MercadoPagoCheckout: "createMercadoPagoCheckout e openCheckout s tn k urls = Inr (s', r) \<Longrightarrow> step s s'"
| PayPalCheckout: "createPayPalCheckout e openCheckout s tn k urls = Inr (s', r) \<Longrightarrow> step s s'"
| StripeWebhook: "handleStripeWebhook e s ev = Inr s' \<Longrightarrow> step s s'"
| MercadoPagoWebhook: "handleMercadoPagoWebhook e gp s ok d ty = Inr s' \<Longrightarrow> step s s'"
| PayPalWebhook: "handlePayPalWebhook e capture s verified pev = Inr s' \<Longrightarrow> step s s'"
| PayPalReturn: "capturePayPalOrder e capture s tn k = Inr (s', pr) \<Longrightarrow> step s s'"
| ConfirmManual: "confirmManualPayment e s tn k = Inr s' \<Longrightarrow> step s s'"
| RejectManual: "rejectManualPayment s tn k = Inr s' \<Longrightarrow> step s s'"
| SubmitProof: "submitPaymentProof e s tn k proof = Inr s' \<Longrightarrow> step s s'"
| Hide: "hide e s tn k = Inr s' \<Longrightarrow> step s s'"

inductive_cases stepE: "step s s'"

lemma step_balanced:
  assumes "step s s'" "wf s"
  shows "balanced s s'"
  using assms(1)
proof cases
  case (Settle e tn k p ex refund)
  then show ?thesis using settlePayment_quiet [OF assms(2)] quiet_balanced [OF _ assms(2)] by (metis fst_conv)
next
  case Edit
  then show ?thesis using updateDetails_balanced assms(2) by blast
qed (use assms(2) in \<open>auto intro: createOrder_balanced updateStatus_balanced expireOrder_balanced quiet_balanced
    confirmManualPayment_quiet rejectManualPayment_quiet submitPaymentProof_quiet hide_quiet createStripeCheckout_quiet
    otherCheckout_quiet handleStripeWebhook_quiet handleMercadoPagoWebhook_quiet handlePayPalWebhook_quiet
    capturePayPalOrder_quiet\<close>)

interpretation sys: order_operation step
  by unfold_locales (rule step_balanced)

section \<open>Properties of the system\<close>

text \<open>
  C8: no stock is ever lost or made up. Start from a well-formed state (\<open>wf\<close>: unique ids, no negative count,
  no digital store tracks inventory, a capture only on a PayPal order and no PayPal order both cancelled and
  paid), with stores that track inventory and stores that do not. However orders are then placed, moved,
  edited, paid, settled, refunded or disputed by Stripe, MercadoPago and PayPal, confirmed or rejected by
  hand, hidden and swept, for every product and variant the count on the shelf plus what the orders that
  are not cancelled hold (those of stores that track inventory) is what it was, and no count is negative.
  Edits are those of orders with no two lines of one article; each request other than a settlement acts on
  the row as it is; switching tracking, editing the catalogue and purging a store are not among the steps.
\<close>

theorem stock_ledger_conserved:
  assumes "step\<^sup>*\<^sup>* s s'" "wf s"
  shows "ledger s' k = ledger s k \<and> stockOk s'"
  using assms by (rule sys.run_ledger)

lemma db0_wf: "wf db0"
  by (simp add: wf_def sample_defs uniqueKeys_def uniqueStock_def idsOk_def stockOk_def isDigitalStore_def payPalOk_def)

lemma placed0_step: "step db0 (fst placed0)"
  by (rule step.Create [OF createOrder_placed0])

theorem stock_ledger_conserved_witness:
  "ledger (fst placed0) (OfProduct ''p1'') = Some 7"
proof -
  have "ledger db0 (OfProduct ''p1'') = Some 7"
    by (simp add: ledger_def outstanding_def orderHeld_def tracked_def itemKey_def stockItemOf_def sample_defs)
  moreover have "ledger (fst placed0) (OfProduct ''p1'') = ledger db0 (OfProduct ''p1'')"
    using stock_ledger_conserved [OF r_into_rtranclp [of step, OF placed0_step] db0_wf] by blast
  ultimately show ?thesis by simp
qed

text \<open>
  C9: a cancelled or refunded order stays so. From a well-formed state (as in C8, so no PayPal order is both
  cancelled and paid: the refund webhook would move such a one on to refunded), no sequence of the steps of
  C8 (requests, edits, webhooks of the three providers with their refunds and disputes, the sweep) deletes
  the order or changes its status. Its payment status may still change: a refund can be disputed.
\<close>

theorem terminal_orders_stay:
  assumes "step\<^sup>*\<^sup>* s s'" "wf s" "rowOf oId k (orders s) = Some ord" "terminal ord"
  shows "\<exists>ord'. rowOf oId k (orders s') = Some ord' \<and> oStatus ord' = oStatus ord"
  using assms by (rule sys.run_final)

theorem terminal_orders_stay_witness:
  "\<exists>s'. updateStatus env0 db0 ''t1'' ''o1'' OrderStatus.CANCELLED True = Inr s'
    \<and> (\<forall>s''. step\<^sup>*\<^sup>* s' s'' \<longrightarrow> (\<exists>ord'. rowOf oId ''o1'' (orders s'') = Some ord' \<and> oStatus ord' = OrderStatus.CANCELLED))"
proof -
  let ?r = "updateStatus env0 db0 ''t1'' ''o1'' OrderStatus.CANCELLED True"
  have "\<not> isl ?r" "map_option oStatus (rowOf oId ''o1'' (orders (projr ?r))) = Some OrderStatus.CANCELLED" by code_simp+
  then obtain s' ord where s': "?r = Inr s'" "rowOf oId ''o1'' (orders s') = Some ord" "oStatus ord = OrderStatus.CANCELLED"
    by (cases ?r) auto
  have "wf s'" using updateStatus_balanced [OF s'(1) db0_wf] by (simp add: balanced_def)
  then show ?thesis using s' terminal_orders_stay [of s' _ "''o1''" ord] by auto
qed

lemma updateStatus_effects:
  assumes "updateStatus e s tn k st canRefund = Inr s'" "uniqueKeys oId (orders s)"
    and "tenantOrder s tn k = Some ord" "st \<noteq> oStatus ord"
  shows "orders s' = updateRow oId k (statusChange ord st) (orders s)"
    and "coupons s' = (if st = OrderStatus.CANCELLED \<and> truthy (oCouponId ord) then coupons (returnCoupon (oCouponId ord) s) else coupons s)"
proof -
  have app: "applyStatus e s tn ord st canRefund = Inr s'"
    using assms(1,3) by (auto simp: updateStatus_def findOneOrder_def)
  have k: "oId ord = k" using assms(3) by (auto simp: tenantOrder_def dest: findFirst_SomeD)
  obtain s1 s2 s3 s4 updated where c: "claimStatus s tn ord st = Inr s1"
    and s2: "s2 = (if (st = OrderStatus.REFUNDED \<or> st = OrderStatus.CANCELLED) \<and> oPaymentStatus ord = PaymentStatus.PAID
           then revokeForOrder e s1 (oId ord) (if st = OrderStatus.REFUNDED then ''refunded'' else ''cancelled'') else s1)"
    and s3: "(if st = OrderStatus.CANCELLED \<and> oStatus ord \<noteq> OrderStatus.CANCELLED then freeHeld s2 tn ord else Inr s2) = Inr s3"
    and s4: "(if returnsMoney ord st \<and> oStatus ord \<noteq> st then refundOrderPayment e s3 tn ord else Inr s3) = Inr s4"
    and s': "s' = emit (toOrderEvent order_status_updated updated) s4"
    by (rule applyStatus_InrE [OF app]) (rule that; assumption)
  note fr = applyStatus_orders [OF c s2 s3 s4]
  note row = claimStatus_row(2-6) [OF c assms(3) [folded k] refl]
  show "orders s' = updateRow oId k (statusChange ord st) (orders s)"
    using claimStatus_updateRow(1) [OF c assms(2-4)] fr by (simp add: s' k)
  show "coupons s' = (if st = OrderStatus.CANCELLED \<and> truthy (oCouponId ord) then coupons (returnCoupon (oCouponId ord) s) else coupons s)"
    using s3 fr row assms(4) by (auto simp: s' freeHeld_def Let_def returnCoupon_def split: option.splits if_splits)
qed

lemma coupon_given_back:
  assumes "uniqueKeys cpId (coupons s)" "list_all couponOk (coupons s)" "\<forall>c \<in> set (coupons s). cpId c \<noteq> []"
    and "createOrder e s tn dto cid = Inr (s', ord, f)"
  shows "(if truthy (oCouponId ord) then coupons (returnCoupon (oCouponId ord) s') else coupons s') = coupons s"
proof (rule createOrder_InrE [OF assms(4)])
  fix t r s1 s2
  assume r: "priceOrder (eNow e) s tn (priceInputOf dto) \<lparr>lenientCoupon = False, onlyPublished = True\<rparr> = Inr r"
    and s2: "(case poCoupon r of Some c \<Rightarrow> redeemCoupon s1 c | None \<Rightarrow> Inr s1) = Inr s2"
    and ord: "ord = newOrder e t dto cid r"
    and cs: "coupons s1 = coupons s" "coupons s' = coupons s2"
  show ?thesis
  proof (cases "poCoupon r")
    case None
    then show ?thesis using s2 cs(1) by (simp add: cs(2) ord newOrder_def)
  next
    case (Some c)
    note c = priceOrder_coupon(1) [OF r Some]
    have red: "redeemCoupon s1 c = Inr s2" using s2 Some by simp
    have "coupons (returnCoupon (Some (cpId c)) s2) = coupons s1"
      using rowOf_unique [OF assms(1) c] assms(1,2)
      by (intro returnCoupon_redeemCoupon [OF _ _ _ red]) (simp_all add: cs)
    moreover have "coupons (returnCoupon (Some (cpId c)) s') = coupons (returnCoupon (Some (cpId c)) s2)"
      by (simp add: returnCoupon_def cs)
    ultimately show ?thesis using Some assms(3) c by (simp add: ord newOrder_def cs)
  qed
qed

text \<open>Cancelling an order read as open and unpaid succeeds while the row still has that status.\<close>

lemma applyStatus_cancel_unpaid:
  assumes "tenantOrder s tn (oId ord) = Some now" "rowOf tId tn (tenants s) = Some t"
    and "oStatus now = oStatus ord" "\<not> terminal ord" "oPaymentStatus ord \<noteq> PaymentStatus.PAID"
  shows "\<exists>s' after. applyStatus e s tn ord OrderStatus.CANCELLED canRefund = Inr s'
    \<and> tenantOrder s' tn (oId ord) = Some after \<and> oStatus after = OrderStatus.CANCELLED
    \<and> oPaymentStatus after = oPaymentStatus now \<and> outbox s' = outbox s @ [toOrderEvent order_status_updated after]"
proof -
  let ?st = "OrderStatus.CANCELLED"
  have now: "now \<in> set (orders s)" "oId now = oId ord" "oTenantId now = tn"
    using assms(1) by (auto simp: tenantOrder_def dest: findFirst_SomeD)
  then have "countRows (\<lambda>r. oId r = oId ord \<and> oTenantId r = tn \<and> oStatus r = oStatus ord) (orders s) \<noteq> 0"
    using assms(3) by (auto simp: countRows_0_iff)
  then obtain s1 where c: "claimStatus s tn ord ?st = Inr s1"
    using assms(4) by (auto simp: claimStatus_def Let_def)
  note row = claimStatus_row [OF c assms(1,3)]
  have rm: "\<not> returnsMoney ord ?st" "\<not> setsRefunded ord ?st"
    using assms(5) by (simp_all add: returnsMoney_def setsRefunded_def)
  obtain after where after: "tenantOrder s1 tn (oId ord) = Some after" "oStatus after = ?st" "oPaymentStatus after = oPaymentStatus now"
    using row(1) rm by auto
  obtain s3 where s3: "freeHeld s1 tn ord = Inr s3"
    using assms(2) row(3) by (auto simp: freeHeld_def Let_def)
  note fr = freeHeld_InrD [OF s3]
  have "tenantOrder s3 tn (oId ord) = Some after" using after(1) fr(1) by (simp add: tenantOrder_def)
  then have "applyStatus e s tn ord ?st canRefund = Inr (emit (toOrderEvent order_status_updated after) s3)"
    using assms(4,5) c rm s3 by (auto simp: applyStatus_def)
  then show ?thesis using after fr(1,2) row(2) by (auto simp: tenantOrder_def)
qed

text \<open>
  C10: cancelling an order undoes what placing it took. In a well-formed state (as in C8) whose coupon
  codes have ids of their own and keep to their limits, when an order is placed and then cancelled, with
  nothing in between, every product and variant has the stock it had before and every coupon its uses,
  whether or not the store tracks inventory.
\<close>

theorem cancel_undoes_create:
  assumes "wf s" "uniqueKeys cpId (coupons s)" "list_all couponOk (coupons s)" "\<forall>c \<in> set (coupons s). cpId c \<noteq> []"
    and "createOrder e s tn dto cid = Inr (s1, ord, f)"
    and "updateStatus e' s1 tn (oId ord) OrderStatus.CANCELLED canRefund = Inr s2"
  shows "(\<forall>k. stockOf s2 k = stockOf s k) \<and> coupons s2 = coupons s"
proof (rule createOrder_InrE [OF assms(5)])
  fix t r msg
  assume ord: "ord = newOrder e t dto cid r" and new: "rowOf oId (oId ord) (orders s) = None"
    and t: "checkCreate e s tn dto = Inr t"
    and os: "orders s1 = (if messageMethod (coFulfillmentMethod dto)
       then updateRow oId (oId ord) (messaged msg) (orders s @ [ord]) else orders s @ [ord])"
  have tn: "tId t = tn" using t by (auto simp: checkCreate_def res_eqs dest: rowOf_SomeD split: option.splits if_splits)
  obtain q where os1: "orders s1 = orders s @ [q]"
    and o: "oId q = oId ord" "oTenantId q = tn" "oStatus q \<noteq> OrderStatus.CANCELLED" "oCouponId q = oCouponId ord"
  proof (rule that)
    let ?o = "if messageMethod (coFulfillmentMethod dto) then messaged msg ord else ord"
    show "orders s1 = orders s @ [?o]"
      using os updateRow_missing [OF new, of "messaged msg"] by (auto simp: updateRow_def)
    show "oId ?o = oId ord" "oTenantId ?o = tn" "oStatus ?o \<noteq> OrderStatus.CANCELLED" "oCouponId ?o = oCouponId ord"
      by (simp_all add: messaged_def ord newOrder_def tn)
  qed
  have bal: "balanced s s1" by (rule createOrder_balanced [OF assms(5,1)])
  then have wf1: "wf s1" by (simp add: balanced_def)
  have "\<forall>x \<in> set (orders s). oId x \<noteq> oId ord" using new unfolding rowOf_None_iff by (metis imageI)
  then have "tenantOrder s1 tn (oId ord) = Some q"
    using o(1,2) by (auto simp: tenantOrder_def os1 findFirst_append findFirst_None_iff split: option.splits dest!: findFirst_SomeD)
  note eff = updateStatus_effects [OF assms(6) wfD(1) [OF wf1] this o(3) [symmetric]]
  have "orders s2 = orders s @ [statusChange q OrderStatus.CANCELLED q]"
    using eff(1) updateRow_missing [OF new, of "statusChange q OrderStatus.CANCELLED"] o(1)
    by (simp add: os1 updateRow_def)
  moreover have "tenants s2 = tenants s"
    using bal updateStatus_balanced [OF assms(6) wf1] by (simp add: balanced_def)
  ultimately have "outstanding s2 k = outstanding s k" for k
    by (simp add: outstanding_def orderHeld_cong [of s2 s] orderHeld_def [of s k "statusChange q OrderStatus.CANCELLED q"])
  moreover have "ledger s2 k = ledger s k" for k
    using bal updateStatus_balanced [OF assms(6) wf1] by (simp add: balanced_def)
  ultimately have "map_option (\<lambda>q. q + outstanding s k) (stockOf s2 k) = map_option (\<lambda>q. q + outstanding s k) (stockOf s k)" for k
    unfolding ledger_def by metis
  then have "stockOf s2 k = stockOf s k" for k
    using option.inj_map [of "\<lambda>q. q + outstanding s k"] by (meson add_right_imp_eq injD inj_onI)
  moreover have "coupons s2 = coupons s"
    using eff(2) coupon_given_back [OF assms(2-5)] by (simp only: o(4) simp_thms)
  ultimately show ?thesis by simp
qed

lemma placed0_row:
  "tenantOrder (fst placed0) ''t1'' (oId (fst (snd placed0))) = Some (fst (snd placed0))"
  "rowOf tId ''t1'' (tenants (fst placed0)) = Some tenant0"
  "oStatus (fst (snd placed0)) = OrderStatus.PENDING" "oPaymentStatus (fst (snd placed0)) = PaymentStatus.PENDING"
proof -
  have m: "\<not> messageMethod (coFulfillmentMethod basket0)" by (simp add: basket0_def messageMethod_def)
  have t: "checkCreate env0 db0 ''t1'' basket0 = Inr t \<Longrightarrow> tId t = ''t1''" for t
    by (auto simp: checkCreate_def res_eqs dest: rowOf_SomeD split: option.splits if_splits)
  show "tenantOrder (fst placed0) ''t1'' (oId (fst (snd placed0))) = Some (fst (snd placed0))"
    by (rule createOrder_InrE [OF createOrder_placed0])
      (use m t in \<open>auto simp: tenantOrder_def findFirst_append rowOf_def newOrder_def findFirst_None_iff
         split: option.splits dest!: findFirst_SomeD\<close>)
  show "rowOf tId ''t1'' (tenants (fst placed0)) = Some tenant0"
    by (rule createOrder_InrE [OF createOrder_placed0]) (simp add: sample_defs)
  show "oStatus (fst (snd placed0)) = OrderStatus.PENDING" "oPaymentStatus (fst (snd placed0)) = PaymentStatus.PENDING"
    by (rule createOrder_InrE [OF createOrder_placed0], simp add: newOrder_def)+
qed

theorem cancel_undoes_create_witness:
  "\<exists>s2. updateStatus env0 (fst placed0) ''t1'' (oId (fst (snd placed0))) OrderStatus.CANCELLED True = Inr s2
    \<and> stockOf s2 (OfProduct ''p1'') = Some 5"
proof -
  obtain s2 where "applyStatus env0 (fst placed0) ''t1'' (fst (snd placed0)) OrderStatus.CANCELLED True = Inr s2"
    using applyStatus_cancel_unpaid [OF placed0_row(1,2) refl] placed0_row(3,4) by fastforce
  then have s2: "updateStatus env0 (fst placed0) ''t1'' (oId (fst (snd placed0))) OrderStatus.CANCELLED True = Inr s2"
    by (simp add: updateStatus_def findOneOrder_def placed0_row(1))
  have "uniqueKeys cpId (coupons db0)" "list_all couponOk (coupons db0)" "\<forall>c \<in> set (coupons db0). cpId c \<noteq> []"
    by (simp_all add: sample_defs uniqueKeys_def couponOk_def)
  from cancel_undoes_create [OF db0_wf this createOrder_placed0 s2]
  have "stockOf s2 (OfProduct ''p1'') = stockOf db0 (OfProduct ''p1'')" by blast
  moreover have "stockOf db0 (OfProduct ''p1'') = Some 5" by (simp add: sample_defs)
  ultimately have "stockOf s2 (OfProduct ''p1'') = Some 5" by (simp only:)
  with s2 show ?thesis by blast
qed

section \<open>A race the claim does not see\<close>

text \<open>
  C11: the claim of a status change does not notice a payment. It is conditional on the status that
  was read, not on the payment status; so when staff cancel an order they read as unpaid, and a
  payment settled it in between without changing its status (staff had confirmed it before), the
  order ends up cancelled and paid, and no refund is asked for.
\<close>

theorem stale_cancel_keeps_payment:
  assumes "tenantOrder s tn (oId ord) = Some now" "rowOf tId tn (tenants s) = Some t"
    and "oStatus now = oStatus ord" "\<not> terminal ord"
    and "oPaymentStatus ord = PaymentStatus.PENDING" "oPaymentStatus now = PaymentStatus.PAID"
  shows "\<exists>s' after. applyStatus e s tn ord OrderStatus.CANCELLED canRefund = Inr s'
    \<and> tenantOrder s' tn (oId ord) = Some after \<and> oStatus after = OrderStatus.CANCELLED
    \<and> oPaymentStatus after = PaymentStatus.PAID \<and> outbox s' = outbox s @ [toOrderEvent order_status_updated after]"
  using applyStatus_cancel_unpaid [OF assms(1-4), of e canRefund] assms(5,6) by simp

theorem stale_cancel_keeps_payment_witness:
  "\<exists>s' after. applyStatus env0 (db0\<lparr>orders := [order0\<lparr>oStatus := OrderStatus.CONFIRMED, oPaymentStatus := PaymentStatus.PAID\<rparr>]\<rparr>)
       ''t1'' (order0\<lparr>oStatus := OrderStatus.CONFIRMED\<rparr>) OrderStatus.CANCELLED True = Inr s'
    \<and> tenantOrder s' ''t1'' ''o1'' = Some after \<and> oPaymentStatus after = PaymentStatus.PAID"
  using stale_cancel_keeps_payment [where s = "db0\<lparr>orders := [order0\<lparr>oStatus := OrderStatus.CONFIRMED, oPaymentStatus := PaymentStatus.PAID\<rparr>]\<rparr>"
      and tn = "''t1''" and ord = "order0\<lparr>oStatus := OrderStatus.CONFIRMED\<rparr>"
      and now = "order0\<lparr>oStatus := OrderStatus.CONFIRMED, oPaymentStatus := PaymentStatus.PAID\<rparr>" and t = tenant0
      and e = env0 and canRefund = True]
  by (force simp: tenantOrder_def sample_defs)

end
