(* ===== verification/Billing.thy ===== *)
theory Billing
  imports Plans Payments
begin

text \<open>
  Card billing of plans (\<open>billing/billing.service.ts\<close>) and the hourly expiry sweep
  (\<open>billing/subscription-lifecycle.service.ts\<close>).

  Stripe is outside: what \<open>constructEvent\<close> verifies is the argument of the webhook
  (nothing when the signature is wrong), what \<open>subscriptions.retrieve\<close> answers is the
  function \<open>retrieve\<close> (nothing when it throws), and a request to cancel a subscription is an
  effect of the log. The sweep runs outside a request transaction, so what it wrote before an
  error stays written.
\<close>

section \<open>Configuration\<close>

record BillingConfig =
  bcSecretKey :: bool \<comment> \<open>\<open>stripe.secretKey\<close> is set\<close>
  bcBillingWebhookSecret :: bool \<comment> \<open>\<open>stripe.billingWebhookSecret\<close> is set\<close>

definition cardBillingEnabled :: "BillingConfig \<Rightarrow> bool" where
  "cardBillingEnabled c = (bcSecretKey c \<and> bcBillingWebhookSecret c)"

definition requireStripe :: "BillingConfig \<Rightarrow> unit res" where
  "requireStripe c =
     (if \<not> bcSecretKey c \<or> \<not> cardBillingEnabled c
      then Inl (ServiceUnavailable ''Card billing is not configured on this platform'') else Inr ())"

definition requirePlansLink :: "env \<Rightarrow> string res" where
  "requirePlansLink e =
     (if truthy (ePublicWebUrl e) then Inr (adminPlansLink (ePublicWebUrl e))
      else Inl (ServiceUnavailable ''PUBLIC_WEB_URL is not configured''))"

definition PLAN_CURRENCY :: string where
  "PLAN_CURRENCY = ''usd''"

section \<open>Starting a checkout\<close>

datatype CheckoutMode = mode_payment | mode_subscription

text \<open>What \<open>createCheckout\<close> asks Stripe for.\<close>

record PlanSession =
  pzMode :: CheckoutMode
  pzCustomer :: "string option"
  pzCustomerEmail :: "string option"
  pzCustomerCreation :: bool \<comment> \<open>\<open>customer_creation: 'always'\<close>\<close>
  pzClientReferenceId :: string
  pzCurrency :: string
  pzUnitAmount :: int
  pzProductName :: string
  pzInterval :: "string option"
  pzMetadata :: "(string \<times> string) list"
  pzSuccessUrl :: string
  pzCancelUrl :: string

definition planSession :: "uuid \<Rightarrow> plan \<Rightarrow> string option \<Rightarrow> string \<Rightarrow> string \<Rightarrow> PlanSession" where
  "planSession tenantId p customerId ownerEmail plansLink =
     (let lifetime = (plDuration p = LIFETIME);
          customer = (if truthy customerId then customerId else None)
      in \<lparr>pzMode = (if lifetime then mode_payment else mode_subscription),
          pzCustomer = customer,
          pzCustomerEmail = (if customer = None then Some ownerEmail else None),
          pzCustomerCreation = (lifetime \<and> customer = None),
          pzClientReferenceId = tenantId,
          pzCurrency = PLAN_CURRENCY,
          pzUnitAmount = js_round_mult (plPrice p) 100,
          pzProductName = ''Yorde What Store '' @ emDash @ '' '' @ plName p,
          pzInterval = (if lifetime then None
                        else Some (if plDuration p = YEARLY then ''year'' else ''month'')),
          pzMetadata = [(''kind'', PLAN_CHECKOUT_KIND), (''tenantId'', tenantId), (''planId'', plId p)],
          pzSuccessUrl = plansLink @ ''?billing=success'',
          pzCancelUrl = plansLink @ ''?billing=cancelled''\<rparr>)"

definition createCheckout :: "BillingConfig \<Rightarrow> env \<Rightarrow> db \<Rightarrow> uuid \<Rightarrow> uuid \<Rightarrow> PlanSession res" where
  "createCheckout c e s tenantId planId =
     bind_res (requireStripe c) (\<lambda>_.
     case findFirst (\<lambda>p. plId p = planId \<and> plIsActive p) (plans s) of
       None \<Rightarrow> Inl (NotFound ''Plan not found'')
     | Some p \<Rightarrow>
         if \<not> isPaidPlan p
         then Inl (BadRequest ''Free plans are switched to directly, without payment'')
         else bind_res (assertUnderNewProductLimit s tenantId (plMaxProducts p)) (\<lambda>_.
           let current = currentSubscription s tenantId
           in if (case current of Some u \<Rightarrow> truthy (suStripeSubscriptionId u) \<and> suPlanId u = plId p
                        \<and> \<not> suCancelAtPeriodEnd u | None \<Rightarrow> False)
              then Inl (Conflict ''This store is already paying for this plan by card'')
              else case rowOf tId tenantId (tenants s) of
                     None \<Rightarrow> Inl RecordNotFound
                   | Some t \<Rightarrow>
                       (case rowOf uId (tOwnerId t) (users s) of
                          None \<Rightarrow> Inl RecordNotFound
                        | Some owner \<Rightarrow>
                            bind_res (requirePlansLink e) (\<lambda>plansLink.
                              Inr (planSession tenantId p
                                (case current of Some u \<Rightarrow> suStripeCustomerId u | None \<Rightarrow> None)
                                (uEmail owner) plansLink)))))"

text \<open>\<open>createPortal\<close>: the customer and the return address of the portal session.\<close>

definition createPortal :: "BillingConfig \<Rightarrow> env \<Rightarrow> db \<Rightarrow> uuid \<Rightarrow> (string \<times> string) res" where
  "createPortal c e s tenantId =
     bind_res (requireStripe c) (\<lambda>_.
     case (case currentSubscription s tenantId of Some u \<Rightarrow> suStripeCustomerId u | None \<Rightarrow> None) of
       None \<Rightarrow> Inl (BadRequest ''This store has no card billing set up'')
     | Some customer \<Rightarrow>
         if customer = [] then Inl (BadRequest ''This store has no card billing set up'')
         else bind_res (requirePlansLink e) (\<lambda>link. Inr (customer, link)))"

section \<open>Webhooks\<close>

text \<open>
  A subscription as Stripe has it, and the parts of a checkout session and an invoice the
  handlers read. A reference is an id or an expanded object; \<open>idOf\<close> reads both, so the model
  keeps the id. Absent or empty ids read as null.
\<close>

record StripeSubscription =
  ssuId :: string
  ssuStatus :: string
  ssuKind :: "string option"
  ssuTenantId :: "string option"
  ssuPlanId :: "string option"
  ssuCustomer :: "string option"
  ssuCurrentPeriodEnd :: int \<comment> \<open>seconds\<close>
  ssuCancelAtPeriodEnd :: bool

record PlanCheckout =
  pcKind :: "string option"
  pcPaymentStatus :: string
  pcMode :: string
  pcSubscription :: "string option"
  pcTenantId :: "string option"
  pcPlanId :: "string option"
  pcCustomer :: "string option"

datatype BillingEvent =
    CheckoutCompleted PlanCheckout
  | InvoicePaid "string option" \<comment> \<open>\<open>invoice.subscription\<close>\<close>
  | SubscriptionUpdated StripeSubscription
  | SubscriptionDeleted StripeSubscription
  | OtherBillingEvent

definition idOf :: "string option \<Rightarrow> string option" where
  "idOf ref = (if truthy ref then ref else None)"

definition PAID_UP_STATUSES :: "string list" where
  "PAID_UP_STATUSES = [''active'', ''trialing'']"

definition cancelStripeSubscription :: "BillingConfig \<Rightarrow> string \<Rightarrow> db \<Rightarrow> db" where
  "cancelStripeSubscription c sid s = (if bcSecretKey c then emit (CancelStripeSubscription sid) s else s)"

definition applyStripeSubscription ::
    "BillingConfig \<Rightarrow> env \<Rightarrow> db \<Rightarrow> StripeSubscription \<Rightarrow> bool \<Rightarrow> db" where
  "applyStripeSubscription c e s sub fromCheckout =
     (if ssuKind sub \<noteq> Some PLAN_CHECKOUT_KIND \<or> \<not> truthy (ssuTenantId sub) \<or> \<not> truthy (ssuPlanId sub)
      then s
      else if ssuStatus sub \<notin> set PAID_UP_STATUSES then s
      else
        let tenantId = the (ssuTenantId sub);
            replacing = (case currentSubscription s tenantId of
                None \<Rightarrow> None
              | Some current \<Rightarrow>
                  if truthy (suStripeSubscriptionId current)
                      \<and> suStripeSubscriptionId current \<noteq> Some (ssuId sub)
                  then suStripeSubscriptionId current else None)
        in if replacing \<noteq> None \<and> \<not> fromCheckout then s
           else
             let s' = activatePlan e s tenantId (the (ssuPlanId sub))
                   \<lparr>abExpiresAt = Some (ssuCurrentPeriodEnd sub * 1000),
                    abBillingProvider = BillingProvider.STRIPE,
                    abStripeCustomerId = Some (idOf (ssuCustomer sub)),
                    abStripeSubscriptionId = Some (ssuId sub),
                    abCancelAtPeriodEnd = Some (ssuCancelAtPeriodEnd sub)\<rparr>
             in (case replacing of Some old \<Rightarrow> cancelStripeSubscription c old s' | None \<Rightarrow> s'))"

type_synonym retrieve = "string \<Rightarrow> StripeSubscription option"

definition onCheckoutCompleted ::
    "BillingConfig \<Rightarrow> env \<Rightarrow> retrieve \<Rightarrow> db \<Rightarrow> PlanCheckout \<Rightarrow> db res" where
  "onCheckoutCompleted c e retrieve s session =
     (if pcKind session \<noteq> Some PLAN_CHECKOUT_KIND then Inr s
      else if pcPaymentStatus session = ''unpaid'' then Inr s
      else if pcMode session = ''subscription'' then
        (case idOf (pcSubscription session) of
           None \<Rightarrow> Inr s
         | Some sid \<Rightarrow>
             (case retrieve sid of
                None \<Rightarrow> Inl (ProviderError ''subscriptions.retrieve'')
              | Some sub \<Rightarrow> Inr (applyStripeSubscription c e s sub True)))
      else if \<not> truthy (pcTenantId session) \<or> \<not> truthy (pcPlanId session) then Inr s
      else
        let tenantId = the (pcTenantId session);
            current = currentSubscription s tenantId;
            s' = activatePlan e s tenantId (the (pcPlanId session))
              \<lparr>abExpiresAt = None, abBillingProvider = BillingProvider.MANUAL,
               abStripeCustomerId = (case idOf (pcCustomer session) of None \<Rightarrow> None | Some k \<Rightarrow> Some (Some k)),
               abStripeSubscriptionId = None, abCancelAtPeriodEnd = None\<rparr>
        in Inr (case current of
                  None \<Rightarrow> s'
                | Some u \<Rightarrow>
                    if truthy (suStripeSubscriptionId u)
                    then cancelStripeSubscription c (the (suStripeSubscriptionId u)) s' else s'))"

definition onInvoicePaid ::
    "BillingConfig \<Rightarrow> env \<Rightarrow> retrieve \<Rightarrow> db \<Rightarrow> string option \<Rightarrow> db res" where
  "onInvoicePaid c e retrieve s subscription =
     (case idOf subscription of
        None \<Rightarrow> Inr s
      | Some sid \<Rightarrow>
          (case retrieve sid of
             None \<Rightarrow> Inl (ProviderError ''subscriptions.retrieve'')
           | Some sub \<Rightarrow> Inr (applyStripeSubscription c e s sub False)))"

definition onSubscriptionUpdated :: "db \<Rightarrow> StripeSubscription \<Rightarrow> db" where
  "onSubscriptionUpdated s sub =
     s\<lparr>subscriptions := updateMany (\<lambda>u. suStripeSubscriptionId u = Some (ssuId sub))
        (\<lambda>u. u\<lparr>suCancelAtPeriodEnd := ssuCancelAtPeriodEnd sub\<rparr>) (subscriptions s)\<rparr>"

definition onSubscriptionDeleted :: "db \<Rightarrow> StripeSubscription \<Rightarrow> db" where
  "onSubscriptionDeleted s sub =
     s\<lparr>subscriptions := updateMany (\<lambda>u. suStripeSubscriptionId u = Some (ssuId sub))
        (\<lambda>u. u\<lparr>suStripeSubscriptionId := None, suBillingProvider := BillingProvider.MANUAL,
              suCancelAtPeriodEnd := False\<rparr>) (subscriptions s)\<rparr>"

definition handleBillingWebhook ::
    "BillingConfig \<Rightarrow> env \<Rightarrow> retrieve \<Rightarrow> db \<Rightarrow> BillingEvent option \<Rightarrow> db res" where
  "handleBillingWebhook c e retrieve s event =
     bind_res (requireStripe c) (\<lambda>_.
     case event of
       None \<Rightarrow> Inl (BadRequest ''Invalid webhook signature'')
     | Some (CheckoutCompleted session) \<Rightarrow> onCheckoutCompleted c e retrieve s session
     | Some (InvoicePaid subscription) \<Rightarrow> onInvoicePaid c e retrieve s subscription
     | Some (SubscriptionUpdated sub) \<Rightarrow> Inr (onSubscriptionUpdated s sub)
     | Some (SubscriptionDeleted sub) \<Rightarrow> Inr (onSubscriptionDeleted s sub)
     | Some OtherBillingEvent \<Rightarrow> Inr s)"

section \<open>The expiry sweep\<close>

fun NOTICE_EMAIL :: "ExpiryNotice \<Rightarrow> string" where
  "NOTICE_EMAIL D7 = ''subscription-expiring''"
| "NOTICE_EMAIL D1 = ''subscription-expiring''"
| "NOTICE_EMAIL D0 = ''subscription-expired''"
| "NOTICE_EMAIL DOWNGRADED = ''subscription-downgraded''"

text \<open>A row as the sweep read it, with the relations it includes.\<close>

record Candidate =
  cdSubscription :: subscription
  cdPlan :: plan
  cdTenant :: tenant
  cdOwner :: user

definition candidateOf :: "db \<Rightarrow> subscription \<Rightarrow> Candidate option" where
  "candidateOf s u =
     (case (planOf s u, rowOf tId (suTenantId u) (tenants s)) of
        (Some p, Some t) \<Rightarrow>
          (case rowOf uId (tOwnerId t) (users s) of
             Some o' \<Rightarrow> Some \<lparr>cdSubscription = u, cdPlan = p, cdTenant = t, cdOwner = o'\<rparr>
           | None \<Rightarrow> None)
      | _ \<Rightarrow> None)"

definition isCandidate :: "time \<Rightarrow> Candidate \<Rightarrow> bool" where
  "isCandidate now cd =
     (suStatus (cdSubscription cd) \<in> {SubscriptionStatus.ACTIVE, SubscriptionStatus.PENDING_UPGRADE}
      \<and> (case suExpiresAt (cdSubscription cd) of None \<Rightarrow> False | Some x \<Rightarrow> x \<le> now + 7 * DAY_MS)
      \<and> plPrice (cdPlan cd) > 0)"

definition lifecycleCandidates :: "time \<Rightarrow> db \<Rightarrow> Candidate list" where
  "lifecycleCandidates now s = filter (isCandidate now) (List.map_filter (candidateOf s) (subscriptions s))"

text \<open>The claim of a notice: conditional on the expiry the sweep read and on the notice being unsent.\<close>

definition claimNotice :: "subscription \<Rightarrow> ExpiryNotice \<Rightarrow> subscription \<Rightarrow> bool" where
  "claimNotice seen notice u =
     (suId u = suId seen \<and> suExpiresAt u = suExpiresAt seen
      \<and> notice_text notice \<notin> set (suExpiryNoticesSent u))"

definition claim :: "Candidate \<Rightarrow> ExpiryNotice \<Rightarrow> db \<Rightarrow> db option" where
  "claim cd notice s =
     (if countRows (claimNotice (cdSubscription cd) notice) (subscriptions s) = 0 then None
      else Some (s\<lparr>subscriptions := updateMany (claimNotice (cdSubscription cd) notice)
             (\<lambda>u. u\<lparr>suExpiryNoticesSent := suExpiryNoticesSent u @ [notice_text notice]\<rparr>) (subscriptions s)\<rparr>))"

text \<open>
  The release is two statements: the read of the notices, and the write of what was read less the
  notice. \<open>releaseNotice\<close> is both with nothing in between.
\<close>

definition readNotices :: "uuid \<Rightarrow> db \<Rightarrow> string list option" where
  "readNotices sid s = map_option suExpiryNoticesSent (rowOf suId sid (subscriptions s))"

definition writeNotices :: "uuid \<Rightarrow> string list \<Rightarrow> ExpiryNotice \<Rightarrow> db \<Rightarrow> db" where
  "writeNotices sid current notice s =
     updateSubscription sid (\<lambda>u. u\<lparr>suExpiryNoticesSent := filter (\<lambda>n. n \<noteq> notice_text notice) current\<rparr>) s"

definition releaseNotice :: "uuid \<Rightarrow> ExpiryNotice \<Rightarrow> db \<Rightarrow> db" where
  "releaseNotice sid notice s =
     (case readNotices sid s of None \<Rightarrow> s | Some current \<Rightarrow> writeNotices sid current notice s)"

definition lapseRow :: "plan option \<Rightarrow> subscription \<Rightarrow> subscription" where
  "lapseRow freePlan u =
     (case freePlan of Some p \<Rightarrow> u\<lparr>suPlanId := plId p, suExpiresAt := None\<rparr> | None \<Rightarrow> u)
       \<lparr>suBillingProvider := BillingProvider.MANUAL, suStripeSubscriptionId := None,
        suCancelAtPeriodEnd := False\<rparr>"

definition downgrade :: "BillingConfig \<Rightarrow> time \<Rightarrow> Candidate \<Rightarrow> db \<Rightarrow> db" where
  "downgrade c now cd s =
     (let sub = cdSubscription cd;
          s1 = (if truthy (suStripeSubscriptionId sub)
                then cancelStripeSubscription c (the (suStripeSubscriptionId sub)) s else s);
          s2 = updateSubscription (suId sub) (lapseRow (findFreePlan s1)) s1
      in fst (hideProductsOverLimit now s2 (suTenantId sub)))"

definition noticeEmail :: "env \<Rightarrow> Candidate \<Rightarrow> ExpiryNotice \<Rightarrow> effect" where
  "noticeEmail e cd notice =
     (let t = cdTenant cd; sub = cdSubscription cd;
          formatDate = (\<lambda>d. case d of Some x \<Rightarrow> eFormatDate e (tLocale t) (tTimezone t) x | None \<Rightarrow> [])
      in EmailJob (NOTICE_EMAIL notice) (Some (suTenantId sub)) (tLocale t) (uEmail (cdOwner cd))
           [(''name'', uName (cdOwner cd)), (''store_name'', tName t),
            (''plan_name'', plName (cdPlan cd)),
            (''expires_on'', formatDate (suExpiresAt sub)),
            (''grace_ends_on'', formatDate (graceEndsAt (suExpiresAt sub))),
            (''grace_days'', string_of_int GRACE_DAYS),
            (''billing_link'', adminPlansLink (ePublicWebUrl e))] False)"

text \<open>
  One candidate, with nothing in between its statements. \<open>mailFails\<close> tells whether adding the job
  to the e-mail queue throws. The result is the state the steps left, with what \<open>handle\<close> returned
  or threw.
\<close>

definition handleCandidate ::
    "BillingConfig \<Rightarrow> env \<Rightarrow> (uuid \<Rightarrow> bool) \<Rightarrow> Candidate \<Rightarrow> db \<Rightarrow> db \<times> bool res" where
  "handleCandidate c e mailFails cd s =
     (let sub = cdSubscription cd
      in case dueExpiryNotice sub (cdPlan cd) (eNow e) of
           None \<Rightarrow> (s, Inr False)
         | Some notice \<Rightarrow>
             (case claim cd notice s of
                None \<Rightarrow> (s, Inr False)
              | Some s1 \<Rightarrow>
                  let s2 = (if notice = DOWNGRADED then downgrade c (eNow e) cd s1 else s1)
                  in if mailFails (suId sub)
                     then (releaseNotice (suId sub) notice s2, Inl (InternalError ''email queue''))
                     else (emit (noticeEmail e cd notice) s2, Inr True)))"

text \<open>
  The same handling one statement at a time, so that several can overlap: waiting to claim, claimed,
  with the e-mail to queue, with the claim to release, with the notices of the row read for it, done.
\<close>

datatype Handling =
    Waiting env Candidate
  | Claimed env Candidate ExpiryNotice
  | Mailing env Candidate ExpiryNotice
  | Releasing uuid ExpiryNotice
  | HasRead uuid ExpiryNotice "string list"
  | Finished

fun advance :: "BillingConfig \<Rightarrow> bool \<Rightarrow> Handling \<Rightarrow> db \<Rightarrow> Handling \<times> db" where
  "advance c refuses (Waiting e cd) s =
     (case dueExpiryNotice (cdSubscription cd) (cdPlan cd) (eNow e) of
        None \<Rightarrow> (Finished, s)
      | Some n \<Rightarrow> (case claim cd n s of None \<Rightarrow> (Finished, s) | Some s1 \<Rightarrow> (Claimed e cd n, s1)))"
| "advance c refuses (Claimed e cd n) s =
     (Mailing e cd n, if n = DOWNGRADED then downgrade c (eNow e) cd s else s)"
| "advance c refuses (Mailing e cd n) s =
     (if refuses then (Releasing (suId (cdSubscription cd)) n, s)
      else (Finished, emit (noticeEmail e cd n) s))"
| "advance c refuses (Releasing i n) s =
     (case readNotices i s of None \<Rightarrow> (Finished, s) | Some current \<Rightarrow> (HasRead i n current, s))"
| "advance c refuses (HasRead i n current) s = (Finished, writeNotices i current n s)"
| "advance c refuses Finished s = (Finished, s)"

definition lifecycleStep ::
    "BillingConfig \<Rightarrow> env \<Rightarrow> (uuid \<Rightarrow> bool) \<Rightarrow> Candidate \<Rightarrow> db \<times> nat \<Rightarrow> db \<times> nat" where
  "lifecycleStep c e mailFails cd acc =
     (case handleCandidate c e mailFails cd (fst acc) of
        (s', Inr True) \<Rightarrow> (s', snd acc + 1)
      | (s', _) \<Rightarrow> (s', snd acc))"

record LifecycleReport =
  lrChecked :: nat
  lrHandled :: nat

definition runLifecycle :: "BillingConfig \<Rightarrow> env \<Rightarrow> (uuid \<Rightarrow> bool) \<Rightarrow> db \<Rightarrow> db \<times> LifecycleReport" where
  "runLifecycle c e mailFails s =
     (let candidates = lifecycleCandidates (eNow e) s;
          (s', handled) = fold (lifecycleStep c e mailFails) candidates (s, 0)
      in (s', \<lparr>lrChecked = length candidates, lrHandled = handled\<rparr>))"

section \<open>Facts\<close>

subsection \<open>The current subscription\<close>

lemma insort_key_map: "(\<And>x. k (f x) = k x) \<Longrightarrow> insort_key k (f x) (map f xs) = map f (insort_key k x xs)"
  by (induction xs) auto

lemma sort_key_map: "(\<And>x. k (f x) = k x) \<Longrightarrow> sort_key k (map f xs) = map f (sort_key k xs)"
  by (induction xs) (simp_all add: insort_key_map)

text \<open>A write that keeps what a query selects and orders by changes its rows in place.\<close>

lemma findMany_updateMany:
  assumes "\<And>r. P (f r) = P r" and "\<And>r. k (f r) = k r"
  shows "findMany P k (updateMany Q f t) = updateMany Q f (findMany P k t)"
proof -
  let ?g = "\<lambda>r. if Q r then f r else r"
  have "filter P (map ?g t) = map ?g (filter P t)"
    by (induction t) (auto simp: assms(1))
  moreover have "sort_key k (map ?g xs) = map ?g (sort_key k xs)" for xs
    by (rule sort_key_map) (simp add: assms(2))
  ultimately show ?thesis by (simp only: findMany_def updateMany_def)
qed

lemma firstBy_updateMany:
  assumes "\<And>r. P (f r) = P r" and "\<And>r. k (f r) = k r"
  shows "firstBy P k (updateMany Q f t) = map_option (\<lambda>r. if Q r then f r else r) (firstBy P k t)"
  unfolding firstBy_def findMany_updateMany [of P f k, OF assms] by (simp split: list.split)

lemma currentSubscription_update:
  assumes "\<And>u. suTenantId (f u) = suTenantId u" and "\<And>u. suCreatedAt (f u) = suCreatedAt u"
  shows "currentSubscription (updateSubscription sid f s) t =
    map_option (\<lambda>u. if suId u = sid then f u else u) (currentSubscription s t)"
  unfolding currentSubscription_def updateSubscription_def updateRow_def
  by (simp add: firstBy_updateMany assms)

lemma currentSubscription_append:
  assumes "currentSubscription s t = None" and "suTenantId u = t"
  shows "currentSubscription (s\<lparr>subscriptions := subscriptions s @ [u]\<rparr>) t = Some u"
proof -
  have n: "filter (\<lambda>u. suTenantId u = t) (subscriptions s) = []"
    using assms(1) by (auto simp: currentSubscription_def firstBy_None_iff filter_empty_conv)
  show ?thesis using assms(2) by (simp add: currentSubscription_def firstBy_def findMany_def n)
qed

lemma activate_keeps [simp]:
  "suId (activate p b u) = suId u" "suTenantId (activate p b u) = suTenantId u"
  "suCreatedAt (activate p b u) = suCreatedAt u"
  by (simp_all add: activate_def)

lemma newSubscription_tenant [simp]: "suTenantId (newSubscription i t p x n) = t"
  by (simp add: newSubscription_def)

text \<open>What the store is on after \<open>activatePlan\<close>, whether or not it had a subscription.\<close>

lemma currentSubscription_activatePlan:
  "currentSubscription (activatePlan e s t p b) t =
     Some (activate p b (case currentSubscription s t of Some u \<Rightarrow> u
       | None \<Rightarrow> newSubscription (eFresh e 0) t p None (eNow e)))"
proof (cases "currentSubscription s t")
  case None
  then show ?thesis by (simp add: activatePlan_def currentSubscription_append)
next
  case (Some u)
  then show ?thesis by (simp add: activatePlan_def currentSubscription_update)
qed

lemma currentSubscription_emit [simp]: "currentSubscription (emit x s) t = currentSubscription s t"
  by (simp add: currentSubscription_def)

lemma cancelStripeSubscription_simps [simp]:
  "subscriptions (cancelStripeSubscription c i s) = subscriptions s"
  "plans (cancelStripeSubscription c i s) = plans s"
  "tenants (cancelStripeSubscription c i s) = tenants s"
  "products (cancelStripeSubscription c i s) = products s"
  "currentSubscription (cancelStripeSubscription c i s) t = currentSubscription s t"
  by (simp_all add: cancelStripeSubscription_def)

lemma updateMany_idem:
  assumes "\<And>r. Q r \<Longrightarrow> f (f r) = f r"
  shows "updateMany Q f (updateMany Q f t) = updateMany Q f t"
  using assms by (induction t) auto

lemma activate_idem: "activate p b (activate p b u) = activate p b u"
  by (cases "abStripeCustomerId b") (simp_all add: activate_def)

lemma activatePlan_idem:
  assumes "currentSubscription s t = Some u"
  shows "activatePlan e' (activatePlan e s t p b) t p b = activatePlan e s t p b"
proof -
  have "activatePlan e s t p b = updateSubscription (suId u) (activate p b) s"
    using assms by (simp add: activatePlan_def)
  moreover have "activatePlan e' (activatePlan e s t p b) t p b
      = updateSubscription (suId u) (activate p b) (activatePlan e s t p b)"
    using assms by (simp add: activatePlan_def currentSubscription_update)
  ultimately show ?thesis
    by (simp add: updateSubscription_def updateRow_def updateMany_idem activate_idem)
qed

lemma activatePlan_cancel:
  "activatePlan e (cancelStripeSubscription c i s) t p b = cancelStripeSubscription c i (activatePlan e s t p b)"
proof -
  have "updateSubscription k f (emit x s) = emit x (updateSubscription k f s)" for k f x
    by (simp add: updateSubscription_def emit_def)
  moreover have "(emit x s)\<lparr>subscriptions := ss\<rparr> = emit x (s\<lparr>subscriptions := ss\<rparr>)" for x ss
    by (simp add: emit_def)
  ultimately show ?thesis
    by (cases "currentSubscription s t")
      (simp_all add: activatePlan_def cancelStripeSubscription_def)
qed

subsection \<open>Webhooks in any order\<close>

text \<open>What a paid-up subscription of this platform writes on the store's row.\<close>

definition mirror :: "StripeSubscription \<Rightarrow> ActivateBilling" where
  "mirror sub = \<lparr>abExpiresAt = Some (ssuCurrentPeriodEnd sub * 1000),
     abBillingProvider = BillingProvider.STRIPE, abStripeCustomerId = Some (idOf (ssuCustomer sub)),
     abStripeSubscriptionId = Some (ssuId sub), abCancelAtPeriodEnd = Some (ssuCancelAtPeriodEnd sub)\<rparr>"

definition ours :: "StripeSubscription \<Rightarrow> uuid \<Rightarrow> uuid \<Rightarrow> bool" where
  "ours sub t p = (ssuKind sub = Some PLAN_CHECKOUT_KIND \<and> ssuTenantId sub = Some t \<and> t \<noteq> []
     \<and> ssuPlanId sub = Some p \<and> p \<noteq> [] \<and> ssuStatus sub \<in> set PAID_UP_STATUSES)"

definition replaced :: "db \<Rightarrow> uuid \<Rightarrow> StripeSubscription \<Rightarrow> string option" where
  "replaced s t sub = (case currentSubscription s t of None \<Rightarrow> None
     | Some u \<Rightarrow> if truthy (suStripeSubscriptionId u) \<and> suStripeSubscriptionId u \<noteq> Some (ssuId sub)
               then suStripeSubscriptionId u else None)"

lemma apply_ours:
  assumes "ours sub t p"
  shows "applyStripeSubscription c e s sub fromCheckout =
    (case replaced s t sub of
       None \<Rightarrow> activatePlan e s t p (mirror sub)
     | Some old \<Rightarrow> if fromCheckout
                 then cancelStripeSubscription c old (activatePlan e s t p (mirror sub)) else s)"
  using assms unfolding applyStripeSubscription_def ours_def replaced_def [symmetric] mirror_def [symmetric]
  by (auto simp: Let_def split: option.splits)

lemma apply_not_ours:
  assumes "\<nexists>t p. ours sub t p"
  shows "applyStripeSubscription c e s sub b = s"
proof -
  have "truthy x \<longleftrightarrow> (\<exists>v. x = Some v \<and> v \<noteq> [])" for x by (cases x) auto
  with assms show ?thesis by (auto simp: applyStripeSubscription_def ours_def)
qed

lemma replaced_activatePlan: "replaced (activatePlan e s t p (mirror sub)) t sub = None"
  by (simp add: replaced_def currentSubscription_activatePlan activate_def mirror_def)

lemma replaced_cancel [simp]: "replaced (cancelStripeSubscription c i s) t sub = replaced s t sub"
  by (simp add: replaced_def)

lemma apply_after_checkout:
  assumes "currentSubscription s t = Some u" and "ssuTenantId sub = Some t"
  shows "applyStripeSubscription c e' (applyStripeSubscription c e s sub True) sub b
    = applyStripeSubscription c e s sub True"
proof (cases "\<exists>t p. ours sub t p")
  case True
  then obtain p where o': "ours sub t p" using assms(2) by (auto simp: ours_def)
  show ?thesis
    by (cases "replaced s t sub")
      (simp_all add: apply_ours [OF o'] replaced_activatePlan activatePlan_idem [OF assms(1)]
        activatePlan_cancel)
qed (simp add: apply_not_ours)

lemma apply_invoice:
  assumes "currentSubscription s t = Some u" and "ssuTenantId sub = Some t"
  shows "applyStripeSubscription c e s sub False
    \<in> {s, applyStripeSubscription c e' s sub True}"
proof (cases "\<exists>t p. ours sub t p")
  case True
  then obtain p where o': "ours sub t p" using assms(2) by (auto simp: ours_def)
  have "activatePlan e s t p b = activatePlan e' s t p b" for b
    using assms(1) by (simp add: activatePlan_def)
  then show ?thesis
    by (cases "replaced s t sub") (simp_all add: apply_ours [OF o'])
qed (simp add: apply_not_ours)

lemma apply_env:
  assumes "currentSubscription s t = Some u" and "ssuTenantId sub = Some t"
  shows "applyStripeSubscription c e s sub b = applyStripeSubscription c e' s sub b"
proof (cases "\<exists>t p. ours sub t p")
  case True
  then obtain p where o': "ours sub t p" using assms(2) by (auto simp: ours_def)
  have "activatePlan e s t p b = activatePlan e' s t p b" for b
    using assms(1) by (simp add: activatePlan_def)
  then show ?thesis
    by (cases "replaced s t sub") (simp_all add: apply_ours [OF o'])
qed (simp add: apply_not_ours)

text \<open>A run of deliveries, each at its own time.\<close>

fun deliverAll :: "BillingConfig \<Rightarrow> retrieve \<Rightarrow> (env \<times> BillingEvent) list \<Rightarrow> db \<Rightarrow> db res" where
  "deliverAll c retrieve [] s = Inr s"
| "deliverAll c retrieve ((e, ev) # rest) s =
     bind_res (handleBillingWebhook c e retrieve s (Some ev)) (deliverAll c retrieve rest)"

lemma deliverAll_stays:
  assumes "cardBillingEnabled c" "retrieve i = Some sub" "i \<noteq> []"
    and "pcKind session = Some PLAN_CHECKOUT_KIND" "pcMode session = ''subscription''"
      "pcSubscription session = Some i"
    and "\<And>e b. applyStripeSubscription c e s sub b = s"
    and "snd ` set evs \<subseteq> {CheckoutCompleted session, InvoicePaid (Some i)}"
  shows "deliverAll c retrieve evs s = Inr s"
  using assms(8)
proof (induction evs)
  case (Cons x evs)
  then show ?case
    using assms(1-7)
    by (cases x) (auto simp: handleBillingWebhook_def requireStripe_def cardBillingEnabled_def
        onCheckoutCompleted_def onInvoicePaid_def idOf_def)
qed simp

lemma deliver_one:
  assumes "cardBillingEnabled c" "retrieve i = Some sub" "i \<noteq> []"
    and "pcKind session = Some PLAN_CHECKOUT_KIND" "pcPaymentStatus session \<noteq> ''unpaid''"
      "pcMode session = ''subscription''" "pcSubscription session = Some i"
  shows "handleBillingWebhook c e retrieve s (Some (CheckoutCompleted session))
      = Inr (applyStripeSubscription c e s sub True)"
    and "handleBillingWebhook c e retrieve s (Some (InvoicePaid (Some i)))
      = Inr (applyStripeSubscription c e s sub False)"
  using assms
  by (simp_all add: handleBillingWebhook_def requireStripe_def cardBillingEnabled_def
      onCheckoutCompleted_def onInvoicePaid_def idOf_def PLAN_CHECKOUT_KIND_def)

subsection \<open>The sweep, one row at a time\<close>

lemma rowOf_updateMany_other:
  assumes "\<And>r. key (f r) = key r" and "\<And>r. P r \<Longrightarrow> key r \<noteq> k"
  shows "rowOf key k (updateMany P f t) = rowOf key k t"
  using assms by (induction t) auto

lemma claimNotice_id: "claimNotice seen n u \<Longrightarrow> suId u = suId seen"
  by (simp add: claimNotice_def)

lemma rowOf_updateSubscription:
  assumes "\<And>u. suId (f u) = suId u"
  shows "rowOf suId i (subscriptions (updateSubscription sid f s)) =
    map_option (\<lambda>u. if suId u = sid then f u else u) (rowOf suId i (subscriptions s))"
  using assms by (simp add: updateSubscription_def updateRow_def rowOf_updateMany)

lemma lapseRow_id [simp]: "suId (lapseRow p u) = suId u"
    "suTenantId (lapseRow p u) = suTenantId u" "suCreatedAt (lapseRow p u) = suCreatedAt u"
    "suExpiryNoticesSent (lapseRow p u) = suExpiryNoticesSent u" "suStatus (lapseRow p u) = suStatus u"
  by (simp_all add: lapseRow_def split: option.splits)

lemma findFreePlan_cong: "plans s = plans s' \<Longrightarrow> findFreePlan s = findFreePlan s'"
  by (simp add: findFreePlan_def)

lemma downgrade_subscriptions:
  "subscriptions (downgrade c now cd s) =
     updateRow suId (suId (cdSubscription cd)) (lapseRow (findFreePlan s)) (subscriptions s)"
proof -
  have "findFreePlan (cancelStripeSubscription c i s) = findFreePlan s" for i
    by (rule findFreePlan_cong) simp
  then show ?thesis
    by (simp add: downgrade_def Let_def updateSubscription_def table_simps)
qed

lemma downgrade_tables [table_simps]:
  "plans (downgrade c now cd s) = plans s" "tenants (downgrade c now cd s) = tenants s"
  by (simp_all add: downgrade_def Let_def updateSubscription_def table_simps)

lemma releaseNotice_tables [table_simps]:
  "plans (releaseNotice i n s) = plans s" "tenants (releaseNotice i n s) = tenants s"
  "products (releaseNotice i n s) = products s" "outbox (releaseNotice i n s) = outbox s"
  by (simp_all add: releaseNotice_def readNotices_def writeNotices_def updateSubscription_def split: option.splits)

text \<open>A claimed row: the notice is on it, and the downgrade has been applied when it is due.\<close>

definition claimedRow :: "plan option \<Rightarrow> ExpiryNotice \<Rightarrow> subscription \<Rightarrow> subscription" where
  "claimedRow freePlan n u =
     (let u' = u\<lparr>suExpiryNoticesSent := suExpiryNoticesSent u @ [notice_text n]\<rparr>
      in if n = DOWNGRADED then lapseRow freePlan u' else u')"

lemma claimedRow_simps [simp]:
  "suId (claimedRow p n u) = suId u"
  "suExpiryNoticesSent (claimedRow p n u) = suExpiryNoticesSent u @ [notice_text n]"
  by (simp_all add: claimedRow_def Let_def)

text \<open>The state \<open>handle\<close> has reached when it queues the e-mail.\<close>

definition claimed :: "BillingConfig \<Rightarrow> time \<Rightarrow> Candidate \<Rightarrow> ExpiryNotice \<Rightarrow> db \<Rightarrow> db" where
  "claimed c now cd n s =
     (let s1 = s\<lparr>subscriptions := updateMany (claimNotice (cdSubscription cd) n)
           (\<lambda>u. u\<lparr>suExpiryNoticesSent := suExpiryNoticesSent u @ [notice_text n]\<rparr>) (subscriptions s)\<rparr>
      in if n = DOWNGRADED then downgrade c now cd s1 else s1)"

lemma handleCandidate_cases:
  "handleCandidate c e mailFails cd s =
     (case dueExpiryNotice (cdSubscription cd) (cdPlan cd) (eNow e) of
        None \<Rightarrow> (s, Inr False)
      | Some n \<Rightarrow>
          if countRows (claimNotice (cdSubscription cd) n) (subscriptions s) = 0 then (s, Inr False)
          else if mailFails (suId (cdSubscription cd))
          then (releaseNotice (suId (cdSubscription cd)) n (claimed c (eNow e) cd n s),
                Inl (InternalError ''email queue''))
          else (emit (noticeEmail e cd n) (claimed c (eNow e) cd n s), Inr True))"
  by (simp add: handleCandidate_def claimed_def claim_def Let_def split: option.split)

lemma claimed_tables [table_simps]:
  "plans (claimed c now cd n s) = plans s" "tenants (claimed c now cd n s) = tenants s"
  by (simp_all add: claimed_def Let_def table_simps)

lemma claimed_row_other:
  assumes "i \<noteq> suId (cdSubscription cd)"
  shows "rowOf suId i (subscriptions (claimed c now cd n s)) = rowOf suId i (subscriptions s)"
proof -
  have "rowOf suId i (updateMany (claimNotice (cdSubscription cd) n) f (subscriptions s))
      = rowOf suId i (subscriptions s)" if "\<And>u. suId (f u) = suId u" for f
    using assms by (intro rowOf_updateMany_other that) (auto dest: claimNotice_id)
  then show ?thesis
    using assms
    by (cases "n = DOWNGRADED") (simp_all add: claimed_def downgrade_subscriptions rowOf_updateRow_other)
qed

lemma claimed_row_same:
  assumes "uniqueKeys suId (subscriptions s)"
    and "countRows (claimNotice (cdSubscription cd) n) (subscriptions s) \<noteq> 0"
  obtains u where "rowOf suId (suId (cdSubscription cd)) (subscriptions s) = Some u"
    "claimNotice (cdSubscription cd) n u"
    "rowOf suId (suId (cdSubscription cd)) (subscriptions (claimed c now cd n s))
       = Some (claimedRow (findFreePlan s) n u)"
proof -
  let ?i = "suId (cdSubscription cd)"
  obtain u where u: "u \<in> set (subscriptions s)" "claimNotice (cdSubscription cd) n u"
    using assms(2) by (auto simp: countRows_0_iff)
  then have r: "rowOf suId ?i (subscriptions s) = Some u"
    using rowOf_unique [OF assms(1) u(1)] by (simp add: claimNotice_id)
  have f: "findFreePlan (s\<lparr>subscriptions := x\<rparr>) = findFreePlan s" for x
    by (rule findFreePlan_cong) simp
  have "rowOf suId ?i (subscriptions (claimed c now cd n s)) = Some (claimedRow (findFreePlan s) n u)"
    using r u(2)
    by (cases "n = DOWNGRADED") (simp_all add: claimed_def downgrade_subscriptions rowOf_updateRow_same f
        rowOf_updateMany claimedRow_def)
  with r u(2) show ?thesis by (rule that)
qed

lemma uniqueKeys_claimed:
  "uniqueKeys suId (subscriptions (claimed c now cd n s)) = uniqueKeys suId (subscriptions s)"
  by (simp add: claimed_def Let_def downgrade_subscriptions uniqueKeys_updateRow uniqueKeys_updateMany)

lemma releaseNotice_row:
  "rowOf suId i (subscriptions (releaseNotice sid n s)) =
     map_option (\<lambda>u. if i = sid then u\<lparr>suExpiryNoticesSent :=
       filter (\<lambda>m. m \<noteq> notice_text n) (suExpiryNoticesSent u)\<rparr> else u) (rowOf suId i (subscriptions s))"
proof (cases "rowOf suId sid (subscriptions s)")
  case None
  then show ?thesis by (cases "i = sid") (auto simp: releaseNotice_def readNotices_def writeNotices_def option.map_ident)
next
  case (Some v)
  then have v: "suId v = sid" by (auto dest: rowOf_SomeD)
  show ?thesis
  proof (cases "rowOf suId i (subscriptions s)")
    case None
    with Some show ?thesis by (simp add: releaseNotice_def readNotices_def writeNotices_def rowOf_updateSubscription)
  next
    case (Some u)
    then have "suId u = i" by (auto dest: rowOf_SomeD)
    with Some v \<open>rowOf suId sid (subscriptions s) = Some v\<close> show ?thesis
      by (cases "i = sid") (simp_all add: releaseNotice_def readNotices_def writeNotices_def rowOf_updateSubscription)
  qed
qed

lemma uniqueKeys_releaseNotice [simp]:
  "uniqueKeys suId (subscriptions (releaseNotice i n s)) = uniqueKeys suId (subscriptions s)"
  by (simp add: releaseNotice_def readNotices_def writeNotices_def updateSubscription_def uniqueKeys_updateRow split: option.split)

text \<open>One candidate never touches the row of another subscription, the plans or the tenants.\<close>

lemma handle_tables [table_simps]:
  "plans (fst (handleCandidate c e f cd s)) = plans s"
  "tenants (fst (handleCandidate c e f cd s)) = tenants s"
  "uniqueKeys suId (subscriptions (fst (handleCandidate c e f cd s))) = uniqueKeys suId (subscriptions s)"
  by (simp_all add: handleCandidate_cases table_simps uniqueKeys_claimed split: option.split)

lemma handle_row_other:
  assumes "i \<noteq> suId (cdSubscription cd)"
  shows "rowOf suId i (subscriptions (fst (handleCandidate c e f cd s))) = rowOf suId i (subscriptions s)"
  using assms
  by (simp add: handleCandidate_cases releaseNotice_row claimed_row_other option.map_ident
      split: option.split)

text \<open>The notices a row has been sent.\<close>

definition sentNotice :: "uuid \<Rightarrow> ExpiryNotice \<Rightarrow> db \<Rightarrow> bool" where
  "sentNotice i n s = (case rowOf suId i (subscriptions s) of None \<Rightarrow> False
     | Some u \<Rightarrow> notice_text n \<in> set (suExpiryNoticesSent u))"

lemma notice_text_inj [simp]: "notice_text a = notice_text b \<longleftrightarrow> a = b"
  by (cases a; cases b) simp_all

text \<open>Left alone, the statements of a handling are \<open>handleCandidate\<close>.\<close>

lemma handle_is_its_statements:
  "((\<lambda>(h, s). advance c (mailFails (suId (cdSubscription cd))) h s) ^^ 5) (Waiting e cd, s)
     = (Finished, fst (handleCandidate c e mailFails cd s))"
  by (simp add: numeral_eq_Suc handleCandidate_def releaseNotice_def Let_def split: option.split)

subsection \<open>Overlapping handlings\<close>

text \<open>The handling has claimed this notice of this row and not yet mailed or released it.\<close>

fun owns :: "uuid \<Rightarrow> ExpiryNotice \<Rightarrow> Handling \<Rightarrow> bool" where
  "owns i n (Claimed e cd m) = (suId (cdSubscription cd) = i \<and> m = n)"
| "owns i n (Mailing e cd m) = (suId (cdSubscription cd) = i \<and> m = n)"
| "owns i n (Releasing j m) = (j = i \<and> m = n)"
| "owns i n (HasRead j m _) = (j = i \<and> m = n)"
| "owns i n _ = False"

fun mails :: "bool \<Rightarrow> Handling \<Rightarrow> (uuid \<times> ExpiryNotice) list" where
  "mails refuses (Mailing e cd n) = (if refuses then [] else [(suId (cdSubscription cd), n)])"
| "mails refuses _ = []"

text \<open>A step that writes a release finds no notice on the row that came after its read.\<close>

fun nothingSince :: "Handling \<Rightarrow> db \<Rightarrow> bool" where
  "nothingSince (HasRead i n current) s =
     (case readNotices i s of None \<Rightarrow> True | Some now \<Rightarrow> list_all (\<lambda>m. m = notice_text n \<or> m \<in> set current) now)"
| "nothingSince _ s = True"

text \<open>
  A schedule names at each step the handling that moves on and whether the queue then refuses. The
  notices mailed along it, and whether none of its releases was overlapped by a claim.
\<close>

definition nthHandling :: "Handling list \<Rightarrow> nat \<Rightarrow> Handling" where
  "nthHandling hs w = (if w < length hs then hs ! w else Finished)"

fun noticesSent :: "BillingConfig \<Rightarrow> (nat \<times> bool) list \<Rightarrow> Handling list \<Rightarrow> db \<Rightarrow> (uuid \<times> ExpiryNotice) list" where
  "noticesSent c [] hs s = []"
| "noticesSent c ((w, refuses) # steps) hs s =
     (case advance c refuses (nthHandling hs w) s of (h, s') \<Rightarrow>
        mails refuses (nthHandling hs w) @ noticesSent c steps (hs[w := h]) s')"

fun releasesAlone :: "BillingConfig \<Rightarrow> (nat \<times> bool) list \<Rightarrow> Handling list \<Rightarrow> db \<Rightarrow> bool" where
  "releasesAlone c [] hs s = True"
| "releasesAlone c ((w, refuses) # steps) hs s =
     (nothingSince (nthHandling hs w) s \<and>
      (case advance c refuses (nthHandling hs w) s of (h, s') \<Rightarrow> releasesAlone c steps (hs[w := h]) s'))"

definition owners :: "uuid \<Rightarrow> ExpiryNotice \<Rightarrow> Handling list \<Rightarrow> nat" where
  "owners i n hs = length (filter (owns i n) hs)"

lemma owners_update:
  assumes "w < length hs"
  shows "owners i n (hs[w := h]) + (if owns i n (hs ! w) then 1 else 0)
    = owners i n hs + (if owns i n h then 1 else 0)"
  using assms
proof (induction hs arbitrary: w)
  case (Cons x hs)
  then show ?case by (cases w) (auto simp: owners_def)
qed simp

lemma owners_nth: "owns i n (nthHandling hs w) \<Longrightarrow> 0 < owners i n hs"
  by (auto simp: nthHandling_def owners_def filter_empty_conv split: if_splits dest: nth_mem)

lemma owners_step:
  assumes "advance c refuses (nthHandling hs w) s = (h, s')"
  shows "owners i n (hs[w := h]) + (if owns i n (nthHandling hs w) then 1 else 0)
    = owners i n hs + (if owns i n h then 1 else 0)"
proof (cases "w < length hs")
  case True
  then show ?thesis using owners_update [OF True, of i n h] by (simp add: nthHandling_def)
next
  case False
  with assms show ?thesis by (auto simp: nthHandling_def list_update_beyond)
qed

lemma claim_SomeD:
  assumes "claim cd n s = Some s'" and "uniqueKeys suId (subscriptions s)"
  shows "\<not> sentNotice (suId (cdSubscription cd)) n s" and "sentNotice (suId (cdSubscription cd)) n s'"
    and "uniqueKeys suId (subscriptions s')" and "sentNotice i m s \<Longrightarrow> sentNotice i m s'"
proof -
  let ?i = "suId (cdSubscription cd)"
  have c: "countRows (claimNotice (cdSubscription cd) n) (subscriptions s) \<noteq> 0"
    and s': "s' = s\<lparr>subscriptions := updateMany (claimNotice (cdSubscription cd) n)
             (\<lambda>u. u\<lparr>suExpiryNoticesSent := suExpiryNoticesSent u @ [notice_text n]\<rparr>) (subscriptions s)\<rparr>"
    using assms(1) by (auto simp: claim_def split: if_splits)
  obtain u where u: "u \<in> set (subscriptions s)" "claimNotice (cdSubscription cd) n u"
    using c by (auto simp: countRows_0_iff)
  then have r: "rowOf suId ?i (subscriptions s) = Some u"
    using rowOf_unique [OF assms(2) u(1)] by (simp add: claimNotice_id)
  show "\<not> sentNotice ?i n s" using u(2) r by (simp add: sentNotice_def claimNotice_def)
  show "sentNotice ?i n s'" using u(2) r by (simp add: s' sentNotice_def rowOf_updateMany)
  show "uniqueKeys suId (subscriptions s')" using assms(2) by (simp add: s' uniqueKeys_updateMany)
  show "sentNotice i m s'" if "sentNotice i m s"
    using that by (auto simp: s' sentNotice_def rowOf_updateMany split: option.splits)
qed

lemma downgrade_sent:
  "sentNotice i n (downgrade c now cd s) = sentNotice i n s"
  by (auto simp: sentNotice_def downgrade_subscriptions updateRow_def rowOf_updateMany split: option.split)

lemma emit_sent: "sentNotice i n (emit x s) = sentNotice i n s"
  by (simp add: sentNotice_def)

lemma writeNotices_row:
  "rowOf suId i (subscriptions (writeNotices j current m s)) =
     map_option (\<lambda>u. if i = j then u\<lparr>suExpiryNoticesSent := filter (\<lambda>t. t \<noteq> notice_text m) current\<rparr> else u)
       (rowOf suId i (subscriptions s))"
  by (cases "rowOf suId i (subscriptions s)") (auto simp: writeNotices_def rowOf_updateSubscription dest: rowOf_SomeD)

text \<open>Only the release of the notice itself takes its mark off the row.\<close>

lemma advance_keeps_sent:
  assumes "advance c refuses h s = (h', s')" "uniqueKeys suId (subscriptions s)" "sentNotice i n s"
    and "nothingSince h s" "\<not> (owns i n h \<and> \<not> owns i n h' \<and> mails refuses h = [])"
  shows "sentNotice i n s'"
proof (cases h)
  case (Waiting e cd)
  with assms(1,3) show ?thesis
    by (auto split: option.splits intro: claim_SomeD(4) [OF _ assms(2)])
next
  case (HasRead j m current)
  obtain u where u: "rowOf suId i (subscriptions s) = Some u" "notice_text n \<in> set (suExpiryNoticesSent u)"
    using assms(3) by (auto simp: sentNotice_def split: option.splits)
  have s': "s' = writeNotices j current m s" "h' = Finished" using assms(1) HasRead by auto
  show ?thesis
  proof (cases "i = j")
    case True
    then have "m \<noteq> n" using assms(5) HasRead s'(2) by auto
    moreover have "notice_text n = notice_text m \<or> notice_text n \<in> set current"
      using assms(4) u True HasRead by (auto simp: readNotices_def list_all_iff)
    ultimately show ?thesis using u True by (auto simp: s' sentNotice_def writeNotices_row)
  next
    case False
    with u show ?thesis by (simp add: s' sentNotice_def writeNotices_row)
  qed
next
  case (Releasing j m)
  with assms(1,3) show ?thesis by (auto split: option.splits)
qed (use assms in \<open>auto simp: downgrade_sent emit_sent split: if_splits\<close>)

lemma advance_unique:
  "advance c refuses h s = (h', s') \<Longrightarrow> uniqueKeys suId (subscriptions s) \<Longrightarrow> uniqueKeys suId (subscriptions s')"
  by (cases h) (auto simp: downgrade_subscriptions uniqueKeys_updateRow writeNotices_def updateSubscription_def
      split: option.splits if_splits dest: claim_SomeD(3))

text \<open>A handling becomes the owner of a notice by claiming it, and only then.\<close>

lemma advance_owns:
  assumes "advance c refuses h s = (h', s')" "uniqueKeys suId (subscriptions s)" "owns i n h'"
  shows "owns i n h \<or> \<not> sentNotice i n s \<and> sentNotice i n s'"
  using assms
  by (cases h) (auto split: option.splits if_splits dest: claim_SomeD(1,2))

lemma mails_owns: "(i, n) \<in> set (mails refuses h) \<Longrightarrow> owns i n h"
  by (cases h) (auto split: if_splits)

lemma mails_once: "mails refuses h = [] \<or> (\<exists>i n. mails refuses h = [(i, n)] \<and> owns i n h)"
  by (cases h) auto

lemma mails_done: "mails refuses h \<noteq> [] \<Longrightarrow> advance c refuses h s = (h', s') \<Longrightarrow> h' = Finished"
  by (cases h) (auto split: if_splits)

text \<open>A notice that is on the row and that no handling holds is never mailed again.\<close>

lemma marked_not_sent:
  assumes "uniqueKeys suId (subscriptions s)" "sentNotice i n s" "owners i n hs = 0" "releasesAlone c steps hs s"
  shows "(i, n) \<notin> set (noticesSent c steps hs s)"
  using assms
proof (induction c steps hs s rule: noticesSent.induct)
  case (2 c w refuses steps hs s)
  obtain h s' where a: "advance c refuses (nthHandling hs w) s = (h, s')" by fastforce
  have no: "\<not> owns i n (nthHandling hs w)" using owners_nth [of i n hs w] 2(4) by auto
  have ra: "nothingSince (nthHandling hs w) s" "releasesAlone c steps (hs[w := h]) s'"
    using 2(5) a by simp_all
  have no': "\<not> owns i n h" using advance_owns [OF a 2(2)] no 2(3) by blast
  have "owners i n (hs[w := h]) = 0" using owners_step [OF a, of i n] no no' 2(4) by simp
  moreover have "sentNotice i n s'" using advance_keeps_sent [OF a 2(2,3) ra(1)] no by blast
  ultimately have "(i, n) \<notin> set (noticesSent c steps (hs[w := h]) s')"
    using 2(1) [OF a [symmetric] advance_unique [OF a 2(2)]] ra(2) by blast
  with no mails_owns show ?case by (auto simp: a)
qed simp

lemma sent_at_most_once:
  assumes "uniqueKeys suId (subscriptions s)" "releasesAlone c steps hs s"
    and "owners i n hs = 0 \<or> owners i n hs = 1 \<and> sentNotice i n s"
  shows "count_list (noticesSent c steps hs s) (i, n) \<le> 1"
  using assms
proof (induction c steps hs s rule: noticesSent.induct)
  case (2 c w refuses steps hs s)
  let ?h = "nthHandling hs w"
  obtain h s' where a: "advance c refuses ?h s = (h, s')" by fastforce
  have ra: "nothingSince ?h s" "releasesAlone c steps (hs[w := h]) s'"
    using 2(3) a by simp_all
  have u: "uniqueKeys suId (subscriptions s')" using advance_unique [OF a 2(2)] .
  note os = owners_step [OF a, of i n]
  show ?case
  proof (cases "(i, n) \<in> set (mails refuses ?h)")
    case True
    then have own: "owns i n ?h" by (rule mails_owns)
    then have one: "owners i n hs = 1" "sentNotice i n s" using owners_nth [OF own] 2(4) by auto
    have m: "mails refuses ?h = [(i, n)]" using mails_once [of refuses ?h] True by auto
    have fin: "h = Finished" by (rule mails_done [OF _ a]) (simp add: m)
    have "owners i n (hs[w := h]) = 0" using os own one(1) fin by simp
    moreover have "sentNotice i n s'" using advance_keeps_sent [OF a 2(2) one(2) ra(1)] m by simp
    ultimately have "(i, n) \<notin> set (noticesSent c steps (hs[w := h]) s')"
      using marked_not_sent [OF u _ _ ra(2)] by blast
    then have "count_list (noticesSent c steps (hs[w := h]) s') (i, n) = 0" by (simp add: count_list_0_iff)
    then show ?thesis by (simp add: a m)
  next
    case False
    then have m: "count_list (mails refuses ?h) (i, n) = 0" by (simp add: count_list_0_iff)
    have "owners i n (hs[w := h]) = 0 \<or> owners i n (hs[w := h]) = 1 \<and> sentNotice i n s'"
    proof (cases "owns i n h")
      case True
      show ?thesis
      proof (cases "owns i n ?h")
        case own: True
        then have "owners i n hs = 1" "sentNotice i n s" using owners_nth [OF own] 2(4) by auto
        moreover have "sentNotice i n s'"
          using advance_keeps_sent [OF a 2(2) calculation(2) ra(1)] True by blast
        ultimately show ?thesis using os own True by simp
      next
        case False
        with advance_owns [OF a 2(2) True] have "\<not> sentNotice i n s" "sentNotice i n s'" by auto
        then show ?thesis using os False True 2(4) by auto
      qed
    next
      case not_h: False
      show ?thesis
      proof (cases "owns i n ?h")
        case True
        then show ?thesis using os not_h owners_nth [OF True] 2(4) by auto
      next
        case False
        then have "owners i n (hs[w := h]) = owners i n hs" using os not_h by simp
        moreover have "sentNotice i n s \<Longrightarrow> sentNotice i n s'"
          using advance_keeps_sent [OF a 2(2) _ ra(1)] False by blast
        ultimately show ?thesis using 2(4) by auto
      qed
    qed
    from 2(1) [OF a [symmetric] u ra(2) this] show ?thesis by (simp add: a m)
  qed
qed simp

lemma distinct_count_list:
  assumes "\<And>x. count_list xs x \<le> 1"
  shows "distinct xs"
  using assms
proof (induction xs)
  case (Cons a xs)
  have "count_list xs a = 0" using Cons.prems [of a] by simp
  moreover have "count_list xs x \<le> 1" for x using Cons.prems [of x] by (simp split: if_splits)
  ultimately show ?case using Cons.IH by (simp add: count_list_0_iff)
qed simp

lemma owners_waiting: "\<forall>h \<in> set hs. \<exists>e cd. h = Waiting e cd \<Longrightarrow> owners i n hs = 0"
  by (auto simp: owners_def filter_empty_conv)

lemma distinct_noticesSent:
  assumes "uniqueKeys suId (subscriptions s)" "\<forall>h \<in> set hs. \<exists>e cd. h = Waiting e cd" "releasesAlone c steps hs s"
  shows "distinct (noticesSent c steps hs s) \<and> list_all (\<lambda>(i, n). \<not> sentNotice i n s) (noticesSent c steps hs s)"
proof -
  have "count_list (noticesSent c steps hs s) x \<le> 1" for x
    using sent_at_most_once [OF assms(1,3)] owners_waiting [OF assms(2)] by (cases x) blast
  then have "distinct (noticesSent c steps hs s)" by (rule distinct_count_list)
  moreover have "\<not> sentNotice i n s" if "(i, n) \<in> set (noticesSent c steps hs s)" for i n
    using marked_not_sent [OF assms(1) _ owners_waiting [OF assms(2)] assms(3)] that by blast
  ultimately show ?thesis by (auto simp: list_all_iff)
qed

subsection \<open>A whole sweep\<close>

lemma lifecycleStep_fst: "fst (lifecycleStep c e f cd acc) = fst (handleCandidate c e f cd (fst acc))"
  by (simp add: lifecycleStep_def split: prod.splits sum.splits bool.splits)

lemma fst_fold_lifecycleStep:
  "fst (fold (lifecycleStep c e f) cds acc) = fold (\<lambda>cd s. fst (handleCandidate c e f cd s)) cds (fst acc)"
  by (induction cds arbitrary: acc) (simp_all add: lifecycleStep_fst)

lemma fst_runLifecycle:
  "fst (runLifecycle c e f s) =
     fold (\<lambda>cd s. fst (handleCandidate c e f cd s)) (lifecycleCandidates (eNow e) s) s"
  by (simp add: runLifecycle_def Let_def split_def fst_fold_lifecycleStep)

lemma fold_handle_other:
  assumes "\<And>cd. cd \<in> set cds \<Longrightarrow> suId (cdSubscription cd) \<noteq> i"
  shows "rowOf suId i (subscriptions (fold (\<lambda>cd s. fst (handleCandidate c e f cd s)) cds s))
    = rowOf suId i (subscriptions s)"
  using assms
proof (induction cds arbitrary: s)
  case (Cons cd cds)
  then have "i \<noteq> suId (cdSubscription cd)" by force
  then show ?case using Cons by (simp add: handle_row_other)
qed simp

lemma fold_handle_tables [table_simps]:
  "plans (fold (\<lambda>cd s. fst (handleCandidate c e f cd s)) cds s) = plans s"
  "tenants (fold (\<lambda>cd s. fst (handleCandidate c e f cd s)) cds s) = tenants s"
  "uniqueKeys suId (subscriptions (fold (\<lambda>cd s. fst (handleCandidate c e f cd s)) cds s))
    = uniqueKeys suId (subscriptions s)"
  by (induction cds arbitrary: s) (simp_all add: table_simps)

lemma candidateOf_subscription: "candidateOf s u = Some cd \<Longrightarrow> cdSubscription cd = u \<and> planOf s u = Some (cdPlan cd)"
  by (auto simp: candidateOf_def split: option.splits)

lemma lifecycleCandidates_D:
  assumes "cd \<in> set (lifecycleCandidates now s)"
  shows "cdSubscription cd \<in> set (subscriptions s) \<and> isCandidate now cd"
proof -
  from assms obtain u where "u \<in> set (subscriptions s)" "candidateOf s u = Some cd" "isCandidate now cd"
    by (auto simp: lifecycleCandidates_def List.map_filter_def)
  then show ?thesis using candidateOf_subscription by blast
qed

lemma map_filter_image:
  assumes "\<And>x y. g x = Some y \<Longrightarrow> h y = x"
  shows "map h (List.map_filter g xs) = filter (\<lambda>x. g x \<noteq> None) xs"
proof (induction xs)
  case (Cons x xs)
  then show ?case using assms [of x] by (cases "g x") (simp_all add: List.map_filter_simps)
qed (simp add: List.map_filter_simps)

lemma distinct_candidates:
  assumes "uniqueKeys suId (subscriptions s)"
  shows "distinct (map (suId \<circ> cdSubscription) (lifecycleCandidates now s))"
proof -
  have "map cdSubscription (List.map_filter (candidateOf s) (subscriptions s))
      = filter (\<lambda>u. candidateOf s u \<noteq> None) (subscriptions s)"
    by (rule map_filter_image) (auto dest: candidateOf_subscription)
  then have "map (suId \<circ> cdSubscription) (List.map_filter (candidateOf s) (subscriptions s))
      = map suId (filter (\<lambda>u. candidateOf s u \<noteq> None) (subscriptions s))"
    by (metis map_map)
  moreover have "distinct (map suId (filter (\<lambda>u. candidateOf s u \<noteq> None) (subscriptions s)))"
    using assms by (simp add: uniqueKeys_def distinct_map_filter)
  ultimately show ?thesis
    unfolding lifecycleCandidates_def by (metis distinct_map_filter)
qed

lemma handled_not_lapsed:
  assumes "uniqueKeys suId (subscriptions s)" and "findFreePlan s = Some fp"
    and "rowOf suId (suId u) (subscriptions s) = Some u" and "notice_text DOWNGRADED \<notin> set (suExpiryNoticesSent u)"
    and "cdSubscription cd = u" "isLapsed u (cdPlan cd) (eNow e)"
  shows "\<exists>v. rowOf suId (suId u) (subscriptions (fst (handleCandidate c e f cd s))) = Some v
    \<and> suPlanId v = plId fp \<and> suExpiresAt v = None"
proof -
  have due: "dueExpiryNotice u (cdPlan cd) (eNow e) = Some DOWNGRADED"
    using assms(6) by (auto simp: dueExpiryNotice_def isLapsed_iff)
  have cl: "claimNotice u DOWNGRADED u" using assms(4) by (simp add: claimNotice_def)
  have n0: "countRows (claimNotice u DOWNGRADED) (subscriptions s) \<noteq> 0"
    using cl rowOf_SomeD [OF assms(3)] by (auto simp: countRows_0_iff)
  obtain w where "rowOf suId (suId (cdSubscription cd)) (subscriptions s) = Some w"
      "rowOf suId (suId (cdSubscription cd)) (subscriptions (claimed c (eNow e) cd DOWNGRADED s))
        = Some (claimedRow (findFreePlan s) DOWNGRADED w)"
    using assms(1) n0 unfolding assms(5) [symmetric] by (rule claimed_row_same)
  then have "rowOf suId (suId u) (subscriptions (claimed c (eNow e) cd DOWNGRADED s))
      = Some (claimedRow (Some fp) DOWNGRADED u)"
    using assms(2,3,5) by simp
  with due n0 assms(5) show ?thesis
    by (simp add: handleCandidate_cases releaseNotice_row claimedRow_def lapseRow_def Let_def)
qed

lemma fold_handle_lapsed:
  assumes "uniqueKeys suId (subscriptions s)" and "findFreePlan s = Some fp"
    and "rowOf suId (suId u) (subscriptions s) = Some u" and "notice_text DOWNGRADED \<notin> set (suExpiryNoticesSent u)"
    and "cd \<in> set cds" "cdSubscription cd = u" "isLapsed u (cdPlan cd) (eNow e)"
    and "distinct (map (suId \<circ> cdSubscription) cds)"
  shows "\<exists>v. rowOf suId (suId u) (subscriptions (fold (\<lambda>cd s. fst (handleCandidate c e f cd s)) cds s)) = Some v
    \<and> suPlanId v = plId fp \<and> suExpiresAt v = None"
proof -
  obtain before rest where l: "cds = before @ cd # rest"
    using assms(5) by (auto simp: in_set_conv_decomp)
  define s1 where "s1 = fold (\<lambda>cd s. fst (handleCandidate c e f cd s)) before s"
  have b: "suId (cdSubscription x) \<noteq> suId u" if "x \<in> set before \<or> x \<in> set rest" for x
    using assms(6,8) that by (auto simp: l image_iff)
  have r1: "rowOf suId (suId u) (subscriptions s1) = Some u"
    unfolding s1_def using assms(3) b by (subst fold_handle_other) auto
  have u1: "uniqueKeys suId (subscriptions s1)" and f1: "findFreePlan s1 = Some fp"
    using assms(1,2) by (simp_all add: s1_def table_simps findFreePlan_def)
  obtain v where v: "rowOf suId (suId u) (subscriptions (fst (handleCandidate c e f cd s1))) = Some v"
      "suPlanId v = plId fp" "suExpiresAt v = None"
    using handled_not_lapsed [OF u1 f1 r1 assms(4,6,7)] by blast
  have "rowOf suId (suId u) (subscriptions (fold (\<lambda>cd s. fst (handleCandidate c e f cd s)) cds s)) = Some v"
    using v(1) b by (simp add: l s1_def fold_handle_other)
  with v show ?thesis by blast
qed

section \<open>Properties\<close>

text \<open>
  C15: a store that pays a plan by card ends on the same subscription row and with the same single
  request to cancel what it replaced, in whatever order, how often and whenever Stripe delivers the
  completed checkout and the paid invoice, as long as the checkout is among the deliveries.
\<close>

theorem billing_webhooks_any_order:
  assumes "cardBillingEnabled c" and "retrieve i = Some sub" "i \<noteq> []"
    and "pcKind session = Some PLAN_CHECKOUT_KIND" "pcPaymentStatus session \<noteq> ''unpaid''"
      "pcMode session = ''subscription''" "pcSubscription session = Some i"
    and "ssuTenantId sub = Some t" "currentSubscription s t = Some u"
    and "snd ` set evs \<subseteq> {CheckoutCompleted session, InvoicePaid (Some i)}"
    and "CheckoutCompleted session \<in> snd ` set evs"
  shows "deliverAll c retrieve evs s = handleBillingWebhook c e retrieve s (Some (CheckoutCompleted session))"
  using assms(10,11)
proof (induction evs)
  case (Cons x evs)
  obtain e' ev where x: "x = (e', ev)" by (cases x)
  note one = deliver_one [where c = c and retrieve = retrieve and i = i, OF assms(1-7)]
  define T where "T = applyStripeSubscription c e s sub True"
  have rest: "snd ` set evs \<subseteq> {CheckoutCompleted session, InvoicePaid (Some i)}"
    using Cons.prems(1) by auto
  have absorbed: "deliverAll c retrieve evs T = Inr T"
    using assms(1-4,6,7) apply_after_checkout [OF assms(9,8)] rest
    unfolding T_def by (intro deliverAll_stays [where i = i and sub = sub and session = session]) auto
  have T': "applyStripeSubscription c e' s sub True = T"
    unfolding T_def using assms(9,8) by (rule apply_env)
  consider "ev = CheckoutCompleted session"
    | "ev = InvoicePaid (Some i)" "applyStripeSubscription c e' s sub False = T"
    | "ev = InvoicePaid (Some i)" "applyStripeSubscription c e' s sub False = s"
    using Cons.prems(1) apply_invoice [OF assms(9,8), of c e' e] unfolding x T_def by auto
  then show ?case
  proof cases
    case 1
    then show ?thesis using absorbed T' by (simp add: x one T_def [symmetric])
  next
    case 2
    then show ?thesis using absorbed by (simp add: x one T_def [symmetric])
  next
    case 3
    then have "CheckoutCompleted session \<in> snd ` set evs" using Cons.prems(2) by (simp add: x)
    with 3 Cons.IH [OF rest] show ?thesis by (simp add: x one)
  qed
qed simp

definition config0 :: BillingConfig where
  "config0 = \<lparr>bcSecretKey = True, bcBillingWebhookSecret = True\<rparr>"

definition stripeSub0 :: StripeSubscription where
  "stripeSub0 = \<lparr>ssuId = ''sub1'', ssuStatus = ''active'', ssuKind = Some PLAN_CHECKOUT_KIND,
     ssuTenantId = Some ''t1'', ssuPlanId = Some ''pl1'', ssuCustomer = Some ''cus1'',
     ssuCurrentPeriodEnd = 2000000000, ssuCancelAtPeriodEnd = False\<rparr>"

definition planCheckout0 :: PlanCheckout where
  "planCheckout0 = \<lparr>pcKind = Some PLAN_CHECKOUT_KIND, pcPaymentStatus = ''paid'',
     pcMode = ''subscription'', pcSubscription = Some ''sub1'', pcTenantId = Some ''t1'',
     pcPlanId = Some ''pl1'', pcCustomer = Some ''cus1''\<rparr>"

theorem billing_webhooks_any_order_witness:
  "deliverAll config0 (\<lambda>_. Some stripeSub0) [(env0, InvoicePaid (Some ''sub1'')), (env0, CheckoutCompleted planCheckout0)] db0
   = deliverAll config0 (\<lambda>_. Some stripeSub0) [(env0, CheckoutCompleted planCheckout0), (env0, InvoicePaid (Some ''sub1''))] db0"
proof -
  have u: "currentSubscription db0 ''t1'' = Some sub0"
    by (simp add: currentSubscription_def firstBy_def findMany_def sample_defs)
  note p = billing_webhooks_any_order [where c = config0 and retrieve = "\<lambda>_. Some stripeSub0" and i = "''sub1''"
      and sub = stripeSub0 and session = planCheckout0 and t = "''t1''" and s = db0 and u = sub0 and e = env0]
  have "deliverAll config0 (\<lambda>_. Some stripeSub0) evs db0
      = handleBillingWebhook config0 env0 (\<lambda>_. Some stripeSub0) db0 (Some (CheckoutCompleted planCheckout0))"
    if "snd ` set evs = {CheckoutCompleted planCheckout0, InvoicePaid (Some ''sub1'')}" for evs
    using u that by (intro p) (auto simp: config0_def stripeSub0_def planCheckout0_def cardBillingEnabled_def)
  then show ?thesis by (simp add: insert_commute del: deliverAll.simps)
qed

text \<open>
  C16: no expiry notice is sent twice for a paid period, as long as no release is overlapped. Any number of
  candidates, read at any moment and handled by one run of the hourly sweep or by several at once, claim,
  downgrade, queue their e-mail (the queue refusing at will), read the row for the release of a claim and write it
  in any interleaving of these statements; then each row gets each notice at most once, and none it had been
  sent before, provided that no release finds at its write a notice on the row that was claimed after its
  read. (What happens otherwise is \<open>overlapped_release_sends_twice\<close>.)
\<close>

theorem notices_sent_once:
  assumes "uniqueKeys suId (subscriptions s)" and "\<forall>h \<in> set hs. \<exists>e cd. h = Waiting e cd"
    and "releasesAlone c schedule hs s"
  shows "distinct (noticesSent c schedule hs s)
    \<and> list_all (\<lambda>(i, n). \<not> sentNotice i n s) (noticesSent c schedule hs s)"
  using assms by (rule distinct_noticesSent)

definition candidate0 :: Candidate where
  "candidate0 = \<lparr>cdSubscription = sub0, cdPlan = plan0, cdTenant = tenant0,
     cdOwner = \<lparr>uId = ''u1'', uEmail = ''o@x'', uPasswordHash = [], uName = ''Owner'', uGlobalRole = USER,
       uTwoFactorEnabled = False, uTotpSecret = None, uIsActive = True\<rparr>\<rparr>"

text \<open>Two handlings of one row: the first queues its e-mail in vain and releases, then the second claims.\<close>

theorem notices_sent_once_witness:
  "distinct (noticesSent config0 [(0, False), (1, False), (0, False), (0, True), (0, False), (0, False)]
      [Waiting env0 candidate0, Waiting env0 candidate0] db0)
   \<and> noticesSent config0 [(0, False), (0, False), (0, False), (1, False)]
      [Waiting env0 candidate0, Waiting env0 candidate0] db0 = [(''s1'', D1)]"
proof -
  have u: "uniqueKeys suId (subscriptions db0)" by (simp add: sample_defs uniqueKeys_def)
  have w: "\<forall>h \<in> set [Waiting env0 candidate0, Waiting env0 candidate0]. \<exists>e cd. h = Waiting e cd" by simp
  have due: "dueExpiryNotice (cdSubscription candidate0) (cdPlan candidate0) (eNow env0) = Some D1"
    by (simp add: candidate0_def sample_defs dueExpiryNotice_def isPaidPlan_def isLapsed_iff autoRenews_def DAY_MS_def)
  note ev = due [simplified candidate0_def sample_defs, simplified] nthHandling_def claim_def claimNotice_def candidate0_def sample_defs readNotices_def writeNotices_def
    updateSubscription_def updateRow_def
  have r: "releasesAlone config0 [(0, False), (1, False), (0, False), (0, True), (0, False), (0, False)]
      [Waiting env0 candidate0, Waiting env0 candidate0] db0"
    by (simp add: ev)
  have "noticesSent config0 [(0, False), (0, False), (0, False), (1, False)]
      [Waiting env0 candidate0, Waiting env0 candidate0] db0 = [(''s1'', D1)]"
    by (simp add: ev)
  with notices_sent_once [OF u w r] show ?thesis by blast
qed

text \<open>
  A release that is overlapped erases the claim made in between. The first handling claims the notice
  of the day before, cannot queue its e-mail and reads the row; the second, past the expiry, claims the next
  notice and mails it; then the first writes what it had read, less its own notice; the third, of the next run,
  finds the second notice unsent and mails it again.
\<close>

theorem overlapped_release_sends_twice:
  "let expired = env0\<lparr>eNow := 1000001000000\<rparr>
   in noticesSent config0
        [(0, False), (0, False), (0, True), (0, False), (1, False), (1, False), (1, False), (0, False),
         (2, False), (2, False), (2, False)]
        [Waiting env0 candidate0, Waiting expired candidate0, Waiting expired candidate0] db0
      = [(''s1'', D0), (''s1'', D0)]"
proof -
  have due: "dueExpiryNotice (cdSubscription candidate0) (cdPlan candidate0) (eNow env0) = Some D1"
    "dueExpiryNotice (cdSubscription candidate0) (cdPlan candidate0) 1000001000000 = Some D0"
    by (simp_all add: candidate0_def sample_defs dueExpiryNotice_def isPaidPlan_def isLapsed_iff autoRenews_def DAY_MS_def)
  show ?thesis
    by (simp add: Let_def due [simplified candidate0_def sample_defs, simplified] nthHandling_def claim_def claimNotice_def candidate0_def sample_defs readNotices_def
        writeNotices_def updateSubscription_def updateRow_def)
qed

text \<open>
  C17: one run of the sweep leaves no store on a lapsed plan, as long as the platform has a free plan:
  every paid subscription that is active or has a request pending, whose grace period is over when the run
  begins, whose plan, store and owner exist and on which no earlier run has left the mark of a downgrade, is on the free plan with no
  expiry afterwards, even when the e-mail of its notice could not be queued. (A row that carries the mark is
  not touched again: its claim fails.)
\<close>

theorem sweep_downgrades_every_lapsed:
  assumes "uniqueKeys suId (subscriptions s)" and "findFreePlan s = Some fp"
    and "u \<in> set (subscriptions s)" "candidateOf s u = Some cd"
    and "suStatus u \<in> {SubscriptionStatus.ACTIVE, SubscriptionStatus.PENDING_UPGRADE}"
    and "isLapsed u (cdPlan cd) (eNow e)" and "\<not> sentNotice (suId u) DOWNGRADED s"
  shows "\<exists>v. rowOf suId (suId u) (subscriptions (fst (runLifecycle c e mailFails s))) = Some v
    \<and> suPlanId v = plId fp \<and> suExpiresAt v = None"
proof -
  have r: "rowOf suId (suId u) (subscriptions s) = Some u" using assms(1,3) by (rule rowOf_unique)
  have cu: "cdSubscription cd = u" using candidateOf_subscription [OF assms(4)] by simp
  have "isCandidate (eNow e) cd"
    using assms(5,6) cu by (auto simp: isCandidate_def isLapsed_iff isPaidPlan_def DAY_MS_def)
  moreover have "cd \<in> set (List.map_filter (candidateOf s) (subscriptions s))"
    using assms(3,4) by (auto simp: List.map_filter_def intro!: image_eqI [where x = u])
  ultimately have mem: "cd \<in> set (lifecycleCandidates (eNow e) s)"
    by (simp add: lifecycleCandidates_def)
  have ns: "notice_text DOWNGRADED \<notin> set (suExpiryNoticesSent u)" using assms(7) r by (simp add: sentNotice_def)
  show ?thesis
    unfolding fst_runLifecycle
    by (rule fold_handle_lapsed [OF assms(1,2) r ns mem cu assms(6) distinct_candidates [OF assms(1)]])
qed

definition billingDb0 :: db where
  "billingDb0 = db0\<lparr>users := [cdOwner candidate0]\<rparr>"

theorem sweep_downgrades_every_lapsed_witness:
  "\<exists>v. rowOf suId ''s1'' (subscriptions (fst (runLifecycle config0
       (env0\<lparr>eNow := 1000001000000 + 7 * DAY_MS\<rparr>) (\<lambda>_. True) billingDb0))) = Some v
     \<and> suPlanId v = ''pl0'' \<and> suExpiresAt v = None"
  using sweep_downgrades_every_lapsed [of billingDb0 freePlan0 sub0 candidate0
      "env0\<lparr>eNow := 1000001000000 + 7 * DAY_MS\<rparr>" config0 "\<lambda>_. True"]
  by (simp add: uniqueKeys_def findFreePlan_def firstBy_def findMany_def candidateOf_def planOf_def
      sentNotice_def isLapsed_iff isPaidPlan_def billingDb0_def candidate0_def sample_defs)

text \<open>
  The notice of a downgrade can be lost. When the e-mail queue refuses the job, the claim is
  released so that the next run retries; but the row has left the paid plan by then, so no later run
  reads it again (as long as the free plan stays free): the store is downgraded and never told.
\<close>

theorem downgrade_notice_lost:
  assumes "uniqueKeys suId (subscriptions s)" and "findFreePlan s = Some fp"
    and "u \<in> set (subscriptions s)" "candidateOf s u = Some cd"
    and "isLapsed u (cdPlan cd) (eNow e)" and "\<not> sentNotice (suId u) DOWNGRADED s"
    and "mailFails (suId u)"
  shows "\<exists>s' x. handleCandidate c e mailFails cd s = (s', Inl x)
    \<and> \<not> sentNotice (suId u) DOWNGRADED s'
    \<and> (\<forall>e' f. rowOf suId (suId u) (subscriptions (fst (runLifecycle c e' f s')))
          = rowOf suId (suId u) (subscriptions s'))
    \<and> (\<forall>now. suId u \<notin> (suId \<circ> cdSubscription) ` set (lifecycleCandidates now s'))"
proof -
  have r: "rowOf suId (suId u) (subscriptions s) = Some u" using assms(1,3) by (rule rowOf_unique)
  have cu: "cdSubscription cd = u" using candidateOf_subscription [OF assms(4)] by simp
  have ns: "notice_text DOWNGRADED \<notin> set (suExpiryNoticesSent u)" using assms(6) r by (simp add: sentNotice_def)
  have due: "dueExpiryNotice u (cdPlan cd) (eNow e) = Some DOWNGRADED"
    using assms(5) by (auto simp: dueExpiryNotice_def isLapsed_iff)
  have n0: "countRows (claimNotice u DOWNGRADED) (subscriptions s) \<noteq> 0"
    using assms(3) ns by (auto simp: countRows_0_iff claimNotice_def)
  define s' where "s' = releaseNotice (suId u) DOWNGRADED (claimed c (eNow e) cd DOWNGRADED s)"
  have h: "handleCandidate c e mailFails cd s = (s', Inl (InternalError ''email queue''))"
    using due n0 assms(7) cu by (simp add: handleCandidate_cases s'_def)
  obtain v where v: "rowOf suId (suId u) (subscriptions s') = Some v" "suExpiresAt v = None"
    using handled_not_lapsed [OF assms(1,2) r ns cu assms(5), of c mailFails] h by auto
  have un: "uniqueKeys suId (subscriptions s')" using assms(1) by (simp add: s'_def uniqueKeys_claimed)
  have unsent: "\<not> sentNotice (suId u) DOWNGRADED s'"
    by (cases "rowOf suId (suId u) (subscriptions (claimed c (eNow e) cd DOWNGRADED s))")
      (simp_all add: s'_def sentNotice_def releaseNotice_row)
  have gone: "suId u \<notin> (suId \<circ> cdSubscription) ` set (lifecycleCandidates now s')" for now
  proof
    assume "suId u \<in> (suId \<circ> cdSubscription) ` set (lifecycleCandidates now s')"
    then obtain x where x: "x \<in> set (lifecycleCandidates now s')" "suId (cdSubscription x) = suId u"
      by auto
    then have m: "cdSubscription x \<in> set (subscriptions s')" "isCandidate now x"
      by (auto dest: lifecycleCandidates_D)
    then have "rowOf suId (suId u) (subscriptions s') = Some (cdSubscription x)"
      using rowOf_unique [OF un m(1)] x(2) by simp
    with v m(2) show False by (simp add: isCandidate_def)
  qed
  have stays: "rowOf suId (suId u) (subscriptions (fst (runLifecycle c e' f s')))
      = rowOf suId (suId u) (subscriptions s')" for e' f
    unfolding fst_runLifecycle using gone [of "eNow e'"] by (intro fold_handle_other) force
  show ?thesis
    using h unsent stays gone by blast
qed

theorem downgrade_notice_lost_witness:
  "\<exists>s' x. handleCandidate config0 (env0\<lparr>eNow := 1000001000000 + 7 * DAY_MS\<rparr>) (\<lambda>_. True) candidate0 billingDb0 = (s', Inl x)
    \<and> ''s1'' \<notin> (suId \<circ> cdSubscription) ` set (lifecycleCandidates 1000002000000 s')"
proof -
  have "uniqueKeys suId (subscriptions billingDb0)" "findFreePlan billingDb0 = Some freePlan0"
      "sub0 \<in> set (subscriptions billingDb0)" "candidateOf billingDb0 sub0 = Some candidate0"
      "isLapsed sub0 (cdPlan candidate0) (eNow (env0\<lparr>eNow := 1000001000000 + 7 * DAY_MS\<rparr>))"
      "\<not> sentNotice (suId sub0) DOWNGRADED billingDb0"
    by (simp_all add: uniqueKeys_def findFreePlan_def firstBy_def findMany_def candidateOf_def planOf_def
      sentNotice_def isLapsed_iff isPaidPlan_def billingDb0_def candidate0_def sample_defs)
  from downgrade_notice_lost [OF this, of "\<lambda>_. True" config0] show ?thesis
    by (auto simp: sub0_def)
qed

text \<open>
  The checkout of a lifetime plan, once Stripe reports it paid, puts exactly the store that
  started it on exactly the plan it chose: the session charges the plan's price in cents, carries
  store and plan in its metadata, and the webhook leaves the store active on the plan with no expiry,
  no request open and no card subscription, asking Stripe to cancel the one it had.
\<close>

theorem lifetime_checkout_roundtrip:
  assumes "createCheckout c e s t planId = Inr z"
    and "pzMode z = mode_payment" "t \<noteq> []" "planId \<noteq> []"
    and "list_all (\<lambda>p. cents (plPrice p) \<and> plPrice p \<le> 10 ^ 12) (plans s)"
    and "pcKind session = map_of (pzMetadata z) ''kind''" "pcMode session = ''payment''"
      "pcTenantId session = map_of (pzMetadata z) ''tenantId''"
      "pcPlanId session = map_of (pzMetadata z) ''planId''" "pcPaymentStatus session = ''paid''"
  shows "\<exists>p s' u. p \<in> set (plans s) \<and> plId p = planId \<and> plDuration p = LIFETIME \<and> plIsActive p
    \<and> of_int (pzUnitAmount z) = plPrice p * 100 \<and> 0 < pzUnitAmount z
    \<and> handleBillingWebhook c e retrieve s (Some (CheckoutCompleted session)) = Inr s'
    \<and> currentSubscription s' t = Some u \<and> suPlanId u = planId \<and> suExpiresAt u = None
    \<and> suStatus u = SubscriptionStatus.ACTIVE \<and> suRequestedPlanId u = None \<and> suStripeSubscriptionId u = None
    \<and> outbox s' = outbox s @ (case currentSubscription s t of
        Some v \<Rightarrow> (case suStripeSubscriptionId v of
            Some old \<Rightarrow> if old \<noteq> [] then [CancelStripeSubscription old] else [] | None \<Rightarrow> [])
      | None \<Rightarrow> [])"
proof -
  have cfg: "cardBillingEnabled c"
    using assms(1) by (auto simp: createCheckout_def requireStripe_def split: if_splits)
  obtain p where p: "findFirst (\<lambda>p. plId p = planId \<and> plIsActive p) (plans s) = Some p"
    using assms(1) by (auto simp: createCheckout_def bind_res_eq_Inr split: option.splits)
  then have fp: "p \<in> set (plans s)" "plId p = planId" "plIsActive p" by (auto dest: findFirst_SomeD)
  have paid: "isPaidPlan p"
    using assms(1) p by (auto simp: createCheckout_def bind_res_eq_Inr split: if_splits)
  obtain k m l where z: "z = planSession t p k m l"
    using assms(1) p paid
    by (auto simp: createCheckout_def bind_res_eq_Inr Let_def split: if_splits option.splits)
  have life: "plDuration p = LIFETIME"
    using assms(2) by (auto simp: z planSession_def Let_def split: if_splits)
  obtain i where i: "plPrice p * 100 = of_int i"
    using assms(5) fp(1) by (auto simp: list_all_iff elim!: centsE)
  have "js_round_mult (plPrice p) 100 = i"
    using paid assms(5) fp(1) i by (intro js_round_mult_cents) (auto simp: isPaidPlan_def list_all_iff)
  then have amount: "pzUnitAmount z = i" by (simp add: z planSession_def Let_def)
  have "0 < (of_int i :: rat)" using paid i by (simp add: isPaidPlan_def)
  then have pos: "0 < i" by simp
  have meta: "pcKind session = Some PLAN_CHECKOUT_KIND" "pcTenantId session = Some t" "pcPlanId session = Some planId"
    using assms(6,8,9) fp(2) by (simp_all add: z planSession_def Let_def)
  define b where "b = \<lparr>abExpiresAt = None, abBillingProvider = BillingProvider.MANUAL,
     abStripeCustomerId = (case idOf (pcCustomer session) of None \<Rightarrow> None | Some k \<Rightarrow> Some (Some k)),
     abStripeSubscriptionId = None, abCancelAtPeriodEnd = None\<rparr>"
  define a where "a = activatePlan e s t planId b"
  define s' where "s' = (case currentSubscription s t of None \<Rightarrow> a
      | Some u \<Rightarrow> if truthy (suStripeSubscriptionId u)
                then cancelStripeSubscription c (the (suStripeSubscriptionId u)) a else a)"
  have w: "handleBillingWebhook c e retrieve s (Some (CheckoutCompleted session)) = Inr s'"
    using cfg meta assms(3,4,7,10)
    by (cases "currentSubscription s t") (simp_all add: handleBillingWebhook_def requireStripe_def cardBillingEnabled_def onCheckoutCompleted_def
        s'_def a_def b_def Let_def)
  define v where "v = (case currentSubscription s t of Some u \<Rightarrow> u
      | None \<Rightarrow> newSubscription (eFresh e 0) t planId None (eNow e))"
  have "currentSubscription s' t = Some (activate planId b v)"
    by (simp add: s'_def a_def currentSubscription_activatePlan v_def split: option.splits)
  moreover have "outbox a = outbox s"
    by (simp add: a_def activatePlan_def updateSubscription_def split: option.splits)
  then have "outbox s' = outbox s @ (case currentSubscription s t of
        Some v \<Rightarrow> (case suStripeSubscriptionId v of
            Some old \<Rightarrow> if old \<noteq> [] then [CancelStripeSubscription old] else [] | None \<Rightarrow> [])
      | None \<Rightarrow> [])"
    using cfg by (simp add: s'_def cancelStripeSubscription_def cardBillingEnabled_def split: option.split)
  ultimately show ?thesis
    using fp life w i amount pos
    by (intro exI [of _ p] exI [of _ s'] exI [of _ "activate planId b v"]) (simp add: activate_def b_def)
qed

definition lifetimeDb0 :: db where
  "lifetimeDb0 = billingDb0\<lparr>plans := [plan0\<lparr>plId := ''pl2'', plDuration := LIFETIME\<rparr>],
     subscriptions := [sub0\<lparr>suStripeSubscriptionId := Some ''old'', suStripeCustomerId := Some ''cus1''\<rparr>]\<rparr>"

theorem lifetime_checkout_roundtrip_witness:
  "\<exists>z s' u. createCheckout config0 env0 lifetimeDb0 ''t1'' ''pl2'' = Inr z \<and> pzUnitAmount z = 1000
    \<and> currentSubscription s' ''t1'' = Some u \<and> suPlanId u = ''pl2'' \<and> suExpiresAt u = None
    \<and> handleBillingWebhook config0 env0 (\<lambda>_. None) lifetimeDb0 (Some (CheckoutCompleted
        (planCheckout0\<lparr>pcMode := ''payment'', pcPlanId := Some ''pl2''\<rparr>))) = Inr s'
    \<and> outbox s' = [CancelStripeSubscription ''old'']"
proof -
  define z where "z = planSession ''t1'' (plan0\<lparr>plId := ''pl2'', plDuration := LIFETIME\<rparr>)
      (Some ''cus1'') ''o@x'' (adminPlansLink (ePublicWebUrl env0))"
  have cur: "currentSubscription lifetimeDb0 ''t1''
      = Some (sub0\<lparr>suStripeSubscriptionId := Some ''old'', suStripeCustomerId := Some ''cus1''\<rparr>)"
    by (simp add: lifetimeDb0_def currentSubscription_def firstBy_def findMany_def sample_defs)
  have z: "createCheckout config0 env0 lifetimeDb0 ''t1'' ''pl2'' = Inr z"
  proof -
    define pl where "pl = plan0\<lparr>plId := ''pl2'', plDuration := LIFETIME\<rparr>"
    have "findFirst (\<lambda>p. plId p = ''pl2'' \<and> plIsActive p) (plans lifetimeDb0) = Some pl" "isPaidPlan pl"
        "requireStripe config0 = Inr ()" "assertUnderNewProductLimit lifetimeDb0 ''t1'' (plMaxProducts pl) = Inr ()"
        "rowOf tId ''t1'' (tenants lifetimeDb0) = Some tenant0"
        "rowOf uId (tOwnerId tenant0) (users lifetimeDb0) = Some (cdOwner candidate0)"
        "uEmail (cdOwner candidate0) = ''o@x''"
        "requirePlansLink env0 = Inr (adminPlansLink (ePublicWebUrl env0))" "plId pl = ''pl2''"
      by (simp_all add: lifetimeDb0_def billingDb0_def candidate0_def pl_def isPaidPlan_def requireStripe_def
          config0_def cardBillingEnabled_def assertUnderNewProductLimit_def productCount_def
          requirePlansLink_def sample_defs)
    then show ?thesis
      unfolding createCheckout_def Let_def cur z_def pl_def [symmetric] by (simp add: sub0_def)
  qed
  have meta: "pzMode z = mode_payment" "map_of (pzMetadata z) ''kind'' = Some PLAN_CHECKOUT_KIND"
      "map_of (pzMetadata z) ''tenantId'' = Some ''t1''" "map_of (pzMetadata z) ''planId'' = Some ''pl2''"
    by (simp_all add: z_def planSession_def Let_def)
  have "cents (10 :: rat)" using cents_of_int [of 10] by simp
  then have "list_all (\<lambda>p. cents (plPrice p) \<and> plPrice p \<le> 10 ^ 12) (plans lifetimeDb0)"
    by (simp add: lifetimeDb0_def billingDb0_def sample_defs)
  note r = lifetime_checkout_roundtrip [OF z meta(1) _ _ this,
      of "planCheckout0\<lparr>pcMode := ''payment'', pcPlanId := Some ''pl2''\<rparr>" "\<lambda>_. None"]
  obtain p s' u where o': "p \<in> set (plans lifetimeDb0)" "of_int (pzUnitAmount z) = plPrice p * 100"
      "handleBillingWebhook config0 env0 (\<lambda>_. None) lifetimeDb0 (Some (CheckoutCompleted
        (planCheckout0\<lparr>pcMode := ''payment'', pcPlanId := Some ''pl2''\<rparr>))) = Inr s'"
      "currentSubscription s' ''t1'' = Some u" "suPlanId u = ''pl2''" "suExpiresAt u = None"
      "outbox s' = [CancelStripeSubscription ''old'']"
    using r meta by (auto simp: planCheckout0_def cur) (simp add: lifetimeDb0_def billingDb0_def sample_defs)
  have "plPrice p = 10" using o'(1) by (simp add: lifetimeDb0_def billingDb0_def sample_defs)
  with o'(2) have "(of_int (pzUnitAmount z) :: rat) = of_int 1000" by simp
  then have "pzUnitAmount z = 1000" by (simp only: of_int_eq_iff)
  with o' z show ?thesis by blast
qed

end
