(* ===== verification/CategoryTemplates.thy ===== *)
theory CategoryTemplates
  imports Text Samples
begin

text \<open>
  The categories the platform offers its stores: \<open>category-templates/category-templates.service.ts\<close>,
  a table without a tenant. A template has a slug made from its name, made unique by a loop that counts
  up a suffix, and may have a parent.

  Unicode is outside the model's strings, so \<open>normalize('NFD')\<close> without its diacritics is a parameter
  (\<open>plain\<close>), and so is the collation of the database (\<open>coll\<close>, the rank of a name).
\<close>

section \<open>Slugs\<close>

definition slugChar :: "char \<Rightarrow> bool" where
  "slugChar c = ((CHR ''a'' \<le> c \<and> c \<le> CHR ''z'') \<or> isDigitChar c)"

text \<open>\<open>replace(/[^a-z0-9]+/g, '-')\<close>, where \<open>gap\<close> says that the run before was replaced already.\<close>

fun dashRuns :: "bool \<Rightarrow> string \<Rightarrow> string" where
  "dashRuns gap [] = []"
| "dashRuns gap (c # cs) =
     (if slugChar c then c # dashRuns False cs else if gap then dashRuns True cs else CHR ''-'' # dashRuns True cs)"

definition stripDashes :: "string \<Rightarrow> string" where
  "stripDashes t = rev (dropWhile (\<lambda>c. c = CHR ''-'') (rev (dropWhile (\<lambda>c. c = CHR ''-'') t)))"

definition slugify :: "(string \<Rightarrow> string) \<Rightarrow> string \<Rightarrow> string" where
  "slugify plain v = stripDashes (dashRuns False (trim (lower (plain v))))"

definition slugTaken :: "db \<Rightarrow> string \<Rightarrow> bool" where
  "slugTaken s slug = (findFirst (\<lambda>t. ctSlug t = slug) (categoryTemplates s) \<noteq> None)"

definition suffixed :: "string \<Rightarrow> nat \<Rightarrow> string" where
  "suffixed base n = base @ ''-'' @ string_of_nat n"

lemma suffixed_inj: "inj (suffixed base)"
  by (rule injI) (simp add: suffixed_def string_of_nat_inj)

text \<open>The suffixes from \<open>n\<close> on that are in use: finitely many, one less after each turn of the loop.\<close>

definition usedFrom :: "db \<Rightarrow> string \<Rightarrow> nat \<Rightarrow> nat set" where
  "usedFrom s base n = {k. n \<le> k \<and> slugTaken s (suffixed base k)}"

lemma slugTaken_iff: "slugTaken s slug \<longleftrightarrow> slug \<in> ctSlug ` set (categoryTemplates s)"
  by (auto simp: slugTaken_def findFirst_def find_None_iff)

lemma finite_usedFrom: "finite (usedFrom s base n)"
proof (rule finite_imageD [where f = "suffixed base"])
  show "finite (suffixed base ` usedFrom s base n)"
    by (rule finite_subset [of _ "ctSlug ` set (categoryTemplates s)"]) (auto simp: usedFrom_def slugTaken_iff)
qed (rule inj_on_subset [OF suffixed_inj], simp)

lemma usedFrom_Suc: "usedFrom s base n = (if slugTaken s (suffixed base n) then insert n (usedFrom s base (Suc n)) else usedFrom s base (Suc n))"
  by (auto simp: usedFrom_def Suc_le_eq le_less)

lemma card_usedFrom:
  "card (usedFrom s base n) = card (usedFrom s base (Suc n)) + (if slugTaken s (suffixed base n) then 1 else 0)"
proof -
  have "n \<notin> usedFrom s base (Suc n)" by (simp add: usedFrom_def)
  then show ?thesis by (subst usedFrom_Suc) (simp add: finite_usedFrom)
qed

function uniqueSlugLoop :: "db \<Rightarrow> string \<Rightarrow> string \<Rightarrow> nat \<Rightarrow> string" where
  "uniqueSlugLoop s base slug n =
     (if slugTaken s slug then uniqueSlugLoop s base (suffixed base n) (Suc n) else slug)"
  by pat_completeness auto

termination
proof (relation "measure (\<lambda>(s, base, slug, n). (if slugTaken s slug then 1 else 0) + card (usedFrom s base n))")
  fix s base slug n
  assume "slugTaken s slug"
  then show "((s, base, suffixed base n, Suc n), s, base, slug, n)
      \<in> measure (\<lambda>(s, base, slug, n). (if slugTaken s slug then 1 else 0) + card (usedFrom s base n))"
    using card_usedFrom [of s base n] by simp
qed simp

declare uniqueSlugLoop.simps [simp del]

definition baseSlug :: "(string \<Rightarrow> string) \<Rightarrow> string \<Rightarrow> string" where
  "baseSlug plain name = (if slugify plain name = [] then ''category'' else slugify plain name)"

definition uniqueSlug :: "(string \<Rightarrow> string) \<Rightarrow> db \<Rightarrow> string \<Rightarrow> string" where
  "uniqueSlug plain s name = uniqueSlugLoop s (baseSlug plain name) (baseSlug plain name) 2"

section \<open>Operations\<close>

record CreateCategoryTemplateDto =
  kcName :: string
  kcParentId :: "uuid option"
  kcSortOrder :: "int option"

record UpdateCategoryTemplateDto =
  kuName :: "string option"
  kuParentId :: "uuid option option"
  kuSortOrder :: "int option"
  kuIsActive :: "bool option"

definition listAllTemplates :: "(string \<Rightarrow> int) \<Rightarrow> db \<Rightarrow> categoryTemplate list" where
  "listAllTemplates coll s = sort_key ctSortOrder (sort_key (\<lambda>t. coll (ctName t)) (categoryTemplates s))"

definition listActiveTemplates :: "(string \<Rightarrow> int) \<Rightarrow> db \<Rightarrow> categoryTemplate list" where
  "listActiveTemplates coll s =
     sort_key ctSortOrder (sort_key (\<lambda>t. coll (ctName t)) (filter ctIsActive (categoryTemplates s)))"

definition ensureTemplate :: "db \<Rightarrow> uuid \<Rightarrow> unit res" where
  "ensureTemplate s i =
     (if findFirst (\<lambda>t. ctId t = i) (categoryTemplates s) = None then Inl (NotFound ''Category template not found'')
      else Inr ())"

definition createTemplate ::
  "env \<Rightarrow> (string \<Rightarrow> string) \<Rightarrow> db \<Rightarrow> CreateCategoryTemplateDto \<Rightarrow> (db \<times> categoryTemplate) res" where
  "createTemplate e plain s dto =
     bind_res (case kcParentId dto of Some k \<Rightarrow> ensureTemplate s k | None \<Rightarrow> Inr ()) (\<lambda>_.
       let t = \<lparr>ctId = eFresh e 0, ctName = kcName dto, ctSlug = uniqueSlug plain s (kcName dto),
                ctParentId = kcParentId dto, ctSortOrder = patch (kcSortOrder dto) 0,
                ctIsActive = True\<rparr>
       in Inr (s\<lparr>categoryTemplates := categoryTemplates s @ [t]\<rparr>, t))"

definition patchTemplate :: "UpdateCategoryTemplateDto \<Rightarrow> categoryTemplate \<Rightarrow> categoryTemplate" where
  "patchTemplate dto t =
     t\<lparr>ctName := patch (kuName dto) (ctName t),
       ctParentId := patch (kuParentId dto) (ctParentId t),
       ctSortOrder := patch (kuSortOrder dto) (ctSortOrder t),
       ctIsActive := patch (kuIsActive dto) (ctIsActive t)\<rparr>"

definition updateTemplate :: "db \<Rightarrow> uuid \<Rightarrow> UpdateCategoryTemplateDto \<Rightarrow> db res" where
  "updateTemplate s i dto =
     bind_res (ensureTemplate s i) (\<lambda>_.
       if kuParentId dto = Some (Some i) then Inl (BadRequest ''A category cannot be its own parent'')
       else bind_res (case kuParentId dto of Some (Some k) \<Rightarrow> ensureTemplate s k | _ \<Rightarrow> Inr ()) (\<lambda>_.
         Inr (s\<lparr>categoryTemplates := updateRow ctId i (patchTemplate dto) (categoryTemplates s)\<rparr>)))"

text \<open>Deleting a template takes it off its children and off the categories made from it (\<open>SetNull\<close>).\<close>

definition removeTemplate :: "db \<Rightarrow> uuid \<Rightarrow> db res" where
  "removeTemplate s i =
     bind_res (ensureTemplate s i) (\<lambda>_.
       Inr (s\<lparr>categoryTemplates := updateMany (\<lambda>t. ctParentId t = Some i) (\<lambda>t. t\<lparr>ctParentId := None\<rparr>)
                (filter (\<lambda>t. ctId t \<noteq> i) (categoryTemplates s)),
              categoryTable := updateMany (\<lambda>c. pcTemplateId c = Some i) (\<lambda>c. c\<lparr>pcTemplateId := None\<rparr>)
                (categoryTable s)\<rparr>))"

inductive templateStep :: "db \<Rightarrow> db \<Rightarrow> bool" where
  Create: "createTemplate e plain s dto = Inr (s', t) \<Longrightarrow> eFresh e 0 \<notin> ctId ` set (categoryTemplates s) \<Longrightarrow> templateStep s s'"
| Update: "updateTemplate s i udto = Inr s' \<Longrightarrow> templateStep s s'"
| Remove: "removeTemplate s i = Inr s' \<Longrightarrow> templateStep s s'"

inductive_cases templateStepE: "templateStep s s'"

section \<open>Facts\<close>

lemma uniqueSlugLoop_spec:
  assumes "uniqueSlugLoop s base slug n = r"
  shows "\<not> slugTaken s r \<and> (r = slug \<or> slugTaken s slug
    \<and> (\<exists>k\<ge>n. r = suffixed base k \<and> (\<forall>j. n \<le> j \<and> j < k \<longrightarrow> slugTaken s (suffixed base j))))"
  using assms
proof (induction s base slug n rule: uniqueSlugLoop.induct)
  case (1 s base slug n)
  show ?case
  proof (cases "slugTaken s slug")
    case True
    with "1.prems" have next_turn: "uniqueSlugLoop s base (suffixed base n) (Suc n) = r"
      by (simp add: uniqueSlugLoop.simps [of s base slug])
    have found: "\<not> slugTaken s r" "r = suffixed base n \<or> slugTaken s (suffixed base n)
        \<and> (\<exists>k\<ge>Suc n. r = suffixed base k \<and> (\<forall>j. Suc n \<le> j \<and> j < k \<longrightarrow> slugTaken s (suffixed base j)))"
      using "1.IH" [OF True next_turn] by simp_all
    from found(2) have "\<exists>k\<ge>n. r = suffixed base k \<and> (\<forall>j. n \<le> j \<and> j < k \<longrightarrow> slugTaken s (suffixed base j))"
    proof
      assume "r = suffixed base n" then show ?thesis by auto
    next
      assume more: "slugTaken s (suffixed base n)
        \<and> (\<exists>k\<ge>Suc n. r = suffixed base k \<and> (\<forall>j. Suc n \<le> j \<and> j < k \<longrightarrow> slugTaken s (suffixed base j)))"
      then obtain k where k: "Suc n \<le> k" "r = suffixed base k" "\<And>j. Suc n \<le> j \<Longrightarrow> j < k \<Longrightarrow> slugTaken s (suffixed base j)"
        by blast
      have "slugTaken s (suffixed base j)" if "n \<le> j" "j < k" for j
        using that more k(3) by (cases "j = n") auto
      then show ?thesis using k(1,2) by (intro exI [of _ k]) auto
    qed
    then show ?thesis using True found(1) by blast
  qed (use "1.prems" in \<open>simp add: uniqueSlugLoop.simps\<close>)
qed

text \<open>The suffix found is at most the number of templates plus one: those before it are slugs of templates.\<close>

lemma suffix_bound:
  assumes "slugTaken s base" "\<And>j. 2 \<le> j \<and> j < k \<Longrightarrow> slugTaken s (suffixed base j)" "2 \<le> k"
  shows "k \<le> length (categoryTemplates s) + 1"
proof -
  let ?used = "insert base (suffixed base ` {2..<k})"
  have "?used \<subseteq> set (map ctSlug (categoryTemplates s))" using assms(1,2) by (auto simp: slugTaken_iff)
  then have "card ?used \<le> length (map ctSlug (categoryTemplates s))"
    by (meson card_length card_mono finite_set le_trans)
  moreover have "base \<notin> suffixed base ` {2..<k}" by (auto simp: suffixed_def)
  moreover have "card (suffixed base ` {2..<k}) = k - 2"
    by (simp add: card_image inj_on_subset [OF suffixed_inj])
  ultimately show ?thesis using assms(3) by simp
qed

text \<open>What a slug may be in a URL: letters, digits and single dashes between them.\<close>

definition slugSafe :: "string \<Rightarrow> bool" where
  "slugSafe t = (t \<noteq> [] \<and> list_all (\<lambda>c. slugChar c \<or> c = CHR ''-'') t \<and> hd t \<noteq> CHR ''-'' \<and> last t \<noteq> CHR ''-'')"

lemma dashRuns_chars: "c \<in> set (dashRuns gap t) \<Longrightarrow> slugChar c \<or> c = CHR ''-''"
  by (induction gap t rule: dashRuns.induct) (auto split: if_splits)

lemma set_stripDashes: "c \<in> set (stripDashes t) \<Longrightarrow> c \<in> set t"
  by (auto simp: stripDashes_def dest!: set_dropWhileD)

lemma hd_dropWhile_not: "dropWhile P t \<noteq> [] \<Longrightarrow> \<not> P (hd (dropWhile P t))"
  by (induction t) auto

lemma last_dropWhile: "dropWhile P t \<noteq> [] \<Longrightarrow> last (dropWhile P t) = last t"
  by (induction t) auto

lemma stripDashes_ends:
  assumes "stripDashes t \<noteq> []"
  shows "hd (stripDashes t) \<noteq> CHR ''-''" and "last (stripDashes t) \<noteq> CHR ''-''"
proof -
  let ?d = "dropWhile (\<lambda>c. c = CHR ''-'')" and ?u = "dropWhile (\<lambda>c. c = CHR ''-'') t"
  have ne: "?d (rev ?u) \<noteq> []" using assms unfolding stripDashes_def rev_is_Nil_conv .
  then have u: "?u \<noteq> []" by (metis dropWhile.simps(1) rev.simps(1))
  have "hd (stripDashes t) = hd ?u"
    unfolding stripDashes_def hd_rev last_dropWhile [OF ne] last_rev ..
  then show "hd (stripDashes t) \<noteq> CHR ''-''"
    using hd_dropWhile_not [OF u] by simp
  show "last (stripDashes t) \<noteq> CHR ''-''"
    using hd_dropWhile_not [OF ne] unfolding stripDashes_def last_rev by simp
qed

lemma baseSlug_safe: "slugSafe (baseSlug plain name)"
proof (cases "slugify plain name = []")
  case True
  then show ?thesis by (simp add: baseSlug_def slugSafe_def slugChar_def)
next
  case False
  then show ?thesis
    using stripDashes_ends
    by (auto simp: baseSlug_def slugSafe_def slugify_def list_all_iff dest!: set_stripDashes dashRuns_chars)
qed

lemma slugChar_digit: "n < 10 \<Longrightarrow> slugChar (digit n)"
proof -
  assume "n < 10"
  then have "n \<in> set [0..<10]" by simp
  moreover have "list_all (\<lambda>n. slugChar (digit n)) [0..<10]" by code_simp
  ultimately show ?thesis unfolding list_all_iff by blast
qed

lemma digits_safe: "c \<in> set (string_of_nat n) \<Longrightarrow> slugChar c"
proof (induction n rule: string_of_nat.induct)
  case (1 n)
  then show ?case by (subst (asm) string_of_nat.simps) (auto simp: slugChar_digit simp del: digit.simps split: if_splits)
qed

lemma suffixed_safe:
  assumes "slugSafe base"
  shows "slugSafe (suffixed base n)"
proof -
  have "slugChar (last (string_of_nat n))" by (rule digits_safe [OF last_in_set]) simp
  moreover have "\<not> slugChar (CHR ''-'')" by code_simp
  ultimately have "last (string_of_nat n) \<noteq> CHR ''-''" by metis
  then show ?thesis using assms digits_safe by (auto simp: slugSafe_def suffixed_def list_all_iff)
qed

section \<open>Properties\<close>

text \<open>
  C29: the search for a free slug ends, after at most as many turns as there are templates, and the slug
  it finds is free and fit for a URL: the name's own slug when that is free, otherwise the name's slug
  with the smallest number from 2 on that is. This holds of every name, however Unicode is folded.
\<close>

theorem unique_slug_found:
  assumes "uniqueSlug plain s name = slug"
  shows "\<not> slugTaken s slug \<and> slugSafe slug
    \<and> (slug = baseSlug plain name \<or> slugTaken s (baseSlug plain name)
       \<and> (\<exists>k. 2 \<le> k \<and> k \<le> length (categoryTemplates s) + 1 \<and> slug = suffixed (baseSlug plain name) k
            \<and> (\<forall>j. 2 \<le> j \<and> j < k \<longrightarrow> slugTaken s (suffixed (baseSlug plain name) j))))"
proof -
  note found = uniqueSlugLoop_spec [OF assms [unfolded uniqueSlug_def]]
  moreover have "slugSafe slug" using found baseSlug_safe suffixed_safe by blast
  ultimately show ?thesis using suffix_bound by blast
qed

definition template0 :: categoryTemplate where
  "template0 = \<lparr>ctId = ''c1'', ctName = ''Home & Co.'', ctSlug = ''home-co'', ctParentId = None, ctSortOrder = 0,
     ctIsActive = True\<rparr>"

definition templates0 :: db where
  "templates0 = db0\<lparr>categoryTemplates := [template0, template0\<lparr>ctId := ''c2'', ctSlug := ''home-co-2''\<rparr>]\<rparr>"

theorem unique_slug_found_witness:
  "uniqueSlug id templates0 '' HOME+Co!'' = ''home-co-3'' \<and> \<not> slugTaken templates0 ''home-co-3''"
proof -
  have "uniqueSlug id templates0 '' HOME+Co!'' = ''home-co-3''" by code_simp
  then show ?thesis using unique_slug_found [of id templates0 "'' HOME+Co!''" "''home-co-3''"] by simp
qed

text \<open>The templates: unique ids and slugs, slugs fit for a URL, parents that exist and are not the row itself.\<close>

definition parentOk :: "uuid set \<Rightarrow> categoryTemplate \<Rightarrow> bool" where
  "parentOk ids t = (case ctParentId t of Some k \<Rightarrow> k \<noteq> ctId t \<and> k \<in> ids | None \<Rightarrow> True)"

definition templatesOk :: "db \<Rightarrow> bool" where
  "templatesOk s = (uniqueKeys ctId (categoryTemplates s) \<and> uniqueKeys ctSlug (categoryTemplates s)
     \<and> list_all (\<lambda>t. slugSafe (ctSlug t)) (categoryTemplates s)
     \<and> list_all (parentOk (ctId ` set (categoryTemplates s))) (categoryTemplates s))"

lemma ensureTemplate_Inr [simp]: "ensureTemplate s i = Inr u \<longleftrightarrow> i \<in> ctId ` set (categoryTemplates s)"
  by (auto simp: ensureTemplate_def findFirst_def find_None_iff)

lemma createTemplate_ok:
  assumes "createTemplate e plain s dto = Inr (s', t)" "eFresh e 0 \<notin> ctId ` set (categoryTemplates s)" "templatesOk s"
  shows "templatesOk s'"
proof -
  have s': "categoryTemplates s' = categoryTemplates s @ [t]" and t: "ctId t = eFresh e 0"
      "ctSlug t = uniqueSlug plain s (kcName dto)" "ctParentId t = kcParentId dto"
      and par: "\<And>k. kcParentId dto = Some k \<Longrightarrow> k \<in> ctId ` set (categoryTemplates s)"
    using assms(1) by (auto simp: createTemplate_def bind_res_eq_Inr Let_def split: option.splits)
  have "\<not> slugTaken s (ctSlug t) \<and> slugSafe (ctSlug t)"
    unfolding t using uniqueSlugLoop_spec baseSlug_safe suffixed_safe unfolding uniqueSlug_def by metis
  then show ?thesis
    using assms(2,3) par
    by (auto simp: templatesOk_def s' uniqueKeys_def t(1,3) slugTaken_iff list_all_iff parentOk_def split: option.splits)
qed

lemma patchTemplate_same [simp]: "ctId (patchTemplate dto t) = ctId t" "ctSlug (patchTemplate dto t) = ctSlug t"
  by (simp_all add: patchTemplate_def)

lemma updateTemplate_ok:
  assumes "updateTemplate s i dto = Inr s'" "templatesOk s"
  shows "templatesOk s'"
proof -
  have s': "categoryTemplates s' = updateRow ctId i (patchTemplate dto) (categoryTemplates s)"
      and self: "kuParentId dto \<noteq> Some (Some i)"
      and par: "\<And>k. kuParentId dto = Some (Some k) \<Longrightarrow> k \<in> ctId ` set (categoryTemplates s)"
    using assms(1) by (auto simp: updateTemplate_def bind_res_eq_Inr split: if_splits option.splits)
  have keys: "map ctId (categoryTemplates s') = map ctId (categoryTemplates s)"
      "map ctSlug (categoryTemplates s') = map ctSlug (categoryTemplates s)"
    by (simp_all add: s' updateRow_def map_updateMany_key)
  then have ids: "ctId ` set (categoryTemplates s') = ctId ` set (categoryTemplates s)" by (metis list.set_map)
  have "parentOk ids (patchTemplate dto t)"
    if "parentOk ids t" "ctId t = i" "ids = ctId ` set (categoryTemplates s)" for t ids
    using that self par by (auto simp: parentOk_def patchTemplate_def patch_def split: option.splits)
  then have "list_all (parentOk (ctId ` set (categoryTemplates s))) (categoryTemplates s')"
    using assms(2) by (auto simp: templatesOk_def s' updateRow_def list_all_iff set_updateMany)
  moreover have "list_all (\<lambda>t. slugSafe (ctSlug t)) (categoryTemplates s')"
    using assms(2) by (auto simp: templatesOk_def s' list_all_iff updateRow_def set_updateMany)
  ultimately show ?thesis
    using assms(2) unfolding templatesOk_def ids uniqueKeys_def keys by simp
qed

lemma removeTemplate_ok:
  assumes "removeTemplate s i = Inr s'" "templatesOk s"
  shows "templatesOk s'"
proof -
  let ?kept = "filter (\<lambda>t. ctId t \<noteq> i) (categoryTemplates s)"
  have s': "categoryTemplates s' = updateMany (\<lambda>t. ctParentId t = Some i) (\<lambda>t. t\<lparr>ctParentId := None\<rparr>) ?kept"
    using assms(1) by (auto simp: removeTemplate_def bind_res_eq_Inr)
  have keys: "map ctId (categoryTemplates s') = map ctId ?kept" "map ctSlug (categoryTemplates s') = map ctSlug ?kept"
    by (simp_all add: s' map_updateMany_key)
  then have "ctId ` set (categoryTemplates s') = ctId ` set ?kept" by (metis list.set_map)
  moreover have "ctId ` set ?kept = ctId ` set (categoryTemplates s) - {i}" by auto
  then have "parentOk (ctId ` set ?kept) (if ctParentId t = Some i then t\<lparr>ctParentId := None\<rparr> else t)"
    if "t \<in> set (categoryTemplates s)" for t
    using assms(2) that by (auto simp: templatesOk_def list_all_iff parentOk_def split: option.splits)
  then have "list_all (parentOk (ctId ` set ?kept)) (categoryTemplates s')"
    unfolding s' list_all_iff set_updateMany by (intro ballI) (elim imageE, simp only: set_filter mem_Collect_eq)
  moreover have "list_all (\<lambda>t. slugSafe (ctSlug t)) (categoryTemplates s')"
    using assms(2) by (auto simp: templatesOk_def s' list_all_iff set_updateMany)
  moreover have "distinct (map ctId ?kept)" "distinct (map ctSlug ?kept)"
    using assms(2) by (simp_all add: templatesOk_def uniqueKeys_def distinct_map_filter)
  ultimately show ?thesis unfolding templatesOk_def uniqueKeys_def keys by simp
qed

text \<open>
  over any run of creations, edits and deletions the templates keep unique slugs fit for a URL and
  parents that exist and are not the template itself. What is not kept is that the parents form a tree:
  two edits, each accepted, make any two templates the parent of each other.
\<close>

theorem templates_stay_linked:
  assumes "templateStep\<^sup>*\<^sup>* s s'" and "templatesOk s"
  shows "templatesOk s' \<and> (\<forall>a b. a \<noteq> b \<longrightarrow> {a, b} \<subseteq> ctId ` set (categoryTemplates s') \<longrightarrow>
    (\<exists>s1 s2. updateTemplate s' a \<lparr>kuName = None, kuParentId = Some (Some b), kuSortOrder = None, kuIsActive = None\<rparr> = Inr s1
      \<and> updateTemplate s1 b \<lparr>kuName = None, kuParentId = Some (Some a), kuSortOrder = None, kuIsActive = None\<rparr> = Inr s2
      \<and> map_option ctParentId (rowOf ctId a (categoryTemplates s2)) = Some (Some b)
      \<and> map_option ctParentId (rowOf ctId b (categoryTemplates s2)) = Some (Some a)))"
proof (intro conjI allI impI)
  show "templatesOk s'"
    using assms
  proof induction
    case (step s1 s2)
    then show ?case
      by (elim templateStepE) (metis createTemplate_ok updateTemplate_ok removeTemplate_ok)+
  qed
next
  fix a b assume ab: "a \<noteq> b" "{a, b} \<subseteq> ctId ` set (categoryTemplates s')"
  let ?dto = "\<lambda>k. \<lparr>kuName = None, kuParentId = Some (Some k), kuSortOrder = None, kuIsActive = None\<rparr>"
  let ?s1 = "s'\<lparr>categoryTemplates := updateRow ctId a (patchTemplate (?dto b)) (categoryTemplates s')\<rparr>"
  let ?s2 = "?s1\<lparr>categoryTemplates := updateRow ctId b (patchTemplate (?dto a)) (categoryTemplates ?s1)\<rparr>"
  have "map ctId (categoryTemplates ?s1) = map ctId (categoryTemplates s')"
    by (simp add: updateRow_def map_updateMany_key)
  then have ids: "ctId ` set (categoryTemplates ?s1) = ctId ` set (categoryTemplates s')" by (metis list.set_map)
  have "updateTemplate s' a (?dto b) = Inr ?s1" "updateTemplate ?s1 b (?dto a) = Inr ?s2"
    using ab ids by (simp_all add: updateTemplate_def bind_res_eq_Inr)
  moreover have "rowOf ctId a (categoryTemplates s') \<noteq> None" "rowOf ctId b (categoryTemplates s') \<noteq> None"
    using ab(2) by (auto simp: rowOf_None_iff)
  then have "map_option ctParentId (rowOf ctId a (categoryTemplates ?s2)) = Some (Some b)"
      "map_option ctParentId (rowOf ctId b (categoryTemplates ?s2)) = Some (Some a)"
    using ab(1) by (auto simp: rowOf_updateRow_same rowOf_updateRow_other patchTemplate_def patch_def)
  ultimately show "\<exists>s1 s2. updateTemplate s' a (?dto b) = Inr s1 \<and> updateTemplate s1 b (?dto a) = Inr s2
      \<and> map_option ctParentId (rowOf ctId a (categoryTemplates s2)) = Some (Some b)
      \<and> map_option ctParentId (rowOf ctId b (categoryTemplates s2)) = Some (Some a)"
    by blast
qed

theorem templates_stay_linked_witness:
  "\<exists>s' t. createTemplate env0 id templates0 \<lparr>kcName = ''Home'', kcParentId = Some ''c1'', kcSortOrder = None\<rparr> = Inr (s', t)
    \<and> templatesOk s' \<and> ctSlug t = ''home''"
proof -
  let ?r = "createTemplate env0 id templates0 \<lparr>kcName = ''Home'', kcParentId = Some ''c1'', kcSortOrder = None\<rparr>"
  have "\<not> isl ?r" "ctSlug (snd (projr ?r)) = ''home''" by code_simp+
  then obtain s' t where r: "?r = Inr (s', t)" "ctSlug t = ''home''" by (cases ?r) auto
  have "templateStep templates0 s'"
    by (rule templateStep.Create [OF r(1)]) (simp add: templates0_def template0_def env0_def)
  then have "templateStep\<^sup>*\<^sup>* templates0 s'" by (rule r_into_rtranclp)
  moreover have "templatesOk templates0"
    unfolding templatesOk_def templates0_def uniqueKeys_def by code_simp
  ultimately show ?thesis using templates_stay_linked r by blast
qed

end
