(* ===== verification/Catalogue.thy ===== *)
theory Catalogue
  imports OrderEdit
begin

text \<open>
  The catalogue of a store: \<open>products/products.service.ts\<close>. Products with their variants, taxes,
  categories and images, as many as the plan of the store allows. The links of a product to its
  taxes and categories are nested in its row; deleting the other side of a link removes it from
  there, as the cascades of \<open>schema.prisma\<close> do.

  The requests run in their tenant's transaction, so a statement without a tenant of its own sees the
  rows of that tenant only (row-level security); foreign keys are checked over all rows. The lock
  \<open>pg_advisory_xact_lock\<close> makes the count and the insert one step, as a handler is here.
\<close>

section \<open>Requests\<close>

datatype ProductSort = price_asc | price_desc | newest

record ProductQueryDto =
  pqPagination :: PaginationDto
  pqCategoryId :: "uuid option"
  pqIsActive :: "bool option"
  pqSort :: "ProductSort option"

record CreateProductVariantDto =
  cvName :: string
  cvSku :: "string option"
  cvPrice :: rat
  cvCost :: "rat option"
  cvQuantity :: "int option"
  cvLocationId :: "uuid option"

record CreateProductDto =
  dpName :: string
  dpSku :: "string option"
  dpDescription :: "string option"
  dpPrice :: rat
  dpCompareAtPrice :: "rat option"
  dpCost :: "rat option"
  dpQuantity :: "int option"
  dpIsActive :: "bool option"
  dpIsPublished :: "bool option"
  dpAttributes :: "json option"
  dpCategoryIds :: "uuid list option"
  dpTaxIds :: "uuid list option"
  dpVariants :: "CreateProductVariantDto list option"

text \<open>An update names the fields it changes; a \<open>null\<close> takes the struck-through price away.\<close>

record UpdateProductDto =
  dqName :: "string option"
  dqSku :: "string option"
  dqDescription :: "string option"
  dqPrice :: "rat option"
  dqCompareAtPrice :: "rat option option"
  dqCost :: "rat option"
  dqQuantity :: "int option"
  dqIsActive :: "bool option"
  dqIsPublished :: "bool option"
  dqAttributes :: "json option"
  dqCategoryIds :: "uuid list option"
  dqTaxIds :: "uuid list option"
  dqVariants :: "CreateProductVariantDto list option"

section \<open>Limits of the plan\<close>

definition assertUnderProductLimit :: "env \<Rightarrow> db \<Rightarrow> uuid \<Rightarrow> unit res" where
  "assertUnderProductLimit e s tenantId =
     (let maxProducts = enMaxProducts (getEntitlements (eNow e) s tenantId)
      in if maxProducts = -1 then Inr ()
         else if int (countRows (\<lambda>p. pTenantId p = tenantId) (products s)) \<ge> maxProducts
         then Inl (Forbidden (''Product limit reached for your current plan ('' @ string_of_int maxProducts @ '')''))
         else Inr ())"

definition isLive :: "product \<Rightarrow> bool" where
  "isLive p = (pIsActive p \<and> pIsPublished p)"

definition assertUnderLiveProductLimit :: "env \<Rightarrow> db \<Rightarrow> uuid \<Rightarrow> uuid \<Rightarrow> unit res" where
  "assertUnderLiveProductLimit e s tenantId productId =
     (let maxProducts = enMaxProducts (getEntitlements (eNow e) s tenantId)
      in if maxProducts = -1 then Inr ()
         else if int (countRows (\<lambda>p. pTenantId p = tenantId \<and> isLive p \<and> pId p \<noteq> productId) (products s)) \<ge> maxProducts
         then Inl (Forbidden (''Your current plan allows '' @ string_of_int maxProducts
                @ '' live products. Hide or delete another product first, or upgrade the plan.''))
         else Inr ())"

section \<open>Reading\<close>

definition sortKey :: "ProductSort option \<Rightarrow> product \<Rightarrow> rat" where
  "sortKey srt p = (case srt of Some price_asc \<Rightarrow> pPrice p | Some price_desc \<Rightarrow> - pPrice p
     | _ \<Rightarrow> - of_int (pCreatedAt p))"

definition productWhere :: "uuid \<Rightarrow> ProductQueryDto \<Rightarrow> product \<Rightarrow> bool" where
  "productWhere tenantId q p =
     (pTenantId p = tenantId
      \<and> (truthy (pgSearch (pqPagination q)) \<longrightarrow> containsText (the (pgSearch (pqPagination q))) (pName p))
      \<and> (truthy (pqCategoryId q) \<longrightarrow> the (pqCategoryId q) \<in> set (pCategories p)))"

definition findAllProducts :: "db \<Rightarrow> uuid \<Rightarrow> ProductQueryDto \<Rightarrow> product PaginatedResult" where
  "findAllProducts s tenantId q =
     paginate (pqPagination q)
       (findMany (\<lambda>p. productWhere tenantId q p \<and> (case pqIsActive q of Some b \<Rightarrow> pIsActive p = b | None \<Rightarrow> True))
         (sortKey (pqSort q)) (products s))"

definition findPublished :: "db \<Rightarrow> uuid \<Rightarrow> ProductQueryDto \<Rightarrow> product PaginatedResult" where
  "findPublished s tenantId q =
     paginate (pqPagination q)
       (findMany (\<lambda>p. productWhere tenantId q p \<and> isLive p) (sortKey (pqSort q)) (products s))"

definition findOnePublished :: "db \<Rightarrow> uuid \<Rightarrow> uuid \<Rightarrow> product res" where
  "findOnePublished s tenantId i =
     (case findFirst (\<lambda>p. pId p = i \<and> pTenantId p = tenantId \<and> isLive p) (products s) of
        None \<Rightarrow> Inl (NotFound ''Product not found'') | Some p \<Rightarrow> Inr p)"

definition findOneProduct :: "db \<Rightarrow> uuid \<Rightarrow> uuid \<Rightarrow> product res" where
  "findOneProduct s tenantId i =
     (case findFirst (\<lambda>p. pId p = i \<and> pTenantId p = tenantId) (products s) of
        None \<Rightarrow> Inl (NotFound ''Product not found'') | Some p \<Rightarrow> Inr p)"

section \<open>Creating and editing\<close>

definition newVariant :: "env \<Rightarrow> uuid \<Rightarrow> uuid \<Rightarrow> nat \<times> CreateProductVariantDto \<Rightarrow> variant" where
  "newVariant e tenantId productId iv =
     (let v = snd iv in
      \<lparr>vId = eFresh e (fst iv), vTenantId = tenantId, vProductId = productId, vName = cvName v, vSku = cvSku v,
       vPrice = round2 (cvPrice v), vCost = map_option round2 (cvCost v),
       vQuantity = (case cvQuantity v of Some n \<Rightarrow> n | None \<Rightarrow> 0), vLocationId = cvLocationId v\<rparr>)"

definition newVariants :: "env \<Rightarrow> uuid \<Rightarrow> uuid \<Rightarrow> CreateProductVariantDto list \<Rightarrow> variant list" where
  "newVariants e tenantId productId vs = map (newVariant e tenantId productId) (enumerate 1 vs)"

definition taxesOf :: "db \<Rightarrow> uuid list \<Rightarrow> productTax list" where
  "taxesOf s ids = filter (\<lambda>t. ptId t \<in> set ids) (taxTable s)"

text \<open>The foreign keys of a product's links and of its variants.\<close>

definition linksExist :: "db \<Rightarrow> uuid list \<Rightarrow> uuid list \<Rightarrow> CreateProductVariantDto list \<Rightarrow> bool" where
  "linksExist s categoryIds taxIds vs =
     (list_all (\<lambda>k. k \<in> pcId ` set (categoryTable s)) categoryIds
      \<and> list_all (\<lambda>k. k \<in> ptId ` set (taxTable s)) taxIds
      \<and> list_all (\<lambda>v. case cvLocationId v of Some k \<Rightarrow> k \<in> loId ` set (locations s) | None \<Rightarrow> True) vs)"

definition createProduct :: "env \<Rightarrow> db \<Rightarrow> uuid \<Rightarrow> CreateProductDto \<Rightarrow> (db \<times> product) res" where
  "createProduct e s tenantId dto =
     bind_res (assertUnderProductLimit e s tenantId) (\<lambda>_.
       let categoryIds = patch (dpCategoryIds dto) [];
           taxIds = patch (dpTaxIds dto) [];
           vs = patch (dpVariants dto) [];
           p = \<lparr>pId = eFresh e 0, pTenantId = tenantId, pName = dpName dto, pSku = dpSku dto,
                pDescription = dpDescription dto, pPrice = round2 (dpPrice dto),
                pCompareAtPrice = map_option round2 (dpCompareAtPrice dto), pCost = map_option round2 (dpCost dto),
                pQuantity = patch (dpQuantity dto) 0, pHasVariants = (length vs > 0),
                pIsActive = patch (dpIsActive dto) True, pIsPublished = patch (dpIsPublished dto) True,
                pAttributes = patch (dpAttributes dto) (JObj []), pTaxes = taxesOf s taxIds,
                pCategories = categoryIds, pCreatedAt = eNow e\<rparr>
       in if \<not> linksExist s categoryIds taxIds vs then Inl databaseError
          else Inr (s\<lparr>products := products s @ [p], variants := variants s @ newVariants e tenantId (pId p) vs\<rparr>, p))"

text \<open>Deleting variants or a product leaves the lines of orders without them (\<open>SetNull\<close>).\<close>

definition detachItems :: "(orderItem \<Rightarrow> orderItem) \<Rightarrow> db \<Rightarrow> db" where
  "detachItems f s = s\<lparr>orders := map (\<lambda>ord. ord\<lparr>oItems := map f (oItems ord)\<rparr>) (orders s)\<rparr>"

definition withoutVariants :: "uuid set \<Rightarrow> orderItem \<Rightarrow> orderItem" where
  "withoutVariants ks i = (if (case iVariantId i of Some k \<Rightarrow> k \<in> ks | None \<Rightarrow> False) then i\<lparr>iVariantId := None\<rparr> else i)"

definition deleteVariantsOf :: "uuid \<Rightarrow> db \<Rightarrow> db" where
  "deleteVariantsOf productId s =
     detachItems (withoutVariants (vId ` set (filter (\<lambda>v. vProductId v = productId) (variants s))))
       (s\<lparr>variants := filter (\<lambda>v. vProductId v \<noteq> productId) (variants s)\<rparr>)"

definition patchProduct :: "db \<Rightarrow> UpdateProductDto \<Rightarrow> product \<Rightarrow> product" where
  "patchProduct s dto p =
     p\<lparr>pName := patch (dqName dto) (pName p), pSku := (case dqSku dto of Some k \<Rightarrow> Some k | None \<Rightarrow> pSku p),
       pDescription := (case dqDescription dto of Some d \<Rightarrow> Some d | None \<Rightarrow> pDescription p),
       pPrice := patch (map_option round2 (dqPrice dto)) (pPrice p),
       pCompareAtPrice := patch (map_option (map_option round2) (dqCompareAtPrice dto)) (pCompareAtPrice p),
       pCost := (case dqCost dto of Some c \<Rightarrow> Some (round2 c) | None \<Rightarrow> pCost p),
       pQuantity := patch (dqQuantity dto) (pQuantity p),
       pHasVariants := (case dqVariants dto of Some vs \<Rightarrow> length vs > 0 | None \<Rightarrow> pHasVariants p),
       pIsActive := patch (dqIsActive dto) (pIsActive p), pIsPublished := patch (dqIsPublished dto) (pIsPublished p),
       pAttributes := patch (dqAttributes dto) (pAttributes p),
       pTaxes := patch (map_option (taxesOf s) (dqTaxIds dto)) (pTaxes p),
       pCategories := patch (dqCategoryIds dto) (pCategories p)\<rparr>"

definition updateProduct :: "env \<Rightarrow> db \<Rightarrow> uuid \<Rightarrow> uuid \<Rightarrow> UpdateProductDto \<Rightarrow> db res" where
  "updateProduct e s tenantId i dto =
     bind_res (findOneProduct s tenantId i) (\<lambda>existing.
     bind_res (if isLive (patchProduct s dto existing) \<and> \<not> isLive existing
               then assertUnderLiveProductLimit e s tenantId i else Inr ()) (\<lambda>_.
       if \<not> linksExist s (patch (dqCategoryIds dto) []) (patch (dqTaxIds dto) []) (patch (dqVariants dto) [])
       then Inl databaseError
       else
         let s1 = (case dqVariants dto of
               Some vs \<Rightarrow> (let s1 = deleteVariantsOf i s in s1\<lparr>variants := variants s1 @ newVariants e tenantId i vs\<rparr>)
             | None \<Rightarrow> s)
         in Inr (s1\<lparr>products := updateRow pId i (patchProduct s dto) (products s1)\<rparr>)))"

section \<open>Deleting\<close>

definition withoutProduct :: "uuid \<Rightarrow> orderItem \<Rightarrow> orderItem" where
  "withoutProduct k i = (if iProductId i = Some k then i\<lparr>iProductId := None\<rparr> else i)"

definition deleteProductRow :: "uuid \<Rightarrow> db \<Rightarrow> db" where
  "deleteProductRow i s =
     (let gone = daId ` set (filter (\<lambda>a. daProductId a = i) (assets s));
          s1 = detachItems (withoutProduct i) (deleteVariantsOf i s)
      in s1\<lparr>products := filter (\<lambda>p. pId p \<noteq> i) (products s1),
            imageTable := filter (\<lambda>m. imProductId m \<noteq> i) (imageTable s1),
            assets := filter (\<lambda>a. daProductId a \<noteq> i) (assets s1),
            grants := filter (\<lambda>g. dgAssetId g \<notin> gone) (grants s1),
            schedules := filter (\<lambda>c. psProductId c \<noteq> i) (schedules s1)\<rparr>)"

definition removeProduct :: "db \<Rightarrow> uuid \<Rightarrow> uuid \<Rightarrow> db res" where
  "removeProduct s tenantId i =
     bind_res (findOneProduct s tenantId i) (\<lambda>_.
     bind_res (filesForProductDeletion s tenantId i) (\<lambda>storedFiles.
       Inr (removeStoredFiles storedFiles (deleteProductRow i s))))"

section \<open>Images\<close>

definition imagesOf :: "db \<Rightarrow> uuid \<Rightarrow> productImage list" where
  "imagesOf s productId = filter (\<lambda>m. imProductId m = productId) (imageTable s)"

definition uncover :: "uuid \<Rightarrow> productImage list \<Rightarrow> productImage list" where
  "uncover productId t = updateMany (\<lambda>m. imProductId m = productId) (\<lambda>m. m\<lparr>imIsCover := False\<rparr>) t"

definition addImage :: "env \<Rightarrow> db \<Rightarrow> uuid \<Rightarrow> uuid \<Rightarrow> string \<Rightarrow> bool option \<Rightarrow> (db \<times> productImage) res" where
  "addImage e s tenantId productId u isCover =
     bind_res (assertSafeImageUrl (eParseUrl e) tenantId (Some u) ''url'') (\<lambda>_.
     bind_res (findOneProduct s tenantId productId) (\<lambda>_.
       let t = (if isCover = Some True then uncover productId (imageTable s) else imageTable s);
           used = map imSortOrder (imagesOf s productId);
           m = \<lparr>imId = eFresh e 0, imTenantId = tenantId, imProductId = productId, imUrl = u,
                imIsCover = patch isCover False, imSortOrder = (if used = [] then -1 else Max (set used)) + 1\<rparr>
       in Inr (s\<lparr>imageTable := t @ [m]\<rparr>, m)))"

definition removeImage :: "db \<Rightarrow> uuid \<Rightarrow> uuid \<Rightarrow> uuid \<Rightarrow> db res" where
  "removeImage s tenantId productId imageId =
     bind_res (findOneProduct s tenantId productId) (\<lambda>_.
       case findFirst (\<lambda>m. imId m = imageId \<and> imProductId m = productId) (imageTable s) of
         None \<Rightarrow> Inl (NotFound ''Image not found'')
       | Some m \<Rightarrow> Inr (deleteUploadedFile (Some (imUrl m)) tenantId
             (s\<lparr>imageTable := filter (\<lambda>r. imId r \<noteq> imageId) (imageTable s)\<rparr>)))"

text \<open>The image is updated by its id alone, among the images of the store.\<close>

definition setCoverImage :: "db \<Rightarrow> uuid \<Rightarrow> uuid \<Rightarrow> uuid \<Rightarrow> db res" where
  "setCoverImage s tenantId productId imageId =
     bind_res (findOneProduct s tenantId productId) (\<lambda>_.
       let hit = (\<lambda>m. imId m = imageId \<and> imTenantId m = tenantId);
           t = uncover productId (imageTable s)
       in if countRows hit t = 0 then Inl RecordNotFound
          else Inr (s\<lparr>imageTable := updateMany hit (\<lambda>m. m\<lparr>imIsCover := True\<rparr>) t\<rparr>))"

definition setSortOrder :: "nat \<times> uuid \<Rightarrow> productImage list \<Rightarrow> productImage list" where
  "setSortOrder ni t = updateRow imId (snd ni) (\<lambda>m. m\<lparr>imSortOrder := int (fst ni)\<rparr>) t"

definition reorderImages :: "db \<Rightarrow> uuid \<Rightarrow> uuid \<Rightarrow> uuid list \<Rightarrow> (db \<times> productImage list) res" where
  "reorderImages s tenantId productId imageIds =
     bind_res (findOneProduct s tenantId productId) (\<lambda>_.
       let existingIds = set (map imId (imagesOf s productId));
           requestedIds = set imageIds
       in if card existingIds \<noteq> card requestedIds \<or> \<not> existingIds \<subseteq> requestedIds
          then Inl (BadRequest ''imageIds must match this product's current images exactly'')
          else let s' = s\<lparr>imageTable := fold setSortOrder (enumerate 0 imageIds) (imageTable s)\<rparr>
               in Inr (s', sort_key imSortOrder (imagesOf s' productId)))"

section \<open>Categories and taxes\<close>

text \<open>Lists ordered by name are in the collation of the database, which is left open here.\<close>

definition listCategories :: "db \<Rightarrow> uuid \<Rightarrow> productCategory list" where
  "listCategories s tenantId = filter (\<lambda>c. pcTenantId c = tenantId) (categoryTable s)"

definition createCategory :: "env \<Rightarrow> db \<Rightarrow> uuid \<Rightarrow> string \<Rightarrow> db \<times> productCategory" where
  "createCategory e s tenantId name =
     (let c = \<lparr>pcId = eFresh e 0, pcTenantId = tenantId, pcName = name, pcTemplateId = None\<rparr>
      in (s\<lparr>categoryTable := categoryTable s @ [c]\<rparr>, c))"

definition removeCategory :: "db \<Rightarrow> uuid \<Rightarrow> uuid \<Rightarrow> db res" where
  "removeCategory s tenantId i =
     (if countRows (\<lambda>c. pcId c = i \<and> pcTenantId c = tenantId) (categoryTable s) = 0 then Inl RecordNotFound
      else Inr (s\<lparr>categoryTable := filter (\<lambda>c. pcId c \<noteq> i) (categoryTable s),
                 products := map (\<lambda>p. p\<lparr>pCategories := filter (\<lambda>k. k \<noteq> i) (pCategories p)\<rparr>) (products s)\<rparr>))"

definition createCategoryFromTemplate :: "env \<Rightarrow> db \<Rightarrow> uuid \<Rightarrow> uuid \<Rightarrow> (db \<times> productCategory) res" where
  "createCategoryFromTemplate e s tenantId templateId =
     (case findFirst (\<lambda>t. ctId t = templateId \<and> ctIsActive t) (categoryTemplates s) of
        None \<Rightarrow> Inl (NotFound ''Category template not found'')
      | Some template \<Rightarrow>
          (case findFirst (\<lambda>c. pcTenantId c = tenantId \<and> pcTemplateId c = Some templateId) (categoryTable s) of
             Some c \<Rightarrow> Inr (s, c)
           | None \<Rightarrow>
               let c = \<lparr>pcId = eFresh e 0, pcTenantId = tenantId, pcName = ctName template,
                        pcTemplateId = Some templateId\<rparr>
               in Inr (s\<lparr>categoryTable := categoryTable s @ [c]\<rparr>, c)))"

definition listTaxes :: "db \<Rightarrow> uuid \<Rightarrow> productTax list" where
  "listTaxes s tenantId = filter (\<lambda>t. ptTenantId t = tenantId) (taxTable s)"

text \<open>The rate is rounded to its column, three decimals.\<close>

definition createTax :: "env \<Rightarrow> db \<Rightarrow> uuid \<Rightarrow> string \<Rightarrow> rat \<Rightarrow> db \<times> productTax" where
  "createTax e s tenantId name rate =
     (let t = \<lparr>ptId = eFresh e 0, ptTenantId = tenantId, ptName = name,
               ptRate = of_int \<lfloor>rate * 1000 + 1 / 2\<rfloor> / 1000\<rparr>
      in (s\<lparr>taxTable := taxTable s @ [t]\<rparr>, t))"

definition removeTax :: "db \<Rightarrow> uuid \<Rightarrow> uuid \<Rightarrow> db res" where
  "removeTax s tenantId i =
     (if countRows (\<lambda>t. ptId t = i \<and> ptTenantId t = tenantId) (taxTable s) = 0 then Inl RecordNotFound
      else Inr (s\<lparr>taxTable := filter (\<lambda>t. ptId t \<noteq> i) (taxTable s),
                 products := map (\<lambda>p. p\<lparr>pTaxes := filter (\<lambda>t. ptId t \<noteq> i) (pTaxes p)\<rparr>) (products s)\<rparr>))"

section \<open>What the requests may carry\<close>

text \<open>
  The rules of the DTOs on numbers and lists (\<open>@Min\<close>, \<open>@Max\<close>, \<open>@ArrayUnique\<close>); a body that breaks one is
  answered with 400 before the handler is called. Those on the length and the form of texts only refuse
  more and are left out.
\<close>

definition MAX_MONEY :: rat where
  "MAX_MONEY = 1000000000"

definition MAX_STOCK :: int where
  "MAX_STOCK = 1000000000"

definition moneyRule :: "rat \<Rightarrow> bool" where
  "moneyRule x = (0 \<le> x \<and> x \<le> MAX_MONEY)"

definition stockRule :: "int \<Rightarrow> bool" where
  "stockRule n = (0 \<le> n \<and> n \<le> MAX_STOCK)"

definition isOptional :: "('a \<Rightarrow> bool) \<Rightarrow> 'a option \<Rightarrow> bool" where
  "isOptional rule x = (case x of None \<Rightarrow> True | Some v \<Rightarrow> rule v)"

definition variantRules :: "CreateProductVariantDto \<Rightarrow> bool" where
  "variantRules v = (moneyRule (cvPrice v) \<and> isOptional moneyRule (cvCost v) \<and> isOptional stockRule (cvQuantity v))"

definition createRules :: "CreateProductDto \<Rightarrow> bool" where
  "createRules dto = (moneyRule (dpPrice dto) \<and> isOptional moneyRule (dpCompareAtPrice dto) \<and> isOptional moneyRule (dpCost dto)
     \<and> isOptional stockRule (dpQuantity dto) \<and> isOptional distinct (dpCategoryIds dto) \<and> isOptional distinct (dpTaxIds dto)
     \<and> isOptional (list_all variantRules) (dpVariants dto))"

text \<open>\<open>PartialType\<close> makes every field optional and keeps its rules.\<close>

definition updateRules :: "UpdateProductDto \<Rightarrow> bool" where
  "updateRules dto = (isOptional moneyRule (dqPrice dto) \<and> isOptional (isOptional moneyRule) (dqCompareAtPrice dto)
     \<and> isOptional moneyRule (dqCost dto) \<and> isOptional stockRule (dqQuantity dto) \<and> isOptional distinct (dqCategoryIds dto)
     \<and> isOptional distinct (dqTaxIds dto) \<and> isOptional (list_all variantRules) (dqVariants dto))"

definition taxRules :: "rat \<Rightarrow> bool" where
  "taxRules rate = (0 \<le> rate)"

definition validated :: "bool \<Rightarrow> 'a res \<Rightarrow> 'a res" where
  "validated ok r = (if ok then r else Inl (BadRequest ''Validation failed''))"

definition createProductRequest :: "env \<Rightarrow> db \<Rightarrow> uuid \<Rightarrow> CreateProductDto \<Rightarrow> (db \<times> product) res" where
  "createProductRequest e s tenantId dto = validated (createRules dto) (createProduct e s tenantId dto)"

definition updateProductRequest :: "env \<Rightarrow> db \<Rightarrow> uuid \<Rightarrow> uuid \<Rightarrow> UpdateProductDto \<Rightarrow> db res" where
  "updateProductRequest e s tenantId i dto = validated (updateRules dto) (updateProduct e s tenantId i dto)"

definition createTaxRequest :: "env \<Rightarrow> db \<Rightarrow> uuid \<Rightarrow> string \<Rightarrow> rat \<Rightarrow> (db \<times> productTax) res" where
  "createTaxRequest e s tenantId name rate = validated (taxRules rate) (Inr (createTax e s tenantId name rate))"

lemma validated_Inr [simp]: "validated ok r = Inr x \<longleftrightarrow> ok \<and> r = Inr x"
  by (simp add: validated_def)

section \<open>What every operation of the catalogue keeps\<close>

text \<open>
  What pricing and stock rely on: rates of the tax table, prices and counts of the catalogue, unique ids,
  and prices that fit their columns.
\<close>

definition catalogueOk :: "db \<Rightarrow> bool" where
  "catalogueOk s = (catalogOk s \<and> stockOk s \<and> uniqueStock s \<and> list_all (\<lambda>t. 0 \<le> ptRate t) (taxTable s)
     \<and> list_all (\<lambda>p. pPrice p \<le> MAX_MONEY) (products s) \<and> list_all (\<lambda>v. vPrice v \<le> MAX_MONEY) (variants s))"

text \<open>The ids a request generates are new to the tables and to each other.\<close>

definition freshRows :: "env \<Rightarrow> db \<Rightarrow> bool" where
  "freshRows e s = (inj (eFresh e) \<and> (\<forall>n. eFresh e n \<notin> pId ` set (products s) \<union> vId ` set (variants s)))"

inductive catalogueStep :: "db \<Rightarrow> db \<Rightarrow> bool" where
  Create: "createProductRequest e s tn dto = Inr (s', p) \<Longrightarrow> freshRows e s \<Longrightarrow> catalogueStep s s'"
| Update: "updateProductRequest e s tn i udto = Inr s' \<Longrightarrow> freshRows e s \<Longrightarrow> catalogueStep s s'"
| Remove: "removeProduct s tn i = Inr s' \<Longrightarrow> catalogueStep s s'"
| AddImage: "addImage e s tn i u cover = Inr (s', m) \<Longrightarrow> catalogueStep s s'"
| RemoveImage: "removeImage s tn i k = Inr s' \<Longrightarrow> catalogueStep s s'"
| Cover: "setCoverImage s tn i k = Inr s' \<Longrightarrow> catalogueStep s s'"
| Reorder: "reorderImages s tn i ks = Inr (s', ms) \<Longrightarrow> catalogueStep s s'"
| Category: "createCategory e s tn name = (s', c) \<Longrightarrow> catalogueStep s s'"
| NoCategory: "removeCategory s tn k = Inr s' \<Longrightarrow> catalogueStep s s'"
| FromTemplate: "createCategoryFromTemplate e s tn k = Inr (s', c) \<Longrightarrow> catalogueStep s s'"
| Tax: "createTaxRequest e s tn name rate = Inr (s', t) \<Longrightarrow> catalogueStep s s'"
| NoTax: "removeTax s tn k = Inr s' \<Longrightarrow> catalogueStep s s'"

inductive_cases catalogueStepE: "catalogueStep s s'"

section \<open>Facts\<close>

definition productOk :: "product \<Rightarrow> bool" where
  "productOk p = (cents (pPrice p) \<and> 0 \<le> pPrice p \<and> pPrice p \<le> MAX_MONEY \<and> list_all (\<lambda>t. 0 \<le> ptRate t) (pTaxes p) \<and> 0 \<le> pQuantity p)"

definition variantOk :: "variant \<Rightarrow> bool" where
  "variantOk v = (cents (vPrice v) \<and> 0 \<le> vPrice v \<and> vPrice v \<le> MAX_MONEY \<and> 0 \<le> vQuantity v)"

lemma catalogueOk_iff:
  "catalogueOk s \<longleftrightarrow> list_all productOk (products s) \<and> list_all variantOk (variants s)
     \<and> uniqueKeys pId (products s) \<and> uniqueKeys vId (variants s)
     \<and> list_all (\<lambda>c. 0 \<le> cpDiscountValue c) (coupons s) \<and> list_all (\<lambda>h. cents (shCost h) \<and> 0 \<le> shCost h) (shippings s)
     \<and> list_all (\<lambda>t. 0 \<le> ptRate t) (taxTable s)"
  by (auto simp: catalogueOk_def catalogOk_def stockOk_def uniqueStock_def productOk_def variantOk_def list_all_iff)

lemma uniqueKeys_filter: "uniqueKeys key t \<Longrightarrow> uniqueKeys key (filter P t)"
  by (simp add: uniqueKeys_def distinct_map_filter)

lemma list_all_filter: "list_all Q t \<Longrightarrow> list_all Q (filter P t)"
  by (auto simp: list_all_iff)

lemma taxesOf_ok: "list_all (\<lambda>t. 0 \<le> ptRate t) (taxTable s) \<Longrightarrow> list_all (\<lambda>t. 0 \<le> ptRate t) (taxesOf s ids)"
  by (auto simp: taxesOf_def list_all_iff)

lemma moneyRule_round2: "moneyRule x \<Longrightarrow> 0 \<le> round2 x \<and> round2 x \<le> MAX_MONEY"
proof -
  assume x: "moneyRule x"
  have "cents MAX_MONEY" using cents_of_int [of 1000000000] by (simp add: MAX_MONEY_def)
  then have "round2 MAX_MONEY = MAX_MONEY" by (rule round2_cents)
  then show ?thesis using x round2_mono [of x MAX_MONEY] by (simp add: moneyRule_def round2_nonneg)
qed

lemma newVariant_ok: "variantRules v \<Longrightarrow> variantOk (newVariant e tn i (n, v))"
  using moneyRule_round2 [of "cvPrice v"]
  by (auto simp: newVariant_def variantOk_def variantRules_def isOptional_def stockRule_def Let_def split: option.split)

lemma newVariants_ok: "list_all variantRules vs \<Longrightarrow> list_all variantOk (newVariants e tn i vs)"
  by (auto simp: newVariants_def list_all_iff in_set_enumerate_eq intro!: newVariant_ok)

lemma newVariants_ids: "map vId (newVariants e tn i vs) = map (eFresh e) [1..<Suc (length vs)]"
proof -
  have "vId \<circ> newVariant e tn i = eFresh e \<circ> fst" by (simp add: fun_eq_iff newVariant_def Let_def)
  then have "map vId (newVariants e tn i vs) = map (eFresh e) (map fst (enumerate 1 vs))"
    by (simp only: newVariants_def map_map)
  then show ?thesis by (simp only: map_fst_enumerate plus_1_eq_Suc)
qed

lemma newVariants_unique:
  assumes "uniqueKeys vId t" "inj (eFresh e)" "\<And>n. eFresh e n \<notin> vId ` set t"
  shows "uniqueKeys vId (t @ newVariants e tn i vs)"
proof -
  have "distinct (map (eFresh e) [1..<Suc (length vs)])"
    using assms(2) by (simp add: distinct_map inj_on_subset)
  then show ?thesis
    using assms(1,3) newVariants_ids [of e tn i vs]
    by (auto simp: uniqueKeys_def simp del: upt_Suc) (metis image_eqI imageE list.set_map)
qed

lemma patchProduct_ok:
  assumes "productOk p" "updateRules dto" "list_all (\<lambda>t. 0 \<le> ptRate t) (taxTable s)"
  shows "productOk (patchProduct s dto p)"
  using assms taxesOf_ok [OF assms(3)]
  by (auto simp: productOk_def patchProduct_def patch_def updateRules_def isOptional_def stockRule_def
      dest: moneyRule_round2 split: option.splits)

lemma patchProduct_key [simp]: "pId (patchProduct s dto p) = pId p" "pTenantId (patchProduct s dto p) = pTenantId p"
  by (simp_all add: patchProduct_def)

lemma deleteVariantsOf_tables [simp]:
  "products (deleteVariantsOf i s) = products s" "coupons (deleteVariantsOf i s) = coupons s"
  "shippings (deleteVariantsOf i s) = shippings s" "taxTable (deleteVariantsOf i s) = taxTable s"
  "variants (deleteVariantsOf i s) = filter (\<lambda>v. vProductId v \<noteq> i) (variants s)"
  by (simp_all add: deleteVariantsOf_def detachItems_def)

lemma createProduct_ok:
  assumes "createProduct e s tn dto = Inr (s', p)" "createRules dto" "freshRows e s" "catalogueOk s"
  shows "catalogueOk s'"
proof -
  have s': "products s' = products s @ [p]"
      "variants s' = variants s @ newVariants e tn (eFresh e 0) (patch (dpVariants dto) [])"
      "coupons s' = coupons s" "shippings s' = shippings s" "taxTable s' = taxTable s"
      and p: "pId p = eFresh e 0" "pPrice p = round2 (dpPrice dto)" "pTaxes p = taxesOf s (patch (dpTaxIds dto) [])"
        "pQuantity p = patch (dpQuantity dto) 0"
    using assms(1) by (auto simp: createProduct_def bind_res_eq_Inr Let_def split: if_splits)
  have "moneyRule (dpPrice dto)" "isOptional stockRule (dpQuantity dto)" "isOptional (list_all variantRules) (dpVariants dto)"
    using assms(2) by (simp_all add: createRules_def)
  then have n: "0 \<le> round2 (dpPrice dto)" "round2 (dpPrice dto) \<le> MAX_MONEY" "0 \<le> patch (dpQuantity dto) 0"
      "list_all variantRules (patch (dpVariants dto) [])"
    using moneyRule_round2 [of "dpPrice dto"] by (auto simp: isOptional_def stockRule_def patch_def split: option.splits)
  have "productOk p"
    using n assms(4) by (simp add: productOk_def p taxesOf_ok catalogueOk_iff)
  moreover have "uniqueKeys pId (products s')"
    using assms(3,4) by (auto simp: s' uniqueKeys_append1 catalogueOk_iff freshRows_def p rowOf_None_iff)
  moreover have "uniqueKeys vId (variants s')"
    using assms(3,4) unfolding s' by (intro newVariants_unique) (auto simp: catalogueOk_iff freshRows_def)
  ultimately show ?thesis
    using n(4) assms(4) newVariants_ok by (simp add: catalogueOk_iff s')
qed

lemma updateProduct_ok:
  assumes "updateProduct e s tn i dto = Inr s'" "updateRules dto" "freshRows e s" "catalogueOk s"
  shows "catalogueOk s'"
proof -
  let ?vs = "case dqVariants dto of Some vs \<Rightarrow> filter (\<lambda>v. vProductId v \<noteq> i) (variants s) @ newVariants e tn i vs
    | None \<Rightarrow> variants s"
  have s': "products s' = updateRow pId i (patchProduct s dto) (products s)" "variants s' = ?vs"
      "coupons s' = coupons s" "shippings s' = shippings s" "taxTable s' = taxTable s"
    using assms(1) by (auto simp: updateProduct_def bind_res_eq_Inr Let_def split: if_splits option.splits)
  have "list_all productOk (products s')"
    using assms(2,4) patchProduct_ok
    by (auto simp: s' updateRow_def catalogueOk_iff list_all_iff in_set_updateMany)
  moreover have "uniqueKeys pId (products s')"
    using assms(4) by (simp add: s' catalogueOk_iff uniqueKeys_updateRow)
  moreover have "uniqueKeys vId ?vs"
  proof (cases "dqVariants dto")
    case (Some vs)
    have "\<And>n. eFresh e n \<notin> vId ` set (filter (\<lambda>v. vProductId v \<noteq> i) (variants s))"
      using assms(3) by (force simp: freshRows_def)
    then have "uniqueKeys vId (filter (\<lambda>v. vProductId v \<noteq> i) (variants s) @ newVariants e tn i vs)"
      using assms(3,4) by (intro newVariants_unique) (simp_all add: catalogueOk_iff freshRows_def uniqueKeys_filter)
    then show ?thesis by (simp add: Some)
  qed (use assms(4) in \<open>simp add: catalogueOk_iff\<close>)
  moreover have "list_all variantOk ?vs"
    using assms(2,4) newVariants_ok
    by (auto simp: catalogueOk_iff updateRules_def isOptional_def list_all_filter split: option.splits)
  ultimately show ?thesis using assms(4) by (simp add: catalogueOk_iff s')
qed

lemma removeProduct_ok:
  assumes "removeProduct s tn i = Inr s'" "catalogueOk s"
  shows "catalogueOk s'"
  using assms
  by (auto simp: removeProduct_def bind_res_eq_Inr removeStoredFiles_def deleteProductRow_def detachItems_def
      Let_def catalogueOk_iff list_all_filter uniqueKeys_filter)

lemma unlink_ok:
  assumes "catalogueOk s" "\<And>p. productOk p \<Longrightarrow> productOk (f p)" "\<And>p. pId (f p) = pId p"
  shows "catalogueOk (s\<lparr>products := map f (products s)\<rparr>)"
  using assms by (simp add: catalogueOk_iff list_all_iff uniqueKeys_def comp_def)

text \<open>The operations on images and categories write none of the tables pricing reads.\<close>

definition samePrices :: "db \<Rightarrow> db \<Rightarrow> bool" where
  "samePrices s s' = (products s' = products s \<and> variants s' = variants s \<and> coupons s' = coupons s
     \<and> shippings s' = shippings s \<and> taxTable s' = taxTable s)"

lemma samePrices_ok: "samePrices s s' \<Longrightarrow> catalogueOk s \<Longrightarrow> catalogueOk s'"
  by (simp add: samePrices_def catalogueOk_iff)

lemma image_ops_samePrices:
  "addImage e s tn i u cover = Inr (s', m) \<Longrightarrow> samePrices s s'"
  "setCoverImage s tn i k = Inr s' \<Longrightarrow> samePrices s s'"
  "reorderImages s tn i ks = Inr (s', ms) \<Longrightarrow> samePrices s s'"
  "createCategory e s tn name = (s', c) \<Longrightarrow> samePrices s s'"
  "createCategoryFromTemplate e s tn k = Inr (s', c) \<Longrightarrow> samePrices s s'"
  by (auto simp: addImage_def setCoverImage_def reorderImages_def createCategory_def createCategoryFromTemplate_def
      bind_res_eq_Inr Let_def samePrices_def split: if_splits option.splits)

lemma removeImage_samePrices:
  assumes "removeImage s tn i k = Inr s'"
  shows "samePrices s s'"
  using assms unfolding removeImage_def bind_res_eq_Inr
  by (elim exE conjE) (auto simp: samePrices_def deleteUploadedFile_def split: option.split_asm)

section \<open>Properties\<close>

lemma catalogueStep_ok:
  assumes "catalogueStep s1 s2" and ok: "catalogueOk s1"
  shows "catalogueOk s2"
  using assms(1)
proof cases
  case Create then show ?thesis using ok by (auto simp: createProductRequest_def intro: createProduct_ok)
next
  case Update then show ?thesis using ok by (auto simp: updateProductRequest_def intro: updateProduct_ok)
next
  case Remove then show ?thesis using ok by (rule removeProduct_ok)
next
  case (NoCategory tn k)
  then have "s2 = (s1\<lparr>categoryTable := filter (\<lambda>c. pcId c \<noteq> k) (categoryTable s1)\<rparr>)
      \<lparr>products := map (\<lambda>p. p\<lparr>pCategories := filter (\<lambda>j. j \<noteq> k) (pCategories p)\<rparr>) (products s1)\<rparr>"
    by (simp add: removeCategory_def split: if_splits)
  with ok show ?thesis by (auto simp: catalogueOk_iff list_all_iff productOk_def uniqueKeys_def comp_def)
next
  case (Tax e tn name rate t)
  then have "0 \<le> ptRate t" by (auto simp: createTaxRequest_def createTax_def taxRules_def Let_def)
  with Tax ok show ?thesis by (auto simp: createTaxRequest_def createTax_def Let_def catalogueOk_iff)
next
  case (NoTax tn k)
  with ok show ?thesis
    by (auto simp: removeTax_def catalogueOk_iff productOk_def list_all_iff uniqueKeys_def comp_def split: if_splits)
qed (erule samePrices_ok [OF image_ops_samePrices(1) ok] samePrices_ok [OF image_ops_samePrices(2) ok]
    samePrices_ok [OF image_ops_samePrices(3) ok] samePrices_ok [OF image_ops_samePrices(4) ok]
    samePrices_ok [OF image_ops_samePrices(5) ok] samePrices_ok [OF removeImage_samePrices ok])+

lemma totalsExact_nonneg: "totalsExact ord \<Longrightarrow> 0 \<le> oGrandTotal ord"
  by (simp add: totalsExact_def)

text \<open>
  C28: no request to the catalogue breaks what pricing relies on. Over any run of creates, edits, deletions,
  image, category and tax changes, by any stores and with any numbers in their bodies (those the DTOs
  refuse change nothing), every price stays a non-negative amount of whole cents that fits its column, every
  tax rate and every count of pieces non-negative and every id unique, given that the database makes new
  ids. So whatever basket is ordered afterwards, in any store, the totals of the order are the exact sums of
  its lines and the amount to pay is not negative. (It is the counts' sign that is kept, not the counts: an edit of
  variants does not give the new ones what open orders hold of the old.)
\<close>

theorem catalogue_stays_priceable:
  assumes "catalogueStep\<^sup>*\<^sup>* s s'" and "catalogueOk s"
  shows "list_all (\<lambda>p. cents (pPrice p) \<and> 0 \<le> pPrice p \<and> pPrice p \<le> MAX_MONEY \<and> 0 \<le> pQuantity p
        \<and> list_all (\<lambda>t. 0 \<le> ptRate t) (pTaxes p)) (products s')
    \<and> list_all (\<lambda>v. cents (vPrice v) \<and> 0 \<le> vPrice v \<and> vPrice v \<le> MAX_MONEY \<and> 0 \<le> vQuantity v) (variants s')
    \<and> list_all (\<lambda>t. 0 \<le> ptRate t) (taxTable s') \<and> uniqueKeys pId (products s') \<and> uniqueKeys vId (variants s')
    \<and> (\<forall>e tn dto cid s'' ord f. createOrder e s' tn dto cid = Inr (s'', ord, f) \<longrightarrow> totalsExact ord \<and> 0 \<le> oGrandTotal ord)"
proof -
  have ok: "catalogueOk s'" using assms by induction (auto intro: catalogueStep_ok)
  have "totalsExact ord \<and> 0 \<le> oGrandTotal ord" if "createOrder e s' tn dto cid = Inr (s'', ord, f)" for e tn dto cid s'' ord f
    using created_order_amounts(1) [OF _ that] ok totalsExact_nonneg by (simp add: catalogueOk_def)
  then show ?thesis using ok by (auto simp: catalogueOk_iff productOk_def variantOk_def list_all_iff)
qed

definition mugDto0 :: CreateProductDto where
  "mugDto0 = \<lparr>dpName = ''Mug'', dpSku = None, dpDescription = None, dpPrice = 12345 / 1000, dpCompareAtPrice = None,
     dpCost = None, dpQuantity = Some 3, dpIsActive = None, dpIsPublished = None, dpAttributes = None,
     dpCategoryIds = None, dpTaxIds = Some [''tx1''], dpVariants = None\<rparr>"

lemma createProduct_mug0: "\<exists>s' p. createProduct freshEnv0 db0 ''t1'' mugDto0 = Inr (s', p)"
proof -
  have "\<not> isl (createProduct freshEnv0 db0 ''t1'' mugDto0)" by code_simp
  then show ?thesis by (cases "createProduct freshEnv0 db0 ''t1'' mugDto0") auto
qed

lemma freshRows_db0: "freshRows freshEnv0 db0"
proof -
  have "inj (eFresh freshEnv0)" by (rule injI) (auto simp: freshEnv0_def dest: arg_cong [where f = length])
  then show ?thesis by (simp add: freshRows_def freshEnv0_def sample_defs)
qed

theorem catalogue_stays_priceable_witness:
  "\<exists>s' p. createProductRequest freshEnv0 db0 ''t1'' mugDto0 = Inr (s', p) \<and> p \<in> set (products s') \<and> 0 \<le> pPrice p
    \<and> createProductRequest freshEnv0 db0 ''t1'' (mugDto0\<lparr>dpPrice := -1\<rparr>) = Inl (BadRequest ''Validation failed'')"
proof -
  obtain s' p where s': "createProduct freshEnv0 db0 ''t1'' mugDto0 = Inr (s', p)"
    using createProduct_mug0 by blast
  have "catalogueOk db0" using db0_ok by (simp add: catalogueOk_def sample_defs MAX_MONEY_def)
  moreover have "createRules mugDto0" "\<not> createRules (mugDto0\<lparr>dpPrice := -1\<rparr>)"
    by (simp_all add: createRules_def mugDto0_def isOptional_def moneyRule_def stockRule_def MAX_MONEY_def MAX_STOCK_def)
  then have r: "createProductRequest freshEnv0 db0 ''t1'' mugDto0 = Inr (s', p)"
      "createProductRequest freshEnv0 db0 ''t1'' (mugDto0\<lparr>dpPrice := -1\<rparr>) = Inl (BadRequest ''Validation failed'')"
    using s' by (simp_all add: createProductRequest_def validated_def)
  have "catalogueStep\<^sup>*\<^sup>* db0 s'" 
    using catalogueStep.Create [OF r(1) freshRows_db0] by (rule r_into_rtranclp [where r = catalogueStep])
  moreover have "p \<in> set (products s')"
    using s' by (auto simp: createProduct_def bind_res_eq_Inr Let_def split: if_splits)
  ultimately have "0 \<le> pPrice p" using catalogue_stays_priceable by (fastforce simp: list_all_iff)
  with r \<open>p \<in> set (products s')\<close> show ?thesis by blast
qed

text \<open>The live products of a store.\<close>

definition liveCount :: "uuid \<Rightarrow> db \<Rightarrow> nat" where
  "liveCount tenantId s = countRows (\<lambda>p. pTenantId p = tenantId \<and> isLive p) (products s)"

text \<open>Counting with one row changed: the others, and that row.\<close>

lemma countRows_updateRow:
  assumes "uniqueKeys key t" "rowOf key k t = Some r" "\<And>r. key (f r) = key r"
  shows "countRows P (updateRow key k f t) = countRows (\<lambda>r. P r \<and> key r \<noteq> k) t + (if P (f r) then 1 else 0)"
    and "countRows P t = countRows (\<lambda>r. P r \<and> key r \<noteq> k) t + (if P r then 1 else 0)"
proof -
  have rest: "countRows P (updateRow key k f t) = countRows (\<lambda>r. P r \<and> key r \<noteq> k) t"
      "countRows P t = countRows (\<lambda>r. P r \<and> key r \<noteq> k) t" if "k \<notin> key ` set t" for t
    using that by (induction t) (auto simp: updateRow_def)
  show "countRows P (updateRow key k f t) = countRows (\<lambda>r. P r \<and> key r \<noteq> k) t + (if P (f r) then 1 else 0)"
      "countRows P t = countRows (\<lambda>r. P r \<and> key r \<noteq> k) t + (if P r then 1 else 0)"
    using assms(1,2) rest
    by (induction t) (auto simp: uniqueKeys_def updateRow_def rowOf_None_iff split: if_splits)
qed

lemma findOneProduct_InrD:
  "findOneProduct s tn i = Inr p \<Longrightarrow> p \<in> set (products s) \<and> pId p = i \<and> pTenantId p = tn"
  by (auto simp: findOneProduct_def split: option.splits dest!: findFirst_SomeD)

lemma updateProduct_InrD:
  assumes "updateProduct e s tn i dto = Inr s'"
  obtains p where "findOneProduct s tn i = Inr p"
    "isLive (patchProduct s dto p) \<and> \<not> isLive p \<longrightarrow> assertUnderLiveProductLimit e s tn i = Inr ()"
    "products s' = updateRow pId i (patchProduct s dto) (products s)"
  using assms
  by (auto simp: updateProduct_def bind_res_eq_Inr Let_def split: if_splits option.splits intro: that)

lemma assertUnderProductLimit_Inr:
  "assertUnderProductLimit e s tn = Inr () \<longleftrightarrow> enMaxProducts (getEntitlements (eNow e) s tn) = -1
     \<or> int (productCount s tn) < enMaxProducts (getEntitlements (eNow e) s tn)"
  by (auto simp: assertUnderProductLimit_def productCount_def Let_def)

lemma assertUnderLive_Inr:
  "assertUnderLiveProductLimit e s tn i = Inr () \<longleftrightarrow> enMaxProducts (getEntitlements (eNow e) s tn) = -1
     \<or> int (countRows (\<lambda>p. pTenantId p = tn \<and> isLive p \<and> pId p \<noteq> i) (products s))
          < enMaxProducts (getEntitlements (eNow e) s tn)"
  by (auto simp: assertUnderLiveProductLimit_def Let_def)

lemma updateProduct_live:
  assumes "updateProduct e s tn i dto = Inr s'" "uniqueKeys pId (products s)"
    and "enMaxProducts (getEntitlements (eNow e) s tn) = m" "m \<noteq> -1" "int (liveCount tn s) \<le> m"
  shows "int (liveCount tn s') \<le> m \<and> (tn' \<noteq> tn \<longrightarrow> liveCount tn' s' = liveCount tn' s)"
proof -
  obtain p where p: "findOneProduct s tn i = Inr p"
      and lim: "isLive (patchProduct s dto p) \<and> \<not> isLive p \<longrightarrow> assertUnderLiveProductLimit e s tn i = Inr ()"
      and s': "products s' = updateRow pId i (patchProduct s dto) (products s)"
    using updateProduct_InrD [OF assms(1)] by blast
  have row: "rowOf pId i (products s) = Some p" "pTenantId p = tn"
    using findOneProduct_InrD [OF p] rowOf_unique [OF assms(2)] by auto
  note count = countRows_updateRow [OF assms(2) row(1), of "patchProduct s dto"]
  have "int (liveCount tn s') \<le> m"
    using assms(3-5) lim row(2) count [of "\<lambda>p. pTenantId p = tn \<and> isLive p"]
    by (cases "isLive (patchProduct s dto p)"; cases "isLive p")
      (auto simp: liveCount_def s' assertUnderLive_Inr conj_assoc)
  moreover have "liveCount tn' s' = liveCount tn' s" if "tn' \<noteq> tn"
    using that row(2) count [of "\<lambda>p. pTenantId p = tn' \<and> isLive p"] by (simp add: liveCount_def s')
  ultimately show ?thesis by blast
qed

text \<open>
  a store never has more live products than its plan allows: whatever it creates, edits, publishes
  or deletes, a count within the limit of the plan (with any override) stays within it, and no other
  store's catalogue changes. And the check on going live only ever stops a store that holds more
  products than its plan allows.
\<close>

theorem live_products_within_plan:
  assumes "createProduct e s tn dto = Inr (s', p) \<or> updateProduct e s tn i udto = Inr s' \<or> removeProduct s tn i = Inr s'"
    and "uniqueKeys pId (products s)"
    and "enMaxProducts (getEntitlements (eNow e) s tn) = m" "m \<noteq> -1" "int (liveCount tn s) \<le> m"
  shows "int (liveCount tn s') \<le> m \<and> (\<forall>tn'. tn' \<noteq> tn \<longrightarrow> liveCount tn' s' = liveCount tn' s)
    \<and> (int (productCount s tn) \<le> m \<longrightarrow> (\<forall>k q. findOneProduct s tn k = Inr q \<longrightarrow> assertUnderLiveProductLimit e s tn k = Inr ()))"
proof (intro conjI allI impI)
  have "int (liveCount tn s') \<le> m \<and> (tn' \<noteq> tn \<longrightarrow> liveCount tn' s' = liveCount tn' s)" for tn'
    using assms(1)
  proof (elim disjE)
    assume c: "createProduct e s tn dto = Inr (s', p)"
    then have "products s' = products s @ [p]" "pTenantId p = tn" "assertUnderProductLimit e s tn = Inr ()"
      by (auto simp: createProduct_def bind_res_eq_Inr Let_def split: if_splits)
    moreover have "liveCount tn s \<le> productCount s tn"
      unfolding liveCount_def productCount_def by (rule countRows_mono) simp
    ultimately show ?thesis using assms(3,4) by (auto simp: liveCount_def assertUnderProductLimit_Inr)
  next
    assume "updateProduct e s tn i udto = Inr s'"
    then show ?thesis using updateProduct_live assms(2-5) by blast
  next
    assume r: "removeProduct s tn i = Inr s'"
    then obtain q where q: "findOneProduct s tn i = Inr q" and s': "products s' = filter (\<lambda>p. pId p \<noteq> i) (products s)"
      by (auto simp: removeProduct_def bind_res_eq_Inr removeStoredFiles_def deleteProductRow_def detachItems_def Let_def)
    have "rowOf pId i (products s) = Some q" "pTenantId q = tn"
      using findOneProduct_InrD [OF q] rowOf_unique [OF assms(2)] by auto
    then show ?thesis
      using assms(5) countRows_updateRow(2) [OF assms(2), of i q id "\<lambda>p. pTenantId p = tn' \<and> isLive p"]
        countRows_updateRow(2) [OF assms(2), of i q id "\<lambda>p. pTenantId p = tn \<and> isLive p"]
      by (auto simp: liveCount_def s' countRows_filter conj_assoc split: if_splits)
  qed
  then show "int (liveCount tn s') \<le> m" "\<And>tn'. tn' \<noteq> tn \<Longrightarrow> liveCount tn' s' = liveCount tn' s" by blast+
  fix k q assume n: "int (productCount s tn) \<le> m" and q: "findOneProduct s tn k = Inr q"
  have row: "rowOf pId k (products s) = Some q" "pTenantId q = tn"
    using findOneProduct_InrD [OF q] rowOf_unique [OF assms(2)] by auto
  have "countRows (\<lambda>p. pTenantId p = tn \<and> isLive p \<and> pId p \<noteq> k) (products s)
      \<le> countRows (\<lambda>p. pTenantId p = tn \<and> pId p \<noteq> k) (products s)"
    by (rule countRows_mono) simp
  then have "int (countRows (\<lambda>p. pTenantId p = tn \<and> isLive p \<and> pId p \<noteq> k) (products s)) < m"
    using countRows_updateRow(2) [OF assms(2) row(1), of id "\<lambda>p. pTenantId p = tn"] row(2) n
    by (simp add: productCount_def)
  then show "assertUnderLiveProductLimit e s tn k = Inr ()" using assms(3) by (simp add: assertUnderLive_Inr)
qed

lemma db0_limit: "enMaxProducts (getEntitlements (eNow freshEnv0) db0 ''t1'') = 100"
  by code_simp

theorem live_products_within_plan_witness:
  "\<exists>s' p. createProduct freshEnv0 db0 ''t1'' mugDto0 = Inr (s', p) \<and> liveCount ''t1'' s' \<le> 100"
proof -
  obtain s' p where s': "createProduct freshEnv0 db0 ''t1'' mugDto0 = Inr (s', p)"
    using createProduct_mug0 by blast
  have "uniqueKeys pId (products db0)" "int (liveCount ''t1'' db0) \<le> 100"
    by (simp_all add: uniqueKeys_def liveCount_def sample_defs)
  then have "int (liveCount ''t1'' s') \<le> 100"
    using live_products_within_plan [OF disjI1 [OF s'] _ db0_limit] by simp
  with s' show ?thesis by auto
qed

lemma held_of_one:
  assumes "\<And>l. l \<in> set ls \<Longrightarrow> itemKey l = Some K"
  shows "held ls k = (if k = K then int (sum_list (map siQuantity ls)) else 0)"
  using assms by (induction ls) auto

text \<open>
  editing the variants of a product cuts the orders that hold stock of them loose. The edit deletes
  every variant and creates it anew, so the lines of open orders lose their variant; when such an order
  is cancelled, its pieces go to the product's own count, which a product with variants does not sell
  from, and no variant gets them back.
\<close>

theorem variant_edit_strands_held_stock:
  assumes "updateProduct e s tn i dto = Inr s'" and "dqVariants dto \<noteq> None"
    and "ord \<in> set (orders s)" and "i \<noteq> []"
    and "list_all (\<lambda>l. iProductId l = Some i \<and> (\<exists>v \<in> set (variants s). vProductId v = i \<and> iVariantId l = Some (vId v))) (oItems ord)"
  shows "\<exists>ord' \<in> set (orders s'). oId ord' = oId ord \<and> map iQuantity (oItems ord') = map iQuantity (oItems ord)
    \<and> (\<forall>k. stockOf (releaseStock (map stockItemOf (oItems ord')) s') (OfVariant k) = stockOf s' (OfVariant k))
    \<and> stockOf (releaseStock (map stockItemOf (oItems ord')) s') (OfProduct i)
        = map_option (\<lambda>q. q + int (sum_list (map iQuantity (oItems ord)))) (stockOf s' (OfProduct i))"
proof -
  let ?cut = "withoutVariants (vId ` set (filter (\<lambda>v. vProductId v = i) (variants s)))"
  let ?ord = "ord\<lparr>oItems := map ?cut (oItems ord)\<rparr>"
  have "orders s' = map (\<lambda>ord. ord\<lparr>oItems := map ?cut (oItems ord)\<rparr>) (orders s)"
    using assms(1,2)
    by (auto simp: updateProduct_def bind_res_eq_Inr Let_def deleteVariantsOf_def detachItems_def split: if_splits option.splits)
  then have "?ord \<in> set (orders s')" using assms(3) by simp
  moreover have "map iQuantity (oItems ?ord) = map iQuantity (oItems ord)"
    by (simp add: withoutVariants_def)
  moreover have "itemKey (stockItemOf (?cut l)) = Some (OfProduct i)" if "l \<in> set (oItems ord)" for l
    using assms(4,5) that by (auto simp: list_all_iff withoutVariants_def itemKey_def stockItemOf_def truthy_def)
  then have key: "l \<in> set (map stockItemOf (oItems ?ord)) \<Longrightarrow> itemKey l = Some (OfProduct i)" for l by auto
  have qty: "map siQuantity (map stockItemOf (oItems ?ord)) = map iQuantity (oItems ord)"
    by (simp add: stockItemOf_def withoutVariants_def)
  have "held (map stockItemOf (oItems ?ord)) k
      = (if k = OfProduct i then int (sum_list (map iQuantity (oItems ord))) else 0)" for k
    by (subst held_of_one [where K = "OfProduct i"], erule key, simp only: qty)
  ultimately show ?thesis
    by (intro bexI [of _ ?ord]) (simp_all add: releaseStock_shift option.map_ident del: stockOf.simps)
qed

text \<open>A shirt in two sizes, an open order of two of them, and an edit that resends the sizes.\<close>

definition shirts0 :: db where
  "shirts0 = db0\<lparr>variants := [\<lparr>vId = ''v1'', vTenantId = ''t1'', vProductId = ''p1'', vName = ''M'', vSku = None,
       vPrice = 10, vCost = None, vQuantity = 3, vLocationId = None\<rparr>],
     orders := [order0\<lparr>oItems := [item0\<lparr>iVariantId := Some ''v1'', iVariantName := Some ''M''\<rparr>]\<rparr>]\<rparr>"

definition sizesDto0 :: UpdateProductDto where
  "sizesDto0 = \<lparr>dqName = None, dqSku = None, dqDescription = None, dqPrice = None, dqCompareAtPrice = None,
     dqCost = None, dqQuantity = None, dqIsActive = None, dqIsPublished = None, dqAttributes = None,
     dqCategoryIds = None, dqTaxIds = None, dqVariants = Some [\<lparr>cvName = ''M'', cvSku = None, cvPrice = 10,
       cvCost = None, cvQuantity = Some 3, cvLocationId = None\<rparr>]\<rparr>"

theorem variant_edit_strands_held_stock_witness:
  "\<exists>s' ord'. updateProduct freshEnv0 shirts0 ''t1'' ''p1'' sizesDto0 = Inr s' \<and> ord' \<in> set (orders s')
    \<and> (\<forall>k. stockOf (releaseStock (map stockItemOf (oItems ord')) s') (OfVariant k) = stockOf s' (OfVariant k))"
proof -
  have "\<not> isl (updateProduct freshEnv0 shirts0 ''t1'' ''p1'' sizesDto0)" by code_simp
  then obtain s' where s': "updateProduct freshEnv0 shirts0 ''t1'' ''p1'' sizesDto0 = Inr s'"
    by (cases "updateProduct freshEnv0 shirts0 ''t1'' ''p1'' sizesDto0") auto
  let ?ord = "order0\<lparr>oItems := [item0\<lparr>iVariantId := Some ''v1'', iVariantName := Some ''M''\<rparr>]\<rparr>"
  have "?ord \<in> set (orders shirts0)" "dqVariants sizesDto0 \<noteq> None"
      "list_all (\<lambda>l. iProductId l = Some ''p1'' \<and> (\<exists>v \<in> set (variants shirts0). vProductId v = ''p1'' \<and> iVariantId l = Some (vId v))) (oItems ?ord)"
    by (simp_all add: shirts0_def sizesDto0_def item0_def)
  then show ?thesis using variant_edit_strands_held_stock [OF s', of ?ord] s' by blast
qed

section \<open>The images of a product\<close>

lemma imagesOf_updateRow [simp]:
  "imagesOf (s\<lparr>imageTable := t\<rparr>) i = filter (\<lambda>m. imProductId m = i) t"
  by (simp add: imagesOf_def)

lemma map_of_zip_none: "x \<notin> set ks \<Longrightarrow> map_of (zip ks vs) x = None"
  by (auto simp: map_of_eq_None_iff dest: set_zip_leftD)

text \<open>The place of every image after the updates, one per requested id.\<close>

definition placed :: "nat \<Rightarrow> uuid list \<Rightarrow> productImage \<Rightarrow> productImage" where
  "placed n ids m = (case map_of (zip ids [n..<n + length ids]) (imId m) of
     Some k \<Rightarrow> m\<lparr>imSortOrder := int k\<rparr> | None \<Rightarrow> m)"

lemma placed_same [simp]: "imId (placed n ids m) = imId m" "imProductId (placed n ids m) = imProductId m"
  by (simp_all add: placed_def split: option.split)

lemma fold_setSortOrder:
  "distinct ids \<Longrightarrow> fold setSortOrder (enumerate n ids) t = map (placed n ids) t"
proof (induction ids arbitrary: n t)
  case Nil
  show ?case by (simp add: placed_def cong: map_cong)
next
  case (Cons x ids)
  have up: "[n..<n + length (x # ids)] = n # [Suc n..<Suc n + length ids]" by (simp add: upt_rec)
  have "placed (Suc n) ids (if imId m = x then m\<lparr>imSortOrder := int n\<rparr> else m) = placed n (x # ids) m" for m
    using Cons.prems unfolding placed_def up by (auto simp: map_of_zip_none simp del: upt_Suc add_Suc)
  then have "placed (Suc n) ids \<circ> (\<lambda>m. if imId m = x then m\<lparr>imSortOrder := int n\<rparr> else m) = placed n (x # ids)"
    by (simp add: fun_eq_iff)
  moreover have "setSortOrder (n, x) t = map (\<lambda>m. if imId m = x then m\<lparr>imSortOrder := int n\<rparr> else m) t"
    by (simp add: setSortOrder_def updateRow_def updateMany_def)
  ultimately show ?case using Cons by (simp del: map_eq_conv)
qed

lemma placed_nth:
  assumes "imId m \<in> set ids"
  obtains k where "k < length ids" "imSortOrder (placed 0 ids m) = int k" "ids ! k = imId m"
proof -
  obtain k where k: "map_of (zip ids [0..<0 + length ids]) (imId m) = Some k"
    using assms by (metis add_0 length_upt diff_zero map_of_zip_is_Some)
  then have "(imId m, k) \<in> set (zip ids [0..<length ids])" by (auto dest: map_of_SomeD)
  then have "k < length ids" "ids ! k = imId m" by (auto simp: in_set_zip)
  with k show ?thesis by (intro that [of k]) (simp_all add: placed_def)
qed

text \<open>Rows numbered by their place in a list of their keys, sorted by the number.\<close>

lemma sort_key_numbered:
  assumes "distinct ids" "uniqueKeys key t" "set ids = key ` set t"
    and "\<And>m. m \<in> set t \<Longrightarrow> \<exists>k < length ids. num m = int k \<and> ids ! k = key m"
  shows "map key (sort_key num t) = ids"
proof -
  have len: "length t = length ids"
    using assms(1-3) by (metis distinct_card length_map list.set_map uniqueKeys_def)
  have key: "key m = ids ! nat (num m)" if "m \<in> set t" for m using assms(4) [OF that] by auto
  have "int k \<in> num ` set t" if "k < length ids" for k
  proof -
    have "ids ! k \<in> key ` set t" using that assms(3) nth_mem by blast
    then obtain m where m: "m \<in> set t" "key m = ids ! k" by auto
    obtain j where "j < length ids" "num m = int j" "ids ! j = ids ! k" using assms(4) [OF m(1)] m(2) by auto
    then have "num m = int k" using that assms(1) by (simp add: nth_eq_iff_index_eq)
    then show ?thesis using m(1) by (auto intro: rev_image_eqI)
  qed
  moreover have "num m \<in> int ` {0..<length ids}" if "m \<in> set t" for m
    using assms(4) [OF that] by auto
  ultimately have nums: "set (map num (sort_key num t)) = set (map int [0..<length ids])"
    by auto
  moreover have "distinct (map num (sort_key num t))"
    by (rule card_distinct) (simp only: nums, simp add: card_image len)
  ultimately have "map num (sort_key num t) = map int [0..<length ids]"
    using sorted_distinct_set_unique [OF sorted_sort_key _ _ _ nums]
    by (simp add: distinct_map sorted_map sorted_wrt_map)
  moreover have "map key (sort_key num t) = map (\<lambda>z. ids ! nat z) (map num (sort_key num t))"
    using key by simp
  ultimately show ?thesis by (simp add: map_nth comp_def)
qed

text \<open>
  Reordering the images of a product shows them in the order asked for: the images come back as the
  request names them, each once, none of another product is touched, and a request that does not name
  exactly the images of the product changes nothing.
\<close>

theorem reorder_shows_requested_order:
  assumes "uniqueKeys imId (imageTable s)" and "distinct ids" and "findOneProduct s tn i = Inr p"
  shows "(if set ids = imId ` set (imagesOf s i)
      then \<exists>s' ms. reorderImages s tn i ids = Inr (s', ms) \<and> map imId ms = ids
        \<and> filter (\<lambda>m. imProductId m \<noteq> i) (imageTable s') = filter (\<lambda>m. imProductId m \<noteq> i) (imageTable s)
      else \<exists>x. reorderImages s tn i ids = Inl x \<and> http_status x = 400)"
proof (cases "set ids = imId ` set (imagesOf s i)")
  case True
  let ?t = "map (placed 0 ids) (imageTable s)"
  have mine: "filter (\<lambda>m. imProductId m = i) ?t = map (placed 0 ids) (imagesOf s i)"
    by (simp add: imagesOf_def filter_map comp_def)
  have "map imId (sort_key imSortOrder (filter (\<lambda>m. imProductId m = i) ?t)) = ids"
  proof (rule sort_key_numbered [OF assms(2)])
    show "uniqueKeys imId (filter (\<lambda>m. imProductId m = i) ?t)"
      using assms(1) by (intro uniqueKeys_filter) (simp add: uniqueKeys_def comp_def)
    show "set ids = imId ` set (filter (\<lambda>m. imProductId m = i) ?t)" by (simp add: mine True image_image)
    show "\<exists>k<length ids. imSortOrder m = int k \<and> ids ! k = imId m"
      if "m \<in> set (filter (\<lambda>m. imProductId m = i) ?t)" for m
    proof -
      obtain r where "m = placed 0 ids r" "imId r \<in> set ids" using \<open>m \<in> _\<close> unfolding mine True by auto
      then show ?thesis using placed_nth [of r ids] by (metis placed_same(1))
    qed
  qed
  moreover have "filter (\<lambda>m. imProductId m \<noteq> i) ?t = filter (\<lambda>m. imProductId m \<noteq> i) (imageTable s)"
  proof -
    have "placed 0 ids m = m" if "m \<in> set (imageTable s)" "imProductId m \<noteq> i" for m
    proof -
      have "imId m \<notin> imId ` set (imagesOf s i)"
        using assms(1) that by (auto simp: imagesOf_def uniqueKeys_def distinct_map inj_on_def)
      then show ?thesis unfolding True [symmetric] by (simp add: placed_def map_of_zip_none)
    qed
    then show ?thesis by (auto simp: filter_map comp_def intro!: map_idI)
  qed
  moreover have "reorderImages s tn i ids = Inr (s\<lparr>imageTable := ?t\<rparr>, sort_key imSortOrder (filter (\<lambda>m. imProductId m = i) ?t))"
    using assms(3) True by (simp add: reorderImages_def Let_def fold_setSortOrder [OF assms(2)])
  ultimately show ?thesis using True by auto
next
  case False
  have "card (imId ` set (imagesOf s i)) \<noteq> card (set ids) \<or> \<not> imId ` set (imagesOf s i) \<subseteq> set ids"
    using False card_subset_eq [of "set ids" "imId ` set (imagesOf s i)"] by fastforce
  then show ?thesis using False assms(3) by (simp add: reorderImages_def Let_def)
qed

text \<open>Three images of two products, two of them swapped.\<close>

definition image0 :: productImage where
  "image0 = \<lparr>imId = ''m1'', imTenantId = ''t1'', imProductId = ''p1'', imUrl = ''/1'', imIsCover = True, imSortOrder = 0\<rparr>"

definition pictures0 :: db where
  "pictures0 = db0\<lparr>imageTable := [image0, image0\<lparr>imId := ''m2'', imIsCover := False, imSortOrder := 1\<rparr>,
     image0\<lparr>imId := ''m3'', imProductId := ''p2''\<rparr>]\<rparr>"

lemma pictures0_simps: "findOneProduct pictures0 ''t1'' ''p1'' = Inr (hd (products db0))"
  "uniqueKeys imId (imageTable pictures0)" "imId ` set (imagesOf pictures0 ''p1'') = {''m1'', ''m2''}"
  by (auto simp: findOneProduct_def pictures0_def image0_def uniqueKeys_def imagesOf_def sample_defs)

theorem reorder_shows_requested_order_witness:
  "\<exists>s' ms. reorderImages pictures0 ''t1'' ''p1'' [''m2'', ''m1''] = Inr (s', ms) \<and> map imId ms = [''m2'', ''m1'']"
  using reorder_shows_requested_order [OF pictures0_simps(2) _ pictures0_simps(1), of "[''m2'', ''m1'']"]
  by (auto simp: pictures0_simps(3) insert_commute split: if_splits)

lemma keys_of_key:
  "uniqueKeys key t \<Longrightarrow> map key (filter (\<lambda>r. P r \<and> key r = k) t) = (if \<exists>r \<in> set t. P r \<and> key r = k then [k] else [])"
proof (induction t)
  case (Cons r t)
  then have "key r = k \<Longrightarrow> filter (\<lambda>r. P r \<and> key r = k) t = []"
    by (auto simp: uniqueKeys_def filter_empty_conv image_iff)
  with Cons show ?case by (auto simp: uniqueKeys_def image_iff)
qed simp

text \<open>
  Making an image the cover of a product leaves the product with that one cover, when the image is
  the product's. The request does not check that: with an image of another product of the store it
  succeeds all the same, gives that image the mark, and leaves the product it names without a cover.
\<close>

theorem cover_is_the_image_named:
  assumes "setCoverImage s tn i k = Inr s'" and "uniqueKeys imId (imageTable s)"
  shows "map imId (filter imIsCover (imagesOf s' i)) = (if k \<in> imId ` set (imagesOf s i) then [k] else [])
    \<and> (\<forall>m \<in> set (imageTable s'). imId m = k \<longrightarrow> imTenantId m = tn \<longrightarrow> imIsCover m)
    \<and> map imId (imageTable s') = map imId (imageTable s)"
proof -
  let ?f = "\<lambda>m. m\<lparr>imIsCover := (imId m = k \<and> imTenantId m = tn \<or> imProductId m \<noteq> i \<and> imIsCover m)\<rparr>"
  have t': "imageTable s' = map ?f (imageTable s)" and n: "countRows (\<lambda>m. imId m = k \<and> imTenantId m = tn) (uncover i (imageTable s)) \<noteq> 0"
    using assms(1) by (auto simp: setCoverImage_def bind_res_eq_Inr Let_def uncover_def updateMany_def split: if_splits)
  then obtain h where h: "h \<in> set (imageTable s)" "imId h = k" "imTenantId h = tn"
    by (auto simp: countRows_0_iff uncover_def set_updateMany split: if_splits)
  have own: "imTenantId m = tn" if "m \<in> set (imageTable s)" "imId m = k" for m
    using assms(2) h that by (auto simp: uniqueKeys_def distinct_map dest: inj_onD)
  have "filter imIsCover (imagesOf s' i) = map ?f (filter (\<lambda>m. imProductId m = i \<and> imId m = k) (imageTable s))"
    using own by (auto simp: imagesOf_def t' filter_map comp_def intro!: arg_cong [where f = "map _"] filter_cong)
  then have "map imId (filter imIsCover (imagesOf s' i)) = (if k \<in> imId ` set (imagesOf s i) then [k] else [])"
    using keys_of_key [OF assms(2), of "\<lambda>m. imProductId m = i" k] by (auto simp: comp_def imagesOf_def)
  then show ?thesis by (auto simp: t' comp_def)
qed

text \<open>The mark moves between the pictures of a product, or leaves it for another product's.\<close>

theorem cover_is_the_image_named_witness:
  "\<exists>s1 s2. setCoverImage pictures0 ''t1'' ''p1'' ''m2'' = Inr s1 \<and> map imId (filter imIsCover (imagesOf s1 ''p1'')) = [''m2'']
    \<and> setCoverImage pictures0 ''t1'' ''p1'' ''m3'' = Inr s2 \<and> filter imIsCover (imagesOf s2 ''p1'') = []"
proof -
  have "\<not> isl (setCoverImage pictures0 ''t1'' ''p1'' ''m2'')" "\<not> isl (setCoverImage pictures0 ''t1'' ''p1'' ''m3'')"
    by code_simp+
  then obtain s1 s2 where s: "setCoverImage pictures0 ''t1'' ''p1'' ''m2'' = Inr s1"
      "setCoverImage pictures0 ''t1'' ''p1'' ''m3'' = Inr s2"
    by (metis isl_def sum.exhaust)
  show ?thesis
    using s cover_is_the_image_named [OF s(1) pictures0_simps(2)] cover_is_the_image_named [OF s(2) pictures0_simps(2)]
    by (simp add: pictures0_simps(3))
qed

end
