(* ===== verification/Shippings.thy ===== *)
theory Shippings
  imports Catalogue
begin

text \<open>
  The locations of a store and its shipping methods: \<open>locations-shipping/locations-shipping.service.ts\<close>.
  A shipping method may belong to a location, and an order names the method it was shipped by. Lists are
  in the order of names, whose collation (\<open>coll\<close>, the rank of a name) is the database's.
\<close>

section \<open>Requests\<close>

record LocationDto =
  ldName :: "string option" \<comment> \<open>always present when a location is created\<close>
  ldAddress :: "string option"
  ldCity :: "string option"
  ldState :: "string option"
  ldZipcode :: "string option"
  ldCountry :: "string option"

record CreateShippingDto =
  sdName :: string
  sdCost :: rat
  sdLocationId :: "uuid option"
  sdIsActive :: "bool option"

record UpdateShippingDto =
  seName :: "string option"
  seCost :: "rat option"
  seLocationId :: "uuid option"
  seIsActive :: "bool option"

section \<open>Locations\<close>

definition listLocations :: "(string \<Rightarrow> int) \<Rightarrow> db \<Rightarrow> uuid \<Rightarrow> location list" where
  "listLocations coll s tenantId = sort_key (coll \<circ> loName) (filter (\<lambda>l. loTenantId l = tenantId) (locations s))"

definition ensureLocation :: "db \<Rightarrow> uuid \<Rightarrow> uuid \<Rightarrow> unit res" where
  "ensureLocation s tenantId i =
     (if findFirst (\<lambda>l. loId l = i \<and> loTenantId l = tenantId) (locations s) = None
      then Inl (NotFound ''Location not found'') else Inr ())"

text \<open>The columns a request names, over those of a row.\<close>

definition patchLocation :: "LocationDto \<Rightarrow> location \<Rightarrow> location" where
  "patchLocation dto l =
     l\<lparr>loName := patch (ldName dto) (loName l), loAddress := patch (map_option Some (ldAddress dto)) (loAddress l),
       loCity := patch (map_option Some (ldCity dto)) (loCity l), loState := patch (map_option Some (ldState dto)) (loState l),
       loZipcode := patch (map_option Some (ldZipcode dto)) (loZipcode l),
       loCountry := patch (map_option Some (ldCountry dto)) (loCountry l)\<rparr>"

definition createLocation :: "env \<Rightarrow> db \<Rightarrow> uuid \<Rightarrow> LocationDto \<Rightarrow> db \<times> location" where
  "createLocation e s tenantId dto =
     (let l = patchLocation dto \<lparr>loId = eFresh e 0, loTenantId = tenantId, loName = [], loAddress = None,
                loCity = None, loState = None, loZipcode = None, loCountry = None\<rparr>
      in (s\<lparr>locations := locations s @ [l]\<rparr>, l))"

definition updateLocation :: "db \<Rightarrow> uuid \<Rightarrow> uuid \<Rightarrow> LocationDto \<Rightarrow> db res" where
  "updateLocation s tenantId i dto =
     bind_res (ensureLocation s tenantId i) (\<lambda>_.
       Inr (s\<lparr>locations := updateRow loId i (patchLocation dto) (locations s)\<rparr>))"

text \<open>The keys of the shipping methods and variants at the location are set to null with it.\<close>

definition deleteLocationRow :: "uuid \<Rightarrow> db \<Rightarrow> db" where
  "deleteLocationRow i s =
     s\<lparr>locations := filter (\<lambda>l. loId l \<noteq> i) (locations s),
       shippings := updateMany (\<lambda>h. shLocationId h = Some i) (\<lambda>h. h\<lparr>shLocationId := None\<rparr>) (shippings s),
       variants := updateMany (\<lambda>v. vLocationId v = Some i) (\<lambda>v. v\<lparr>vLocationId := None\<rparr>) (variants s)\<rparr>"

definition removeLocation :: "db \<Rightarrow> uuid \<Rightarrow> uuid \<Rightarrow> db res" where
  "removeLocation s tenantId i =
     bind_res (ensureLocation s tenantId i) (\<lambda>_.
       let shippingCount = countRows (\<lambda>h. shTenantId h = tenantId \<and> shLocationId h = Some i) (shippings s)
       in if shippingCount > 0
          then Inl (Conflict (''This location has '' @ string_of_nat shippingCount
                 @ '' shipping method(s) associated. Reassign or delete them before deleting the location.''))
          else Inr (deleteLocationRow i s))"

section \<open>Shipping methods\<close>

definition listShippings :: "(string \<Rightarrow> int) \<Rightarrow> db \<Rightarrow> uuid \<Rightarrow> bool \<Rightarrow> (shipping \<times> location option) list" where
  "listShippings coll s tenantId activeOnly =
     map (\<lambda>h. (h, case shLocationId h of Some k \<Rightarrow> findFirst (\<lambda>l. loId l = k \<and> loTenantId l = tenantId) (locations s)
                 | None \<Rightarrow> None))
       (sort_key (coll \<circ> shName)
         (filter (\<lambda>h. shTenantId h = tenantId \<and> (activeOnly \<longrightarrow> shIsActive h)) (shippings s)))"

text \<open>The foreign key of the location is checked over the locations of all stores.\<close>

definition locationExists :: "db \<Rightarrow> uuid option \<Rightarrow> bool" where
  "locationExists s k = (case k of Some i \<Rightarrow> i \<in> loId ` set (locations s) | None \<Rightarrow> True)"

definition createShipping :: "env \<Rightarrow> db \<Rightarrow> uuid \<Rightarrow> CreateShippingDto \<Rightarrow> (db \<times> shipping) res" where
  "createShipping e s tenantId dto =
     (if \<not> locationExists s (sdLocationId dto) then Inl databaseError
      else let h = \<lparr>shId = eFresh e 0, shTenantId = tenantId, shLocationId = sdLocationId dto, shName = sdName dto,
                    shCost = round2 (sdCost dto), shIsActive = patch (sdIsActive dto) True\<rparr>
           in Inr (s\<lparr>shippings := shippings s @ [h]\<rparr>, h))"

definition ensureShipping :: "db \<Rightarrow> uuid \<Rightarrow> uuid \<Rightarrow> unit res" where
  "ensureShipping s tenantId i =
     (if findFirst (\<lambda>h. shId h = i \<and> shTenantId h = tenantId) (shippings s) = None
      then Inl (NotFound ''Shipping method not found'') else Inr ())"

definition patchShipping :: "UpdateShippingDto \<Rightarrow> shipping \<Rightarrow> shipping" where
  "patchShipping dto h =
     h\<lparr>shName := patch (seName dto) (shName h), shCost := patch (map_option round2 (seCost dto)) (shCost h),
       shLocationId := patch (map_option Some (seLocationId dto)) (shLocationId h),
       shIsActive := patch (seIsActive dto) (shIsActive h)\<rparr>"

definition updateShipping :: "db \<Rightarrow> uuid \<Rightarrow> uuid \<Rightarrow> UpdateShippingDto \<Rightarrow> db res" where
  "updateShipping s tenantId i dto =
     bind_res (ensureShipping s tenantId i) (\<lambda>_.
       if \<not> locationExists s (seLocationId dto) then Inl databaseError
       else Inr (s\<lparr>shippings := updateRow shId i (patchShipping dto) (shippings s)\<rparr>))"

text \<open>Orders shipped by a deleted method lose the name of it.\<close>

definition removeShipping :: "db \<Rightarrow> uuid \<Rightarrow> uuid \<Rightarrow> db res" where
  "removeShipping s tenantId i =
     bind_res (ensureShipping s tenantId i) (\<lambda>_.
       Inr (s\<lparr>shippings := filter (\<lambda>h. shId h \<noteq> i) (shippings s),
              orders := updateMany (\<lambda>ord. oShippingId ord = Some i) (\<lambda>ord. ord\<lparr>oShippingId := None\<rparr>) (orders s)\<rparr>))"

inductive shippingStep :: "uuid \<Rightarrow> db \<Rightarrow> db \<Rightarrow> bool" for tn where
  NewLocation: "createLocation e s tn ldto = (s', l) \<Longrightarrow> eFresh e 0 \<notin> loId ` set (locations s) \<Longrightarrow> shippingStep tn s s'"
| EditLocation: "updateLocation s tn i ldto = Inr s' \<Longrightarrow> shippingStep tn s s'"
| DropLocation: "removeLocation s tn i = Inr s' \<Longrightarrow> shippingStep tn s s'"
| NewShipping: "createShipping e s tn cdto = Inr (s', h) \<Longrightarrow> 0 \<le> sdCost cdto \<Longrightarrow> shippingStep tn s s'"
| EditShipping: "updateShipping s tn i udto = Inr s' \<Longrightarrow> 0 \<le> patch (seCost udto) 0 \<Longrightarrow> shippingStep tn s s'"
| DropShipping: "removeShipping s tn i = Inr s' \<Longrightarrow> shippingStep tn s s'"

inductive_cases shippingStepE: "shippingStep tn s s'"

section \<open>Properties\<close>

text \<open>What pricing reads of the shipping methods, and their foreign keys.\<close>

definition shippingsOk :: "db \<Rightarrow> bool" where
  "shippingsOk s = (catalogueOk s \<and> list_all (\<lambda>h. locationExists s (shLocationId h)) (shippings s))"

lemma ensureLocation_Inr:
  "ensureLocation s tn i = Inr u \<longleftrightarrow> (\<exists>l \<in> set (locations s). loId l = i \<and> loTenantId l = tn)"
  by (auto simp: ensureLocation_def findFirst_def find_None_iff)

lemma patchLocation_id [simp]: "loId (patchLocation dto l) = loId l"
  by (simp add: patchLocation_def)

lemma loIds_update: "loId ` set (updateRow loId i (patchLocation dto) t) = loId ` set t"
proof -
  have "map loId (updateRow loId i (patchLocation dto) t) = map loId t"
    by (simp add: updateRow_def map_updateMany_key)
  then show ?thesis by (metis list.set_map)
qed

lemma locationExists_tables [simp]:
  "locationExists (s\<lparr>shippings := t\<rparr>) k = locationExists s k" "locationExists (s\<lparr>orders := os\<rparr>) k = locationExists s k"
  by (cases k; simp add: locationExists_def)+

lemma shippingsOk_shippings:
  assumes "shippingsOk s" "list_all (\<lambda>h. cents (shCost h) \<and> 0 \<le> shCost h) t" "list_all (\<lambda>h. locationExists s (shLocationId h)) t"
  shows "shippingsOk (s\<lparr>shippings := t\<rparr>)"
  using assms by (simp add: shippingsOk_def catalogueOk_iff)

lemma shippingsOk_locations:
  assumes "shippingsOk s" "loId ` set (locations s) \<subseteq> loId ` set t"
  shows "shippingsOk (s\<lparr>locations := t\<rparr>)"
  using assms by (auto simp: shippingsOk_def catalogueOk_iff locationExists_def list_all_iff split: option.splits)

lemma deleteLocationRow_ok:
  assumes "shippingsOk s"
  shows "shippingsOk (deleteLocationRow i s)"
proof -
  let ?s' = "deleteLocationRow i s"
  have "list_all variantOk (variants ?s')" "uniqueKeys vId (variants ?s')"
    using assms
    by (auto simp: shippingsOk_def catalogueOk_iff deleteLocationRow_def uniqueKeys_updateMany list_all_iff set_updateMany
        variantOk_def)
  moreover have "list_all (\<lambda>h. cents (shCost h) \<and> 0 \<le> shCost h) (shippings ?s')"
    using assms by (auto simp: shippingsOk_def catalogueOk_iff deleteLocationRow_def list_all_iff set_updateMany)
  moreover have "list_all (\<lambda>h. locationExists ?s' (shLocationId h)) (shippings ?s')"
    using assms
    by (auto simp: shippingsOk_def deleteLocationRow_def list_all_iff set_updateMany locationExists_def split: option.splits)
  ultimately show ?thesis using assms by (simp add: shippingsOk_def catalogueOk_iff deleteLocationRow_def)
qed

text \<open>The settings of shipping break nothing that pricing relies on, and name locations that exist.\<close>

theorem shipping_steps_ok:
  assumes "(shippingStep tn)\<^sup>*\<^sup>* s s'" and "shippingsOk s"
  shows "shippingsOk s'"
  using assms
proof induction
  case (step s1 s2)
  then have ok: "shippingsOk s1" by simp
  from step.hyps(2) show ?case
  proof cases
    case NewLocation
    then show ?thesis using ok by (auto simp: createLocation_def Let_def intro!: shippingsOk_locations)
  next
    case EditLocation
    then show ?thesis using ok by (auto simp: updateLocation_def bind_res_eq_Inr loIds_update intro!: shippingsOk_locations)
  next
    case DropLocation
    then show ?thesis using deleteLocationRow_ok [OF ok] by (auto simp: removeLocation_def bind_res_eq_Inr Let_def split: if_splits)
  next
    case NewShipping
    then show ?thesis
      using ok by (auto simp: createShipping_def Let_def shippingsOk_def catalogueOk_iff round2_nonneg
          split: if_splits)
  next
    case (EditShipping i udto)
    then have s2: "s2 = s1\<lparr>shippings := updateRow shId i (patchShipping udto) (shippings s1)\<rparr>"
        and loc: "locationExists s1 (seLocationId udto)"
      by (auto simp: updateShipping_def bind_res_eq_Inr split: if_splits)
    show ?thesis
      unfolding s2
    proof (rule shippingsOk_shippings [OF ok])
      show "list_all (\<lambda>h. cents (shCost h) \<and> 0 \<le> shCost h) (updateRow shId i (patchShipping udto) (shippings s1))"
        using ok EditShipping(2)
        by (auto simp: shippingsOk_def catalogueOk_iff updateRow_def list_all_iff set_updateMany patchShipping_def patch_def
            round2_nonneg split: option.splits)
      show "list_all (\<lambda>h. locationExists s1 (shLocationId h)) (updateRow shId i (patchShipping udto) (shippings s1))"
        using ok loc
        by (auto simp: shippingsOk_def updateRow_def list_all_iff set_updateMany patchShipping_def patch_def
            split: option.splits)
    qed
  next
    case (DropShipping i)
    then show ?thesis
      using ok by (auto simp: removeShipping_def bind_res_eq_Inr shippingsOk_def catalogueOk_iff list_all_filter)
  qed
qed

text \<open>
  deleting a location never turns one of the store's own shipping methods into one for any location:
  it is refused with 409 while the store has such a method, and otherwise leaves every method of the
  store as it was. The check sees the methods of the store alone, though, and any store may name the
  location: a method another store has at it loses it.
\<close>

theorem location_removal_keeps_methods:
  assumes "ensureLocation s tn i = Inr ()"
  shows "(case removeLocation s tn i of
       Inl x \<Rightarrow> http_status x = 409 \<and> (\<exists>h \<in> set (shippings s). shTenantId h = tn \<and> shLocationId h = Some i)
     | Inr s' \<Rightarrow> filter (\<lambda>h. shTenantId h = tn) (shippings s') = filter (\<lambda>h. shTenantId h = tn) (shippings s)
         \<and> (\<forall>h \<in> set (shippings s). shLocationId h = Some i \<longrightarrow> h\<lparr>shLocationId := None\<rparr> \<in> set (shippings s')))
    \<and> (sdLocationId dto = Some i \<longrightarrow> (\<exists>s' h. createShipping e s tn' dto = Inr (s', h) \<and> shLocationId h = Some i))"
proof (intro conjI impI)
  have same: "filter (\<lambda>h. shTenantId h = tn) (updateMany P f t) = filter (\<lambda>h. shTenantId h = tn) t"
    if "\<And>h. h \<in> set t \<Longrightarrow> P h \<Longrightarrow> shTenantId h \<noteq> tn \<and> shTenantId (f h) \<noteq> tn" for P f and t :: "shipping list"
    using that by (induction t) auto
  show "case removeLocation s tn i of
       Inl x \<Rightarrow> http_status x = 409 \<and> (\<exists>h \<in> set (shippings s). shTenantId h = tn \<and> shLocationId h = Some i)
     | Inr s' \<Rightarrow> filter (\<lambda>h. shTenantId h = tn) (shippings s') = filter (\<lambda>h. shTenantId h = tn) (shippings s)
         \<and> (\<forall>h \<in> set (shippings s). shLocationId h = Some i \<longrightarrow> h\<lparr>shLocationId := None\<rparr> \<in> set (shippings s'))"
  proof (cases "countRows (\<lambda>h. shTenantId h = tn \<and> shLocationId h = Some i) (shippings s) = 0")
    case True
    then have "removeLocation s tn i = Inr (deleteLocationRow i s)"
      using assms by (simp add: removeLocation_def Let_def)
    moreover have "filter (\<lambda>h. shTenantId h = tn) (shippings (deleteLocationRow i s)) = filter (\<lambda>h. shTenantId h = tn) (shippings s)"
      unfolding deleteLocationRow_def using True by (simp add: countRows_0_iff) (rule same, auto)
    ultimately show ?thesis by (auto simp: deleteLocationRow_def set_updateMany)
  next
    case False
    then show ?thesis using assms by (auto simp: removeLocation_def Let_def countRows_0_iff)
  qed
  assume "sdLocationId dto = Some i"
  moreover have "i \<in> loId ` set (locations s)" using assms by (auto simp: ensureLocation_Inr)
  ultimately show "\<exists>s' h. createShipping e s tn' dto = Inr (s', h) \<and> shLocationId h = Some i"
    by (simp add: createShipping_def locationExists_def Let_def)
qed

definition warehouse0 :: db where
  "warehouse0 = db0\<lparr>locations := [\<lparr>loId = ''l1'', loTenantId = ''t1'', loName = ''Main'', loAddress = None, loCity = None,
     loState = None, loZipcode = None, loCountry = None\<rparr>],
     shippings := [\<lparr>shId = ''h9'', shTenantId = ''t2'', shLocationId = Some ''l1'', shName = ''Post'', shCost = 5, shIsActive = True\<rparr>]\<rparr>"

theorem location_removal_keeps_methods_witness:
  "\<exists>s'. removeLocation warehouse0 ''t1'' ''l1'' = Inr s' \<and> map shLocationId (shippings s') = [None]"
proof -
  have "ensureLocation warehouse0 ''t1'' ''l1'' = Inr ()" by (simp add: ensureLocation_Inr warehouse0_def)
  then show ?thesis
    using location_removal_keeps_methods [of warehouse0 "''t1''" "''l1''"]
    by (auto simp: removeLocation_def deleteLocationRow_def Let_def warehouse0_def countRows_def updateMany_def)
qed

end
