(* ===== verification/SmtpGuard.thy ===== *)
theory SmtpGuard
  imports Text
begin

text \<open>
  The guard on the mail server a store names: \<open>common/utils/smtp-guard.util.ts\<close>. A store may not
  point the server's mail at an address inside the platform's own network. \<open>isIP\<close> of Node's \<open>net\<close> is
  written out; the answer of the name service is a parameter.
\<close>

section \<open>Addresses\<close>

definition ALLOWED_SMTP_PORTS :: "int list" where
  "ALLOWED_SMTP_PORTS = [25, 465, 587, 2525]"

text \<open>A part of a dotted address: a number up to 255 without leading zeros.\<close>

definition isOctet :: "string \<Rightarrow> bool" where
  "isOctet p = (p \<noteq> [] \<and> list_all isDigitChar p \<and> length p \<le> 3 \<and> (hd p = CHR ''0'' \<longrightarrow> length p = 1)
     \<and> decimalValue p \<le> 255)"

definition isIPv4 :: "string \<Rightarrow> bool" where
  "isIPv4 t = (length (splitOn (CHR ''.'') t) = 4 \<and> list_all isOctet (splitOn (CHR ''.'') t))"

definition isHexGroup :: "string \<Rightarrow> bool" where
  "isHexGroup g = (g \<noteq> [] \<and> length g \<le> 4 \<and> list_all isHexChar g)"

text \<open>How many of the eight groups a list of them fills; the last may be a dotted address, which fills two.\<close>

fun groupCount :: "string list \<Rightarrow> nat option" where
  "groupCount [] = Some 0"
| "groupCount [g] = (if isIPv4 g then Some 2 else if isHexGroup g then Some 1 else None)"
| "groupCount (g # gs) = (if isHexGroup g then map_option Suc (groupCount gs) else None)"

text \<open>What stands before and after the first double colon.\<close>

fun splitDouble :: "string \<Rightarrow> (string \<times> string) option" where
  "splitDouble (c # d # cs) =
     (if c = CHR '':'' \<and> d = CHR '':'' then Some ([], cs)
      else map_option (\<lambda>(l, r). (c # l, r)) (splitDouble (d # cs)))"
| "splitDouble _ = None"

definition groupsOf :: "string \<Rightarrow> string list" where
  "groupsOf t = (if t = [] then [] else splitOn (CHR '':'') t)"

definition isZoneChar :: "char \<Rightarrow> bool" where
  "isZoneChar c = (isDigitChar c \<or> isLetterChar c \<or> c \<in> {CHR ''-'', CHR ''.'', CHR '':''})"

definition isIPv6 :: "string \<Rightarrow> bool" where
  "isIPv6 t =
     (let addr = takeWhile (\<lambda>c. c \<noteq> CHR 0x25) t; zone = dropWhile (\<lambda>c. c \<noteq> CHR 0x25) t
      in (zone = [] \<or> length zone > 1 \<and> list_all isZoneChar (tl zone))
         \<and> (case splitDouble addr of
              None \<Rightarrow> groupCount (groupsOf addr) = Some 8
            | Some (l, r) \<Rightarrow> list_all isHexGroup (groupsOf l)
                \<and> (case groupCount (groupsOf r) of Some n \<Rightarrow> length (groupsOf l) + n \<le> 7 | None \<Rightarrow> False)))"

text \<open>\<open>Number\<close> of a part of an address.\<close>

definition octetNumber :: "string \<Rightarrow> nat option" where
  "octetNumber p = (if p \<noteq> [] \<and> list_all isDigitChar p then Some (decimalValue p) else None)"

definition privateOctets :: "nat \<Rightarrow> nat \<Rightarrow> bool" where
  "privateOctets a b =
     (a = 0 \<or> a = 10 \<or> a = 127 \<or> (a = 100 \<and> b \<ge> 64 \<and> b \<le> 127) \<or> (a = 169 \<and> b = 254)
      \<or> (a = 172 \<and> b \<ge> 16 \<and> b \<le> 31) \<or> (a = 192 \<and> b = 168) \<or> (a = 192 \<and> b = 0)
      \<or> (a = 198 \<and> (b = 18 \<or> b = 19)) \<or> a \<ge> 224)"

definition MAPPED_PREFIX :: string where
  "MAPPED_PREFIX = ''::ffff:''"

lemma length_lower [simp]: "length (lower t) = length t"
  by (simp add: lower_def)

function isPrivateAddress :: "string \<Rightarrow> bool" where
  "isPrivateAddress address =
     (if isIPv6 (lower address)
      then if lower address = ''::1'' \<or> lower address = ''::'' then True
           else if startsWith MAPPED_PREFIX (lower address) then isPrivateAddress (drop 7 (lower address))
           else (\<exists>c \<in> {CHR ''c'', CHR ''d''}. startsWith [CHR ''f'', c] (lower address))
             \<or> (\<exists>c \<in> {CHR ''8'', CHR ''9'', CHR ''a'', CHR ''b''}. startsWith [CHR ''f'', CHR ''e'', c] (lower address))
             \<or> startsWith ''ff'' (lower address)
      else case map octetNumber (splitOn (CHR ''.'') (lower address)) of
             [Some a, Some b, Some _, Some _] \<Rightarrow> privateOctets a b
           | _ \<Rightarrow> True)"
  by pat_completeness auto

termination
  by (relation "measure length") (auto simp: startsWith_def MAPPED_PREFIX_def dest: prefix_length_le)

declare isPrivateAddress.simps [simp del]

section \<open>The guard\<close>

definition isIP :: "string \<Rightarrow> bool" where
  "isIP t = (isIPv4 t \<or> isIPv6 t)"

definition internalName :: "string \<Rightarrow> bool" where
  "internalName h = (CHR ''.'' \<notin> set h \<or> endsWith ''.local'' h \<or> endsWith ''.internal'' h \<or> h = ''localhost'')"

definition assertSafeSmtpSettings :: "string option \<Rightarrow> int option \<Rightarrow> unit res" where
  "assertSafeSmtpSettings host port =
     (if (case port of Some p \<Rightarrow> p \<notin> set ALLOWED_SMTP_PORTS | None \<Rightarrow> False)
      then Inl (BadRequest ''SMTP port must be one of 25, 465, 587, 2525'')
      else if host = None \<or> host = Some [] then Inr ()
      else let h = lower (trim (the host))
           in if internalName h \<or> (isIP h \<and> isPrivateAddress h)
              then Inl (BadRequest ''SMTP host must be a public mail server'') else Inr ())"

text \<open>The addresses of a name, nothing when the look-up fails.\<close>

definition resolvePublicSmtpAddress :: "(string \<Rightarrow> string list option) \<Rightarrow> string \<Rightarrow> int \<Rightarrow> string res" where
  "resolvePublicSmtpAddress lookup host port =
     bind_res (assertSafeSmtpSettings (Some host) (Some port)) (\<lambda>_.
       case lookup host of
         None \<Rightarrow> Inl (InternalError ''getaddrinfo ENOTFOUND'')
       | Some as \<Rightarrow> if as = [] \<or> list_ex isPrivateAddress as
                    then Inl (InternalError (''SMTP host '' @ host @ '' resolves to a non-public address''))
                    else Inr (hd as))"

section \<open>Facts\<close>

lemma splitOn_absent: "c \<notin> set t \<Longrightarrow> splitOn c t = [t]"
  by (induction t) auto

lemma set_splitOn: "d \<in> set t \<Longrightarrow> d = c \<or> (\<exists>w \<in> set (splitOn c t). d \<in> set w)"
  by (induction t) (auto split: list.splits if_splits)

text \<open>A dotted address holds digits and dots only, so it reads the same trimmed and in lower case.\<close>

lemma isIPv4_chars: "isIPv4 v \<Longrightarrow> c \<in> set v \<Longrightarrow> c = CHR ''.'' \<or> isDigitChar c"
  using set_splitOn [of c v "CHR ''.''"] by (fastforce simp: isIPv4_def isOctet_def list_all_iff)

lemma lower_same: "(\<And>c. c \<in> set t \<Longrightarrow> \<not> (CHR ''A'' \<le> c \<and> c \<le> CHR ''Z'')) \<Longrightarrow> lower t = t"
  by (induction t) (auto simp: lower_def)

lemma trim_same: "(\<And>c. c \<in> set t \<Longrightarrow> \<not> isSpace c) \<Longrightarrow> trim t = t"
proof -
  assume no: "\<And>c. c \<in> set t \<Longrightarrow> \<not> isSpace c"
  have "dropWhile isSpace u = u" if "set u \<subseteq> set t" for u
    using that no by (auto simp: dropWhile_eq_self_iff dest: hd_in_set)
  then show ?thesis by (simp add: trim_def)
qed

lemma splitDouble_absent: "CHR '':'' \<notin> set t \<Longrightarrow> splitDouble t = None"
  by (induction t rule: splitDouble.induct) auto

lemma isIPv4_facts:
  assumes "isIPv4 v"
  shows "CHR '':'' \<notin> set v" "CHR 0x25 \<notin> set v" "CHR ''.'' \<in> set v" "lower v = v" "\<And>c. c \<in> set v \<Longrightarrow> \<not> isSpace c"
proof -
  have c: "c = CHR ''.'' \<or> CHR ''0'' \<le> c \<and> c \<le> CHR ''9''" if "c \<in> set v" for c
    using isIPv4_chars [OF assms that] by (simp add: isDigitChar_def)
  show "CHR '':'' \<notin> set v" "CHR 0x25 \<notin> set v" using c by (force simp: less_eq_char_def)+
  show "\<not> isSpace c" if "c \<in> set v" for c using c [OF that] by (auto simp: isSpace_def less_eq_char_def)
  show "lower v = v" by (rule lower_same) (use c in \<open>force simp: less_eq_char_def\<close>)
  show "CHR ''.'' \<in> set v"
    using assms splitOn_absent [of "CHR ''.''" v] by (force simp: isIPv4_def)
qed

text \<open>The blocks of addresses the guard names, from their first address to their last.\<close>

type_synonym address = "nat \<times> nat \<times> nat \<times> nat"

definition PRIVATE_BLOCKS :: "(address \<times> address) list" where
  "PRIVATE_BLOCKS = [((0, 0, 0, 0), (0, 255, 255, 255)), ((10, 0, 0, 0), (10, 255, 255, 255)),
     ((100, 64, 0, 0), (100, 127, 255, 255)), ((127, 0, 0, 0), (127, 255, 255, 255)),
     ((169, 254, 0, 0), (169, 254, 255, 255)), ((172, 16, 0, 0), (172, 31, 255, 255)),
     ((192, 0, 0, 0), (192, 0, 255, 255)), ((192, 168, 0, 0), (192, 168, 255, 255)),
     ((198, 18, 0, 0), (198, 19, 255, 255)), ((224, 0, 0, 0), (255, 255, 255, 255))]"

fun addressNumber :: "address \<Rightarrow> nat" where
  "addressNumber (a, b, c, d) = ((a * 256 + b) * 256 + c) * 256 + d"

definition inBlock :: "address \<Rightarrow> address \<times> address \<Rightarrow> bool" where
  "inBlock x blk = (addressNumber (fst blk) \<le> addressNumber x \<and> addressNumber x \<le> addressNumber (snd blk))"

definition dotted :: "nat \<times> nat \<times> nat \<times> nat \<Rightarrow> string" where
  "dotted x = (case x of (a, b, c, d) \<Rightarrow>
     string_of_nat a @ ''.'' @ string_of_nat b @ ''.'' @ string_of_nat c @ ''.'' @ string_of_nat d)"

text \<open>Blocks that start at \<open>.0.0\<close> and end at \<open>.255.255\<close> are told by the first two octets.\<close>

lemma inBlock_octets:
  assumes "c < 256" "d < 256"
  shows "inBlock (a, b, c, d) ((k, l, 0, 0), (m, n, 255, 255)) \<longleftrightarrow> k * 256 + l \<le> a * 256 + b \<and> a * 256 + b \<le> m * 256 + n"
proof -
  have "(u * 256 + 0) * 256 + 0 \<le> (h * 256 + c) * 256 + d \<longleftrightarrow> u \<le> h"
      "(h * 256 + c) * 256 + d \<le> (u * 256 + 255) * 256 + 255 \<longleftrightarrow> h \<le> u" for u h :: nat
    using assms by auto
  then show ?thesis unfolding inBlock_def addressNumber.simps fst_conv snd_conv by blast
qed

lemma octet_range:
  fixes a b k :: nat
  assumes "b < 256" "l < 256" "n < 256"
  shows "k * 256 + l \<le> a * 256 + b \<and> a * 256 + b \<le> k * 256 + n \<longleftrightarrow> a = k \<and> l \<le> b \<and> b \<le> n"
proof -
  have "a = k" if "k * 256 + l \<le> a * 256 + b" "a * 256 + b \<le> k * 256 + n"
    using that assms by linarith
  then show ?thesis by auto
qed

lemma privateOctets_blocks:
  assumes "a < 256" "b < 256" "c < 256" "d < 256"
  shows "privateOctets a b \<longleftrightarrow> list_ex (inBlock (a, b, c, d)) PRIVATE_BLOCKS"
proof -
  have one: "inBlock (a, b, c, d) ((k, l, 0, 0), (k, n, 255, 255)) \<longleftrightarrow> a = k \<and> l \<le> b \<and> b \<le> n"
    if "l < 256" "n < 256" for k l n
    unfolding inBlock_octets [OF assms(3,4)] by (rule octet_range [OF assms(2) that])
  have last: "inBlock (a, b, c, d) ((224, 0, 0, 0), (255, 255, 255, 255)) \<longleftrightarrow> 224 \<le> a"
    unfolding inBlock_octets [OF assms(3,4)] using assms(1,2) by auto
  have "b \<le> 255" "18 \<le> b \<and> b \<le> 19 \<longleftrightarrow> b = 18 \<or> b = 19" using assms(2) by auto
  moreover have "254 \<le> b \<and> b \<le> 254 \<longleftrightarrow> b = 254" "168 \<le> b \<and> b \<le> 168 \<longleftrightarrow> b = 168" by auto
  ultimately show ?thesis
    unfolding PRIVATE_BLOCKS_def privateOctets_def by (simp add: one last) blast
qed

lemma string_of_nat_digits: "c \<in> set (string_of_nat n) \<Longrightarrow> isDigitChar c"
proof (induction n rule: string_of_nat.induct)
  case (1 n)
  have "list_all (\<lambda>k. isDigitChar (digit k)) [0..<10]" by code_simp
  then have "isDigitChar (digit k)" if "k < 10" for k using that unfolding list_all_iff by auto
  with 1 show ?case
    by (subst (asm) (2) string_of_nat.simps) (auto simp del: digit.simps split: if_splits)
qed

lemma length_string_of_nat: "n < 10 ^ k \<Longrightarrow> 0 < k \<Longrightarrow> length (string_of_nat n) \<le> k"
proof (induction k arbitrary: n)
  case (Suc k)
  show ?case
  proof (cases "n < 10")
    case False
    then have "n div 10 < 10 ^ k" "0 < k" using Suc.prems by (cases k; simp add: less_mult_imp_div_less)+
    then show ?thesis using Suc.IH [of "n div 10"] False by (subst string_of_nat.simps) simp
  qed (subst string_of_nat.simps, simp)
qed simp

lemma hd_string_of_nat: "hd (string_of_nat n) = CHR ''0'' \<Longrightarrow> length (string_of_nat n) = 1"
proof (induction n rule: string_of_nat.induct)
  case (1 n)
  have "list_all (\<lambda>k. digit k \<noteq> CHR ''0'') [1..<10]" by code_simp
  then have d: "digit k \<noteq> CHR ''0''" if "0 < k" "k < 10" for k using that unfolding list_all_iff by auto
  show ?case
  proof (cases "n < 10")
    case False
    then have n: "string_of_nat n = string_of_nat (n div 10) @ [digit (n mod 10)]"
      by (subst string_of_nat.simps) simp
    then have h: "hd (string_of_nat (n div 10)) = CHR ''0''" using "1.prems" by simp
    then have l: "length (string_of_nat (n div 10)) = 1" using "1.IH" False by simp
    have "n div 10 < 10"
    proof (rule ccontr)
      assume "\<not> n div 10 < 10"
      then have "length (string_of_nat (n div 10)) = Suc (length (string_of_nat (n div 10 div 10)))"
        by (subst string_of_nat.simps) simp
      then show False using l by simp
    qed
    then have "string_of_nat (n div 10) = [digit (n div 10)]" by (subst string_of_nat.simps) (simp del: digit.simps)
    then show ?thesis using d [of "n div 10"] \<open>n div 10 < 10\<close> False h by simp
  qed (subst string_of_nat.simps, simp)
qed

lemma string_of_octet: "n < 256 \<Longrightarrow> isOctet (string_of_nat n)"
  using string_of_nat_digits [of _ n] length_string_of_nat [of n 3] hd_string_of_nat [of n]
  by (simp add: isOctet_def list_all_iff decimalValue_string_of_nat)

lemma splitOn_dotted:
  "splitOn (CHR ''.'') (dotted (a, b, c, d)) = [string_of_nat a, string_of_nat b, string_of_nat c, string_of_nat d]"
proof -
  have no: "CHR ''.'' \<notin> set (string_of_nat k)" for k
    using string_of_nat_digits [of "CHR ''.''" k] by (auto simp: isDigitChar_def less_eq_char_def)
  show ?thesis by (simp add: dotted_def splitOn_append no splitOn_absent)
qed

lemma isIPv4_dotted: "a < 256 \<Longrightarrow> b < 256 \<Longrightarrow> c < 256 \<Longrightarrow> d < 256 \<Longrightarrow> isIPv4 (dotted (a, b, c, d))"
  by (simp add: isIPv4_def splitOn_dotted string_of_octet)

lemma isIPv4_not_isIPv6: "isIPv4 v \<Longrightarrow> \<not> isIPv6 v"
proof -
  assume v: "isIPv4 v"
  note f = isIPv4_facts [OF v]
  have t: "takeWhile (\<lambda>c. c \<noteq> CHR 0x25) v = v" using f(2) by (intro takeWhile_eq_all_conv [THEN iffD2]) blast
  have "v \<noteq> []" using f(3) by auto
  then have "groupCount (groupsOf v) = Some 2" using v by (simp add: groupsOf_def splitOn_absent [OF f(1)])
  then show ?thesis unfolding isIPv6_def Let_def t splitDouble_absent [OF f(1)] by simp
qed

lemma isPrivateAddress_dotted:
  assumes "a < 256" "b < 256" "c < 256" "d < 256"
  shows "isPrivateAddress (dotted (a, b, c, d)) \<longleftrightarrow> privateOctets a b"
proof -
  have v: "isIPv4 (dotted (a, b, c, d))" using assms by (rule isIPv4_dotted)
  have "octetNumber (string_of_nat k) = Some k" for k
    using string_of_nat_digits by (auto simp: octetNumber_def decimalValue_string_of_nat list_all_iff)
  then show ?thesis
    using isIPv4_not_isIPv6 [OF v] isIPv4_facts(4) [OF v]
    by (simp add: isPrivateAddress.simps [of "dotted (a, b, c, d)"] splitOn_dotted)
qed

section \<open>Properties\<close>

text \<open>
  C27: an address a store writes in dotted form as its mail server is refused exactly when it lies in one
  of ten blocks of addresses (loopback, private, link-local, carrier, multicast and reserved networks),
  each given by its first and its last address.
\<close>

theorem smtp_guard_blocks:
  assumes "a < 256" "b < 256" "c < 256" "d < 256" and "port \<in> set ALLOWED_SMTP_PORTS"
  shows "assertSafeSmtpSettings (Some (dotted (a, b, c, d))) (Some port) = Inr ()
    \<longleftrightarrow> \<not> list_ex (inBlock (a, b, c, d)) PRIVATE_BLOCKS"
proof -
  have v: "isIPv4 (dotted (a, b, c, d))" using assms(1-4) by (rule isIPv4_dotted)
  note f = isIPv4_facts [OF v]
  have "isDigitChar (last (dotted (a, b, c, d)))" by (simp add: dotted_def string_of_nat_digits [OF last_in_set])
  then have "\<not> internalName (dotted (a, b, c, d))"
    using f(3) by (auto simp: internalName_def endsWith_def suffix_def isDigitChar_def less_eq_char_def)
  moreover have "dotted (a, b, c, d) \<noteq> []" using f(3) by auto
  ultimately show ?thesis
    using assms(5) v f(4) trim_same [OF f(5)]
    by (simp add: assertSafeSmtpSettings_def Let_def isIP_def isPrivateAddress_dotted assms(1-4)
        privateOctets_blocks [OF assms(1-4)])
qed

theorem smtp_guard_blocks_witness:
  "assertSafeSmtpSettings (Some ''172.31.0.9'') (Some 587) \<noteq> Inr () \<and> assertSafeSmtpSettings (Some ''172.32.0.9'') (Some 587) = Inr ()"
proof -
  have "dotted (172, 31, 0, 9) = ''172.31.0.9''" "dotted (172, 32, 0, 9) = ''172.32.0.9''" by code_simp+
  moreover have "list_ex (inBlock (172, 31, 0, 9)) PRIVATE_BLOCKS" "\<not> list_ex (inBlock (172, 32, 0, 9)) PRIVATE_BLOCKS"
    by (simp_all add: PRIVATE_BLOCKS_def inBlock_def)
  ultimately show ?thesis
    using smtp_guard_blocks [of 172 31 0 9 587] smtp_guard_blocks [of 172 32 0 9 587] by (simp add: ALLOWED_SMTP_PORTS_def)
qed

text \<open>The short and the long spelling of the IPv6 address that stands for a dotted one.\<close>

definition mapped :: "string \<Rightarrow> string" where
  "mapped v = ''::ffff:'' @ v"

definition mappedLong :: "string \<Rightarrow> string" where
  "mappedLong v = ''0:0:0:0:0:ffff:'' @ v"

lemma mapped_facts:
  assumes "isIPv4 v" "pre \<in> {''::ffff:'', ''0:0:0:0:0:ffff:''}" "h = pre @ v"
  shows "isIPv6 h" "lower h = h" "trim h = h" "\<not> internalName h" "h \<noteq> []"
proof -
  note f = isIPv4_facts [OF assms(1)]
  have t: "takeWhile (\<lambda>c. c \<noteq> CHR 0x25) h = h" and d: "dropWhile (\<lambda>c. c \<noteq> CHR 0x25) h = []"
    using f(2) assms(2,3) by (auto simp: takeWhile_eq_all_conv)
  have none: "splitDouble (CHR ''f'' # CHR '':'' # v) = None"
    using f(1) splitDouble_absent [OF f(1)] by (cases v) auto
  have hex: "isHexGroup ''ffff''" "isHexGroup ''0''" by code_simp+
  show "isIPv6 h"
    using assms(1,2) f(1) none hex unfolding isIPv6_def Let_def t d
    by (auto simp: assms(3) groupsOf_def splitOn_absent)
  show "lower h = h" using assms(2) f(4) by (auto simp: assms(3) lower_def)
  show "trim h = h" by (rule trim_same) (use assms(2) f(5) in \<open>auto simp: assms(3) isSpace_def\<close>)
  show "h \<noteq> []" using assms(2,3) by auto
  have "v \<noteq> []" using f(3) by auto
  then have "last h = last v" "last v \<in> set v" using assms(3) by simp_all
  then have "isDigitChar (last h) \<or> last h = CHR ''.''" using isIPv4_chars [OF assms(1)] by metis
  then show "\<not> internalName h"
    using f(3) assms(3) by (auto simp: internalName_def endsWith_def suffix_def isDigitChar_def less_eq_char_def)
qed

text \<open>
  the guard sees through one spelling of an address only. An IPv4 address written as an IPv6 one in
  short form, \<open>::ffff:127.0.0.1\<close>, is refused when the address it stands for is private; written with its
  zeros, \<open>0:0:0:0:0:ffff:127.0.0.1\<close>, it passes when the settings are saved and again when the server
  is looked up, so the connection goes to the address the guard is there to protect.
\<close>

theorem mapped_address_spellings:
  assumes "isIPv4 v" and "port \<in> set ALLOWED_SMTP_PORTS"
  shows "(assertSafeSmtpSettings (Some (mapped v)) (Some port) = Inr () \<longleftrightarrow> \<not> isPrivateAddress v)
    \<and> assertSafeSmtpSettings (Some (mappedLong v)) (Some port) = Inr ()
    \<and> resolvePublicSmtpAddress (\<lambda>h. Some [h]) (mappedLong v) port = Inr (mappedLong v)"
proof -
  note s = mapped_facts [OF assms(1) _ mapped_def] and l = mapped_facts [OF assms(1) _ mappedLong_def]
  have "isPrivateAddress (mapped v) = isPrivateAddress v"
    using s by (subst isPrivateAddress.simps) (auto simp: mapped_def MAPPED_PREFIX_def startsWith_def)
  moreover have "\<not> isPrivateAddress (mappedLong v)"
    using l by (subst isPrivateAddress.simps) (auto simp: mappedLong_def MAPPED_PREFIX_def startsWith_def)
  ultimately show ?thesis
    using s l assms(2) by (simp add: assertSafeSmtpSettings_def resolvePublicSmtpAddress_def isIP_def Let_def)
qed

theorem mapped_address_spellings_witness:
  "isPrivateAddress ''127.0.0.1'' \<and> resolvePublicSmtpAddress (\<lambda>h. Some [h]) ''0:0:0:0:0:ffff:127.0.0.1'' 587
     = Inr ''0:0:0:0:0:ffff:127.0.0.1''"
proof -
  have "isIPv4 ''127.0.0.1''" "isPrivateAddress ''127.0.0.1''" by code_simp+
  then show ?thesis
    using mapped_address_spellings [of "''127.0.0.1''" 587] by (simp add: ALLOWED_SMTP_PORTS_def mappedLong_def)
qed

end
