(* ===== verification/Accounts.thy ===== *)
theory Accounts
  imports Plans
begin

text \<open>
  Staff accounts and sessions: \<open>auth/auth.service.ts\<close>, \<open>auth/password-reset.util.ts\<close> and
  \<open>common/security/account-throttle.service.ts\<close>.

  The state is the database with the tables of sessions, mobile sessions and reset links, staff and
  customer alike. JSON web tokens, bcrypt, SHA-256 and the one-time codes are outside: their
  functions are fields of \<open>authEnv\<close>. A web token is a function of what is signed, of the
  \<open>jwtid\<close> and of the second it is signed in, as HMAC signatures are. The failure counters live in
  Redis, so what they record stays when a request is refused and its writes are rolled back.
\<close>

section \<open>State\<close>

text \<open>\<open>RefreshToken\<close> and \<open>CustomerRefreshToken\<close>; the owner is a user or a customer.\<close>

record session =
  snId :: uuid
  snOwner :: uuid
  snTokenHash :: string
  snExpiresAt :: time
  snRevokedAt :: "time option"

text \<open>\<open>MobileRefreshToken\<close> and \<open>MobileCustomerRefreshToken\<close>.\<close>

record mobileSession =
  msId :: uuid
  msOwner :: uuid
  msFamilyId :: uuid
  msDeviceId :: string
  msTokenHash :: string
  msTenantId :: "uuid option"
  msTenantRole :: "TenantMemberRole option"
  msExpiresAt :: time
  msRevokedAt :: "time option"

text \<open>\<open>PasswordResetToken\<close> and \<open>CustomerPasswordResetToken\<close>.\<close>

record resetToken =
  rkId :: uuid
  rkOwner :: uuid
  rkTokenHash :: string
  rkExpiresAt :: time
  rkUsedAt :: "time option"

text \<open>\<open>DeviceToken\<close>: a phone that receives pushes.\<close>

datatype DevicePlatform = IOS | ANDROID

record deviceToken =
  dvId :: uuid
  dvUserId :: uuid
  dvTenantId :: uuid
  dvToken :: string
  dvPlatform :: DevicePlatform
  dvDeviceId :: string
  dvLastSeenAt :: time
  dvRevokedAt :: "time option"

record customer =
  cuId :: uuid
  cuTenantId :: uuid
  cuEmail :: "string option"
  cuPhone :: "string option"
  cuName :: string
  cuPasswordHash :: "string option"
  cuCreatedAt :: time

record accounts =
  acDb :: db
  acSessions :: "session list"
  acMobile :: "mobileSession list"
  acResets :: "resetToken list"
  acCustomers :: "customer list"
  acCustomerSessions :: "session list"
  acCustomerMobile :: "mobileSession list"
  acCustomerResets :: "resetToken list"
  acDevices :: "deviceToken list"

record JwtPayload =
  jpSub :: uuid
  jpEmail :: string
  jpGlobalRole :: GlobalRole
  jpTenantId :: "uuid option"
  jpTenantRole :: "TenantMemberRole option"
  jpImpersonatedBy :: "uuid option"
  jpPurpose :: "string option"

record CustomerJwtPayload =
  cjSub :: uuid
  cjTenantId :: uuid
  cjType :: string

record authEnv =
  aeEnv :: env
  aeSignAccess :: "JwtPayload \<Rightarrow> time \<Rightarrow> string" \<comment> \<open>the time in seconds\<close>
  aeVerifyAccess :: "string \<Rightarrow> JwtPayload option" \<comment> \<open>nothing for a bad signature or an expired token\<close>
  aeSignRefresh :: "JwtPayload \<Rightarrow> string \<Rightarrow> time \<Rightarrow> string" \<comment> \<open>payload, \<open>jwtid\<close>, seconds\<close>
  aeVerifyRefresh :: "string \<Rightarrow> JwtPayload option" \<comment> \<open>nothing when it throws\<close>
  aeSignChallenge :: "uuid \<Rightarrow> time \<Rightarrow> string"
  aeVerifyChallenge :: "string \<Rightarrow> (uuid \<times> string) option" \<comment> \<open>\<open>sub\<close> and \<open>purpose\<close>\<close>
  aeSignCustomerAccess :: "CustomerJwtPayload \<Rightarrow> time \<Rightarrow> string"
  aeVerifyCustomerAccess :: "string \<Rightarrow> CustomerJwtPayload option"
  aeSignCustomerRefresh :: "CustomerJwtPayload \<Rightarrow> time \<Rightarrow> string" \<comment> \<open>payload, seconds\<close>
  aeVerifyCustomerRefresh :: "string \<Rightarrow> CustomerJwtPayload option"
  aeExp :: "string \<Rightarrow> time" \<comment> \<open>\<open>decode(token).exp\<close>\<close>
  aeBcrypt :: "string \<Rightarrow> string"
  aeCompare :: "string \<Rightarrow> string \<Rightarrow> bool" \<comment> \<open>password, hash\<close>
  aeTotp :: "string \<Rightarrow> string \<Rightarrow> bool" \<comment> \<open>code, secret\<close>
  aeNewSecret :: string
  aeStaffTtlDays :: nat
  aeCustomerTtlDays :: nat

text \<open>
  Verifying an access token gives what was signed; the code that signs challenge tokens uses the same
  secret, so those verify too, with their purpose set.
\<close>

definition anow :: "authEnv \<Rightarrow> time" where
  "anow a = eNow (aeEnv a)"

definition hashToken :: "authEnv \<Rightarrow> string \<Rightarrow> string" where
  "hashToken a token = eHash (aeEnv a) token"

section \<open>Failure counters\<close>

text \<open>The Redis keys with their count and the moment they expire; an expired key reads as none.\<close>

type_synonym throttle = "(string \<times> string) \<Rightarrow> (nat \<times> time) option"

definition throttleKey :: "authEnv \<Rightarrow> string \<Rightarrow> string \<Rightarrow> string \<times> string" where
  "throttleKey a scope i = (scope, take 32 (eHash (aeEnv a) (lower i)))"

definition failures :: "authEnv \<Rightarrow> throttle \<Rightarrow> string \<Rightarrow> string \<Rightarrow> nat" where
  "failures a th scope i =
     (case th (throttleKey a scope i) of Some (n, x) \<Rightarrow> if anow a < x then n else 0 | None \<Rightarrow> 0)"

definition assertNotLocked :: "authEnv \<Rightarrow> throttle \<Rightarrow> string \<Rightarrow> string \<Rightarrow> nat \<Rightarrow> unit res" where
  "assertNotLocked a th scope i limit =
     (if failures a th scope i \<ge> limit
      then Inl (TooManyRequests ''Too many failed attempts. Try again later.'') else Inr ())"

definition recordFailure :: "authEnv \<Rightarrow> string \<Rightarrow> string \<Rightarrow> nat \<Rightarrow> throttle \<Rightarrow> throttle" where
  "recordFailure a scope i windowSeconds th =
     (let n = failures a th scope i + 1;
          expires = (if n = 1 then anow a + int windowSeconds * 1000
                     else case th (throttleKey a scope i) of Some (_, x) \<Rightarrow> x | None \<Rightarrow> 0)
      in th(throttleKey a scope i \<mapsto> (n, expires)))"

definition clearFailures :: "authEnv \<Rightarrow> string \<Rightarrow> string \<Rightarrow> throttle \<Rightarrow> throttle" where
  "clearFailures a scope i th = th(throttleKey a scope i := None)"

definition LOGIN_FAILURE_LIMIT :: nat where "LOGIN_FAILURE_LIMIT = 10"
definition LOGIN_FAILURE_WINDOW_S :: nat where "LOGIN_FAILURE_WINDOW_S = 15 * 60"
definition TOTP_FAILURE_LIMIT :: nat where "TOTP_FAILURE_LIMIT = 5"
definition TOTP_FAILURE_WINDOW_S :: nat where "TOTP_FAILURE_WINDOW_S = 5 * 60"

definition DUMMY_PASSWORD_HASH :: string where
  "DUMMY_PASSWORD_HASH = ''$2b$12$p2DpIBcB07LAoM78GkFfPu9kLwH2ipedPV7wrqp7qJF2uayJ0Gz5G''"

section \<open>Issuing tokens\<close>

record AuthResult =
  arUser :: "user option" \<comment> \<open>without its secrets\<close>
  arAccessToken :: string
  arRefreshToken :: string
  arMobileRefreshToken :: "string option"

definition sanitizeUser :: "user \<Rightarrow> user" where
  "sanitizeUser u = u\<lparr>uPasswordHash := [], uTotpSecret := None\<rparr>"

definition jwtPayload :: "user \<Rightarrow> uuid option \<Rightarrow> TenantMemberRole option \<Rightarrow> JwtPayload" where
  "jwtPayload u tenantId role = \<lparr>jpSub = uId u, jpEmail = uEmail u, jpGlobalRole = uGlobalRole u,
     jpTenantId = tenantId, jpTenantRole = role, jpImpersonatedBy = None, jpPurpose = None\<rparr>"

definition signAccessToken :: "authEnv \<Rightarrow> user \<Rightarrow> uuid option \<Rightarrow> TenantMemberRole option \<Rightarrow> string" where
  "signAccessToken a u tenantId role = aeSignAccess a (jwtPayload u tenantId role) (anow a div 1000)"

text \<open>The ids and random values of one request are numbered; \<open>randomUUID\<close> for \<open>jwtid\<close> is token 0.\<close>

definition issueTokenPair ::
    "authEnv \<Rightarrow> user \<Rightarrow> uuid option \<Rightarrow> TenantMemberRole option \<Rightarrow> accounts \<Rightarrow> accounts \<times> string \<times> string" where
  "issueTokenPair a u tenantId role st =
     (let refreshToken = aeSignRefresh a (jwtPayload u tenantId role) (eToken (aeEnv a) 0) (anow a div 1000);
          row = \<lparr>snId = eFresh (aeEnv a) 4, snOwner = uId u, snTokenHash = hashToken a refreshToken,
                 snExpiresAt = aeExp a refreshToken * 1000, snRevokedAt = None\<rparr>
      in (st\<lparr>acSessions := acSessions st @ [row]\<rparr>, signAccessToken a u tenantId role, refreshToken))"

definition liveMobile :: "mobileSession \<Rightarrow> bool" where
  "liveMobile m = (msRevokedAt m = None)"

definition createMobileRefreshToken ::
    "authEnv \<Rightarrow> uuid \<Rightarrow> string \<Rightarrow> uuid \<Rightarrow> uuid option \<Rightarrow> TenantMemberRole option \<Rightarrow> accounts \<Rightarrow> accounts \<times> string" where
  "createMobileRefreshToken a userId deviceId familyId tenantId role st =
     (let rawToken = eToken (aeEnv a) 1;
          row = \<lparr>msId = eFresh (aeEnv a) 6, msOwner = userId, msFamilyId = familyId, msDeviceId = deviceId,
                 msTokenHash = hashToken a rawToken, msTenantId = tenantId, msTenantRole = role,
                 msExpiresAt = anow a + int (aeStaffTtlDays a) * 24 * 60 * 60 * 1000, msRevokedAt = None\<rparr>
      in (st\<lparr>acMobile := acMobile st @ [row]\<rparr>, rawToken))"

definition issueFreshMobileRefreshToken ::
    "authEnv \<Rightarrow> uuid \<Rightarrow> string \<Rightarrow> uuid option \<Rightarrow> TenantMemberRole option \<Rightarrow> accounts \<Rightarrow> accounts \<times> string" where
  "issueFreshMobileRefreshToken a userId deviceId tenantId role st =
     createMobileRefreshToken a userId deviceId (eFresh (aeEnv a) 5) tenantId role
       (st\<lparr>acMobile := updateMany (\<lambda>m. msOwner m = userId \<and> msDeviceId m = deviceId \<and> liveMobile m)
             (\<lambda>m. m\<lparr>msRevokedAt := Some (anow a)\<rparr>) (acMobile st)\<rparr>)"

text \<open>Both kinds of token, the mobile one only for a request that names its device.\<close>

definition issueSession ::
    "authEnv \<Rightarrow> user \<Rightarrow> uuid option \<Rightarrow> TenantMemberRole option \<Rightarrow> string option \<Rightarrow> accounts \<Rightarrow> accounts \<times> AuthResult" where
  "issueSession a u tenantId role deviceId st =
     (let (st1, access, refresh) = issueTokenPair a u tenantId role st;
          (st2, mobile) = (if truthy deviceId
              then let (st2, raw) = issueFreshMobileRefreshToken a (uId u) (the deviceId) tenantId role st1
                   in (st2, Some raw)
              else (st1, None))
      in (st2, \<lparr>arUser = Some (sanitizeUser u), arAccessToken = access, arRefreshToken = refresh,
                arMobileRefreshToken = mobile\<rparr>))"

section \<open>Registration and login\<close>

record RegisterDto =
  rgEmail :: string
  rgPassword :: string
  rgName :: string
  rgStoreName :: string
  rgStoreSlug :: string
  rgDeviceId :: "string option"

text \<open>A store with the defaults of its columns.\<close>

definition trustBadge :: "string \<Rightarrow> json" where
  "trustBadge label = JObj [(''enabled'', JBool True), (''text'', JStr label)]"

definition defaultPage :: storePage where
  "defaultPage = \<lparr>pgTagline = None, pgAbout = None, pgTermsOfSaleContent = None, pgShippingPolicyContent = None,
     pgReturnPolicyContent = None, pgPrivacyPolicyContent = None, pgLogoUrl = None, pgInvoiceLogoUrl = None,
     pgBannerUrl = None, pgTheme = ''default'', pgSocialLinks = JObj [],
     pgTrustBadges = JObj [(''shipping'', trustBadge (''Env'' @ [CHR 0xC3, CHR 0xAD] @ ''o gratis'')),
       (''payment'', trustBadge ''Pago seguro''), (''delivery'', trustBadge (''Entrega r'' @ [CHR 0xC3, CHR 0xA1] @ ''pida''))],
     pgSettings = JObj []\<rparr>"


definition newTenant :: "uuid \<Rightarrow> uuid \<Rightarrow> string \<Rightarrow> string \<Rightarrow> time \<Rightarrow> tenant" where
  "newTenant i ownerId name slug now =
     \<lparr>tId = i, tOwnerId = ownerId, tName = name, tSlug = slug, tSubdomain = None, tCustomDomain = None,
      tCurrency = ''USD'', tCurrencySymbol = ''$'', tCurrencySymbolPosition = ''pre'', tLocale = ''en'',
      tTimezone = ''UTC'', tTracksInventory = False, tCatalogType = PHYSICAL, tWhatsappEnabled = False,
      tWhatsappNumber = None, tTelegramEnabled = False, tTelegramBotToken = None, tTelegramChatId = None,
      tOrderMessageTemplate = [],
      tItemLineTemplate = ''{sku} : {quantity} x {product_name} - {variant_name} + {item_tax} = {item_total}'',
      tStatus = TenantStatus.ACTIVE, tIsActive = True, tLimitsOverride = None, tDeletedAt = None, tCreatedAt = now,
      tPage = defaultPage, tSmtp = \<lparr>smEnabled = False, smHost = None, smPort = None, smUser = None,
        smPassword = None, smFrom = None\<rparr>, tAdminMetadata = JObj [], tCommissionRate = None\<rparr>"

definition newMember :: "uuid \<Rightarrow> uuid \<Rightarrow> uuid \<Rightarrow> TenantMemberRole \<Rightarrow> string list \<Rightarrow> time \<Rightarrow> tenantMember" where
  "newMember i tenantId userId role permissions now =
     \<lparr>tmId = i, tmTenantId = tenantId, tmUserId = userId, tmRole = role, tmPermissions = permissions,
      tmIsActive = True, tmCreatedAt = now\<rparr>"

definition newUser :: "uuid \<Rightarrow> string \<Rightarrow> string \<Rightarrow> string \<Rightarrow> user" where
  "newUser i email passwordHash name =
     \<lparr>uId = i, uEmail = email, uPasswordHash = passwordHash, uName = name, uGlobalRole = USER,
      uTwoFactorEnabled = False, uTotpSecret = None, uIsActive = True\<rparr>"

definition register :: "authEnv \<Rightarrow> accounts \<Rightarrow> RegisterDto \<Rightarrow> (accounts \<times> tenant \<times> AuthResult) res" where
  "register a st dto =
     (let s = acDb st; e = aeEnv a in
      if rowOf uEmail (rgEmail dto) (users s) \<noteq> None then Inl (Conflict ''Email already registered'')
      else if rowOf tSlug (rgStoreSlug dto) (tenants s) \<noteq> None then Inl (Conflict ''Store slug already taken'')
      else
        let u = newUser (eFresh e 0) (rgEmail dto) (aeBcrypt a (rgPassword dto)) (rgName dto);
            t = newTenant (eFresh e 1) (uId u) (rgStoreName dto) (rgStoreSlug dto) (anow a);
            m = newMember (eFresh e 2) (tId t) (uId u) OWNER [] (anow a);
            subs = (case firstBy plIsActive plPrice (plans s) of
                None \<Rightarrow> [] | Some p \<Rightarrow> [newSubscription (eFresh e 3) (tId t) (plId p) None (anow a)]);
            s' = s\<lparr>users := users s @ [u], tenants := tenants s @ [t], members := members s @ [m],
                   subscriptions := subscriptions s @ subs\<rparr>;
            (st', result) = issueSession a u (Some (tId t)) (Some OWNER) (rgDeviceId dto) (st\<lparr>acDb := s'\<rparr>)
        in Inr (st', t, result))"

definition completeLogin :: "authEnv \<Rightarrow> accounts \<Rightarrow> uuid \<Rightarrow> string option \<Rightarrow> (accounts \<times> AuthResult) res" where
  "completeLogin a st userId deviceId =
     (case rowOf uId userId (users (acDb st)) of
        None \<Rightarrow> Inl RecordNotFound
      | Some u \<Rightarrow>
          let membership = firstBy (\<lambda>m. tmUserId m = userId \<and> tmIsActive m) tmCreatedAt (members (acDb st))
          in Inr (issueSession a u (map_option tmTenantId membership) (map_option tmRole membership) deviceId st))"

record LoginDto =
  lgEmail :: string
  lgPassword :: string
  lgDeviceId :: "string option"

datatype LoginResult =
    LoggedIn AuthResult
  | RequiresTwoFactor string

definition login ::
    "authEnv \<Rightarrow> throttle \<Rightarrow> accounts \<Rightarrow> LoginDto \<Rightarrow> throttle \<times> (accounts \<times> LoginResult) res" where
  "login a th st dto =
     (case assertNotLocked a th ''login'' (lgEmail dto) LOGIN_FAILURE_LIMIT of
        Inl x \<Rightarrow> (th, Inl x)
      | Inr _ \<Rightarrow>
          let found = rowOf uEmail (lgEmail dto) (users (acDb st));
              valid = aeCompare a (lgPassword dto)
                (case found of Some u \<Rightarrow> uPasswordHash u | None \<Rightarrow> DUMMY_PASSWORD_HASH);
              refused = (recordFailure a ''login'' (lgEmail dto) LOGIN_FAILURE_WINDOW_S th,
                         Inl (Unauthorized ''Invalid credentials''))
          in case found of
               None \<Rightarrow> refused
             | Some u \<Rightarrow>
                 if \<not> uIsActive u \<or> \<not> valid then refused
                 else (clearFailures a ''login'' (lgEmail dto) th,
                       if uTwoFactorEnabled u
                       then Inr (st, RequiresTwoFactor (aeSignChallenge a (uId u) (anow a div 1000)))
                       else map_sum id (\<lambda>(st', r). (st', LoggedIn r)) (completeLogin a st (uId u) (lgDeviceId dto))))"

definition verifyTwoFactor ::
    "authEnv \<Rightarrow> throttle \<Rightarrow> accounts \<Rightarrow> string \<Rightarrow> string \<Rightarrow> string option \<Rightarrow> throttle \<times> (accounts \<times> AuthResult) res" where
  "verifyTwoFactor a th st challengeToken code deviceId =
     (case aeVerifyChallenge a challengeToken of
        None \<Rightarrow> (th, Inl (Unauthorized ''Challenge expired, please log in again''))
      | Some (sub, purpose) \<Rightarrow>
          if purpose \<noteq> ''2fa'' then (th, Inl (Unauthorized ''Invalid challenge token''))
          else case assertNotLocked a th ''2fa'' sub TOTP_FAILURE_LIMIT of
            Inl x \<Rightarrow> (th, Inl x)
          | Inr _ \<Rightarrow>
              (case rowOf uId sub (users (acDb st)) of
                 None \<Rightarrow> (th, Inl (Unauthorized ''2FA not configured''))
               | Some u \<Rightarrow>
                   if \<not> truthy (uTotpSecret u) then (th, Inl (Unauthorized ''2FA not configured''))
                   else if \<not> aeTotp a code (the (uTotpSecret u))
                   then (recordFailure a ''2fa'' sub TOTP_FAILURE_WINDOW_S th, Inl (Unauthorized ''Invalid 2FA code''))
                   else (clearFailures a ''2fa'' sub th, completeLogin a st (uId u) deviceId)))"

definition switchTenant ::
    "authEnv \<Rightarrow> accounts \<Rightarrow> uuid \<Rightarrow> uuid \<Rightarrow> string option \<Rightarrow> (accounts \<times> AuthResult) res" where
  "switchTenant a st userId tenantId deviceId =
     (case findFirst (\<lambda>m. tmUserId m = userId \<and> tmTenantId m = tenantId \<and> tmIsActive m) (members (acDb st)) of
        None \<Rightarrow> Inl (Unauthorized ''Not a member of this tenant'')
      | Some m \<Rightarrow>
          (case rowOf uId userId (users (acDb st)) of
             None \<Rightarrow> Inl RecordNotFound
           | Some u \<Rightarrow>
               let (st', r) = issueSession a u (Some tenantId) (Some (tmRole m)) deviceId st
               in Inr (st', r\<lparr>arUser := None\<rparr>)))"

section \<open>Refreshing\<close>

record MobileRefreshDto =
  mrRefreshToken :: string
  mrDeviceId :: string

datatype MobileRefreshResult =
    MobileRefreshOk string string \<comment> \<open>access token, refresh token\<close>
  | MobileRefreshFailed

definition revokeMobile :: "time \<Rightarrow> (mobileSession \<Rightarrow> bool) \<Rightarrow> mobileSession list \<Rightarrow> mobileSession list" where
  "revokeMobile now P t = updateMany P (\<lambda>m. m\<lparr>msRevokedAt := Some now\<rparr>) t"

text \<open>
  A rotation is two phases of separate statements: what it decides from the token and the account it
  read, and what it then writes, by the id of that token and whatever has happened to it since. A failure is a
  result, not an exception, so that what it wrote is kept. \<open>mobileRefresh\<close> is both phases with nothing in between.
\<close>

datatype 'acc RefreshDecision =
    RefuseToken \<comment> \<open>no such token, or past its expiry\<close>
  | EndFamily mobileSession \<comment> \<open>revoked before, or from another device\<close>
  | EndToken mobileSession \<comment> \<open>its account is gone or inactive\<close>
  | RotateToken mobileSession 'acc

definition mobileRefreshRead :: "authEnv \<Rightarrow> accounts \<Rightarrow> MobileRefreshDto \<Rightarrow> user RefreshDecision" where
  "mobileRefreshRead a st dto =
     (case findFirst (\<lambda>m. msTokenHash m = hashToken a (mrRefreshToken dto)) (acMobile st) of
        None \<Rightarrow> RefuseToken
      | Some stored \<Rightarrow>
          if msRevokedAt stored \<noteq> None \<or> msDeviceId stored \<noteq> mrDeviceId dto then EndFamily stored
          else if msExpiresAt stored < anow a then RefuseToken
          else case rowOf uId (msOwner stored) (users (acDb st)) of
            None \<Rightarrow> EndToken stored
          | Some u \<Rightarrow> if \<not> uIsActive u then EndToken stored else RotateToken stored u)"

definition ofFamily :: "mobileSession \<Rightarrow> mobileSession \<Rightarrow> bool" where
  "ofFamily stored m = (msFamilyId m = msFamilyId stored \<and> liveMobile m)"

definition mobileRefreshWrite :: "authEnv \<Rightarrow> user RefreshDecision \<Rightarrow> accounts \<Rightarrow> accounts \<times> MobileRefreshResult" where
  "mobileRefreshWrite a d st =
     (let revoke = (\<lambda>P s. s\<lparr>acMobile := revokeMobile (anow a) P (acMobile s)\<rparr>)
      in case d of
           RefuseToken \<Rightarrow> (st, MobileRefreshFailed)
         | EndFamily stored \<Rightarrow> (revoke (ofFamily stored) st, MobileRefreshFailed)
         | EndToken stored \<Rightarrow> (revoke (\<lambda>m. msId m = msId stored) st, MobileRefreshFailed)
         | RotateToken stored u \<Rightarrow>
             let st1 = revoke (\<lambda>m. msId m = msId stored) st;
                 membership = findFirst (\<lambda>m. tmUserId m = msOwner stored
                   \<and> Some (tmTenantId m) = msTenantId stored \<and> tmIsActive m) (members (acDb st1))
             in if truthy (msTenantId stored) \<and> membership = None
                then (revoke (ofFamily stored) st1, MobileRefreshFailed)
                else
                  let role = (if truthy (msTenantId stored) then map_option tmRole membership
                              else msTenantRole stored);
                      (st2, refreshToken) = createMobileRefreshToken a (msOwner stored)
                        (msDeviceId stored) (msFamilyId stored) (msTenantId stored) role st1
                  in (st2, MobileRefreshOk (signAccessToken a u (msTenantId stored) role) refreshToken))"

definition mobileRefresh :: "authEnv \<Rightarrow> accounts \<Rightarrow> MobileRefreshDto \<Rightarrow> accounts \<times> MobileRefreshResult" where
  "mobileRefresh a st dto = mobileRefreshWrite a (mobileRefreshRead a st dto) st"

definition revokeSessions :: "time \<Rightarrow> (session \<Rightarrow> bool) \<Rightarrow> session list \<Rightarrow> session list" where
  "revokeSessions now P t = updateMany (\<lambda>r. P r \<and> snRevokedAt r = None) (\<lambda>r. r\<lparr>snRevokedAt := Some now\<rparr>) t"

definition noLongerValid :: error where
  "noLongerValid = Unauthorized ''Refresh token no longer valid''"

text \<open>
  The state is what the statements left: a failure after the token was revoked keeps the revocation,
  unless the request runs in a transaction of its store, which the exception then undoes.
\<close>

definition refresh :: "authEnv \<Rightarrow> accounts \<Rightarrow> string \<Rightarrow> accounts \<times> (string \<times> string) res" where
  "refresh a st raw =
     (case aeVerifyRefresh a raw of
        None \<Rightarrow> (st, Inl (Unauthorized ''Invalid or expired refresh token''))
      | Some payload \<Rightarrow>
          (case findFirst (\<lambda>r. snOwner r = jpSub payload \<and> snTokenHash r = hashToken a raw
                 \<and> snRevokedAt r = None) (acSessions st) of
             None \<Rightarrow> (st, Inl noLongerValid)
           | Some stored \<Rightarrow>
               if snExpiresAt stored < anow a then (st, Inl noLongerValid)
               else
                 let st1 = st\<lparr>acSessions := updateRow snId (snId stored)
                       (\<lambda>r. r\<lparr>snRevokedAt := Some (anow a)\<rparr>) (acSessions st)\<rparr>;
                     issue = (\<lambda>u role. case issueTokenPair a u (jpTenantId payload) role st1 of (st2, pair) \<Rightarrow> (st2, Inr pair))
                 in case rowOf uId (jpSub payload) (users (acDb st1)) of
                      None \<Rightarrow> (st1, Inl noLongerValid)
                    | Some u \<Rightarrow>
                        if \<not> uIsActive u then (st1, Inl noLongerValid)
                        else if truthy (jpTenantId payload) then
                          (case findFirst (\<lambda>m. tmUserId m = uId u \<and> Some (tmTenantId m) = jpTenantId payload
                                 \<and> tmIsActive m) (members (acDb st1)) of
                             None \<Rightarrow> (st1, Inl noLongerValid)
                           | Some m \<Rightarrow> issue u (Some (tmRole m)))
                        else issue u (jpTenantRole payload)))"

definition logout :: "authEnv \<Rightarrow> accounts \<Rightarrow> uuid \<Rightarrow> string option \<Rightarrow> accounts" where
  "logout a st userId raw =
     (if truthy raw
      then st\<lparr>acSessions := revokeSessions (anow a)
             (\<lambda>r. snOwner r = userId \<and> snTokenHash r = hashToken a (the raw)) (acSessions st)\<rparr>
      else st)"

definition getProfile :: "accounts \<Rightarrow> uuid \<Rightarrow> user res" where
  "getProfile st userId = (case rowOf uId userId (users (acDb st)) of
     None \<Rightarrow> Inl RecordNotFound | Some u \<Rightarrow> Inr (sanitizeUser u))"

section \<open>The second factor\<close>

definition updateUser :: "uuid \<Rightarrow> (user \<Rightarrow> user) \<Rightarrow> accounts \<Rightarrow> accounts" where
  "updateUser userId f st = st\<lparr>acDb := (acDb st)\<lparr>users := updateRow uId userId f (users (acDb st))\<rparr>\<rparr>"

text \<open>The new secret is returned (the QR image is drawn from it by a library).\<close>

definition setupTwoFactor :: "authEnv \<Rightarrow> accounts \<Rightarrow> uuid \<Rightarrow> (accounts \<times> string) res" where
  "setupTwoFactor a st userId =
     (case rowOf uId userId (users (acDb st)) of
        None \<Rightarrow> Inl RecordNotFound
      | Some u \<Rightarrow>
          if uTwoFactorEnabled u then Inl (BadRequest ''2FA is already enabled; disable it first'')
          else Inr (updateUser userId (\<lambda>u. u\<lparr>uTotpSecret := Some (aeNewSecret a)\<rparr>) st, aeNewSecret a))"

definition revokeOtherSessions :: "authEnv \<Rightarrow> uuid \<Rightarrow> string option \<Rightarrow> accounts \<Rightarrow> accounts" where
  "revokeOtherSessions a userId keep st =
     st\<lparr>acSessions := revokeSessions (anow a)
          (\<lambda>r. snOwner r = userId \<and> \<not> (truthy keep \<and> snTokenHash r = hashToken a (the keep))) (acSessions st),
        acMobile := revokeMobile (anow a) (\<lambda>m. msOwner m = userId \<and> liveMobile m) (acMobile st)\<rparr>"

definition enableTwoFactor ::
    "authEnv \<Rightarrow> throttle \<Rightarrow> accounts \<Rightarrow> uuid \<Rightarrow> string \<Rightarrow> string option \<Rightarrow> throttle \<times> accounts res" where
  "enableTwoFactor a th st userId code keep =
     (case assertNotLocked a th ''2fa-manage'' userId TOTP_FAILURE_LIMIT of
        Inl x \<Rightarrow> (th, Inl x)
      | Inr _ \<Rightarrow>
          (case rowOf uId userId (users (acDb st)) of
             None \<Rightarrow> (th, Inl RecordNotFound)
           | Some u \<Rightarrow>
               if \<not> truthy (uTotpSecret u) then (th, Inl (BadRequest ''Call /auth/2fa/setup first''))
               else if \<not> aeTotp a code (the (uTotpSecret u))
               then (recordFailure a ''2fa-manage'' userId TOTP_FAILURE_WINDOW_S th, Inl (BadRequest ''Invalid 2FA code''))
               else (clearFailures a ''2fa-manage'' userId th,
                     Inr (revokeOtherSessions a userId keep
                       (updateUser userId (\<lambda>u. u\<lparr>uTwoFactorEnabled := True\<rparr>) st)))))"

definition disableTwoFactor ::
    "authEnv \<Rightarrow> throttle \<Rightarrow> accounts \<Rightarrow> uuid \<Rightarrow> string \<Rightarrow> string option \<Rightarrow> throttle \<times> accounts res" where
  "disableTwoFactor a th st userId code keep =
     (case assertNotLocked a th ''2fa-manage'' userId TOTP_FAILURE_LIMIT of
        Inl x \<Rightarrow> (th, Inl x)
      | Inr _ \<Rightarrow>
          (case rowOf uId userId (users (acDb st)) of
             None \<Rightarrow> (th, Inl RecordNotFound)
           | Some u \<Rightarrow>
               if uTwoFactorEnabled u
                   \<and> (\<not> truthy (uTotpSecret u) \<or> \<not> aeTotp a code (the (uTotpSecret u)))
               then (recordFailure a ''2fa-manage'' userId TOTP_FAILURE_WINDOW_S th, Inl (BadRequest ''Invalid 2FA code''))
               else (clearFailures a ''2fa-manage'' userId th,
                     Inr (revokeOtherSessions a userId keep
                       (updateUser userId (\<lambda>u. u\<lparr>uTwoFactorEnabled := False, uTotpSecret := None\<rparr>) st)))))"

section \<open>Password reset\<close>

definition PASSWORD_RESET_TOKEN_TTL_MS :: int where
  "PASSWORD_RESET_TOKEN_TTL_MS = 60 * 60 * 1000"

definition voidResets :: "time \<Rightarrow> (resetToken \<Rightarrow> bool) \<Rightarrow> resetToken list \<Rightarrow> resetToken list" where
  "voidResets now P t = updateMany (\<lambda>r. P r \<and> rkUsedAt r = None) (\<lambda>r. r\<lparr>rkUsedAt := Some now\<rparr>) t"

definition issuePasswordResetToken :: "authEnv \<Rightarrow> uuid \<Rightarrow> int \<Rightarrow> accounts \<Rightarrow> accounts \<times> string" where
  "issuePasswordResetToken a userId ttlMs st =
     (let raw = eToken (aeEnv a) 2;
          row = \<lparr>rkId = eFresh (aeEnv a) 7, rkOwner = userId, rkTokenHash = hashToken a raw,
                 rkExpiresAt = anow a + ttlMs, rkUsedAt = None\<rparr>
      in (st\<lparr>acResets := voidResets (anow a) (\<lambda>r. rkOwner r = userId) (acResets st) @ [row]\<rparr>, raw))"

definition emitAccounts :: "effect \<Rightarrow> accounts \<Rightarrow> accounts" where
  "emitAccounts x st = st\<lparr>acDb := emit x (acDb st)\<rparr>"

text \<open>The e-mail of a reset link, sent in the name of a store (through the platform's own server).\<close>

definition resetEmail :: "authEnv \<Rightarrow> tenant \<Rightarrow> user \<Rightarrow> string \<Rightarrow> effect" where
  "resetEmail a t u raw = EmailJob ''password-reset'' (Some (tId t)) (tLocale t) (uEmail u)
     [(''name'', uName u), (''store_name'', tName t),
      (''reset_link'', staffPasswordLink (ePublicWebUrl (aeEnv a)) raw)] True"

definition forgotPassword :: "authEnv \<Rightarrow> accounts \<Rightarrow> string \<Rightarrow> accounts res" where
  "forgotPassword a st email =
     (case rowOf uEmail email (users (acDb st)) of
        None \<Rightarrow> Inr st
      | Some u \<Rightarrow>
          if \<not> uIsActive u then Inr st
          else case firstBy (\<lambda>m. tmUserId m = uId u) tmCreatedAt (members (acDb st)) of
            None \<Rightarrow> Inr st
          | Some m \<Rightarrow>
              (case rowOf tId (tmTenantId m) (tenants (acDb st)) of
                 None \<Rightarrow> Inl RecordNotFound
               | Some t \<Rightarrow>
                   let (st', raw) = issuePasswordResetToken a (uId u) PASSWORD_RESET_TOKEN_TTL_MS st
                   in Inr (emitAccounts (resetEmail a t u raw) st')))"

definition badLink :: error where
  "badLink = Unauthorized ''Reset link is invalid or expired''"

text \<open>
  The claim of the link is conditional; a request that lost the race would find no row to claim.
\<close>

definition resetPassword :: "authEnv \<Rightarrow> accounts \<Rightarrow> string \<Rightarrow> string \<Rightarrow> accounts res" where
  "resetPassword a st token password =
     (case findFirst (\<lambda>r. rkTokenHash r = hashToken a token \<and> rkUsedAt r = None) (acResets st) of
        None \<Rightarrow> Inl badLink
      | Some link \<Rightarrow>
          if rkExpiresAt link < anow a then Inl badLink
          else if countRows (\<lambda>r. rkId r = rkId link \<and> rkUsedAt r = None) (acResets st) = 0 then Inl badLink
          else
            let now = anow a;
                resets = voidResets now (\<lambda>r. rkOwner r = rkOwner link)
                  (voidResets now (\<lambda>r. rkId r = rkId link) (acResets st));
                st1 = updateUser (rkOwner link) (\<lambda>u. u\<lparr>uPasswordHash := aeBcrypt a password\<rparr>)
                  (st\<lparr>acResets := resets\<rparr>)
            in if rowOf uId (rkOwner link) (users (acDb st)) = None then Inl RecordNotFound
               else Inr (st1\<lparr>
                 acSessions := revokeSessions now (\<lambda>r. snOwner r = rkOwner link) (acSessions st1),
                 acMobile := revokeMobile now (\<lambda>m. msOwner m = rkOwner link \<and> liveMobile m) (acMobile st1)\<rparr>))"

end
