(* ===== verification/Vault.thy ===== *)
theory Vault
  imports Text
begin

text \<open>
  How secrets are kept in the database (\<open>common/utils/crypto.util.ts\<close>): the payload is the initialisation
  vector, the tag and the ciphertext, one after the other, in base 64. Buffers are lists of characters,
  read as bytes; texts are their UTF-8 bytes. The cipher itself (AES-256-GCM) and the derivation of its key
  (scrypt) are the parameter \<open>cipher\<close>, with the law the cipher documents (\<open>cipherOk\<close>).
\<close>

section \<open>Base 64\<close>

definition b64Char :: "nat \<Rightarrow> char" where
  "b64Char n = (if n < 26 then char_of (65 + n) else if n < 52 then char_of (71 + n)
     else if n < 62 then char_of (n - 4) else if n = 62 then CHR ''+'' else CHR ''/'')"

fun toBase64 :: "string \<Rightarrow> string" where
  "toBase64 [] = []"
| "toBase64 [a] = [b64Char (of_char a div 4), b64Char (of_char a mod 4 * 16), CHR ''='', CHR ''='']"
| "toBase64 [a, b] = [b64Char (of_char a div 4), b64Char (of_char a mod 4 * 16 + of_char b div 16),
     b64Char (of_char b mod 16 * 4), CHR ''='']"
| "toBase64 (a # b # c # r) = b64Char (of_char a div 4) # b64Char (of_char a mod 4 * 16 + of_char b div 16)
     # b64Char (of_char b mod 16 * 4 + of_char c div 64) # b64Char (of_char c mod 64) # toBase64 r"

text \<open>The decoder takes both alphabets, passes over anything else and stops at the padding.\<close>

definition b64Value :: "char \<Rightarrow> nat option" where
  "b64Value c = (let n = of_char c :: nat in
     if 65 \<le> n \<and> n \<le> 90 then Some (n - 65) else if 97 \<le> n \<and> n \<le> 122 then Some (n - 71)
     else if 48 \<le> n \<and> n \<le> 57 then Some (n + 4) else if c = CHR ''+'' \<or> c = CHR ''-'' then Some 62
     else if c = CHR ''/'' \<or> c = CHR ''_'' then Some 63 else None)"

fun packed :: "nat list \<Rightarrow> string" where
  "packed (a # b # c # d # r) = char_of (a * 4 + b div 16) # char_of (b mod 16 * 16 + c div 4)
     # char_of (c mod 4 * 64 + d) # packed r"
| "packed [a, b, c] = [char_of (a * 4 + b div 16), char_of (b mod 16 * 16 + c div 4)]"
| "packed [a, b] = [char_of (a * 4 + b div 16)]"
| "packed _ = []"

definition fromBase64 :: "string \<Rightarrow> string" where
  "fromBase64 s = packed (List.map_filter b64Value (takeWhile (\<lambda>c. c \<noteq> CHR ''='') s))"

section \<open>Secrets at rest\<close>

record cipher =
  ciKey :: "string \<Rightarrow> string" \<comment> \<open>\<open>scryptSync(secret, salt, 32)\<close>\<close>
  ciSeal :: "string \<Rightarrow> string \<Rightarrow> string \<Rightarrow> string \<times> string" \<comment> \<open>key, vector, text: ciphertext and tag\<close>
  ciOpen :: "string \<Rightarrow> string \<Rightarrow> string \<Rightarrow> string \<Rightarrow> string option"
    \<comment> \<open>key, vector, tag, ciphertext: the text, nothing when \<open>final\<close> throws\<close>

definition encryptSecret :: "cipher \<Rightarrow> string \<Rightarrow> string \<Rightarrow> string \<Rightarrow> string" where
  "encryptSecret ci secret iv plainText =
     (case ciSeal ci (ciKey ci secret) iv plainText of (encrypted, authTag) \<Rightarrow> toBase64 (iv @ authTag @ encrypted))"

definition decryptSecret :: "cipher \<Rightarrow> string \<Rightarrow> string \<Rightarrow> string option" where
  "decryptSecret ci secret payload =
     (let buffer = fromBase64 payload; iv = take 12 buffer; authTag = take 16 (drop 12 buffer); encrypted = drop 28 buffer
      in ciOpen ci (ciKey ci secret) iv authTag encrypted)"

definition decryptSecretOrPlain :: "cipher \<Rightarrow> string \<Rightarrow> string \<Rightarrow> string" where
  "decryptSecretOrPlain ci secret payload = (case decryptSecret ci secret payload of Some t \<Rightarrow> t | None \<Rightarrow> payload)"

text \<open>Authenticated encryption: a tag of sixteen bytes, and what was sealed opens under the same key and vector.\<close>

definition cipherOk :: "cipher \<Rightarrow> bool" where
  "cipherOk ci = (\<forall>k iv t. case ciSeal ci k iv t of (encrypted, authTag) \<Rightarrow>
     length authTag = 16 \<and> ciOpen ci k iv authTag encrypted = Some t)"

section \<open>Round trips\<close>

lemma of_char_less: "(of_char c :: nat) < 256"
proof -
  have "(of_char c :: nat) mod 256 = of_char c" by simp
  then show ?thesis by (metis mod_less_divisor zero_less_numeral)
qed

lemma b64Value_b64Char [simp]: "n < 64 \<Longrightarrow> b64Value (b64Char n) = Some n"
proof -
  assume n: "n < 64"
  consider "n < 26" | "26 \<le> n" "n < 52" | "52 \<le> n" "n < 62" | "n = 62" | "n = 63" using n by linarith
  then show "b64Value (b64Char n) = Some n"
    by cases (auto simp: b64Value_def b64Char_def of_char_of Let_def)
qed

lemma b64Char_padding [simp]: "n < 64 \<Longrightarrow> b64Char n \<noteq> CHR ''=''"
  using b64Value_b64Char [of n] by (auto simp: b64Value_def)

lemma six_bits [simp]:
  "(of_char a :: nat) div 4 < 64" "x mod 4 * 16 < (64 :: nat)" "x mod 4 * 16 + (of_char b :: nat) div 16 < 64"
  "x mod 16 * 4 < (64 :: nat)" "x mod 16 * 4 + (of_char c :: nat) div 64 < 64" "x mod 64 < (64 :: nat)"
proof -
  have m: "x mod 4 < 4" "x mod 16 < 16" "x mod 64 < 64" by simp_all
  have d: "(of_char a :: nat) div 4 < 64" "(of_char b :: nat) div 16 < 16" "(of_char c :: nat) div 64 < 4"
    using of_char_less [of a] of_char_less [of b] of_char_less [of c] by (simp_all add: less_mult_imp_div_less)
  show "(of_char a :: nat) div 4 < 64" "x mod 4 * 16 < (64 :: nat)" "x mod 4 * 16 + (of_char b :: nat) div 16 < 64"
    "x mod 16 * 4 < (64 :: nat)" "x mod 16 * 4 + (of_char c :: nat) div 64 < 64" "x mod 64 < (64 :: nat)"
    using m d by linarith+
qed

lemma byte_parts:
  "(of_char b :: nat) div 16 div 16 = 0" "(of_char c :: nat) div 64 div 4 = 0"
  "(of_char b :: nat) div 16 mod 16 * 16 + of_char b mod 16 = of_char b"
  "(of_char c :: nat) div 64 mod 4 * 64 + of_char c mod 64 = of_char c"
proof -
  have d: "(of_char b :: nat) div 16 < 16" "(of_char c :: nat) div 64 < 4"
    using of_char_less [of b] of_char_less [of c] by (simp_all add: less_mult_imp_div_less)
  then show "(of_char b :: nat) div 16 div 16 = 0" "(of_char c :: nat) div 64 div 4 = 0" by simp_all
  show "(of_char b :: nat) div 16 mod 16 * 16 + of_char b mod 16 = of_char b"
    "(of_char c :: nat) div 64 mod 4 * 64 + of_char c mod 64 = of_char c"
    using d by simp_all
qed

lemma map_filter_some: "f x = Some y \<Longrightarrow> List.map_filter f (x # xs) = y # List.map_filter f xs"
  by (simp add: List.map_filter_def)

lemma map_filter_nil: "List.map_filter f [] = []"
  by (simp add: List.map_filter_def)

lemma fromBase64_toBase64: "fromBase64 (toBase64 s) = s"
  by (induction s rule: toBase64.induct)
    (simp_all add: fromBase64_def map_filter_some map_filter_nil byte_parts)

lemma toBase64_nil [simp]: "toBase64 s = [] \<longleftrightarrow> s = []"
  by (cases s rule: toBase64.cases) simp_all

lemma decrypt_encrypt:
  assumes "cipherOk ci" "length iv = 12"
  shows "decryptSecret ci secret (encryptSecret ci secret iv t) = Some t" "encryptSecret ci secret iv t \<noteq> []"
proof -
  obtain encrypted authTag where c: "ciSeal ci (ciKey ci secret) iv t = (encrypted, authTag)" by fastforce
  then have "length authTag = 16" "ciOpen ci (ciKey ci secret) iv authTag encrypted = Some t"
    using assms(1) [unfolded cipherOk_def, rule_format, of "ciKey ci secret" iv t] by simp_all
  then show "decryptSecret ci secret (encryptSecret ci secret iv t) = Some t" "encryptSecret ci secret iv t \<noteq> []"
    using c assms(2) by (auto simp: decryptSecret_def encryptSecret_def Let_def fromBase64_toBase64)
qed

text \<open>A value stored before its column was encrypted is read as it is, when it does not open.\<close>

lemma decryptSecretOrPlain_encrypted:
  "cipherOk ci \<Longrightarrow> length iv = 12 \<Longrightarrow> decryptSecretOrPlain ci secret (encryptSecret ci secret iv t) = t"
  by (simp add: decryptSecretOrPlain_def decrypt_encrypt)

end
