(* ===== verification/Stores.thy ===== *)
theory Stores
  imports SmtpGuard Orders Accounts Vault
begin

text \<open>
  A store and its settings: \<open>tenants/tenants.service.ts\<close>, with what its own admins may see of it
  (\<open>common/utils/mask-tenant-secrets.util.ts\<close>). The public page of a store and the methods it offers at
  checkout, further stores of an owner, the settings form, payment settings with their encrypted
  credentials, and the mail server read back for the mail queue.
\<close>

section \<open>What the admins of a store see\<close>

text \<open>The columns that are taken out are blank in the view.\<close>

record TenantView =
  tvTenant :: tenant
  tvSmtpPasswordSet :: bool
  tvTelegramBotTokenSet :: bool

definition toTenantSettingsView :: "tenant \<Rightarrow> TenantView" where
  "toTenantSettingsView t =
     \<lparr>tvTenant = t\<lparr>tSmtp := (tSmtp t)\<lparr>smPassword := None\<rparr>, tTelegramBotToken := None, tAdminMetadata := JNull,
                   tCommissionRate := None, tLimitsOverride := None\<rparr>,
      tvSmtpPasswordSet = truthy (smPassword (tSmtp t)), tvTelegramBotTokenSet = truthy (tTelegramBotToken t)\<rparr>"

definition findMine :: "db \<Rightarrow> uuid \<Rightarrow> (TenantView \<times> TenantMemberRole) list" where
  "findMine s userId =
     concat (map (\<lambda>m. case rowOf tId (tmTenantId m) (tenants s) of
         Some t \<Rightarrow> [(toTenantSettingsView t, tmRole m)] | None \<Rightarrow> [])
       (filter (\<lambda>m. tmUserId m = userId \<and> tmIsActive m) (members s)))"

definition findCurrent :: "db \<Rightarrow> uuid \<Rightarrow> TenantView res" where
  "findCurrent s tenantId =
     (case rowOf tId tenantId (tenants s) of
        None \<Rightarrow> Inl (NotFound ''Tenant not found'') | Some t \<Rightarrow> Inr (toTenantSettingsView t))"

section \<open>The public page\<close>

text \<open>The columns of the row that are selected, and what the code computes.\<close>

record Storefront =
  sfId :: uuid
  sfName :: string
  sfSlug :: string
  sfTagline :: "string option"
  sfAbout :: "string option"
  sfLogoUrl :: "string option"
  sfBannerUrl :: "string option"
  sfTheme :: string
  sfTracksInventory :: bool
  sfCatalogType :: CatalogType
  sfCurrency :: string
  sfCurrencySymbol :: string
  sfCurrencySymbolPosition :: string
  sfLocale :: string
  sfSocialLinks :: json
  sfTrustBadges :: json
  sfTermsOfSaleContent :: "string option"
  sfShippingPolicyContent :: "string option"
  sfReturnPolicyContent :: "string option"
  sfPrivacyPolicyContent :: "string option"
  sfWhatsappEnabled :: bool
  sfTelegramEnabled :: bool
  sfZellePaymentInfo :: "credentials option"
  sfCheckoutMethods :: "FulfillmentMethod list"

definition gatewayEnabled :: "db \<Rightarrow> uuid \<Rightarrow> PaymentProvider \<Rightarrow> bool" where
  "gatewayEnabled s tenantId p =
     list_ex (\<lambda>m. pmTenantId m = tenantId \<and> pmIsEnabled m \<and> pmProvider m = p) (paymentSettings s)"

definition findPublicBySlug :: "env \<Rightarrow> db \<Rightarrow> string \<Rightarrow> Storefront res" where
  "findPublicBySlug e s slug =
     (case findFirst (\<lambda>t. tSlug t = slug \<and> tIsActive t) (tenants s) of
        None \<Rightarrow> Inl (NotFound ''Store not found'')
      | Some t \<Rightarrow>
          let zelleCredentials = (case getDecryptedCredentials e s (tId t) PaymentProvider.ZELLE of
                Inr c \<Rightarrow> c | Inl _ \<Rightarrow> None);
              allowed = enFulfillmentMethods (getEntitlements (eNow e) s (tId t));
              whatsapp = tWhatsappEnabled t \<and> FulfillmentMethod.WHATSAPP \<in> set allowed;
              telegram = tTelegramEnabled t \<and> FulfillmentMethod.TELEGRAM \<in> set allowed;
              zelle = (if FulfillmentMethod.ZELLE \<in> set allowed then zelleCredentials else None);
              configured = (\<lambda>m. case m of FulfillmentMethod.WHATSAPP \<Rightarrow> whatsapp | FulfillmentMethod.TELEGRAM \<Rightarrow> telegram
                | FulfillmentMethod.ZELLE \<Rightarrow> zelle \<noteq> None
                | FulfillmentMethod.STRIPE \<Rightarrow> gatewayEnabled s (tId t) PaymentProvider.STRIPE
                | FulfillmentMethod.MERCADOPAGO \<Rightarrow> gatewayEnabled s (tId t) PaymentProvider.MERCADOPAGO
                | FulfillmentMethod.PAYPAL \<Rightarrow> gatewayEnabled s (tId t) PaymentProvider.PAYPAL)
          in Inr \<lparr>sfId = tId t, sfName = tName t, sfSlug = tSlug t, sfTagline = pgTagline (tPage t),
                  sfAbout = pgAbout (tPage t), sfLogoUrl = pgLogoUrl (tPage t), sfBannerUrl = pgBannerUrl (tPage t),
                  sfTheme = pgTheme (tPage t), sfTracksInventory = tTracksInventory t, sfCatalogType = tCatalogType t,
                  sfCurrency = tCurrency t, sfCurrencySymbol = tCurrencySymbol t,
                  sfCurrencySymbolPosition = tCurrencySymbolPosition t, sfLocale = tLocale t,
                  sfSocialLinks = pgSocialLinks (tPage t), sfTrustBadges = pgTrustBadges (tPage t),
                  sfTermsOfSaleContent = pgTermsOfSaleContent (tPage t),
                  sfShippingPolicyContent = pgShippingPolicyContent (tPage t),
                  sfReturnPolicyContent = pgReturnPolicyContent (tPage t),
                  sfPrivacyPolicyContent = pgPrivacyPolicyContent (tPage t), sfWhatsappEnabled = whatsapp, sfTelegramEnabled = telegram,
                  sfZellePaymentInfo = zelle, sfCheckoutMethods = filter configured allowed\<rparr>)"

section \<open>Further stores of an owner\<close>

record CreateTenantDto =
  ctnName :: string
  ctnSlug :: string
  ctnCatalogType :: "CatalogType option"

text \<open>The plans an owner holds now, on any store.\<close>

definition heldPlans :: "time \<Rightarrow> db \<Rightarrow> uuid \<Rightarrow> plan list" where
  "heldPlans now s userId =
     concat (map (\<lambda>u. case planOf s u of Some p \<Rightarrow> if isLapsed u p now then [] else [p] | None \<Rightarrow> [])
       (filter (\<lambda>u. (case rowOf tId (suTenantId u) (tenants s) of Some t \<Rightarrow> tOwnerId t = userId | None \<Rightarrow> False)
          \<and> suStatus u \<in> {SubscriptionStatus.ACTIVE, SubscriptionStatus.PENDING_UPGRADE}) (subscriptions s)))"

definition storeLimit :: "time \<Rightarrow> db \<Rightarrow> uuid \<Rightarrow> int" where
  "storeLimit now s userId =
     (let live = heldPlans now s userId
      in if live = [] then enMaxStores FALLBACK_ENTITLEMENTS
         else if list_ex (\<lambda>p. plMaxStores p = -1) live then -1
         else Max (set (map plMaxStores live)))"

definition createAdditional :: "env \<Rightarrow> db \<Rightarrow> uuid \<Rightarrow> CreateTenantDto \<Rightarrow> (db \<times> tenant) res" where
  "createAdditional e s userId dto =
     (let owned = countRows (\<lambda>t. tOwnerId t = userId) (tenants s);
          maxStores = storeLimit (eNow e) s userId
      in if maxStores \<noteq> -1 \<and> int owned \<ge> maxStores then Inl (Forbidden ''Store limit reached for your current plan'')
         else if rowOf tSlug (ctnSlug dto) (tenants s) \<noteq> None then Inl (Conflict ''Store slug already taken'')
         else
           let t = (newTenant (eFresh e 0) userId (ctnName dto) (ctnSlug dto) (eNow e))
                     \<lparr>tCatalogType := patch (ctnCatalogType dto) PHYSICAL\<rparr>;
               subs = (case findFreePlan s of None \<Rightarrow> []
                 | Some p \<Rightarrow> [newSubscription (eFresh e 2) (tId t) (plId p) None (eNow e)])
           in Inr (s\<lparr>tenants := tenants s @ [t],
                     members := members s @ [newMember (eFresh e 1) (tId t) userId OWNER [] (eNow e)],
                     subscriptions := subscriptions s @ subs\<rparr>, t))"

section \<open>The settings form\<close>

text \<open>A field that is left out keeps the column; a secret may be \<open>null\<close>, which clears it.\<close>

record UpdateTenantDto =
  utCatalogType :: "CatalogType option"
  utName :: "string option"
  utTagline :: "string option"
  utAbout :: "string option"
  utCurrency :: "string option"
  utCurrencySymbol :: "string option"
  utCurrencySymbolPosition :: "string option"
  utLocale :: "string option"
  utLogoUrl :: "string option"
  utBannerUrl :: "string option"
  utInvoiceLogoUrl :: "string option"
  utTheme :: "string option"
  utTracksInventory :: "bool option"
  utWhatsappEnabled :: "bool option"
  utWhatsappNumber :: "string option"
  utTelegramEnabled :: "bool option"
  utTelegramBotToken :: "string option option"
  utTelegramChatId :: "string option"
  utSmtpEnabled :: "bool option"
  utSmtpHost :: "string option"
  utSmtpPort :: "int option"
  utSmtpUser :: "string option"
  utSmtpPassword :: "string option option"
  utSmtpFrom :: "string option"
  utOrderMessageTemplate :: "string option"
  utItemLineTemplate :: "string option"
  utTermsOfSaleContent :: "string option"
  utShippingPolicyContent :: "string option"
  utReturnPolicyContent :: "string option"
  utPrivacyPolicyContent :: "string option"
  utSocialLinks :: "json option"
  utTrustBadges :: "json option"
  utSettings :: "json option"

definition patchNull :: "'a option \<Rightarrow> 'a option \<Rightarrow> 'a option" where
  "patchNull new old = (case new of Some x \<Rightarrow> Some x | None \<Rightarrow> old)"

text \<open>A secret of the form: left out, cleared, or encrypted.\<close>

definition patchSecret :: "env \<Rightarrow> string option option \<Rightarrow> string option \<Rightarrow> string option" where
  "patchSecret e new old =
     (case new of None \<Rightarrow> old | Some v \<Rightarrow> if v = None \<or> v = Some [] then None else Some (eEncrypt e (the v)))"

definition patchPage :: "UpdateTenantDto \<Rightarrow> storePage \<Rightarrow> storePage" where
  "patchPage dto g =
     g\<lparr>pgTagline := patchNull (utTagline dto) (pgTagline g), pgAbout := patchNull (utAbout dto) (pgAbout g),
       pgTermsOfSaleContent := patchNull (utTermsOfSaleContent dto) (pgTermsOfSaleContent g),
       pgShippingPolicyContent := patchNull (utShippingPolicyContent dto) (pgShippingPolicyContent g),
       pgReturnPolicyContent := patchNull (utReturnPolicyContent dto) (pgReturnPolicyContent g),
       pgPrivacyPolicyContent := patchNull (utPrivacyPolicyContent dto) (pgPrivacyPolicyContent g),
       pgLogoUrl := patchNull (utLogoUrl dto) (pgLogoUrl g),
       pgInvoiceLogoUrl := patchNull (utInvoiceLogoUrl dto) (pgInvoiceLogoUrl g),
       pgBannerUrl := patchNull (utBannerUrl dto) (pgBannerUrl g), pgTheme := patch (utTheme dto) (pgTheme g),
       pgSocialLinks := patch (utSocialLinks dto) (pgSocialLinks g),
       pgTrustBadges := patch (utTrustBadges dto) (pgTrustBadges g), pgSettings := patch (utSettings dto) (pgSettings g)\<rparr>"

definition patchSmtp :: "env \<Rightarrow> UpdateTenantDto \<Rightarrow> smtpSettings \<Rightarrow> smtpSettings" where
  "patchSmtp e dto m =
     m\<lparr>smEnabled := patch (utSmtpEnabled dto) (smEnabled m), smHost := patchNull (utSmtpHost dto) (smHost m),
       smPort := patchNull (utSmtpPort dto) (smPort m), smUser := patchNull (utSmtpUser dto) (smUser m),
       smPassword := patchSecret e (utSmtpPassword dto) (smPassword m), smFrom := patchNull (utSmtpFrom dto) (smFrom m)\<rparr>"

text \<open>The columns written, with the switch of the inventory as the code settles it.\<close>

definition patchTenant :: "env \<Rightarrow> UpdateTenantDto \<Rightarrow> bool option \<Rightarrow> tenant \<Rightarrow> tenant" where
  "patchTenant e dto tracks t =
     t\<lparr>tCatalogType := patch (utCatalogType dto) (tCatalogType t), tName := patch (utName dto) (tName t),
       tCurrency := patch (utCurrency dto) (tCurrency t), tCurrencySymbol := patch (utCurrencySymbol dto) (tCurrencySymbol t),
       tCurrencySymbolPosition := patch (utCurrencySymbolPosition dto) (tCurrencySymbolPosition t),
       tLocale := patch (utLocale dto) (tLocale t), tTracksInventory := patch tracks (tTracksInventory t),
       tWhatsappEnabled := patch (utWhatsappEnabled dto) (tWhatsappEnabled t),
       tWhatsappNumber := patchNull (utWhatsappNumber dto) (tWhatsappNumber t),
       tTelegramEnabled := patch (utTelegramEnabled dto) (tTelegramEnabled t),
       tTelegramBotToken := patchSecret e (utTelegramBotToken dto) (tTelegramBotToken t),
       tTelegramChatId := patchNull (utTelegramChatId dto) (tTelegramChatId t),
       tOrderMessageTemplate := patch (utOrderMessageTemplate dto) (tOrderMessageTemplate t),
       tItemLineTemplate := patch (utItemLineTemplate dto) (tItemLineTemplate t),
       tPage := patchPage dto (tPage t), tSmtp := patchSmtp e dto (tSmtp t)\<rparr>"

text \<open>A channel may be switched on only when the plan has it; leaving it on is not checked.\<close>

definition assertSwitchOn :: "env \<Rightarrow> db \<Rightarrow> uuid \<Rightarrow> bool option \<Rightarrow> bool \<Rightarrow> FulfillmentMethod \<Rightarrow> unit res" where
  "assertSwitchOn e s tenantId new old m =
     (if new = Some True \<and> \<not> old then assertFulfillmentMethodAllowed (eNow e) s tenantId m else Inr ())"

text \<open>The kind of the store: the inventory switch to write.\<close>

definition checkCatalogType :: "db \<Rightarrow> uuid \<Rightarrow> UpdateTenantDto \<Rightarrow> bool option res" where
  "checkCatalogType s tenantId dto =
     (if utCatalogType dto = None \<and> utTracksInventory dto \<noteq> Some True then Inr (utTracksInventory dto)
      else case rowOf tId tenantId (tenants s) of
        None \<Rightarrow> Inl RecordNotFound
      | Some current \<Rightarrow>
          let nxt = patch (utCatalogType dto) (tCatalogType current)
          in if utCatalogType dto \<noteq> None \<and> utCatalogType dto \<noteq> Some (tCatalogType current)
                \<and> countRows (\<lambda>p. pTenantId p = tenantId) (products s) > 0
             then Inl (Conflict ''The catalog type cannot change once the store has products'')
             else if nxt = DIGITAL
             then if utTracksInventory dto = Some True then Inl (BadRequest ''A digital store has no inventory to track'')
                  else Inr (Some False)
             else Inr (utTracksInventory dto))"

text \<open>The old file of an image that was replaced.\<close>

definition dropReplaced :: "uuid \<Rightarrow> string option \<Rightarrow> string option \<Rightarrow> db \<Rightarrow> db" where
  "dropReplaced tenantId new old s =
     (if new \<noteq> None \<and> truthy old \<and> old \<noteq> new then deleteUploadedFile old tenantId s else s)"

definition updateStore :: "env \<Rightarrow> db \<Rightarrow> uuid \<Rightarrow> UpdateTenantDto \<Rightarrow> (db \<times> TenantView) res" where
  "updateStore e s tenantId dto =
     bind_res (assertSafeSmtpSettings (utSmtpHost dto) (utSmtpPort dto)) (\<lambda>_.
     bind_res (assertSafeImageUrl (eParseUrl e) tenantId (utLogoUrl dto) ''logoUrl'') (\<lambda>_.
     bind_res (assertSafeImageUrl (eParseUrl e) tenantId (utBannerUrl dto) ''bannerUrl'') (\<lambda>_.
     bind_res (assertSafeImageUrl (eParseUrl e) tenantId (utInvoiceLogoUrl dto) ''invoiceLogoUrl'') (\<lambda>_.
       let previous = rowOf tId tenantId (tenants s);
           was = (\<lambda>f. case previous of Some t \<Rightarrow> f t | None \<Rightarrow> False)
       in bind_res (assertSwitchOn e s tenantId (utWhatsappEnabled dto) (was tWhatsappEnabled) FulfillmentMethod.WHATSAPP) (\<lambda>_.
          bind_res (assertSwitchOn e s tenantId (utTelegramEnabled dto) (was tTelegramEnabled) FulfillmentMethod.TELEGRAM) (\<lambda>_.
          bind_res (checkCatalogType s tenantId dto) (\<lambda>tracks.
            case previous of
              None \<Rightarrow> Inl RecordNotFound
            | Some t \<Rightarrow>
                let t' = patchTenant e dto tracks t;
                    s1 = s\<lparr>tenants := updateRow tId tenantId (\<lambda>_. t') (tenants s)\<rparr>;
                    s2 = dropReplaced tenantId (utInvoiceLogoUrl dto) (pgInvoiceLogoUrl (tPage t))
                          (dropReplaced tenantId (utBannerUrl dto) (pgBannerUrl (tPage t))
                            (dropReplaced tenantId (utLogoUrl dto) (pgLogoUrl (tPage t)) s1))
                in Inr (s2, toTenantSettingsView t'))))))))"

section \<open>The mail server, for the queue\<close>

record SmtpConfig =
  scHost :: string
  scPort :: int
  scUser :: "string option"
  scPassword :: "string option"
  scFrom :: "string option"

definition getDecryptedSmtpConfig :: "env \<Rightarrow> db \<Rightarrow> uuid \<Rightarrow> SmtpConfig option res" where
  "getDecryptedSmtpConfig e s tenantId =
     (case rowOf tId tenantId (tenants s) of
        None \<Rightarrow> Inr None
      | Some t \<Rightarrow>
          let m = tSmtp t
          in if \<not> smEnabled m \<or> \<not> truthy (smHost m) then Inr None
             else if \<not> truthy (smPassword m)
             then Inr (Some \<lparr>scHost = the (smHost m), scPort = patch (smPort m) 587, scUser = smUser m,
                         scPassword = None, scFrom = smFrom m\<rparr>)
             else case eDecryptSecret e (the (smPassword m)) of
                    None \<Rightarrow> Inl (InternalError ''decryptSecret'')
                  | Some w \<Rightarrow> Inr (Some \<lparr>scHost = the (smHost m), scPort = patch (smPort m) 587, scUser = smUser m,
                         scPassword = Some w, scFrom = smFrom m\<rparr>))"

section \<open>Payment settings\<close>

fun providerMethod :: "PaymentProvider \<Rightarrow> FulfillmentMethod" where
  "providerMethod PaymentProvider.STRIPE = FulfillmentMethod.STRIPE"
| "providerMethod PaymentProvider.MERCADOPAGO = FulfillmentMethod.MERCADOPAGO"
| "providerMethod PaymentProvider.ZELLE = FulfillmentMethod.ZELLE"
| "providerMethod PaymentProvider.PAYPAL = FulfillmentMethod.PAYPAL"

record UpsertPaymentSettingDto =
  upProvider :: PaymentProvider
  upCredentials :: "credentials option"
  upIsEnabled :: bool

text \<open>The one row of a store and provider.\<close>

definition isSetting :: "uuid \<Rightarrow> PaymentProvider \<Rightarrow> paymentSetting \<Rightarrow> bool" where
  "isSetting tenantId p m = (pmTenantId m = tenantId \<and> pmProvider m = p)"

definition writeSetting :: "uuid \<Rightarrow> PaymentProvider \<Rightarrow> string option \<Rightarrow> bool \<Rightarrow> db \<Rightarrow> db" where
  "writeSetting tenantId p encrypted enabled s =
     s\<lparr>paymentSettings :=
         (if list_ex (isSetting tenantId p) (paymentSettings s)
          then updateMany (isSetting tenantId p) (\<lambda>m. m\<lparr>pmEncrypted := encrypted, pmIsEnabled := enabled\<rparr>) (paymentSettings s)
          else paymentSettings s @ [\<lparr>pmTenantId = tenantId, pmProvider = p, pmEncrypted = encrypted, pmIsEnabled = enabled\<rparr>])\<rparr>"

text \<open>
  The keys of the platform's own accounts are configuration (\<open>platformConfigured\<close>). The credentials are
  encrypted as the JSON text of an object.
\<close>

definition upsertPaymentSetting ::
    "env \<Rightarrow> (PaymentProvider \<Rightarrow> bool) \<Rightarrow> db \<Rightarrow> uuid \<Rightarrow> UpsertPaymentSettingDto \<Rightarrow> db res" where
  "upsertPaymentSetting e platformConfigured s tenantId dto =
     (let p = upProvider dto; existing = findFirst (isSetting tenantId p) (paymentSettings s);
          wasOn = (case existing of Some m \<Rightarrow> pmIsEnabled m | None \<Rightarrow> False);
          assertPlan = (if upIsEnabled dto \<and> \<not> wasOn
            then assertFulfillmentMethodAllowed (eNow e) s tenantId (providerMethod p) else Inr ())
      in if p = PaymentProvider.MERCADOPAGO \<or> p = PaymentProvider.PAYPAL
         then let name = (if p = PaymentProvider.PAYPAL then ''PayPal'' else ''MercadoPago'')
              in if upCredentials dto \<noteq> None
                 then Inl (BadRequest (name @ '' uses the platform account; per-store credentials are not accepted''))
                 else if upIsEnabled dto \<and> \<not> platformConfigured p
                 then Inl (BadRequest (name @ '' is not available on this platform''))
                 else bind_res assertPlan (\<lambda>_. Inr (writeSetting tenantId p None (upIsEnabled dto) s))
         else bind_res assertPlan (\<lambda>_.
           case upCredentials dto of
             None \<Rightarrow>
               (case existing of
                  None \<Rightarrow> Inl (BadRequest (''Credentials are required to set up '' @ method_text (providerMethod p)))
                | Some m \<Rightarrow> Inr (writeSetting tenantId p (pmEncrypted m) (upIsEnabled dto) s))
           | Some c \<Rightarrow>
               if c = [] then Inl (BadRequest ''Credentials cannot be empty'')
               else Inr (writeSetting tenantId p
                      (Some (eEncrypt e (stringify (JObj (map (\<lambda>(k, v). (k, JStr v)) c))))) (upIsEnabled dto) s)))"

definition listPaymentSettings :: "db \<Rightarrow> uuid \<Rightarrow> (PaymentProvider \<times> bool) list" where
  "listPaymentSettings s tenantId =
     map (\<lambda>m. (pmProvider m, pmIsEnabled m)) (filter (\<lambda>m. pmTenantId m = tenantId) (paymentSettings s))"

section \<open>Properties\<close>

text \<open>
  what a store offers at its checkout and what an order accepts. A store of goods accepts an order
  by every method its page offers; only the message to the merchant can still fail, exactly when the
  store switched a channel on and left its number (or the bot's token or chat) empty. A digital store
  offers WhatsApp and Telegram all the same, and refuses every order by them.
\<close>

theorem offered_methods_accepted:
  assumes "findPublicBySlug e s slug = Inr v" and "rowOf tId (sfId v) (tenants s) = Some t" and "uniqueKeys tId (tenants s)"
    and "coFulfillmentMethod dto \<in> set (sfCheckoutMethods v)"
    and "assertSafeImageUrl (eParseUrl e) (tId t) (coPaymentProofUrl dto) ''paymentProofUrl'' = Inr ()"
    and "oFulfillmentMethod ord = coFulfillmentMethod dto"
  shows "(tCatalogType t = PHYSICAL \<longrightarrow> checkCreate e s (tId t) dto = Inr t)
    \<and> (messageMethod (coFulfillmentMethod dto) \<longrightarrow>
         (isl (dispatchMessageFulfillment s1 t ord ls) \<longleftrightarrow>
            (if coFulfillmentMethod dto = FulfillmentMethod.WHATSAPP then \<not> truthy (tWhatsappNumber t)
             else \<not> truthy (tTelegramBotToken t) \<or> \<not> truthy (tTelegramChatId t)))
         \<and> (tCatalogType t = DIGITAL \<longrightarrow> (\<exists>x. checkCreate e s (tId t) dto = Inl x \<and> http_status x = 400)))"
proof -
  let ?m = "coFulfillmentMethod dto"
  obtain t0 where t0: "t0 \<in> set (tenants s)" "tId t0 = sfId v"
    using assms(1) by (auto simp: findPublicBySlug_def Let_def split: option.splits if_splits sum.splits dest!: findFirst_SomeD)
  have row: "rowOf tId (tId t) (tenants s) = Some t" and id: "tId t = sfId v"
    using assms(2) t0 rowOf_unique [OF assms(3) t0(1)] by auto
  have allowed: "?m \<in> set (enFulfillmentMethods (getEntitlements (eNow e) s (tId t)))"
    and zelle: "?m = FulfillmentMethod.ZELLE \<Longrightarrow> \<exists>c. getDecryptedCredentials e s (tId t) PaymentProvider.ZELLE = Inr (Some c)"
    and on: "?m = FulfillmentMethod.WHATSAPP \<Longrightarrow> tWhatsappEnabled t" "?m = FulfillmentMethod.TELEGRAM \<Longrightarrow> tTelegramEnabled t"
    using assms(1,2,4) rowOf_unique [OF assms(3)]
    by (auto simp: findPublicBySlug_def Let_def split: option.splits if_splits sum.splits dest!: findFirst_SomeD)
  have z: "?m = FulfillmentMethod.ZELLE \<Longrightarrow> assertZelleConfigured e s (tId t) = Inr ()"
    using zelle by (auto simp: assertZelleConfigured_def)
  have "checkCreate e s (tId t) dto = bind_res (if isDigitalStore t then checkDigitalOrder dto else Inr ()) (\<lambda>_. Inr t)"
    using assms(5) row allowed z by (auto simp: checkCreate_def)
  moreover have "messageMethod ?m \<Longrightarrow> \<exists>x. checkDigitalOrder dto = Inl x \<and> http_status x = 400"
    by (auto simp: checkDigitalOrder_def)
  moreover have "messageMethod ?m \<Longrightarrow> isl (dispatchMessageFulfillment s1 t ord ls) \<longleftrightarrow>
            (if ?m = FulfillmentMethod.WHATSAPP then \<not> truthy (tWhatsappNumber t)
             else \<not> truthy (tTelegramBotToken t) \<or> \<not> truthy (tTelegramChatId t))"
    using on assms(6) by (auto simp: dispatchMessageFulfillment_def messageMethod_def Let_def)
  ultimately show ?thesis by (auto simp: isDigitalStore_def)
qed

text \<open>A store that left its number empty: its page offers WhatsApp, an order by it passes the checks and fails on the message.\<close>

definition mute0 :: tenant where
  "mute0 = tenant0\<lparr>tWhatsappNumber := Some []\<rparr>"

definition muteDb0 :: db where
  "muteDb0 = db0\<lparr>tenants := [mute0]\<rparr>"

theorem offered_methods_accepted_witness:
  "\<exists>v. findPublicBySlug env0 muteDb0 ''shop'' = Inr v \<and> FulfillmentMethod.WHATSAPP \<in> set (sfCheckoutMethods v)
    \<and> checkCreate env0 muteDb0 ''t1'' (basket0\<lparr>coFulfillmentMethod := FulfillmentMethod.WHATSAPP\<rparr>) = Inr mute0
    \<and> isl (dispatchMessageFulfillment muteDb0 mute0 (order0\<lparr>oFulfillmentMethod := FulfillmentMethod.WHATSAPP\<rparr>) [])"
proof -
  let ?r = "findPublicBySlug env0 muteDb0 ''shop''"
  have r: "?r = Inr (projr ?r)" "rowOf tId (sfId (projr ?r)) (tenants muteDb0) = Some mute0" "FulfillmentMethod.WHATSAPP \<in> set (sfCheckoutMethods (projr ?r))"
    by code_simp+
  have "assertSafeImageUrl (eParseUrl env0) (tId mute0) (coPaymentProofUrl (basket0\<lparr>coFulfillmentMethod := FulfillmentMethod.WHATSAPP\<rparr>)) ''paymentProofUrl'' = Inr ()"
    "uniqueKeys tId (tenants muteDb0)"
    by (simp_all add: assertSafeImageUrl_def basket0_def uniqueKeys_def muteDb0_def truthy_def)
  then show ?thesis
    using offered_methods_accepted [OF r(1), of mute0 "basket0\<lparr>coFulfillmentMethod := FulfillmentMethod.WHATSAPP\<rparr>"
        "order0\<lparr>oFulfillmentMethod := FulfillmentMethod.WHATSAPP\<rparr>" muteDb0 "[]"] r
    by (auto simp: mute0_def tenant0_def messageMethod_def truthy_def)
qed

lemma isSetting_row:
  "findFirst (isSetting tn p) (paymentSettings (writeSetting tn p enc on s))
     = Some \<lparr>pmTenantId = tn, pmProvider = p, pmEncrypted = enc, pmIsEnabled = on\<rparr>"
proof (cases "list_ex (isSetting tn p) (paymentSettings s)")
  case True
  have "findFirst (isSetting tn p) (updateMany (isSetting tn p) (\<lambda>m. m\<lparr>pmEncrypted := enc, pmIsEnabled := on\<rparr>) t)
      = Some \<lparr>pmTenantId = tn, pmProvider = p, pmEncrypted = enc, pmIsEnabled = on\<rparr>" if "list_ex (isSetting tn p) t" for t
    using that by (induction t) (auto simp: isSetting_def findFirst_def)
  then show ?thesis using True by (simp add: writeSetting_def)
next
  case False
  have "findFirst (isSetting tn p) (t @ [m]) = Some m" if "\<not> list_ex (isSetting tn p) t" "isSetting tn p m" for t m
    using that by (induction t) (auto simp: findFirst_def)
  then show ?thesis using False by (simp add: writeSetting_def isSetting_def)
qed

lemma isSetting_other:
  assumes "(tn', p') \<noteq> (tn, p)"
  shows "findFirst (isSetting tn' p') (paymentSettings (writeSetting tn p enc on s)) = findFirst (isSetting tn' p') (paymentSettings s)"
proof -
  have "findFirst (isSetting tn' p') (updateMany (isSetting tn p) (\<lambda>m. m\<lparr>pmEncrypted := enc, pmIsEnabled := on\<rparr>) t)
      = findFirst (isSetting tn' p') t" for t
    using assms by (induction t) (auto simp: isSetting_def findFirst_def)
  moreover have "findFirst (isSetting tn' p') (t @ [m]) = findFirst (isSetting tn' p') t" if "isSetting tn p m" for t m
    using assms that by (induction t) (auto simp: isSetting_def findFirst_def)
  ultimately show ?thesis by (simp add: writeSetting_def isSetting_def)
qed

lemma getDecryptedCredentials_setting:
  "getDecryptedCredentials e s tn p =
     (if p = PaymentProvider.MERCADOPAGO \<or> p = PaymentProvider.PAYPAL then Inr None
      else case findFirst (isSetting tn p) (paymentSettings s) of
             None \<Rightarrow> Inr None
           | Some m \<Rightarrow> if \<not> pmIsEnabled m then Inr None
               else if \<not> truthy (pmEncrypted m) then Inl (BadRequest ''Payment credentials corrupted'')
               else case eDecrypt e (the (pmEncrypted m)) of
                      None \<Rightarrow> Inl (InternalError ''decryptSecret'') | Some c \<Rightarrow> Inr (Some c))"
  unfolding getDecryptedCredentials_def isSetting_def ..

text \<open>The text that is encrypted.\<close>

definition credentialsText :: "credentials \<Rightarrow> string" where
  "credentialsText c = stringify (JObj (map (\<lambda>(k, v). (k, JStr v)) c))"

lemma upsert_own_provider:
  assumes "upsertPaymentSetting e cfg s tn dto = Inr s'" "upProvider dto \<in> {PaymentProvider.STRIPE, PaymentProvider.ZELLE}"
  shows "case upCredentials dto of
      Some c \<Rightarrow> s' = writeSetting tn (upProvider dto) (Some (eEncrypt e (credentialsText c))) (upIsEnabled dto) s
    | None \<Rightarrow> (\<exists>m. findFirst (isSetting tn (upProvider dto)) (paymentSettings s) = Some m
        \<and> s' = writeSetting tn (upProvider dto) (pmEncrypted m) (upIsEnabled dto) s)"
  using assms
  by (auto simp: upsertPaymentSetting_def Let_def bind_res_eq_Inr credentialsText_def split: option.splits if_splits)

text \<open>
  The process seals and opens with one cipher and one secret, and reads what it opened with \<open>parse\<close>
  (\<open>JSON.parse\<close>); each request has an initialisation vector of its own.
\<close>

definition usesVault :: "cipher \<Rightarrow> string \<Rightarrow> (string \<Rightarrow> credentials option) \<Rightarrow> env \<Rightarrow> bool" where
  "usesVault ci secret parse e =
     ((\<exists>iv. length iv = 12 \<and> eEncrypt e = encryptSecret ci secret iv)
      \<and> eDecryptSecret e = decryptSecret ci secret
      \<and> eDecrypt e = (\<lambda>x. case decryptSecret ci secret x of None \<Rightarrow> None | Some t \<Rightarrow> parse t))"

text \<open>Requests that save payment settings, of any store, one after the other; one that is refused changes nothing.\<close>

fun saves :: "(env \<times> (PaymentProvider \<Rightarrow> bool) \<times> uuid \<times> UpsertPaymentSettingDto) list \<Rightarrow> db \<Rightarrow> db" where
  "saves [] s = s"
| "saves ((e, cfg, tn, dto) # xs) s =
     saves xs (case upsertPaymentSetting e cfg s tn dto of Inl _ \<Rightarrow> s | Inr s' \<Rightarrow> s')"

lemma upsert_other:
  assumes "upsertPaymentSetting e cfg s t dto = Inr s'" "(tn, p) \<noteq> (t, upProvider dto)"
  shows "findFirst (isSetting tn p) (paymentSettings s') = findFirst (isSetting tn p) (paymentSettings s)"
proof -
  obtain enc where "s' = writeSetting t (upProvider dto) enc (upIsEnabled dto) s"
    using assms(1) by (auto simp: upsertPaymentSetting_def Let_def bind_res_eq_Inr split: option.splits if_splits)
  then show ?thesis using isSetting_other [OF assms(2)] by simp
qed

lemma saves_other:
  "\<forall>(e, cfg, t, dto) \<in> set xs. (tn, p) \<noteq> (t, upProvider dto) \<Longrightarrow>
     findFirst (isSetting tn p) (paymentSettings (saves xs s)) = findFirst (isSetting tn p) (paymentSettings s)"
proof (induction xs s rule: saves.induct)
  case (2 e cfg t dto xs s)
  then show ?case using upsert_other [of e cfg s t dto] by (cases "upsertPaymentSetting e cfg s t dto") auto
qed simp

lemma saves_keep:
  assumes "p \<in> {PaymentProvider.STRIPE, PaymentProvider.ZELLE}"
    and "\<forall>(e, cfg, t, dto) \<in> set xs. (t, upProvider dto) = (tn, p) \<longrightarrow> upCredentials dto = None"
    and "findFirst (isSetting tn p) (paymentSettings s) = Some m" "pmEncrypted m = enc"
  shows "\<exists>m'. findFirst (isSetting tn p) (paymentSettings (saves xs s)) = Some m' \<and> pmEncrypted m' = enc"
  using assms(2-4)
proof (induction xs s arbitrary: m rule: saves.induct)
  case (2 e cfg t dto xs s)
  let ?s = "case upsertPaymentSetting e cfg s t dto of Inl _ \<Rightarrow> s | Inr s' \<Rightarrow> s'"
  have "\<exists>m'. findFirst (isSetting tn p) (paymentSettings ?s) = Some m' \<and> pmEncrypted m' = enc"
  proof (cases "upsertPaymentSetting e cfg s t dto")
    case (Inr s')
    show ?thesis
    proof (cases "(t, upProvider dto) = (tn, p)")
      case True
      then have "s' = writeSetting tn p (pmEncrypted m) (upIsEnabled dto) s"
        using upsert_own_provider [OF Inr] assms(1) 2(2,3) by auto
      then show ?thesis using Inr 2(4) by (simp add: isSetting_row)
    next
      case False
      then have "(tn, p) \<noteq> (t, upProvider dto)" by auto
      from upsert_other [OF Inr this] show ?thesis using Inr 2(3,4) by simp
    qed
  qed (use 2 in simp)
  then obtain m' where "findFirst (isSetting tn p) (paymentSettings ?s) = Some m'" "pmEncrypted m' = enc" by blast
  from 2(1) [OF _ this] 2(2) show ?case by simp
qed simp

lemma vault_opens:
  assumes "cipherOk ci" "parse (credentialsText c) = Some c" "usesVault ci secret parse e" "usesVault ci secret parse e'"
  shows "eDecrypt e' (eEncrypt e (credentialsText c)) = Some c" "eEncrypt e (credentialsText c) \<noteq> []"
  using assms decrypt_encrypt [OF assms(1)] by (auto simp: usesVault_def)

text \<open>
  C26: the credentials a store saves for Stripe or Zelle are the credentials its payments are made with,
  until it saves others. They are stored encrypted, and read back whole while the method is on and not at
  all while it is off. Whatever settings are saved after that, by this store or any other, for this method
  or any other, in any number, as long as none brings new credentials for this method: they are still
  stored, and switching the method on reads them back whole. No method of no store is touched by the saves
  of others. Encryption and decryption are those of the repository; of the cipher only its documented law
  is taken, and of \<open>JSON.parse\<close> that it reads the printed credentials back.
\<close>

theorem payment_credentials_roundtrip:
  assumes "cipherOk ci" "parse (credentialsText c) = Some c"
    and "usesVault ci secret parse e" "usesVault ci secret parse e'"
    and "upsertPaymentSetting e cfg s tn dto = Inr s1" "upCredentials dto = Some c"
    and "p = upProvider dto" "p \<in> {PaymentProvider.STRIPE, PaymentProvider.ZELLE}"
    and "\<forall>(e, cfg, t, d) \<in> set changes. (t, upProvider d) = (tn, p) \<longrightarrow> upCredentials d = None"
  shows "getDecryptedCredentials e' s1 tn p = Inr (if upIsEnabled dto then Some c else None)
    \<and> (\<exists>m. findFirst (isSetting tn p) (paymentSettings (saves changes s1)) = Some m
        \<and> pmEncrypted m = Some (eEncrypt e (credentialsText c))
        \<and> getDecryptedCredentials e' (saves changes s1) tn p = Inr (if pmIsEnabled m then Some c else None))
    \<and> (\<forall>e2 cfg2 on s3. upsertPaymentSetting e2 cfg2 (saves changes s1) tn \<lparr>upProvider = p, upCredentials = None, upIsEnabled = on\<rparr> = Inr s3
        \<longrightarrow> getDecryptedCredentials e' s3 tn p = Inr (if on then Some c else None))
    \<and> (\<forall>tn' p'. (tn', p') \<noteq> (tn, p) \<and> (\<forall>(e, cfg, t, d) \<in> set changes. (tn', p') \<noteq> (t, upProvider d))
        \<longrightarrow> getDecryptedCredentials e' (saves changes s1) tn' p' = getDecryptedCredentials e' s tn' p')"
proof -
  let ?enc = "Some (eEncrypt e (credentialsText c))"
  note opens = vault_opens [OF assms(1-4)]
  have s1: "s1 = writeSetting tn p ?enc (upIsEnabled dto) s"
    using upsert_own_provider [OF assms(5)] assms(6-8) by simp
  have reads: "getDecryptedCredentials e' r tn p = Inr (if pmIsEnabled m then Some c else None)"
    if "findFirst (isSetting tn p) (paymentSettings r) = Some m" "pmEncrypted m = ?enc" for r m
    unfolding getDecryptedCredentials_setting using that assms(8) opens by auto
  have r1: "findFirst (isSetting tn p) (paymentSettings s1)
      = Some \<lparr>pmTenantId = tn, pmProvider = p, pmEncrypted = ?enc, pmIsEnabled = upIsEnabled dto\<rparr>"
    unfolding s1 by (rule isSetting_row)
  obtain m where m: "findFirst (isSetting tn p) (paymentSettings (saves changes s1)) = Some m" "pmEncrypted m = ?enc"
    using saves_keep [OF assms(8,9) r1] by auto
  have "getDecryptedCredentials e' s3 tn p = Inr (if on then Some c else None)"
    if up: "upsertPaymentSetting e2 cfg2 (saves changes s1) tn \<lparr>upProvider = p, upCredentials = None, upIsEnabled = on\<rparr> = Inr s3"
    for e2 cfg2 on s3
  proof -
    have "s3 = writeSetting tn p ?enc on (saves changes s1)"
      using upsert_own_provider [OF up] assms(8) m by auto
    then show ?thesis using reads [OF isSetting_row] by simp
  qed
  moreover have "getDecryptedCredentials e' (saves changes s1) tn' p' = getDecryptedCredentials e' s tn' p'"
    if "(tn', p') \<noteq> (tn, p)" "\<forall>(e, cfg, t, d) \<in> set changes. (tn', p') \<noteq> (t, upProvider d)" for tn' p'
    unfolding getDecryptedCredentials_setting saves_other [OF that(2)] s1 isSetting_other [OF that(1)] ..
  ultimately show ?thesis using reads [OF r1] m reads [OF m] by auto
qed

definition toyCipher :: cipher where
  "toyCipher = \<lparr>ciKey = id, ciSeal = (\<lambda>k iv t. (t, replicate 16 (CHR ''t''))),
     ciOpen = (\<lambda>k iv tag body. if tag = replicate 16 (CHR ''t'') then Some body else None)\<rparr>"

definition toyParse :: "string \<Rightarrow> credentials option" where
  "toyParse t = (if t = credentialsText [(''email'', ''pay@shop'')] then Some [(''email'', ''pay@shop'')] else None)"

definition vaultEnv :: env where
  "vaultEnv = env0\<lparr>eEncrypt := encryptSecret toyCipher ''key'' ''0123456789ab'', eDecryptSecret := decryptSecret toyCipher ''key'',
     eDecrypt := (\<lambda>x. case decryptSecret toyCipher ''key'' x of None \<Rightarrow> None | Some t \<Rightarrow> toyParse t)\<rparr>"

text \<open>Zelle is set up, switched off, and switched on again.\<close>

theorem payment_credentials_roundtrip_witness:
  "\<exists>s1 s3. upsertPaymentSetting vaultEnv (\<lambda>_. False) db0 ''t1'' \<lparr>upProvider = PaymentProvider.ZELLE,
        upCredentials = Some [(''email'', ''pay@shop'')], upIsEnabled = True\<rparr> = Inr s1
    \<and> upsertPaymentSetting vaultEnv (\<lambda>_. False)
        (saves [(vaultEnv, (\<lambda>_. False), ''t1'', \<lparr>upProvider = PaymentProvider.ZELLE, upCredentials = None, upIsEnabled = False\<rparr>)] s1)
        ''t1'' \<lparr>upProvider = PaymentProvider.ZELLE, upCredentials = None, upIsEnabled = True\<rparr> = Inr s3
    \<and> getDecryptedCredentials vaultEnv s1 ''t1'' PaymentProvider.ZELLE = Inr (Some [(''email'', ''pay@shop'')])
    \<and> getDecryptedCredentials vaultEnv s3 ''t1'' PaymentProvider.ZELLE = Inr (Some [(''email'', ''pay@shop'')])"
proof -
  let ?c = "[(''email'', ''pay@shop'')]"
  let ?dto = "\<lparr>upProvider = PaymentProvider.ZELLE, upCredentials = Some ?c, upIsEnabled = True\<rparr>"
  let ?off = "[(vaultEnv, (\<lambda>_ :: PaymentProvider. False), ''t1'', \<lparr>upProvider = PaymentProvider.ZELLE, upCredentials = None, upIsEnabled = False\<rparr>)]"
  let ?on = "\<lparr>upProvider = PaymentProvider.ZELLE, upCredentials = None, upIsEnabled = True\<rparr>"
  let ?r1 = "upsertPaymentSetting vaultEnv (\<lambda>_. False) db0 ''t1'' ?dto"
  let ?r3 = "upsertPaymentSetting vaultEnv (\<lambda>_. False) (saves ?off (projr ?r1)) ''t1'' ?on"
  have "\<not> isl ?r1" "\<not> isl ?r3" by code_simp+
  then have r: "?r1 = Inr (projr ?r1)" "?r3 = Inr (projr ?r3)" by auto
  have "usesVault toyCipher ''key'' toyParse vaultEnv"
    unfolding usesVault_def by (intro conjI exI [of _ "''0123456789ab''"]) (simp_all add: vaultEnv_def)
  moreover have "cipherOk toyCipher" by (simp add: cipherOk_def toyCipher_def)
  moreover have "toyParse (credentialsText ?c) = Some ?c" by (simp add: toyParse_def)
  ultimately have "getDecryptedCredentials vaultEnv (projr ?r1) ''t1'' PaymentProvider.ZELLE = Inr (Some ?c)
      \<and> getDecryptedCredentials vaultEnv (projr ?r3) ''t1'' PaymentProvider.ZELLE = Inr (Some ?c)"
    using payment_credentials_roundtrip [OF _ _ _ _ r(1), where changes = ?off and parse = toyParse and c = ?c and ci = toyCipher
        and secret = "''key''" and e' = vaultEnv and p = PaymentProvider.ZELLE] r(2) by simp
  then show ?thesis using r by blast
qed

text \<open>
  an owner gets no further store beyond the best plan held on any of their stores (with
  every plan lapsed, beyond one), and every new store starts with a slug of its own, its owner as a
  member and the free plan. The limit is the plans' alone: an override of \<open>maxStores\<close> on a store, which
  the administrators' form offers, changes nothing.
\<close>

theorem further_stores_within_plan:
  assumes "createAdditional e s userId dto = Inr (s', t)"
  shows "(storeLimit (eNow e) s userId = -1
      \<or> int (countRows (\<lambda>t. tOwnerId t = userId) (tenants s')) \<le> storeLimit (eNow e) s userId)
    \<and> (uniqueKeys tSlug (tenants s) \<longrightarrow> uniqueKeys tSlug (tenants s'))
    \<and> tOwnerId t = userId \<and> list_ex (\<lambda>m. tmUserId m = userId \<and> tmTenantId m = tId t \<and> tmRole m = OWNER) (members s')
    \<and> storeLimit now (s\<lparr>tenants := map (\<lambda>t. t\<lparr>tLimitsOverride := f t\<rparr>) (tenants s)\<rparr>) userId = storeLimit now s userId"
proof (intro conjI impI)
  have s': "tenants s' = tenants s @ [t]" "tOwnerId t = userId" "tSlug t = ctnSlug dto"
      "list_ex (\<lambda>m. tmUserId m = userId \<and> tmTenantId m = tId t \<and> tmRole m = OWNER) (members s')"
      "rowOf tSlug (ctnSlug dto) (tenants s) = None"
      "storeLimit (eNow e) s userId = -1 \<or> int (countRows (\<lambda>t. tOwnerId t = userId) (tenants s)) < storeLimit (eNow e) s userId"
    using assms by (auto simp: createAdditional_def newTenant_def newMember_def Let_def split: if_splits)
  then show "storeLimit (eNow e) s userId = -1
      \<or> int (countRows (\<lambda>t. tOwnerId t = userId) (tenants s')) \<le> storeLimit (eNow e) s userId"
    by auto
  show "uniqueKeys tSlug (tenants s')" if "uniqueKeys tSlug (tenants s)"
    using that s' by (simp add: uniqueKeys_append1 rowOf_None_iff)
  show "tOwnerId t = userId" "list_ex (\<lambda>m. tmUserId m = userId \<and> tmTenantId m = tId t \<and> tmRole m = OWNER) (members s')"
    using s' by auto
  let ?s = "s\<lparr>tenants := map (\<lambda>t. t\<lparr>tLimitsOverride := f t\<rparr>) (tenants s)\<rparr>"
  have "(case rowOf tId k (tenants ?s) of Some t \<Rightarrow> tOwnerId t = userId | None \<Rightarrow> False)
      = (case rowOf tId k (tenants s) of Some t \<Rightarrow> tOwnerId t = userId | None \<Rightarrow> False)" for k
    by (simp add: rowOf_map split: option.split)
  then show "storeLimit now ?s userId = storeLimit now s userId"
    unfolding storeLimit_def heldPlans_def planOf_def by simp
qed

theorem further_stores_within_plan_witness:
  "\<exists>s' t. createAdditional env0 db0 ''u1'' \<lparr>ctnName = ''Two'', ctnSlug = ''two'', ctnCatalogType = Some DIGITAL\<rparr> = Inr (s', t)
    \<and> countRows (\<lambda>t. tOwnerId t = ''u1'') (tenants s') \<le> 3"
proof -
  let ?r = "createAdditional env0 db0 ''u1'' \<lparr>ctnName = ''Two'', ctnSlug = ''two'', ctnCatalogType = Some DIGITAL\<rparr>"
  have "\<not> isl ?r" "storeLimit (eNow env0) db0 ''u1'' = 3" by code_simp+
  moreover then obtain s' t where "?r = Inr (s', t)" by (cases ?r) auto
  ultimately show ?thesis using further_stores_within_plan [of env0 db0 "''u1''"] by fastforce
qed

end
