(* ===== verification/CustomerAccounts.thy ===== *)
theory CustomerAccounts
  imports Accounts Orders
begin

text \<open>
  The customers of a store: their accounts and sessions (\<open>customers/customers-auth.service.ts\<close>) and
  what a merchant and they themselves see and erase (\<open>customers/customers.service.ts\<close>). The session
  tables and the functions of the outside are those of \<open>Accounts\<close>.
\<close>

section \<open>Issuing tokens\<close>

record CustomerAuthResult =
  crCustomer :: "customer option" \<comment> \<open>without its password hash\<close>
  crAccessToken :: string
  crRefreshToken :: string
  crMobileRefreshToken :: "string option"

definition sanitizeCustomer :: "customer \<Rightarrow> customer" where
  "sanitizeCustomer c = c\<lparr>cuPasswordHash := None\<rparr>"

definition customerPayload :: "uuid \<Rightarrow> uuid \<Rightarrow> CustomerJwtPayload" where
  "customerPayload customerId tenantId = \<lparr>cjSub = customerId, cjTenantId = tenantId, cjType = ''customer''\<rparr>"

definition signCustomerAccess :: "authEnv \<Rightarrow> uuid \<Rightarrow> uuid \<Rightarrow> string" where
  "signCustomerAccess a customerId tenantId =
     aeSignCustomerAccess a (customerPayload customerId tenantId) (anow a div 1000)"

definition issueCustomerPair :: "authEnv \<Rightarrow> uuid \<Rightarrow> uuid \<Rightarrow> accounts \<Rightarrow> accounts \<times> string \<times> string" where
  "issueCustomerPair a customerId tenantId st =
     (let refreshToken = aeSignCustomerRefresh a (customerPayload customerId tenantId) (anow a div 1000);
          row = \<lparr>snId = eFresh (aeEnv a) 4, snOwner = customerId, snTokenHash = hashToken a refreshToken,
                 snExpiresAt = aeExp a refreshToken * 1000, snRevokedAt = None\<rparr>
      in (st\<lparr>acCustomerSessions := acCustomerSessions st @ [row]\<rparr>,
          signCustomerAccess a customerId tenantId, refreshToken))"

definition createCustomerMobile ::
    "authEnv \<Rightarrow> uuid \<Rightarrow> string \<Rightarrow> uuid \<Rightarrow> uuid option \<Rightarrow> accounts \<Rightarrow> accounts \<times> string" where
  "createCustomerMobile a customerId deviceId familyId tenantId st =
     (let rawToken = eToken (aeEnv a) 1;
          row = \<lparr>msId = eFresh (aeEnv a) 6, msOwner = customerId, msFamilyId = familyId, msDeviceId = deviceId,
                 msTokenHash = hashToken a rawToken, msTenantId = tenantId, msTenantRole = None,
                 msExpiresAt = anow a + int (aeCustomerTtlDays a) * 24 * 60 * 60 * 1000, msRevokedAt = None\<rparr>
      in (st\<lparr>acCustomerMobile := acCustomerMobile st @ [row]\<rparr>, rawToken))"

definition issueFreshCustomerMobile :: "authEnv \<Rightarrow> uuid \<Rightarrow> string \<Rightarrow> uuid \<Rightarrow> accounts \<Rightarrow> accounts \<times> string" where
  "issueFreshCustomerMobile a customerId deviceId tenantId st =
     createCustomerMobile a customerId deviceId (eFresh (aeEnv a) 5) (Some tenantId)
       (st\<lparr>acCustomerMobile := revokeMobile (anow a)
             (\<lambda>m. msOwner m = customerId \<and> msDeviceId m = deviceId \<and> liveMobile m) (acCustomerMobile st)\<rparr>)"

definition issueCustomerSession ::
    "authEnv \<Rightarrow> customer \<Rightarrow> uuid \<Rightarrow> string option \<Rightarrow> accounts \<Rightarrow> accounts \<times> CustomerAuthResult" where
  "issueCustomerSession a c tenantId deviceId st =
     (let (st1, access, refresh) = issueCustomerPair a (cuId c) tenantId st;
          (st2, mobile) = (if truthy deviceId
              then let (st2, raw) = issueFreshCustomerMobile a (cuId c) (the deviceId) tenantId st1
                   in (st2, Some raw)
              else (st1, None))
      in (st2, \<lparr>crCustomer = Some (sanitizeCustomer c), crAccessToken = access, crRefreshToken = refresh,
                crMobileRefreshToken = mobile\<rparr>))"

section \<open>Registration and login\<close>

record RegisterCustomerDto =
  rcEmail :: string
  rcPassword :: string
  rcName :: string
  rcPhone :: "string option"
  rcDeviceId :: "string option"

definition findCustomerByEmail :: "accounts \<Rightarrow> uuid \<Rightarrow> string \<Rightarrow> customer option" where
  "findCustomerByEmail st tenantId email =
     findFirst (\<lambda>c. cuTenantId c = tenantId \<and> cuEmail c = Some email) (acCustomers st)"

definition registerCustomer ::
    "authEnv \<Rightarrow> accounts \<Rightarrow> uuid \<Rightarrow> RegisterCustomerDto \<Rightarrow> (accounts \<times> CustomerAuthResult) res" where
  "registerCustomer a st tenantId dto =
     (if findCustomerByEmail st tenantId (rcEmail dto) \<noteq> None then Inl (Conflict ''Email already registered'')
      else
        let c = \<lparr>cuId = eFresh (aeEnv a) 0, cuTenantId = tenantId, cuEmail = Some (rcEmail dto),
                 cuPhone = rcPhone dto, cuName = rcName dto,
                 cuPasswordHash = Some (aeBcrypt a (rcPassword dto)), cuCreatedAt = anow a\<rparr>
        in Inr (issueCustomerSession a c tenantId (rcDeviceId dto)
             (st\<lparr>acCustomers := acCustomers st @ [c]\<rparr>)))"

record LoginCustomerDto =
  lcEmail :: string
  lcPassword :: string
  lcDeviceId :: "string option"

definition loginCustomer ::
    "authEnv \<Rightarrow> throttle \<Rightarrow> accounts \<Rightarrow> uuid \<Rightarrow> LoginCustomerDto
      \<Rightarrow> throttle \<times> (accounts \<times> CustomerAuthResult) res" where
  "loginCustomer a th st tenantId dto =
     (let throttleId = tenantId @ '':'' @ lcEmail dto
      in case assertNotLocked a th ''customer-login'' throttleId 10 of
           Inl x \<Rightarrow> (th, Inl x)
         | Inr _ \<Rightarrow>
             let found = findCustomerByEmail st tenantId (lcEmail dto);
                 stored = (case found of Some c \<Rightarrow> cuPasswordHash c | None \<Rightarrow> None);
                 valid = aeCompare a (lcPassword dto) (case stored of Some h \<Rightarrow> h | None \<Rightarrow> DUMMY_PASSWORD_HASH)
             in if \<not> truthy stored \<or> \<not> valid
                then (recordFailure a ''customer-login'' throttleId (15 * 60) th,
                      Inl (Unauthorized ''Invalid credentials''))
                else (clearFailures a ''customer-login'' throttleId th,
                      Inr (issueCustomerSession a (the found) tenantId (lcDeviceId dto) st)))"

section \<open>Refreshing\<close>

text \<open>The two phases of a rotation, as for staff.\<close>

definition customerMobileRefreshRead :: "authEnv \<Rightarrow> accounts \<Rightarrow> MobileRefreshDto \<Rightarrow> customer RefreshDecision" where
  "customerMobileRefreshRead a st dto =
     (case findFirst (\<lambda>m. msTokenHash m = hashToken a (mrRefreshToken dto)) (acCustomerMobile st) of
        None \<Rightarrow> RefuseToken
      | Some stored \<Rightarrow>
          if msRevokedAt stored \<noteq> None \<or> msDeviceId stored \<noteq> mrDeviceId dto then EndFamily stored
          else if msExpiresAt stored < anow a then RefuseToken
          else case rowOf cuId (msOwner stored) (acCustomers st) of
            None \<Rightarrow> EndToken stored
          | Some c \<Rightarrow> RotateToken stored c)"

definition customerMobileRefreshWrite ::
    "authEnv \<Rightarrow> customer RefreshDecision \<Rightarrow> accounts \<Rightarrow> accounts \<times> MobileRefreshResult" where
  "customerMobileRefreshWrite a d st =
     (let revoke = (\<lambda>P s. s\<lparr>acCustomerMobile := revokeMobile (anow a) P (acCustomerMobile s)\<rparr>)
      in case d of
           RefuseToken \<Rightarrow> (st, MobileRefreshFailed)
         | EndFamily stored \<Rightarrow> (revoke (ofFamily stored) st, MobileRefreshFailed)
         | EndToken stored \<Rightarrow> (revoke (\<lambda>m. msId m = msId stored) st, MobileRefreshFailed)
         | RotateToken stored c \<Rightarrow>
             let (st2, refreshToken) = createCustomerMobile a (msOwner stored) (msDeviceId stored)
                   (msFamilyId stored) (msTenantId stored) (revoke (\<lambda>m. msId m = msId stored) st)
             in (st2, MobileRefreshOk
                  (signCustomerAccess a (cuId c) (case msTenantId stored of Some t \<Rightarrow> t | None \<Rightarrow> [])) refreshToken))"

definition customerMobileRefresh :: "authEnv \<Rightarrow> accounts \<Rightarrow> MobileRefreshDto \<Rightarrow> accounts \<times> MobileRefreshResult" where
  "customerMobileRefresh a st dto = customerMobileRefreshWrite a (customerMobileRefreshRead a st dto) st"

definition refreshCustomer :: "authEnv \<Rightarrow> accounts \<Rightarrow> string \<Rightarrow> (accounts \<times> string \<times> string) res" where
  "refreshCustomer a st raw =
     (case aeVerifyCustomerRefresh a raw of
        None \<Rightarrow> Inl (Unauthorized ''Invalid or expired refresh token'')
      | Some payload \<Rightarrow>
          (case findFirst (\<lambda>r. snOwner r = cjSub payload \<and> snTokenHash r = hashToken a raw
                 \<and> snRevokedAt r = None) (acCustomerSessions st) of
             None \<Rightarrow> Inl noLongerValid
           | Some stored \<Rightarrow>
               if snExpiresAt stored < anow a then Inl noLongerValid
               else Inr (issueCustomerPair a (cjSub payload) (cjTenantId payload)
                      (st\<lparr>acCustomerSessions := updateRow snId (snId stored)
                            (\<lambda>r. r\<lparr>snRevokedAt := Some (anow a)\<rparr>) (acCustomerSessions st)\<rparr>))))"

definition logoutCustomer :: "authEnv \<Rightarrow> accounts \<Rightarrow> uuid \<Rightarrow> string option \<Rightarrow> accounts" where
  "logoutCustomer a st customerId raw =
     (if truthy raw
      then st\<lparr>acCustomerSessions := revokeSessions (anow a)
             (\<lambda>r. snOwner r = customerId \<and> snTokenHash r = hashToken a (the raw)) (acCustomerSessions st)\<rparr>
      else st)"

section \<open>Password reset\<close>

definition RESET_TOKEN_TTL_MS :: int where
  "RESET_TOKEN_TTL_MS = 60 * 60 * 1000"

definition forgotPasswordCustomer :: "authEnv \<Rightarrow> accounts \<Rightarrow> uuid \<Rightarrow> string \<Rightarrow> accounts res" where
  "forgotPasswordCustomer a st tenantId email =
     (case findCustomerByEmail st tenantId email of
        None \<Rightarrow> Inr st
      | Some c \<Rightarrow>
          if \<not> truthy (cuEmail c) then Inr st
          else case rowOf tId tenantId (tenants (acDb st)) of
            None \<Rightarrow> Inl RecordNotFound
          | Some t \<Rightarrow>
              let raw = eToken (aeEnv a) 2;
                  row = \<lparr>rkId = eFresh (aeEnv a) 7, rkOwner = cuId c, rkTokenHash = hashToken a raw,
                         rkExpiresAt = anow a + RESET_TOKEN_TTL_MS, rkUsedAt = None\<rparr>;
                  resets = voidResets (anow a) (\<lambda>r. rkOwner r = cuId c) (acCustomerResets st) @ [row]
              in Inr (emitAccounts (EmailJob ''password-reset'' (Some tenantId) (tLocale t) (the (cuEmail c))
                   [(''name'', cuName c), (''store_name'', tName t),
                    (''reset_link'', storefrontPasswordLink (ePublicWebUrl (aeEnv a)) (tSlug t) raw)] False)
                   (st\<lparr>acCustomerResets := resets\<rparr>)))"

definition resetPasswordCustomer :: "authEnv \<Rightarrow> accounts \<Rightarrow> uuid \<Rightarrow> string \<Rightarrow> string \<Rightarrow> accounts res" where
  "resetPasswordCustomer a st tenantId token password =
     (case findFirst (\<lambda>r. rkTokenHash r = hashToken a token \<and> rkUsedAt r = None) (acCustomerResets st) of
        None \<Rightarrow> Inl badLink
      | Some link \<Rightarrow>
          if rkExpiresAt link < anow a then Inl badLink
          else case findFirst (\<lambda>c. cuId c = rkOwner link \<and> cuTenantId c = tenantId) (acCustomers st) of
            None \<Rightarrow> Inl badLink
          | Some c \<Rightarrow>
              if countRows (\<lambda>r. rkId r = rkId link \<and> rkUsedAt r = None) (acCustomerResets st) = 0 then Inl badLink
              else
                let now = anow a in
                Inr (st\<lparr>
                  acCustomerResets := voidResets now (\<lambda>r. rkOwner r = cuId c)
                    (voidResets now (\<lambda>r. rkId r = rkId link) (acCustomerResets st)),
                  acCustomers := updateRow cuId (cuId c)
                    (\<lambda>c. c\<lparr>cuPasswordHash := Some (aeBcrypt a password)\<rparr>) (acCustomers st),
                  acCustomerSessions := revokeSessions now (\<lambda>r. snOwner r = cuId c) (acCustomerSessions st),
                  acCustomerMobile := revokeMobile now (\<lambda>m. msOwner m = cuId c \<and> liveMobile m) (acCustomerMobile st)\<rparr>))"

section \<open>What is seen of a customer\<close>

datatype CustomerSegment = segment_new | segment_recurring | segment_vip

definition RECURRING_MIN_ORDERS :: nat where "RECURRING_MIN_ORDERS = 2"
definition VIP_MIN_ORDERS :: nat where "VIP_MIN_ORDERS = 5"

definition segmentForOrderCount :: "nat \<Rightarrow> CustomerSegment" where
  "segmentForOrderCount totalOrders =
     (if totalOrders \<ge> VIP_MIN_ORDERS then segment_vip
      else if totalOrders \<ge> RECURRING_MIN_ORDERS then segment_recurring else segment_new)"

record CustomerStats =
  csTotalOrders :: nat
  csTotalSpent :: decimal
  csLastOrderAt :: "time option"
  csSegment :: CustomerSegment

definition emptyStats :: CustomerStats where
  "emptyStats = \<lparr>csTotalOrders = 0, csTotalSpent = 0, csLastOrderAt = None,
     csSegment = segmentForOrderCount 0\<rparr>"

definition getCustomerProfile :: "accounts \<Rightarrow> uuid \<Rightarrow> uuid \<Rightarrow> customer res" where
  "getCustomerProfile st tenantId customerId =
     (case findFirst (\<lambda>c. cuId c = customerId \<and> cuTenantId c = tenantId) (acCustomers st) of
        None \<Rightarrow> Inl (NotFound ''Customer not found'') | Some c \<Rightarrow> Inr (sanitizeCustomer c))"

definition customerOrders :: "accounts \<Rightarrow> uuid \<Rightarrow> uuid \<Rightarrow> order list" where
  "customerOrders st tenantId customerId =
     filter (\<lambda>ord. oTenantId ord = tenantId \<and> oCustomerId ord = Some customerId) (orders (acDb st))"

definition listMyOrders :: "accounts \<Rightarrow> uuid \<Rightarrow> uuid \<Rightarrow> order list" where
  "listMyOrders st tenantId customerId =
     findMany (\<lambda>ord. oTenantId ord = tenantId \<and> oCustomerId ord = Some customerId)
       (\<lambda>ord. - oCreatedAt ord) (orders (acDb st))"

definition getMyOrder :: "accounts \<Rightarrow> uuid \<Rightarrow> uuid \<Rightarrow> uuid \<Rightarrow> order res" where
  "getMyOrder st tenantId customerId k =
     (case findFirst (\<lambda>ord. oId ord = k \<and> oTenantId ord = tenantId \<and> oCustomerId ord = Some customerId)
        (orders (acDb st)) of
        None \<Rightarrow> Inl (NotFound ''Order not found'') | Some ord \<Rightarrow> Inr ord)"

text \<open>The aggregate of the orders of one customer; a customer without orders is in no group.\<close>

definition orderStatsFor :: "accounts \<Rightarrow> uuid \<Rightarrow> uuid \<Rightarrow> CustomerStats option" where
  "orderStatsFor st tenantId customerId =
     (let os = customerOrders st tenantId customerId
      in if os = [] then None
         else Some \<lparr>csTotalOrders = length os, csTotalSpent = sum_list (map oGrandTotal os),
                    csLastOrderAt = Some (Max (set (map oCreatedAt os))),
                    csSegment = segmentForOrderCount (length os)\<rparr>)"

definition statsOf :: "accounts \<Rightarrow> uuid \<Rightarrow> uuid \<Rightarrow> CustomerStats" where
  "statsOf st tenantId customerId =
     (case orderStatsFor st tenantId customerId of Some x \<Rightarrow> x | None \<Rightarrow> emptyStats)"

text \<open>The customers whose number of orders is in a range: only customers with an order are grouped.\<close>

definition customerIdsWithOrderCount :: "accounts \<Rightarrow> uuid \<Rightarrow> (nat \<Rightarrow> bool) \<Rightarrow> uuid \<Rightarrow> bool" where
  "customerIdsWithOrderCount st tenantId inBand customerId =
     (let n = length (customerOrders st tenantId customerId) in 0 < n \<and> inBand n)"

definition segmentFilter :: "accounts \<Rightarrow> uuid \<Rightarrow> CustomerSegment \<Rightarrow> uuid \<Rightarrow> bool" where
  "segmentFilter st tenantId seg =
     (case seg of
        segment_recurring \<Rightarrow> customerIdsWithOrderCount st tenantId
          (\<lambda>n. RECURRING_MIN_ORDERS \<le> n \<and> n \<le> VIP_MIN_ORDERS - 1)
      | segment_vip \<Rightarrow> customerIdsWithOrderCount st tenantId (\<lambda>n. VIP_MIN_ORDERS \<le> n)
      | segment_new \<Rightarrow> (\<lambda>i. \<not> customerIdsWithOrderCount st tenantId (\<lambda>n. RECURRING_MIN_ORDERS \<le> n) i))"

definition customerWhere ::
    "accounts \<Rightarrow> uuid \<Rightarrow> string option \<Rightarrow> CustomerSegment option \<Rightarrow> customer \<Rightarrow> bool" where
  "customerWhere st tenantId search seg c =
     (cuTenantId c = tenantId
      \<and> (truthy search \<longrightarrow> containsText (the search) (cuName c)
           \<or> case_option False (containsText (the search)) (cuEmail c)
           \<or> case_option False (containsText (the search)) (cuPhone c))
      \<and> (case seg of None \<Rightarrow> True | Some g \<Rightarrow> segmentFilter st tenantId g (cuId c)))"

definition findAllCustomers ::
    "accounts \<Rightarrow> uuid \<Rightarrow> PaginationDto \<Rightarrow> CustomerSegment option \<Rightarrow> (customer \<times> CustomerStats) PaginatedResult" where
  "findAllCustomers st tenantId q seg =
     paginate q (map (\<lambda>c. (sanitizeCustomer c, statsOf st tenantId (cuId c)))
       (findMany (customerWhere st tenantId (pgSearch q) seg) (\<lambda>c. - cuCreatedAt c) (acCustomers st)))"

definition findOneCustomer :: "accounts \<Rightarrow> uuid \<Rightarrow> uuid \<Rightarrow> (customer \<times> CustomerStats \<times> order list) res" where
  "findOneCustomer st tenantId i =
     bind_res (getCustomerProfile st tenantId i) (\<lambda>c.
       Inr (c, statsOf st tenantId i, listMyOrders st tenantId i))"

section \<open>Erasing a customer\<close>

text \<open>The rendered invoice of an order is a file outside the database; its removal is not an effect of the log.\<close>

definition eraseOrder :: "order \<Rightarrow> order" where
  "eraseOrder ord = ord\<lparr>oCustomerName := ''Deleted customer'', oCustomerEmail := None, oCustomerPhone := None,
     oShippingAddress := None, oFulfillmentMessage := None, oPaymentProofUrl := None, oPaymentReference := None\<rparr>"

definition anonymize :: "authEnv \<Rightarrow> accounts \<Rightarrow> uuid \<Rightarrow> uuid \<Rightarrow> accounts res" where
  "anonymize a st tenantId customerId =
     (case findFirst (\<lambda>c. cuId c = customerId \<and> cuTenantId c = tenantId) (acCustomers st) of
        None \<Rightarrow> Inl (NotFound ''Customer not found'')
      | Some _ \<Rightarrow>
          let s = acDb st;
              mine = (\<lambda>ord. oTenantId ord = tenantId \<and> oCustomerId ord = Some customerId);
              s' = fold (\<lambda>ord. deleteUploadedFile (oPaymentProofUrl ord) tenantId) (filter mine (orders s))
                     (s\<lparr>orders := updateMany mine eraseOrder (orders s)\<rparr>)
          in Inr (st\<lparr>acDb := s',
               acCustomers := updateRow cuId customerId (\<lambda>c. c\<lparr>cuName := ''Deleted customer'', cuEmail := None,
                 cuPhone := None, cuPasswordHash := None\<rparr>) (acCustomers st),
               acCustomerSessions := revokeSessions (anow a) (\<lambda>r. snOwner r = customerId) (acCustomerSessions st),
               acCustomerMobile := revokeMobile (anow a) (\<lambda>m. msOwner m = customerId \<and> liveMobile m)
                 (acCustomerMobile st)\<rparr>))"

end
