(* ===== verification/Members.thy ===== *)
theory Members
  imports Accounts
begin

text \<open>
  The staff of a store (\<open>users/users.service.ts\<close>) and the phones that receive its pushes
  (\<open>devices/devices.service.ts\<close>). A member who leaves keeps their row, inactive; what they could do
  with a phone is revoked at once.
\<close>

section \<open>Phones\<close>

record RegisterDeviceDto =
  rdToken :: string
  rdPlatform :: DevicePlatform
  rdDeviceId :: string

text \<open>An upsert on the user and the device.\<close>

definition registerDevice :: "authEnv \<Rightarrow> accounts \<Rightarrow> uuid \<Rightarrow> uuid \<Rightarrow> RegisterDeviceDto \<Rightarrow> accounts \<times> uuid" where
  "registerDevice a st userId tenantId dto =
     (case findFirst (\<lambda>d. dvUserId d = userId \<and> dvDeviceId d = rdDeviceId dto) (acDevices st) of
        Some d \<Rightarrow>
          (st\<lparr>acDevices := updateRow dvId (dvId d)
                (\<lambda>d. d\<lparr>dvTenantId := tenantId, dvToken := rdToken dto, dvPlatform := rdPlatform dto,
                       dvLastSeenAt := anow a, dvRevokedAt := None\<rparr>) (acDevices st)\<rparr>, dvId d)
      | None \<Rightarrow>
          let d = \<lparr>dvId = eFresh (aeEnv a) 0, dvUserId = userId, dvTenantId = tenantId, dvToken = rdToken dto,
                   dvPlatform = rdPlatform dto, dvDeviceId = rdDeviceId dto, dvLastSeenAt = anow a,
                   dvRevokedAt = None\<rparr>
          in (st\<lparr>acDevices := acDevices st @ [d]\<rparr>, dvId d))"

definition revokeDevices :: "time \<Rightarrow> (deviceToken \<Rightarrow> bool) \<Rightarrow> deviceToken list \<Rightarrow> deviceToken list" where
  "revokeDevices now P t = updateMany (\<lambda>d. P d \<and> dvRevokedAt d = None) (\<lambda>d. d\<lparr>dvRevokedAt := Some now\<rparr>) t"

definition revokeDevice :: "authEnv \<Rightarrow> accounts \<Rightarrow> uuid \<Rightarrow> string \<Rightarrow> accounts" where
  "revokeDevice a st userId token =
     st\<lparr>acDevices := revokeDevices (anow a) (\<lambda>d. dvUserId d = userId \<and> dvToken d = token) (acDevices st)\<rparr>"

section \<open>Members\<close>

definition listMembers :: "accounts \<Rightarrow> uuid \<Rightarrow> (tenantMember \<times> user option) list" where
  "listMembers st tenantId =
     map (\<lambda>m. (m, map_option sanitizeUser (rowOf uId (tmUserId m) (users (acDb st)))))
       (findMany (\<lambda>m. tmTenantId m = tenantId \<and> tmIsActive m) tmCreatedAt (members (acDb st)))"

definition INVITE_LINK_TTL_MS :: int where
  "INVITE_LINK_TTL_MS = 72 * 60 * 60 * 1000"

record InviteStaffDto =
  inEmail :: string
  inName :: string
  inTemporaryPassword :: "string option"
  inPermissions :: "string list option"

definition memberOf :: "uuid \<Rightarrow> uuid \<Rightarrow> accounts \<Rightarrow> tenantMember option" where
  "memberOf tenantId userId st =
     findFirst (\<lambda>m. tmTenantId m = tenantId \<and> tmUserId m = userId) (members (acDb st))"

definition updateMemberRow :: "uuid \<Rightarrow> (tenantMember \<Rightarrow> tenantMember) \<Rightarrow> accounts \<Rightarrow> accounts" where
  "updateMemberRow memberId f st =
     st\<lparr>acDb := (acDb st)\<lparr>members := updateRow tmId memberId f (members (acDb st))\<rparr>\<rparr>"

definition addUser :: "user \<Rightarrow> accounts \<Rightarrow> accounts" where
  "addUser u st = st\<lparr>acDb := (acDb st)\<lparr>users := users (acDb st) @ [u]\<rparr>\<rparr>"

definition addMember :: "tenantMember \<Rightarrow> accounts \<Rightarrow> accounts" where
  "addMember m st = st\<lparr>acDb := (acDb st)\<lparr>members := members (acDb st) @ [m]\<rparr>\<rparr>"

text \<open>The account of an invited address: the one it has, or a new one with a random password.\<close>

definition invitedUser :: "authEnv \<Rightarrow> accounts \<Rightarrow> InviteStaffDto \<Rightarrow> accounts \<times> user \<times> bool" where
  "invitedUser a st dto =
     (case rowOf uEmail (inEmail dto) (users (acDb st)) of
        Some u \<Rightarrow> (st, u, False)
      | None \<Rightarrow>
          let u = newUser (eFresh (aeEnv a) 0) (inEmail dto)
                (aeBcrypt a (case inTemporaryPassword dto of Some p \<Rightarrow> p | None \<Rightarrow> eToken (aeEnv a) 3)) (inName dto)
          in (addUser u st, u, True))"

definition inviteEmail :: "authEnv \<Rightarrow> tenant \<Rightarrow> InviteStaffDto \<Rightarrow> string option \<Rightarrow> effect" where
  "inviteEmail a t dto raw = EmailJob ''staff-invite'' (Some (tId t)) (tLocale t) (inEmail dto)
     [(''name'', inName dto), (''store_name'', tName t),
      (''reset_link'', if truthy raw then staffPasswordLink (ePublicWebUrl (aeEnv a)) (the raw)
         else (case ePublicWebUrl (aeEnv a) of Some w \<Rightarrow> w | None \<Rightarrow> []) @ ''/login'')] True"

definition inviteStaff :: "authEnv \<Rightarrow> accounts \<Rightarrow> uuid \<Rightarrow> InviteStaffDto \<Rightarrow> (accounts \<times> tenantMember) res" where
  "inviteStaff a st tenantId dto =
     (let (st1, u, isNewUser) = invitedUser a st dto;
          existing = memberOf tenantId (uId u) st1;
          permissions = (case inPermissions dto of Some ps \<Rightarrow> ps | None \<Rightarrow> [])
      in if map_option tmIsActive existing = Some True
         then Inl (Conflict ''User is already a member of this store'')
         else
           let (st2, m) = (case existing of
                 Some m \<Rightarrow>
                   let back = (\<lambda>m. m\<lparr>tmIsActive := True, tmRole := STAFF, tmPermissions := permissions\<rparr>)
                   in (updateMemberRow (tmId m) back st1, back m)
               | None \<Rightarrow>
                   let m = newMember (eFresh (aeEnv a) 2) tenantId (uId u) STAFF permissions (anow a)
                   in (addMember m st1, m))
           in case rowOf tId tenantId (tenants (acDb st2)) of
                None \<Rightarrow> Inl RecordNotFound
              | Some t \<Rightarrow>
                  let (st3, raw) = (if isNewUser
                        then let (st3, raw) = issuePasswordResetToken a (uId u) INVITE_LINK_TTL_MS st2 in (st3, Some raw)
                        else (st2, None))
                  in Inr (emitAccounts (inviteEmail a t dto raw) st3, m))"

text \<open>Stops the pushes to a member's phones in a store and ends their mobile sessions there.\<close>

definition revokeDeviceAccess :: "authEnv \<Rightarrow> uuid \<Rightarrow> uuid \<Rightarrow> accounts \<Rightarrow> accounts" where
  "revokeDeviceAccess a userId tenantId st =
     st\<lparr>acDevices := revokeDevices (anow a) (\<lambda>d. dvUserId d = userId \<and> dvTenantId d = tenantId) (acDevices st),
        acMobile := revokeMobile (anow a)
          (\<lambda>m. msOwner m = userId \<and> msTenantId m = Some tenantId \<and> liveMobile m) (acMobile st)\<rparr>"

record UpdateMemberDto =
  umPermissions :: "string list option"
  umIsActive :: "bool option"

text \<open>A member of the store other than its owner, or the refusal of the operation.\<close>

definition staffMember :: "accounts \<Rightarrow> uuid \<Rightarrow> uuid \<Rightarrow> string \<Rightarrow> tenantMember res" where
  "staffMember st tenantId memberId refusal =
     (case findFirst (\<lambda>m. tmId m = memberId \<and> tmTenantId m = tenantId) (members (acDb st)) of
        None \<Rightarrow> Inl (NotFound ''Member not found'')
      | Some m \<Rightarrow> if tmRole m = OWNER then Inl (Conflict refusal) else Inr m)"

definition patchMember :: "UpdateMemberDto \<Rightarrow> tenantMember \<Rightarrow> tenantMember" where
  "patchMember dto m = m\<lparr>tmPermissions := (case umPermissions dto of Some ps \<Rightarrow> ps | None \<Rightarrow> tmPermissions m),
     tmIsActive := (case umIsActive dto of Some b \<Rightarrow> b | None \<Rightarrow> tmIsActive m)\<rparr>"

definition updateMember ::
    "authEnv \<Rightarrow> accounts \<Rightarrow> uuid \<Rightarrow> uuid \<Rightarrow> UpdateMemberDto \<Rightarrow> (accounts \<times> tenantMember) res" where
  "updateMember a st tenantId memberId dto =
     bind_res (staffMember st tenantId memberId ''Cannot modify the store owner membership'') (\<lambda>m.
       let st1 = updateMemberRow memberId (patchMember dto) st
       in Inr (if umIsActive dto = Some False then revokeDeviceAccess a (tmUserId m) tenantId st1 else st1,
               patchMember dto m))"

definition removeMember :: "authEnv \<Rightarrow> accounts \<Rightarrow> uuid \<Rightarrow> uuid \<Rightarrow> accounts res" where
  "removeMember a st tenantId memberId =
     bind_res (staffMember st tenantId memberId ''Cannot remove the store owner'') (\<lambda>m.
       Inr (revokeDeviceAccess a (tmUserId m) tenantId
         (updateMemberRow memberId (\<lambda>m. m\<lparr>tmIsActive := False\<rparr>) st)))"

definition resetMemberPassword :: "authEnv \<Rightarrow> accounts \<Rightarrow> uuid \<Rightarrow> uuid \<Rightarrow> accounts res" where
  "resetMemberPassword a st tenantId memberId =
     bind_res (staffMember st tenantId memberId ''Cannot reset the store owner's password this way'') (\<lambda>m.
       case rowOf uId (tmUserId m) (users (acDb st)) of
         None \<Rightarrow> Inl RecordNotFound
       | Some u \<Rightarrow>
           (case rowOf tId tenantId (tenants (acDb st)) of
              None \<Rightarrow> Inl RecordNotFound
            | Some t \<Rightarrow>
                let (st', raw) = issuePasswordResetToken a (tmUserId m) PASSWORD_RESET_TOKEN_TTL_MS st
                in Inr (emitAccounts (resetEmail a t u raw) st')))"

end
