(* ===== verification/Sessions.thy ===== *)
theory Sessions
  imports CustomerAccounts Members
begin

text \<open>
  The life of the sessions of staff and customers: every operation that writes a session, in any
  order. What the mobile token families promise is stated once, over any table of tokens and any steps
  that move it the allowed ways, and holds for both tables: a family never has two tokens in use, and a
  family that was ended stays so.
\<close>

section \<open>Token families\<close>

definition dead :: "uuid \<Rightarrow> mobileSession list \<Rightarrow> bool" where
  "dead F T = (F \<in> msFamilyId ` set T \<and> list_all (\<lambda>m. msFamilyId m = F \<longrightarrow> \<not> liveMobile m) T)"

definition inUse :: "uuid \<Rightarrow> mobileSession list \<Rightarrow> nat" where
  "inUse F T = countRows (\<lambda>m. msFamilyId m = F \<and> liveMobile m) T"

text \<open>
  How a step may move a table: revoke some tokens, and add at most one, which starts a family of its
  own or takes the place of a token in use that the same step revokes.
\<close>

definition familyMove :: "mobileSession list \<Rightarrow> mobileSession list \<Rightarrow> bool" where
  "familyMove T T' = (\<exists>P now. T' = revokeMobile now P T
     \<or> (\<exists>new. T' = revokeMobile now P T @ [new]
          \<and> (msFamilyId new \<notin> msFamilyId ` set T
             \<or> (\<exists>stored \<in> set T. liveMobile stored \<and> P stored \<and> msFamilyId stored = msFamilyId new))))"

lemma revokeMobile_families [simp]: "msFamilyId ` set (revokeMobile now P T) = msFamilyId ` set T"
proof -
  have "map msFamilyId (revokeMobile now P T) = map msFamilyId T"
    by (simp add: revokeMobile_def map_updateMany_key)
  then show ?thesis by (metis list.set_map)
qed

lemma revokeMobile_live: "m \<in> set (revokeMobile now P T) \<Longrightarrow> liveMobile m \<Longrightarrow> m \<in> set T \<and> \<not> P m"
proof -
  assume m: "m \<in> set (revokeMobile now P T)" "liveMobile m"
  then obtain q where "q \<in> set T" "m = (if P q then q\<lparr>msRevokedAt := Some now\<rparr> else q)"
    by (auto simp: revokeMobile_def in_set_updateMany)
  with m(2) show ?thesis by (cases "P q") (simp_all add: liveMobile_def)
qed

lemma inUse_revoke: "inUse F (revokeMobile now P T) = countRows (\<lambda>m. msFamilyId m = F \<and> liveMobile m \<and> \<not> P m) T"
  by (induction T) (auto simp: inUse_def revokeMobile_def liveMobile_def)

lemma countRows_strict:
  assumes "\<And>r. P r \<Longrightarrow> Q r" "x \<in> set t" "Q x" "\<not> P x"
  shows "countRows P t < countRows Q t"
  using assms(2)
proof (induction t)
  case (Cons y t)
  then show ?case
    using assms(1,3,4) countRows_mono [of P Q t] by (cases "x = y") (auto simp: less_Suc_eq_le le_SucI)
qed simp

lemma inUse_0_iff: "inUse F T = 0 \<longleftrightarrow> list_all (\<lambda>m. msFamilyId m = F \<longrightarrow> \<not> liveMobile m) T"
  by (auto simp: inUse_def countRows_0_iff list_all_iff)

text \<open>What every implementation of rotating tokens promises.\<close>

locale refresh_families =
  fixes tokens :: "'s \<Rightarrow> mobileSession list"
    and step :: "'s \<Rightarrow> 's \<Rightarrow> bool"
  assumes moves: "step s s' \<Longrightarrow> familyMove (tokens s) (tokens s')"
begin

lemma step_dead:
  assumes "step s s'" "dead F (tokens s)"
  shows "dead F (tokens s')"
proof -
  obtain P now where "tokens s' = revokeMobile now P (tokens s)
      \<or> (\<exists>new. tokens s' = revokeMobile now P (tokens s) @ [new]
          \<and> (msFamilyId new \<notin> msFamilyId ` set (tokens s)
             \<or> (\<exists>stored \<in> set (tokens s). liveMobile stored \<and> P stored \<and> msFamilyId stored = msFamilyId new)))"
    using moves [OF assms(1)] unfolding familyMove_def by blast
  moreover have "list_all (\<lambda>m. msFamilyId m = F \<longrightarrow> \<not> liveMobile m) (revokeMobile now P (tokens s))"
    using assms(2) by (auto simp: dead_def list_all_iff dest: revokeMobile_live)
  ultimately show ?thesis
    using assms(2) revokeMobile_families [of now P "tokens s"]
    by (auto simp: dead_def list_all_iff)
qed

lemma run_dead: "step\<^sup>*\<^sup>* s s' \<Longrightarrow> dead F (tokens s) \<Longrightarrow> dead F (tokens s')"
  by (induction rule: rtranclp_induct) (auto intro: step_dead)

lemma step_single:
  assumes "step s s'" "inUse F (tokens s) \<le> 1"
  shows "inUse F (tokens s') \<le> 1"
proof -
  obtain P now where "tokens s' = revokeMobile now P (tokens s)
      \<or> (\<exists>new. tokens s' = revokeMobile now P (tokens s) @ [new]
          \<and> (msFamilyId new \<notin> msFamilyId ` set (tokens s)
             \<or> (\<exists>stored \<in> set (tokens s). liveMobile stored \<and> P stored \<and> msFamilyId stored = msFamilyId new)))"
    using moves [OF assms(1)] unfolding familyMove_def by blast
  moreover have le: "inUse F (revokeMobile now P (tokens s)) \<le> inUse F (tokens s)"
    unfolding inUse_revoke unfolding inUse_def by (rule countRows_mono) simp
  moreover have "inUse F (revokeMobile now P (tokens s) @ [new]) \<le> 1"
    if new: "msFamilyId new \<notin> msFamilyId ` set (tokens s)
      \<or> (\<exists>stored \<in> set (tokens s). liveMobile stored \<and> P stored \<and> msFamilyId stored = msFamilyId new)" for new
  proof (cases "msFamilyId new = F")
    case False
    then show ?thesis using le assms(2) by (simp add: inUse_def)
  next
    case True
    have "inUse F (revokeMobile now P (tokens s)) = 0"
    proof (cases "F \<in> msFamilyId ` set (tokens s)")
      case False
      then show ?thesis by (auto simp: inUse_revoke countRows_0_iff)
    next
      case fam: True
      then obtain stored where st: "stored \<in> set (tokens s)" "liveMobile stored" "P stored" "msFamilyId stored = F"
        using new True by auto
      have "inUse F (revokeMobile now P (tokens s)) < inUse F (tokens s)"
        unfolding inUse_revoke unfolding inUse_def using st by (intro countRows_strict [where x = stored]) auto
      then show ?thesis using assms(2) by simp
    qed
    then show ?thesis by (simp add: inUse_def)
  qed
  ultimately show ?thesis using assms(2) by (metis le_trans)
qed

lemma run_single: "step\<^sup>*\<^sup>* s s' \<Longrightarrow> inUse F (tokens s) \<le> 1 \<Longrightarrow> inUse F (tokens s') \<le> 1"
  by (induction rule: rtranclp_induct) (auto intro: step_single simp del: One_nat_def)

end

section \<open>Every operation moves the tables so\<close>

lemma revokeMobile_revokeMobile:
  "revokeMobile now P (revokeMobile now Q T) = revokeMobile now (\<lambda>m. Q m \<or> P m) T"
  by (induction T) (auto simp: revokeMobile_def)

lemma move_revoke: "familyMove T (revokeMobile now P T)"
  unfolding familyMove_def by blast

lemma revoke_none: "revokeMobile now (\<lambda>_. False) T = T"
  by (induction T) (simp_all add: revokeMobile_def)

lemma move_refl [simp]: "familyMove T T"
  using move_revoke [of T _ "\<lambda>_. False"] by (simp add: revoke_none)

lemma move_new: "msFamilyId new \<notin> msFamilyId ` set T \<Longrightarrow> familyMove T (revokeMobile now P T @ [new])"
  unfolding familyMove_def by blast

lemma move_rotate:
  "stored \<in> set T \<Longrightarrow> liveMobile stored \<Longrightarrow> P stored \<Longrightarrow> msFamilyId stored = msFamilyId new
    \<Longrightarrow> familyMove T (revokeMobile now P T @ [new])"
  unfolding familyMove_def by blast

text \<open>A rotation written while its token is in use moves the table so.\<close>

definition stillInUse :: "mobileSession \<Rightarrow> mobileSession list \<Rightarrow> bool" where
  "stillInUse stored T = (\<exists>m \<in> set T. msId m = msId stored \<and> msFamilyId m = msFamilyId stored \<and> liveMobile m)"

fun punctual :: "'acc RefreshDecision \<Rightarrow> mobileSession list \<Rightarrow> bool" where
  "punctual (RotateToken stored _) T = stillInUse stored T"
| "punctual _ T = True"

lemma move_in_use:
  assumes "stillInUse stored T" "msFamilyId new = msFamilyId stored"
  shows "familyMove T (revokeMobile now (\<lambda>m. msId m = msId stored) T @ [new])"
proof -
  obtain m where "m \<in> set T" "liveMobile m" "msId m = msId stored" "msFamilyId m = msFamilyId new"
    using assms by (auto simp: stillInUse_def)
  then show ?thesis by (intro move_rotate [of m])
qed

lemma mobileRefreshWrite_table:
  "\<exists>P. acMobile (fst (mobileRefreshWrite a d st)) = revokeMobile (anow a) P (acMobile st)
    \<or> (\<exists>stored u new. d = RotateToken stored u \<and> P = (\<lambda>m. msId m = msId stored) \<and> msFamilyId new = msFamilyId stored
         \<and> acMobile (fst (mobileRefreshWrite a d st)) = revokeMobile (anow a) P (acMobile st) @ [new])"
proof (cases d)
  case RefuseToken
  then show ?thesis
    by (intro exI [of _ "\<lambda>_. False"]) (simp add: mobileRefreshWrite_def revoke_none)
next
  case (RotateToken stored u)
  then show ?thesis
    by (auto simp: mobileRefreshWrite_def Let_def createMobileRefreshToken_def revokeMobile_revokeMobile)
qed (auto simp: mobileRefreshWrite_def)

lemma customerMobileRefreshWrite_table:
  "\<exists>P. acCustomerMobile (fst (customerMobileRefreshWrite a d st)) = revokeMobile (anow a) P (acCustomerMobile st)
    \<or> (\<exists>stored c new. d = RotateToken stored c \<and> P = (\<lambda>m. msId m = msId stored) \<and> msFamilyId new = msFamilyId stored
         \<and> acCustomerMobile (fst (customerMobileRefreshWrite a d st)) = revokeMobile (anow a) P (acCustomerMobile st) @ [new])"
proof (cases d)
  case RefuseToken
  then show ?thesis
    by (intro exI [of _ "\<lambda>_. False"]) (simp add: customerMobileRefreshWrite_def revoke_none)
next
  case (RotateToken stored c)
  then show ?thesis
    by (auto simp: customerMobileRefreshWrite_def Let_def createCustomerMobile_def)
qed (auto simp: customerMobileRefreshWrite_def)

lemma mobileRefreshWrite_move:
  assumes "punctual d (acMobile st)"
  shows "familyMove (acMobile st) (acMobile (fst (mobileRefreshWrite a d st)))"
  using mobileRefreshWrite_table [of a d st] assms
  by (auto simp: move_revoke intro: move_in_use)

lemma customerMobileRefreshWrite_move:
  assumes "punctual d (acCustomerMobile st)"
  shows "familyMove (acCustomerMobile st) (acCustomerMobile (fst (customerMobileRefreshWrite a d st)))"
  using customerMobileRefreshWrite_table [of a d st] assms
  by (auto simp: move_revoke intro: move_in_use)

lemma read_punctual: "punctual (mobileRefreshRead a st dto) (acMobile st)"
  by (auto simp: mobileRefreshRead_def stillInUse_def liveMobile_def split: option.split dest: findFirst_SomeD)

lemma customer_read_punctual: "punctual (customerMobileRefreshRead a st dto) (acCustomerMobile st)"
  by (auto simp: customerMobileRefreshRead_def stillInUse_def liveMobile_def split: option.split dest: findFirst_SomeD)

lemma mobileRefresh_move: "familyMove (acMobile st) (acMobile (fst (mobileRefresh a st dto)))"
  unfolding mobileRefresh_def by (rule mobileRefreshWrite_move [OF read_punctual])

lemma customerMobileRefresh_move:
  "familyMove (acCustomerMobile st) (acCustomerMobile (fst (customerMobileRefresh a st dto)))"
  unfolding customerMobileRefresh_def by (rule customerMobileRefreshWrite_move [OF customer_read_punctual])

text \<open>A rotation adds one token at most, whenever it is written.\<close>

lemma inUse_write:
  assumes "T' = revokeMobile now P T \<or> (\<exists>new. T' = revokeMobile now P T @ [new])"
  shows "inUse F T' \<le> inUse F T + 1"
proof -
  have "inUse F (revokeMobile now P T) \<le> inUse F T"
    unfolding inUse_revoke unfolding inUse_def by (rule countRows_mono) simp
  with assms show ?thesis by (auto simp: inUse_def)
qed

lemma mobileRefreshWrite_inUse:
  "inUse F (acMobile (fst (mobileRefreshWrite a d st))) \<le> inUse F (acMobile st) + 1"
  using mobileRefreshWrite_table [of a d st] by (blast intro: inUse_write)

lemma customerMobileRefreshWrite_inUse:
  "inUse F (acCustomerMobile (fst (customerMobileRefreshWrite a d st))) \<le> inUse F (acCustomerMobile st) + 1"
  using customerMobileRefreshWrite_table [of a d st] by (blast intro: inUse_write)

lemma refreshWrite_other:
  "acCustomerMobile (fst (mobileRefreshWrite a d st)) = acCustomerMobile st"
  "acMobile (fst (customerMobileRefreshWrite a d' st)) = acMobile st"
  by (simp_all add: mobileRefreshWrite_def customerMobileRefreshWrite_def Let_def createMobileRefreshToken_def
      createCustomerMobile_def split: RefreshDecision.split)

text \<open>The family id of a login is new to both tables.\<close>

definition newFamily :: "authEnv \<Rightarrow> accounts \<Rightarrow> bool" where
  "newFamily a st = (eFresh (aeEnv a) 5 \<notin> msFamilyId ` set (acMobile st) \<union> msFamilyId ` set (acCustomerMobile st))"

lemma issueSession_move:
  assumes "issueSession a u tn role dev st = (st', r)" "newFamily a st"
  shows "familyMove (acMobile st) (acMobile st')" "acCustomerMobile st' = acCustomerMobile st"
  using assms
  by (auto simp: issueSession_def issueTokenPair_def issueFreshMobileRefreshToken_def createMobileRefreshToken_def
      Let_def newFamily_def revokeMobile_def [symmetric] split: if_splits intro!: move_new)

lemma issueCustomerSession_move:
  assumes "issueCustomerSession a c tn dev st = (st', r)" "newFamily a st"
  shows "familyMove (acCustomerMobile st) (acCustomerMobile st')" "acMobile st' = acMobile st"
  using assms
  by (auto simp: issueCustomerSession_def issueCustomerPair_def issueFreshCustomerMobile_def createCustomerMobile_def
      Let_def newFamily_def split: if_splits intro!: move_new)

text \<open>Every operation that writes a session; each acts at its own time with its own random values.\<close>

inductive accountStep :: "accounts \<Rightarrow> accounts \<Rightarrow> bool" where
  Rotate: "accountStep st (fst (mobileRefresh a st dto))"
| Login: "completeLogin a st u dev = Inr (st', r) \<Longrightarrow> newFamily a st \<Longrightarrow> accountStep st st'"
| Register: "register a st rdto = Inr (st', t, r) \<Longrightarrow> newFamily a st \<Longrightarrow> accountStep st st'"
| Switch: "switchTenant a st u tn dev = Inr (st', r) \<Longrightarrow> newFamily a st \<Longrightarrow> accountStep st st'"
| Refresh: "accountStep st (fst (refresh a st raw))"
| Logout: "accountStep st (logout a st u kept)"
| Enable: "enableTwoFactor a th st u code kept = (th', Inr st') \<Longrightarrow> accountStep st st'"
| Disable: "disableTwoFactor a th st u code kept = (th', Inr st') \<Longrightarrow> accountStep st st'"
| Setup: "setupTwoFactor a st u = Inr (st', secret) \<Longrightarrow> accountStep st st'"
| Forgot: "forgotPassword a st email = Inr st' \<Longrightarrow> accountStep st st'"
| Reset: "resetPassword a st token pw = Inr st' \<Longrightarrow> accountStep st st'"
| CRotate: "accountStep st (fst (customerMobileRefresh a st dto))"
| CLogin: "loginCustomer a th st tn ldto = (th', Inr (st', cr)) \<Longrightarrow> newFamily a st \<Longrightarrow> accountStep st st'"
| CRegister: "registerCustomer a st tn cdto = Inr (st', cr) \<Longrightarrow> newFamily a st \<Longrightarrow> accountStep st st'"
| CRefresh: "refreshCustomer a st raw = Inr (st', x, y) \<Longrightarrow> accountStep st st'"
| CLogout: "accountStep st (logoutCustomer a st u kept)"
| CForgot: "forgotPasswordCustomer a st tn email = Inr st' \<Longrightarrow> accountStep st st'"
| CReset: "resetPasswordCustomer a st tn token pw = Inr st' \<Longrightarrow> accountStep st st'"
| Anonymize: "anonymize a st tn u = Inr st' \<Longrightarrow> accountStep st st'"
| Invite: "inviteStaff a st tn idto = Inr (st', m) \<Longrightarrow> accountStep st st'"
| Update: "updateMember a st tn i udto = Inr (st', m) \<Longrightarrow> accountStep st st'"
| Remove: "removeMember a st tn i = Inr st' \<Longrightarrow> accountStep st st'"
| ResetMember: "resetMemberPassword a st tn i = Inr st' \<Longrightarrow> accountStep st st'"
| Phone: "accountStep st (fst (registerDevice a st u tn ddto))"
| PhoneOff: "accountStep st (revokeDevice a st u token)"

inductive_cases accountStepE: "accountStep st st'"

text \<open>What a step does to both tables of tokens, operation by operation.\<close>

definition moves :: "accounts \<Rightarrow> accounts \<Rightarrow> bool" where
  "moves st st' = (familyMove (acMobile st) (acMobile st') \<and> familyMove (acCustomerMobile st) (acCustomerMobile st'))"

lemma moves_same: "acMobile st' = acMobile st \<Longrightarrow> acCustomerMobile st' = acCustomerMobile st \<Longrightarrow> moves st st'"
  by (simp add: moves_def)

lemma emitAccounts_tables [simp]:
  "acMobile (emitAccounts x st) = acMobile st" "acCustomerMobile (emitAccounts x st) = acCustomerMobile st"
  by (simp_all add: emitAccounts_def)

lemma issueSession_moves:
  assumes "issueSession a u tn role dev st1 = (st', r)" "newFamily a st"
    and "acMobile st1 = acMobile st" "acCustomerMobile st1 = acCustomerMobile st"
  shows "moves st st'"
  using issueSession_move [OF assms(1)] assms(2-) by (simp add: moves_def newFamily_def)

lemma issueCustomerSession_moves:
  assumes "issueCustomerSession a c tn dev st1 = (st', r)" "newFamily a st"
    and "acMobile st1 = acMobile st" "acCustomerMobile st1 = acCustomerMobile st"
  shows "moves st st'"
  using issueCustomerSession_move [OF assms(1)] assms(2-) by (simp add: moves_def newFamily_def)

lemma rotate_moves:
  "moves st (fst (mobileRefresh a st dto))" "moves st (fst (customerMobileRefresh a st dto))"
  using mobileRefresh_move customerMobileRefresh_move
  by (simp_all add: moves_def mobileRefresh_def customerMobileRefresh_def refreshWrite_other)

lemma login_moves:
  "completeLogin a st u dev = Inr (st', r) \<Longrightarrow> newFamily a st \<Longrightarrow> moves st st'"
  by (auto simp: completeLogin_def Let_def split: option.splits intro: issueSession_moves)

lemma register_moves:
  assumes "register a st rdto = Inr (st', t, r)" "newFamily a st"
  shows "moves st st'"
proof -
  obtain u st1 where "issueSession a u (Some (tId t)) (Some OWNER) (rgDeviceId rdto) st1 = (st', r)"
      "acMobile st1 = acMobile st" "acCustomerMobile st1 = acCustomerMobile st"
    using assms(1) by (auto simp: register_def Let_def split: if_splits prod.splits)
  with assms(2) show ?thesis by (blast intro: issueSession_moves)
qed

lemma switch_moves:
  "switchTenant a st u tn dev = Inr (st', r) \<Longrightarrow> newFamily a st \<Longrightarrow> moves st st'"
  by (auto simp: switchTenant_def Let_def split: option.splits prod.splits intro: issueSession_moves)

lemma web_moves:
  "moves st (fst (refresh a st raw))"
  "refreshCustomer a st raw = Inr (st', x, y) \<Longrightarrow> moves st st'"
  "moves st (logout a st u kept)" "moves st (logoutCustomer a st u kept)"
  by (auto simp: refresh_def issueTokenPair_def refreshCustomer_def issueCustomerPair_def logout_def
      logoutCustomer_def Let_def split: option.splits if_splits intro!: moves_same)

lemma second_factor_moves:
  "enableTwoFactor a th st u code kept = (th', Inr st') \<Longrightarrow> moves st st'"
  "disableTwoFactor a th st u code kept = (th', Inr st') \<Longrightarrow> moves st st'"
  "setupTwoFactor a st u = Inr (st', secret) \<Longrightarrow> moves st st'"
  by (auto simp: enableTwoFactor_def disableTwoFactor_def setupTwoFactor_def revokeOtherSessions_def updateUser_def
      moves_def split: sum.splits option.splits if_splits intro: move_revoke)

lemma reset_moves:
  "forgotPassword a st email = Inr st' \<Longrightarrow> moves st st'"
  "resetPassword a st token pw = Inr st' \<Longrightarrow> moves st st'"
  by (auto simp: forgotPassword_def issuePasswordResetToken_def resetPassword_def updateUser_def moves_def Let_def
      split: option.splits if_splits intro: move_revoke)

lemma customer_reset_moves:
  "forgotPasswordCustomer a st tn email = Inr st' \<Longrightarrow> moves st st'"
  "resetPasswordCustomer a st tn token pw = Inr st' \<Longrightarrow> moves st st'"
  "anonymize a st tn u = Inr st' \<Longrightarrow> moves st st'"
  by (auto simp: forgotPasswordCustomer_def resetPasswordCustomer_def anonymize_def moves_def Let_def
      split: option.splits if_splits intro: move_revoke)

lemma customer_login_moves:
  "loginCustomer a th st tn ldto = (th', Inr (st', cr)) \<Longrightarrow> newFamily a st \<Longrightarrow> moves st st'"
  "registerCustomer a st tn cdto = Inr (st', cr) \<Longrightarrow> newFamily a st \<Longrightarrow> moves st st'"
  by (auto simp: loginCustomer_def registerCustomer_def Let_def split: sum.splits if_splits
      intro: issueCustomerSession_moves)

lemma invite_moves: "inviteStaff a st tn idto = Inr (st', m) \<Longrightarrow> moves st st'"
  by (auto simp: inviteStaff_def invitedUser_def issuePasswordResetToken_def addUser_def addMember_def
      updateMemberRow_def Let_def split: option.splits if_splits prod.splits intro!: moves_same)

lemma member_moves:
  "updateMember a st tn i udto = Inr (st', m) \<Longrightarrow> moves st st'"
  "removeMember a st tn i = Inr st' \<Longrightarrow> moves st st'"
  by (auto simp: updateMember_def removeMember_def bind_res_eq_Inr revokeDeviceAccess_def
      updateMemberRow_def moves_def Let_def split: if_splits intro: move_revoke)

lemma member_reset_moves:
  assumes "resetMemberPassword a st tn i = Inr st'"
  shows "moves st st'"
  using assms unfolding resetMemberPassword_def bind_res_eq_Inr
  by (elim exE conjE)
    (auto simp: issuePasswordResetToken_def Let_def split: option.split_asm intro!: moves_same)

lemma phone_moves: "moves st (fst (registerDevice a st u tn ddto))" "moves st (revokeDevice a st u token)"
  by (simp_all add: moves_def registerDevice_def revokeDevice_def Let_def split: option.split)

lemmas step_lemmas = rotate_moves login_moves register_moves switch_moves web_moves second_factor_moves
  reset_moves customer_reset_moves customer_login_moves invite_moves member_moves member_reset_moves phone_moves

lemma step_moves:
  assumes "accountStep st st'"
  shows "familyMove (acMobile st) (acMobile st')" "familyMove (acCustomerMobile st) (acCustomerMobile st')"
proof -
  have "moves st st'" using assms by cases (blast intro: step_lemmas)+
  then show "familyMove (acMobile st) (acMobile st')" "familyMove (acCustomerMobile st) (acCustomerMobile st')"
    by (simp_all add: moves_def)
qed

interpretation staff: refresh_families acMobile accountStep
  by unfold_locales (rule step_moves)

interpretation customers: refresh_families acCustomerMobile accountStep
  by unfold_locales (rule step_moves)

lemma mobileRefresh_reuse:
  assumes "findFirst (\<lambda>m. msTokenHash m = hashToken a (mrRefreshToken dto)) (acMobile st) = Some stored"
    and "msRevokedAt stored \<noteq> None \<or> msDeviceId stored \<noteq> mrDeviceId dto"
  shows "snd (mobileRefresh a st dto) = MobileRefreshFailed"
    and "dead (msFamilyId stored) (acMobile (fst (mobileRefresh a st dto)))"
  using assms findFirst_SomeD [OF assms(1)]
  by (auto simp: mobileRefresh_def mobileRefreshRead_def mobileRefreshWrite_def ofFamily_def Let_def dead_def list_all_iff
      dest: revokeMobile_live)

text \<open>A family that was ended refuses all its tokens.\<close>

lemma dead_refused:
  assumes "dead F (acMobile st)"
    and "findFirst (\<lambda>m. msTokenHash m = hashToken a (mrRefreshToken dto)) (acMobile st) = Some m" "msFamilyId m = F"
  shows "snd (mobileRefresh a st dto) = MobileRefreshFailed"
proof (rule mobileRefresh_reuse(1) [OF assms(2)])
  show "msRevokedAt m \<noteq> None \<or> msDeviceId m \<noteq> mrDeviceId dto"
    using assms(1,3) findFirst_SomeD [OF assms(2)] by (auto simp: dead_def list_all_iff liveMobile_def)
qed

section \<open>Refreshes that overlap\<close>

text \<open>
  The same life with the two phases of a refresh as steps of their own: the decisions that were read and
  not yet written, and how many were written late, that is, as a rotation of a token that had been revoked since it
  was read.
\<close>

datatype Pending = StaffRefresh authEnv "user RefreshDecision" | CustomerRefresh authEnv "customer RefreshDecision"

fun writePending :: "Pending \<Rightarrow> accounts \<Rightarrow> accounts" where
  "writePending (StaffRefresh a d) st = fst (mobileRefreshWrite a d st)"
| "writePending (CustomerRefresh a d) st = fst (customerMobileRefreshWrite a d st)"

fun onTime :: "Pending \<Rightarrow> accounts \<Rightarrow> bool" where
  "onTime (StaffRefresh a d) st = punctual d (acMobile st)"
| "onTime (CustomerRefresh a d) st = punctual d (acCustomerMobile st)"

inductive overlapStep :: "accounts \<times> Pending list \<times> nat \<Rightarrow> accounts \<times> Pending list \<times> nat \<Rightarrow> bool" where
  Whole: "accountStep st st' \<Longrightarrow> overlapStep (st, ps, n) (st', ps, n)"
| ReadStaff: "overlapStep (st, ps, n) (st, StaffRefresh a (mobileRefreshRead a st dto) # ps, n)"
| ReadCustomer: "overlapStep (st, ps, n) (st, CustomerRefresh a (customerMobileRefreshRead a st dto) # ps, n)"
| WriteRefresh: "p \<in> set ps \<Longrightarrow>
    overlapStep (st, ps, n) (writePending p st, remove1 p ps, n + (if onTime p st then 0 else 1))"

lemma writePending_inUse:
  "inUse F (acMobile (writePending p st)) \<le> inUse F (acMobile st) + 1"
  "inUse F (acCustomerMobile (writePending p st)) \<le> inUse F (acCustomerMobile st) + 1"
  by (cases p; simp add: refreshWrite_other mobileRefreshWrite_inUse customerMobileRefreshWrite_inUse
      del: One_nat_def add_Suc_right)+

lemma move_inUse:
  assumes "familyMove T T'" "inUse F T \<le> Suc n"
  shows "inUse F T' \<le> Suc n"
proof -
  obtain P now where "T' = revokeMobile now P T
      \<or> (\<exists>new. T' = revokeMobile now P T @ [new]
          \<and> (msFamilyId new \<notin> msFamilyId ` set T
             \<or> (\<exists>stored \<in> set T. liveMobile stored \<and> P stored \<and> msFamilyId stored = msFamilyId new)))"
    using assms(1) unfolding familyMove_def by blast
  moreover have le: "inUse F (revokeMobile now P T) \<le> inUse F T"
    unfolding inUse_revoke unfolding inUse_def by (rule countRows_mono) simp
  moreover have "inUse F (revokeMobile now P T @ [new]) \<le> Suc n"
    if new: "msFamilyId new \<notin> msFamilyId ` set T
      \<or> (\<exists>stored \<in> set T. liveMobile stored \<and> P stored \<and> msFamilyId stored = msFamilyId new)" for new
  proof (cases "msFamilyId new = F")
    case False
    then show ?thesis using le assms(2) by (simp add: inUse_def)
  next
    case True
    show ?thesis
    proof (cases "F \<in> msFamilyId ` set T")
      case False
      then have "inUse F (revokeMobile now P T) = 0" by (auto simp: inUse_revoke countRows_0_iff)
      then show ?thesis by (simp add: inUse_def)
    next
      case fam: True
      then obtain stored where st: "stored \<in> set T" "liveMobile stored" "P stored" "msFamilyId stored = F"
        using new True by auto
      have "inUse F (revokeMobile now P T) < inUse F T"
        unfolding inUse_revoke unfolding inUse_def using st by (intro countRows_strict [where x = stored]) auto
      then show ?thesis using assms(2) by (simp add: inUse_def)
    qed
  qed
  ultimately show ?thesis using assms(2) by (metis le_trans)
qed

lemma punctual_moves: "onTime p st \<Longrightarrow> moves st (writePending p st)"
  by (cases p) (simp_all add: moves_def refreshWrite_other mobileRefreshWrite_move customerMobileRefreshWrite_move)

lemma overlap_bound:
  assumes "overlapStep\<^sup>*\<^sup>* c c'" and "inUse F (acMobile (fst c)) \<le> Suc (snd (snd c))"
    "inUse F (acCustomerMobile (fst c)) \<le> Suc (snd (snd c))"
  shows "inUse F (acMobile (fst c')) \<le> Suc (snd (snd c')) \<and> inUse F (acCustomerMobile (fst c')) \<le> Suc (snd (snd c'))"
  using assms
proof (induction rule: rtranclp_induct)
  case (step x y)
  then have ih: "inUse F (acMobile (fst x)) \<le> Suc (snd (snd x))" "inUse F (acCustomerMobile (fst x)) \<le> Suc (snd (snd x))"
    by blast+
  from step.hyps(2) show ?case
  proof cases
    case (Whole st st' ps n)
    then show ?thesis using ih step_moves [OF Whole(3)] move_inUse by auto
  next
    case (WriteRefresh p ps st n)
    show ?thesis
    proof (cases "onTime p st")
      case True
      then show ?thesis using ih punctual_moves [OF True] move_inUse WriteRefresh by (auto simp: moves_def)
    next
      case False
      then show ?thesis
        using ih writePending_inUse [where p = p and st = st and F = F] WriteRefresh by force
    qed
  qed (use ih in auto)
qed simp

section \<open>Properties\<close>

text \<open>
  C19: a mobile login has one token in use, but for refreshes that overlap. Over any run of logins,
  registrations, switches, rotations, resets, logouts and erasures, by staff and customers, in which the
  statements of the rotations may interleave with each other and with everything else, a token family of either
  kind has at most one token that is not revoked and one more for every rotation that was written late: after the
  token it had read was revoked by another request. So with no late rotation there is never a second one, given
  that it was so at the start and that the database generates new family ids.
\<close>

theorem one_token_in_use_per_family:
  assumes "overlapStep\<^sup>*\<^sup>* (st, [], 0) (st', pending, late)"
    and "inUse F (acMobile st) \<le> 1" "inUse F (acCustomerMobile st) \<le> 1"
  shows "inUse F (acMobile st') \<le> 1 + late \<and> inUse F (acCustomerMobile st') \<le> 1 + late"
  using overlap_bound [OF assms(1), of F] assms(2,3) by simp

text \<open>
  C20: a mobile token presented again after it was rotated away, or from another device, ends its
  whole family for good: the request is refused, and from then on, whatever staff and customers do, one
  request after another, no token of that family is accepted, the one the thief or the owner holds included.
\<close>

theorem replay_ends_family:
  assumes "findFirst (\<lambda>m. msTokenHash m = hashToken a (mrRefreshToken dto)) (acMobile st) = Some stored"
    and "msRevokedAt stored \<noteq> None \<or> msDeviceId stored \<noteq> mrDeviceId dto"
    and "accountStep\<^sup>*\<^sup>* (fst (mobileRefresh a st dto)) st'"
    and "findFirst (\<lambda>m. msTokenHash m = hashToken a' (mrRefreshToken dto')) (acMobile st') = Some m"
    and "msFamilyId m = msFamilyId stored"
  shows "snd (mobileRefresh a st dto) = MobileRefreshFailed \<and> snd (mobileRefresh a' st' dto') = MobileRefreshFailed"
proof -
  have "dead (msFamilyId stored) (acMobile st')"
    using assms(3) mobileRefresh_reuse(2) [OF assms(1,2)] by (rule staff.run_dead)
  with mobileRefresh_reuse(1) [OF assms(1,2)] dead_refused [OF _ assms(4,5)] show ?thesis by blast
qed

definition authEnv0 :: authEnv where
  "authEnv0 = \<lparr>aeEnv = env0, aeSignAccess = (\<lambda>p _. jpSub p),
     aeVerifyAccess = (\<lambda>t. Some \<lparr>jpSub = t, jpEmail = ''o@x'', jpGlobalRole = USER, jpTenantId = Some ''t1'',
       jpTenantRole = Some OWNER, jpImpersonatedBy = None, jpPurpose = None\<rparr>),
     aeSignRefresh = (\<lambda>p j t. jpSub p @ ''.'' @ j), aeVerifyRefresh = (\<lambda>raw. Some \<lparr>jpSub = ''u1'', jpEmail = ''o@x'',
       jpGlobalRole = USER, jpTenantId = None, jpTenantRole = None, jpImpersonatedBy = None, jpPurpose = None\<rparr>),
     aeSignChallenge = (\<lambda>u _. u), aeVerifyChallenge = (\<lambda>t. Some (t, ''2fa'')),
     aeSignCustomerAccess = (\<lambda>_ _. ''access''),
     aeVerifyCustomerAccess = (\<lambda>t. Some \<lparr>cjSub = t, cjTenantId = ''t1'', cjType = ''customer''\<rparr>),
     aeSignCustomerRefresh = (\<lambda>p t. cjSub p @ ''.'' @ string_of_int t),
     aeVerifyCustomerRefresh = (\<lambda>raw. Some \<lparr>cjSub = ''k1'', cjTenantId = ''t1'', cjType = ''customer''\<rparr>),
     aeExp = (\<lambda>_. 2000000000), aeBcrypt = id, aeCompare = (=), aeTotp = (=), aeNewSecret = ''123456'',
     aeStaffTtlDays = 7, aeCustomerTtlDays = 30\<rparr>"

definition owner0 :: user where
  "owner0 = newUser ''u1'' ''o@x'' ''secret'' ''Owner''"

definition customer0 :: customer where
  "customer0 = \<lparr>cuId = ''k1'', cuTenantId = ''t1'', cuEmail = Some ''a@x'', cuPhone = None, cuName = ''Ana'',
     cuPasswordHash = Some ''secret'', cuCreatedAt = 0\<rparr>"

text \<open>A phone whose first token, \<open>old\<close>, was rotated into \<open>new\<close>.\<close>

definition rotated0 :: mobileSession where
  "rotated0 = \<lparr>msId = ''m1'', msOwner = ''u1'', msFamilyId = ''f1'', msDeviceId = ''phone'', msTokenHash = ''h:old'',
     msTenantId = None, msTenantRole = None, msExpiresAt = 2000000000000, msRevokedAt = Some 1\<rparr>"

definition accounts0 :: accounts where
  "accounts0 = \<lparr>acDb = db0\<lparr>users := [owner0]\<rparr>,
     acSessions = [\<lparr>snId = ''n1'', snOwner = ''u1'', snTokenHash = ''h:web'', snExpiresAt = 2000000000000, snRevokedAt = None\<rparr>],
     acMobile = [rotated0, rotated0\<lparr>msId := ''m2'', msTokenHash := ''h:new'', msRevokedAt := None\<rparr>],
     acResets = [\<lparr>rkId = ''r1'', rkOwner = ''u1'', rkTokenHash = ''h:link'', rkExpiresAt = 2000000000000, rkUsedAt = None\<rparr>],
     acCustomers = [customer0], acCustomerSessions = [], acCustomerMobile = [], acCustomerResets = [], acDevices = []\<rparr>"

lemmas account_samples = authEnv0_def owner0_def newUser_def customer0_def rotated0_def accounts0_def
  hashToken_def anow_def

theorem one_token_in_use_per_family_witness:
  "inUse ''f1'' (acMobile (fst (mobileRefresh authEnv0 accounts0 \<lparr>mrRefreshToken = ''new'', mrDeviceId = ''phone''\<rparr>))) \<le> 1"
proof -
  have "overlapStep\<^sup>*\<^sup>* (accounts0, [], 0)
      (fst (mobileRefresh authEnv0 accounts0 \<lparr>mrRefreshToken = ''new'', mrDeviceId = ''phone''\<rparr>), [], 0)"
    by (intro r_into_rtranclp overlapStep.Whole accountStep.Rotate)
  moreover have "inUse ''f1'' (acMobile accounts0) \<le> 1" "inUse ''f1'' (acCustomerMobile accounts0) \<le> 1"
    by (simp_all add: inUse_def liveMobile_def account_samples)
  ultimately show ?thesis using one_token_in_use_per_family by fastforce
qed

text \<open>
  Two refreshes of one token that overlap leave two tokens in use. Both read the token while it was in
  use; both are answered with a new token of the family, and neither is refused or ends the family.
\<close>

theorem overlapping_refreshes_leave_two_tokens:
  assumes "mobileRefreshRead a st dto = RotateToken stored u" and "mobileRefreshRead a' st dto' = RotateToken stored u"
    and "\<not> truthy (msTenantId stored)" and "inUse (msFamilyId stored) (acMobile st) = 1"
    and "eFresh (aeEnv a) 6 \<noteq> msId stored"
  shows "case mobileRefreshWrite a (RotateToken stored u) st of (st1, r) \<Rightarrow>
    (case mobileRefreshWrite a' (RotateToken stored u) st1 of (st2, r') \<Rightarrow>
       r \<noteq> MobileRefreshFailed \<and> r' \<noteq> MobileRefreshFailed \<and> inUse (msFamilyId stored) (acMobile st2) = 2
       \<and> overlapStep\<^sup>*\<^sup>* (st, [], 0) (st2, [], 1))"
proof -
  let ?F = "msFamilyId stored" and ?P = "\<lambda>m. msId m = msId stored"
  define st1 where "st1 = fst (mobileRefreshWrite a (RotateToken stored u) st)"
  define st2 where "st2 = fst (mobileRefreshWrite a' (RotateToken stored u) st1)"
  obtain n1 where n1: "acMobile st1 = revokeMobile (anow a) ?P (acMobile st) @ [n1]" "msFamilyId n1 = ?F" "liveMobile n1"
      "msId n1 = eFresh (aeEnv a) 6"
    using assms(3) by (auto simp: st1_def mobileRefreshWrite_def Let_def createMobileRefreshToken_def liveMobile_def)
  obtain n2 where n2: "acMobile st2 = revokeMobile (anow a') ?P (acMobile st1) @ [n2]" "msFamilyId n2 = ?F" "liveMobile n2"
    using assms(3) by (auto simp: st2_def mobileRefreshWrite_def Let_def createMobileRefreshToken_def liveMobile_def)
  have ok: "snd (mobileRefreshWrite a (RotateToken stored u) st) \<noteq> MobileRefreshFailed"
      "snd (mobileRefreshWrite a' (RotateToken stored u) st1) \<noteq> MobileRefreshFailed"
    using assms(3) by (simp_all add: mobileRefreshWrite_def Let_def createMobileRefreshToken_def)
  have use: "stillInUse stored (acMobile st)" using read_punctual [of a st dto] assms(1) by simp
  then obtain m where m: "m \<in> set (acMobile st)" "msId m = msId stored" "msFamilyId m = ?F" "liveMobile m"
    by (auto simp: stillInUse_def)
  have "inUse ?F (revokeMobile (anow a) ?P (acMobile st)) < inUse ?F (acMobile st)"
    unfolding inUse_revoke unfolding inUse_def using m by (intro countRows_strict [where x = m]) auto
  then have zero: "inUse ?F (revokeMobile (anow a) ?P (acMobile st)) = 0" using assms(4) by simp
  have "countRows (\<lambda>m. msFamilyId m = ?F \<and> liveMobile m \<and> \<not> ?P m) (revokeMobile (anow a) ?P (acMobile st)) = 0"
    using zero by (auto simp: inUse_def countRows_0_iff)
  then have "inUse ?F (revokeMobile (anow a') ?P (acMobile st1)) = 1"
    unfolding inUse_revoke using n1 assms(5) by simp
  then have two: "inUse ?F (acMobile st2) = 2" using n2 by (simp add: inUse_def)
  have late: "\<not> stillInUse stored (acMobile st1)"
    using n1 assms(5) by (auto simp: stillInUse_def dest: revokeMobile_live)
  let ?p = "StaffRefresh a (RotateToken stored u)" and ?q = "StaffRefresh a' (RotateToken stored u)"
  have "overlapStep (st, [], 0) (st, [?p], 0)" using overlapStep.ReadStaff [of st "[]" 0 a dto] assms(1) by simp
  moreover have "overlapStep (st, [?p], 0) (st, [?q, ?p], 0)"
    using overlapStep.ReadStaff [of st "[?p]" 0 a' dto'] assms(2) by simp
  moreover have "overlapStep (st, [?q, ?p], 0) (st1, [?q], 0)"
  proof (cases "?p = ?q")
    case True
    then show ?thesis
      using overlapStep.WriteRefresh [of ?p "[?q, ?p]" st 0] use by (simp add: st1_def)
  next
    case False
    then show ?thesis
      using overlapStep.WriteRefresh [of ?p "[?q, ?p]" st 0] use by (auto simp: st1_def)
  qed
  moreover have "overlapStep (st1, [?q], 0) (st2, [], 1)"
    using overlapStep.WriteRefresh [of ?q "[?q]" st1 0] late by (simp add: st2_def)
  ultimately have "overlapStep\<^sup>*\<^sup>* (st, [], 0) (st2, [], 1)" by (meson converse_rtranclp_into_rtranclp rtranclp.rtrancl_refl)
  with ok two show ?thesis by (simp add: st1_def st2_def split_def)
qed

theorem replay_ends_family_witness:
  "snd (mobileRefresh authEnv0 accounts0 \<lparr>mrRefreshToken = ''new'', mrDeviceId = ''phone''\<rparr>) \<noteq> MobileRefreshFailed
   \<and> snd (mobileRefresh authEnv0 (fst (mobileRefresh authEnv0 accounts0 \<lparr>mrRefreshToken = ''old'', mrDeviceId = ''phone''\<rparr>))
       \<lparr>mrRefreshToken = ''new'', mrDeviceId = ''phone''\<rparr>) = MobileRefreshFailed"
proof
  show "snd (mobileRefresh authEnv0 accounts0 \<lparr>mrRefreshToken = ''new'', mrDeviceId = ''phone''\<rparr>) \<noteq> MobileRefreshFailed"
    by (simp add: mobileRefresh_def mobileRefreshRead_def mobileRefreshWrite_def account_samples Let_def createMobileRefreshToken_def env0_def)
  let ?st = "fst (mobileRefresh authEnv0 accounts0 \<lparr>mrRefreshToken = ''old'', mrDeviceId = ''phone''\<rparr>)"
  have "findFirst (\<lambda>m. msTokenHash m = hashToken authEnv0 ''old'') (acMobile accounts0) = Some rotated0"
    by (simp add: account_samples env0_def)
  moreover have "\<exists>m. findFirst (\<lambda>m. msTokenHash m = hashToken authEnv0 ''new'') (acMobile ?st) = Some m \<and> msFamilyId m = ''f1''"
    by (simp add: mobileRefresh_def mobileRefreshRead_def mobileRefreshWrite_def account_samples env0_def Let_def revokeMobile_def)
  ultimately show "snd (mobileRefresh authEnv0 ?st \<lparr>mrRefreshToken = ''new'', mrDeviceId = ''phone''\<rparr>) = MobileRefreshFailed"
    using replay_ends_family [of authEnv0 "\<lparr>mrRefreshToken = ''old'', mrDeviceId = ''phone''\<rparr>" accounts0 rotated0 ?st
        authEnv0 "\<lparr>mrRefreshToken = ''new'', mrDeviceId = ''phone''\<rparr>"]
    by (auto simp: rotated0_def)
qed

text \<open>Voiding the links of an account leaves none of them unused.\<close>

lemma voidResets_owner:
  assumes "r \<in> set (voidResets now (\<lambda>r. rkOwner r = i) t)" and "rkOwner r = i"
  shows "rkUsedAt r \<noteq> None"
proof -
  obtain q where "r = (if rkOwner q = i \<and> rkUsedAt q = None then q\<lparr>rkUsedAt := Some now\<rparr> else q)"
    using assms(1) unfolding voidResets_def in_set_updateMany by blast
  with assms(2) show ?thesis by (cases "rkOwner q = i \<and> rkUsedAt q = None") auto
qed

text \<open>
  C21: resetting a password ends every session of the account the link was made for, on the web and on
  phones, and no other account's: afterwards all tokens of the link's owner are revoked, all their reset links are
  used up, so that the same link is refused when it is presented again, only their password has changed, every
  session, phone session, reset link and account of another owner is as it was, and so is everything else.
\<close>

theorem reset_ends_every_session:
  assumes "resetPassword a st token pw = Inr st'" and "uniqueKeys rkTokenHash (acResets st)"
    and "uniqueKeys uId (users (acDb st))" and "uniqueKeys rkId (acResets st)"
  shows "\<exists>link \<in> set (acResets st). rkTokenHash link = hashToken a token \<and> rkUsedAt link = None
    \<and> anow a \<le> rkExpiresAt link
    \<and> list_all (\<lambda>r. snOwner r = rkOwner link \<longrightarrow> snRevokedAt r \<noteq> None) (acSessions st')
    \<and> list_all (\<lambda>m. msOwner m = rkOwner link \<longrightarrow> \<not> liveMobile m) (acMobile st')
    \<and> list_all (\<lambda>r. rkOwner r = rkOwner link \<longrightarrow> rkUsedAt r \<noteq> None) (acResets st')
    \<and> filter (\<lambda>r. snOwner r \<noteq> rkOwner link) (acSessions st') = filter (\<lambda>r. snOwner r \<noteq> rkOwner link) (acSessions st)
    \<and> filter (\<lambda>m. msOwner m \<noteq> rkOwner link) (acMobile st') = filter (\<lambda>m. msOwner m \<noteq> rkOwner link) (acMobile st)
    \<and> filter (\<lambda>r. rkOwner r \<noteq> rkOwner link) (acResets st') = filter (\<lambda>r. rkOwner r \<noteq> rkOwner link) (acResets st)
    \<and> (\<exists>u. rowOf uId (rkOwner link) (users (acDb st)) = Some u
        \<and> rowOf uId (rkOwner link) (users (acDb st')) = Some (u\<lparr>uPasswordHash := aeBcrypt a pw\<rparr>))
    \<and> (\<forall>j. j \<noteq> rkOwner link \<longrightarrow> rowOf uId j (users (acDb st')) = rowOf uId j (users (acDb st)))
    \<and> st' = st\<lparr>acDb := (acDb st)\<lparr>users := users (acDb st')\<rparr>, acSessions := acSessions st', acMobile := acMobile st',
        acResets := acResets st'\<rparr>
    \<and> (\<forall>a' pw'. hashToken a' token = hashToken a token \<longrightarrow> resetPassword a' st' token pw' = Inl badLink)"
proof -
  obtain link u where link: "findFirst (\<lambda>r. rkTokenHash r = hashToken a token \<and> rkUsedAt r = None) (acResets st) = Some link"
      and u: "rowOf uId (rkOwner link) (users (acDb st)) = Some u" and fresh: "anow a \<le> rkExpiresAt link"
      and st': "st' = st\<lparr>
        acDb := (acDb st)\<lparr>users := updateRow uId (rkOwner link) (\<lambda>u. u\<lparr>uPasswordHash := aeBcrypt a pw\<rparr>) (users (acDb st))\<rparr>,
        acSessions := revokeSessions (anow a) (\<lambda>r. snOwner r = rkOwner link) (acSessions st),
        acMobile := revokeMobile (anow a) (\<lambda>m. msOwner m = rkOwner link \<and> liveMobile m) (acMobile st),
        acResets := voidResets (anow a) (\<lambda>r. rkOwner r = rkOwner link) (voidResets (anow a) (\<lambda>r. rkId r = rkId link) (acResets st))\<rparr>"
    using assms(1) by (auto simp: resetPassword_def Let_def updateUser_def split: option.splits if_splits)
  let ?i = "rkOwner link"
  have resets: "rkUsedAt r \<noteq> None" if "r \<in> set (acResets st')" "rkOwner r = ?i" for r
    using that by (simp add: st' voidResets_owner)
  have "findFirst (\<lambda>r. rkTokenHash r = hashToken a token \<and> rkUsedAt r = None) (acResets st') = None"
  proof (unfold findFirst_None_iff, intro ballI notI, elim conjE)
    fix r assume r: "r \<in> set (acResets st')" "rkTokenHash r = hashToken a token" "rkUsedAt r = None"
    then obtain q where q: "q \<in> set (acResets st)" "rkTokenHash q = rkTokenHash r" "rkOwner q = rkOwner r"
      by (auto simp: st' voidResets_def in_set_updateMany split: if_splits)
    have "q = link"
      using q(1,2) r(2) findFirst_SomeD [OF link] by (intro unique_row [OF assms(2)]) auto
    then show False using resets [OF r(1)] q(3) r(3) by simp
  qed
  then have used: "resetPassword a' st' token pw' = Inl badLink" if "hashToken a' token = hashToken a token" for a' pw'
    using that by (simp add: resetPassword_def)
  have byId: "rkOwner r = ?i" if "r \<in> set (acResets st)" "rkId r = rkId link" for r
    using unique_row [OF assms(4) that(1) _ that(2)] findFirst_SomeD [OF link] by auto
  have kept: "filter (\<lambda>r. snOwner r \<noteq> ?i) (acSessions st') = filter (\<lambda>r. snOwner r \<noteq> ?i) (acSessions st)"
      "filter (\<lambda>m. msOwner m \<noteq> ?i) (acMobile st') = filter (\<lambda>m. msOwner m \<noteq> ?i) (acMobile st)"
    by (auto simp add: st' revokeSessions_def revokeMobile_def intro!: updateMany_others)
  have links: "filter (\<lambda>r. rkOwner r \<noteq> ?i) (acResets st') = filter (\<lambda>r. rkOwner r \<noteq> ?i) (acResets st)"
  proof -
    have "filter (\<lambda>r. rkOwner r \<noteq> ?i) (acResets st')
        = filter (\<lambda>r. rkOwner r \<noteq> ?i) (voidResets (anow a) (\<lambda>r. rkId r = rkId link) (acResets st))"
      unfolding st' by (auto simp: voidResets_def intro!: updateMany_others)
    also have "voidResets (anow a) (\<lambda>r. rkId r = rkId link) (acResets st)
        = voidResets (anow a) (\<lambda>r. rkOwner r = ?i \<and> rkId r = rkId link) (acResets st)"
      unfolding voidResets_def updateMany_def using byId by (intro map_cong) auto
    also have "filter (\<lambda>r. rkOwner r \<noteq> ?i) \<dots> = filter (\<lambda>r. rkOwner r \<noteq> ?i) (acResets st)"
      by (auto simp: voidResets_def intro!: updateMany_others)
    finally show ?thesis .
  qed
  have "list_all (\<lambda>r. snOwner r = ?i \<longrightarrow> snRevokedAt r \<noteq> None) (acSessions st')"
      "list_all (\<lambda>m. msOwner m = ?i \<longrightarrow> \<not> liveMobile m) (acMobile st')"
    by (auto simp add: st' revokeSessions_def revokeMobile_def liveMobile_def intro!: list_all_updateMany)
  moreover have "rowOf uId ?i (users (acDb st')) = Some (u\<lparr>uPasswordHash := aeBcrypt a pw\<rparr>)"
      "\<forall>j. j \<noteq> ?i \<longrightarrow> rowOf uId j (users (acDb st')) = rowOf uId j (users (acDb st))"
    using u by (simp_all add: st' rowOf_updateRow_same rowOf_updateRow_other)
  ultimately show ?thesis
    using resets kept links used u fresh findFirst_SomeD [OF link] st'
    by (intro bexI [of _ link]) (auto simp: list_all_iff)
qed

theorem reset_ends_every_session_witness:
  "\<exists>st'. resetPassword authEnv0 accounts0 ''link'' ''better'' = Inr st'
    \<and> resetPassword authEnv0 st' ''link'' ''worse'' = Inl badLink"
proof -
  have "\<exists>st'. resetPassword authEnv0 accounts0 ''link'' ''better'' = Inr st'"
    by (simp add: resetPassword_def account_samples env0_def db0_def Let_def)
  then obtain st' where st': "resetPassword authEnv0 accounts0 ''link'' ''better'' = Inr st'" by blast
  moreover have "uniqueKeys rkTokenHash (acResets accounts0)" "uniqueKeys uId (users (acDb accounts0))"
      "uniqueKeys rkId (acResets accounts0)"
    by (simp_all add: account_samples uniqueKeys_def db0_def)
  ultimately show ?thesis using reset_ends_every_session [OF st'] by blast
qed

text \<open>
  A web refresh token of a staff member works once: after it was exchanged, the exchange is
  refused with it at any later moment, as long as the token issued in its place differs (it carries a
  random \<open>jwtid\<close> of its own).
\<close>

theorem staff_refresh_token_single_use:
  assumes "refresh a st raw = (st', Inr (access, raw'))"
    and "uniqueKeys snTokenHash (acSessions st)" and "hashToken a raw' \<noteq> hashToken a raw"
    and "hashToken a' raw = hashToken a raw" "aeVerifyRefresh a' raw = aeVerifyRefresh a raw"
  shows "refresh a' st' raw = (st', Inl noLongerValid)"
proof -
  obtain p where p: "aeVerifyRefresh a raw = Some p" using assms(1) by (auto simp: refresh_def split: option.splits)
  obtain stored where stored: "findFirst (\<lambda>r. snOwner r = jpSub p \<and> snTokenHash r = hashToken a raw
      \<and> snRevokedAt r = None) (acSessions st) = Some stored"
    using assms(1) p by (auto simp: refresh_def split: option.splits)
  define row where "row = \<lparr>snId = eFresh (aeEnv a) 4, snOwner = jpSub p, snTokenHash = hashToken a raw',
      snExpiresAt = aeExp a raw' * 1000, snRevokedAt = None\<rparr>"
  have s: "acSessions st' = updateRow snId (snId stored) (\<lambda>r. r\<lparr>snRevokedAt := Some (anow a)\<rparr>) (acSessions st) @ [row]"
    using assms(1) p stored
    by (auto simp: refresh_def issueTokenPair_def Let_def row_def jwtPayload_def dest: rowOf_SomeD
        split: option.splits if_splits)
  have "findFirst (\<lambda>r. snOwner r = jpSub p \<and> snTokenHash r = hashToken a raw \<and> snRevokedAt r = None) (acSessions st') = None"
  proof (unfold findFirst_None_iff, intro ballI notI, elim conjE)
    fix r assume r: "r \<in> set (acSessions st')" "snTokenHash r = hashToken a raw" "snRevokedAt r = None"
    then obtain q where q: "q \<in> set (acSessions st)"
        "r = (if snId q = snId stored then q\<lparr>snRevokedAt := Some (anow a)\<rparr> else q)"
      using assms(3) by (auto simp: s row_def updateRow_def in_set_updateMany)
    have "q = stored"
      using q r(2) findFirst_SomeD [OF stored] by (intro unique_row [OF assms(2)]) (auto split: if_splits)
    with q(2) r(3) show False by simp
  qed
  then show ?thesis using p assms(4,5) by (simp add: refresh_def)
qed

theorem staff_refresh_token_single_use_witness:
  "\<exists>st' access raw'. refresh authEnv0 accounts0 ''web'' = (st', Inr (access, raw'))
    \<and> refresh authEnv0 st' ''web'' = (st', Inl noLongerValid)"
proof -
  have "\<exists>st' access. refresh authEnv0 accounts0 ''web'' = (st', Inr (access, ''u1.tok'' @ string_of_nat 0))"
    by (simp add: refresh_def account_samples env0_def db0_def issueTokenPair_def jwtPayload_def Let_def)
  then obtain st' access where r: "refresh authEnv0 accounts0 ''web'' = (st', Inr (access, ''u1.tok'' @ string_of_nat 0))" by blast
  moreover have "uniqueKeys snTokenHash (acSessions accounts0)" by (simp add: account_samples uniqueKeys_def)
  moreover have "hashToken authEnv0 (''u1.tok'' @ string_of_nat 0) \<noteq> hashToken authEnv0 ''web''" by (simp add: account_samples env0_def)
  ultimately show ?thesis using staff_refresh_token_single_use [OF r, of authEnv0] by blast
qed

text \<open>
  a customer's web refresh token has no \<open>jwtid\<close>, so it does not rotate within the second it was
  issued in: the exchange returns the very token it was given, and that token is accepted again (the
  staff service adds a \<open>jwtid\<close> for this reason).
\<close>

theorem customer_refresh_token_reused:
  assumes "raw = aeSignCustomerRefresh a (customerPayload c tn) (anow a div 1000)"
    and "aeVerifyCustomerRefresh a raw = Some (customerPayload c tn)"
    and "refreshCustomer a st raw = Inr (st', access, raw')" and "uniqueKeys snTokenHash (acCustomerSessions st)"
    and "t div 1000 = anow a div 1000" "t \<le> aeExp a raw * 1000"
  shows "raw' = raw \<and> (\<exists>st'' access'.
    refreshCustomer (a\<lparr>aeEnv := (aeEnv a)\<lparr>eNow := t, eFresh := f\<rparr>\<rparr>) st' raw = Inr (st'', access', raw))"
proof -
  let ?a = "a\<lparr>aeEnv := (aeEnv a)\<lparr>eNow := t, eFresh := f\<rparr>\<rparr>"
  have a: "hashToken ?a raw = hashToken a raw" "anow ?a = t" by (simp_all add: hashToken_def anow_def)
  define row where "row = \<lparr>snId = eFresh (aeEnv a) 4, snOwner = c, snTokenHash = hashToken a raw,
      snExpiresAt = aeExp a raw * 1000, snRevokedAt = None\<rparr>"
  let ?P = "\<lambda>r. snOwner r = c \<and> snTokenHash r = hashToken a raw \<and> snRevokedAt r = None"
  obtain stored where stored: "findFirst ?P (acCustomerSessions st) = Some stored"
    using assms(3) by (auto simp: refreshCustomer_def assms(2) customerPayload_def split: option.splits)
  have "(st', access, raw') = issueCustomerPair a c tn (st\<lparr>acCustomerSessions := updateRow snId (snId stored)
      (\<lambda>r. r\<lparr>snRevokedAt := Some (anow a)\<rparr>) (acCustomerSessions st)\<rparr>)"
    using assms(3) stored by (simp add: refreshCustomer_def assms(2) customerPayload_def split: if_splits)
  then have s: "acCustomerSessions st' = updateRow snId (snId stored) (\<lambda>r. r\<lparr>snRevokedAt := Some (anow a)\<rparr>)
        (acCustomerSessions st) @ [row]" and raw: "raw' = raw"
    unfolding row_def by (simp_all add: issueCustomerPair_def Let_def assms(1) [symmetric])
  have only: "r = row" if r: "r \<in> set (acCustomerSessions st')" "?P r" for r
  proof (rule ccontr)
    assume "r \<noteq> row"
    then obtain q where q: "q \<in> set (acCustomerSessions st)"
        "r = (if snId q = snId stored then q\<lparr>snRevokedAt := Some (anow a)\<rparr> else q)"
      using r(1) by (auto simp: s updateRow_def in_set_updateMany)
    have "q = stored"
      using q r(2) findFirst_SomeD [OF stored] by (intro unique_row [OF assms(4)]) (auto split: if_splits)
    with q(2) r(2) show False by simp
  qed
  have "\<exists>r. findFirst ?P (acCustomerSessions st') = Some r" by (simp add: findFirst_Some_ex s row_def)
  then have "findFirst ?P (acCustomerSessions st') = Some row" using only by (auto dest: findFirst_SomeD)
  then have "refreshCustomer ?a st' raw = Inr (issueCustomerPair ?a c tn (st'\<lparr>acCustomerSessions := updateRow snId (snId row)
      (\<lambda>r. r\<lparr>snRevokedAt := Some t\<rparr>) (acCustomerSessions st')\<rparr>))"
    using assms(6) by (simp add: refreshCustomer_def a assms(2) customerPayload_def) (simp add: row_def)
  moreover have "snd (snd (issueCustomerPair ?a c tn s1)) = raw" for s1
    using assms(5) by (simp add: issueCustomerPair_def Let_def a assms(1))
  ultimately show ?thesis using raw by (metis prod.collapse)
qed

theorem customer_refresh_token_reused_witness:
  "\<exists>st' access. refreshCustomer authEnv0 (accounts0\<lparr>acCustomerSessions := [\<lparr>snId = ''n2'', snOwner = ''k1'',
        snTokenHash = ''h:k1.'' @ string_of_int 1000000000, snExpiresAt = 2000000000000, snRevokedAt = None\<rparr>]\<rparr>)
      (''k1.'' @ string_of_int 1000000000) = Inr (st', access, ''k1.'' @ string_of_int 1000000000)
    \<and> (\<exists>st'' access'. refreshCustomer (authEnv0\<lparr>aeEnv := env0\<lparr>eNow := 1000000000999, eFresh := eFresh env0\<rparr>\<rparr>) st'
        (''k1.'' @ string_of_int 1000000000) = Inr (st'', access', ''k1.'' @ string_of_int 1000000000))"
proof -
  let ?raw = "''k1.'' @ string_of_int 1000000000"
  let ?st = "accounts0\<lparr>acCustomerSessions := [\<lparr>snId = ''n2'', snOwner = ''k1'',
      snTokenHash = ''h:'' @ ?raw, snExpiresAt = 2000000000000, snRevokedAt = None\<rparr>]\<rparr>"
  have raw: "?raw = aeSignCustomerRefresh authEnv0 (customerPayload ''k1'' ''t1'') (anow authEnv0 div 1000)"
      "aeVerifyCustomerRefresh authEnv0 ?raw = Some (customerPayload ''k1'' ''t1'')"
    by (simp_all add: account_samples env0_def customerPayload_def)
  have "\<exists>st' access raw'. refreshCustomer authEnv0 ?st ?raw = Inr (st', access, raw')"
    by (simp add: refreshCustomer_def account_samples env0_def issueCustomerPair_def Let_def)
  then obtain st' access raw' where r: "refreshCustomer authEnv0 ?st ?raw = Inr (st', access, raw')" by blast
  have "uniqueKeys snTokenHash (acCustomerSessions ?st)" by (simp add: uniqueKeys_def)
  note this' = customer_refresh_token_reused [OF raw r this, of 1000000000999 "eFresh env0"]
  have "aeEnv authEnv0 = env0" "(1000000000999 :: int) div 1000 = anow authEnv0 div 1000"
      "1000000000999 \<le> aeExp authEnv0 ?raw * 1000"
    by (simp_all add: account_samples env0_def)
  with this' r show ?thesis by auto
qed

end
