(* ===== verification/Access.thy ===== *)
theory Access
  imports Sessions
begin

text \<open>
  Who may do what, and in which store: the tenant a request acts on
  (\<open>common/middleware/tenant.middleware.ts\<close>), the guards every request passes in the order
  \<open>app.module.ts\<close> registers them (\<open>common/guards\<close>, \<open>auth/strategies/jwt.strategy.ts\<close>) and
  the customer of a storefront request (\<open>customers/strategies\<close>, \<open>customers/guards\<close>).

  A request is what these read of it. Taking a bearer token out of its header and verifying a token
  are the libraries' part; a handler's decorators are the fields of \<open>route\<close>.
\<close>

section \<open>Requests and routes\<close>

record request =
  rqTenantHeader :: "string option" \<comment> \<open>\<open>X-Tenant-ID\<close>\<close>
  rqTenantQuery :: "string option"
  rqHost :: "string option"
  rqPath :: string
  rqBearer :: "string option" \<comment> \<open>the token of the \<open>Authorization\<close> header\<close>
  rqAccessTokenQuery :: "string option"

datatype AppRole = Platform GlobalRole | InTenant TenantMemberRole

record route =
  rtPublic :: bool
  rtRoles :: "AppRole list option"
  rtTenantRequired :: bool

section \<open>The tenant of a request\<close>

text \<open>The expression \<open>/^[0-9a-f]{8}-[0-9a-f]{4}-[0-9a-f]{4}-[0-9a-f]{4}-[0-9a-f]{12}$/i\<close>.\<close>

definition isUuid :: "string \<Rightarrow> bool" where
  "isUuid s = (map length (splitOn (CHR ''-'') s) = [8, 4, 4, 4, 12]
     \<and> list_all (list_all isHexChar) (splitOn (CHR ''-'') s))"

definition extractSubdomain :: "string \<Rightarrow> string option" where
  "extractSubdomain host =
     (let parts = splitOn (CHR ''.'') (hd (splitOn (CHR '':'') host))
      in if length parts < 3 then None
         else if hd parts = ''www'' \<or> hd parts = ''api'' then None
         else Some (hd parts))"

definition tenantIdentifier :: "request \<Rightarrow> string option" where
  "tenantIdentifier rq =
     (case rqTenantHeader rq of Some i \<Rightarrow> Some i
      | None \<Rightarrow> (case rqTenantQuery rq of Some i \<Rightarrow> Some i
        | None \<Rightarrow> extractSubdomain (case rqHost rq of Some h \<Rightarrow> h | None \<Rightarrow> [])))"

text \<open>Ids are compared as UUIDs, whatever the case of their digits.\<close>

definition resolveTenant :: "db \<Rightarrow> request \<Rightarrow> uuid option" where
  "resolveTenant s rq =
     (if \<not> truthy (tenantIdentifier rq) then None
      else
        let i = the (tenantIdentifier rq)
        in map_option tId (findFirst
             (if isUuid i then (\<lambda>t. lower (tId t) = lower i \<and> tIsActive t)
              else (\<lambda>t. (tSlug t = i \<or> tSubdomain t = Some i) \<and> tIsActive t)) (tenants s)))"

section \<open>The staff member of a request\<close>

definition SSE_ROUTE_SUFFIX :: string where
  "SSE_ROUTE_SUFFIX = ''/orders/events''"

definition sseQueryTokenExtractor :: "request \<Rightarrow> string option" where
  "sseQueryTokenExtractor rq =
     (if endsWith SSE_ROUTE_SUFFIX (rqPath rq) then rqAccessTokenQuery rq else None)"

definition requestToken :: "request \<Rightarrow> string option" where
  "requestToken rq = (case rqBearer rq of Some t \<Rightarrow> Some t | None \<Rightarrow> sseQueryTokenExtractor rq)"

record AuthenticatedUser =
  auId :: uuid
  auEmail :: string
  auGlobalRole :: GlobalRole
  auTenantId :: "uuid option"
  auTenantRole :: "TenantMemberRole option"
  auImpersonatedBy :: "uuid option"

definition validate :: "db \<Rightarrow> JwtPayload \<Rightarrow> AuthenticatedUser res" where
  "validate s payload =
     (if truthy (jpPurpose payload) then Inl (Unauthorized ''Invalid token'')
      else case findFirst (\<lambda>u. uId u = jpSub payload \<and> uIsActive u) (users s) of
        None \<Rightarrow> Inl (Unauthorized ''User no longer active'')
      | Some u \<Rightarrow>
          let w = (\<lambda>role. \<lparr>auId = uId u, auEmail = uEmail u, auGlobalRole = uGlobalRole u,
                auTenantId = jpTenantId payload, auTenantRole = role, auImpersonatedBy = jpImpersonatedBy payload\<rparr>)
          in if truthy (jpTenantId payload) \<and> \<not> truthy (jpImpersonatedBy payload)
             then (case findFirst (\<lambda>m. tmUserId m = uId u \<and> Some (tmTenantId m) = jpTenantId payload
                     \<and> tmIsActive m) (members s) of
                     None \<Rightarrow> Inl (Unauthorized ''No longer a member of this tenant'')
                   | Some m \<Rightarrow> Inr (w (Some (tmRole m))))
             else Inr (w (jpTenantRole payload)))"

definition handleRequest :: "uuid option \<Rightarrow> AuthenticatedUser \<Rightarrow> AuthenticatedUser res" where
  "handleRequest tenantId w =
     (if truthy tenantId \<and> auGlobalRole w \<noteq> SUPER_ADMIN \<and> auTenantId w \<noteq> tenantId
      then Inl (Forbidden ''Your session does not belong to this tenant'') else Inr w)"

definition jwtAuthGuard ::
    "authEnv \<Rightarrow> db \<Rightarrow> route \<Rightarrow> request \<Rightarrow> uuid option \<Rightarrow> AuthenticatedUser option res" where
  "jwtAuthGuard a s rt rq tenantId =
     (if rtPublic rt then Inr None
      else if \<not> truthy (requestToken rq) then Inl (Unauthorized ''Unauthorized'')
      else case aeVerifyAccess a (the (requestToken rq)) of
        None \<Rightarrow> Inl (Unauthorized ''Unauthorized'')
      | Some payload \<Rightarrow>
          bind_res (validate s payload) (\<lambda>w. map_sum id Some (handleRequest tenantId w)))"

section \<open>Roles and tenants\<close>

definition rolesGuard :: "route \<Rightarrow> AuthenticatedUser option \<Rightarrow> unit res" where
  "rolesGuard rt user =
     (case rtRoles rt of
        None \<Rightarrow> Inr ()
      | Some required \<Rightarrow>
          if required = [] then Inr ()
          else case user of
            None \<Rightarrow> Inl (Forbidden ''Not authenticated'')
          | Some w \<Rightarrow>
              if Platform (auGlobalRole w) \<in> set required
                 \<or> (case auTenantRole w of Some r \<Rightarrow> InTenant r \<in> set required | None \<Rightarrow> False)
              then Inr () else Inl (Forbidden ''Insufficient role for this resource''))"

definition tenantRequiredGuard :: "route \<Rightarrow> uuid option \<Rightarrow> unit res" where
  "tenantRequiredGuard rt tenantId =
     (if rtTenantRequired rt \<and> \<not> truthy tenantId
      then Inl (NotFound ''Tenant not found or inactive'') else Inr ())"

text \<open>The middleware, the global guards and the guard of the controller, in the order they run.\<close>

definition authorize ::
    "authEnv \<Rightarrow> db \<Rightarrow> route \<Rightarrow> request \<Rightarrow> (uuid option \<times> AuthenticatedUser option) res" where
  "authorize a s rt rq =
     (let tenantId = resolveTenant s rq in
      bind_res (jwtAuthGuard a s rt rq tenantId) (\<lambda>user.
      bind_res (rolesGuard rt user) (\<lambda>_.
      bind_res (tenantRequiredGuard rt tenantId) (\<lambda>_. Inr (tenantId, user)))))"

section \<open>The customer of a request\<close>

definition validateCustomer :: "accounts \<Rightarrow> CustomerJwtPayload \<Rightarrow> customer res" where
  "validateCustomer st payload =
     (if cjType payload \<noteq> ''customer'' then Inl (Unauthorized ''Invalid token'')
      else case findFirst (\<lambda>c. cuId c = cjSub payload \<and> cuTenantId c = cjTenantId payload) (acCustomers st) of
        None \<Rightarrow> Inl (Unauthorized ''Customer no longer exists'')
      | Some c \<Rightarrow> Inr (sanitizeCustomer c))"

definition customerAuthGuard :: "authEnv \<Rightarrow> accounts \<Rightarrow> request \<Rightarrow> customer res" where
  "customerAuthGuard a st rq =
     (if \<not> truthy (rqBearer rq) then Inl (Unauthorized ''Unauthorized'')
      else case aeVerifyCustomerAccess a (the (rqBearer rq)) of
        None \<Rightarrow> Inl (Unauthorized ''Unauthorized'')
      | Some payload \<Rightarrow> validateCustomer st payload)"

text \<open>The optional guard leaves the customer out instead of refusing.\<close>

definition optionalCustomer :: "authEnv \<Rightarrow> accounts \<Rightarrow> request \<Rightarrow> customer option" where
  "optionalCustomer a st rq = (case customerAuthGuard a st rq of Inl _ \<Rightarrow> None | Inr c \<Rightarrow> Some c)"

text \<open>\<open>POST storefront/orders\<close>: a public route of a store, with the customer when there is one.\<close>

definition storefrontCreate ::
    "authEnv \<Rightarrow> accounts \<Rightarrow> request \<Rightarrow> CreateOrderDto \<Rightarrow> (accounts \<times> order \<times> Fulfillment) res" where
  "storefrontCreate a st rq dto =
     (let tenantId = resolveTenant (acDb st) rq in
      bind_res (tenantRequiredGuard \<lparr>rtPublic = True, rtRoles = None, rtTenantRequired = True\<rparr> tenantId) (\<lambda>_.
      bind_res (createOrder (aeEnv a) (acDb st) (the tenantId) dto (map_option cuId (optionalCustomer a st rq)))
        (\<lambda>(s', ord, f). Inr (st\<lparr>acDb := s'\<rparr>, ord, f))))"

section \<open>What a request that passes has proved\<close>

lemma resolveTenant_SomeD:
  assumes "resolveTenant s rq = Some i"
  shows "\<exists>t \<in> set (tenants s). tId t = i \<and> tIsActive t"
  using assms by (auto simp: resolveTenant_def Let_def split: if_splits dest!: findFirst_SomeD)

lemma validate_InrD:
  assumes "validate s p = Inr w"
  obtains u where "u \<in> set (users s)" "uId u = jpSub p" "uIsActive u" "\<not> truthy (jpPurpose p)"
    "auId w = uId u" "auGlobalRole w = uGlobalRole u" "auTenantId w = jpTenantId p"
    "auImpersonatedBy w = jpImpersonatedBy p"
    "if truthy (jpTenantId p) \<and> \<not> truthy (jpImpersonatedBy p)
     then \<exists>m \<in> set (members s). tmUserId m = uId u \<and> Some (tmTenantId m) = jpTenantId p \<and> tmIsActive m
       \<and> auTenantRole w = Some (tmRole m)
     else auTenantRole w = jpTenantRole p"
proof -
  obtain u where u: "findFirst (\<lambda>u. uId u = jpSub p \<and> uIsActive u) (users s) = Some u" "\<not> truthy (jpPurpose p)"
    using assms by (auto simp: validate_def split: if_splits option.splits)
  show thesis
  proof (rule that)
    show "u \<in> set (users s)" "uId u = jpSub p" "uIsActive u" using findFirst_SomeD [OF u(1)] by auto
  qed (use assms u in \<open>auto simp: validate_def Let_def split: if_splits option.splits dest!: findFirst_SomeD\<close>)
qed

lemma handleRequest_InrD:
  "handleRequest tn w = Inr w' \<Longrightarrow> w' = w \<and> (truthy tn \<longrightarrow> auGlobalRole w = SUPER_ADMIN \<or> auTenantId w = tn)"
  by (auto simp: handleRequest_def split: if_splits)

lemma jwtAuthGuard_InrD:
  assumes "jwtAuthGuard a s rt rq tn = Inr au" and "\<not> rtPublic rt"
  obtains raw p w where "requestToken rq = Some raw" "aeVerifyAccess a raw = Some p" "validate s p = Inr w"
    "au = Some w" "truthy tn \<longrightarrow> auGlobalRole w = SUPER_ADMIN \<or> auTenantId w = tn"
proof -
  obtain raw p where "requestToken rq = Some raw" "aeVerifyAccess a raw = Some p"
      "bind_res (validate s p) (\<lambda>w. map_sum id Some (handleRequest tn w)) = Inr au"
    using assms by (auto simp: jwtAuthGuard_def truthy_def split: if_splits option.splits)
  then show thesis
    by (auto simp: bind_res_eq_Inr map_sum_Inr dest!: handleRequest_InrD intro!: that)
qed

lemma authorize_InrD:
  assumes "authorize a s rt rq = Inr (tn, au)"
  shows "tn = resolveTenant s rq" "jwtAuthGuard a s rt rq tn = Inr au" "rolesGuard rt au = Inr ()"
    "tenantRequiredGuard rt tn = Inr ()"
  using assms by (auto simp: authorize_def Let_def bind_res_eq_Inr)

lemma rolesGuard_member:
  assumes "rolesGuard rt (Some w) = Inr ()" and "rtRoles rt = Some required" "required \<noteq> []"
    and "set required \<subseteq> {InTenant OWNER, InTenant STAFF}"
  shows "\<exists>r. auTenantRole w = Some r \<and> InTenant r \<in> set required"
  using assms by (auto simp: rolesGuard_def split: if_splits option.splits)

text \<open>A request that passes a route that is not public: its token, its account and its role.\<close>

lemma authorize_account:
  assumes "authorize a s rt rq = Inr (tn, au)" and "\<not> rtPublic rt"
  obtains u w raw p where "au = Some w" "rolesGuard rt (Some w) = Inr ()"
    "u \<in> set (users s)" "uIsActive u" "auId w = uId u" "auGlobalRole w = uGlobalRole u"
    "requestToken rq = Some raw" "aeVerifyAccess a raw = Some p" "jpSub p = uId u" "\<not> truthy (jpPurpose p)"
    "truthy tn \<longrightarrow> uGlobalRole u = SUPER_ADMIN \<or> jpTenantId p = tn"
    "if truthy (jpTenantId p) \<and> \<not> truthy (jpImpersonatedBy p)
     then \<exists>m \<in> set (members s). tmUserId m = uId u \<and> Some (tmTenantId m) = jpTenantId p \<and> tmIsActive m
       \<and> auTenantRole w = Some (tmRole m)
     else auTenantRole w = jpTenantRole p"
proof -
  note ok = authorize_InrD [OF assms(1)]
  obtain raw p w where token: "requestToken rq = Some raw" "aeVerifyAccess a raw = Some p"
      and w: "validate s p = Inr w" "au = Some w" "truthy tn \<longrightarrow> auGlobalRole w = SUPER_ADMIN \<or> auTenantId w = tn"
    using jwtAuthGuard_InrD [OF ok(2) assms(2)] by blast
  show thesis
    by (rule validate_InrD [OF w(1)], rule that) (use w token ok(3) in auto)
qed

lemma authorize_store:
  assumes "authorize a s rt rq = Inr (tn, au)" and "rtTenantRequired rt"
  obtains t where "t \<in> set (tenants s)" "tIsActive t" "tn = Some (tId t)" "truthy tn"
proof -
  note ok = authorize_InrD [OF assms(1)]
  have tn: "truthy tn" using ok(4) assms(2) by (simp add: tenantRequiredGuard_def split: if_splits)
  then obtain i where "tn = Some i" by (cases tn) (auto simp: truthy_def)
  then show thesis using resolveTenant_SomeD [of s rq i] ok(1) tn that by auto
qed

section \<open>Properties\<close>

text \<open>
  C12: staff routes are confined to the store of the session. A request that passes the guards of a
  route for owners and staff acts on an active store and for an active account, with a token that
  verifies and is no challenge token; unless the account is the platform's, that token was issued for
  this very store, and it is either a live membership of the store with a role the route accepts, as
  the database has it now, or an impersonation of an account of the store. The header, the query and
  the subdomain a client chooses cannot move a session to another store.
\<close>

theorem session_confined_to_store:
  assumes "authorize a s rt rq = Inr (tn, au)" and "\<not> rtPublic rt" "rtTenantRequired rt"
    and "rtRoles rt = Some required" "required \<noteq> []" "set required \<subseteq> {InTenant OWNER, InTenant STAFF}"
  shows "\<exists>t u w raw p. t \<in> set (tenants s) \<and> tIsActive t \<and> tn = Some (tId t) \<and> au = Some w
    \<and> u \<in> set (users s) \<and> uIsActive u \<and> auId w = uId u \<and> auGlobalRole w = uGlobalRole u
    \<and> requestToken rq = Some raw \<and> aeVerifyAccess a raw = Some p \<and> jpSub p = uId u \<and> \<not> truthy (jpPurpose p)
    \<and> (uGlobalRole u \<noteq> SUPER_ADMIN \<longrightarrow>
        jpTenantId p = Some (tId t)
        \<and> (truthy (jpImpersonatedBy p) \<and> (\<exists>r. jpTenantRole p = Some r \<and> InTenant r \<in> set required)
           \<or> (\<exists>m \<in> set (members s). tmUserId m = uId u \<and> tmTenantId m = tId t \<and> tmIsActive m
                \<and> InTenant (tmRole m) \<in> set required)))"
proof -
  obtain u w raw p where w: "au = Some w" "rolesGuard rt (Some w) = Inr ()"
      and u: "u \<in> set (users s)" "uIsActive u" "auId w = uId u" "auGlobalRole w = uGlobalRole u"
      and token: "requestToken rq = Some raw" "aeVerifyAccess a raw = Some p" "jpSub p = uId u" "\<not> truthy (jpPurpose p)"
      and own: "truthy tn \<longrightarrow> uGlobalRole u = SUPER_ADMIN \<or> jpTenantId p = tn"
      and role: "if truthy (jpTenantId p) \<and> \<not> truthy (jpImpersonatedBy p)
        then \<exists>m \<in> set (members s). tmUserId m = uId u \<and> Some (tmTenantId m) = jpTenantId p \<and> tmIsActive m
          \<and> auTenantRole w = Some (tmRole m)
        else auTenantRole w = jpTenantRole p"
    by (rule authorize_account [OF assms(1,2)], rule that)
  obtain t where t: "t \<in> set (tenants s)" "tIsActive t" "tn = Some (tId t)" and tn: "truthy tn"
    using authorize_store [OF assms(1,3)] by blast
  obtain r where r: "auTenantRole w = Some r" "InTenant r \<in> set required"
    using rolesGuard_member [OF w(2) assms(4-6)] by blast
  have "jpTenantId p = Some (tId t)
      \<and> (truthy (jpImpersonatedBy p) \<and> (\<exists>r. jpTenantRole p = Some r \<and> InTenant r \<in> set required)
         \<or> (\<exists>m \<in> set (members s). tmUserId m = uId u \<and> tmTenantId m = tId t \<and> tmIsActive m
              \<and> InTenant (tmRole m) \<in> set required))" if "uGlobalRole u \<noteq> SUPER_ADMIN"
  proof
    show "jpTenantId p = Some (tId t)" using own tn that t(3) by simp
    show "truthy (jpImpersonatedBy p) \<and> (\<exists>r. jpTenantRole p = Some r \<and> InTenant r \<in> set required)
       \<or> (\<exists>m \<in> set (members s). tmUserId m = uId u \<and> tmTenantId m = tId t \<and> tmIsActive m
            \<and> InTenant (tmRole m) \<in> set required)"
      using role own that tn t(3) r by (cases "truthy (jpImpersonatedBy p)") auto
  qed
  with t u token w(1) show ?thesis by blast
qed

text \<open>A store with its owner, a member of the staff and an order route of its dashboard.\<close>

definition staff0 :: user where
  "staff0 = newUser ''u2'' ''s@x'' ''secret'' ''Sam''"

definition staffed0 :: accounts where
  "staffed0 = accounts0\<lparr>acDb := db0\<lparr>users := [owner0, staff0],
     members := [newMember ''e1'' ''t1'' ''u1'' OWNER [] 0, newMember ''e2'' ''t1'' ''u2'' STAFF [] 0]\<rparr>\<rparr>"

definition dashboardRoute :: route where
  "dashboardRoute = \<lparr>rtPublic = False, rtRoles = Some [InTenant OWNER, InTenant STAFF], rtTenantRequired = True\<rparr>"

definition staffRequest :: request where
  "staffRequest = \<lparr>rqTenantHeader = Some ''shop'', rqTenantQuery = None, rqHost = None, rqPath = ''/orders'',
     rqBearer = Some ''u2'', rqAccessTokenQuery = None\<rparr>"

lemmas access_samples = staff0_def staffed0_def dashboardRoute_def staffRequest_def newMember_def

lemma staff_request_passes:
  "\<exists>w. authorize authEnv0 (acDb staffed0) dashboardRoute staffRequest = Inr (Some ''t1'', Some w)
    \<and> auGlobalRole w = USER \<and> auId w = ''u2''"
  by (simp add: authorize_def Let_def resolveTenant_def tenantIdentifier_def isUuid_def jwtAuthGuard_def
      requestToken_def validate_def handleRequest_def rolesGuard_def tenantRequiredGuard_def truthy_def bind_res_def
      access_samples account_samples db0_def tenant0_def)

theorem session_confined_to_store_witness:
  "\<exists>m \<in> set (members (acDb staffed0)). tmUserId m = ''u2'' \<and> tmTenantId m = ''t1'' \<and> tmIsActive m"
proof -
  obtain w where w: "authorize authEnv0 (acDb staffed0) dashboardRoute staffRequest = Inr (Some ''t1'', Some w)"
      "auGlobalRole w = USER" "auId w = ''u2''"
    using staff_request_passes by blast
  have "\<not> rtPublic dashboardRoute" "rtTenantRequired dashboardRoute"
      "rtRoles dashboardRoute = Some [InTenant OWNER, InTenant STAFF]"
    by (simp_all add: dashboardRoute_def)
  then show ?thesis
    using session_confined_to_store [OF w(1)] w(2,3)
    by (fastforce simp: authEnv0_def truthy_def)
qed

text \<open>Removing a member leaves no live membership of that account in the store.\<close>

lemma removeMember_InrD:
  assumes "removeMember a st tn i = Inr st'"
  obtains m where "m \<in> set (members (acDb st))" "tmId m = i" "tmTenantId m = tn" "tmRole m \<noteq> OWNER"
    "st' = revokeDeviceAccess a (tmUserId m) tn (updateMemberRow i (\<lambda>m. m\<lparr>tmIsActive := False\<rparr>) st)"
proof -
  obtain m where m: "staffMember st tn i ''Cannot remove the store owner'' = Inr m"
      and st': "st' = revokeDeviceAccess a (tmUserId m) tn (updateMemberRow i (\<lambda>m. m\<lparr>tmIsActive := False\<rparr>) st)"
    using assms by (auto simp: removeMember_def bind_res_eq_Inr)
  then show thesis
    by (auto simp: staffMember_def split: option.splits if_splits dest!: findFirst_SomeD intro!: that)
qed

lemma removed_not_member:
  assumes "removeMember a st tn i = Inr st'" and "uniqueKeys (\<lambda>m. (tmTenantId m, tmUserId m)) (members (acDb st))"
    and "m \<in> set (members (acDb st))" "tmId m = i" "tmTenantId m = tn"
    and "q \<in> set (members (acDb st'))" "tmUserId q = tmUserId m" "tmTenantId q = tn"
  shows "\<not> tmIsActive q"
proof -
  have "members (acDb st') = updateRow tmId i (\<lambda>m. m\<lparr>tmIsActive := False\<rparr>) (members (acDb st))"
    by (rule removeMember_InrD [OF assms(1)]) (simp add: revokeDeviceAccess_def updateMemberRow_def)
  then obtain q' where q': "q' \<in> set (members (acDb st))" "q = (if tmId q' = i then q'\<lparr>tmIsActive := False\<rparr> else q')"
    using assms(6) by (auto simp: updateRow_def set_updateMany)
  then have "tmTenantId q' = tn" "tmUserId q' = tmUserId m" using assms(7,8) by (simp_all split: if_splits)
  then have "q' = m" using unique_row [OF assms(2) q'(1) assms(3)] assms(5) by simp
  then show ?thesis using q'(2) assms(4) by simp
qed

text \<open>Without a live membership a session of the store is refused, whichever way it is presented.\<close>

definition notMember :: "uuid \<Rightarrow> uuid \<Rightarrow> db \<Rightarrow> bool" where
  "notMember tn u s = list_all (\<lambda>q. tmUserId q = u \<and> tmTenantId q = tn \<longrightarrow> \<not> tmIsActive q) (members s)"

lemma notMember_none:
  assumes "notMember tn u s"
  shows "findFirst (\<lambda>m. tmUserId m = u \<and> Some (tmTenantId m) = Some tn \<and> tmIsActive m) (members s) = None"
    and "findFirst (\<lambda>m. tmUserId m = u \<and> tmTenantId m = tn \<and> tmIsActive m) (members s) = None"
  using assms by (auto simp: findFirst_None_iff notMember_def list_all_iff)

lemma notMember_refused:
  assumes "notMember tn u s" "tn \<noteq> []" and "aeVerifyAccess a raw = Some p" "jpSub p = u" "jpTenantId p = Some tn"
    and "requestToken rq = Some raw" "\<not> truthy (jpImpersonatedBy p)" "\<not> rtPublic rt"
  shows "\<exists>x. authorize a s rt rq = Inl x \<and> http_status x = 401"
proof -
  have "\<exists>x. validate s p = Inl x \<and> http_status x = 401"
  proof (cases "findFirst (\<lambda>v. uId v = jpSub p \<and> uIsActive v) (users s)")
    case (Some v)
    then have "uId v = u" using findFirst_SomeD [OF Some] assms(4) by simp
    with Some show ?thesis
      using assms(2,5,7) notMember_none(1) [OF assms(1)] by (simp add: validate_def truthy_def)
  qed (simp add: validate_def)
  then show ?thesis
    using assms(3,6,8) by (cases "truthy (Some raw)") (auto simp: authorize_def Let_def jwtAuthGuard_def bind_res_def)
qed

lemma notMember_not_refreshed:
  assumes "notMember tn u (acDb st)" "tn \<noteq> []" and "aeVerifyRefresh a raw = Some p" "jpSub p = u" "jpTenantId p = Some tn"
  shows "snd (refresh a st raw) = Inl noLongerValid"
  using assms(2-5) notMember_none(1) [OF assms(1)] rowOf_SomeD [of uId u "users (acDb st)"]
  by (auto simp: refresh_def Let_def truthy_def split: option.split)

lemma filter_untouched:
  assumes "\<And>r. P r \<Longrightarrow> \<not> Q r" and "\<And>r. P r \<Longrightarrow> \<not> Q (f r)"
  shows "filter Q (updateMany P f t) = filter Q t"
  using assms by (induction t) auto

text \<open>
  C13: removing a member takes effect at once. From the same moment on every access token of that
  member for the store is refused with 401 on every route that is not public, their web session is not
  refreshed for it, they cannot switch to it, none of their mobile sessions and phones is left in use
  there; the owner of the store is never removed. Nothing else changes: every other membership, every mobile
  session and phone of another user or for another store, and everything outside these three tables is as it was.
\<close>

theorem removal_takes_effect_at_once:
  assumes "removeMember a st tn i = Inr st'"
    and "uniqueKeys (\<lambda>m. (tmTenantId m, tmUserId m)) (members (acDb st))" and "tn \<noteq> []"
  shows "\<exists>m \<in> set (members (acDb st)). tmId m = i \<and> tmTenantId m = tn \<and> tmRole m \<noteq> OWNER
    \<and> (\<forall>a' rt rq raw p. requestToken rq = Some raw \<and> aeVerifyAccess a' raw = Some p \<and> jpSub p = tmUserId m
         \<and> jpTenantId p = Some tn \<and> \<not> truthy (jpImpersonatedBy p) \<and> \<not> rtPublic rt
         \<longrightarrow> (\<exists>x. authorize a' (acDb st') rt rq = Inl x \<and> http_status x = 401))
    \<and> (\<forall>a' raw p. aeVerifyRefresh a' raw = Some p \<and> jpSub p = tmUserId m \<and> jpTenantId p = Some tn
         \<longrightarrow> snd (refresh a' st' raw) = Inl noLongerValid)
    \<and> (\<forall>a' dev. switchTenant a' st' (tmUserId m) tn dev = Inl (Unauthorized ''Not a member of this tenant''))
    \<and> list_all (\<lambda>r. msOwner r = tmUserId m \<and> msTenantId r = Some tn \<longrightarrow> \<not> liveMobile r) (acMobile st')
    \<and> list_all (\<lambda>d. dvUserId d = tmUserId m \<and> dvTenantId d = tn \<longrightarrow> dvRevokedAt d \<noteq> None) (acDevices st')
    \<and> filter (\<lambda>q. tmId q \<noteq> i) (members (acDb st')) = filter (\<lambda>q. tmId q \<noteq> i) (members (acDb st))
    \<and> filter (\<lambda>r. \<not> (msOwner r = tmUserId m \<and> msTenantId r = Some tn)) (acMobile st')
        = filter (\<lambda>r. \<not> (msOwner r = tmUserId m \<and> msTenantId r = Some tn)) (acMobile st)
    \<and> filter (\<lambda>d. \<not> (dvUserId d = tmUserId m \<and> dvTenantId d = tn)) (acDevices st')
        = filter (\<lambda>d. \<not> (dvUserId d = tmUserId m \<and> dvTenantId d = tn)) (acDevices st)
    \<and> st' = st\<lparr>acDb := (acDb st)\<lparr>members := members (acDb st')\<rparr>, acMobile := acMobile st', acDevices := acDevices st'\<rparr>"
proof -
  obtain m where m: "m \<in> set (members (acDb st))" "tmId m = i" "tmTenantId m = tn" "tmRole m \<noteq> OWNER"
      and st': "st' = revokeDeviceAccess a (tmUserId m) tn (updateMemberRow i (\<lambda>m. m\<lparr>tmIsActive := False\<rparr>) st)"
    using removeMember_InrD [OF assms(1)] by blast
  have gone: "notMember tn (tmUserId m) (acDb st')"
    using removed_not_member [OF assms(1,2) m(1-3)] by (simp add: notMember_def list_all_iff)
  have "list_all (\<lambda>r. msOwner r = tmUserId m \<and> msTenantId r = Some tn \<longrightarrow> \<not> liveMobile r) (acMobile st')"
      "list_all (\<lambda>d. dvUserId d = tmUserId m \<and> dvTenantId d = tn \<longrightarrow> dvRevokedAt d \<noteq> None) (acDevices st')"
    by (auto simp: st' revokeDeviceAccess_def revokeMobile_def revokeDevices_def liveMobile_def
        intro!: list_all_updateMany)
  moreover have "filter (\<lambda>q. tmId q \<noteq> i) (members (acDb st')) = filter (\<lambda>q. tmId q \<noteq> i) (members (acDb st))"
    by (auto simp: st' revokeDeviceAccess_def updateMemberRow_def updateRow_def intro!: updateMany_others)
  moreover have "filter (\<lambda>r. \<not> (msOwner r = tmUserId m \<and> msTenantId r = Some tn)) (acMobile st')
        = filter (\<lambda>r. \<not> (msOwner r = tmUserId m \<and> msTenantId r = Some tn)) (acMobile st)"
    by (simp add: st' revokeDeviceAccess_def updateMemberRow_def revokeMobile_def) (rule filter_untouched; simp)
  moreover have "filter (\<lambda>d. \<not> (dvUserId d = tmUserId m \<and> dvTenantId d = tn)) (acDevices st')
        = filter (\<lambda>d. \<not> (dvUserId d = tmUserId m \<and> dvTenantId d = tn)) (acDevices st)"
    by (simp add: st' revokeDeviceAccess_def updateMemberRow_def revokeDevices_def) (rule filter_untouched; simp)
  moreover have "st' = st\<lparr>acDb := (acDb st)\<lparr>members := members (acDb st')\<rparr>, acMobile := acMobile st', acDevices := acDevices st'\<rparr>"
    by (simp add: st' revokeDeviceAccess_def updateMemberRow_def)
  moreover have "switchTenant a' st' (tmUserId m) tn dev = Inl (Unauthorized ''Not a member of this tenant'')" for a' dev
    using notMember_none(2) [OF gone] by (simp add: switchTenant_def)
  ultimately show ?thesis
    using m notMember_refused [OF gone assms(3)] notMember_not_refreshed [OF gone assms(3)]
    by (intro bexI [OF _ m(1)]) blast
qed

theorem removal_takes_effect_at_once_witness:
  "\<exists>st' x. removeMember authEnv0 staffed0 ''t1'' ''e2'' = Inr st'
    \<and> authorize authEnv0 (acDb st') dashboardRoute staffRequest = Inl x \<and> http_status x = 401"
proof -
  obtain st' where st': "removeMember authEnv0 staffed0 ''t1'' ''e2'' = Inr st'"
    by (simp add: removeMember_def staffMember_def bind_res_def access_samples)
  have u: "uniqueKeys (\<lambda>m. (tmTenantId m, tmUserId m)) (members (acDb staffed0))"
    by (simp add: uniqueKeys_def access_samples)
  obtain m where m: "m \<in> set (members (acDb staffed0))" "tmId m = ''e2''" "tmTenantId m = ''t1''"
      and refused: "\<And>a' rt rq raw p. requestToken rq = Some raw \<and> aeVerifyAccess a' raw = Some p \<and> jpSub p = tmUserId m
         \<and> jpTenantId p = Some ''t1'' \<and> \<not> truthy (jpImpersonatedBy p) \<and> \<not> rtPublic rt
         \<Longrightarrow> \<exists>x. authorize a' (acDb st') rt rq = Inl x \<and> http_status x = 401"
    using removal_takes_effect_at_once [OF st' u] by blast
  have "tmUserId m = ''u2''" using m by (auto simp: access_samples)
  then have "\<exists>x. authorize authEnv0 (acDb st') dashboardRoute staffRequest = Inl x \<and> http_status x = 401"
    using refused [of staffRequest "''u2''" authEnv0 _ dashboardRoute]
    by (simp add: requestToken_def truthy_def access_samples authEnv0_def)
  with st' show ?thesis by blast
qed

lemma checkCreate_tenant: "checkCreate e s tn dto = Inr t \<Longrightarrow> tId t = tn"
  by (auto simp: checkCreate_def bind_res_eq_Inr split: option.splits if_splits dest!: rowOf_SomeD)

text \<open>
  the customer of a storefront order is not checked against its store. A token of a customer of
  one store, sent to another, is accepted there: the order is stored in the other store and in the
  name of a customer it does not have, whom it cannot look up, and their own store does not show it.
\<close>

theorem foreign_customer_on_order:
  assumes "storefrontCreate a st rq dto = Inr (st', ord, f)" and "customerAuthGuard a st rq = Inr c"
    and "resolveTenant (acDb st) rq \<noteq> Some (cuTenantId c)" and "uniqueKeys cuId (acCustomers st)"
  shows "resolveTenant (acDb st) rq = Some (oTenantId ord) \<and> oCustomerId ord = Some (cuId c)
    \<and> findOneCustomer st' (oTenantId ord) (cuId c) = Inl (NotFound ''Customer not found'')
    \<and> ord \<notin> set (listMyOrders st' (cuTenantId c) (cuId c))"
proof -
  obtain c' where c': "c' \<in> set (acCustomers st)" "cuId c' = cuId c" "cuTenantId c' = cuTenantId c"
    using assms(2) by (auto simp: customerAuthGuard_def validateCustomer_def sanitizeCustomer_def
        split: if_splits option.splits dest!: findFirst_SomeD)
  obtain tn where tn: "resolveTenant (acDb st) rq = Some tn"
    using assms(1) by (cases "resolveTenant (acDb st) rq")
      (auto simp: storefrontCreate_def tenantRequiredGuard_def truthy_def bind_res_def)
  then have "\<exists>s'. createOrder (aeEnv a) (acDb st) tn dto (Some (cuId c)) = Inr (s', ord, f) \<and> st' = st\<lparr>acDb := s'\<rparr>"
    using assms(1,2) by (auto simp: storefrontCreate_def optionalCustomer_def bind_res_eq_Inr)
  then obtain s' where s': "createOrder (aeEnv a) (acDb st) tn dto (Some (cuId c)) = Inr (s', ord, f)"
      "st' = st\<lparr>acDb := s'\<rparr>" by blast
  have ord: "oTenantId ord = tn" "oCustomerId ord = Some (cuId c)"
    by (rule createOrder_InrE [OF s'(1)], simp add: newOrder_def checkCreate_tenant)+
  have "c2 = c'" if "c2 \<in> set (acCustomers st)" "cuId c2 = cuId c" for c2
    using unique_row [OF assms(4) that(1) c'(1)] that(2) c'(2) by simp
  then have "findFirst (\<lambda>x. cuId x = cuId c \<and> cuTenantId x = tn) (acCustomers st) = None"
    using c'(3) assms(3) tn by (auto simp: findFirst_None_iff)
  then have "findOneCustomer st' tn (cuId c) = Inl (NotFound ''Customer not found'')"
    by (simp add: findOneCustomer_def getCustomerProfile_def s'(2) bind_res_def)
  with ord tn assms(3) show ?thesis by (auto simp: listMyOrders_def findMany_def)
qed

text \<open>A customer of another store at the sample store.\<close>

definition visitorEnv :: authEnv where
  "visitorEnv = authEnv0\<lparr>aeVerifyCustomerAccess :=
     (\<lambda>t. Some \<lparr>cjSub = t, cjTenantId = ''t2'', cjType = ''customer''\<rparr>)\<rparr>"

definition visited0 :: accounts where
  "visited0 = accounts0\<lparr>acDb := db0, acCustomers := [customer0\<lparr>cuTenantId := ''t2''\<rparr>]\<rparr>"

definition visitorRequest :: request where
  "visitorRequest = staffRequest\<lparr>rqPath := ''/storefront/orders'', rqBearer := Some ''k1''\<rparr>"

theorem foreign_customer_on_order_witness:
  "\<exists>st' ord f. storefrontCreate visitorEnv visited0 visitorRequest basket0 = Inr (st', ord, f)
    \<and> oTenantId ord = ''t1'' \<and> oCustomerId ord = Some ''k1''"
proof -
  have tn: "resolveTenant (acDb visited0) visitorRequest = Some ''t1''"
    by (simp add: resolveTenant_def tenantIdentifier_def isUuid_def truthy_def visited0_def visitorRequest_def
        staffRequest_def db0_def tenant0_def)
  have c: "customerAuthGuard visitorEnv visited0 visitorRequest = Inr (customer0\<lparr>cuTenantId := ''t2'', cuPasswordHash := None\<rparr>)"
    by (simp add: customerAuthGuard_def validateCustomer_def sanitizeCustomer_def truthy_def visitorEnv_def
        visited0_def visitorRequest_def customer0_def)
  have "\<not> isl (createOrder env0 db0 ''t1'' basket0 (Some ''k1''))" by code_simp
  then obtain r where "createOrder env0 db0 ''t1'' basket0 (Some ''k1'') = Inr r"
    by (cases "createOrder env0 db0 ''t1'' basket0 (Some ''k1'')") auto
  then have "\<exists>st' ord f. storefrontCreate visitorEnv visited0 visitorRequest basket0 = Inr (st', ord, f)"
    using tn c by (cases r) (simp add: storefrontCreate_def tenantRequiredGuard_def truthy_def bind_res_def
        optionalCustomer_def visitorEnv_def visited0_def customer0_def authEnv0_def)
  then obtain st' ord f where ok: "storefrontCreate visitorEnv visited0 visitorRequest basket0 = Inr (st', ord, f)"
    by blast
  have "uniqueKeys cuId (acCustomers visited0)" by (simp add: visited0_def uniqueKeys_def)
  then show ?thesis
    using foreign_customer_on_order [OF ok c] ok tn by (auto simp: customer0_def)
qed

end
