(* ===== verification/PlatformTenants.thy ===== *)
theory PlatformTenants
  imports Stores Access
begin

text \<open>
  The administrators' side of a store: \<open>platform/tenants/platform-tenants.service.ts\<close>. Listing and
  creating stores, suspending and activating them with a history of every change, taking them away for
  good, notes, and entering a store in its owner's name.
\<close>

section \<open>Requests\<close>

record TenantAdminQueryDto =
  taPagination :: PaginationDto
  taStatus :: "TenantStatus option"
  taPlanId :: "uuid option"

record CreateTenantAdminDto =
  caName :: string
  caSlug :: string
  caOwnerEmail :: string
  caOwnerName :: string
  caTemporaryPassword :: string
  caPlanId :: "uuid option"
  caStatus :: "TenantStatus option"

record UpdateTenantAdminDto =
  uaName :: "string option"
  uaCommissionRate :: "rat option option"
  uaLimitsOverride :: "json option"
  uaAdminMetadata :: "json option"

record RequestContext =
  rcIp :: "string option"
  rcUserAgent :: "string option"

fun tenant_status_text :: "TenantStatus \<Rightarrow> string" where
  "tenant_status_text TenantStatus.PENDING = ''PENDING''"
| "tenant_status_text TenantStatus.ACTIVE = ''ACTIVE''"
| "tenant_status_text TenantStatus.SUSPENDED = ''SUSPENDED''"
| "tenant_status_text TenantStatus.BANNED = ''BANNED''"
| "tenant_status_text TenantStatus.TRIAL_EXPIRED = ''TRIAL_EXPIRED''"

section \<open>Reading\<close>

text \<open>The password of the mail server is taken out; the rest of the row is for the administrators.\<close>

record AdminView =
  avTenant :: tenant
  avSmtpPasswordSet :: bool

definition maskSmtpPassword :: "tenant \<Rightarrow> AdminView" where
  "maskSmtpPassword t = \<lparr>avTenant = t\<lparr>tSmtp := (tSmtp t)\<lparr>smPassword := None\<rparr>\<rparr>,
     avSmtpPasswordSet = truthy (smPassword (tSmtp t))\<rparr>"

definition findActiveOrThrow :: "db \<Rightarrow> uuid \<Rightarrow> tenant res" where
  "findActiveOrThrow s i =
     (case rowOf tId i (tenants s) of
        Some t \<Rightarrow> if tDeletedAt t = None then Inr t else Inl (NotFound ''Tenant not found'')
      | None \<Rightarrow> Inl (NotFound ''Tenant not found''))"

definition tenantAdminWhere :: "db \<Rightarrow> TenantAdminQueryDto \<Rightarrow> tenant \<Rightarrow> bool" where
  "tenantAdminWhere s q t =
     (tDeletedAt t = None
      \<and> (case taStatus q of Some x \<Rightarrow> tStatus t = x | None \<Rightarrow> True)
      \<and> (truthy (taPlanId q) \<longrightarrow> list_ex (\<lambda>u. suTenantId u = tId t \<and> Some (suPlanId u) = taPlanId q) (subscriptions s))
      \<and> (truthy (pgSearch (taPagination q)) \<longrightarrow>
          (let w = the (pgSearch (taPagination q))
           in containsText w (tName t) \<or> containsText w (tSlug t)
              \<or> (case rowOf uId (tOwnerId t) (users s) of Some u \<Rightarrow> containsText w (uEmail u) | None \<Rightarrow> False))))"

text \<open>A row of the list: the columns selected, the owner, the newest subscription and the counts.\<close>

record TenantListItem =
  liTenant :: tenant
  liOwner :: "user option"
  liSubscription :: "subscription option"
  liProductCount :: nat
  liOrderCount :: nat

definition listItem :: "db \<Rightarrow> tenant \<Rightarrow> TenantListItem" where
  "listItem s t =
     \<lparr>liTenant = t, liOwner = map_option sanitizeUser (rowOf uId (tOwnerId t) (users s)),
      liSubscription = currentSubscription s (tId t),
      liProductCount = countRows (\<lambda>p. pTenantId p = tId t) (products s),
      liOrderCount = countRows (\<lambda>ord. oTenantId ord = tId t) (orders s)\<rparr>"

definition listTenants :: "db \<Rightarrow> TenantAdminQueryDto \<Rightarrow> TenantListItem PaginatedResult" where
  "listTenants s q =
     paginate (taPagination q)
       (map (listItem s) (findMany (tenantAdminWhere s q) (\<lambda>t. - tCreatedAt t) (tenants s)))"

record TenantStats =
  tsProductCount :: nat
  tsOrderCount :: nat
  tsMemberCount :: nat
  tsGmv :: rat \<comment> \<open>a double\<close>

definition findOneTenant :: "db \<Rightarrow> uuid \<Rightarrow> (AdminView \<times> TenantStats) res" where
  "findOneTenant s i =
     bind_res (findActiveOrThrow s i) (\<lambda>t.
       let paid = filter (\<lambda>ord. oTenantId ord = i \<and> oPaymentStatus ord = PaymentStatus.PAID) (orders s)
       in Inr (maskSmtpPassword t,
            \<lparr>tsProductCount = countRows (\<lambda>p. pTenantId p = i) (products s),
             tsOrderCount = countRows (\<lambda>ord. oTenantId ord = i) (orders s),
             tsMemberCount = countRows (\<lambda>m. tmTenantId m = i \<and> tmIsActive m) (members s),
             tsGmv = foldl (\<lambda>x ord. dbl (x + dbl (oGrandTotal ord))) 0 paid\<rparr>))"

definition listTenantMembers :: "db \<Rightarrow> uuid \<Rightarrow> PaginationDto \<Rightarrow> (tenantMember \<times> user option) PaginatedResult res" where
  "listTenantMembers s i q =
     bind_res (findActiveOrThrow s i) (\<lambda>_.
       Inr (paginate q (map (\<lambda>m. (m, map_option sanitizeUser (rowOf uId (tmUserId m) (users s))))
              (findMany (\<lambda>m. tmTenantId m = i) tmCreatedAt (members s)))))"

definition getHistory :: "db \<Rightarrow> uuid \<Rightarrow> PaginationDto \<Rightarrow> tenantStatusHistory PaginatedResult res" where
  "getHistory s i q =
     bind_res (findActiveOrThrow s i) (\<lambda>_.
       Inr (paginate q (findMany (\<lambda>h. thTenantId h = i) (\<lambda>h. - thCreatedAt h) (statusChanges s))))"

definition listNotes :: "db \<Rightarrow> uuid \<Rightarrow> PaginationDto \<Rightarrow> tenantNote PaginatedResult res" where
  "listNotes s i q =
     bind_res (findActiveOrThrow s i) (\<lambda>_.
       Inr (paginate q (findMany (\<lambda>n. tnTenantId n = i) (\<lambda>n. - tnCreatedAt n) (tenantNotes s))))"

section \<open>Creating and editing\<close>

definition getDefaultPlanId :: "db \<Rightarrow> uuid res" where
  "getDefaultPlanId s =
     (case firstBy plIsActive plPrice (plans s) of
        None \<Rightarrow> Inl (BadRequest ''No active plan is configured'') | Some p \<Rightarrow> Inr (plId p))"

text \<open>A plan id that names no plan is refused by the foreign key of the subscription.\<close>

definition createTenant :: "authEnv \<Rightarrow> db \<Rightarrow> CreateTenantAdminDto \<Rightarrow> (db \<times> AdminView) res" where
  "createTenant a s dto =
     (let e = aeEnv a in
      if rowOf uEmail (caOwnerEmail dto) (users s) \<noteq> None then Inl (Conflict ''Email already registered'')
      else if rowOf tSlug (caSlug dto) (tenants s) \<noteq> None then Inl (Conflict ''Store slug already taken'')
      else bind_res (case caPlanId dto of Some k \<Rightarrow> Inr k | None \<Rightarrow> getDefaultPlanId s) (\<lambda>planId.
        if rowOf plId planId (plans s) = None then Inl databaseError
        else
          let st = patch (caStatus dto) TenantStatus.ACTIVE;
              u = newUser (eFresh e 0) (caOwnerEmail dto) (aeBcrypt a (caTemporaryPassword dto)) (caOwnerName dto);
              t = (newTenant (eFresh e 1) (uId u) (caName dto) (caSlug dto) (anow a))
                    \<lparr>tStatus := st, tIsActive := (st = TenantStatus.ACTIVE)\<rparr>
          in Inr (s\<lparr>users := users s @ [u], tenants := tenants s @ [t],
                    members := members s @ [newMember (eFresh e 2) (tId t) (uId u) OWNER [] (anow a)],
                    subscriptions := subscriptions s @ [newSubscription (eFresh e 3) (tId t) planId None (anow a)]\<rparr>,
                  maskSmtpPassword t)))"

definition updateTenantRow :: "uuid \<Rightarrow> (tenant \<Rightarrow> tenant) \<Rightarrow> db \<Rightarrow> db" where
  "updateTenantRow i f s = s\<lparr>tenants := updateRow tId i f (tenants s)\<rparr>"

text \<open>The commission is rounded to its column.\<close>

definition patchAdmin :: "UpdateTenantAdminDto \<Rightarrow> tenant \<Rightarrow> tenant" where
  "patchAdmin dto t =
     t\<lparr>tName := patch (uaName dto) (tName t),
       tCommissionRate := patch (map_option (map_option round2) (uaCommissionRate dto)) (tCommissionRate t),
       tLimitsOverride := patch (map_option Some (uaLimitsOverride dto)) (tLimitsOverride t),
       tAdminMetadata := patch (uaAdminMetadata dto) (tAdminMetadata t)\<rparr>"

definition updateTenant :: "db \<Rightarrow> uuid \<Rightarrow> UpdateTenantAdminDto \<Rightarrow> (db \<times> AdminView) res" where
  "updateTenant s i dto =
     bind_res (findActiveOrThrow s i) (\<lambda>t.
       Inr (updateTenantRow i (patchAdmin dto) s, maskSmtpPassword (patchAdmin dto t)))"

definition softDelete :: "env \<Rightarrow> db \<Rightarrow> uuid \<Rightarrow> db res" where
  "softDelete e s i =
     bind_res (findActiveOrThrow s i) (\<lambda>_.
       Inr (updateTenantRow i (\<lambda>t. t\<lparr>tDeletedAt := Some (eNow e), tIsActive := False\<rparr>) s))"

definition addNote :: "env \<Rightarrow> db \<Rightarrow> uuid \<Rightarrow> string \<Rightarrow> uuid \<Rightarrow> (db \<times> tenantNote) res" where
  "addNote e s i body actor =
     bind_res (findActiveOrThrow s i) (\<lambda>_.
       let n = \<lparr>tnId = eFresh e 0, tnTenantId = i, tnAuthorId = actor, tnBody = body, tnCreatedAt = eNow e\<rparr>
       in Inr (s\<lparr>tenantNotes := tenantNotes s @ [n]\<rparr>, n))"

section \<open>Suspending and activating\<close>

definition changeStatus ::
    "env \<Rightarrow> db \<Rightarrow> uuid \<Rightarrow> TenantStatus \<Rightarrow> string \<Rightarrow> uuid \<Rightarrow> RequestContext \<Rightarrow> (db \<times> AdminView) res" where
  "changeStatus e s i toStatus reason actor ctx =
     bind_res (findActiveOrThrow s i) (\<lambda>t.
       if tStatus t = toStatus then Inl (BadRequest (''Tenant is already '' @ tenant_status_text toStatus))
       else
         let f = (\<lambda>t. t\<lparr>tStatus := toStatus, tIsActive := (toStatus = TenantStatus.ACTIVE)\<rparr>);
             h = \<lparr>thId = eFresh e 0, thTenantId = i, thFromStatus = tStatus t, thToStatus = toStatus, thReason = reason,
                  thChangedById = actor, thIpAddress = rcIp ctx, thUserAgent = rcUserAgent ctx, thCreatedAt = eNow e\<rparr>;
             s1 = updateTenantRow i f s
         in Inr (s1\<lparr>statusChanges := statusChanges s @ [h]\<rparr>, maskSmtpPassword (f t)))"

definition suspend :: "env \<Rightarrow> db \<Rightarrow> uuid \<Rightarrow> string \<Rightarrow> uuid \<Rightarrow> RequestContext \<Rightarrow> (db \<times> AdminView) res" where
  "suspend e s i reason actor ctx = changeStatus e s i TenantStatus.SUSPENDED reason actor ctx"

definition activateTenant :: "env \<Rightarrow> db \<Rightarrow> uuid \<Rightarrow> string \<Rightarrow> uuid \<Rightarrow> RequestContext \<Rightarrow> (db \<times> AdminView) res" where
  "activateTenant e s i reason actor ctx = changeStatus e s i TenantStatus.ACTIVE reason actor ctx"

section \<open>Purging\<close>

text \<open>
  Deleting the row of a store deletes the rows of every table with a foreign key to it, and theirs in
  turn. What another store has linked to its locations, taxes and categories is unlinked.
\<close>

definition cascadeTenant :: "uuid \<Rightarrow> db \<Rightarrow> db" where
  "cascadeTenant i s =
     (let goneTaxes = ptId ` set (filter (\<lambda>t. ptTenantId t = i) (taxTable s));
          goneCats = pcId ` set (filter (\<lambda>c. pcTenantId c = i) (categoryTable s));
          goneLocs = loId ` set (filter (\<lambda>l. loTenantId l = i) (locations s));
          here = (\<lambda>k. case k of Some l \<Rightarrow> if l \<in> goneLocs then None else Some l | None \<Rightarrow> None)
      in s\<lparr>tenants := filter (\<lambda>t. tId t \<noteq> i) (tenants s),
           products := map (\<lambda>p. p\<lparr>pTaxes := filter (\<lambda>t. ptId t \<notin> goneTaxes) (pTaxes p),
               pCategories := filter (\<lambda>c. c \<notin> goneCats) (pCategories p)\<rparr>) (filter (\<lambda>p. pTenantId p \<noteq> i) (products s)),
           variants := map (\<lambda>v. v\<lparr>vLocationId := here (vLocationId v)\<rparr>) (filter (\<lambda>v. vTenantId v \<noteq> i) (variants s)),
           coupons := filter (\<lambda>c. cpTenantId c \<noteq> i) (coupons s),
           shippings := map (\<lambda>h. h\<lparr>shLocationId := here (shLocationId h)\<rparr>) (filter (\<lambda>h. shTenantId h \<noteq> i) (shippings s)),
           orders := filter (\<lambda>ord. oTenantId ord \<noteq> i) (orders s),
           paymentSettings := filter (\<lambda>m. pmTenantId m \<noteq> i) (paymentSettings s),
           assets := filter (\<lambda>x. daTenantId x \<noteq> i) (assets s),
           deliveries := filter (\<lambda>d. ddTenantId d \<noteq> i) (deliveries s),
           grants := filter (\<lambda>g. dgTenantId g \<noteq> i) (grants s),
           schedules := filter (\<lambda>c. psTenantId c \<noteq> i) (schedules s),
           subscriptions := filter (\<lambda>u. suTenantId u \<noteq> i) (subscriptions s),
           members := filter (\<lambda>m. tmTenantId m \<noteq> i) (members s),
           taxTable := filter (\<lambda>t. ptTenantId t \<noteq> i) (taxTable s),
           categoryTable := filter (\<lambda>c. pcTenantId c \<noteq> i) (categoryTable s),
           imageTable := filter (\<lambda>m. imTenantId m \<noteq> i) (imageTable s),
           locations := filter (\<lambda>l. loTenantId l \<noteq> i) (locations s),
           tenantNotes := filter (\<lambda>n. tnTenantId n \<noteq> i) (tenantNotes s),
           statusChanges := filter (\<lambda>h. thTenantId h \<noteq> i) (statusChanges s),
           impersonationLogs := filter (\<lambda>l. tlTenantId l \<noteq> i) (impersonationLogs s),
           emailTemplates := filter (\<lambda>m. etTenantId m \<noteq> Some i) (emailTemplates s),
           visits := filter (\<lambda>v. viTenantId v \<noteq> i) (visits s)\<rparr>)"

text \<open>
  The accounts of its customers go with their sessions. Two tables name the store without a foreign key:
  the sessions of phones of its staff, and those phones.
\<close>

definition purgeAccounts :: "uuid \<Rightarrow> accounts \<Rightarrow> accounts" where
  "purgeAccounts i st =
     (let gone = cuId ` set (filter (\<lambda>c. cuTenantId c = i) (acCustomers st))
      in st\<lparr>acDb := cascadeTenant i (acDb st),
            acCustomers := filter (\<lambda>c. cuTenantId c \<noteq> i) (acCustomers st),
            acCustomerSessions := filter (\<lambda>r. snOwner r \<notin> gone) (acCustomerSessions st),
            acCustomerMobile := filter (\<lambda>r. msOwner r \<notin> gone) (acCustomerMobile st),
            acCustomerResets := filter (\<lambda>r. rkOwner r \<notin> gone) (acCustomerResets st)\<rparr>)"

text \<open>The directories removed from the disk afterwards are part of the answer here.\<close>

definition purge :: "accounts \<Rightarrow> uuid \<Rightarrow> string \<Rightarrow> (accounts \<times> string list) res" where
  "purge st i confirmSlug =
     (case rowOf tId i (tenants (acDb st)) of
        None \<Rightarrow> Inl (NotFound ''Tenant not found'')
      | Some t \<Rightarrow>
          if confirmSlug \<noteq> tSlug t
          then Inl (BadRequest (''confirmSlug does not match this tenant '' @ emDash @ '' nothing was deleted''))
          else Inr (purgeAccounts i st, [''uploads/'' @ i, ''invoices/'' @ i]))"

section \<open>Entering a store\<close>

definition IMPERSONATION_TTL_MINUTES :: int where
  "IMPERSONATION_TTL_MINUTES = 30"

record ImpersonationResult =
  irAccessToken :: string
  irExpiresAt :: time
  irTenantId :: uuid
  irTenantName :: string

definition impersonationPayload :: "tenant \<Rightarrow> user \<Rightarrow> uuid \<Rightarrow> JwtPayload" where
  "impersonationPayload t u actor =
     \<lparr>jpSub = uId u, jpEmail = uEmail u, jpGlobalRole = uGlobalRole u, jpTenantId = Some (tId t),
      jpTenantRole = Some OWNER, jpImpersonatedBy = Some actor, jpPurpose = None\<rparr>"

text \<open>\<open>sign payload expiresIn\<close> signs with the secret of access tokens, for so many minutes.\<close>

definition impersonate ::
    "env \<Rightarrow> (JwtPayload \<Rightarrow> int \<Rightarrow> string) \<Rightarrow> db \<Rightarrow> uuid \<Rightarrow> string option \<Rightarrow> uuid \<Rightarrow> RequestContext \<Rightarrow>
     (db \<times> ImpersonationResult) res" where
  "impersonate e sign s i reason actor ctx =
     bind_res (findActiveOrThrow s i) (\<lambda>t.
       case rowOf uId (tOwnerId t) (users s) of
         None \<Rightarrow> Inl (InternalError ''owner'')
       | Some u \<Rightarrow>
           let expiresAt = eNow e + IMPERSONATION_TTL_MINUTES * 60000;
               payload = impersonationPayload t u actor;
               l = \<lparr>tlId = eFresh e 0, tlTenantId = i, tlAdminId = actor, tlReason = reason, tlIpAddress = rcIp ctx,
                    tlUserAgent = rcUserAgent ctx, tlStartedAt = eNow e, tlExpiresAt = expiresAt\<rparr>
           in Inr (s\<lparr>impersonationLogs := impersonationLogs s @ [l]\<rparr>,
                \<lparr>irAccessToken = sign payload IMPERSONATION_TTL_MINUTES, irExpiresAt = expiresAt, irTenantId = tId t,
                 irTenantName = tName t\<rparr>))"

definition sendOwnerPasswordReset :: "authEnv \<Rightarrow> accounts \<Rightarrow> uuid \<Rightarrow> accounts res" where
  "sendOwnerPasswordReset a st i =
     bind_res (findActiveOrThrow (acDb st) i) (\<lambda>t.
       case rowOf uId (tOwnerId t) (users (acDb st)) of
         None \<Rightarrow> Inl (InternalError ''owner'')
       | Some u \<Rightarrow>
           let (st', raw) = issuePasswordResetToken a (uId u) PASSWORD_RESET_TOKEN_TTL_MS st
           in Inr (emitAccounts (resetEmail a t u raw) st'))"

section \<open>The stores, over everything that writes them\<close>

text \<open>Reachable exactly when active and not deleted; a digital store counts no stock.\<close>

definition tenantOk :: "tenant \<Rightarrow> bool" where
  "tenantOk t = ((tIsActive t \<longleftrightarrow> tStatus t = TenantStatus.ACTIVE \<and> tDeletedAt t = None)
     \<and> (tCatalogType t = DIGITAL \<longrightarrow> \<not> tTracksInventory t))"

definition statusHistory :: "db \<Rightarrow> uuid \<Rightarrow> tenantStatusHistory list" where
  "statusHistory s i = filter (\<lambda>h. thTenantId h = i) (statusChanges s)"

text \<open>A history that leads from status to status without a gap and ends at the one the store has.\<close>

definition historyOk :: "TenantStatus \<Rightarrow> tenantStatusHistory list \<Rightarrow> bool" where
  "historyOk x hs = (successively (\<lambda>h h'. thToStatus h = thFromStatus h') hs
     \<and> list_all (\<lambda>h. thFromStatus h \<noteq> thToStatus h) hs \<and> (hs = [] \<or> thToStatus (last hs) = x))"

definition tenantsOk :: "db \<Rightarrow> bool" where
  "tenantsOk s = (uniqueKeys tId (tenants s) \<and> uniqueKeys tSlug (tenants s)
     \<and> list_all (\<lambda>t. tenantOk t \<and> historyOk (tStatus t) (statusHistory s (tId t))) (tenants s)
     \<and> list_all (\<lambda>h. thTenantId h \<in> tId ` set (tenants s)) (statusChanges s))"

inductive tenantStep :: "db \<Rightarrow> db \<Rightarrow> bool" where
  Register: "register a st rdto = Inr (st', t, r) \<Longrightarrow> eFresh (aeEnv a) 1 \<notin> tId ` set (tenants (acDb st))
    \<Longrightarrow> tenantStep (acDb st) (acDb st')"
| Additional: "createAdditional e s userId cdto = Inr (s', t) \<Longrightarrow> eFresh e 0 \<notin> tId ` set (tenants s) \<Longrightarrow> tenantStep s s'"
| Settings: "updateStore e s i udto = Inr (s', v) \<Longrightarrow> tenantStep s s'"
| CreateByAdmin: "createTenant a s adto = Inr (s', w) \<Longrightarrow> eFresh (aeEnv a) 1 \<notin> tId ` set (tenants s) \<Longrightarrow> tenantStep s s'"
| EditByAdmin: "updateTenant s i edto = Inr (s', w) \<Longrightarrow> tenantStep s s'"
| SoftDelete: "softDelete e s i = Inr s' \<Longrightarrow> tenantStep s s'"
| Suspend: "suspend e s i reason actor ctx = Inr (s', w) \<Longrightarrow> tenantStep s s'"
| Activate: "activateTenant e s i reason actor ctx = Inr (s', w) \<Longrightarrow> tenantStep s s'"
| Purge: "purge st i slug = Inr (st', dirs) \<Longrightarrow> tenantStep (acDb st) (acDb st')"

inductive_cases tenantStepE: "tenantStep s s'"

lemma in_set_updateRowE:
  assumes "r \<in> set (updateRow key k f t)"
  obtains q where "q \<in> set t" "r = (if key q = k then f q else q)"
  using assms unfolding updateRow_def in_set_updateMany by blast

lemma tenantsOk_append:
  assumes "tenantsOk s" "tenants s' = tenants s @ [t]" "statusChanges s' = statusChanges s"
    and "tId t \<notin> tId ` set (tenants s)" "rowOf tSlug (tSlug t) (tenants s) = None" "tenantOk t"
  shows "tenantsOk s'"
proof -
  have "thTenantId h \<noteq> tId t" if "h \<in> set (statusChanges s)" for h
    using assms(1,4) that by (metis list_all_iff tenantsOk_def)
  then have "statusHistory s' (tId t) = []" by (simp add: statusHistory_def assms(3) filter_empty_conv)
  moreover have "statusHistory s' k = statusHistory s k" for k by (simp add: statusHistory_def assms(3))
  ultimately show ?thesis
    using assms by (auto simp: tenantsOk_def uniqueKeys_append1 rowOf_None_iff list_all_iff historyOk_def)
qed

lemma tenantsOk_update:
  assumes "tenantsOk s" "tenants s' = updateRow tId i f (tenants s)" "statusChanges s' = statusChanges s"
    and "\<And>t. tId (f t) = tId t" "\<And>t. tSlug (f t) = tSlug t" "\<And>t. tStatus (f t) = tStatus t"
    and "\<And>t. t \<in> set (tenants s) \<Longrightarrow> tId t = i \<Longrightarrow> tenantOk t \<Longrightarrow> tenantOk (f t)"
  shows "tenantsOk s'"
proof -
  have "map tId (tenants s') = map tId (tenants s)"
    unfolding assms(2) updateRow_def by (rule map_updateMany_key) (rule assms(4))
  then have ids: "tId ` set (tenants s') = tId ` set (tenants s)" by (metis list.set_map)
  have "statusHistory s' k = statusHistory s k" for k by (simp add: statusHistory_def assms(3))
  moreover have "uniqueKeys tId (tenants s')" "uniqueKeys tSlug (tenants s')"
    using assms(1,4,5) by (simp_all add: assms(2) tenantsOk_def uniqueKeys_updateRow)
  moreover have "tenantOk t \<and> historyOk (tStatus t) (statusHistory s (tId t))" if "t \<in> set (tenants s')" for t
  proof -
    obtain q where q: "q \<in> set (tenants s)" "t = (if tId q = i then f q else q)"
      using \<open>t \<in> set (tenants s')\<close> [unfolded assms(2)] by (elim in_set_updateRowE)
    then have "tenantOk q" "historyOk (tStatus q) (statusHistory s (tId q))"
      using assms(1) by (auto simp: tenantsOk_def list_all_iff)
    then show ?thesis using q assms(4,6,7) by auto
  qed
  ultimately show ?thesis
    using assms(1) unfolding tenantsOk_def ids by (simp add: assms(3) list_all_iff)
qed

lemma historyOk_snoc:
  "historyOk x hs \<Longrightarrow> thFromStatus h = x \<Longrightarrow> thFromStatus h \<noteq> thToStatus h \<Longrightarrow> historyOk (thToStatus h) (hs @ [h])"
  by (auto simp: historyOk_def successively_append_iff)

lemma findActiveOrThrow_Inr:
  "findActiveOrThrow s i = Inr t \<longleftrightarrow> rowOf tId i (tenants s) = Some t \<and> tDeletedAt t = None"
  by (auto simp: findActiveOrThrow_def split: option.splits)

lemma changeStatus_InrD:
  assumes "changeStatus e s i x reason actor ctx = Inr (s', w)"
  obtains t h where "rowOf tId i (tenants s) = Some t" "tDeletedAt t = None" "tStatus t \<noteq> x"
    "tenants s' = updateRow tId i (\<lambda>t. t\<lparr>tStatus := x, tIsActive := (x = TenantStatus.ACTIVE)\<rparr>) (tenants s)"
    "statusChanges s' = statusChanges s @ [h]" "thTenantId h = i" "thFromStatus h = tStatus t" "thToStatus h = x"
  using assms
  by (auto simp: changeStatus_def bind_res_eq_Inr findActiveOrThrow_Inr updateTenantRow_def Let_def split: if_splits
      intro: that)

lemma changeStatus_ok:
  assumes "changeStatus e s i x reason actor ctx = Inr (s', w)" "tenantsOk s"
  shows "tenantsOk s'"
proof -
  let ?f = "\<lambda>t. t\<lparr>tStatus := x, tIsActive := (x = TenantStatus.ACTIVE)\<rparr>"
  obtain t h where t: "rowOf tId i (tenants s) = Some t" "tDeletedAt t = None" "tStatus t \<noteq> x"
      and s': "tenants s' = updateRow tId i ?f (tenants s)" "statusChanges s' = statusChanges s @ [h]"
      and h: "thTenantId h = i" "thFromStatus h = tStatus t" "thToStatus h = x"
    using changeStatus_InrD [OF assms(1)] by metis
  have ti: "t \<in> set (tenants s)" "tId t = i" using rowOf_SomeD [OF t(1)] by auto
  have "map tId (tenants s') = map tId (tenants s)"
    unfolding s'(1) updateRow_def by (rule map_updateMany_key) simp
  then have ids: "tId ` set (tenants s') = tId ` set (tenants s)" by (metis list.set_map)
  have old: "tenantOk q \<and> historyOk (tStatus q) (statusHistory s (tId q))" if "q \<in> set (tenants s)" for q
    using assms(2) that by (auto simp: tenantsOk_def list_all_iff)
  have "tenantOk r \<and> historyOk (tStatus r) (statusHistory s' (tId r))" if "r \<in> set (tenants s')" for r
  proof -
    obtain q where q: "q \<in> set (tenants s)" "r = (if tId q = i then ?f q else q)"
      using \<open>r \<in> set (tenants s')\<close> [unfolded s'(1)] by (elim in_set_updateRowE)
    show ?thesis
    proof (cases "tId q = i")
      case True
      then have "q = t" using unique_row [of tId "tenants s"] assms(2) q(1) ti by (auto simp: tenantsOk_def)
      then have "historyOk x (statusHistory s i @ [h])" using old [OF q(1)] h t(3) True historyOk_snoc by force
      then show ?thesis
        using True q(2) \<open>q = t\<close> t(2) old [OF q(1)] h(1) by (simp add: tenantOk_def statusHistory_def s'(2))
    next
      case False
      then show ?thesis using q old [OF q(1)] h(1) by (simp add: statusHistory_def s'(2))
    qed
  qed
  moreover have "uniqueKeys tId (tenants s')" "uniqueKeys tSlug (tenants s')"
    using assms(2) by (simp_all add: s'(1) tenantsOk_def uniqueKeys_updateRow)
  ultimately show ?thesis
    using assms(2) ti h(1) unfolding tenantsOk_def ids by (auto simp: s'(2) list_all_iff)
qed

lemma cascade_ok:
  assumes "tenantsOk s"
  shows "tenantsOk (cascadeTenant i s)"
proof -
  let ?s' = "cascadeTenant i s"
  have s': "tenants ?s' = filter (\<lambda>t. tId t \<noteq> i) (tenants s)" "statusChanges ?s' = filter (\<lambda>h. thTenantId h \<noteq> i) (statusChanges s)"
    by (simp_all add: cascadeTenant_def Let_def)
  have "statusHistory ?s' k = statusHistory s k" if "k \<noteq> i" for k
    using that by (auto simp: statusHistory_def s'(2) intro: filter_cong)
  moreover have "uniqueKeys tId (tenants ?s')" "uniqueKeys tSlug (tenants ?s')"
    using assms by (simp_all add: s'(1) tenantsOk_def uniqueKeys_def distinct_map_filter)
  moreover have "thTenantId h \<in> tId ` set (tenants ?s')" if "h \<in> set (statusChanges ?s')" for h
  proof -
    have "thTenantId h \<in> tId ` set (tenants s)" "thTenantId h \<noteq> i"
      using assms that by (auto simp: s'(2) tenantsOk_def list_all_iff)
    then show ?thesis by (auto simp: s'(1))
  qed
  ultimately show ?thesis using assms by (auto simp: tenantsOk_def list_all_iff s'(1))
qed

lemma register_tenants:
  assumes "register a st rdto = Inr (st', t, r)"
  shows "tenants (acDb st') = tenants (acDb st) @ [t]" "statusChanges (acDb st') = statusChanges (acDb st)"
    "tId t = eFresh (aeEnv a) 1" "rowOf tSlug (tSlug t) (tenants (acDb st)) = None" "tenantOk t"
  using assms
  by (auto simp: register_def Let_def newTenant_def tenantOk_def issueSession_def issueTokenPair_def
      issueFreshMobileRefreshToken_def createMobileRefreshToken_def split: if_splits prod.splits)

lemma createAdditional_tenants:
  assumes "createAdditional e s userId cdto = Inr (s', t)"
  shows "tenants s' = tenants s @ [t]" "statusChanges s' = statusChanges s"
    "tId t = eFresh e 0" "rowOf tSlug (tSlug t) (tenants s) = None" "tenantOk t"
  using assms by (auto simp: createAdditional_def Let_def newTenant_def tenantOk_def split: if_splits)

lemma createTenant_tenants:
  assumes "createTenant a s adto = Inr (s', w)"
  obtains t where "tenants s' = tenants s @ [t]" "statusChanges s' = statusChanges s"
    "tId t = eFresh (aeEnv a) 1" "rowOf tSlug (tSlug t) (tenants s) = None" "tenantOk t"
  using assms
  by (auto simp: createTenant_def Let_def bind_res_eq_Inr newTenant_def tenantOk_def split: if_splits intro: that)

lemma dropReplaced_tables:
  "tenants (dropReplaced i new old s) = tenants s" "statusChanges (dropReplaced i new old s) = statusChanges s"
  by (auto simp: dropReplaced_def deleteUploadedFile_def split: option.split)

lemma checkCatalogType_tracks:
  assumes "checkCatalogType s i dto = Inr tracks" "rowOf tId i (tenants s) = Some t" "tenantOk t"
    and "patch (utCatalogType dto) (tCatalogType t) = DIGITAL"
  shows "\<not> patch tracks (tTracksInventory t)"
  using assms
  by (auto simp: checkCatalogType_def Let_def tenantOk_def patch_def split: if_splits option.splits)

lemma updateStore_ok:
  assumes "updateStore e s i dto = Inr (s', v)" "tenantsOk s"
  shows "tenantsOk s'"
proof -
  obtain t tracks where t: "rowOf tId i (tenants s) = Some t" and tr: "checkCatalogType s i dto = Inr tracks"
      and s': "tenants s' = updateRow tId i (\<lambda>_. patchTenant e dto tracks t) (tenants s)" "statusChanges s' = statusChanges s"
    using assms(1) unfolding updateStore_def bind_res_eq_Inr Let_def
    by (auto simp: bind_res_eq_Inr dropReplaced_tables split: option.splits)
  have ti: "t \<in> set (tenants s)" "tId t = i" using rowOf_SomeD [OF t] by auto
  have one: "updateRow tId i (\<lambda>_. patchTenant e dto tracks t) (tenants s) = updateRow tId i (patchTenant e dto tracks) (tenants s)"
    using unique_row [of tId "tenants s"] assms(2) ti
    by (auto simp: updateRow_def updateMany_def tenantsOk_def)
  show ?thesis
  proof (rule tenantsOk_update [OF assms(2) s'(1) [unfolded one] s'(2)])
    fix q assume "q \<in> set (tenants s)" "tId q = i" "tenantOk q"
    moreover from this have "q = t" using unique_row [of tId "tenants s"] assms(2) ti by (auto simp: tenantsOk_def)
    ultimately show "tenantOk (patchTenant e dto tracks q)"
      using checkCatalogType_tracks [OF tr t] by (auto simp: tenantOk_def patchTenant_def)
  qed (simp_all add: patchTenant_def)
qed

section \<open>Properties\<close>

text \<open>
  C22: over any run of everything that creates, edits, suspends, activates or deletes a store, a store is
  reachable exactly when its status is active and it is not deleted; its history of changes leads without
  a gap to the status it has; slugs are unique; and a digital store never counts stock.
\<close>

theorem stores_stay_in_step:
  assumes "tenantStep\<^sup>*\<^sup>* s s'" and "tenantsOk s"
  shows "tenantsOk s'"
  using assms
proof induction
  case (step s1 s2)
  then have ok: "tenantsOk s1" by simp
  from step.hyps(2) show ?case
  proof cases
    case (Register a st rdto st' t r)
    note r = register_tenants [OF Register(3)]
    show ?thesis
      by (rule tenantsOk_append [OF ok]) (use r Register in simp_all)
  next
    case (Additional e userId cdto t)
    note r = createAdditional_tenants [OF Additional(1)]
    show ?thesis by (rule tenantsOk_append [OF ok]) (use r Additional in simp_all)
  next
    case Settings
    then show ?thesis using ok by (rule updateStore_ok)
  next
    case (CreateByAdmin a adto w)
    obtain t where t: "tenants s2 = tenants s1 @ [t]" "statusChanges s2 = statusChanges s1"
        "tId t = eFresh (aeEnv a) 1" "rowOf tSlug (tSlug t) (tenants s1) = None" "tenantOk t"
      using createTenant_tenants [OF CreateByAdmin(1)] .
    show ?thesis by (rule tenantsOk_append [OF ok]) (use t CreateByAdmin in simp_all)
  next
    case (EditByAdmin i edto w)
    then have s2: "s2 = updateTenantRow i (patchAdmin edto) s1" by (auto simp: updateTenant_def bind_res_eq_Inr)
    show ?thesis
      by (rule tenantsOk_update [OF ok, where i = i and f = "patchAdmin edto"])
        (simp_all add: s2 updateTenantRow_def patchAdmin_def tenantOk_def)
  next
    case (SoftDelete e i)
    let ?f = "\<lambda>t. t\<lparr>tDeletedAt := Some (eNow e), tIsActive := False\<rparr>"
    have s2: "s2 = updateTenantRow i ?f s1" using SoftDelete by (auto simp: softDelete_def bind_res_eq_Inr)
    show ?thesis
      by (rule tenantsOk_update [OF ok, where i = i and f = ?f]) (simp_all add: s2 updateTenantRow_def tenantOk_def)
  next
    case Suspend
    then show ?thesis using changeStatus_ok [OF _ ok] unfolding suspend_def by blast
  next
    case Activate
    then show ?thesis using changeStatus_ok [OF _ ok] unfolding activateTenant_def by blast
  next
    case (Purge st i slug st' dirs)
    then have "s2 = cascadeTenant i s1"
      by (auto simp: purge_def purgeAccounts_def Let_def split: option.splits if_splits)
    then show ?thesis using cascade_ok [OF ok] by simp
  qed
qed

definition ctx0 :: RequestContext where
  "ctx0 = \<lparr>rcIp = Some ''10.0.0.1'', rcUserAgent = None\<rparr>"

lemma tenantsOk_db0: "tenantsOk db0"
  by (simp add: tenantsOk_def db0_def uniqueKeys_def tenantOk_def tenant0_def statusHistory_def historyOk_def)

theorem stores_stay_in_step_witness:
  "\<exists>s' w. suspend env0 db0 ''t1'' ''unpaid'' ''admin'' ctx0 = Inr (s', w) \<and> tenantsOk s' \<and> length (statusHistory s' ''t1'') = 1"
proof -
  let ?r = "suspend env0 db0 ''t1'' ''unpaid'' ''admin'' ctx0"
  have "\<not> isl ?r" "length (statusHistory (fst (projr ?r)) ''t1'') = 1" by code_simp+
  then obtain s' w where r: "?r = Inr (s', w)" "length (statusHistory s' ''t1'') = 1" by (cases ?r) auto
  then have "tenantStep\<^sup>*\<^sup>* db0 s'" by (intro r_into_rtranclp tenantStep.Suspend)
  then show ?thesis using stores_stay_in_step tenantsOk_db0 r by blast
qed

lemma updateMany_undone:
  "(\<And>r. r \<in> set t \<Longrightarrow> P r \<Longrightarrow> P (f r) \<and> g (f r) = r) \<Longrightarrow> updateMany P g (updateMany P f t) = t"
  by (induction t) auto

text \<open>
  C23: suspending a store takes it off the air at once: no request resolves to it, by header, query or
  subdomain, and its public page is gone; who did it and why is the last entry of its history. Activating
  it again gives back every store exactly as it was.
\<close>

theorem suspension_takes_store_off_air:
  assumes "suspend e s i reason actor ctx = Inr (s', w)" and "tenantsOk s"
  shows "\<exists>t h. rowOf tId i (tenants s) = Some t \<and> resolveTenant s' rq \<noteq> Some i
    \<and> findPublicBySlug e' s' (tSlug t) = Inl (NotFound ''Store not found'')
    \<and> statusHistory s' i = statusHistory s i @ [h] \<and> thReason h = reason \<and> thChangedById h = actor
    \<and> (tStatus t = TenantStatus.ACTIVE \<longrightarrow>
        (\<exists>s2 w2. activateTenant e2 s' i reason2 actor2 ctx2 = Inr (s2, w2) \<and> tenants s2 = tenants s))"
proof -
  let ?f = "\<lambda>x t. t\<lparr>tStatus := x, tIsActive := (x = TenantStatus.ACTIVE)\<rparr>"
  obtain t where t: "rowOf tId i (tenants s) = Some t" "tDeletedAt t = None" "tStatus t \<noteq> TenantStatus.SUSPENDED"
      and s': "s' = (updateTenantRow i (?f TenantStatus.SUSPENDED) s)\<lparr>statusChanges := statusChanges s @
        [\<lparr>thId = eFresh e 0, thTenantId = i, thFromStatus = tStatus t, thToStatus = TenantStatus.SUSPENDED, thReason = reason,
          thChangedById = actor, thIpAddress = rcIp ctx, thUserAgent = rcUserAgent ctx, thCreatedAt = eNow e\<rparr>]\<rparr>"
    using assms(1)
    by (auto simp: suspend_def changeStatus_def bind_res_eq_Inr findActiveOrThrow_Inr Let_def split: if_splits)
  have ti: "t \<in> set (tenants s)" "tId t = i" and ok: "tenantOk t" and ids: "uniqueKeys tId (tenants s)"
      and slugs: "uniqueKeys tSlug (tenants s)"
    using rowOf_SomeD [OF t(1)] assms(2) by (auto simp: tenantsOk_def list_all_iff)
  have T: "tenants s' = updateRow tId i (?f TenantStatus.SUSPENDED) (tenants s)" by (simp add: s' updateTenantRow_def)
  have off: "\<not> tIsActive r" if "r \<in> set (tenants s')" "tId r = i \<or> tSlug r = tSlug t" for r
  proof -
    obtain q where q: "q \<in> set (tenants s)" "r = (if tId q = i then ?f TenantStatus.SUSPENDED q else q)"
      using \<open>r \<in> set (tenants s')\<close> [unfolded T] by (elim in_set_updateRowE)
    then have "tId q = i" using that(2) unique_row [OF slugs, of q t] ti by (auto split: if_splits)
    then show ?thesis using q(2) by simp
  qed
  have "resolveTenant s' rq \<noteq> Some i" using off resolveTenant_SomeD [of s' rq i] by auto
  moreover have "findPublicBySlug e' s' (tSlug t) = Inl (NotFound ''Store not found'')"
  proof -
    have "findFirst (\<lambda>r. tSlug r = tSlug t \<and> tIsActive r) (tenants s') = None"
      using off by (auto simp: findFirst_None_iff)
    then show ?thesis by (simp add: findPublicBySlug_def)
  qed
  moreover have "\<exists>s2 w2. activateTenant e2 s' i reason2 actor2 ctx2 = Inr (s2, w2) \<and> tenants s2 = tenants s"
    if act: "tStatus t = TenantStatus.ACTIVE"
  proof -
    have "rowOf tId i (tenants s') = Some (?f TenantStatus.SUSPENDED t)"
      unfolding T by (simp add: rowOf_updateRow_same t(1))
    then have "findActiveOrThrow s' i = Inr (?f TenantStatus.SUSPENDED t)" using t(2) by (simp add: findActiveOrThrow_Inr)
    moreover have "updateRow tId i (?f TenantStatus.ACTIVE) (tenants s') = tenants s"
      unfolding T updateRow_def
    proof (rule updateMany_undone)
      fix r assume "r \<in> set (tenants s)" "tId r = i"
      then have "r = t" using unique_row [OF ids] ti by auto
      moreover have "tIsActive t" using ok act t(2) by (simp add: tenantOk_def)
      ultimately show "tId (?f TenantStatus.SUSPENDED r) = i \<and> ?f TenantStatus.ACTIVE (?f TenantStatus.SUSPENDED r) = r"
        using ti act by simp
    qed
    ultimately show ?thesis by (simp add: activateTenant_def changeStatus_def updateTenantRow_def Let_def)
  qed
  ultimately show ?thesis
    using t(1) by (intro exI [of _ t] exI [of _ "last (statusChanges s')"]) (auto simp: s' statusHistory_def updateTenantRow_def)
qed

theorem suspension_takes_store_off_air_witness:
  "\<exists>s' w s2 w2. suspend env0 db0 ''t1'' ''unpaid'' ''admin'' ctx0 = Inr (s', w)
    \<and> findPublicBySlug env0 s' ''shop'' = Inl (NotFound ''Store not found'')
    \<and> activateTenant env0 s' ''t1'' ''paid'' ''admin'' ctx0 = Inr (s2, w2) \<and> tenants s2 = tenants db0"
proof -
  let ?r = "suspend env0 db0 ''t1'' ''unpaid'' ''admin'' ctx0"
  have "\<not> isl ?r" by code_simp
  then obtain s' w where r: "?r = Inr (s', w)" by (cases ?r) auto
  have "rowOf tId ''t1'' (tenants db0) = Some tenant0" by (simp add: db0_def tenant0_def)
  then show ?thesis
    using suspension_takes_store_off_air [OF r tenantsOk_db0, of staffRequest env0 env0 "''paid''" "''admin''" ctx0] r
    by (auto simp: tenant0_def)
qed

text \<open>All the rows of a store, in every table but the two that only name it.\<close>

definition storeRows :: "uuid \<Rightarrow> accounts \<Rightarrow> accounts" where
  "storeRows i st =
     (let s = acDb st; mine = cuId ` set (filter (\<lambda>c. cuTenantId c = i) (acCustomers st)) in
      st\<lparr>acDb := s\<lparr>tenants := filter (\<lambda>t. tId t = i) (tenants s), products := filter (\<lambda>p. pTenantId p = i) (products s),
           variants := filter (\<lambda>v. vTenantId v = i) (variants s), coupons := filter (\<lambda>c. cpTenantId c = i) (coupons s),
           shippings := filter (\<lambda>h. shTenantId h = i) (shippings s), orders := filter (\<lambda>ord. oTenantId ord = i) (orders s),
           paymentSettings := filter (\<lambda>m. pmTenantId m = i) (paymentSettings s), assets := filter (\<lambda>x. daTenantId x = i) (assets s),
           deliveries := filter (\<lambda>d. ddTenantId d = i) (deliveries s), grants := filter (\<lambda>g. dgTenantId g = i) (grants s),
           schedules := filter (\<lambda>c. psTenantId c = i) (schedules s),
           subscriptions := filter (\<lambda>u. suTenantId u = i) (subscriptions s), members := filter (\<lambda>m. tmTenantId m = i) (members s),
           taxTable := filter (\<lambda>t. ptTenantId t = i) (taxTable s), categoryTable := filter (\<lambda>c. pcTenantId c = i) (categoryTable s),
           imageTable := filter (\<lambda>m. imTenantId m = i) (imageTable s), locations := filter (\<lambda>l. loTenantId l = i) (locations s),
           tenantNotes := filter (\<lambda>n. tnTenantId n = i) (tenantNotes s), statusChanges := filter (\<lambda>h. thTenantId h = i) (statusChanges s),
           impersonationLogs := filter (\<lambda>l. tlTenantId l = i) (impersonationLogs s),
           emailTemplates := filter (\<lambda>m. etTenantId m = Some i) (emailTemplates s),
           visits := filter (\<lambda>v. viTenantId v = i) (visits s)\<rparr>,
         acCustomers := filter (\<lambda>c. cuTenantId c = i) (acCustomers st),
         acCustomerSessions := filter (\<lambda>r. snOwner r \<in> mine) (acCustomerSessions st),
         acCustomerMobile := filter (\<lambda>r. msOwner r \<in> mine) (acCustomerMobile st),
         acCustomerResets := filter (\<lambda>r. rkOwner r \<in> mine) (acCustomerResets st)\<rparr>)"

text \<open>Nothing of store \<open>k\<close> is linked to a location, tax or category of store \<open>i\<close>.\<close>

definition unlinked :: "uuid \<Rightarrow> uuid \<Rightarrow> db \<Rightarrow> bool" where
  "unlinked k i s =
     (list_all (\<lambda>v. vTenantId v = k \<longrightarrow> (\<forall>l \<in> set (locations s). loTenantId l = i \<longrightarrow> vLocationId v \<noteq> Some (loId l))) (variants s)
      \<and> list_all (\<lambda>h. shTenantId h = k \<longrightarrow> (\<forall>l \<in> set (locations s). loTenantId l = i \<longrightarrow> shLocationId h \<noteq> Some (loId l))) (shippings s)
      \<and> list_all (\<lambda>p. pTenantId p = k \<longrightarrow> (\<forall>x \<in> set (pTaxes p). \<forall>t \<in> set (taxTable s). ptTenantId t = i \<longrightarrow> ptId x \<noteq> ptId t)
            \<and> (\<forall>c \<in> set (categoryTable s). pcTenantId c = i \<longrightarrow> pcId c \<notin> set (pCategories p))) (products s))"

lemma filter_other: "filter (\<lambda>r. own r = k) (filter (\<lambda>r. own r \<noteq> i) t) = (if k = i then [] else filter (\<lambda>r. own r = k) t)"
  by (induction t) auto

lemma filter_other_map:
  assumes "\<And>r. own (f r) = own r" and "\<And>r. r \<in> set t \<Longrightarrow> own r = k \<Longrightarrow> f r = r" and "k \<noteq> i"
  shows "filter (\<lambda>r. own r = k) (map f (filter (\<lambda>r. own r \<noteq> i) t)) = filter (\<lambda>r. own r = k) t"
  using assms by (induction t) auto

lemma cascade_products:
  assumes "unlinked k i s" "k \<noteq> i"
  shows "filter (\<lambda>p. pTenantId p = k) (products (cascadeTenant i s)) = filter (\<lambda>p. pTenantId p = k) (products s)"
    and "filter (\<lambda>v. vTenantId v = k) (variants (cascadeTenant i s)) = filter (\<lambda>v. vTenantId v = k) (variants s)"
    and "filter (\<lambda>h. shTenantId h = k) (shippings (cascadeTenant i s)) = filter (\<lambda>h. shTenantId h = k) (shippings s)"
proof -
  show "filter (\<lambda>p. pTenantId p = k) (products (cascadeTenant i s)) = filter (\<lambda>p. pTenantId p = k) (products s)"
    unfolding cascadeTenant_def Let_def
  proof (simp, rule filter_other_map)
    fix p assume p: "p \<in> set (products s)" "pTenantId p = k"
    then have "filter (\<lambda>t. ptId t \<notin> ptId ` {t \<in> set (taxTable s). ptTenantId t = i}) (pTaxes p) = pTaxes p"
        "filter (\<lambda>c. c \<notin> pcId ` {c \<in> set (categoryTable s). pcTenantId c = i}) (pCategories p) = pCategories p"
      using assms(1) by (auto simp: unlinked_def list_all_iff filter_id_conv)
    then show "p\<lparr>pTaxes := filter (\<lambda>t. ptId t \<notin> ptId ` {t \<in> set (taxTable s). ptTenantId t = i}) (pTaxes p),
        pCategories := filter (\<lambda>c. c \<notin> pcId ` {c \<in> set (categoryTable s). pcTenantId c = i}) (pCategories p)\<rparr> = p"
      by simp
  qed (use assms(2) in simp_all)
  show "filter (\<lambda>v. vTenantId v = k) (variants (cascadeTenant i s)) = filter (\<lambda>v. vTenantId v = k) (variants s)"
    unfolding cascadeTenant_def Let_def
    by (simp, rule filter_other_map) (use assms in \<open>auto simp: unlinked_def list_all_iff split: option.split\<close>)
  show "filter (\<lambda>h. shTenantId h = k) (shippings (cascadeTenant i s)) = filter (\<lambda>h. shTenantId h = k) (shippings s)"
    unfolding cascadeTenant_def Let_def
    by (simp, rule filter_other_map) (use assms in \<open>auto simp: unlinked_def list_all_iff split: option.split\<close>)
qed

text \<open>The same accounts with no row of any store.\<close>

definition noRows :: "accounts \<Rightarrow> accounts" where
  "noRows st = st\<lparr>acDb := (acDb st)\<lparr>tenants := [], products := [], variants := [], coupons := [], shippings := [], orders := [],
     paymentSettings := [], assets := [], deliveries := [], grants := [], schedules := [], subscriptions := [], members := [],
     taxTable := [], categoryTable := [], imageTable := [], locations := [], tenantNotes := [], statusChanges := [],
     impersonationLogs := [], emailTemplates := [], visits := []\<rparr>, acCustomers := [], acCustomerSessions := [], acCustomerMobile := [], acCustomerResets := []\<rparr>"

lemma purge_InrD:
  "purge st i slug = Inr (st', dirs) \<Longrightarrow> st' = purgeAccounts i st \<and> (\<exists>t \<in> set (tenants (acDb st)). tId t = i \<and> tSlug t = slug)"
  by (auto simp: purge_def split: option.splits if_splits dest!: rowOf_SomeD)

lemma storeRows_purged: "storeRows i (purgeAccounts i st) = noRows st"
  by (simp add: storeRows_def purgeAccounts_def noRows_def cascadeTenant_def Let_def filter_other filter_empty_conv)

lemma cascade_tables:
  "tenants (cascadeTenant i s) = filter (\<lambda>t. tId t \<noteq> i) (tenants s)"
  "coupons (cascadeTenant i s) = filter (\<lambda>c. cpTenantId c \<noteq> i) (coupons s)"
  "orders (cascadeTenant i s) = filter (\<lambda>ord. oTenantId ord \<noteq> i) (orders s)"
  "paymentSettings (cascadeTenant i s) = filter (\<lambda>m. pmTenantId m \<noteq> i) (paymentSettings s)"
  "assets (cascadeTenant i s) = filter (\<lambda>x. daTenantId x \<noteq> i) (assets s)"
  "deliveries (cascadeTenant i s) = filter (\<lambda>d. ddTenantId d \<noteq> i) (deliveries s)"
  "grants (cascadeTenant i s) = filter (\<lambda>g. dgTenantId g \<noteq> i) (grants s)"
  "schedules (cascadeTenant i s) = filter (\<lambda>c. psTenantId c \<noteq> i) (schedules s)"
  "subscriptions (cascadeTenant i s) = filter (\<lambda>u. suTenantId u \<noteq> i) (subscriptions s)"
  "members (cascadeTenant i s) = filter (\<lambda>m. tmTenantId m \<noteq> i) (members s)"
  "taxTable (cascadeTenant i s) = filter (\<lambda>t. ptTenantId t \<noteq> i) (taxTable s)"
  "categoryTable (cascadeTenant i s) = filter (\<lambda>c. pcTenantId c \<noteq> i) (categoryTable s)"
  "imageTable (cascadeTenant i s) = filter (\<lambda>m. imTenantId m \<noteq> i) (imageTable s)"
  "locations (cascadeTenant i s) = filter (\<lambda>l. loTenantId l \<noteq> i) (locations s)"
  "tenantNotes (cascadeTenant i s) = filter (\<lambda>n. tnTenantId n \<noteq> i) (tenantNotes s)"
  "statusChanges (cascadeTenant i s) = filter (\<lambda>h. thTenantId h \<noteq> i) (statusChanges s)"
  "impersonationLogs (cascadeTenant i s) = filter (\<lambda>l. tlTenantId l \<noteq> i) (impersonationLogs s)"
  "emailTemplates (cascadeTenant i s) = filter (\<lambda>m. etTenantId m \<noteq> Some i) (emailTemplates s)"
  "visits (cascadeTenant i s) = filter (\<lambda>v. viTenantId v \<noteq> i) (visits s)"
  "plans (cascadeTenant i s) = plans s" "users (cascadeTenant i s) = users s"
  "categoryTemplates (cascadeTenant i s) = categoryTemplates s" "outbox (cascadeTenant i s) = outbox s"
  "platformSettings (cascadeTenant i s) = platformSettings s" "auditLogs (cascadeTenant i s) = auditLogs s"
  by (simp_all add: cascadeTenant_def Let_def)

lemma storeRows_kept:
  assumes "k \<noteq> i" "unlinked k i (acDb st)" "uniqueKeys cuId (acCustomers st)"
  shows "storeRows k (purgeAccounts i st) = storeRows k st"
proof -
  have own: "x \<notin> cuId ` {c \<in> set (acCustomers st). cuTenantId c = i}" if "x \<in> cuId ` {c \<in> set (acCustomers st). cuTenantId c = k}" for x
    using that assms(1,3) by (auto simp: uniqueKeys_def distinct_map dest: inj_onD)
  have kept: "filter (\<lambda>r. f r \<in> cuId ` {c \<in> set (acCustomers st). cuTenantId c = k})
      (filter (\<lambda>r. f r \<notin> cuId ` {c \<in> set (acCustomers st). cuTenantId c = i}) t)
    = filter (\<lambda>r. f r \<in> cuId ` {c \<in> set (acCustomers st). cuTenantId c = k}) t" for f :: "'r \<Rightarrow> uuid" and t
    using own by (auto intro: filter_cong)
  have mine: "{c. c \<in> set (acCustomers st) \<and> cuTenantId c \<noteq> i \<and> cuTenantId c = k} = {c \<in> set (acCustomers st). cuTenantId c = k}"
    using assms(1) by auto
  have "acDb (storeRows k (purgeAccounts i st)) = acDb (storeRows k st)"
    using assms(1) cascade_products [OF assms(2,1)]
    by (intro db.equality) (simp_all add: storeRows_def purgeAccounts_def Let_def filter_other cascade_tables del: filter_filter)
  then show ?thesis
    using assms(1)
    by (intro accounts.equality)
      (simp_all add: storeRows_def purgeAccounts_def Let_def filter_other kept mine conj_assoc del: filter_filter)
qed

text \<open>
  C25: purging a store needs its own slug, typed out, and takes that store only: of its rows none is left,
  and of any other store's (that has linked nothing of it) none is touched, nor any account of the staff, nor the audit log.
  Two things stay behind that the code says go: the phones registered for its notifications, and the
  files of its digital products, which are in the object store and not on the disk.
\<close>

theorem purge_takes_one_store:
  assumes "t \<in> set (tenants (acDb st))" "uniqueKeys tId (tenants (acDb st))" "uniqueKeys cuId (acCustomers st)"
    and "k \<noteq> tId t" "unlinked k (tId t) (acDb st)"
  shows "(case purge st (tId t) slug of
      Inl x \<Rightarrow> slug \<noteq> tSlug t \<and> http_status x = 400
    | Inr (st', dirs) \<Rightarrow> slug = tSlug t \<and> storeRows (tId t) st' = noRows st \<and> storeRows k st' = storeRows k st
        \<and> users (acDb st') = users (acDb st) \<and> auditLogs (acDb st') = auditLogs (acDb st) \<and> acDevices st' = acDevices st \<and> outbox (acDb st') = outbox (acDb st))"
proof -
  have "rowOf tId (tId t) (tenants (acDb st)) = Some t" using rowOf_unique [OF assms(2,1)] .
  then have "purge st (tId t) slug = (if slug \<noteq> tSlug t
      then Inl (BadRequest (''confirmSlug does not match this tenant '' @ emDash @ '' nothing was deleted''))
      else Inr (purgeAccounts (tId t) st, [''uploads/'' @ tId t, ''invoices/'' @ tId t]))"
    by (simp add: purge_def)
  moreover have "users (acDb (purgeAccounts (tId t) st)) = users (acDb st)" "acDevices (purgeAccounts (tId t) st) = acDevices st"
      "outbox (acDb (purgeAccounts (tId t) st)) = outbox (acDb st)" "auditLogs (acDb (purgeAccounts (tId t) st)) = auditLogs (acDb st)"
    by (simp_all add: purgeAccounts_def Let_def cascade_tables)
  ultimately show ?thesis
    using storeRows_purged storeRows_kept [OF assms(4,5,3)] by simp
qed

definition mall0 :: accounts where
  "mall0 = accounts0\<lparr>acDb := (acDb accounts0)\<lparr>tenants := [tenant0, tenant0\<lparr>tId := ''t2'', tSlug := ''other''\<rparr>],
     products := [product0, product0\<lparr>pId := ''p2'', pTenantId := ''t2'', pTaxes := []\<rparr>]\<rparr>,
     acDevices := [\<lparr>dvId = ''d1'', dvUserId = ''u1'', dvTenantId = ''t1'', dvToken = ''push'', dvPlatform = IOS, dvDeviceId = ''x'',
       dvLastSeenAt = 0, dvRevokedAt = None\<rparr>]\<rparr>"

theorem purge_takes_one_store_witness:
  "\<exists>st' dirs. purge mall0 ''t1'' ''shop'' = Inr (st', dirs) \<and> filter (\<lambda>p. pTenantId p = ''t1'') (products (acDb st')) = []
    \<and> map dvTenantId (acDevices st') = [''t1'']"
proof -
  have h: "tenant0 \<in> set (tenants (acDb mall0))" "uniqueKeys tId (tenants (acDb mall0))" "uniqueKeys cuId (acCustomers mall0)"
      "''t2'' \<noteq> tId tenant0" "unlinked ''t2'' (tId tenant0) (acDb mall0)"
    by (simp_all add: mall0_def account_samples tenant0_def db0_def uniqueKeys_def unlinked_def product0_def)
  obtain st' dirs where r: "purge mall0 ''t1'' ''shop'' = Inr (st', dirs)"
    using h(1) by (simp add: purge_def mall0_def tenant0_def)
  then have "storeRows ''t1'' st' = noRows mall0" "acDevices st' = acDevices mall0"
    using purge_takes_one_store [OF h, of "''shop''"] by (simp_all add: tenant0_def)
  moreover have "filter (\<lambda>p. pTenantId p = ''t1'') (products (acDb st')) = products (acDb (storeRows ''t1'' st'))"
    by (simp add: storeRows_def Let_def)
  ultimately show ?thesis using r by (simp add: noRows_def mall0_def)
qed

lemma impersonate_InrD:
  assumes "impersonate e sign s i reason actor ctx = Inr (s', r)"
  obtains t u l where "rowOf tId i (tenants s) = Some t" "rowOf uId (tOwnerId t) (users s) = Some u"
    "s' = s\<lparr>impersonationLogs := impersonationLogs s @ [l]\<rparr>" "tlAdminId l = actor" "tlTenantId l = i" "tlExpiresAt l = eNow e + 30 * 60000"
    "irAccessToken r = sign (impersonationPayload t u actor) 30"
proof -
  obtain t where t: "findActiveOrThrow s i = Inr t"
    using assms unfolding impersonate_def bind_res_eq_Inr by blast
  then obtain u where u: "rowOf uId (tOwnerId t) (users s) = Some u"
    using assms by (cases "rowOf uId (tOwnerId t) (users s)") (simp_all add: impersonate_def)
  show thesis
    using assms t u by (intro that) (simp_all add: impersonate_def findActiveOrThrow_Inr Let_def IMPERSONATION_TTL_MINUTES_def, auto)
qed

lemma findFirst_keyed:
  "uniqueKeys key t \<Longrightarrow> r \<in> set t \<Longrightarrow> findFirst (\<lambda>v. key v = key r \<and> P v) t = (if P r then Some r else None)"
proof (induction t)
  case (Cons x t)
  then have "x = r" if "key x = key r" using that by (auto simp: uniqueKeys_def)
  with Cons show ?case
    by (cases "key x = key r") (auto simp: uniqueKeys_def findFirst_None_iff intro: rev_image_eqI)
qed simp

text \<open>
  Which requests the owner \<open>u\<close> of the store \<open>i\<close> may make with a session of that store: the account is
  active, the store the request names, when it names one, is \<open>i\<close> (any, for an account of the platform),
  there is one when the route needs one, and the role the route asks for, when it asks for one, is the owner's.
\<close>

definition ownerMayEnter :: "user \<Rightarrow> uuid \<Rightarrow> route \<Rightarrow> uuid option \<Rightarrow> bool" where
  "ownerMayEnter u i rt named =
     (uIsActive u
      \<and> (truthy named \<longrightarrow> named = Some i \<or> uGlobalRole u = SUPER_ADMIN)
      \<and> (rtTenantRequired rt \<longrightarrow> truthy named)
      \<and> (case rtRoles rt of None \<Rightarrow> True
          | Some roles \<Rightarrow> roles = [] \<or> InTenant OWNER \<in> set roles \<or> Platform (uGlobalRole u) \<in> set roles))"


definition admittedEnv :: authEnv where
  "admittedEnv = authEnv0\<lparr>aeVerifyAccess := (\<lambda>_. Some (impersonationPayload tenant0 owner0 ''admin''))\<rparr>"

definition ownerRoute :: route where
  "ownerRoute = \<lparr>rtPublic = False, rtRoles = Some [InTenant OWNER], rtTenantRequired = True\<rparr>"


end
