(* ===== verification/Templates.thy ===== *)
theory Templates
  imports Text
begin

text \<open>
  The texts of e-mails: \<open>email-templates/default-templates.ts\<close> and
  \<open>email-templates/template-renderer.ts\<close>. A text is the list of its UTF-8 bytes, a template a text
  with the names of its variables in braces.
\<close>

section \<open>The built-in texts\<close>

record EmailTemplateContent =
  ecSubject :: string
  ecBody :: string

definition TEMPLATE_KEYS :: "string list" where
  "TEMPLATE_KEYS = [''staff-invite'', ''order-confirmation'', ''password-reset'', ''digital-delivery'']"

text \<open>Lines of a body.\<close>

definition lines :: "string list \<Rightarrow> string" where
  "lines = joinWith [CHR 0x0A]"

text \<open>Key, English text, Spanish text.\<close>

definition SEED_TEMPLATES :: "(string \<times> EmailTemplateContent \<times> EmailTemplateContent) list" where
  "SEED_TEMPLATES = [
    (''staff-invite'',
     \<lparr>ecSubject = ''You've been invited to {store_name}'',
     ecBody = lines [''Hi {name},'',
       [],
       ''{store_name} invited you to help manage their store.'',
       [],
       ''Set your password here: {reset_link}'',
       [],
       ''The link works once and expires in 72 hours.'']\<rparr>,
     \<lparr>ecSubject = ''Te invitaron a {store_name}'',
     ecBody = lines [''Hola {name},'',
       [],
       ''{store_name} te invit'' @ [CHR 0xC3, CHR 0xB3] @ '' a ayudar a administrar su tienda.'',
       [],
       ''Crea tu contrase'' @ [CHR 0xC3, CHR 0xB1] @ ''a aqu'' @ [CHR 0xC3, CHR 0xAD] @ '': {reset_link}'',
       [],
       ''El enlace funciona una sola vez y vence en 72 horas.'']\<rparr>),
    (''order-confirmation'',
     \<lparr>ecSubject = ''Order {order_no} confirmed '' @ [CHR 0xE2, CHR 0x80, CHR 0x94] @ '' {store_name}'',
     ecBody = lines [''Hi {customer_name},'',
       [],
       ''Thanks for your order at {store_name}!'',
       [],
       ''Order: {order_no}'',
       ''Total: {grand_total}'',
       [],
       ''See your order: {order_link}'',
       [],
       ''We will be in touch about delivery.'']\<rparr>,
     \<lparr>ecSubject = ''Pedido {order_no} confirmado '' @ [CHR 0xE2, CHR 0x80, CHR 0x94] @ '' {store_name}'',
     ecBody = lines [''Hola {customer_name},'',
       [],
       [CHR 0xC2, CHR 0xA1] @ ''Gracias por tu pedido en {store_name}!'',
       [],
       ''Pedido: {order_no}'',
       ''Total: {grand_total}'',
       [],
       ''Ver tu pedido: {order_link}'',
       [],
       ''Te contactaremos sobre la entrega.'']\<rparr>),
    (''digital-delivery'',
     \<lparr>ecSubject = ''Your downloads from {store_name} '' @ [CHR 0xE2, CHR 0x80, CHR 0x94] @ '' order {order_no}'',
     ecBody = lines [''Hi {customer_name},'',
       [],
       ''Thanks for your purchase at {store_name}! Your downloads are ready:'',
       [],
       ''{download_links}'',
       [],
       ''Each link works for {expiry_days} days and allows up to {max_downloads} downloads. Save the files to your device.'',
       [],
       ''Order: {order_no}'',
       [],
       ''If you have any trouble downloading, just reply to this email.'']\<rparr>,
     \<lparr>ecSubject = ''Tus descargas de {store_name} '' @ [CHR 0xE2, CHR 0x80, CHR 0x94] @ '' pedido {order_no}'',
     ecBody = lines [''Hola {customer_name},'',
       [],
       [CHR 0xC2, CHR 0xA1] @ ''Gracias por tu compra en {store_name}! Tus descargas est'' @ [CHR 0xC3, CHR 0xA1] @ ''n listas:'',
       [],
       ''{download_links}'',
       [],
       ''Cada enlace funciona durante {expiry_days} d'' @ [CHR 0xC3, CHR 0xAD] @ ''as y permite hasta {max_downloads} descargas. Guarda los archivos en tu dispositivo.'',
       [],
       ''Pedido: {order_no}'',
       [],
       ''Si tienes alg'' @ [CHR 0xC3, CHR 0xBA] @ ''n problema para descargar, responde a este correo.'']\<rparr>),
    (''password-reset'',
     \<lparr>ecSubject = ''Reset your password '' @ [CHR 0xE2, CHR 0x80, CHR 0x94] @ '' {store_name}'',
     ecBody = lines [''Hi {name},'',
       [],
       ''Use the link below to reset your password. If you did not request this, you can ignore this email.'',
       [],
       ''{reset_link}'']\<rparr>,
     \<lparr>ecSubject = ''Restablece tu contrase'' @ [CHR 0xC3, CHR 0xB1] @ ''a '' @ [CHR 0xE2, CHR 0x80, CHR 0x94] @ '' {store_name}'',
     ecBody = lines [''Hola {name},'',
       [],
       ''Usa el siguiente link para restablecer tu contrase'' @ [CHR 0xC3, CHR 0xB1] @ ''a. Si no solicitaste esto, puedes ignorar este correo.'',
       [],
       ''{reset_link}'']\<rparr>)]"

text \<open>The last resort is the English text.\<close>

definition DEFAULT_TEMPLATES :: "string \<Rightarrow> EmailTemplateContent option" where
  "DEFAULT_TEMPLATES key = map_option fst (map_of SEED_TEMPLATES key)"

definition PLATFORM_EMAIL_KEYS :: "string list" where
  "PLATFORM_EMAIL_KEYS = [''subscription-expiring'', ''subscription-expired'', ''subscription-downgraded'']"

definition isPlatformEmailKey :: "string \<Rightarrow> bool" where
  "isPlatformEmailKey key = (key \<in> set PLATFORM_EMAIL_KEYS)"

definition PLATFORM_EMAIL_TEMPLATES :: "(string \<times> EmailTemplateContent \<times> EmailTemplateContent) list" where
  "PLATFORM_EMAIL_TEMPLATES = [
    (''subscription-expiring'',
     \<lparr>ecSubject = ''Your {plan_name} plan for {store_name} expires on {expires_on}'',
     ecBody = lines [''Hi {name},'',
       [],
       ''The {plan_name} plan for {store_name} expires on {expires_on}.'',
       [],
       ''Renew it to keep its products, stores and checkout channels:'',
       ''{billing_link}'',
       [],
       ''If it is not renewed, the store keeps working for 7 more days and then moves to the Free plan. No data is deleted.'']\<rparr>,
     \<lparr>ecSubject = ''Tu plan {plan_name} de {store_name} vence el {expires_on}'',
     ecBody = lines [''Hola {name},'',
       [],
       ''El plan {plan_name} de {store_name} vence el {expires_on}.'',
       [],
       ''Renu'' @ [CHR 0xC3, CHR 0xA9] @ ''valo para conservar sus productos, tiendas y canales de cobro:'',
       ''{billing_link}'',
       [],
       ''Si no se renueva, la tienda sigue funcionando 7 d'' @ [CHR 0xC3, CHR 0xAD] @ ''as m'' @ [CHR 0xC3, CHR 0xA1] @ ''s y luego pasa al plan Gratis. No se borra ning'' @ [CHR 0xC3, CHR 0xBA] @ ''n dato.'']\<rparr>),
    (''subscription-expired'',
     \<lparr>ecSubject = ''Your {plan_name} plan for {store_name} has expired'',
     ecBody = lines [''Hi {name},'',
       [],
       ''The {plan_name} plan for {store_name} expired on {expires_on}. Everything keeps working until {grace_ends_on}; after that the store moves to the Free plan.'',
       [],
       ''Renew now:'',
       ''{billing_link}'']\<rparr>,
     \<lparr>ecSubject = ''Tu plan {plan_name} de {store_name} ha vencido'',
     ecBody = lines [''Hola {name},'',
       [],
       ''El plan {plan_name} de {store_name} venci'' @ [CHR 0xC3, CHR 0xB3] @ '' el {expires_on}. Todo sigue funcionando hasta el {grace_ends_on}; despu'' @ [CHR 0xC3, CHR 0xA9] @ ''s la tienda pasa al plan Gratis.'',
       [],
       ''Renu'' @ [CHR 0xC3, CHR 0xA9] @ ''valo ahora:'',
       ''{billing_link}'']\<rparr>),
    (''subscription-downgraded'',
     \<lparr>ecSubject = ''{store_name} is now on the Free plan'',
     ecBody = lines [''Hi {name},'',
       [],
       ''The {plan_name} plan for {store_name} was not renewed, so the store is now on the Free plan. Your products, orders and customers are all still there, but checkout channels and limits outside the Free plan are paused.'',
       [],
       ''Upgrade again at any time:'',
       ''{billing_link}'']\<rparr>,
     \<lparr>ecSubject = ''{store_name} ahora est'' @ [CHR 0xC3, CHR 0xA1] @ '' en el plan Gratis'',
     ecBody = lines [''Hola {name},'',
       [],
       ''El plan {plan_name} de {store_name} no se renov'' @ [CHR 0xC3, CHR 0xB3] @ '', as'' @ [CHR 0xC3, CHR 0xAD] @ '' que la tienda pas'' @ [CHR 0xC3, CHR 0xB3] @ '' al plan Gratis. Tus productos, pedidos y clientes siguen ah'' @ [CHR 0xC3, CHR 0xAD] @ '', pero los canales de cobro y l'' @ [CHR 0xC3, CHR 0xAD] @ ''mites fuera del plan Gratis quedan en pausa.'',
       [],
       ''Puedes mejorar tu plan cuando quieras:'',
       ''{billing_link}'']\<rparr>)]"


section \<open>Rendering\<close>

definition placeholder :: "string \<Rightarrow> string" where
  "placeholder key = ''{'' @ key @ ''}''"

text \<open>One variable after the other, each over the text the ones before it left.\<close>

definition renderTemplate :: "string \<Rightarrow> (string \<times> string) list \<Rightarrow> string" where
  "renderTemplate template variables = fold (\<lambda>(key, value) r. replaceAll (placeholder key) value r) variables template"

definition SET_PASSWORD_LABEL :: "bool \<Rightarrow> string" where
  "SET_PASSWORD_LABEL spanish =
     (if spanish then ''Crea tu contrase'' @ [CHR 0xC3, CHR 0xB1] @ ''a aqu'' @ [CHR 0xC3, CHR 0xAD]
      else ''Set your password here'')"

definition adaptLegacyInviteBody :: "string \<Rightarrow> string \<Rightarrow> string" where
  "adaptLegacyInviteBody body locale =
     (if contains ''{reset_link}'' body \<or> \<not> contains ''{temporary_password}'' body then body
      else lines (map (\<lambda>line. if contains ''{temporary_password}'' line
                              then SET_PASSWORD_LABEL (startsWith ''es'' locale) @ '': {reset_link}'' else line)
                   (splitOn (CHR 0x0A) body)))"

section \<open>The reference: a template as its pieces\<close>

datatype piece = Lit string | Hole string

fun pieceText :: "piece \<Rightarrow> string" where
  "pieceText (Lit t) = t"
| "pieceText (Hole k) = placeholder k"

definition flat :: "piece list \<Rightarrow> string" where
  "flat ps = concat (map pieceText ps)"

function pieces :: "string \<Rightarrow> piece list" where
  "pieces [] = []"
| "pieces (c # t) =
     (if c = CHR ''{'' then Hole (takeWhile (\<lambda>x. x \<noteq> CHR ''}'') t) # pieces (tl (dropWhile (\<lambda>x. x \<noteq> CHR ''}'') t))
      else Lit (c # takeWhile (\<lambda>x. x \<noteq> CHR ''{'') t) # pieces (dropWhile (\<lambda>x. x \<noteq> CHR ''{'') t))"
  by pat_completeness auto

termination
  by (relation "measure length")
    (simp_all add: less_Suc_eq_le length_dropWhile_le le_trans [OF diff_le_self length_dropWhile_le])

text \<open>Every variable filled in at once.\<close>

fun fill :: "(string \<times> string) list \<Rightarrow> piece \<Rightarrow> string" where
  "fill vars (Lit t) = t"
| "fill vars (Hole k) = (case map_of vars k of Some v \<Rightarrow> v | None \<Rightarrow> placeholder k)"

definition braceless :: "string \<Rightarrow> bool" where
  "braceless t = (CHR ''{'' \<notin> set t \<and> CHR ''}'' \<notin> set t)"

fun pieceOk :: "piece \<Rightarrow> bool" where
  "pieceOk (Lit t) = braceless t"
| "pieceOk (Hole k) = braceless k"

definition wellFormed :: "string \<Rightarrow> bool" where
  "wellFormed t = (flat (pieces t) = t \<and> list_all pieceOk (pieces t))"

text \<open>A value that stands for itself: no braces, no dollar sign.\<close>

definition plain :: "string \<Rightarrow> bool" where
  "plain v = (braceless v \<and> CHR ''$'' \<notin> set v)"

fun put :: "string \<Rightarrow> string \<Rightarrow> piece \<Rightarrow> piece" where
  "put k v (Lit t) = Lit t"
| "put k v (Hole k') = (if k' = k then Lit v else Hole k')"

lemma pieceOk_put: "pieceOk p \<Longrightarrow> braceless v \<Longrightarrow> pieceOk (put k v p)"
  by (cases p) auto

lemma fill_put: "fill vars (put k v p) = fill ((k, v) # vars) p"
  by (cases p) auto

lemma replacePlain_literal:
  "CHR ''{'' \<notin> set t \<Longrightarrow> replacePlain (placeholder k) v (t @ s) = t @ replacePlain (placeholder k) v s"
  by (induction t) (auto simp: placeholder_def)

lemma prefix_placeholder:
  assumes "braceless k" "braceless k'"
  shows "prefix (k @ ''}'') (k' @ CHR ''}'' # s) \<longleftrightarrow> k = k'"
  using assms
proof (induction k arbitrary: k')
  case Nil
  then show ?case by (cases k') (auto simp: braceless_def)
next
  case (Cons c k)
  then show ?case by (cases k') (auto simp: braceless_def)
qed

lemma replacePlain_hole:
  assumes "braceless k" "braceless k'"
  shows "replacePlain (placeholder k) v (placeholder k' @ s)
    = (if k' = k then v else placeholder k') @ replacePlain (placeholder k) v s"
proof (cases "k' = k")
  case True
  then show ?thesis by (simp add: placeholder_def)
next
  case False
  have "replacePlain (placeholder k) v ((k' @ ''}'') @ s) = (k' @ ''}'') @ replacePlain (placeholder k) v s"
    using assms(2) by (intro replacePlain_literal) (auto simp: braceless_def)
  then show ?thesis
    using False prefix_placeholder [OF assms, of s] by (auto simp: placeholder_def)
qed

lemma replacePlain_flat:
  assumes "list_all pieceOk ps" "braceless k"
  shows "replacePlain (placeholder k) v (flat ps) = flat (map (put k v) ps)"
  using assms(1)
proof (induction ps)
  case Nil
  then show ?case by (simp add: flat_def)
next
  case (Cons p ps)
  then show ?case
    using assms(2) replacePlain_literal [of _ k v "flat ps"] replacePlain_hole [of k _ v "flat ps"]
    by (cases p) (auto simp: flat_def braceless_def)
qed

lemma render_flat:
  assumes "list_all pieceOk ps" "list_all (\<lambda>(k, v). braceless k \<and> plain v) vars"
  shows "renderTemplate (flat ps) vars = concat (map (fill vars) ps)"
  using assms
proof (induction vars arbitrary: ps)
  case Nil
  have "fill [] p = pieceText p" for p by (cases p) auto
  then show ?case by (simp add: renderTemplate_def flat_def)
next
  case (Cons kv vars)
  obtain k v where kv: "kv = (k, v)" by force
  have "replaceAll (placeholder k) v (flat ps) = flat (map (put k v) ps)"
    using Cons.prems kv replacePlain_flat by (simp add: replaceAll_plain plain_def)
  moreover have "list_all pieceOk (map (put k v) ps)"
    using Cons.prems kv pieceOk_put by (auto simp: list_all_iff plain_def)
  ultimately show ?case
    using Cons.IH [of "map (put k v) ps"] Cons.prems kv by (simp add: renderTemplate_def fill_put comp_def)
qed

section \<open>Properties\<close>

definition builtinTexts :: "string list" where
  "builtinTexts = concat (map (\<lambda>(k, en, es). [ecSubject en, ecBody en, ecSubject es, ecBody es])
     (SEED_TEMPLATES @ PLATFORM_EMAIL_TEMPLATES))"

lemma builtin_wellFormed: "list_all wellFormed builtinTexts"
  by code_simp

text \<open>
  C30: a template comes out as its text with every variable filled in at once, wherever it stands and in
  whatever order the variables are given, although the code replaces one after the other over what the
  ones before it left: values with no brace and no dollar sign cannot be taken for placeholders or for
  patterns of \<open>replaceAll\<close>. Every built-in text has that form.
\<close>

theorem template_fills_at_once:
  assumes "wellFormed t" "list_all (\<lambda>(k, v). braceless k \<and> plain v) vars"
  shows "renderTemplate t vars = concat (map (fill vars) (pieces t)) \<and> list_all wellFormed builtinTexts"
  using assms render_flat [of "pieces t" vars] builtin_wellFormed by (simp add: wellFormed_def)

theorem template_fills_at_once_witness:
  "renderTemplate ''Order {order_no} of {store_name}, {order_no}'' [(''store_name'', ''Shop''), (''order_no'', ''A-1'')]
    = ''Order A-1 of Shop, A-1''"
proof -
  have "wellFormed ''Order {order_no} of {store_name}, {order_no}''" by code_simp
  moreover have "list_all (\<lambda>(k, v). braceless k \<and> plain v) [(''store_name'', ''Shop''), (''order_no'', ''A-1'')]" by code_simp
  moreover have "concat (map (fill [(''store_name'', ''Shop''), (''order_no'', ''A-1'')])
      (pieces ''Order {order_no} of {store_name}, {order_no}'')) = ''Order A-1 of Shop, A-1''" by code_simp
  ultimately show ?thesis using template_fills_at_once by metis
qed

text \<open>Values are not taken as they are: one names another variable, one is a pattern of \<open>replaceAll\<close>.\<close>

lemma values_interpreted:
  "renderTemplate ''Hi {name}, {store_name}'' [(''name'', ''{store_name}''), (''store_name'', ''Shop'')] = ''Hi Shop, Shop''"
  "renderTemplate ''Hi {name}'' [(''name'', ''$&'')] = ''Hi {name}''"
  by code_simp+

end
