(* ===== verification/Mail.thy ===== *)
theory Mail
  imports Templates PlatformTenants Billing
begin

text \<open>
  E-mail: the templates a store edits (\<open>email-templates/email-templates.service.ts\<close>), the platform's
  settings (\<open>platform-settings/platform-settings.service.ts\<close>) and what the queue sends
  (\<open>queue/processors/email.processor.ts\<close>, \<open>digital-delivery.processor.ts\<close>,
  \<open>order-notification.processor.ts\<close>).

  The transport of an e-mail is what \<open>sendMail\<close> is called with; \<open>accepts\<close> is the answer of the server,
  an error message when it refuses. The look-up of a name is a parameter. A worker runs outside a request,
  so what it wrote before an exception stays: such a function returns its state with the error.
\<close>

section \<open>The templates of a store\<close>

definition contentOf :: "emailTemplate \<Rightarrow> EmailTemplateContent" where
  "contentOf r = \<lparr>ecSubject = etSubject r, ecBody = etBody r\<rparr>"

text \<open>The text of the platform: its own row, or what is built in. A key without any is \<open>undefined\<close>.\<close>

definition platformText :: "db \<Rightarrow> string \<Rightarrow> string \<Rightarrow> EmailTemplateContent option" where
  "platformText s key locale =
     (case findFirst (\<lambda>r. etTenantId r = None \<and> etKey r = key \<and> etLocale r = locale \<and> etIsActive r) (emailTemplates s) of
        Some r \<Rightarrow> Some (contentOf r)
      | None \<Rightarrow> DEFAULT_TEMPLATES key)"

definition isOverride :: "uuid \<Rightarrow> string \<Rightarrow> string \<Rightarrow> emailTemplate \<Rightarrow> bool" where
  "isOverride tenantId key locale r = (etTenantId r = Some tenantId \<and> etKey r = key \<and> etLocale r = locale)"

definition resolveForSend :: "db \<Rightarrow> uuid \<Rightarrow> string \<Rightarrow> string \<Rightarrow> EmailTemplateContent option" where
  "resolveForSend s tenantId key locale =
     (case findFirst (\<lambda>r. isOverride tenantId key locale r \<and> etIsActive r) (emailTemplates s) of
        Some r \<Rightarrow> Some (contentOf r)
      | None \<Rightarrow> platformText s key locale)"

definition getTenantLocale :: "db \<Rightarrow> uuid \<Rightarrow> string res" where
  "getTenantLocale s tenantId =
     (case rowOf tId tenantId (tenants s) of None \<Rightarrow> Inl RecordNotFound | Some t \<Rightarrow> Inr (tLocale t))"

record ResolvedTemplate =
  rtKey :: string
  rtContent :: "EmailTemplateContent option"
  rtIsOverridden :: bool

definition listResolved :: "db \<Rightarrow> uuid \<Rightarrow> ResolvedTemplate list res" where
  "listResolved s tenantId =
     bind_res (getTenantLocale s tenantId) (\<lambda>locale.
       let rows = filter (\<lambda>r. etKey r \<in> set TEMPLATE_KEYS \<and> etLocale r = locale
              \<and> (etTenantId r = Some tenantId \<or> etTenantId r = None)) (emailTemplates s)
       in Inr (map (\<lambda>key.
            let override = findFirst (\<lambda>r. etTenantId r = Some tenantId \<and> etKey r = key) rows;
                globalDefault = findFirst (\<lambda>r. etTenantId r = None \<and> etKey r = key) rows
            in \<lparr>rtKey = key,
                rtContent = (case override of Some r \<Rightarrow> Some (contentOf r)
                  | None \<Rightarrow> (case globalDefault of Some r \<Rightarrow> Some (contentOf r) | None \<Rightarrow> DEFAULT_TEMPLATES key)),
                rtIsOverridden = (override \<noteq> None)\<rparr>) TEMPLATE_KEYS))"

definition upsertTemplate :: "env \<Rightarrow> db \<Rightarrow> uuid \<Rightarrow> string \<Rightarrow> EmailTemplateContent \<Rightarrow> db res" where
  "upsertTemplate e s tenantId key dto =
     bind_res (getTenantLocale s tenantId) (\<lambda>locale.
       case findFirst (isOverride tenantId key locale) (emailTemplates s) of
         Some existing \<Rightarrow>
           Inr (s\<lparr>emailTemplates := updateRow etId (etId existing)
             (\<lambda>r. r\<lparr>etSubject := ecSubject dto, etBody := ecBody dto, etIsActive := True\<rparr>) (emailTemplates s)\<rparr>)
       | None \<Rightarrow>
           Inr (s\<lparr>emailTemplates := emailTemplates s @
             [\<lparr>etId = eFresh e 0, etTenantId = Some tenantId, etKey = key, etLocale = locale,
               etSubject = ecSubject dto, etBody = ecBody dto, etIsActive = True\<rparr>]\<rparr>))"

definition revertToDefault :: "db \<Rightarrow> uuid \<Rightarrow> string \<Rightarrow> db res" where
  "revertToDefault s tenantId key =
     bind_res (getTenantLocale s tenantId) (\<lambda>locale.
       Inr (s\<lparr>emailTemplates := filter (\<lambda>r. \<not> isOverride tenantId key locale r) (emailTemplates s)\<rparr>))"

section \<open>The platform's settings\<close>

text \<open>The values of the configuration the first row is made from.\<close>

record MailConfig =
  mcCommissionRate :: "rat option"
  mcHost :: "string option"
  mcPort :: "int option"
  mcUser :: "string option"
  mcPassword :: "string option"
  mcFrom :: "string option"

definition SINGLETON_ID :: string where
  "SINGLETON_ID = ''singleton''"

definition getOrCreate :: "env \<Rightarrow> MailConfig \<Rightarrow> db \<Rightarrow> db \<times> platformSetting" where
  "getOrCreate e cfg s =
     (case rowOf gsId SINGLETON_ID (platformSettings s) of
        Some r \<Rightarrow> (s, r)
      | None \<Rightarrow>
          let r = \<lparr>gsId = SINGLETON_ID, gsDefaultCommissionRate = round2 (patch (mcCommissionRate cfg) 5),
                   gsSmtp = \<lparr>smEnabled = truthy (mcHost cfg), smHost = mcHost cfg, smPort = mcPort cfg, smUser = mcUser cfg,
                     smPassword = (if truthy (mcPassword cfg) then Some (eEncrypt e (the (mcPassword cfg))) else None),
                     smFrom = mcFrom cfg\<rparr>\<rparr>
          in (s\<lparr>platformSettings := platformSettings s @ [r]\<rparr>, r))"

record PlatformSettingsView =
  pvSetting :: platformSetting
  pvSmtpPasswordSet :: bool

definition maskPlatformPassword :: "platformSetting \<Rightarrow> PlatformSettingsView" where
  "maskPlatformPassword r =
     \<lparr>pvSetting = r\<lparr>gsSmtp := (gsSmtp r)\<lparr>smPassword := None\<rparr>\<rparr>, pvSmtpPasswordSet = truthy (smPassword (gsSmtp r))\<rparr>"

definition getPlatformSettings :: "env \<Rightarrow> MailConfig \<Rightarrow> db \<Rightarrow> db \<times> PlatformSettingsView" where
  "getPlatformSettings e cfg s = map_prod id maskPlatformPassword (getOrCreate e cfg s)"

record UpdatePlatformSettingsDto =
  upsDefaultCommissionRate :: "rat option"
  upsSmtpEnabled :: "bool option"
  upsSmtpHost :: "string option"
  upsSmtpPort :: "int option"
  upsSmtpUser :: "string option"
  upsSmtpPassword :: "string option"
  upsSmtpFrom :: "string option"

definition patchPlatform :: "env \<Rightarrow> UpdatePlatformSettingsDto \<Rightarrow> platformSetting \<Rightarrow> platformSetting" where
  "patchPlatform e dto r =
     r\<lparr>gsDefaultCommissionRate := patch (map_option round2 (upsDefaultCommissionRate dto)) (gsDefaultCommissionRate r),
       gsSmtp := (gsSmtp r)\<lparr>smEnabled := patch (upsSmtpEnabled dto) (smEnabled (gsSmtp r)),
         smHost := patchNull (upsSmtpHost dto) (smHost (gsSmtp r)), smPort := patchNull (upsSmtpPort dto) (smPort (gsSmtp r)),
         smUser := patchNull (upsSmtpUser dto) (smUser (gsSmtp r)), smFrom := patchNull (upsSmtpFrom dto) (smFrom (gsSmtp r)),
         smPassword := patchSecret e (map_option Some (upsSmtpPassword dto)) (smPassword (gsSmtp r))\<rparr>\<rparr>"

definition updatePlatformSettings ::
    "env \<Rightarrow> MailConfig \<Rightarrow> db \<Rightarrow> UpdatePlatformSettingsDto \<Rightarrow> db \<times> PlatformSettingsView" where
  "updatePlatformSettings e cfg s dto =
     (let (s1, r) = getOrCreate e cfg s
      in (s1\<lparr>platformSettings := updateRow gsId SINGLETON_ID (patchPlatform e dto) (platformSettings s1)\<rparr>,
          maskPlatformPassword (patchPlatform e dto r)))"

definition getDecryptedMailConfig :: "env \<Rightarrow> MailConfig \<Rightarrow> db \<Rightarrow> db \<times> SmtpConfig option res" where
  "getDecryptedMailConfig e cfg s =
     (let (s1, r) = getOrCreate e cfg s; m = gsSmtp r
      in (s1,
          if \<not> smEnabled m \<or> \<not> truthy (smHost m) then Inr None
          else if \<not> truthy (smPassword m)
          then Inr (Some \<lparr>scHost = the (smHost m), scPort = patch (smPort m) 587, scUser = smUser m,
                      scPassword = None, scFrom = smFrom m\<rparr>)
          else case eDecryptSecret e (the (smPassword m)) of
                 None \<Rightarrow> Inl (InternalError ''decryptSecret'')
               | Some w \<Rightarrow> Inr (Some \<lparr>scHost = the (smHost m), scPort = patch (smPort m) 587, scUser = smUser m,
                      scPassword = Some w, scFrom = smFrom m\<rparr>)))"

definition getDefaultCommissionRate :: "env \<Rightarrow> MailConfig \<Rightarrow> db \<Rightarrow> db \<times> rat" where
  "getDefaultCommissionRate e cfg s = map_prod id (\<lambda>r. dbl (gsDefaultCommissionRate r)) (getOrCreate e cfg s)"

section \<open>Sending\<close>

record EmailJobData =
  ejTemplateKey :: string
  ejTenantId :: uuid
  ejLocale :: string
  ejTo :: string
  ejVariables :: "(string \<times> string) list"
  ejViaPlatform :: bool

fun jobData :: "effect \<Rightarrow> EmailJobData option" where
  "jobData (EmailJob k (Some tenantId) locale addressee variables via) =
     Some \<lparr>ejTemplateKey = k, ejTenantId = tenantId, ejLocale = locale, ejTo = addressee, ejVariables = variables,
           ejViaPlatform = via\<rparr>"
| "jobData _ = None"

text \<open>
  An e-mail with the connection it goes over: the name the server must prove when it is not the host
  itself, whether the connection must be encrypted, and whether it is from its start.
\<close>

record SentMail =
  mlFrom :: "string option"
  mlTo :: string
  mlSubject :: string
  mlText :: string
  mlHost :: string
  mlPort :: int
  mlAuth :: "(string \<times> string option) option"
  mlServername :: "string option"
  mlRequireTLS :: bool
  mlSecure :: bool

text \<open>\<open>a || b\<close> on texts that may be missing.\<close>

definition orElse :: "string option \<Rightarrow> string option \<Rightarrow> string option" where
  "orElse x y = (if truthy x then x else y)"

definition buildMail ::
    "string option \<Rightarrow> string \<Rightarrow> string \<Rightarrow> string \<Rightarrow> string \<Rightarrow> SmtpConfig \<Rightarrow> string option \<Rightarrow> bool \<Rightarrow> SentMail" where
  "buildMail sender addressee subject body host c servername requireTLS =
     \<lparr>mlFrom = sender, mlTo = addressee, mlSubject = subject, mlText = body, mlHost = host, mlPort = scPort c,
      mlAuth = (if truthy (scUser c) then Some (the (scUser c), scPassword c) else None),
      mlServername = servername, mlRequireTLS = requireTLS, mlSecure = (scPort c = 465)\<rparr>"

definition chosenTemplate :: "db \<Rightarrow> EmailJobData \<Rightarrow> EmailTemplateContent option" where
  "chosenTemplate s d =
     (if isPlatformEmailKey (ejTemplateKey d)
      then map_option (\<lambda>(en, es). if startsWith ''es'' (ejLocale d) then es else en)
             (map_of PLATFORM_EMAIL_TEMPLATES (ejTemplateKey d))
      else resolveForSend s (ejTenantId d) (ejTemplateKey d) (ejLocale d))"

definition deliver ::
    "env \<Rightarrow> MailConfig \<Rightarrow> (string \<Rightarrow> string list option) \<Rightarrow> (SentMail \<Rightarrow> string option) \<Rightarrow> db \<Rightarrow> EmailJobData
      \<Rightarrow> db \<times> SentMail option res" where
  "deliver e cfg lookup accepts s d =
     (if ejTo d = [] then (s, Inr None)
      else case chosenTemplate s d of
        None \<Rightarrow> (s, Inl (InternalError ''TypeError''))
      | Some c \<Rightarrow>
          let subject = renderTemplate (ecSubject c) (ejVariables d);
              body = renderTemplate (if ejTemplateKey d = ''staff-invite'' then adaptLegacyInviteBody (ecBody c) (ejLocale d)
                                     else ecBody c) (ejVariables d);
              send = (\<lambda>m. case accepts m of None \<Rightarrow> Inr (Some m) | Some err \<Rightarrow> Inl (InternalError err))
          in case (if isPlatformEmailKey (ejTemplateKey d) \<or> ejViaPlatform d then Inr None
                   else getDecryptedSmtpConfig e s (ejTenantId d)) of
               Inl x \<Rightarrow> (s, Inl x)
             | Inr tenantSmtp \<Rightarrow>
                 (let (s1, platform) =
                        (if tenantSmtp \<noteq> None \<and> truthy (scFrom (the tenantSmtp)) then (s, Inr None)
                         else getDecryptedMailConfig e cfg s)
                  in (s1, bind_res platform (\<lambda>platformSmtp.
                       case tenantSmtp of
                         Some t \<Rightarrow>
                           bind_res (resolvePublicSmtpAddress lookup (scHost t) (scPort t)) (\<lambda>address.
                             send (buildMail (orElse (scFrom t) (Option.bind platformSmtp scFrom)) (ejTo d) subject body
                               address t (Some (scHost t)) True))
                       | None \<Rightarrow>
                           (case platformSmtp of
                              None \<Rightarrow> Inr None
                            | Some p \<Rightarrow> send (buildMail (scFrom p) (ejTo d) subject body (scHost p) p None False))))))"

section \<open>The queue of digital deliveries\<close>

fun error_message :: "error \<Rightarrow> string" where
  "error_message (BadRequest t) = t"
| "error_message (NotFound t) = t"
| "error_message (Conflict t) = t"
| "error_message (Forbidden t) = t"
| "error_message (Unauthorized t) = t"
| "error_message (Gone t) = t"
| "error_message (ServiceUnavailable t) = t"
| "error_message (TooManyRequests t) = t"
| "error_message RecordNotFound = ''No record was found''"
| "error_message (ProviderError t) = t"
| "error_message (InternalError t) = t"

definition deliveryMail :: "PreparedDelivery \<Rightarrow> EmailJobData" where
  "deliveryMail p =
     \<lparr>ejTemplateKey = ''digital-delivery'', ejTenantId = pdTenantId p, ejLocale = pdLocale p, ejTo = pdTo p,
      ejVariables = pdVariables p, ejViaPlatform = False\<rparr>"

definition NOT_SENT :: string where
  "NOT_SENT = ''Email was not sent (no SMTP configured or no recipient)''"

definition processSend ::
    "env \<Rightarrow> MailConfig \<Rightarrow> (string \<Rightarrow> string list option) \<Rightarrow> (SentMail \<Rightarrow> string option) \<Rightarrow> db \<Rightarrow> uuid \<Rightarrow> bool
      \<Rightarrow> db \<times> SentMail option res" where
  "processSend e cfg lookup accepts s deliveryId again =
     (case prepareDelivery e s deliveryId again of
        (s1, None) \<Rightarrow> (s1, Inr None)
      | (s1, Some p) \<Rightarrow>
          (case deliver e cfg lookup accepts s1 (deliveryMail p) of
             (s2, Inr (Some m)) \<Rightarrow> (markSent e s2 deliveryId, Inr (Some m))
           | (s2, Inr None) \<Rightarrow> (markFailed e s2 deliveryId NOT_SENT, Inl (InternalError NOT_SENT))
           | (s2, Inl x) \<Rightarrow> (markFailed e s2 deliveryId (error_message x), Inl x)))"

text \<open>A job of the queue: a send, the sweep, or the change of prices that are due.\<close>

datatype DigitalJob = SendJob "uuid option" bool | SweepPendingJob | ApplyPricesJob

fun processDigitalJob ::
    "env \<Rightarrow> MailConfig \<Rightarrow> (string \<Rightarrow> string list option) \<Rightarrow> (SentMail \<Rightarrow> string option) \<Rightarrow> db \<Rightarrow> DigitalJob
      \<Rightarrow> db \<times> unit res" where
  "processDigitalJob e cfg lookup accepts s SweepPendingJob = (fst (requeueUnsent e s), Inr ())"
| "processDigitalJob e cfg lookup accepts s ApplyPricesJob = (fst (applyDuePrices (eNow e) s), Inr ())"
| "processDigitalJob e cfg lookup accepts s (SendJob None again) = (s, Inr ())"
| "processDigitalJob e cfg lookup accepts s (SendJob (Some i) again) =
     map_prod id (map_sum id (\<lambda>_. ())) (processSend e cfg lookup accepts s i again)"

section \<open>The queue of order notifications\<close>

record TelegramCall =
  tcBotToken :: string
  tcChatId :: string
  tcText :: string

text \<open>The message of a new order and the phones that are told of it; \<open>refuses\<close> is Telegram's error.\<close>

definition notifyTelegram ::
    "env \<Rightarrow> (TelegramCall \<Rightarrow> string option) \<Rightarrow> accounts \<Rightarrow> uuid \<Rightarrow> string \<Rightarrow> (TelegramCall \<times> string list) option res" where
  "notifyTelegram e refuses st tenantId message =
     (case rowOf tId tenantId (tenants (acDb st)) of
        None \<Rightarrow> Inr None
      | Some t \<Rightarrow>
          if \<not> truthy (tTelegramBotToken t) \<or> \<not> truthy (tTelegramChatId t) then Inr None
          else
            let stored = the (tTelegramBotToken t);
                call = \<lparr>tcBotToken = (case eDecryptSecret e stored of Some w \<Rightarrow> w | None \<Rightarrow> stored),
                        tcChatId = the (tTelegramChatId t), tcText = take 4000 message\<rparr>
            in case refuses call of
                 Some err \<Rightarrow> Inl (InternalError (''Telegram sendMessage failed: '' @ err))
               | None \<Rightarrow> Inr (Some (call, map dvToken (filter (\<lambda>d. dvTenantId d = tenantId \<and> dvRevokedAt d = None)
                                                    (acDevices st)))))"

section \<open>Facts\<close>

lemma findFirst_updateRow_other:
  "(\<And>r. r \<in> set t \<Longrightarrow> key r = i \<Longrightarrow> \<not> P r \<and> \<not> P (f r)) \<Longrightarrow> findFirst P (updateRow key i f t) = findFirst P t"
  by (induction t) (auto simp: updateRow_def)

lemma findFirst_updateRow_first:
  assumes "findFirst Q t = Some x" "uniqueKeys key t" "P (f x)" "\<And>r. P r \<Longrightarrow> Q r"
  shows "findFirst P (updateRow key (key x) f t) = Some (f x)"
  using assms(1,2)
proof (induction t)
  case (Cons r t)
  show ?case
  proof (cases "Q r")
    case True
    then show ?thesis using Cons.prems assms(3) by (simp add: updateRow_def)
  next
    case False
    then have "x \<in> set t" using Cons.prems by (auto dest: findFirst_SomeD)
    then have "key r \<noteq> key x" using Cons.prems(2) by (auto simp: uniqueKeys_def)
    then show ?thesis using False Cons assms(4) by (auto simp: updateRow_def uniqueKeys_def)
  qed
qed simp

text \<open>How an operation moves the text that is sent: an override is put in the place of the platform's text.\<close>

lemma upsertTemplate_resolves:
  assumes "upsertTemplate e s tn key dto = Inr s'" "rowOf tId tn (tenants s) = Some t" "uniqueKeys etId (emailTemplates s)"
  shows "findFirst (\<lambda>r. isOverride tn key (tLocale t) r \<and> etIsActive r) (emailTemplates s') \<noteq> None"
    "resolveForSend s' tn key (tLocale t) = Some dto"
proof -
  let ?act = "\<lambda>r. isOverride tn key (tLocale t) r \<and> etIsActive r"
  have "\<exists>r. findFirst ?act (emailTemplates s') = Some r \<and> contentOf r = dto"
  proof (cases "findFirst (isOverride tn key (tLocale t)) (emailTemplates s)")
    case None
    then have "findFirst ?act (emailTemplates s) = None" by (auto simp: findFirst_None_iff)
    then show ?thesis
      using assms(1,2) None
      by (auto simp: upsertTemplate_def getTenantLocale_def isOverride_def contentOf_def findFirst_append)
  next
    case (Some x)
    let ?f = "\<lambda>r. r\<lparr>etSubject := ecSubject dto, etBody := ecBody dto, etIsActive := True\<rparr>"
    have "emailTemplates s' = updateRow etId (etId x) ?f (emailTemplates s)"
      using assms(1,2) Some by (auto simp: upsertTemplate_def getTenantLocale_def)
    moreover have "?act (?f x)" using findFirst_SomeD [OF Some] by (simp add: isOverride_def)
    ultimately have "findFirst ?act (emailTemplates s') = Some (?f x)"
      using findFirst_updateRow_first [OF Some assms(3), of ?act ?f] by simp
    then show ?thesis by (simp add: contentOf_def)
  qed
  then show "findFirst ?act (emailTemplates s') \<noteq> None" "resolveForSend s' tn key (tLocale t) = Some dto"
    by (auto simp: resolveForSend_def)
qed

lemma upsertTemplate_others:
  assumes "upsertTemplate e s tn key dto = Inr s'" "rowOf tId tn (tenants s) = Some t" "uniqueKeys etId (emailTemplates s)"
    and "\<And>r. isOverride tn key (tLocale t) r \<Longrightarrow> \<not> P r"
  shows "findFirst P (emailTemplates s') = findFirst P (emailTemplates s)"
proof (cases "findFirst (isOverride tn key (tLocale t)) (emailTemplates s)")
  case None
  then show ?thesis
    using assms(1,2,4) by (auto simp: upsertTemplate_def getTenantLocale_def isOverride_def findFirst_append split: option.splits)
next
  case (Some x)
  let ?f = "\<lambda>r. r\<lparr>etSubject := ecSubject dto, etBody := ecBody dto, etIsActive := True\<rparr>"
  have x: "x \<in> set (emailTemplates s)" "isOverride tn key (tLocale t) x" using findFirst_SomeD [OF Some] by auto
  have "\<not> P r \<and> \<not> P (?f r)" if "r \<in> set (emailTemplates s)" "etId r = etId x" for r
  proof -
    have "r = x" using that x(1) assms(3) by (auto simp: uniqueKeys_def distinct_map dest: inj_onD)
    then show ?thesis using x(2) assms(4) [of x] assms(4) [of "?f x"] by (simp add: isOverride_def)
  qed
  then have "findFirst P (updateRow etId (etId x) ?f (emailTemplates s)) = findFirst P (emailTemplates s)"
    by (rule findFirst_updateRow_other)
  then show ?thesis using assms(1,2) Some by (auto simp: upsertTemplate_def getTenantLocale_def)
qed

text \<open>
  the text a store saves for an e-mail is the text its customers are sent, in the language of the store,
  whether it is the first one saved or replaces another; no other store, e-mail or language is touched, and
  taking it back gives the platform's text again, as if nothing had ever been saved.
\<close>

theorem template_override_roundtrip:
  assumes "upsertTemplate e s tn key dto = Inr s'" and "rowOf tId tn (tenants s) = Some t"
    and "uniqueKeys etId (emailTemplates s)"
  shows "resolveForSend s' tn key (tLocale t) = Some dto
    \<and> ((tn', key', locale') \<noteq> (tn, key, tLocale t) \<longrightarrow> resolveForSend s' tn' key' locale' = resolveForSend s tn' key' locale')
    \<and> (\<exists>s''. revertToDefault s' tn key = Inr s''
         \<and> resolveForSend s'' tn key (tLocale t) = platformText s key (tLocale t)
         \<and> ((tn', key', locale') \<noteq> (tn, key, tLocale t) \<longrightarrow>
              resolveForSend s'' tn' key' locale' = resolveForSend s tn' key' locale'))"
proof (intro conjI impI)
  show "resolveForSend s' tn key (tLocale t) = Some dto" by (rule upsertTemplate_resolves [OF assms])
  have pt: "platformText s' k l = platformText s k l" for k l
    unfolding platformText_def by (subst upsertTemplate_others [OF assms]) (auto simp: isOverride_def)
  have other: "resolveForSend s' tn' key' locale' = resolveForSend s tn' key' locale'"
    if "(tn', key', locale') \<noteq> (tn, key, tLocale t)"
    unfolding resolveForSend_def pt using that
    by (subst upsertTemplate_others [OF assms]) (auto simp: isOverride_def)
  then show "(tn', key', locale') \<noteq> (tn, key, tLocale t) \<Longrightarrow>
      resolveForSend s' tn' key' locale' = resolveForSend s tn' key' locale'" .
  let ?s = "s'\<lparr>emailTemplates := filter (\<lambda>r. \<not> isOverride tn key (tLocale t) r) (emailTemplates s')\<rparr>"
  have "tenants s' = tenants s"
    using assms(1,2) by (auto simp: upsertTemplate_def getTenantLocale_def split: option.splits)
  then have r: "revertToDefault s' tn key = Inr ?s" using assms(2) by (simp add: revertToDefault_def getTenantLocale_def)
  have ptr: "platformText ?s k l = platformText s' k l" for k l
    unfolding platformText_def by (simp, subst findFirst_filter) (auto simp: isOverride_def)
  have "findFirst (\<lambda>r. isOverride tn key (tLocale t) r \<and> etIsActive r) (emailTemplates ?s) = None"
    by (simp add: findFirst_None_iff)
  then have own: "resolveForSend ?s tn key (tLocale t) = platformText s key (tLocale t)"
    unfolding resolveForSend_def ptr pt by simp
  have "resolveForSend ?s tn' key' locale' = resolveForSend s' tn' key' locale'"
    if "(tn', key', locale') \<noteq> (tn, key, tLocale t)"
    unfolding resolveForSend_def ptr using that by (simp, subst findFirst_filter) (auto simp: isOverride_def)
  with r own other
  show "\<exists>s''. revertToDefault s' tn key = Inr s'' \<and> resolveForSend s'' tn key (tLocale t) = platformText s key (tLocale t)
      \<and> ((tn', key', locale') \<noteq> (tn, key, tLocale t) \<longrightarrow>
          resolveForSend s'' tn' key' locale' = resolveForSend s tn' key' locale')" by auto
qed

definition thanks0 :: EmailTemplateContent where
  "thanks0 = \<lparr>ecSubject = ''Thanks'', ecBody = ''Hi {customer_name}''\<rparr>"

theorem template_override_roundtrip_witness:
  "\<exists>s' s''. upsertTemplate env0 db0 ''t1'' ''order-confirmation'' thanks0 = Inr s'
    \<and> resolveForSend s' ''t1'' ''order-confirmation'' ''en'' = Some thanks0
    \<and> revertToDefault s' ''t1'' ''order-confirmation'' = Inr s''
    \<and> resolveForSend s'' ''t1'' ''order-confirmation'' ''en'' = DEFAULT_TEMPLATES ''order-confirmation''"
proof -
  have t: "rowOf tId ''t1'' (tenants db0) = Some tenant0" "uniqueKeys etId (emailTemplates db0)"
    by (simp_all add: db0_def tenant0_def uniqueKeys_def)
  obtain s' where u: "upsertTemplate env0 db0 ''t1'' ''order-confirmation'' thanks0 = Inr s'"
    using t(1) by (simp add: upsertTemplate_def getTenantLocale_def db0_def)
  have "platformText db0 ''order-confirmation'' ''en'' = DEFAULT_TEMPLATES ''order-confirmation''"
    by (simp add: platformText_def db0_def)
  then show ?thesis
    using template_override_roundtrip [OF u t, of "[]" "[]" "[]"] u by (auto simp: tenant0_def)
qed

text \<open>The operations that send a link by which an account of the staff is entered.\<close>

inductive credentialMail :: "authEnv \<Rightarrow> accounts \<Rightarrow> accounts \<Rightarrow> bool" for a st where
  forgot: "forgotPassword a st email = Inr st' \<Longrightarrow> credentialMail a st st'"
| invited: "inviteStaff a st tenantId dto = Inr (st', m) \<Longrightarrow> credentialMail a st st'"
| member: "resetMemberPassword a st tenantId memberId = Inr st' \<Longrightarrow> credentialMail a st st'"
| owner: "sendOwnerPasswordReset a st tenantId = Inr st' \<Longrightarrow> credentialMail a st st'"

lemma outbox_accounts:
  "outbox (acDb (emitAccounts x st)) = outbox (acDb st) @ [x]"
  "acDb (fst (issuePasswordResetToken a u ttl st)) = acDb st"
  "outbox (acDb (addUser w st)) = outbox (acDb st)" "outbox (acDb (addMember m st)) = outbox (acDb st)"
  "outbox (acDb (updateMemberRow i f st)) = outbox (acDb st)"
  by (simp_all add: emitAccounts_def issuePasswordResetToken_def Let_def addUser_def addMember_def updateMemberRow_def)

lemma reset_job: "jobData (resetEmail a t u raw) = Some d \<Longrightarrow> ejViaPlatform d \<and> ejTo d = uEmail u"
  by (auto simp: resetEmail_def)

lemma invite_job: "jobData (inviteEmail a t dto raw) = Some d \<Longrightarrow> ejViaPlatform d \<and> ejTo d = inEmail dto"
  by (auto simp: inviteEmail_def)

lemma credentialMail_outbox:
  assumes "credentialMail a st st'"
  shows "outbox (acDb st') = outbox (acDb st)
    \<or> (\<exists>job. outbox (acDb st') = outbox (acDb st) @ [job] \<and> (\<forall>d. jobData job = Some d \<longrightarrow> ejViaPlatform d))"
  using assms
proof cases
  case (forgot email)
  then show ?thesis
    using reset_job by (auto simp: forgotPassword_def Let_def outbox_accounts case_prod_beta split: option.splits if_splits)
next
  case (invited tenantId dto m)
  then show ?thesis
    using invite_job
    by (fastforce simp: inviteStaff_def invitedUser_def Let_def outbox_accounts case_prod_beta split: option.splits if_splits)
next
  case (member tenantId memberId)
  then obtain m :: tenantMember where "(case rowOf uId (tmUserId m) (users (acDb st)) of None \<Rightarrow> Inl RecordNotFound
      | Some u \<Rightarrow> (case rowOf tId tenantId (tenants (acDb st)) of None \<Rightarrow> Inl RecordNotFound
          | Some t \<Rightarrow> let (st', raw) = issuePasswordResetToken a (tmUserId m) PASSWORD_RESET_TOKEN_TTL_MS st
                      in Inr (emitAccounts (resetEmail a t u raw) st'))) = Inr st'"
    unfolding resetMemberPassword_def bind_res_eq_Inr by blast
  then show ?thesis using reset_job by (auto simp: Let_def outbox_accounts case_prod_beta split: option.splits)
next
  case (owner tenantId)
  then obtain t where "(case rowOf uId (tOwnerId t) (users (acDb st)) of None \<Rightarrow> Inl (InternalError ''owner'')
      | Some u \<Rightarrow> let (st', raw) = issuePasswordResetToken a (uId u) PASSWORD_RESET_TOKEN_TTL_MS st
                  in Inr (emitAccounts (resetEmail a t u raw) st')) = Inr st'"
    unfolding sendOwnerPasswordReset_def bind_res_eq_Inr by blast
  then show ?thesis using reset_job by (auto simp: Let_def outbox_accounts case_prod_beta split: option.splits)
qed

lemma snd_getDecryptedMailConfig:
  "platformSettings s' = platformSettings s \<Longrightarrow> snd (getDecryptedMailConfig e cfg s') = snd (getDecryptedMailConfig e cfg s)"
  "platformSettings s' = platformSettings s \<Longrightarrow> snd (getOrCreate e cfg s') = snd (getOrCreate e cfg s)"
  by (auto simp: getDecryptedMailConfig_def getOrCreate_def Let_def split: option.splits)

lemma mailConfig_host:
  "snd (getDecryptedMailConfig e cfg s) = Inr (Some p) \<Longrightarrow> smHost (gsSmtp (snd (getOrCreate e cfg s))) = Some (scHost p)"
  by (auto simp: getDecryptedMailConfig_def Let_def case_prod_beta truthy_def split: if_splits option.splits)

lemma deliver_platform:
  assumes "isPlatformEmailKey (ejTemplateKey d) \<or> ejViaPlatform d"
  shows "snd (deliver e cfg look acc s d) =
    (if ejTo d = [] then Inr None
     else case chosenTemplate s d of
       None \<Rightarrow> Inl (InternalError ''TypeError'')
     | Some c \<Rightarrow> bind_res (snd (getDecryptedMailConfig e cfg s)) (\<lambda>p. case p of
         None \<Rightarrow> Inr None
       | Some p \<Rightarrow>
           let m = buildMail (scFrom p) (ejTo d) (renderTemplate (ecSubject c) (ejVariables d))
                 (renderTemplate (if ejTemplateKey d = ''staff-invite'' then adaptLegacyInviteBody (ecBody c) (ejLocale d) else ecBody c)
                    (ejVariables d)) (scHost p) p None False
           in case acc m of None \<Rightarrow> Inr (Some m) | Some err \<Rightarrow> Inl (InternalError err)))"
  using assms by (auto simp: deliver_def Let_def case_prod_beta split: option.splits)

lemma chosenTemplate_cong:
  assumes "emailTemplates s' = emailTemplates s"
  shows "chosenTemplate s' d = chosenTemplate s d"
  unfolding chosenTemplate_def resolveForSend_def platformText_def assms ..

text \<open>
  C31: a link by which an account of the staff is entered never passes through a mail server of a store.
  Whatever a store has written about itself (its server, its port, its password), an invitation or a reset
  link, asked for by the person, the owner or an administrator, is handed to the platform's own server or
  to none: the outcome is the same for every content of the table of stores, and it needs no look-up of a
  name the store chose.
\<close>

theorem credential_mail_on_platform:
  assumes "credentialMail a st st'"
    and "job \<in> set (drop (length (outbox (acDb st))) (outbox (acDb st')))" and "jobData job = Some d"
  shows "snd (deliver e cfg look acc (s\<lparr>tenants := ts\<rparr>) d) = snd (deliver e cfg look' acc s d)
    \<and> (case snd (deliver e cfg look acc s d) of
         Inr (Some m) \<Rightarrow> mlServername m = None \<and> mlTo m = ejTo d \<and> smHost (gsSmtp (snd (getOrCreate e cfg s))) = Some (mlHost m)
       | _ \<Rightarrow> True)"
proof -
  have via: "isPlatformEmailKey (ejTemplateKey d) \<or> ejViaPlatform d"
    using credentialMail_outbox [OF assms(1)] assms(2,3) by auto
  have "snd (deliver e cfg look acc (s\<lparr>tenants := ts\<rparr>) d) = snd (deliver e cfg look' acc s d)"
    unfolding deliver_platform [OF via] chosenTemplate_cong [of "s\<lparr>tenants := ts\<rparr>" s d, simplified]
      snd_getDecryptedMailConfig(1) [of "s\<lparr>tenants := ts\<rparr>" s e cfg, simplified] ..
  moreover have "case snd (deliver e cfg look acc s d) of
      Inr (Some m) \<Rightarrow> mlServername m = None \<and> mlTo m = ejTo d \<and> smHost (gsSmtp (snd (getOrCreate e cfg s))) = Some (mlHost m)
    | _ \<Rightarrow> True"
    unfolding deliver_platform [OF via]
    by (cases "snd (getDecryptedMailConfig e cfg s)")
      (auto simp: Let_def buildMail_def dest!: mailConfig_host split: option.splits)
  ultimately show ?thesis by blast
qed

definition mailConfig0 :: MailConfig where
  "mailConfig0 = \<lparr>mcCommissionRate = None, mcHost = Some ''smtp.platform.com'', mcPort = Some 587, mcUser = None,
     mcPassword = None, mcFrom = Some ''no-reply@platform.com''\<rparr>"

text \<open>A store that sends through a server of its own.\<close>

definition ownServer0 :: tenant where
  "ownServer0 = tenant0\<lparr>tSmtp := \<lparr>smEnabled = True, smHost = Some ''mail.shop.com'', smPort = Some 465, smUser = Some ''shop'',
     smPassword = Some ''secret'', smFrom = Some ''hi@shop.com''\<rparr>\<rparr>"

definition lookup0 :: "string \<Rightarrow> string list option" where
  "lookup0 h = (if h = ''mail.shop.com'' then Some [''203.0.113.7''] else None)"

theorem credential_mail_on_platform_witness:
  "\<exists>st' d m. forgotPassword authEnv0 staffed0 (uEmail owner0) = Inr st' \<and> jobData (last (outbox (acDb st'))) = Some d
    \<and> snd (deliver env0 mailConfig0 lookup0 (\<lambda>_. None) ((acDb st')\<lparr>tenants := [ownServer0]\<rparr>) d) = Inr (Some m)
    \<and> mlHost m = ''smtp.platform.com'' \<and> mlTo m = uEmail owner0"
proof -
  let ?r = "forgotPassword authEnv0 staffed0 (uEmail owner0)"
  let ?st = "projr ?r"
  let ?job = "last (outbox (acDb ?st))"
  let ?out = "snd (deliver env0 mailConfig0 lookup0 (\<lambda>_. None) (acDb ?st) (the (jobData ?job)))"
  have r: "?r = Inr ?st" by (rule sum.collapse(2) [symmetric]) code_simp
  have job: "?job \<in> set (drop (length (outbox (acDb staffed0))) (outbox (acDb ?st)))" by code_simp
  have d: "jobData ?job = Some (the (jobData ?job))" by (rule option.collapse [symmetric]) code_simp
  have "\<not> isl ?out" "projr ?out \<noteq> None" by code_simp+
  then obtain m where m: "?out = Inr (Some m)" by (cases ?out) auto
  have "smHost (gsSmtp (snd (getOrCreate env0 mailConfig0 (acDb ?st)))) = Some ''smtp.platform.com''"
    "ejTo (the (jobData ?job)) = uEmail owner0" by code_simp+
  then show ?thesis
    using credential_mail_on_platform [OF credentialMail.forgot [OF r] job d,
        of env0 mailConfig0 lookup0 "\<lambda>_. None" "[ownServer0]" "acDb ?st" lookup0] r d m by auto
qed

lemma getDecryptedSmtpConfig_SomeD:
  assumes "getDecryptedSmtpConfig e s tn = Inr (Some c)"
  obtains t where "rowOf tId tn (tenants s) = Some t" "smEnabled (tSmtp t)" "smHost (tSmtp t) = Some (scHost c)"
  using assms by (auto simp: getDecryptedSmtpConfig_def Let_def truthy_def split: option.splits if_splits)

lemma resolvePublic_InrD:
  assumes "resolvePublicSmtpAddress look h p = Inr x"
  shows "p \<in> set ALLOWED_SMTP_PORTS \<and> (\<exists>as. look h = Some as \<and> x \<in> set as \<and> list_all (\<lambda>y. \<not> isPrivateAddress y) as)"
  using assms
  by (auto simp: resolvePublicSmtpAddress_def assertSafeSmtpSettings_def bind_res_eq_Inr list_ex_iff list_all_iff
      split: option.splits if_splits)

text \<open>
  C32: an e-mail leaves through the platform's server or, when the store switched a server of its own on,
  through that one, and then only if it is outside: it listens on a port of mail, none of the addresses its name
  resolved to is one \<open>isPrivateAddress\<close> knows as private, the connection goes to one of those
  addresses and not to the name again, it must be encrypted, and the server must prove the name. The
  platform's own mail, and mail marked for the platform's server (the links of staff accounts are, C31),
  never takes that way; a customer's reset link is mail of the store and may.
\<close>

theorem store_mail_leaves_the_network:
  assumes "snd (deliver e cfg look acc s d) = Inr (Some m)"
  shows "case mlServername m of
      None \<Rightarrow> smHost (gsSmtp (snd (getOrCreate e cfg s))) = Some (mlHost m)
    | Some h \<Rightarrow> \<not> ejViaPlatform d \<and> \<not> isPlatformEmailKey (ejTemplateKey d) \<and> mlRequireTLS m \<and> mlPort m \<in> set ALLOWED_SMTP_PORTS
        \<and> (\<exists>t as. rowOf tId (ejTenantId d) (tenants s) = Some t \<and> smEnabled (tSmtp t) \<and> smHost (tSmtp t) = Some h
             \<and> look h = Some as \<and> mlHost m \<in> set as \<and> list_all (\<lambda>x. \<not> isPrivateAddress x) as)"
proof (cases "isPlatformEmailKey (ejTemplateKey d) \<or> ejViaPlatform d")
  case True
  then show ?thesis
    using assms unfolding deliver_platform [OF True]
    by (auto simp: Let_def buildMail_def bind_res_eq_Inr dest!: mailConfig_host split: option.splits if_splits)
next
  case False
  from assms False obtain c where c: "getDecryptedSmtpConfig e s (ejTenantId d) = Inr c"
    by (cases "getDecryptedSmtpConfig e s (ejTenantId d)") (auto simp: deliver_def Let_def split: option.splits if_splits)
  show ?thesis
  proof (cases c)
    case None
    then show ?thesis
      using assms False c
      by (auto simp: deliver_def Let_def case_prod_beta bind_res_eq_Inr buildMail_def dest!: mailConfig_host
          split: option.splits if_splits)
  next
    case (Some t)
    then obtain x sender subject body where x: "resolvePublicSmtpAddress look (scHost t) (scPort t) = Inr x"
      "m = buildMail sender (ejTo d) subject body x t (Some (scHost t)) True"
      using assms False c
      by (auto simp: deliver_def Let_def case_prod_beta bind_res_eq_Inr split: option.splits if_splits)
    then show ?thesis
      using False resolvePublic_InrD [OF x(1)] getDecryptedSmtpConfig_SomeD [OF c [unfolded Some]]
      by (auto simp: buildMail_def)
  qed
qed

theorem store_mail_leaves_the_network_witness:
  "\<exists>m. snd (deliver env0 mailConfig0 lookup0 (\<lambda>_. None) (db0\<lparr>tenants := [ownServer0]\<rparr>)
      \<lparr>ejTemplateKey = ''order-confirmation'', ejTenantId = ''t1'', ejLocale = ''en'', ejTo = ''c@x'', ejVariables = [],
       ejViaPlatform = False\<rparr>) = Inr (Some m)
    \<and> mlServername m = Some ''mail.shop.com'' \<and> mlHost m = ''203.0.113.7'' \<and> \<not> isPrivateAddress (mlHost m)"
proof -
  let ?d = "\<lparr>ejTemplateKey = ''order-confirmation'', ejTenantId = ''t1'', ejLocale = ''en'', ejTo = ''c@x'', ejVariables = [],
       ejViaPlatform = False\<rparr>"
  let ?out = "snd (deliver env0 mailConfig0 lookup0 (\<lambda>_. None) (db0\<lparr>tenants := [ownServer0]\<rparr>) ?d)"
  have "\<not> isl ?out" "projr ?out \<noteq> None" by code_simp+
  then obtain m where m: "?out = Inr (Some m)" by (cases ?out) auto
  have "map_sum id (map_option (\<lambda>m. (mlServername m, mlHost m))) ?out = Inr (Some (Some ''mail.shop.com'', ''203.0.113.7''))"
    by code_simp
  then show ?thesis
    using store_mail_leaves_the_network [OF m] m by (auto simp: lookup0_def list_all_iff)
qed

lemma getOrCreate_tables:
  "deliveries (fst (getOrCreate e cfg s)) = deliveries s" "grants (fst (getOrCreate e cfg s)) = grants s"
  "orders (fst (getOrCreate e cfg s)) = orders s"
  by (auto simp: getOrCreate_def Let_def split: option.splits)

lemma deliver_tables:
  assumes "deliver e cfg look acc s d = (s', r)"
  shows "deliveries s' = deliveries s" "grants s' = grants s" "orders s' = orders s"
  using assms
  by (auto simp: deliver_def getDecryptedMailConfig_def Let_def case_prod_beta getOrCreate_tables split: option.splits if_splits sum.splits)

lemma rotateGrants_hash:
  assumes "r \<in> set (rotateGrants e numbered gs)" "\<And>n. dgTokenHash r \<noteq> eHash e (eToken e n)"
  shows "r \<in> set gs \<and> dgId r \<notin> fst ` set numbered"
proof -
  from assms(1) obtain g where g: "g \<in> set gs" "r = (case map_of numbered (dgId g) of None \<Rightarrow> g
      | Some i \<Rightarrow> g\<lparr>dgTokenHash := eHash e (eToken e i), dgExpiresAt := eNow e + int (eLinkTtlDays e) * 86400000,
          dgDownloadCount := 0, dgRevokedAt := None\<rparr>)"
    by (auto simp: rotateGrants_def)
  show ?thesis
  proof (cases "map_of numbered (dgId g)")
    case None
    then have "r = g" using g(2) by simp
    with None g(1) show ?thesis by (simp add: map_of_eq_None_iff)
  next
    case (Some n)
    then show ?thesis using g(2) assms(2) [of n] by simp
  qed
qed

lemma prepareDelivery_SomeD:
  assumes "prepareDelivery e s i again = (s1, Some p)" "rowOf ddId i (deliveries s) = Some d"
  obtains ord where "orderById s (ddOrderId d) = Some ord" "oPaymentStatus ord = PaymentStatus.PAID"
    "s1 = s\<lparr>grants := rotateGrants e (map (\<lambda>(n, g). (dgId g, n)) (enumerate 0 (filter (\<lambda>g. dgDeliveryId g = i) (grants s)))) (grants s)\<rparr>"
    "pdTo p = the (oCustomerEmail ord)"
  using assms by (auto simp: prepareDelivery_def Let_def split: option.splits if_splits)

lemma processSend_InlD:
  assumes "processSend e cfg look acc s i again = (s', Inl x)" "rowOf ddId i (deliveries s) = Some d"
  obtains s1 p s2 message where "prepareDelivery e s i again = (s1, Some p)" "s' = markFailed e s2 i message"
    "deliveries s2 = deliveries s1" "grants s2 = grants s1" "orders s2 = orders s1"
proof -
  obtain s1 q where q: "prepareDelivery e s i again = (s1, q)" by force
  with assms(1) obtain p where p: "q = Some p" by (cases q) (auto simp: processSend_def)
  obtain s2 r where r: "deliver e cfg look acc s1 (deliveryMail p) = (s2, r)" by force
  then have "\<exists>message. s' = markFailed e s2 i message"
    using assms(1) q p by (auto simp: processSend_def split: sum.splits option.splits)
  with that q p deliver_tables [OF r] show ?thesis by blast
qed

text \<open>
  a digital delivery whose e-mail cannot be sent. A first send that fails leaves the delivery pending
  with one more attempt, and the sweep takes it again until the twelfth. A resend that fails has already
  replaced the tokens: the links of the e-mail that did arrive are gone, and since the delivery is still
  marked sent no sweep ever tries again, so a buyer who asked for the links once more is left with none.
\<close>

theorem failed_resend_kills_links:
  assumes "processSend e cfg look acc s i again = (s', Inl x)"
    and "rowOf ddId i (deliveries s) = Some d" and "ddStatus d \<noteq> REVOKED"
    and "rowOf dgTokenHash (eHash e2 token) (grants s) = Some g" and "dgDeliveryId g = i"
    and "uniqueKeys dgTokenHash (grants s)" and "\<And>n. eHash e2 token \<noteq> eHash e (eToken e n)"
    and "eNow e2 > eNow e + SWEEP_MIN_AGE_MS"
  shows "redeem e2 st s' token = (s', Inl (NotFound ''Download link not found''))
    \<and> (\<exists>d'. rowOf ddId i (deliveries s') = Some d' \<and> ddStatus d' = ddStatus d \<and> ddEmailAttempts d' = ddEmailAttempts d + 1
         \<and> (unsent e2 s' d' \<longleftrightarrow> ddStatus d = DigitalDeliveryStatus.PENDING \<and> ddEmailAttempts d + 1 < MAX_EMAIL_ATTEMPTS))"
proof -
  obtain s1 p s2 message where prep: "prepareDelivery e s i again = (s1, Some p)" and s': "s' = markFailed e s2 i message"
    and same: "deliveries s2 = deliveries s1" "grants s2 = grants s1" "orders s2 = orders s1"
    using processSend_InlD [OF assms(1,2)] by metis
  let ?numbered = "map (\<lambda>(n, g). (dgId g, n)) (enumerate 0 (filter (\<lambda>g. dgDeliveryId g = i) (grants s)))"
  obtain ord where ord: "orderById s (ddOrderId d) = Some ord" "oPaymentStatus ord = PaymentStatus.PAID"
    and s1: "s1 = s\<lparr>grants := rotateGrants e ?numbered (grants s)\<rparr>"
    using prepareDelivery_SomeD [OF prep assms(2)] by metis
  have g: "g \<in> set (grants s)" "dgTokenHash g = eHash e2 token" using rowOf_SomeD [OF assms(4)] by auto
  have ids: "fst ` set ?numbered = dgId ` {g \<in> set (grants s). dgDeliveryId g = i}"
  proof -
    have "map fst (map (\<lambda>(n, g). (dgId g, n)) (enumerate k xs)) = map dgId xs" for k and xs :: "downloadGrant list"
      by (induction xs arbitrary: k) simp_all
    then have "fst ` set ?numbered = set (map dgId (filter (\<lambda>g. dgDeliveryId g = i) (grants s)))"
      by (metis list.set_map)
    then show ?thesis by simp
  qed
  have "rowOf dgTokenHash (eHash e2 token) (grants s') = None"
  proof (rule ccontr)
    assume "rowOf dgTokenHash (eHash e2 token) (grants s') \<noteq> None"
    then obtain r where r: "r \<in> set (rotateGrants e ?numbered (grants s))" "dgTokenHash r = eHash e2 token"
      using s' same(2) s1 by (auto simp: markFailed_def updateDelivery_def dest: rowOf_SomeD)
    then have "r \<in> set (grants s)" "dgId r \<notin> fst ` set ?numbered"
      using rotateGrants_hash [OF r(1)] assms(7) by auto
    moreover have "r = g" using rowOf_unique [OF assms(6) calculation(1)] r(2) assms(4) by simp
    ultimately show False using g(1) assms(5) ids by blast
  qed
  moreover have "rowOf ddId i (deliveries s') = Some (d\<lparr>ddLastError := Some (take 300 message),
      ddEmailAttempts := ddEmailAttempts d + 1, ddUpdatedAt := eNow e\<rparr>)"
    using assms(2,3) rowOf_SomeD [OF assms(2)] s' same(1) s1
    by (simp add: markFailed_def updateDelivery_def rowOf_updateMany)
  moreover have "orderById s' (ddOrderId d) = Some ord"
    using ord(1) s' same(3) s1 by (simp add: orderById_def markFailed_def updateDelivery_def)
  ultimately show ?thesis using ord(2) assms(8) by (auto simp: redeem_def unsent_def)
qed

theorem failed_resend_kills_links_witness:
  "\<exists>s' x. processSend env0 (mailConfig0\<lparr>mcHost := None\<rparr>) lookup0 (\<lambda>_. None) redeemDb0 ''d1'' True = (s', Inl x)
    \<and> (\<exists>s1 w. redeem env0 storage0 redeemDb0 ''abc'' = (s1, Inr w))
    \<and> redeem (env0\<lparr>eNow := 1000010000000\<rparr>) storage0 s' ''abc'' = (s', Inl (NotFound ''Download link not found''))"
proof -
  let ?r = "processSend env0 (mailConfig0\<lparr>mcHost := None\<rparr>) lookup0 (\<lambda>_. None) redeemDb0 ''d1'' True"
  have "isl (snd ?r)" by code_simp
  then obtain s' x where r: "?r = (s', Inl x)" by (cases ?r; cases "snd ?r") auto
  have h: "rowOf ddId ''d1'' (deliveries redeemDb0) = Some delivery0" "ddStatus delivery0 \<noteq> REVOKED"
      "rowOf dgTokenHash (eHash (env0\<lparr>eNow := 1000010000000\<rparr>) ''abc'') (grants redeemDb0) = Some grant0"
      "dgDeliveryId grant0 = ''d1''" "uniqueKeys dgTokenHash (grants redeemDb0)"
      "\<And>n. eHash (env0\<lparr>eNow := 1000010000000\<rparr>) ''abc'' \<noteq> eHash env0 (eToken env0 n)"
      "eNow (env0\<lparr>eNow := 1000010000000\<rparr>) > eNow env0 + SWEEP_MIN_AGE_MS"
    by (simp_all add: redeem_sample uniqueKeys_def SWEEP_MIN_AGE_MS_def)
  have "\<exists>s1 w. redeem env0 storage0 redeemDb0 ''abc'' = (s1, Inr w)"
    by (simp add: redeemDb0_live signedDownloadUrl_def storage0_def)
  with failed_resend_kills_links [OF r h] r show ?thesis by blast
qed

end
