(* ===== verification/AuditTrail.thy ===== *)
theory AuditTrail
  imports PlatformTenants
begin

text \<open>
  The audit log: \<open>audit/interceptors/audit.interceptor.ts\<close>, \<open>audit/audit-log.service.ts\<close> and the
  options of \<open>audit/decorators/audit.decorator.ts\<close>. The interceptor writes a row after a handler
  succeeded, with what was asked and by whom; a write that fails is swallowed.
\<close>

section \<open>What of a body is kept\<close>

definition REDACTED :: string where
  "REDACTED = ''[redacted]''"

text \<open>\<open>SECRET_KEY_PATTERN\<close>, which ignores case.\<close>

definition secretKey :: "string \<Rightarrow> bool" where
  "secretKey k = list_ex (\<lambda>w. contains w (lower k)) [''password'', ''secret'', ''token'', ''credentials'']"

fun redact :: "json \<Rightarrow> json" where
  "redact (JArr js) = JArr (map redact js)"
| "redact (JObj fs) = JObj (map (\<lambda>(k, v). (k, if secretKey k then JStr REDACTED else redact v)) fs)"
| "redact j = j"

datatype AuditBody = full | keys

record AuditOptions =
  aoAction :: string
  aoEntityType :: string
  aoParamName :: "string option"
  aoBody :: "AuditBody option"
  aoInclude :: "string list option"

text \<open>A body is an object or an array, or missing; the names of an array are its indices.\<close>

definition bodyFields :: "json \<Rightarrow> (string \<times> json) list" where
  "bodyFields body =
     (case body of JObj fs \<Rightarrow> fs | JArr js \<Rightarrow> map (\<lambda>(i, v). (string_of_nat i, v)) (enumerate 0 js) | _ \<Rightarrow> [])"

definition keptFields :: "json \<Rightarrow> AuditOptions \<Rightarrow> (string \<times> json) list" where
  "keptFields body opts =
     concat (map (\<lambda>k. case map_of (bodyFields body) k of Some v \<Rightarrow> [(k, v)] | None \<Rightarrow> [])
       (remdups (case aoInclude opts of Some ks \<Rightarrow> ks | None \<Rightarrow> [])))"

definition isObject :: "json option \<Rightarrow> bool" where
  "isObject body = (case body of Some (JObj _) \<Rightarrow> True | Some (JArr _) \<Rightarrow> True | _ \<Rightarrow> False)"

definition describeBody :: "json option \<Rightarrow> AuditOptions \<Rightarrow> json option" where
  "describeBody body opts =
     (if aoBody opts \<noteq> Some keys then map_option redact body
      else if \<not> isObject body then Some (JObj [])
      else let kept = keptFields (the body) opts
           in Some (JObj ([(''fields'', JArr (map (\<lambda>(k, _). JStr k) (bodyFields (the body))))]
                @ (if kept = [] then [] else [(''values'', redact (JObj kept))]))))"

section \<open>The row of a request\<close>

text \<open>What the interceptor reads of a request and of what its handler returned.\<close>

record AuditContext =
  xcParams :: "(string \<times> string) list"
  xcTenantId :: "uuid option"
  xcBody :: "json option"
  xcIp :: "string option"
  xcUserAgent :: "string option"
  xcActor :: "AuthenticatedUser option"
  xcResultId :: "string option"
  xcResultTenantId :: "uuid option"

text \<open>\<open>a ?? b\<close>.\<close>

fun coalesce :: "'a option \<Rightarrow> 'a option \<Rightarrow> 'a option" where
  "coalesce (Some x) _ = Some x"
| "coalesce None y = y"

fun member_role_text :: "TenantMemberRole \<Rightarrow> string" where
  "member_role_text OWNER = ''OWNER''"
| "member_role_text STAFF = ''STAFF''"

fun global_role_text :: "GlobalRole \<Rightarrow> string" where
  "global_role_text SUPER_ADMIN = ''SUPER_ADMIN''"
| "global_role_text USER = ''USER''"

definition actingFor :: "AuthenticatedUser option \<Rightarrow> uuid option" where
  "actingFor actor = Option.bind actor auImpersonatedBy"


text \<open>Fields that are \<open>undefined\<close> are not written.\<close>

definition metadataOf :: "AuditOptions \<Rightarrow> AuditContext \<Rightarrow> json" where
  "metadataOf opts x =
     JObj ((case describeBody (xcBody x) opts of Some b \<Rightarrow> [(''request'', b)] | None \<Rightarrow> [])
       @ (if truthy (actingFor (xcActor x))
          then [(''impersonating'', JObj ([(''userId'', JStr (auId (the (xcActor x)))), (''email'', JStr (auEmail (the (xcActor x))))]
                 @ (case auTenantRole (the (xcActor x)) of
                      Some r \<Rightarrow> [(''tenantRole'', JStr (member_role_text r))] | None \<Rightarrow> [])))]
          else []))"

definition entityIdOf :: "AuditOptions \<Rightarrow> AuditContext \<Rightarrow> string option" where
  "entityIdOf opts x =
     coalesce (map_of (xcParams x) (case aoParamName opts of Some p \<Rightarrow> p | None \<Rightarrow> ''id'')) (xcResultId x)"

definition auditRow :: "env \<Rightarrow> AuditOptions \<Rightarrow> AuditContext \<Rightarrow> auditLog" where
  "auditRow e opts x =
     (let actor = xcActor x; admin = truthy (actingFor actor); entityId = entityIdOf opts x
      in \<lparr>alId = eFresh e 9,
          alActorId = coalesce (actingFor actor) (map_option auId actor),
          alActorEmail = (if admin then None else map_option auEmail actor),
          alActorRole = (if admin then Some ''SUPER_ADMIN''
            else Option.bind actor (\<lambda>w. coalesce (map_option member_role_text (auTenantRole w))
                   (Some (global_role_text (auGlobalRole w))))),
          alAction = aoAction opts, alEntityType = aoEntityType opts, alEntityId = entityId,
          alTenantId = coalesce (xcTenantId x) (coalesce (xcResultTenantId x)
            (if aoEntityType opts = ''Tenant'' then entityId else None)),
          alMetadata = metadataOf opts x, alIpAddress = xcIp x, alUserAgent = xcUserAgent x, alCreatedAt = eNow e\<rparr>)"

text \<open>
  After the handler: its answer is passed on as it is, and the insert of the row is started, not waited for.
  What it does is \<open>recordAudit\<close>, on the data base of a later moment; an insert that fails is caught and
  only reported. (It is no part of the transaction of the request.)
\<close>

definition intercept ::
    "env \<Rightarrow> AuditOptions option \<Rightarrow> ('r \<Rightarrow> AuditContext) \<Rightarrow> (db \<times> 'r) res \<Rightarrow> (db \<times> 'r) res \<times> auditLog option" where
  "intercept e opts ctx result =
     (result,
      case result of
        Inl _ \<Rightarrow> None
      | Inr (_, r) \<Rightarrow> map_option (\<lambda>opt. auditRow e opt (ctx r)) opts)"

definition recordAudit :: "bool \<Rightarrow> auditLog \<Rightarrow> db \<Rightarrow> db" where
  "recordAudit accepted row s = (if accepted then s\<lparr>auditLogs := auditLogs s @ [row]\<rparr> else s)"

section \<open>Reading the log\<close>

record AuditLogQueryDto =
  aqPagination :: PaginationDto
  aqAction :: "string option"
  aqEntityType :: "string option"
  aqTenantId :: "uuid option"
  aqActorId :: "uuid option"
  aqDateFrom :: "time option"
  aqDateTo :: "time option"

definition auditWhere :: "AuditLogQueryDto \<Rightarrow> auditLog \<Rightarrow> bool" where
  "auditWhere q r =
     ((truthy (aqAction q) \<longrightarrow> Some (alAction r) = aqAction q)
      \<and> (truthy (aqEntityType q) \<longrightarrow> Some (alEntityType r) = aqEntityType q)
      \<and> (truthy (aqTenantId q) \<longrightarrow> alTenantId r = aqTenantId q)
      \<and> (truthy (aqActorId q) \<longrightarrow> alActorId r = aqActorId q)
      \<and> (case aqDateFrom q of Some d \<Rightarrow> alCreatedAt r \<ge> d | None \<Rightarrow> True)
      \<and> (case aqDateTo q of Some d \<Rightarrow> alCreatedAt r \<le> d | None \<Rightarrow> True)
      \<and> (truthy (pgSearch (aqPagination q)) \<longrightarrow>
           (let w = the (pgSearch (aqPagination q))
            in (case alActorEmail r of Some t \<Rightarrow> containsText w t | None \<Rightarrow> False)
               \<or> (case alEntityId r of Some t \<Rightarrow> containsText w t | None \<Rightarrow> False))))"

definition listAudit :: "db \<Rightarrow> AuditLogQueryDto \<Rightarrow> auditLog PaginatedResult" where
  "listAudit s q = paginate (aqPagination q) (findMany (auditWhere q) (\<lambda>r. - alCreatedAt r) (auditLogs s))"

text \<open>The names in the order of the database, here that of their bytes.\<close>

definition listDistinctActions :: "db \<Rightarrow> string list" where
  "listDistinctActions s = sort (remdups (map alAction (auditLogs s)))"

section \<open>Facts\<close>

text \<open>Every field of a value, at any depth.\<close>

fun allFields :: "json \<Rightarrow> (string \<times> json) list" where
  "allFields (JArr js) = concat (map allFields js)"
| "allFields (JObj fs) = concat (map (\<lambda>(k, v). (k, v) # allFields v) fs)"
| "allFields j = []"

lemma redact_fields: "(k, v) \<in> set (allFields (redact j)) \<Longrightarrow> secretKey k \<Longrightarrow> v = JStr REDACTED"
proof (induction j rule: redact.induct)
  case (2 fs)
  then obtain k0 v0 where f: "(k0, v0) \<in> set fs"
      "(k, v) = (k0, if secretKey k0 then JStr REDACTED else redact v0)
        \<or> (k, v) \<in> set (allFields (if secretKey k0 then JStr REDACTED else redact v0))"
    by auto
  show ?case
  proof (cases "secretKey k0")
    case True
    then show ?thesis using f(2) by simp
  next
    case False
    then show ?thesis using f 2 by auto
  qed
qed auto

text \<open>Two values that differ under names of secrets only.\<close>

inductive agree :: "json \<Rightarrow> json \<Rightarrow> bool" where
  same: "agree j j"
| arrays: "length xs = length ys \<Longrightarrow> (\<And>i. i < length xs \<Longrightarrow> agree (xs ! i) (ys ! i)) \<Longrightarrow> agree (JArr xs) (JArr ys)"
| objects: "map fst a = map fst b
    \<Longrightarrow> (\<And>i. i < length a \<Longrightarrow> secretKey (fst (a ! i)) \<or> agree (snd (a ! i)) (snd (b ! i))) \<Longrightarrow> agree (JObj a) (JObj b)"

lemma agree_redact: "agree a b \<Longrightarrow> redact a = redact b"
proof (induction rule: agree.induct)
  case (arrays xs ys)
  then show ?case by (auto intro: nth_equalityI)
next
  case (objects a b)
  have len: "length a = length b" using arg_cong [OF objects(1), of length] by simp
  have "fst (a ! i) = fst (b ! i)" if "i < length a" for i
    using arg_cong [OF objects(1), of "\<lambda>l. l ! i"] that len by simp
  then have "map (\<lambda>(k, v). (k, if secretKey k then JStr REDACTED else redact v)) a
      = map (\<lambda>(k, v). (k, if secretKey k then JStr REDACTED else redact v)) b"
    using objects(2) len by (intro nth_equalityI) (fastforce simp: case_prod_beta)+
  then show ?case by simp
qed simp

text \<open>Two bodies that are the same to the log of a route.\<close>

definition sameForLog :: "AuditOptions \<Rightarrow> json option \<Rightarrow> json option \<Rightarrow> bool" where
  "sameForLog opts b c =
     (if aoBody opts = Some keys
      then \<exists>fs gs. b = Some (JObj fs) \<and> c = Some (JObj gs) \<and> map fst fs = map fst gs
        \<and> (\<forall>k v w. aoInclude opts \<noteq> None \<and> k \<in> set (the (aoInclude opts)) \<and> map_of fs k = Some v \<and> map_of gs k = Some w
             \<longrightarrow> secretKey k \<or> agree v w)
      else rel_option agree b c)"

lemma redact_kept:
  assumes "map fst fs = map fst gs"
    and "\<And>k v w. k \<in> set ks \<Longrightarrow> map_of fs k = Some v \<Longrightarrow> map_of gs k = Some w \<Longrightarrow> secretKey k \<or> agree v w"
  shows "redact (JObj (concat (map (\<lambda>k. case map_of fs k of Some v \<Rightarrow> [(k, v)] | None \<Rightarrow> []) ks)))
    = redact (JObj (concat (map (\<lambda>k. case map_of gs k of Some v \<Rightarrow> [(k, v)] | None \<Rightarrow> []) ks)))"
  using assms(2)
proof (induction ks)
  case (Cons k ks)
  have dom: "map_of fs k = None \<longleftrightarrow> map_of gs k = None"
    using arg_cong [OF assms(1), of set] by (simp add: map_of_eq_None_iff)
  have IH: "redact (JObj (concat (map (\<lambda>k. case map_of fs k of Some v \<Rightarrow> [(k, v)] | None \<Rightarrow> []) ks)))
    = redact (JObj (concat (map (\<lambda>k. case map_of gs k of Some v \<Rightarrow> [(k, v)] | None \<Rightarrow> []) ks)))"
    using Cons by simp
  show ?case
  proof (cases "map_of fs k")
    case None
    then show ?thesis using dom IH by simp
  next
    case (Some v)
    then obtain w where w: "map_of gs k = Some w" using dom by (cases "map_of gs k") auto
    then have "secretKey k \<or> redact v = redact w" using Cons.prems [of k v w] Some agree_redact by auto
    then show ?thesis using Some w IH by auto
  qed
qed simp

lemma kept_empty_iff:
  assumes "map fst fs = map fst gs"
  shows "concat (map (\<lambda>k. case map_of fs k of Some v \<Rightarrow> [(k, v)] | None \<Rightarrow> []) ks) = []
    \<longleftrightarrow> concat (map (\<lambda>k. case map_of gs k of Some v \<Rightarrow> [(k, v)] | None \<Rightarrow> []) ks) = []"
proof -
  have "map_of fs k = None \<longleftrightarrow> map_of gs k = None" for k
    using arg_cong [OF assms, of set] by (simp add: map_of_eq_None_iff)
  then show ?thesis by (induction ks) (auto split: option.splits)
qed

lemma describeBody_same:
  assumes "sameForLog opts b c"
  shows "describeBody c opts = describeBody b opts"
proof (cases "aoBody opts = Some keys")
  case False
  then show ?thesis
    using assms agree_redact by (cases b; cases c) (auto simp: sameForLog_def describeBody_def)
next
  case True
  then obtain fs gs where f: "b = Some (JObj fs)" "c = Some (JObj gs)" and names: "map fst fs = map fst gs"
    and vals: "\<And>k v w. aoInclude opts \<noteq> None \<Longrightarrow> k \<in> set (the (aoInclude opts)) \<Longrightarrow> map_of fs k = Some v \<Longrightarrow> map_of gs k = Some w
      \<Longrightarrow> secretKey k \<or> agree v w"
    using assms by (auto simp: sameForLog_def)
  let ?ks = "remdups (case aoInclude opts of Some ks \<Rightarrow> ks | None \<Rightarrow> [])"
  have "map (\<lambda>(k, _). JStr k) fs = map (\<lambda>(k, _). JStr k) gs"
    using arg_cong [OF names, of "map JStr"] by (simp add: case_prod_beta' comp_def)
  moreover have "redact (JObj (keptFields (JObj fs) opts)) = redact (JObj (keptFields (JObj gs) opts))"
    unfolding keptFields_def bodyFields_def json.case
  proof (rule redact_kept [OF names])
    fix k v w
    assume "k \<in> set ?ks" "map_of fs k = Some v" "map_of gs k = Some w"
    then show "secretKey k \<or> agree v w" using vals [of k v w] by (cases "aoInclude opts") auto
  qed
  moreover have "keptFields (JObj fs) opts = [] \<longleftrightarrow> keptFields (JObj gs) opts = []"
    unfolding keptFields_def bodyFields_def json.case by (rule kept_empty_iff [OF names])
  ultimately show ?thesis using True f by (simp add: describeBody_def isObject_def bodyFields_def Let_def)
qed

lemma metadata_names:
  "\<not> secretKey ''request''" "\<not> secretKey ''impersonating''" "\<not> secretKey ''userId''" "\<not> secretKey ''email''"
  "\<not> secretKey ''tenantRole''" "\<not> secretKey ''fields''" "\<not> secretKey ''values''"
  by code_simp+

lemma describeBody_fields:
  assumes "describeBody body opts = Some b" "(k, v) \<in> set (allFields b)" "secretKey k"
  shows "v = JStr REDACTED"
  using assms metadata_names redact_fields
  by (fastforce simp: describeBody_def Let_def split: if_splits)

section \<open>Properties\<close>

text \<open>
  C33: no secret of a request reaches the audit log. Two requests that differ in what stands under a name
  of a password, secret, token or credential, at any depth and whatever stands there, leave the same row;
  where a route keeps the names of the fields only, so do two requests that differ in the values of all
  other fields. What a row shows under such a name is never anything but the mark.
\<close>

theorem audit_keeps_no_secret:
  assumes "sameForLog opts (xcBody x) other"
  shows "auditRow e opts (x\<lparr>xcBody := other\<rparr>) = auditRow e opts x
    \<and> (\<forall>(k, v) \<in> set (allFields (alMetadata (auditRow e opts x))). secretKey k \<longrightarrow> v = JStr REDACTED)"
proof
  show "auditRow e opts (x\<lparr>xcBody := other\<rparr>) = auditRow e opts x"
    using describeBody_same [OF assms] by (simp add: auditRow_def metadataOf_def entityIdOf_def Let_def)
  have "v = JStr REDACTED" if kv: "(k, v) \<in> set (allFields (metadataOf opts x))" "secretKey k" for k v
  proof (rule ccontr)
    assume no: "v \<noteq> JStr REDACTED"
    have "k \<noteq> ''request''" "k \<noteq> ''impersonating''" "k \<noteq> ''userId''" "k \<noteq> ''email''" "k \<noteq> ''tenantRole''"
      using kv(2) metadata_names by auto
    then show False
      using kv no by (auto simp: metadataOf_def dest: describeBody_fields [OF sym] split: option.splits if_splits)
  qed
  then show "\<forall>(k, v) \<in> set (allFields (alMetadata (auditRow e opts x))). secretKey k \<longrightarrow> v = JStr REDACTED"
    by (auto simp: auditRow_def Let_def)
qed

definition cardBody :: "string \<Rightarrow> json option" where
  "cardBody secret = Some (JObj [(''provider'', JStr ''STRIPE''), (''credentials'', JObj [(''secretKey'', JStr secret)])])"

definition paymentAudit :: AuditOptions where
  "paymentAudit = \<lparr>aoAction = ''payment_setting.update'', aoEntityType = ''TenantPaymentSetting'', aoParamName = None,
     aoBody = None, aoInclude = None\<rparr>"

definition auditContext0 :: AuditContext where
  "auditContext0 = \<lparr>xcParams = [], xcTenantId = Some ''t1'', xcBody = cardBody ''sk_1'', xcIp = None, xcUserAgent = None,
     xcActor = None, xcResultId = None, xcResultTenantId = None\<rparr>"

theorem audit_keeps_no_secret_witness:
  "alMetadata (auditRow env0 paymentAudit (auditContext0\<lparr>xcBody := cardBody ''sk_2''\<rparr>))
    = alMetadata (auditRow env0 paymentAudit auditContext0)
   \<and> (''credentials'', JStr REDACTED) \<in> set (allFields (alMetadata (auditRow env0 paymentAudit auditContext0)))"
proof -
  have s: "secretKey ''credentials''" by code_simp
  have "agree (the (cardBody ''sk_1'')) (the (cardBody ''sk_2''))"
    unfolding cardBody_def option.sel
    by (rule agree.objects) (auto simp: less_Suc_eq s intro: agree.same)
  then have "sameForLog paymentAudit (xcBody auditContext0) (cardBody ''sk_2'')"
    by (simp add: sameForLog_def paymentAudit_def auditContext0_def cardBody_def)
  moreover have "(''credentials'', JStr REDACTED) \<in> set (allFields (alMetadata (auditRow env0 paymentAudit auditContext0)))"
    by code_simp
  ultimately show ?thesis using audit_keeps_no_secret by metis
qed

text \<open>
  the audit log names the person behind a request. A handler that fails leaves no row and its error
  unchanged, and one that succeeds keeps its answer whether or not the row can be written. When the
  request came with the token of an impersonation, the row names the administrator the impersonation log
  names, with the role of the platform and without the e-mail of the owner, who is in the row as the one
  acted for; any other request is put down to the account of its token.
\<close>

theorem audit_names_the_person:
  assumes "authorize a s rt rq = Inr (tn, Some w)" and "\<not> rtPublic rt"
    and "xcActor (ctx r) = Some w"
  shows "intercept e (Some opts) ctx (Inr (s1, r)) = (Inr (s1, r), Some (auditRow e opts (ctx r)))
    \<and> intercept e (Some opts) ctx (Inl err) = (Inl err, None)
    \<and> (\<exists>p u. aeVerifyAccess a (the (requestToken rq)) = Some p \<and> u \<in> set (users s) \<and> uId u = jpSub p \<and> uIsActive u
        \<and> (if truthy (jpImpersonatedBy p)
           then alActorId (auditRow e opts (ctx r)) = jpImpersonatedBy p
             \<and> alActorRole (auditRow e opts (ctx r)) = Some ''SUPER_ADMIN''
             \<and> alActorEmail (auditRow e opts (ctx r)) = None
             \<and> (''userId'', JStr (uId u)) \<in> set (allFields (alMetadata (auditRow e opts (ctx r))))
           else jpImpersonatedBy p = None \<longrightarrow> alActorId (auditRow e opts (ctx r)) = Some (uId u)
             \<and> alActorEmail (auditRow e opts (ctx r)) = Some (auEmail w)))"
proof -
  obtain raw p where p: "requestToken rq = Some raw" "aeVerifyAccess a raw = Some p" "validate s p = Inr w"
    using jwtAuthGuard_InrD [OF authorize_InrD(2) [OF assms(1)] assms(2)] by (metis option.inject)
  obtain u where u: "u \<in> set (users s)" "uId u = jpSub p" "uIsActive u" "auId w = uId u"
      "auImpersonatedBy w = jpImpersonatedBy p"
    using validate_InrD [OF p(3)] by metis
  have "if truthy (jpImpersonatedBy p)
       then alActorId (auditRow e opts (ctx r)) = jpImpersonatedBy p
         \<and> alActorRole (auditRow e opts (ctx r)) = Some ''SUPER_ADMIN''
         \<and> alActorEmail (auditRow e opts (ctx r)) = None
         \<and> (''userId'', JStr (uId u)) \<in> set (allFields (alMetadata (auditRow e opts (ctx r))))
       else jpImpersonatedBy p = None \<longrightarrow> alActorId (auditRow e opts (ctx r)) = Some (uId u)
         \<and> alActorEmail (auditRow e opts (ctx r)) = Some (auEmail w)"
    using assms(3) u(4,5)
    by (cases "jpImpersonatedBy p") (auto simp: auditRow_def actingFor_def metadataOf_def Let_def truthy_def)
  with p(1,2) u(1-3) show ?thesis by (auto simp: intercept_def)
qed

theorem audit_names_the_person_witness:
  "\<exists>w. authorize admittedEnv (acDb accounts0) ownerRoute (staffRequest\<lparr>rqBearer := Some ''tok''\<rparr>) = Inr (Some ''t1'', Some w)
    \<and> alActorId (auditRow env0 paymentAudit (auditContext0\<lparr>xcActor := Some w\<rparr>)) = Some ''admin''"
proof -
  let ?rq = "staffRequest\<lparr>rqBearer := Some ''tok''\<rparr>"
  have "\<exists>w. authorize admittedEnv (acDb accounts0) ownerRoute ?rq = Inr (Some ''t1'', Some w)"
    by (simp add: authorize_def Let_def resolveTenant_def tenantIdentifier_def isUuid_def jwtAuthGuard_def admittedEnv_def
        ownerRoute_def impersonationPayload_def requestToken_def validate_def handleRequest_def rolesGuard_def
        tenantRequiredGuard_def truthy_def bind_res_def access_samples account_samples db0_def tenant0_def)
  then obtain w where w: "authorize admittedEnv (acDb accounts0) ownerRoute ?rq = Inr (Some ''t1'', Some w)" by blast
  have "\<not> rtPublic ownerRoute" by (simp add: ownerRoute_def)
  from audit_names_the_person [OF w this, of "\<lambda>_. auditContext0\<lparr>xcActor := Some w\<rparr>" "()" env0 paymentAudit]
  show ?thesis using w by (auto simp: admittedEnv_def impersonationPayload_def truthy_def)
qed

end
