(* ===== verification/Uri.thy ===== *)
theory Uri
  imports Text
begin

text \<open>
  \<open>decodeURIComponent\<close> of JavaScript, on texts as lists of their UTF-8 bytes: what a handler makes of a
  path and of the parts of an address. It throws, and there is nothing, on an escape that is cut off or
  spells no character.
\<close>

section \<open>Escapes\<close>

definition hexValue :: "char \<Rightarrow> nat" where
  "hexValue c = (if isDigitChar c then of_char c - 48 else if c \<ge> CHR ''a'' then of_char c - 87 else of_char c - 55)"

text \<open>One escape \<open>%xy\<close>: its byte and what follows.\<close>

fun escaped :: "string \<Rightarrow> (nat \<times> string) option" where
  "escaped (p # x # y # t) =
     (if p = CHR ''%'' \<and> isHexChar x \<and> isHexChar y then Some (16 * hexValue x + hexValue y, t) else None)"
| "escaped _ = None"

text \<open>The bytes that go on a character whose first byte is \<open>b\<close>, with the range of the second.\<close>

definition leadByte :: "nat \<Rightarrow> (nat \<times> nat \<times> nat) option" where
  "leadByte b =
     (if b < 128 then Some (0, 128, 191)
      else if 194 \<le> b \<and> b \<le> 223 then Some (1, 128, 191)
      else if 224 \<le> b \<and> b \<le> 239 then Some (2, if b = 224 then 160 else 128, if b = 237 then 159 else 191)
      else if 240 \<le> b \<and> b \<le> 244 then Some (3, if b = 240 then 144 else 128, if b = 244 then 143 else 191)
      else None)"

fun continued :: "nat \<Rightarrow> nat \<Rightarrow> nat \<Rightarrow> string \<Rightarrow> (string \<times> string) option" where
  "continued 0 lo hi t = Some ([], t)"
| "continued (Suc n) lo hi t =
     (case escaped t of
        None \<Rightarrow> None
      | Some (b, r) \<Rightarrow>
          if lo \<le> b \<and> b \<le> hi then map_option (\<lambda>(w, r'). (char_of b # w, r')) (continued n 128 191 r) else None)"

lemma escaped_shorter: "escaped t = Some (b, r) \<Longrightarrow> length r < length t"
  by (induction t rule: escaped.induct) (auto split: if_splits)

lemma continued_shorter: "continued n lo hi t = Some (w, r) \<Longrightarrow> length r \<le> length t"
proof (induction n arbitrary: lo hi t w r)
  case (Suc n)
  then show ?case by (fastforce split: option.splits if_splits dest: escaped_shorter)
qed simp

function decodeURIComponent :: "string \<Rightarrow> string option" where
  "decodeURIComponent t =
     (case t of
        [] \<Rightarrow> Some []
      | c # cs \<Rightarrow>
          if c \<noteq> CHR ''%'' then map_option (\<lambda>w. c # w) (decodeURIComponent cs)
          else case escaped t of
            None \<Rightarrow> None
          | Some (b, r) \<Rightarrow>
              (case leadByte b of
                 None \<Rightarrow> None
               | Some (n, lo, hi) \<Rightarrow>
                   (case continued n lo hi r of
                      None \<Rightarrow> None
                    | Some (w, r') \<Rightarrow> map_option (\<lambda>v. char_of b # w @ v) (decodeURIComponent r'))))"
  by pat_completeness auto

termination
  by (relation "measure length") (auto dest!: escaped_shorter continued_shorter)

declare decodeURIComponent.simps [simp del]

lemma decodeURIComponent_plain: "c \<noteq> CHR ''%'' \<Longrightarrow> decodeURIComponent (c # t) = map_option ((#) c) (decodeURIComponent t)"
  by (subst decodeURIComponent.simps) simp

end
