(* ===== verification/Preview.thy ===== *)
theory Preview
  imports Catalogue Uri
begin

text \<open>
  The page a messenger reads to show a link of a store: \<open>preview/preview.service.ts\<close> and the origin
  \<open>preview/preview.controller.ts\<close> puts into its links. The lengths are those of the bytes of a text.
  What Prisma makes of a text that should be the id of a row is a parameter, nothing when it refuses it.
\<close>

section \<open>Texts\<close>

text \<open>\<open>replace(/c/g, r)\<close> of one character.\<close>

definition replaceChar :: "char \<Rightarrow> string \<Rightarrow> string \<Rightarrow> string" where
  "replaceChar c r t = concat (map (\<lambda>x. if x = c then r else [x]) t)"

definition escapeHtml :: "string \<Rightarrow> string" where
  "escapeHtml value =
     replaceChar (CHR 0x27) ''&#39;'' (replaceChar (CHR 0x22) ''&quot;'' (replaceChar (CHR ''>'') ''&gt;''
       (replaceChar (CHR ''<'') ''&lt;'' (replaceChar (CHR ''&'') ''&amp;'' value))))"

text \<open>\<open>replace(/\s+/g, ' ')\<close>.\<close>

fun squeeze :: "string \<Rightarrow> string" where
  "squeeze [] = []"
| "squeeze [c] = (if isSpace c then '' '' else [c])"
| "squeeze (c # d # t) =
     (if isSpace c then (if isSpace d then squeeze (d # t) else CHR '' '' # squeeze (d # t)) else c # squeeze (d # t))"

definition truncate200 :: "string option \<Rightarrow> string option" where
  "truncate200 value =
     (if \<not> truthy value then None
      else let text = trim (squeeze (the value))
           in if text = [] then None
              else if length text > 200 then Some (take 199 text @ [CHR 0xE2, CHR 0x80, CHR 0xA6])
              else Some text)"

definition absoluteUrl :: "string option \<Rightarrow> string \<Rightarrow> string option" where
  "absoluteUrl url origin =
     (if \<not> truthy url then None
      else if startsWith ''http'' (the url) then url
      else Some (origin @ (if startsWith ''/'' (the url) then [] else ''/'') @ the url))"

section \<open>The page\<close>

record PreviewMeta =
  mtTitle :: string
  mtDescription :: "string option"
  mtImage :: "string option"
  mtCanonical :: string
  mtSiteName :: string
  mtType :: string
  mtPrice :: "(string \<times> string) option"

text \<open>An attribute, a meta tag by property and by name.\<close>

definition attribute :: "string \<Rightarrow> string \<Rightarrow> string" where
  "attribute name value = name @ [CHR ''='', CHR 0x22] @ value @ [CHR 0x22]"

definition property :: "string \<Rightarrow> string \<Rightarrow> string" where
  "property p value = ''<meta '' @ attribute ''property'' p @ '' '' @ attribute ''content'' value @ ''>''"

definition metaName :: "string \<Rightarrow> string \<Rightarrow> string" where
  "metaName p value = ''<meta '' @ attribute ''name'' p @ '' '' @ attribute ''content'' value @ ''>''"

definition metaTags :: "PreviewMeta \<Rightarrow> string list" where
  "metaTags m =
     (let e = escapeHtml in
      [''<title>'' @ e (mtTitle m) @ ''</title>'',
       ''<link '' @ attribute ''rel'' ''canonical'' @ '' '' @ attribute ''href'' (e (mtCanonical m)) @ ''>'',
       property ''og:type'' (mtType m), property ''og:title'' (e (mtTitle m)), property ''og:url'' (e (mtCanonical m)),
       property ''og:site_name'' (e (mtSiteName m)),
       metaName ''twitter:card'' (if truthy (mtImage m) then ''summary_large_image'' else ''summary''),
       metaName ''twitter:title'' (e (mtTitle m))]
      @ (if truthy (mtDescription m)
         then [metaName ''description'' (e (the (mtDescription m))), property ''og:description'' (e (the (mtDescription m))),
               metaName ''twitter:description'' (e (the (mtDescription m)))] else [])
      @ (if truthy (mtImage m)
         then [property ''og:image'' (e (the (mtImage m))), metaName ''twitter:image'' (e (the (mtImage m)))] else [])
      @ (case mtPrice m of
           Some (amount, currency) \<Rightarrow> [property ''product:price:amount'' (e amount), property ''product:price:currency'' (e currency)]
         | None \<Rightarrow> []))"

definition newline :: string where
  "newline = [CHR 0x0A]"

definition html :: "PreviewMeta \<Rightarrow> string" where
  "html m =
     joinWith newline
       [''<!doctype html>'', ''<html '' @ attribute ''lang'' ''es'' @ ''>'', ''<head>'',
        ''<meta '' @ attribute ''charset'' ''utf-8'' @ ''>'',
        metaName ''viewport'' ''width=device-width, initial-scale=1.0'',
        joinWith newline (metaTags m), ''</head>'', ''<body>'',
        ''<h1>'' @ escapeHtml (mtTitle m) @ ''</h1>'',
        (if truthy (mtDescription m) then ''<p>'' @ escapeHtml (the (mtDescription m)) @ ''</p>'' else []),
        ''<p><a '' @ attribute ''href'' (escapeHtml (mtCanonical m)) @ ''>'' @ escapeHtml (mtSiteName m) @ ''</a></p>'',
        ''</body>'', ''</html>'']"

definition fallbackMeta :: "string \<Rightarrow> string \<Rightarrow> PreviewMeta" where
  "fallbackMeta origin pathname =
     \<lparr>mtTitle = ''Yorde What Store'',
      mtDescription = Some ''Multitenant ecommerce with WhatsApp, Telegram and card checkout.'', mtImage = None,
      mtCanonical = origin @ pathname, mtSiteName = ''Yorde What Store'', mtType = ''website'', mtPrice = None\<rparr>"

section \<open>Rendering\<close>

record PreviewRequest =
  pvPath :: string
  pvHostSlug :: "string option"
  pvOrigin :: string

definition pathnameOf :: "string \<Rightarrow> string" where
  "pathnameOf path =
     (let p = takeWhile (\<lambda>c. c \<noteq> CHR ''?'' \<and> c \<noteq> CHR ''#'') path in if p = [] then ''/'' else p)"

text \<open>\<open>/^\/store\/([^/]+)(\/.*)?$/\<close>: the name of the store and what follows; the rest is in one line.\<close>

definition storePath :: "string \<Rightarrow> (string \<times> string) option" where
  "storePath pathname =
     (let rest = drop 7 pathname; seg = takeWhile (\<lambda>c. c \<noteq> CHR ''/'') rest; sub = dropWhile (\<lambda>c. c \<noteq> CHR ''/'') rest
      in if startsWith ''/store/'' pathname \<and> seg \<noteq> [] \<and> list_all (\<lambda>c. c \<noteq> CHR 0x0A \<and> c \<noteq> CHR 0x0D) sub
         then Some (seg, if sub = [] then ''/'' else sub) else None)"

text \<open>\<open>/^\/product\/([^/?#]+)/\<close>.\<close>

definition productPath :: "string \<Rightarrow> string option" where
  "productPath subpath =
     (let seg = takeWhile (\<lambda>c. c \<notin> {CHR ''/'', CHR ''?'', CHR ''#''}) (drop 9 subpath)
      in if startsWith ''/product/'' subpath \<and> seg \<noteq> [] then Some seg else None)"

definition malformedUri :: error where
  "malformedUri = InternalError ''URI malformed''"

definition dash :: string where
  "dash = '' '' @ emDash @ '' ''"

definition storeMeta :: "tenant \<Rightarrow> string \<Rightarrow> string \<Rightarrow> PreviewMeta" where
  "storeMeta t origin canonical =
     (let g = tPage t in
      \<lparr>mtTitle = (if truthy (pgTagline g) then tName t @ dash @ the (pgTagline g) else tName t),
       mtDescription = (case truncate200 (pgAbout g) of Some d \<Rightarrow> Some d | None \<Rightarrow> truncate200 (pgTagline g)),
       mtImage = absoluteUrl (case pgBannerUrl g of Some u \<Rightarrow> Some u | None \<Rightarrow> pgLogoUrl g) origin,
       mtCanonical = canonical, mtSiteName = tName t, mtType = ''website'', mtPrice = None\<rparr>)"

definition productMeta :: "db \<Rightarrow> tenant \<Rightarrow> product \<Rightarrow> string \<Rightarrow> string \<Rightarrow> PreviewMeta" where
  "productMeta s t p origin canonical =
     (let g = tPage t; images = filter (\<lambda>m. imProductId m = pId p) (imageTable s);
          cover = (case findFirst imIsCover images of Some m \<Rightarrow> Some m | None \<Rightarrow> (if images = [] then None else Some (hd images)))
      in \<lparr>mtTitle = pName p @ dash @ tName t,
          mtDescription = (case truncate200 (pDescription p) of Some d \<Rightarrow> Some d | None \<Rightarrow> truncate200 (pgTagline g)),
          mtImage = absoluteUrl (case cover of Some m \<Rightarrow> Some (imUrl m)
            | None \<Rightarrow> (case pgBannerUrl g of Some u \<Rightarrow> Some u | None \<Rightarrow> pgLogoUrl g)) origin,
          mtCanonical = canonical, mtSiteName = tName t, mtType = ''product'',
          mtPrice = Some (toFixed2 (dbl (pPrice p)), tCurrency t)\<rparr>)"

text \<open>What becomes of the name of a store, once it is known, and the path within it.\<close>

definition pageMeta ::
  "(string \<Rightarrow> uuid option) \<Rightarrow> db \<Rightarrow> string \<Rightarrow> string \<Rightarrow> string \<Rightarrow> string option \<Rightarrow> PreviewMeta res" where
  "pageMeta parseId s origin pathname subpath slug =
     (if \<not> truthy slug then Inr (fallbackMeta origin pathname)
      else case findFirst (\<lambda>t. Some (tSlug t) = slug \<and> tIsActive t) (tenants s) of
        None \<Rightarrow> Inr (fallbackMeta origin pathname)
      | Some t \<Rightarrow>
          (case productPath subpath of
             None \<Rightarrow> Inr (storeMeta t origin (origin @ pathname))
           | Some seg \<Rightarrow>
               (case decodeURIComponent seg of
                  None \<Rightarrow> Inl malformedUri
                | Some productId \<Rightarrow>
                    (case parseId productId of
                       None \<Rightarrow> Inl databaseError
                     | Some i \<Rightarrow>
                         (case findFirst (\<lambda>p. pId p = i \<and> pTenantId p = tId t \<and> isLive p) (products s) of
                            Some p \<Rightarrow> Inr (productMeta s t p origin (origin @ pathname))
                          | None \<Rightarrow> Inr (storeMeta t origin (origin @ pathname)))))))"

definition previewMeta :: "(string \<Rightarrow> uuid option) \<Rightarrow> db \<Rightarrow> PreviewRequest \<Rightarrow> PreviewMeta res" where
  "previewMeta parseId s rq =
     (let pathname = pathnameOf (pvPath rq)
      in case storePath pathname of
           Some (seg, sub) \<Rightarrow>
             (case decodeURIComponent seg of
                Some t \<Rightarrow> pageMeta parseId s (pvOrigin rq) pathname sub (Some t)
              | None \<Rightarrow> Inl malformedUri)
         | None \<Rightarrow> pageMeta parseId s (pvOrigin rq) pathname pathname (pvHostSlug rq))"

definition renderPreview :: "(string \<Rightarrow> uuid option) \<Rightarrow> db \<Rightarrow> PreviewRequest \<Rightarrow> string res" where
  "renderPreview parseId s rq = map_sum id html (previewMeta parseId s rq)"

section \<open>The request\<close>

text \<open>The headers the controller reads; \<open>qrPath\<close> is missing when the query has none or several.\<close>

record PreviewHttp =
  qrPath :: "string option"
  qrTenantSlug :: "string option"
  qrForwardedProto :: "string option"
  qrForwardedHost :: "string option"
  qrHost :: "string option"
  qrProtocol :: string

definition configuredOrigin :: "env \<Rightarrow> string" where
  "configuredOrigin e =
     stripTrailingSlashes (case ePublicWebUrl e of Some w \<Rightarrow> w
       | None \<Rightarrow> (case eCorsOrigins e of x # _ \<Rightarrow> x | [] \<Rightarrow> []))"

definition trustedOrigin :: "env \<Rightarrow> PreviewHttp \<Rightarrow> string" where
  "trustedOrigin e q =
     (let first = (\<lambda>h. hd (splitOn (CHR '','') h));
          proto = (case qrForwardedProto q of Some h \<Rightarrow> first h | None \<Rightarrow> qrProtocol q);
          host = trim (case qrForwardedHost q of Some h \<Rightarrow> first h | None \<Rightarrow> (case qrHost q of Some h \<Rightarrow> h | None \<Rightarrow> []));
          candidate = proto @ ''://'' @ host; configured = configuredOrigin e
      in if candidate \<in> set (eCorsOrigins e) \<or> candidate = configured then candidate
         else if configured \<noteq> [] then configured else candidate)"

definition previewPage :: "env \<Rightarrow> (string \<Rightarrow> uuid option) \<Rightarrow> db \<Rightarrow> PreviewHttp \<Rightarrow> string res" where
  "previewPage e parseId s q =
     renderPreview parseId s
       \<lparr>pvPath = (case qrPath q of Some p \<Rightarrow> if startsWith ''/'' p then p else ''/'' | None \<Rightarrow> ''/''),
        pvHostSlug = qrTenantSlug q, pvOrigin = trustedOrigin e q\<rparr>"

section \<open>Properties\<close>

text \<open>The characters that make markup out of text.\<close>

definition markup :: "string \<Rightarrow> string" where
  "markup t = filter (\<lambda>c. c \<in> {CHR ''<'', CHR ''>'', CHR 0x22, CHR 0x27}) t"

definition entity :: "char \<Rightarrow> string" where
  "entity c =
     (if c = CHR ''&'' then ''&amp;'' else if c = CHR ''<'' then ''&lt;'' else if c = CHR ''>'' then ''&gt;''
      else if c = CHR 0x22 then ''&quot;'' else if c = CHR 0x27 then ''&#39;'' else [c])"

lemma replaceChar_concat: "replaceChar c r (concat (map f t)) = concat (map (\<lambda>x. replaceChar c r (f x)) t)"
  by (induction t) (simp_all add: replaceChar_def)

text \<open>The five replacements are one pass.\<close>

lemma escapeHtml_entity: "escapeHtml t = concat (map entity t)"
proof -
  have "replaceChar (CHR ''&'') ''&amp;'' t = concat (map (\<lambda>x. if x = CHR ''&'' then ''&amp;'' else [x]) t)"
    by (simp add: replaceChar_def)
  then show ?thesis
    unfolding escapeHtml_def
    by (simp only: replaceChar_concat) (auto simp: replaceChar_def entity_def intro!: arg_cong [of _ _ concat])
qed

lemma markup_append [simp]: "markup (a @ b) = markup a @ markup b"
  by (simp add: markup_def)

lemma markup_escape [simp]: "markup (escapeHtml t) = []"
proof -
  have "markup (entity c) = []" for c by (simp add: entity_def markup_def)
  then show ?thesis unfolding escapeHtml_entity by (induction t) (simp_all add: markup_def)
qed

lemma markup_join: "markup (joinWith newline xs) = concat (map markup xs)"
  by (induction xs rule: induct_list012) (simp_all add: newline_def markup_def)

lemma markup_simps [simp]:
  "markup [] = []"
  "markup (c # t) = (if c \<in> {CHR ''<'', CHR ''>'', CHR 0x22, CHR 0x27} then c # markup t else markup t)"
  by (simp_all add: markup_def)

text \<open>A page of fixed texts, with or without a description, an image and a price.\<close>

definition shape :: "bool \<Rightarrow> bool \<Rightarrow> bool \<Rightarrow> PreviewMeta" where
  "shape d i p =
     \<lparr>mtTitle = ''t'', mtDescription = (if d then Some ''d'' else None), mtImage = (if i then Some ''i'' else None),
      mtCanonical = ''c'', mtSiteName = ''n'', mtType = ''website'', mtPrice = (if p then Some (''1'', ''USD'') else None)\<rparr>"

lemma html_markup:
  assumes "mtType m \<in> {''website'', ''product''}"
  shows "markup (html m) = markup (html (shape (truthy (mtDescription m)) (truthy (mtImage m)) (mtPrice m \<noteq> None)))"
proof -
  have "markup (mtType m) = []" using assms by (auto simp: markup_def)
  then show ?thesis
    unfolding html_def metaTags_def Let_def shape_def attribute_def property_def metaName_def
    by (cases "truthy (mtDescription m)"; cases "truthy (mtImage m)"; cases "mtPrice m")
      (simp_all add: markup_join truthy_def split_def del: joinWith.simps)
qed

lemma pageMeta_type:
  assumes "pageMeta parseId s origin pathname subpath slug = Inr m"
  shows "mtType m \<in> {''website'', ''product''}"
  using assms unfolding pageMeta_def
  by (auto simp: fallbackMeta_def storeMeta_def productMeta_def Let_def split: option.splits if_splits)

lemma rendered_type:
  assumes "previewMeta parseId s rq = Inr m"
  shows "mtType m \<in> {''website'', ''product''}"
  using assms unfolding previewMeta_def Let_def
  by (auto split: option.splits dest: pageMeta_type)

text \<open>What is public: the stores in service and the products on sale.\<close>

definition publicOnly :: "db \<Rightarrow> db" where
  "publicOnly s = s\<lparr>tenants := filter tIsActive (tenants s), products := filter isLive (products s)\<rparr>"

lemma productMeta_public: "productMeta (publicOnly s) t p origin canonical = productMeta s t p origin canonical"
  by (simp add: productMeta_def publicOnly_def)

lemma pageMeta_public:
  "pageMeta parseId (publicOnly s) origin pathname subpath slug = pageMeta parseId s origin pathname subpath slug"
proof -
  have "findFirst (\<lambda>t. Some (tSlug t) = g \<and> tIsActive t) (tenants (publicOnly s))
      = findFirst (\<lambda>t. Some (tSlug t) = g \<and> tIsActive t) (tenants s)" for g
    unfolding publicOnly_def by (simp, rule findFirst_filter) simp
  moreover have "findFirst (\<lambda>p. pId p = i \<and> pTenantId p = k \<and> isLive p) (products (publicOnly s))
      = findFirst (\<lambda>p. pId p = i \<and> pTenantId p = k \<and> isLive p) (products s)" for i k
    unfolding publicOnly_def by (simp, rule findFirst_filter) simp
  ultimately show ?thesis unfolding pageMeta_def productMeta_public by presburger
qed

lemma previewMeta_public: "previewMeta parseId (publicOnly s) rq = previewMeta parseId s rq"
  unfolding previewMeta_def pageMeta_public ..

text \<open>A picture under the origin, or at an address of its own.\<close>

definition pictured :: "string \<Rightarrow> string option \<Rightarrow> bool" where
  "pictured origin x = (case x of None \<Rightarrow> True | Some u \<Rightarrow> startsWith ''http'' u \<or> startsWith (origin @ ''/'') u)"

lemma pictured_absoluteUrl [simp]: "pictured origin (absoluteUrl u origin)"
  by (auto simp: pictured_def absoluteUrl_def startsWith_def prefix_def split: option.split)

lemma meta_links [simp]:
  "mtCanonical (fallbackMeta origin p) = origin @ p" "pictured origin (mtImage (fallbackMeta origin p))"
  "mtCanonical (storeMeta t origin c) = c" "pictured origin (mtImage (storeMeta t origin c))"
  "mtCanonical (productMeta s t x origin c) = c" "pictured origin (mtImage (productMeta s t x origin c))"
  by (simp_all add: fallbackMeta_def storeMeta_def productMeta_def Let_def) (simp add: pictured_def)

lemma pageMeta_links:
  assumes "pageMeta parseId s origin pathname subpath slug = Inr m"
  shows "mtCanonical m = origin @ pathname \<and> pictured origin (mtImage m)"
  using assms unfolding pageMeta_def by (auto split: option.splits if_splits)

lemma previewMeta_links:
  assumes "previewMeta parseId s rq = Inr m"
  shows "mtCanonical m = pvOrigin rq @ pathnameOf (pvPath rq) \<and> pictured (pvOrigin rq) (mtImage m)"
  using assms unfolding previewMeta_def Let_def
  by (auto split: option.splits prod.splits dest: pageMeta_links)

lemma pathnameOf_slash: "startsWith ''/'' p \<Longrightarrow> startsWith ''/'' (pathnameOf p)"
  by (cases p) (auto simp: pathnameOf_def startsWith_def)

text \<open>
  C34: The preview of a link is safe to send to anybody. Whatever a store writes into its name, texts and
  products and whatever the request asks for, the characters that make markup in the page are those of one
  of eight fixed pages, told apart by whether there is a description, an image and a price, so that no text
  of a tenant becomes a tag or leaves its attribute. The page is the one a data base without the stores out
  of service and without the products not on sale gives. Its links go to the trusted origin followed by
  a path that starts with a slash; its picture is under that origin too, unless the store gave an address
  that starts with \<open>http\<close>, which is taken as it is. And where an origin is configured, the trusted
  one is of the configuration, whatever host the request pretends to come from.
\<close>

theorem preview_markup_fixed:
  assumes "previewPage e parseId s q = Inr page"
  shows "(\<exists>d i p. markup page = markup (html (shape d i p)))
    \<and> previewPage e parseId (publicOnly s) q = Inr page
    \<and> (\<exists>m path. page = html m \<and> mtCanonical m = trustedOrigin e q @ path \<and> startsWith ''/'' path
        \<and> pictured (trustedOrigin e q) (mtImage m))
    \<and> (configuredOrigin e \<noteq> [] \<longrightarrow> trustedOrigin e q \<in> insert (configuredOrigin e) (set (eCorsOrigins e)))"
proof -
  let ?path = "case qrPath q of Some p \<Rightarrow> if startsWith ''/'' p then p else ''/'' | None \<Rightarrow> ''/''"
  obtain m where m: "previewMeta parseId s \<lparr>pvPath = ?path, pvHostSlug = qrTenantSlug q, pvOrigin = trustedOrigin e q\<rparr> = Inr m"
      "page = html m"
    using assms unfolding previewPage_def renderPreview_def by (auto simp: map_sum_Inr)
  have "markup page = markup (html (shape (truthy (mtDescription m)) (truthy (mtImage m)) (mtPrice m \<noteq> None)))"
    unfolding m(2) by (rule html_markup [OF rendered_type [OF m(1)]])
  moreover have "previewPage e parseId (publicOnly s) q = Inr page"
    using assms unfolding previewPage_def renderPreview_def previewMeta_public .
  moreover have "startsWith ''/'' (pathnameOf ?path)"
    by (rule pathnameOf_slash) (simp add: startsWith_def split: option.split)
  moreover have "configuredOrigin e \<noteq> [] \<longrightarrow> trustedOrigin e q \<in> insert (configuredOrigin e) (set (eCorsOrigins e))"
    unfolding trustedOrigin_def Let_def by auto
  moreover have "mtCanonical m = trustedOrigin e q @ pathnameOf ?path \<and> pictured (trustedOrigin e q) (mtImage m)"
    using previewMeta_links [OF m(1)] by simp
  ultimately show ?thesis using m(2) by blast
qed

definition request0 :: PreviewHttp where
  "request0 = \<lparr>qrPath = Some ''/store/shop'', qrTenantSlug = None, qrForwardedProto = None,
     qrForwardedHost = Some ''evil'', qrHost = Some ''api'', qrProtocol = ''https''\<rparr>"

lemma preview_markup_fixed_witness:
  "\<exists>page. previewPage env0 Some db0 request0 = Inr page
    \<and> (\<exists>d i p. markup page = markup (html (shape d i p)))"
proof -
  have "\<not> isl (previewPage env0 Some db0 request0)" by code_simp
  then obtain page where p: "previewPage env0 Some db0 request0 = Inr page" by (cases "previewPage env0 Some db0 request0") simp_all
  then show ?thesis using preview_markup_fixed [OF p] by blast
qed

end
