(* ===== verification/Routes.thy ===== *)
theory Routes
  imports AuditTrail "HOL-Library.Multiset"
begin

text \<open>
  The routes of the server: every controller with its decorators, one definition each, and what the
  framework makes of them: which handler a request reaches, the guards it passes, the transaction it
  runs in and the audit row it leaves. A handler is named with the method of the service it calls; what
  the bodies of controllers do beyond that call is not here. A throttle is the number of
  requests a minute, counted by the library.

  The router is the framework's, and \<open>fits\<close> and \<open>dispatch\<close> are what the controllers rely on of it: of the
  handlers of a method the first whose path has as many segments as the request's, each the same or a
  parameter. It differs from the router in three ways that reach no other handler: the router also takes a fixed
  segment in another case of letters, answers \<open>HEAD\<close> with the handler of \<open>GET\<close>, and refuses doubled
  slashes, which are dropped here.
\<close>

section \<open>Decorators\<close>

datatype httpMethod = GET | POST | PUT | PATCH | DELETE

datatype CustomerGuard = NoCustomer | CustomerOptional | CustomerRequired

record Handler =
  hnMethod :: httpMethod
  hnPath :: string
  hnName :: string
  hnCalls :: string
  hnPublic :: bool
  hnRoles :: "AppRole list option"
  hnTenantGuard :: bool
  hnCustomer :: CustomerGuard
  hnAudit :: "AuditOptions option"
  hnThrottle :: "nat option"
  hnSkipScope :: bool
  hnSse :: bool

record Controller =
  ctBase :: string
  ctPublic :: bool
  ctRoles :: "AppRole list option"
  ctTenantGuard :: bool
  ctCustomer :: CustomerGuard
  ctInterceptor :: bool
  ctHandlers :: "Handler list"

text \<open>A handler and a controller without decorators, and \<open>@Audit\<close> with its two fields.\<close>

definition handler :: "httpMethod \<Rightarrow> string \<Rightarrow> string \<Rightarrow> string \<Rightarrow> Handler" where
  "handler m path name calls =
     \<lparr>hnMethod = m, hnPath = path, hnName = name, hnCalls = calls, hnPublic = False, hnRoles = None,
      hnTenantGuard = False, hnCustomer = NoCustomer, hnAudit = None, hnThrottle = None, hnSkipScope = False,
      hnSse = False\<rparr>"

definition controller :: "string \<Rightarrow> Handler list \<Rightarrow> Controller" where
  "controller base hs =
     \<lparr>ctBase = base, ctPublic = False, ctRoles = None, ctTenantGuard = False, ctCustomer = NoCustomer,
      ctInterceptor = False, ctHandlers = hs\<rparr>"

definition audit :: "string \<Rightarrow> string \<Rightarrow> AuditOptions option" where
  "audit action entity =
     Some \<lparr>aoAction = action, aoEntityType = entity, aoParamName = None, aoBody = None, aoInclude = None\<rparr>"

section \<open>The controllers\<close>

definition appController :: Controller where
  "appController =
   (controller ''''
    [(handler GET ''health'' ''health'' ''appService.health'')\<lparr>hnPublic := True\<rparr>,
     (handler GET ''health/strict'' ''strictHealth'' ''appService.health'')\<lparr>hnPublic := True\<rparr>])"

definition auditLogController :: Controller where
  "auditLogController =
   (controller ''platform/audit-logs''
    [handler GET '''' ''list'' ''auditLog.list'',
     handler GET ''actions'' ''listActions'' ''auditLog.listDistinctActions''])\<lparr>ctRoles := Some [Platform SUPER_ADMIN]\<rparr>"

definition authController :: Controller where
  "authController =
   (controller ''auth''
    [(handler POST ''register'' ''register'' ''authService.register'')\<lparr>hnPublic := True,
       hnThrottle := Some 5\<rparr>,
     (handler POST ''login'' ''login'' ''authService.login'')\<lparr>hnPublic := True, hnThrottle := Some 5\<rparr>,
     (handler POST ''2fa/verify'' ''verifyTwoFactor'' ''authService.verifyTwoFactor'')\<lparr>hnPublic := True,
       hnThrottle := Some 5\<rparr>,
     (handler POST ''mobile/refresh'' ''mobileRefresh'' ''authService.mobileRefresh'')\<lparr>hnPublic := True\<rparr>,
     (handler POST ''forgot-password'' ''forgotPassword'' ''authService.forgotPassword'')\<lparr>hnPublic := True,
       hnThrottle := Some 5\<rparr>,
     (handler POST ''reset-password'' ''resetPassword'' ''authService.resetPassword'')\<lparr>hnPublic := True,
       hnThrottle := Some 5\<rparr>,
     (handler POST ''refresh'' ''refresh'' ''authService.refresh'')\<lparr>hnPublic := True\<rparr>,
     handler GET ''me'' ''me'' ''authService.getProfile'',
     handler POST ''logout'' ''logout'' ''authService.logout'',
     handler POST ''switch-tenant'' ''switchTenant'' ''authService.switchTenant'',
     handler POST ''2fa/setup'' ''setupTwoFactor'' ''authService.setupTwoFactor'',
     (handler POST ''2fa/enable'' ''enableTwoFactor'' ''authService.enableTwoFactor'')\<lparr>hnAudit := Some \<lparr>aoAction = ''auth.2fa_enable'', aoEntityType = ''User'', aoParamName = None, aoBody = Some keys, aoInclude = None\<rparr>\<rparr>,
     (handler POST ''2fa/disable'' ''disableTwoFactor'' ''authService.disableTwoFactor'')\<lparr>hnAudit := Some \<lparr>aoAction = ''auth.2fa_disable'', aoEntityType = ''User'', aoParamName = None, aoBody = Some keys, aoInclude = None\<rparr>\<rparr>])\<lparr>ctInterceptor := True\<rparr>"

definition backupsController :: Controller where
  "backupsController =
   (controller ''platform/backups''
    [handler GET '''' ''list'' ''backups.list'',
     (handler POST ''run'' ''run'' ''backups.run'')\<lparr>hnAudit := audit ''backup.run'' ''Backup''\<rparr>,
     (handler POST ''restore'' ''restore'' ''backups.restore'')\<lparr>hnAudit := Some \<lparr>aoAction = ''backup.restore'', aoEntityType = ''Backup'', aoParamName = None, aoBody = Some keys, aoInclude = Some [''key'']\<rparr>\<rparr>])\<lparr>ctRoles := Some [Platform SUPER_ADMIN], ctInterceptor := True\<rparr>"

definition billingController :: Controller where
  "billingController =
   (controller ''billing''
    [(handler GET ''status'' ''status'' ''billingService.status'')\<lparr>hnTenantGuard := True,
       hnRoles := Some [InTenant OWNER]\<rparr>,
     (handler POST ''checkout'' ''createCheckout'' ''billingService.createCheckout'')\<lparr>hnTenantGuard := True,
       hnRoles := Some [InTenant OWNER]\<rparr>,
     (handler POST ''portal'' ''createPortal'' ''billingService.createPortal'')\<lparr>hnTenantGuard := True,
       hnRoles := Some [InTenant OWNER]\<rparr>,
     (handler POST ''stripe/webhook'' ''stripeWebhook'' ''billingService.handleWebhook'')\<lparr>hnPublic := True\<rparr>])"

definition categoryTemplatesController :: Controller where
  "categoryTemplatesController =
   (controller ''platform/category-templates''
    [handler GET '''' ''listAll'' ''categoryTemplatesService.listAll'',
     handler POST '''' ''create'' ''categoryTemplatesService.create'',
     handler PATCH '':id'' ''update'' ''categoryTemplatesService.update'',
     handler DELETE '':id'' ''remove'' ''categoryTemplatesService.remove''])\<lparr>ctRoles := Some [Platform SUPER_ADMIN]\<rparr>"

definition storefrontCouponsController :: Controller where
  "storefrontCouponsController =
   (controller ''storefront/coupons''
    [handler GET '':code/validate'' ''validate'' ''couponsService.validate''])\<lparr>ctPublic := True,
       ctTenantGuard := True\<rparr>"

definition couponsController :: Controller where
  "couponsController =
   (controller ''coupons''
    [(handler POST '''' ''create'' ''couponsService.create'')\<lparr>hnAudit := audit ''coupon.create'' ''Coupon'',
       hnRoles := Some [InTenant OWNER]\<rparr>,
     handler GET '''' ''findAll'' ''couponsService.findAll'',
     handler GET '':id'' ''findOne'' ''couponsService.findOne'',
     (handler PATCH '':id'' ''update'' ''couponsService.update'')\<lparr>hnAudit := audit ''coupon.update'' ''Coupon'', hnRoles := Some [InTenant OWNER]\<rparr>,
     (handler DELETE '':id'' ''remove'' ''couponsService.remove'')\<lparr>hnAudit := audit ''coupon.delete'' ''Coupon'', hnRoles := Some [InTenant OWNER]\<rparr>])\<lparr>ctTenantGuard := True, ctRoles := Some [InTenant OWNER, InTenant STAFF], ctInterceptor := True\<rparr>"

definition adminCustomersController :: Controller where
  "adminCustomersController =
   (controller ''customers''
    [handler GET '''' ''findAll'' ''customersService.findAll'',
     handler GET '':id'' ''findOne'' ''customersService.findOne'',
     (handler POST '':id/anonymize'' ''anonymize'' ''customersService.anonymize'')\<lparr>hnAudit := audit ''customer.anonymize'' ''Customer'', hnRoles := Some [InTenant OWNER]\<rparr>])\<lparr>ctTenantGuard := True, ctRoles := Some [InTenant OWNER, InTenant STAFF], ctInterceptor := True\<rparr>"

definition customersAuthController :: Controller where
  "customersAuthController =
   (controller ''storefront/customers/auth''
    [(handler POST ''register'' ''register'' ''authService.register'')\<lparr>hnThrottle := Some 5\<rparr>,
     (handler POST ''login'' ''login'' ''authService.login'')\<lparr>hnThrottle := Some 5\<rparr>,
     handler POST ''refresh'' ''refresh'' ''authService.refresh'',
     handler POST ''mobile/refresh'' ''mobileRefresh'' ''authService.mobileRefresh'',
     (handler POST ''logout'' ''logout'' ''authService.logout'')\<lparr>hnCustomer := CustomerRequired\<rparr>,
     (handler POST ''forgot-password'' ''forgotPassword'' ''authService.forgotPassword'')\<lparr>hnThrottle := Some 5\<rparr>,
     (handler POST ''reset-password'' ''resetPassword'' ''authService.resetPassword'')\<lparr>hnThrottle := Some 5\<rparr>])\<lparr>ctPublic := True, ctTenantGuard := True\<rparr>"

definition customersController :: Controller where
  "customersController =
   (controller ''storefront/customers''
    [handler GET ''me'' ''me'' ''customersService.getProfile'',
     handler GET ''orders'' ''myOrders'' ''customersService.listMyOrders'',
     handler GET ''orders/:id'' ''myOrder'' ''customersService.getMyOrder'',
     handler DELETE ''me'' ''deleteMe'' ''customersService.anonymize''])\<lparr>ctPublic := True,
       ctTenantGuard := True, ctCustomer := CustomerRequired\<rparr>"

definition dashboardController :: Controller where
  "dashboardController =
   (controller ''dashboard''
    [handler GET ''summary'' ''getSummary'' ''dashboardService.getSummary''])\<lparr>ctTenantGuard := True,
       ctRoles := Some [InTenant OWNER, InTenant STAFF]\<rparr>"

definition devicesController :: Controller where
  "devicesController =
   (controller ''devices''
    [(handler POST '''' ''register'' ''devicesService.register'')\<lparr>hnTenantGuard := True\<rparr>,
     handler DELETE '':token'' ''revoke'' ''devicesService.revoke''])"

definition downloadsController :: Controller where
  "downloadsController =
   (controller ''downloads''
    [(handler GET '':token'' ''download'' ''digital.redeem'')\<lparr>hnThrottle := Some 20\<rparr>])\<lparr>ctPublic := True\<rparr>"

definition digitalController :: Controller where
  "digitalController =
   (controller ''digital''
    [handler GET ''products/:productId/assets'' ''listAssets'' ''digital.listAssets'',
     (handler POST ''products/:productId/assets'' ''uploadAsset'' ''digital.addAsset'')\<lparr>hnAudit := audit ''digital.asset_upload'' ''Product'', hnRoles := Some [InTenant OWNER]\<rparr>,
     (handler DELETE ''products/:productId/assets/:assetId'' ''removeAsset'' ''digital.removeAsset'')\<lparr>hnAudit := audit ''digital.asset_delete'' ''Product'', hnRoles := Some [InTenant OWNER]\<rparr>,
     handler GET ''products/:productId/price-schedule'' ''listSchedule'' ''digital.listSchedule'',
     (handler POST ''products/:productId/price-schedule'' ''addSchedule'' ''digital.addSchedule'')\<lparr>hnAudit := audit ''product.price_schedule_add'' ''Product'', hnRoles := Some [InTenant OWNER]\<rparr>,
     (handler DELETE ''products/:productId/price-schedule/:id'' ''removeSchedule'' ''digital.removeSchedule'')\<lparr>hnAudit := audit ''product.price_schedule_delete'' ''Product'', hnRoles := Some [InTenant OWNER]\<rparr>,
     handler GET ''buyers'' ''listBuyers'' ''digital.listBuyers'',
     (handler GET ''buyers/export'' ''exportBuyers'' ''digital.exportBuyersCsv'')\<lparr>hnAudit := audit ''digital.buyers_export'' ''Order'', hnRoles := Some [InTenant OWNER]\<rparr>,
     (handler POST ''buyers/:orderId/resend'' ''resend'' ''digital.resend'')\<lparr>hnAudit := audit ''digital.delivery_resend'' ''Order''\<rparr>])\<lparr>ctTenantGuard := True, ctRoles := Some [InTenant OWNER, InTenant STAFF], ctInterceptor := True\<rparr>"

definition emailTemplatesController :: Controller where
  "emailTemplatesController =
   (controller ''email-templates''
    [handler GET '''' ''list'' ''service.listResolved'',
     (handler PUT '':key'' ''upsert'' ''service.upsert'')\<lparr>hnAudit := Some \<lparr>aoAction = ''email_template.update'', aoEntityType = ''EmailTemplate'', aoParamName = Some ''key'', aoBody = None, aoInclude = None\<rparr>\<rparr>,
     (handler DELETE '':key'' ''revert'' ''service.revertToDefault'')\<lparr>hnAudit := Some \<lparr>aoAction = ''email_template.revert'', aoEntityType = ''EmailTemplate'', aoParamName = Some ''key'', aoBody = None, aoInclude = None\<rparr>\<rparr>])\<lparr>ctTenantGuard := True, ctRoles := Some [InTenant OWNER], ctInterceptor := True\<rparr>"

definition storefrontShippingController :: Controller where
  "storefrontShippingController =
   (controller ''storefront/shipping''
    [handler GET '''' ''list'' ''service.listShippings''])\<lparr>ctPublic := True, ctTenantGuard := True\<rparr>"

definition locationsController :: Controller where
  "locationsController =
   (controller ''locations''
    [handler GET '''' ''list'' ''service.listLocations'',
     (handler POST '''' ''create'' ''service.createLocation'')\<lparr>hnAudit := audit ''location.create'' ''Location''\<rparr>,
     (handler PATCH '':id'' ''update'' ''service.updateLocation'')\<lparr>hnAudit := audit ''location.update'' ''Location''\<rparr>,
     (handler DELETE '':id'' ''remove'' ''service.removeLocation'')\<lparr>hnAudit := audit ''location.delete'' ''Location''\<rparr>])\<lparr>ctTenantGuard := True, ctRoles := Some [InTenant OWNER, InTenant STAFF], ctInterceptor := True\<rparr>"

definition shippingController :: Controller where
  "shippingController =
   (controller ''shipping''
    [handler GET '''' ''list'' ''service.listShippings'',
     (handler POST '''' ''create'' ''service.createShipping'')\<lparr>hnAudit := audit ''shipping.create'' ''Shipping''\<rparr>,
     (handler PATCH '':id'' ''update'' ''service.updateShipping'')\<lparr>hnAudit := audit ''shipping.update'' ''Shipping''\<rparr>,
     (handler DELETE '':id'' ''remove'' ''service.removeShipping'')\<lparr>hnAudit := audit ''shipping.delete'' ''Shipping''\<rparr>])\<lparr>ctTenantGuard := True, ctRoles := Some [InTenant OWNER, InTenant STAFF], ctInterceptor := True\<rparr>"

definition storefrontOrdersController :: Controller where
  "storefrontOrdersController =
   (controller ''storefront/orders''
    [(handler POST '''' ''create'' ''ordersService.create'')\<lparr>hnThrottle := Some 20\<rparr>,
     handler POST ''quote'' ''quote'' ''ordersService.quote'',
     handler GET '':id/public'' ''findPublic'' ''ordersService.findPublic'',
     handler POST '':id/payment-proof'' ''submitPaymentProof'' ''ordersService.submitPaymentProof'',
     (handler POST '':id/payment-proof-image'' ''submitPaymentProofImage'' ''ordersService.assertAcceptsPaymentProof'')\<lparr>hnThrottle := Some 10\<rparr>])\<lparr>ctPublic := True, ctTenantGuard := True, ctCustomer := CustomerOptional\<rparr>"

definition ordersController :: Controller where
  "ordersController =
   (controller ''orders''
    [handler GET '''' ''findAll'' ''ordersService.findAll'',
     (handler GET ''export'' ''exportCsv'' ''ordersService.exportCsv'')\<lparr>hnAudit := audit ''order.export'' ''Order'', hnRoles := Some [InTenant OWNER]\<rparr>,
     (handler GET ''events'' ''streamEvents'' ''ordersService.streamEvents'')\<lparr>hnSse := True\<rparr>,
     handler GET '':id'' ''findOne'' ''ordersService.findOne'',
     (handler PATCH '':id'' ''update'' ''ordersService.updateDetails'')\<lparr>hnAudit := Some \<lparr>aoAction = ''order.update'', aoEntityType = ''Order'', aoParamName = None, aoBody = Some keys, aoInclude = None\<rparr>\<rparr>,
     (handler DELETE '':id'' ''remove'' ''ordersService.hide'')\<lparr>hnAudit := audit ''order.hide'' ''Order''\<rparr>,
     (handler PATCH '':id/status'' ''updateStatus'' ''ordersService.updateStatus'')\<lparr>hnAudit := audit ''order.status_update'' ''Order''\<rparr>,
     (handler POST '':id/confirm-zelle-payment'' ''confirmZellePayment'' ''ordersService.confirmZellePayment'')\<lparr>hnAudit := audit ''order.zelle_payment_confirm'' ''Order''\<rparr>,
     (handler POST '':id/reject-zelle-payment'' ''rejectZellePayment'' ''ordersService.rejectZellePayment'')\<lparr>hnAudit := audit ''order.zelle_payment_reject'' ''Order''\<rparr>,
     handler GET '':id/invoice'' ''downloadInvoice'' ''ordersService.getInvoiceFile''])\<lparr>ctTenantGuard := True, ctRoles := Some [InTenant OWNER, InTenant STAFF], ctInterceptor := True\<rparr>"

definition storefrontPaymentsController :: Controller where
  "storefrontPaymentsController =
   (controller ''storefront/payments''
    [handler POST ''stripe/checkout'' ''createStripeCheckout'' ''paymentsService.createStripeCheckout'',
     (handler POST ''paypal/checkout'' ''createPayPalCheckout'' ''paymentsService.createPayPalCheckout'')\<lparr>hnSkipScope := True, hnThrottle := Some 20\<rparr>,
     (handler POST ''paypal/capture'' ''capturePayPal'' ''paymentsService.capturePayPalOrder'')\<lparr>hnSkipScope := True, hnThrottle := Some 20\<rparr>,
     handler POST ''mercadopago/checkout'' ''createMercadoPagoCheckout'' ''paymentsService.createMercadoPagoCheckout''])\<lparr>ctPublic := True, ctTenantGuard := True\<rparr>"

definition paymentsController :: Controller where
  "paymentsController =
   (controller ''payments''
    [handler POST ''stripe/webhook'' ''stripeWebhook'' ''paymentsService.handleStripeWebhook'',
     handler POST ''paypal/webhook'' ''paypalWebhook'' ''paymentsService.handlePayPalWebhook'',
     handler POST ''mercadopago/webhook'' ''mercadoPagoWebhook'' ''paymentsService.handleMercadoPagoWebhook''])\<lparr>ctPublic := True\<rparr>"

definition plansController :: Controller where
  "plansController =
   (controller ''plans''
    [(handler GET '''' ''listActive'' ''plansService.listActive'')\<lparr>hnPublic := True\<rparr>,
     (handler GET ''admin/all'' ''listAll'' ''plansService.listAll'')\<lparr>hnRoles := Some [Platform SUPER_ADMIN]\<rparr>,
     (handler POST '''' ''create'' ''plansService.create'')\<lparr>hnAudit := audit ''plan.create'' ''Plan'',
       hnRoles := Some [Platform SUPER_ADMIN]\<rparr>,
     (handler PATCH '':id'' ''update'' ''plansService.update'')\<lparr>hnAudit := audit ''plan.update'' ''Plan'',
       hnRoles := Some [Platform SUPER_ADMIN]\<rparr>,
     (handler DELETE '':id'' ''remove'' ''plansService.remove'')\<lparr>hnAudit := audit ''plan.delete'' ''Plan'',
       hnRoles := Some [Platform SUPER_ADMIN]\<rparr>,
     (handler GET ''admin/upgrade-requests'' ''listUpgradeRequests'' ''plansService.listUpgradeRequests'')\<lparr>hnRoles := Some [Platform SUPER_ADMIN]\<rparr>,
     (handler POST '':id/approve-upgrade'' ''approveUpgrade'' ''plansService.approveUpgrade'')\<lparr>hnAudit := audit ''plan.upgrade_approve'' ''Subscription'', hnRoles := Some [Platform SUPER_ADMIN]\<rparr>,
     (handler POST '':id/reject-upgrade'' ''rejectUpgrade'' ''plansService.rejectUpgrade'')\<lparr>hnAudit := audit ''plan.upgrade_reject'' ''Subscription'', hnRoles := Some [Platform SUPER_ADMIN]\<rparr>,
     (handler GET ''current/subscription'' ''currentSubscription'' ''plansService.currentSubscriptionView'')\<lparr>hnTenantGuard := True, hnRoles := Some [InTenant OWNER]\<rparr>,
     (handler GET ''current/entitlements'' ''currentEntitlements'' ''plansService.getEntitlements'')\<lparr>hnTenantGuard := True, hnRoles := Some [InTenant OWNER, InTenant STAFF]\<rparr>,
     (handler POST ''current/subscribe'' ''subscribe'' ''plansService.subscribe'')\<lparr>hnTenantGuard := True,
       hnRoles := Some [InTenant OWNER]\<rparr>,
     (handler POST ''current/request-upgrade'' ''requestUpgrade'' ''plansService.requestUpgrade'')\<lparr>hnTenantGuard := True, hnRoles := Some [InTenant OWNER]\<rparr>])\<lparr>ctInterceptor := True\<rparr>"

definition platformSettingsController :: Controller where
  "platformSettingsController =
   (controller ''platform/settings''
    [handler GET '''' ''get'' ''service.get'',
     (handler PATCH '''' ''update'' ''service.update'')\<lparr>hnAudit := audit ''platform_settings.update'' ''PlatformSettings''\<rparr>])\<lparr>ctRoles := Some [Platform SUPER_ADMIN], ctInterceptor := True\<rparr>"

definition platformController :: Controller where
  "platformController =
   (controller ''platform''
    [handler GET ''summary'' ''getSummary'' ''platformService.getSummary''])\<lparr>ctRoles := Some [Platform SUPER_ADMIN]\<rparr>"

definition platformProductsController :: Controller where
  "platformProductsController =
   (controller ''platform/products''
    [handler GET '''' ''list'' ''service.list'',
     (handler PATCH '':id/moderate'' ''moderate'' ''service.moderate'')\<lparr>hnAudit := audit ''product.moderate'' ''Product''\<rparr>])\<lparr>ctRoles := Some [Platform SUPER_ADMIN], ctInterceptor := True\<rparr>"

definition platformTenantsController :: Controller where
  "platformTenantsController =
   (controller ''platform/tenants''
    [handler GET '''' ''list'' ''tenantsService.list'',
     handler GET '':id'' ''findOne'' ''tenantsService.findOne'',
     (handler POST '''' ''create'' ''tenantsService.create'')\<lparr>hnAudit := audit ''tenant.create'' ''Tenant'',
       hnThrottle := Some 10\<rparr>,
     (handler PATCH '':id'' ''update'' ''tenantsService.update'')\<lparr>hnAudit := audit ''tenant.update'' ''Tenant''\<rparr>,
     (handler DELETE '':id'' ''remove'' ''tenantsService.softDelete'')\<lparr>hnAudit := audit ''tenant.delete'' ''Tenant''\<rparr>,
     (handler POST '':id/purge'' ''purge'' ''tenantsService.purge'')\<lparr>hnAudit := audit ''tenant.purge'' ''Tenant'', hnThrottle := Some 5\<rparr>,
     (handler POST '':id/suspend'' ''suspend'' ''tenantsService.suspend'')\<lparr>hnAudit := audit ''tenant.suspend'' ''Tenant'', hnThrottle := Some 20\<rparr>,
     (handler POST '':id/activate'' ''activate'' ''tenantsService.activate'')\<lparr>hnAudit := audit ''tenant.activate'' ''Tenant'', hnThrottle := Some 20\<rparr>,
     (handler POST '':id/impersonate'' ''impersonate'' ''tenantsService.impersonate'')\<lparr>hnAudit := audit ''tenant.impersonate'' ''Tenant'', hnThrottle := Some 10\<rparr>,
     (handler POST '':id/send-password-reset'' ''sendOwnerPasswordReset'' ''tenantsService.sendOwnerPasswordReset'')\<lparr>hnAudit := audit ''tenant.owner-password-reset'' ''Tenant'', hnThrottle := Some 10\<rparr>,
     handler GET '':id/members'' ''listMembers'' ''tenantsService.listMembers'',
     handler GET '':id/history'' ''getHistory'' ''tenantsService.getHistory'',
     handler GET '':id/notes'' ''listNotes'' ''tenantsService.listNotes'',
     (handler POST '':id/notes'' ''addNote'' ''tenantsService.addNote'')\<lparr>hnAudit := audit ''tenant.note.create'' ''Tenant''\<rparr>])\<lparr>ctRoles := Some [Platform SUPER_ADMIN], ctInterceptor := True\<rparr>"

definition previewController :: Controller where
  "previewController =
   (controller ''storefront/preview''
    [handler GET '''' ''render'' ''previewService.render''])\<lparr>ctPublic := True\<rparr>"

definition storefrontProductsController :: Controller where
  "storefrontProductsController =
   (controller ''storefront/products''
    [handler GET '''' ''findAll'' ''productsService.findPublished'',
     handler GET '':id'' ''findOne'' ''productsService.findOnePublished''])\<lparr>ctPublic := True,
       ctTenantGuard := True\<rparr>"

definition storefrontCategoriesController :: Controller where
  "storefrontCategoriesController =
   (controller ''storefront/categories''
    [handler GET '''' ''list'' ''productsService.listCategories''])\<lparr>ctPublic := True,
       ctTenantGuard := True\<rparr>"

definition storefrontSitemapController :: Controller where
  "storefrontSitemapController =
   (controller ''storefront''
    [handler GET ''sitemap.xml'' ''sitemap'' ''productsService.listPublishedForSitemap''])\<lparr>ctPublic := True,
       ctTenantGuard := True\<rparr>"

definition productsController :: Controller where
  "productsController =
   (controller ''products''
    [(handler POST '''' ''create'' ''productsService.create'')\<lparr>hnAudit := audit ''product.create'' ''Product''\<rparr>,
     handler GET '''' ''findAll'' ''productsService.findAll'',
     handler GET ''categories'' ''listCategories'' ''productsService.listCategories'',
     (handler POST ''categories'' ''createCategory'' ''productsService.createCategory'')\<lparr>hnAudit := audit ''category.create'' ''ProductCategory''\<rparr>,
     (handler DELETE ''categories/:id'' ''removeCategory'' ''productsService.removeCategory'')\<lparr>hnAudit := audit ''category.delete'' ''ProductCategory''\<rparr>,
     handler GET ''category-templates'' ''listCategoryTemplates'' ''productsService.listCategoryTemplates'',
     (handler POST ''categories/from-template'' ''createCategoryFromTemplate'' ''productsService.createCategoryFromTemplate'')\<lparr>hnAudit := audit ''category.create_from_template'' ''ProductCategory''\<rparr>,
     handler GET ''taxes'' ''listTaxes'' ''productsService.listTaxes'',
     (handler POST ''taxes'' ''createTax'' ''productsService.createTax'')\<lparr>hnAudit := audit ''tax.create'' ''ProductTax''\<rparr>,
     (handler DELETE ''taxes/:id'' ''removeTax'' ''productsService.removeTax'')\<lparr>hnAudit := audit ''tax.delete'' ''ProductTax''\<rparr>,
     handler GET '':id'' ''findOne'' ''productsService.findOne'',
     (handler PATCH '':id'' ''update'' ''productsService.update'')\<lparr>hnAudit := audit ''product.update'' ''Product''\<rparr>,
     (handler DELETE '':id'' ''remove'' ''productsService.remove'')\<lparr>hnAudit := audit ''product.delete'' ''Product''\<rparr>,
     handler POST '':id/images'' ''addImage'' ''productsService.addImage'',
     handler PATCH '':id/images/reorder'' ''reorderImages'' ''productsService.reorderImages'',
     handler DELETE '':id/images/:imageId'' ''removeImage'' ''productsService.removeImage'',
     handler PATCH '':id/images/:imageId/cover'' ''setCoverImage'' ''productsService.setCoverImage''])\<lparr>ctTenantGuard := True, ctRoles := Some [InTenant OWNER, InTenant STAFF], ctInterceptor := True\<rparr>"

definition tenantsController :: Controller where
  "tenantsController =
   (controller ''tenants''
    [(handler GET ''storefront/:slug'' ''getPublicStorefront'' ''tenantsService.findPublicBySlug'')\<lparr>hnPublic := True\<rparr>,
     handler GET ''me'' ''findMine'' ''tenantsService.findMine'',
     (handler GET ''current'' ''findCurrent'' ''tenantsService.findCurrent'')\<lparr>hnTenantGuard := True\<rparr>,
     (handler PATCH ''current'' ''update'' ''tenantsService.update'')\<lparr>hnTenantGuard := True,
       hnRoles := Some [InTenant OWNER], hnAudit := audit ''tenant_settings.update'' ''Tenant''\<rparr>,
     handler POST '''' ''createAdditional'' ''tenantsService.createAdditional'',
     (handler GET ''current/payment-settings'' ''listPaymentSettings'' ''tenantsService.listPaymentSettings'')\<lparr>hnTenantGuard := True, hnRoles := Some [InTenant OWNER]\<rparr>,
     (handler PUT ''current/payment-settings'' ''upsertPaymentSetting'' ''tenantsService.upsertPaymentSetting'')\<lparr>hnTenantGuard := True, hnRoles := Some [InTenant OWNER], hnAudit := audit ''payment_settings.upsert'' ''TenantPaymentSetting''\<rparr>])\<lparr>ctInterceptor := True\<rparr>"

definition uploadsController :: Controller where
  "uploadsController =
   (controller ''uploads''
    [handler POST ''image'' ''uploadImage'' ''saveUploadedImage''])\<lparr>ctTenantGuard := True,
       ctRoles := Some [InTenant OWNER, InTenant STAFF]\<rparr>"

definition usersController :: Controller where
  "usersController =
   (controller ''users''
    [handler GET '''' ''listMembers'' ''usersService.listMembers'',
     (handler POST '''' ''inviteStaff'' ''usersService.inviteStaff'')\<lparr>hnAudit := audit ''staff.invite'' ''TenantMember''\<rparr>,
     (handler PATCH '':id'' ''updateMember'' ''usersService.updateMember'')\<lparr>hnAudit := audit ''staff.update'' ''TenantMember''\<rparr>,
     (handler DELETE '':id'' ''removeMember'' ''usersService.removeMember'')\<lparr>hnAudit := audit ''staff.remove'' ''TenantMember''\<rparr>,
     (handler POST '':id/reset-password'' ''resetMemberPassword'' ''usersService.resetMemberPassword'')\<lparr>hnAudit := audit ''staff.password-reset'' ''TenantMember'', hnThrottle := Some 10\<rparr>])\<lparr>ctTenantGuard := True, ctRoles := Some [InTenant OWNER], ctInterceptor := True\<rparr>"

definition visitsController :: Controller where
  "visitsController =
   (controller ''storefront/visits''
    [handler POST '''' ''create'' ''visitsService.create''])\<lparr>ctPublic := True, ctTenantGuard := True\<rparr>"

definition controllers :: "Controller list" where
  "controllers = [appController, auditLogController, authController, backupsController, billingController,
     categoryTemplatesController, storefrontCouponsController, couponsController, adminCustomersController,
     customersAuthController, customersController, dashboardController, devicesController,
     downloadsController, digitalController, emailTemplatesController, storefrontShippingController,
     locationsController, shippingController, storefrontOrdersController, ordersController,
     storefrontPaymentsController, paymentsController, plansController, platformSettingsController,
     platformController, platformProductsController, platformTenantsController, previewController,
     storefrontProductsController, storefrontCategoriesController, storefrontSitemapController,
     productsController, tenantsController, uploadsController, usersController, visitsController]"

section \<open>What the framework makes of them\<close>

definition entriesOf :: "Controller list \<Rightarrow> (Controller \<times> Handler) list" where
  "entriesOf cs = concat (map (\<lambda>c. map (Pair c) (ctHandlers c)) cs)"

definition segments :: "string \<Rightarrow> string list" where
  "segments path = filter (\<lambda>s. s \<noteq> []) (splitOn (CHR ''/'') path)"

definition pattern :: "Controller \<Rightarrow> Handler \<Rightarrow> string list" where
  "pattern c h = segments (ctBase c) @ segments (hnPath h)"

text \<open>A segment that starts with a colon takes any text, the others their own.\<close>

fun isParam :: "string \<Rightarrow> bool" where
  "isParam (c # t) = (c = CHR '':'')"
| "isParam [] = False"

fun fits :: "string list \<Rightarrow> string list \<Rightarrow> bool" where
  "fits (p # ps) (w # ws) = (if isParam p then fits ps ws else if p = w then fits ps ws else False)"
| "fits [] [] = True"
| "fits [] (w # ws) = False"
| "fits (p # ps) [] = False"

text \<open>The handler of a request: the first that fits, in the order of the controllers.\<close>

definition answers :: "httpMethod \<Rightarrow> string list \<Rightarrow> Controller \<times> Handler \<Rightarrow> bool" where
  "answers m ws e = (hnMethod (snd e) = m \<and> fits (pattern (fst e) (snd e)) ws)"

definition dispatch :: "Controller list \<Rightarrow> httpMethod \<Rightarrow> string \<Rightarrow> (Controller \<times> Handler) option" where
  "dispatch cs m path = findFirst (answers m (segments path)) (entriesOf cs)"

text \<open>\<open>getAllAndOverride\<close>: what the handler says, else what its class says.\<close>

definition routeOf :: "Controller \<Rightarrow> Handler \<Rightarrow> route" where
  "routeOf c h =
     \<lparr>rtPublic = (hnPublic h \<or> ctPublic c), rtRoles = coalesce (hnRoles h) (ctRoles c),
      rtTenantRequired = (ctTenantGuard c \<or> hnTenantGuard h)\<rparr>"

definition customerGuardOf :: "Controller \<Rightarrow> Handler \<Rightarrow> CustomerGuard" where
  "customerGuardOf c h = (if hnCustomer h = NoCustomer then ctCustomer c else hnCustomer h)"

text \<open>The audit decorator does nothing without the interceptor.\<close>

definition auditOf :: "Controller \<Rightarrow> Handler \<Rightarrow> AuditOptions option" where
  "auditOf c h = (if ctInterceptor c then hnAudit h else None)"

text \<open>Whether a request runs in one transaction of its store.\<close>

definition tenantScoped :: "Handler \<Rightarrow> uuid option \<Rightarrow> bool" where
  "tenantScoped h tenantId = (truthy tenantId \<and> \<not> hnSse h \<and> \<not> hnSkipScope h)"

record Admitted =
  adController :: Controller
  adHandler :: Handler
  adTenantId :: "uuid option"
  adUser :: "AuthenticatedUser option"
  adCustomer :: "customer option"

definition admitCustomer :: "authEnv \<Rightarrow> accounts \<Rightarrow> request \<Rightarrow> CustomerGuard \<Rightarrow> customer option res" where
  "admitCustomer a st rq g =
     (case g of
        NoCustomer \<Rightarrow> Inr None
      | CustomerOptional \<Rightarrow> Inr (optionalCustomer a st rq)
      | CustomerRequired \<Rightarrow> map_sum id Some (customerAuthGuard a st rq))"

definition admit :: "authEnv \<Rightarrow> accounts \<Rightarrow> httpMethod \<Rightarrow> request \<Rightarrow> Admitted res" where
  "admit a st m rq =
     (case dispatch controllers m (rqPath rq) of
        None \<Rightarrow> Inl (NotFound ''Cannot find the route'')
      | Some (c, h) \<Rightarrow>
          bind_res (authorize a (acDb st) (routeOf c h) rq) (\<lambda>(tenantId, user).
          bind_res (admitCustomer a st rq (customerGuardOf c h)) (\<lambda>cust.
            Inr \<lparr>adController = c, adHandler = h, adTenantId = tenantId, adUser = user, adCustomer = cust\<rparr>)))"

section \<open>The matrix\<close>

text \<open>
  What a route asks of a request: nothing, a store, a customer's session, a staff account, one used in a
  store, a role in the store, the platform's role.
\<close>

datatype Session = Anyone | Visitor | Shopper | Account | StoreAccount | Staff | Owner | Administrator

definition sessionOf :: "Controller \<Rightarrow> Handler \<Rightarrow> Session" where
  "sessionOf c h =
     (let rt = routeOf c h in
      if rtPublic rt
      then (if \<not> rtTenantRequired rt then Anyone else if customerGuardOf c h = CustomerRequired then Shopper else Visitor)
      else if rtRoles rt = Some [Platform SUPER_ADMIN] then Administrator
      else if \<not> rtTenantRequired rt then Account
      else if rtRoles rt = Some [InTenant OWNER] then Owner
      else if rtRoles rt = Some [InTenant OWNER, InTenant STAFF] then Staff else StoreAccount)"

text \<open>The path of every route, its method, its controller, the session it asks for and what it logs.\<close>

type_synonym row = "string list \<times> httpMethod \<times> string \<times> Session \<times> string option"

definition accessMatrix :: "row list" where
  "accessMatrix = [
     ([''health''], GET, '''', Anyone, None),
     ([''health'', ''strict''], GET, '''', Anyone, None),
     ([''platform'', ''audit-logs''], GET, ''platform/audit-logs'', Administrator, None),
     ([''platform'', ''audit-logs'', ''actions''], GET, ''platform/audit-logs'', Administrator, None),
     ([''auth'', ''register''], POST, ''auth'', Anyone, None),
     ([''auth'', ''login''], POST, ''auth'', Anyone, None),
     ([''auth'', ''2fa'', ''verify''], POST, ''auth'', Anyone, None),
     ([''auth'', ''mobile'', ''refresh''], POST, ''auth'', Anyone, None),
     ([''auth'', ''forgot-password''], POST, ''auth'', Anyone, None),
     ([''auth'', ''reset-password''], POST, ''auth'', Anyone, None),
     ([''auth'', ''refresh''], POST, ''auth'', Anyone, None),
     ([''auth'', ''me''], GET, ''auth'', Account, None),
     ([''auth'', ''logout''], POST, ''auth'', Account, None),
     ([''auth'', ''switch-tenant''], POST, ''auth'', Account, None),
     ([''auth'', ''2fa'', ''setup''], POST, ''auth'', Account, None),
     ([''auth'', ''2fa'', ''enable''], POST, ''auth'', Account, Some ''auth.2fa_enable''),
     ([''auth'', ''2fa'', ''disable''], POST, ''auth'', Account, Some ''auth.2fa_disable''),
     ([''platform'', ''backups''], GET, ''platform/backups'', Administrator, None),
     ([''platform'', ''backups'', ''run''], POST, ''platform/backups'', Administrator, Some ''backup.run''),
     ([''platform'', ''backups'', ''restore''], POST, ''platform/backups'', Administrator, Some ''backup.restore''),
     ([''billing'', ''status''], GET, ''billing'', Owner, None),
     ([''billing'', ''checkout''], POST, ''billing'', Owner, None),
     ([''billing'', ''portal''], POST, ''billing'', Owner, None),
     ([''billing'', ''stripe'', ''webhook''], POST, ''billing'', Anyone, None),
     ([''platform'', ''category-templates''], GET, ''platform/category-templates'', Administrator, None),
     ([''platform'', ''category-templates''], POST, ''platform/category-templates'', Administrator, None),
     ([''platform'', ''category-templates'', '':id''], PATCH, ''platform/category-templates'', Administrator, None),
     ([''platform'', ''category-templates'', '':id''], DELETE, ''platform/category-templates'', Administrator, None),
     ([''storefront'', ''coupons'', '':code'', ''validate''], GET, ''storefront/coupons'', Visitor, None),
     ([''coupons''], POST, ''coupons'', Owner, Some ''coupon.create''),
     ([''coupons''], GET, ''coupons'', Staff, None),
     ([''coupons'', '':id''], GET, ''coupons'', Staff, None),
     ([''coupons'', '':id''], PATCH, ''coupons'', Owner, Some ''coupon.update''),
     ([''coupons'', '':id''], DELETE, ''coupons'', Owner, Some ''coupon.delete''),
     ([''customers''], GET, ''customers'', Staff, None),
     ([''customers'', '':id''], GET, ''customers'', Staff, None),
     ([''customers'', '':id'', ''anonymize''], POST, ''customers'', Owner, Some ''customer.anonymize''),
     ([''storefront'', ''customers'', ''auth'', ''register''], POST, ''storefront/customers/auth'', Visitor, None),
     ([''storefront'', ''customers'', ''auth'', ''login''], POST, ''storefront/customers/auth'', Visitor, None),
     ([''storefront'', ''customers'', ''auth'', ''refresh''], POST, ''storefront/customers/auth'', Visitor, None),
     ([''storefront'', ''customers'', ''auth'', ''mobile'', ''refresh''], POST, ''storefront/customers/auth'', Visitor, None),
     ([''storefront'', ''customers'', ''auth'', ''logout''], POST, ''storefront/customers/auth'', Shopper, None),
     ([''storefront'', ''customers'', ''auth'', ''forgot-password''], POST, ''storefront/customers/auth'', Visitor, None),
     ([''storefront'', ''customers'', ''auth'', ''reset-password''], POST, ''storefront/customers/auth'', Visitor, None),
     ([''storefront'', ''customers'', ''me''], GET, ''storefront/customers'', Shopper, None),
     ([''storefront'', ''customers'', ''orders''], GET, ''storefront/customers'', Shopper, None),
     ([''storefront'', ''customers'', ''orders'', '':id''], GET, ''storefront/customers'', Shopper, None),
     ([''storefront'', ''customers'', ''me''], DELETE, ''storefront/customers'', Shopper, None),
     ([''dashboard'', ''summary''], GET, ''dashboard'', Staff, None),
     ([''devices''], POST, ''devices'', StoreAccount, None),
     ([''devices'', '':token''], DELETE, ''devices'', Account, None),
     ([''downloads'', '':token''], GET, ''downloads'', Anyone, None),
     ([''digital'', ''products'', '':productId'', ''assets''], GET, ''digital'', Staff, None),
     ([''digital'', ''products'', '':productId'', ''assets''], POST, ''digital'', Owner, Some ''digital.asset_upload''),
     ([''digital'', ''products'', '':productId'', ''assets'', '':assetId''], DELETE, ''digital'', Owner, Some ''digital.asset_delete''),
     ([''digital'', ''products'', '':productId'', ''price-schedule''], GET, ''digital'', Staff, None),
     ([''digital'', ''products'', '':productId'', ''price-schedule''], POST, ''digital'', Owner, Some ''product.price_schedule_add''),
     ([''digital'', ''products'', '':productId'', ''price-schedule'', '':id''], DELETE, ''digital'', Owner, Some ''product.price_schedule_delete''),
     ([''digital'', ''buyers''], GET, ''digital'', Staff, None),
     ([''digital'', ''buyers'', ''export''], GET, ''digital'', Owner, Some ''digital.buyers_export''),
     ([''digital'', ''buyers'', '':orderId'', ''resend''], POST, ''digital'', Staff, Some ''digital.delivery_resend''),
     ([''email-templates''], GET, ''email-templates'', Owner, None),
     ([''email-templates'', '':key''], PUT, ''email-templates'', Owner, Some ''email_template.update''),
     ([''email-templates'', '':key''], DELETE, ''email-templates'', Owner, Some ''email_template.revert''),
     ([''storefront'', ''shipping''], GET, ''storefront/shipping'', Visitor, None),
     ([''locations''], GET, ''locations'', Staff, None),
     ([''locations''], POST, ''locations'', Staff, Some ''location.create''),
     ([''locations'', '':id''], PATCH, ''locations'', Staff, Some ''location.update''),
     ([''locations'', '':id''], DELETE, ''locations'', Staff, Some ''location.delete''),
     ([''shipping''], GET, ''shipping'', Staff, None),
     ([''shipping''], POST, ''shipping'', Staff, Some ''shipping.create''),
     ([''shipping'', '':id''], PATCH, ''shipping'', Staff, Some ''shipping.update''),
     ([''shipping'', '':id''], DELETE, ''shipping'', Staff, Some ''shipping.delete''),
     ([''storefront'', ''orders''], POST, ''storefront/orders'', Visitor, None),
     ([''storefront'', ''orders'', ''quote''], POST, ''storefront/orders'', Visitor, None),
     ([''storefront'', ''orders'', '':id'', ''public''], GET, ''storefront/orders'', Visitor, None),
     ([''storefront'', ''orders'', '':id'', ''payment-proof''], POST, ''storefront/orders'', Visitor, None),
     ([''storefront'', ''orders'', '':id'', ''payment-proof-image''], POST, ''storefront/orders'', Visitor, None),
     ([''orders''], GET, ''orders'', Staff, None),
     ([''orders'', ''export''], GET, ''orders'', Owner, Some ''order.export''),
     ([''orders'', ''events''], GET, ''orders'', Staff, None),
     ([''orders'', '':id''], GET, ''orders'', Staff, None),
     ([''orders'', '':id''], PATCH, ''orders'', Staff, Some ''order.update''),
     ([''orders'', '':id''], DELETE, ''orders'', Staff, Some ''order.hide''),
     ([''orders'', '':id'', ''status''], PATCH, ''orders'', Staff, Some ''order.status_update''),
     ([''orders'', '':id'', ''confirm-zelle-payment''], POST, ''orders'', Staff, Some ''order.zelle_payment_confirm''),
     ([''orders'', '':id'', ''reject-zelle-payment''], POST, ''orders'', Staff, Some ''order.zelle_payment_reject''),
     ([''orders'', '':id'', ''invoice''], GET, ''orders'', Staff, None),
     ([''storefront'', ''payments'', ''stripe'', ''checkout''], POST, ''storefront/payments'', Visitor, None),
     ([''storefront'', ''payments'', ''paypal'', ''checkout''], POST, ''storefront/payments'', Visitor, None),
     ([''storefront'', ''payments'', ''paypal'', ''capture''], POST, ''storefront/payments'', Visitor, None),
     ([''storefront'', ''payments'', ''mercadopago'', ''checkout''], POST, ''storefront/payments'', Visitor, None),
     ([''payments'', ''stripe'', ''webhook''], POST, ''payments'', Anyone, None),
     ([''payments'', ''paypal'', ''webhook''], POST, ''payments'', Anyone, None),
     ([''payments'', ''mercadopago'', ''webhook''], POST, ''payments'', Anyone, None),
     ([''plans''], GET, ''plans'', Anyone, None),
     ([''plans'', ''admin'', ''all''], GET, ''plans'', Administrator, None),
     ([''plans''], POST, ''plans'', Administrator, Some ''plan.create''),
     ([''plans'', '':id''], PATCH, ''plans'', Administrator, Some ''plan.update''),
     ([''plans'', '':id''], DELETE, ''plans'', Administrator, Some ''plan.delete''),
     ([''plans'', ''admin'', ''upgrade-requests''], GET, ''plans'', Administrator, None),
     ([''plans'', '':id'', ''approve-upgrade''], POST, ''plans'', Administrator, Some ''plan.upgrade_approve''),
     ([''plans'', '':id'', ''reject-upgrade''], POST, ''plans'', Administrator, Some ''plan.upgrade_reject''),
     ([''plans'', ''current'', ''subscription''], GET, ''plans'', Owner, None),
     ([''plans'', ''current'', ''entitlements''], GET, ''plans'', Staff, None),
     ([''plans'', ''current'', ''subscribe''], POST, ''plans'', Owner, None),
     ([''plans'', ''current'', ''request-upgrade''], POST, ''plans'', Owner, None),
     ([''platform'', ''settings''], GET, ''platform/settings'', Administrator, None),
     ([''platform'', ''settings''], PATCH, ''platform/settings'', Administrator, Some ''platform_settings.update''),
     ([''platform'', ''summary''], GET, ''platform'', Administrator, None),
     ([''platform'', ''products''], GET, ''platform/products'', Administrator, None),
     ([''platform'', ''products'', '':id'', ''moderate''], PATCH, ''platform/products'', Administrator, Some ''product.moderate''),
     ([''platform'', ''tenants''], GET, ''platform/tenants'', Administrator, None),
     ([''platform'', ''tenants'', '':id''], GET, ''platform/tenants'', Administrator, None),
     ([''platform'', ''tenants''], POST, ''platform/tenants'', Administrator, Some ''tenant.create''),
     ([''platform'', ''tenants'', '':id''], PATCH, ''platform/tenants'', Administrator, Some ''tenant.update''),
     ([''platform'', ''tenants'', '':id''], DELETE, ''platform/tenants'', Administrator, Some ''tenant.delete''),
     ([''platform'', ''tenants'', '':id'', ''purge''], POST, ''platform/tenants'', Administrator, Some ''tenant.purge''),
     ([''platform'', ''tenants'', '':id'', ''suspend''], POST, ''platform/tenants'', Administrator, Some ''tenant.suspend''),
     ([''platform'', ''tenants'', '':id'', ''activate''], POST, ''platform/tenants'', Administrator, Some ''tenant.activate''),
     ([''platform'', ''tenants'', '':id'', ''impersonate''], POST, ''platform/tenants'', Administrator, Some ''tenant.impersonate''),
     ([''platform'', ''tenants'', '':id'', ''send-password-reset''], POST, ''platform/tenants'', Administrator, Some ''tenant.owner-password-reset''),
     ([''platform'', ''tenants'', '':id'', ''members''], GET, ''platform/tenants'', Administrator, None),
     ([''platform'', ''tenants'', '':id'', ''history''], GET, ''platform/tenants'', Administrator, None),
     ([''platform'', ''tenants'', '':id'', ''notes''], GET, ''platform/tenants'', Administrator, None),
     ([''platform'', ''tenants'', '':id'', ''notes''], POST, ''platform/tenants'', Administrator, Some ''tenant.note.create''),
     ([''storefront'', ''preview''], GET, ''storefront/preview'', Anyone, None),
     ([''storefront'', ''products''], GET, ''storefront/products'', Visitor, None),
     ([''storefront'', ''products'', '':id''], GET, ''storefront/products'', Visitor, None),
     ([''storefront'', ''categories''], GET, ''storefront/categories'', Visitor, None),
     ([''storefront'', ''sitemap.xml''], GET, ''storefront'', Visitor, None),
     ([''products''], POST, ''products'', Staff, Some ''product.create''),
     ([''products''], GET, ''products'', Staff, None),
     ([''products'', ''categories''], GET, ''products'', Staff, None),
     ([''products'', ''categories''], POST, ''products'', Staff, Some ''category.create''),
     ([''products'', ''categories'', '':id''], DELETE, ''products'', Staff, Some ''category.delete''),
     ([''products'', ''category-templates''], GET, ''products'', Staff, None),
     ([''products'', ''categories'', ''from-template''], POST, ''products'', Staff, Some ''category.create_from_template''),
     ([''products'', ''taxes''], GET, ''products'', Staff, None),
     ([''products'', ''taxes''], POST, ''products'', Staff, Some ''tax.create''),
     ([''products'', ''taxes'', '':id''], DELETE, ''products'', Staff, Some ''tax.delete''),
     ([''products'', '':id''], GET, ''products'', Staff, None),
     ([''products'', '':id''], PATCH, ''products'', Staff, Some ''product.update''),
     ([''products'', '':id''], DELETE, ''products'', Staff, Some ''product.delete''),
     ([''products'', '':id'', ''images''], POST, ''products'', Staff, None),
     ([''products'', '':id'', ''images'', ''reorder''], PATCH, ''products'', Staff, None),
     ([''products'', '':id'', ''images'', '':imageId''], DELETE, ''products'', Staff, None),
     ([''products'', '':id'', ''images'', '':imageId'', ''cover''], PATCH, ''products'', Staff, None),
     ([''tenants'', ''storefront'', '':slug''], GET, ''tenants'', Anyone, None),
     ([''tenants'', ''me''], GET, ''tenants'', Account, None),
     ([''tenants'', ''current''], GET, ''tenants'', StoreAccount, None),
     ([''tenants'', ''current''], PATCH, ''tenants'', Owner, Some ''tenant_settings.update''),
     ([''tenants''], POST, ''tenants'', Account, None),
     ([''tenants'', ''current'', ''payment-settings''], GET, ''tenants'', Owner, None),
     ([''tenants'', ''current'', ''payment-settings''], PUT, ''tenants'', Owner, Some ''payment_settings.upsert''),
     ([''uploads'', ''image''], POST, ''uploads'', Staff, None),
     ([''users''], GET, ''users'', Owner, None),
     ([''users''], POST, ''users'', Owner, Some ''staff.invite''),
     ([''users'', '':id''], PATCH, ''users'', Owner, Some ''staff.update''),
     ([''users'', '':id''], DELETE, ''users'', Owner, Some ''staff.remove''),
     ([''users'', '':id'', ''reset-password''], POST, ''users'', Owner, Some ''staff.password-reset''),
     ([''storefront'', ''visits''], POST, ''storefront/visits'', Visitor, None)]"

definition rowOfEntry :: "Controller \<times> Handler \<Rightarrow> row" where
  "rowOfEntry e =
     (pattern (fst e) (snd e), hnMethod (snd e), ctBase (fst e), sessionOf (fst e) (snd e),
      map_option aoAction (auditOf (fst e) (snd e)))"

lemmas controller_defs =
  appController_def auditLogController_def authController_def backupsController_def billingController_def
  categoryTemplatesController_def storefrontCouponsController_def couponsController_def
  adminCustomersController_def customersAuthController_def customersController_def dashboardController_def
  devicesController_def downloadsController_def digitalController_def emailTemplatesController_def
  storefrontShippingController_def locationsController_def shippingController_def storefrontOrdersController_def
  ordersController_def storefrontPaymentsController_def paymentsController_def plansController_def
  platformSettingsController_def platformController_def platformProductsController_def
  platformTenantsController_def previewController_def storefrontProductsController_def
  storefrontCategoriesController_def storefrontSitemapController_def productsController_def
  tenantsController_def uploadsController_def usersController_def visitsController_def

lemmas decorator_defs =
  handler_def controller_def routeOf_def customerGuardOf_def auditOf_def audit_def

text \<open>The matrix is that of the controllers.\<close>

lemma matrix_of_controllers: "map rowOfEntry (entriesOf controllers) = accessMatrix"
  by (simp add: controllers_def controller_defs decorator_defs entriesOf_def pattern_def segments_def
      rowOfEntry_def sessionOf_def accessMatrix_def)

lemma row_in_matrix: "e \<in> set (entriesOf controllers) \<Longrightarrow> rowOfEntry e \<in> set accessMatrix"
  unfolding matrix_of_controllers [symmetric] by simp

text \<open>The row of a method and the path of a route.\<close>

definition matrixRow :: "httpMethod \<Rightarrow> string list \<Rightarrow> row option" where
  "matrixRow m ps = findFirst (\<lambda>(ps', m', _). ps' = ps \<and> m' = m) accessMatrix"

section \<open>Reaching a handler\<close>

definition baseOf :: "Controller \<Rightarrow> string list" where
  "baseOf c = segments (ctBase c)"

lemma bases:
  "baseOf appController = []"
  "baseOf auditLogController = [''platform'', ''audit-logs'']"
  "baseOf authController = [''auth'']"
  "baseOf backupsController = [''platform'', ''backups'']"
  "baseOf billingController = [''billing'']"
  "baseOf categoryTemplatesController = [''platform'', ''category-templates'']"
  "baseOf storefrontCouponsController = [''storefront'', ''coupons'']"
  "baseOf couponsController = [''coupons'']"
  "baseOf adminCustomersController = [''customers'']"
  "baseOf customersAuthController = [''storefront'', ''customers'', ''auth'']"
  "baseOf customersController = [''storefront'', ''customers'']"
  "baseOf dashboardController = [''dashboard'']"
  "baseOf devicesController = [''devices'']"
  "baseOf downloadsController = [''downloads'']"
  "baseOf digitalController = [''digital'']"
  "baseOf emailTemplatesController = [''email-templates'']"
  "baseOf storefrontShippingController = [''storefront'', ''shipping'']"
  "baseOf locationsController = [''locations'']"
  "baseOf shippingController = [''shipping'']"
  "baseOf storefrontOrdersController = [''storefront'', ''orders'']"
  "baseOf ordersController = [''orders'']"
  "baseOf storefrontPaymentsController = [''storefront'', ''payments'']"
  "baseOf paymentsController = [''payments'']"
  "baseOf plansController = [''plans'']"
  "baseOf platformSettingsController = [''platform'', ''settings'']"
  "baseOf platformController = [''platform'']"
  "baseOf platformProductsController = [''platform'', ''products'']"
  "baseOf platformTenantsController = [''platform'', ''tenants'']"
  "baseOf previewController = [''storefront'', ''preview'']"
  "baseOf storefrontProductsController = [''storefront'', ''products'']"
  "baseOf storefrontCategoriesController = [''storefront'', ''categories'']"
  "baseOf storefrontSitemapController = [''storefront'']"
  "baseOf productsController = [''products'']"
  "baseOf tenantsController = [''tenants'']"
  "baseOf uploadsController = [''uploads'']"
  "baseOf usersController = [''users'']"
  "baseOf visitsController = [''storefront'', ''visits'']"
  by (simp_all add: baseOf_def controller_defs controller_def segments_def)

lemma fits_append:
  "fits (ps @ qs) ws \<Longrightarrow> \<forall>p \<in> set ps. \<not> isParam p \<Longrightarrow> \<exists>rest. ws = ps @ rest \<and> fits qs rest"
proof (induction ps arbitrary: ws)
  case (Cons p ps)
  then show ?case by (cases ws) (auto split: if_splits)
qed simp

lemma fits_refl: "fits ps ps"
  by (induction ps) auto

text \<open>
  A controller whose base starts another's: what its handlers have next is fixed and differs from what the
  other's base has.
\<close>

fun opensWithout :: "string \<Rightarrow> string list \<Rightarrow> bool" where
  "opensWithout e [] = False"
| "opensWithout e (w # ws) = (\<not> isParam w \<and> w \<noteq> e)"

definition branches :: "Controller \<Rightarrow> Controller \<Rightarrow> bool" where
  "branches c d =
     (if baseOf c = baseOf d then True
      else if take (length (baseOf c)) (baseOf d) = baseOf c
      then list_all (\<lambda>h. opensWithout (baseOf d ! length (baseOf c)) (segments (hnPath h))) (ctHandlers c)
      else True)"

lemma controllers_branch: "list_all (\<lambda>c. list_all (branches c) controllers) controllers"
  unfolding controllers_def branches_def
  by (simp add: bases, simp add: appController_def platformController_def storefrontSitemapController_def
      customersController_def controller_def handler_def segments_def)

lemma bases_fixed: "list_all (\<lambda>c. list_all (\<lambda>p. \<not> isParam p) (baseOf c)) controllers"
  by (simp add: controllers_def bases)

lemma bases_distinct: "distinct (map baseOf controllers)"
  by (simp add: controllers_def bases)

text \<open>No request fits the routes of two controllers.\<close>

lemma opensWithout_clash:
  assumes "fits ps (w # ws)" and "opensWithout w ps"
  shows False
  using assms by (cases ps) auto

lemma one_base:
  assumes "c \<in> set controllers" "d \<in> set controllers" "h \<in> set (ctHandlers c)" "k \<in> set (ctHandlers d)"
    and "fits (pattern c h) ws" "fits (pattern d k) ws" and "length (baseOf c) \<le> length (baseOf d)"
  shows "baseOf c = baseOf d"
proof (rule ccontr)
  assume ne: "baseOf c \<noteq> baseOf d"
  have fixed: "\<forall>p \<in> set (baseOf c). \<not> isParam p" "\<forall>p \<in> set (baseOf d). \<not> isParam p"
    using bases_fixed assms(1,2) by (auto simp: list_all_iff)
  obtain r where r: "ws = baseOf c @ r" "fits (segments (hnPath h)) r"
    using fits_append [OF _ fixed(1)] assms(5) unfolding pattern_def baseOf_def by blast
  obtain r' where r': "ws = baseOf d @ r'"
    using fits_append [OF _ fixed(2)] assms(6) unfolding pattern_def baseOf_def by blast
  have pre: "take (length (baseOf c)) (baseOf d) = baseOf c"
    using r(1) r' assms(7) by (metis append_eq_conv_conj append_eq_append_conv_if)
  then have lt: "length (baseOf c) < length (baseOf d)"
    using ne assms(7) by (metis le_neq_implies_less take_all_iff le_refl)
  have "branches c d" using controllers_branch assms(1,2) by (auto simp: list_all_iff)
  then have "opensWithout (baseOf d ! length (baseOf c)) (segments (hnPath h))"
    using ne pre assms(3) by (auto simp: branches_def list_all_iff)
  moreover have "r = (baseOf d ! length (baseOf c)) # (drop (Suc (length (baseOf c))) (baseOf d) @ r')"
    using r(1) r' pre lt by (metis Cons_nth_drop_Suc append.assoc append_Cons append_same_eq append_take_drop_id same_append_eq)
  ultimately show False using opensWithout_clash r(2) by metis
qed

lemma one_controller:
  assumes "(c, h) \<in> set (entriesOf controllers)" "(d, k) \<in> set (entriesOf controllers)"
    and "answers m ws (c, h)" "answers m ws (d, k)"
  shows "c = d"
proof -
  have mem: "c \<in> set controllers" "d \<in> set controllers" "h \<in> set (ctHandlers c)" "k \<in> set (ctHandlers d)"
    using assms(1,2) by (auto simp: entriesOf_def)
  have "baseOf c = baseOf d"
    using one_base [OF mem] one_base [OF mem(2,1,4,3)] assms(3,4) by (auto simp: answers_def) (metis nle_le)
  then show ?thesis using bases_distinct mem(1,2) by (auto simp: distinct_map dest: inj_onD)
qed

text \<open>Within a controller no handler hides a later one.\<close>

fun pairwise :: "('a \<Rightarrow> 'a \<Rightarrow> bool) \<Rightarrow> 'a list \<Rightarrow> bool" where
  "pairwise R [] = True"
| "pairwise R (x # xs) = (list_all (R x) xs \<and> pairwise R xs)"

definition clear :: "Handler \<Rightarrow> Handler \<Rightarrow> bool" where
  "clear h k = (if hnMethod h = hnMethod k then \<not> fits (segments (hnPath h)) (segments (hnPath k)) else True)"

lemma handlers_clear: "list_all (\<lambda>c. pairwise clear (ctHandlers c)) controllers"
  by (simp add: controllers_def controller_defs controller_def handler_def clear_def segments_def)

lemma findFirst_pairwise:
  assumes "pairwise R xs" "x \<in> set xs" "P x" and "\<And>y. R y x \<Longrightarrow> \<not> P y"
  shows "findFirst P xs = Some x"
  using assms(1-3)
proof (induction xs)
  case (Cons y ys)
  then show ?case using assms(4) by (auto simp: list_all_iff)
qed simp

lemma findFirst_concat:
  assumes "\<And>c d x y. c \<in> set cs \<Longrightarrow> d \<in> set cs \<Longrightarrow> x \<in> set (f c) \<Longrightarrow> y \<in> set (f d) \<Longrightarrow> P x \<Longrightarrow> P y \<Longrightarrow> c = d"
  shows "findFirst P (concat (map f cs)) = Some x \<longleftrightarrow> (\<exists>c \<in> set cs. findFirst P (f c) = Some x)"
  using assms
proof (induction cs)
  case (Cons c cs)
  have IH: "findFirst P (concat (map f cs)) = Some x \<longleftrightarrow> (\<exists>c \<in> set cs. findFirst P (f c) = Some x)"
    by (rule Cons.IH) (use Cons.prems in auto)
  have alone: "findFirst P (f d) = Some y \<Longrightarrow> d \<in> set cs \<Longrightarrow> findFirst P (f c) = Some z \<Longrightarrow> d = c" for d y z
    using Cons.prems [of d c y z] by (auto dest!: findFirst_SomeD)
  show ?case
    unfolding list.map concat.simps findFirst_append
    by (cases "findFirst P (f c)") (use IH alone in auto)
qed simp

lemma dispatch_Some:
  assumes "mset cs = mset controllers"
  shows "dispatch cs m path = Some e
    \<longleftrightarrow> (\<exists>c \<in> set controllers. findFirst (answers m (segments path)) (map (Pair c) (ctHandlers c)) = Some e)"
proof -
  have cs: "set cs = set controllers" using assms by (metis set_mset_mset)
  have "c = d" if in_cs: "c \<in> set cs" "d \<in> set cs" "x \<in> set (map (Pair c) (ctHandlers c))" "y \<in> set (map (Pair d) (ctHandlers d))"
      "answers m ws x" "answers m ws y" for c d x y ws
  proof -
    obtain h k where hk: "x = (c, h)" "y = (d, k)" using in_cs(3,4) by auto
    then have "(c, h) \<in> set (entriesOf controllers)" "(d, k) \<in> set (entriesOf controllers)"
      using in_cs(1-4) cs hk by (auto simp: entriesOf_def)
    then show ?thesis using one_controller in_cs(5,6) hk by blast
  qed
  then show ?thesis
    unfolding dispatch_def entriesOf_def cs [symmetric] by (rule findFirst_concat)
qed

lemma option_ext: "(\<And>e. x = Some e \<longleftrightarrow> y = Some e) \<Longrightarrow> x = y"
  by (cases x; cases y) auto

lemma findFirst_map: "findFirst P (map f xs) = map_option f (findFirst (\<lambda>x. P (f x)) xs)"
  by (induction xs) auto

lemma own_path:
  assumes "mset cs = mset controllers" and "(c, h) \<in> set (entriesOf controllers)"
  shows "dispatch cs (hnMethod h) (ctBase c @ ''/'' @ hnPath h) = Some (c, h)"
proof -
  have mem: "c \<in> set controllers" "h \<in> set (ctHandlers c)"
    using assms(2) by (auto simp: entriesOf_def)
  have fixed: "\<forall>p \<in> set (baseOf c). \<not> isParam p" using bases_fixed mem(1) by (auto simp: list_all_iff)
  have "findFirst (\<lambda>k. answers (hnMethod h) (pattern c h) (c, k)) (ctHandlers c) = Some h"
  proof (rule findFirst_pairwise)
    show "pairwise clear (ctHandlers c)" using handlers_clear mem(1) by (auto simp: list_all_iff)
    show "answers (hnMethod h) (pattern c h) (c, h)" by (simp add: answers_def fits_refl)
    fix k assume k: "clear k h"
    show "\<not> answers (hnMethod h) (pattern c h) (c, k)"
    proof
      assume "answers (hnMethod h) (pattern c h) (c, k)"
      then have "hnMethod k = hnMethod h" "fits (baseOf c @ segments (hnPath k)) (baseOf c @ segments (hnPath h))"
        by (simp_all add: answers_def pattern_def baseOf_def)
      then show False using fits_append [OF _ fixed] k by (auto simp: clear_def)
    qed
  qed (rule mem(2))
  then have "findFirst (answers (hnMethod h) (pattern c h)) (map (Pair c) (ctHandlers c)) = Some (c, h)"
    by (simp add: findFirst_map)
  moreover have "segments (ctBase c @ ''/'' @ hnPath h) = pattern c h"
    by (simp add: segments_def pattern_def splitOn_append)
  ultimately show ?thesis using dispatch_Some [OF assms(1)] mem(1) by auto
qed

text \<open>
  C37: A request reaches one handler, and every handler can be reached. The paths of two controllers have no
  request in common, so the order in which the framework registers the controllers does not matter; and no
  handler of a controller hides a later one: each answers the request that spells its own path.
\<close>

theorem routes_unambiguous:
  assumes "mset cs = mset controllers" and "(c, h) \<in> set (entriesOf controllers)"
  shows "dispatch cs m path = dispatch controllers m path
    \<and> dispatch cs (hnMethod h) (ctBase c @ ''/'' @ hnPath h) = Some (c, h)"
proof
  show "dispatch cs m path = dispatch controllers m path"
    by (rule option_ext) (simp only: dispatch_Some [OF assms(1)] dispatch_Some [OF refl])
qed (rule own_path [OF assms])

lemma routes_unambiguous_witness:
  "dispatch (rev controllers) GET ''orders/export'' = dispatch controllers GET ''orders/export''
    \<and> (\<exists>h. dispatch (rev controllers) POST ''platform/backups/restore'' = Some (backupsController, h))"
proof -
  let ?h = "(handler POST ''restore'' ''restore'' ''backups.restore'')\<lparr>hnAudit := Some \<lparr>aoAction = ''backup.restore'',
      aoEntityType = ''Backup'', aoParamName = None, aoBody = Some keys, aoInclude = Some [''key'']\<rparr>\<rparr>"
  have "(backupsController, ?h) \<in> set (entriesOf controllers)"
    by (simp add: entriesOf_def controllers_def backupsController_def controller_def)
  moreover have "mset (rev controllers) = mset controllers" by simp
  ultimately show ?thesis
    using routes_unambiguous [of "rev controllers" backupsController ?h GET "''orders/export''"]
    by (auto simp: backupsController_def controller_def handler_def)
qed

text \<open>No two routes share a method and a path, so the row of a handler is its own.\<close>

lemma own_row:
  assumes "(c, h) \<in> set (entriesOf controllers)"
  shows "matrixRow (hnMethod h) (pattern c h) = Some (rowOfEntry (c, h))"
proof -
  let ?P = "\<lambda>(ps', m', _ :: string \<times> Session \<times> string option). ps' = pattern c h \<and> m' = hnMethod h"
  have "\<exists>r. findFirst ?P accessMatrix = Some r"
    unfolding findFirst_Some_ex by (rule bexI [OF _ row_in_matrix [OF assms]]) (simp add: rowOfEntry_def)
  then obtain r where r: "findFirst ?P accessMatrix = Some r" by blast
  then have "r \<in> rowOfEntry ` set (entriesOf controllers)" "?P r"
    using findFirst_SomeD [OF r] matrix_of_controllers by (metis list.set_map)+
  then obtain c' h' where e: "(c', h') \<in> set (entriesOf controllers)" "r = rowOfEntry (c', h')"
      "pattern c' h' = pattern c h" "hnMethod h' = hnMethod h"
    by (auto simp: rowOfEntry_def)
  have seg: "segments (ctBase c @ ''/'' @ hnPath h) = segments (ctBase c' @ ''/'' @ hnPath h')"
    using e(3) by (simp add: segments_def pattern_def splitOn_append)
  have "(c', h') = (c, h)"
    using own_path [OF refl assms] own_path [OF refl e(1)] unfolding dispatch_def seg e(4) by simp
  then show ?thesis using r e(2) by (simp add: matrixRow_def)
qed

section \<open>What an admitted request has proved\<close>

definition activeStore :: "db \<Rightarrow> uuid option \<Rightarrow> bool" where
  "activeStore s tn = (\<exists>t \<in> set (tenants s). tIsActive t \<and> tn = Some (tId t))"

text \<open>An active account with a token that verifies and is no challenge.\<close>

definition liveSession ::
    "authEnv \<Rightarrow> db \<Rightarrow> request \<Rightarrow> AuthenticatedUser option \<Rightarrow> user \<Rightarrow> JwtPayload \<Rightarrow> bool" where
  "liveSession a s rq au u p =
     (u \<in> set (users s) \<and> uIsActive u \<and> map_option auId au = Some (uId u)
      \<and> Option.bind (requestToken rq) (aeVerifyAccess a) = Some p \<and> jpSub p = uId u \<and> \<not> truthy (jpPurpose p))"

text \<open>
  The session is one of the platform, or one of this store by a live membership or by impersonation, with one
  of these roles.
\<close>

definition inRole :: "db \<Rightarrow> user \<Rightarrow> JwtPayload \<Rightarrow> uuid option \<Rightarrow> TenantMemberRole list \<Rightarrow> bool" where
  "inRole s u p tn roles =
     (uGlobalRole u = SUPER_ADMIN
      \<or> jpTenantId p = tn
        \<and> (if truthy (jpImpersonatedBy p) then (\<exists>r \<in> set roles. jpTenantRole p = Some r)
           else (\<exists>m \<in> set (members s). tmUserId m = uId u \<and> Some (tmTenantId m) = tn \<and> tmIsActive m
                   \<and> tmRole m \<in> set roles)))"

text \<open>The same for a store's route that asks for no role.\<close>

definition inStore :: "db \<Rightarrow> user \<Rightarrow> JwtPayload \<Rightarrow> uuid option \<Rightarrow> bool" where
  "inStore s u p tn =
     (uGlobalRole u = SUPER_ADMIN
      \<or> jpTenantId p = tn
        \<and> (truthy (jpImpersonatedBy p)
           \<or> (\<exists>m \<in> set (members s). tmUserId m = uId u \<and> Some (tmTenantId m) = tn \<and> tmIsActive m)))"

text \<open>A customer with a token that verifies and was made for one, of the store the token names.\<close>

definition customerSession :: "authEnv \<Rightarrow> accounts \<Rightarrow> request \<Rightarrow> customer option \<Rightarrow> bool" where
  "customerSession a st rq cu =
     (\<exists>p. Option.bind (rqBearer rq) (aeVerifyCustomerAccess a) = Some p \<and> cjType p = ''customer''
      \<and> (\<exists>c \<in> set (acCustomers st). cuId c = cjSub p \<and> cuTenantId c = cjTenantId p \<and> cu = Some (sanitizeCustomer c)))"

fun grants ::
    "authEnv \<Rightarrow> accounts \<Rightarrow> request \<Rightarrow> Session \<Rightarrow> uuid option \<Rightarrow> AuthenticatedUser option \<Rightarrow> customer option \<Rightarrow> bool" where
  "grants a st rq Anyone tn au cu = (au = None)"
| "grants a st rq Visitor tn au cu = (au = None \<and> activeStore (acDb st) tn)"
| "grants a st rq Shopper tn au cu =
     (au = None \<and> activeStore (acDb st) tn \<and> customerSession a st rq cu)"
| "grants a st rq Account tn au cu = (\<exists>u p. liveSession a (acDb st) rq au u p)"
| "grants a st rq StoreAccount tn au cu =
     (activeStore (acDb st) tn
      \<and> (\<exists>u p. liveSession a (acDb st) rq au u p \<and> inStore (acDb st) u p tn))"
| "grants a st rq Staff tn au cu =
     (activeStore (acDb st) tn
      \<and> (\<exists>u p. liveSession a (acDb st) rq au u p \<and> inRole (acDb st) u p tn [OWNER, STAFF]))"
| "grants a st rq Owner tn au cu =
     (activeStore (acDb st) tn \<and> (\<exists>u p. liveSession a (acDb st) rq au u p \<and> inRole (acDb st) u p tn [OWNER]))"
| "grants a st rq Administrator tn au cu =
     (\<exists>u p. liveSession a (acDb st) rq au u p \<and> uGlobalRole u = SUPER_ADMIN)"

lemma authorize_public:
  assumes "authorize a s rt rq = Inr (tn, au)" "rtPublic rt"
  shows "au = None"
  using authorize_InrD(2) [OF assms(1)] assms(2) by (simp add: jwtAuthGuard_def)

lemma authorize_active: "authorize a s rt rq = Inr (tn, au) \<Longrightarrow> rtTenantRequired rt \<Longrightarrow> activeStore s tn"
  unfolding activeStore_def by (metis authorize_store)

lemma authorize_member:
  assumes "authorize a s rt rq = Inr (tn, au)" "\<not> rtPublic rt" "rtTenantRequired rt"
  obtains w u p where "au = Some w" "rolesGuard rt (Some w) = Inr ()" "liveSession a s rq au u p"
    "auGlobalRole w = uGlobalRole u" "\<And>r. auTenantRole w = Some r \<Longrightarrow> inRole s u p tn [r]"
proof -
  obtain u w raw p where w: "au = Some w" "rolesGuard rt (Some w) = Inr ()"
      and u: "u \<in> set (users s)" "uIsActive u" "auId w = uId u" "auGlobalRole w = uGlobalRole u"
      and token: "requestToken rq = Some raw" "aeVerifyAccess a raw = Some p" "jpSub p = uId u" "\<not> truthy (jpPurpose p)"
      and own: "truthy tn \<longrightarrow> uGlobalRole u = SUPER_ADMIN \<or> jpTenantId p = tn"
      and role: "if truthy (jpTenantId p) \<and> \<not> truthy (jpImpersonatedBy p)
        then \<exists>m \<in> set (members s). tmUserId m = uId u \<and> Some (tmTenantId m) = jpTenantId p \<and> tmIsActive m
          \<and> auTenantRole w = Some (tmRole m)
        else auTenantRole w = jpTenantRole p"
    by (rule authorize_account [OF assms(1,2)], rule that)
  have tn: "truthy tn" using authorize_store [OF assms(1,3)] by blast
  have "inRole s u p tn [r]" if r: "auTenantRole w = Some r" for r
    using own tn role r unfolding inRole_def by (cases "truthy (jpImpersonatedBy p)") auto
  moreover have "liveSession a s rq au u p" using w(1) u token unfolding liveSession_def by simp
  ultimately show ?thesis using that w u(4) by blast
qed

lemma authorize_role:
  assumes "authorize a s rt rq = Inr (tn, au)" "\<not> rtPublic rt" "rtTenantRequired rt"
    and "rtRoles rt = Some (map InTenant roles)" "roles \<noteq> []"
  shows "\<exists>u p. liveSession a s rq au u p \<and> inRole s u p tn roles"
proof -
  obtain w u p where w: "rolesGuard rt (Some w) = Inr ()" and live: "liveSession a s rq au u p"
      and role: "\<And>r. auTenantRole w = Some r \<Longrightarrow> inRole s u p tn [r]"
    by (rule authorize_member [OF assms(1-3)], rule that)
  have "set (map InTenant roles) \<subseteq> {InTenant OWNER, InTenant STAFF}"
    using TenantMemberRole.exhaust by auto
  then obtain r where r: "auTenantRole w = Some r" "r \<in> set roles"
    using rolesGuard_member [OF w assms(4)] assms(5) by auto
  have "inRole s u p tn roles" using role [OF r(1)] r(2) by (auto simp: inRole_def split: if_splits)
  then show ?thesis using live by blast
qed

lemma authorize_live:
  assumes "authorize a s rt rq = Inr (tn, au)" "\<not> rtPublic rt"
  shows "\<exists>u p. liveSession a s rq au u p \<and> (rtTenantRequired rt \<longrightarrow> inStore s u p tn)
    \<and> (rtRoles rt = Some [Platform SUPER_ADMIN] \<longrightarrow> uGlobalRole u = SUPER_ADMIN)"
proof -
  obtain u w raw p where w: "au = Some w" "rolesGuard rt (Some w) = Inr ()"
      and u: "u \<in> set (users s)" "uIsActive u" "auId w = uId u" "auGlobalRole w = uGlobalRole u"
      and token: "requestToken rq = Some raw" "aeVerifyAccess a raw = Some p" "jpSub p = uId u" "\<not> truthy (jpPurpose p)"
      and own: "truthy tn \<longrightarrow> uGlobalRole u = SUPER_ADMIN \<or> jpTenantId p = tn"
      and member: "if truthy (jpTenantId p) \<and> \<not> truthy (jpImpersonatedBy p)
        then \<exists>m \<in> set (members s). tmUserId m = uId u \<and> Some (tmTenantId m) = jpTenantId p \<and> tmIsActive m
          \<and> auTenantRole w = Some (tmRole m)
        else auTenantRole w = jpTenantRole p"
    by (rule authorize_account [OF assms], rule that)
  have "rtTenantRequired rt \<longrightarrow> truthy tn" using authorize_store [OF assms(1)] by blast
  then have "rtTenantRequired rt \<longrightarrow> inStore s u p tn"
    using own member unfolding inStore_def by (cases "truthy (jpImpersonatedBy p)") auto
  moreover have "rtRoles rt = Some [Platform SUPER_ADMIN] \<longrightarrow> uGlobalRole u = SUPER_ADMIN"
    using w(2) u(4) by (auto simp: rolesGuard_def split: option.splits if_splits)
  ultimately show ?thesis using w u token unfolding liveSession_def by fastforce
qed

lemma customer_admitted:
  assumes "admitCustomer a st rq CustomerRequired = Inr cu"
  shows "customerSession a st rq cu"
  using assms by (auto simp: admitCustomer_def map_sum_Inr customerAuthGuard_def validateCustomer_def customerSession_def
      truthy_def split: if_splits option.splits dest!: findFirst_SomeD)

lemma session_granted:
  assumes "authorize a (acDb st) (routeOf c h) rq = Inr (tn, au)"
    and "admitCustomer a st rq (customerGuardOf c h) = Inr cu"
  shows "grants a st rq (sessionOf c h) tn au cu"
proof (cases "rtPublic (routeOf c h)")
  case True
  then show ?thesis
    using authorize_public [OF assms(1)] authorize_active [OF assms(1)] customer_admitted [of a st rq cu] assms(2)
    by (cases "customerGuardOf c h") (simp_all add: sessionOf_def Let_def)
next
  case False
  show ?thesis
    using False authorize_live [OF assms(1) False] authorize_active [OF assms(1)]
      authorize_role [OF assms(1) False, of "[OWNER]"] authorize_role [OF assms(1) False, of "[OWNER, STAFF]"]
    unfolding sessionOf_def Let_def by auto
qed

text \<open>
  C35: The access matrix holds. A request that gets through the middleware and the guards reaches the handler
  its method and path name, and has shown what the row of that very handler asks: on a platform route an
  active account of the platform's administrators; on a store's route an active store, and unless the account is
  an administrator's a session of that very store, by an impersonation or a membership that is live now, as its
  owner or staff where the row says so; on the account's own routes an active account; on a customer's
  route of a store in service a customer of the store the token was made for, with a customer's token; every
  staff token is one that verifies and no challenge. Only routes the matrix opens to visitors get through without.
\<close>

theorem access_matrix_enforced:
  assumes "admit a st m rq = Inr ad"
  shows "dispatch controllers m (rqPath rq) = Some (adController ad, adHandler ad)
    \<and> (\<exists>ses act. matrixRow m (pattern (adController ad) (adHandler ad))
           = Some (pattern (adController ad) (adHandler ad), m, ctBase (adController ad), ses, act)
         \<and> fits (pattern (adController ad) (adHandler ad)) (segments (rqPath rq))
         \<and> grants a st rq ses (adTenantId ad) (adUser ad) (adCustomer ad))"
proof -
  obtain c h tn au cu where d: "dispatch controllers m (rqPath rq) = Some (c, h)"
      and auth: "authorize a (acDb st) (routeOf c h) rq = Inr (tn, au)"
      and cust: "admitCustomer a st rq (customerGuardOf c h) = Inr cu"
      and ad: "ad = \<lparr>adController = c, adHandler = h, adTenantId = tn, adUser = au, adCustomer = cu\<rparr>"
    using assms by (auto simp: admit_def bind_res_eq_Inr split: option.splits prod.splits)
  have e: "(c, h) \<in> set (entriesOf controllers)" "hnMethod h = m" "fits (pattern c h) (segments (rqPath rq))"
    using d by (auto simp: dispatch_def answers_def dest!: findFirst_SomeD)
  show ?thesis
    using own_row [OF e(1)] d e(2,3) session_granted [OF auth cust] unfolding ad by (auto simp: rowOfEntry_def)
qed

lemma access_matrix_enforced_witness:
  "\<exists>ses act. matrixRow GET [''products'', ''categories''] = Some ([''products'', ''categories''], GET, ''products'', ses, act)
    \<and> grants authEnv0 staffed0 (staffRequest\<lparr>rqPath := ''products/categories''\<rparr>) ses (Some ''t1'')
        (Some \<lparr>auId = ''u2'', auEmail = ''s@x'', auGlobalRole = USER, auTenantId = Some ''t1'', auTenantRole = Some STAFF,
           auImpersonatedBy = None\<rparr>) None"
proof -
  let ?rq = "staffRequest\<lparr>rqPath := ''products/categories''\<rparr>"
  let ?h = "handler GET ''categories'' ''listCategories'' ''productsService.listCategories''"
  have "(productsController, ?h) \<in> set (entriesOf controllers)"
    by (simp add: entriesOf_def controllers_def productsController_def controller_def)
  then have "dispatch controllers GET ''products/categories'' = Some (productsController, ?h)"
    using own_path [OF refl] by (force simp: productsController_def controller_def handler_def)
  then have "admit authEnv0 staffed0 GET ?rq = Inr \<lparr>adController = productsController, adHandler = ?h,
      adTenantId = Some ''t1'', adUser = Some \<lparr>auId = ''u2'', auEmail = ''s@x'', auGlobalRole = USER,
        auTenantId = Some ''t1'', auTenantRole = Some STAFF, auImpersonatedBy = None\<rparr>, adCustomer = None\<rparr>"
    by (simp add: admit_def routeOf_def productsController_def controller_def handler_def customerGuardOf_def admitCustomer_def
        authorize_def Let_def resolveTenant_def tenantIdentifier_def isUuid_def jwtAuthGuard_def
        requestToken_def validate_def handleRequest_def rolesGuard_def tenantRequiredGuard_def bind_res_def
        access_samples account_samples db0_def tenant0_def)
  then show ?thesis
    using access_matrix_enforced by (fastforce simp: productsController_def controller_def handler_def pattern_def segments_def)
qed

section \<open>What the log shows of the routes\<close>

text \<open>The changing routes of accounts that leave no row.\<close>

definition unaudited :: "(httpMethod \<times> string list) list" where
  "unaudited =
    [(POST, [''auth'', ''logout'']),
     (POST, [''auth'', ''switch-tenant'']),
     (POST, [''auth'', ''2fa'', ''setup'']),
     (POST, [''billing'', ''checkout'']),
     (POST, [''billing'', ''portal'']),
     (POST, [''platform'', ''category-templates'']),
     (PATCH, [''platform'', ''category-templates'', '':id'']),
     (DELETE, [''platform'', ''category-templates'', '':id'']),
     (POST, [''devices'']),
     (DELETE, [''devices'', '':token'']),
     (POST, [''plans'', ''current'', ''subscribe'']),
     (POST, [''plans'', ''current'', ''request-upgrade'']),
     (POST, [''products'', '':id'', ''images'']),
     (PATCH, [''products'', '':id'', ''images'', ''reorder'']),
     (DELETE, [''products'', '':id'', ''images'', '':imageId'']),
     (PATCH, [''products'', '':id'', ''images'', '':imageId'', ''cover'']),
     (POST, [''tenants'']),
     (POST, [''uploads'', ''image''])]"

definition privileged :: "Session \<Rightarrow> bool" where
  "privileged ses = (ses \<notin> {Anyone, Visitor, Shopper})"

lemma matrix_audited:
  "list_all (\<lambda>(ps, m, b, ses, act).
     if m = GET then True else if \<not> privileged ses then True else act = None \<longleftrightarrow> (m, ps) \<in> set unaudited) accessMatrix"
  by (simp add: accessMatrix_def privileged_def unaudited_def)

text \<open>
  C36: What the staff, owners and administrators change is logged, as far as the log takes it. When an account
  was admitted to a route that changes something and its handler succeeded, the answer is the handler's and
  the insert of exactly one row is started, with the action the matrix gives for that route; the routes that
  start none are the eighteen of \<open>unaudited\<close>, and a handler that failed starts none. The insert is not waited
  for and no part of the transaction: when the data base accepts it, the log of that moment is longer by that
  row, and when it fails, the change stands without a row and nobody is told.
\<close>

theorem changes_leave_a_row:
  assumes "admit a st m rq = Inr ad" and "m \<noteq> GET" "adUser ad \<noteq> None"
    and "intercept e (auditOf (adController ad) (adHandler ad)) ctx result = (answer, started)"
  shows "answer = result
    \<and> (case result of
         Inl _ \<Rightarrow> started = None
       | Inr (s, r) \<Rightarrow>
           if (m, pattern (adController ad) (adHandler ad)) \<in> set unaudited then started = None
           else \<exists>ses opts. matrixRow m (pattern (adController ad) (adHandler ad))
                  = Some (pattern (adController ad) (adHandler ad), m, ctBase (adController ad), ses, Some (aoAction opts))
                \<and> started = Some (auditRow e opts (ctx r)) \<and> alAction (auditRow e opts (ctx r)) = aoAction opts)
    \<and> (\<forall>row later. started = Some row \<longrightarrow>
         recordAudit True row later = later\<lparr>auditLogs := auditLogs later @ [row]\<rparr> \<and> recordAudit False row later = later)"
proof -
  obtain c h tn au cu where d: "dispatch controllers m (rqPath rq) = Some (c, h)"
      and auth: "authorize a (acDb st) (routeOf c h) rq = Inr (tn, au)"
      and ad: "ad = \<lparr>adController = c, adHandler = h, adTenantId = tn, adUser = au, adCustomer = cu\<rparr>"
    using assms(1) by (auto simp: admit_def bind_res_eq_Inr split: option.splits prod.splits)
  have e: "(c, h) \<in> set (entriesOf controllers)" "hnMethod h = m" "fits (pattern c h) (segments (rqPath rq))"
    using d by (auto simp: dispatch_def answers_def dest!: findFirst_SomeD)
  have "\<not> rtPublic (routeOf c h)" using authorize_public [OF auth] assms(3) ad by auto
  then have priv: "privileged (sessionOf c h)" by (simp add: privileged_def sessionOf_def Let_def)
  have mr: "matrixRow m (pattern c h) = Some (pattern c h, m, ctBase c, sessionOf c h, map_option aoAction (auditOf c h))"
    using own_row [OF e(1)] e(2) by (simp add: rowOfEntry_def)
  then have row: "(pattern c h, m, ctBase c, sessionOf c h, map_option aoAction (auditOf c h)) \<in> set accessMatrix"
    unfolding matrixRow_def by (auto dest!: findFirst_SomeD)
  have listed: "auditOf c h = None \<longleftrightarrow> (m, pattern c h) \<in> set unaudited"
    using matrix_audited row priv assms(2) by (auto simp: list_all_iff)
  have out: "answer = result" "started = (case result of Inl _ \<Rightarrow> None
      | Inr (_, r) \<Rightarrow> map_option (\<lambda>opt. auditRow e opt (ctx r)) (auditOf c h))"
    using assms(4) by (auto simp: intercept_def ad split: option.splits sum.splits)
  have act: "alAction (auditRow e opts x) = aoAction opts" for opts x by (simp add: auditRow_def Let_def)
  show ?thesis
    using out listed mr act by (cases "auditOf c h") (auto simp: ad recordAudit_def split: sum.split)
qed

text \<open>The owner of the store edits a tax.\<close>

definition ownerRequest :: request where
  "ownerRequest = staffRequest\<lparr>rqPath := ''products/taxes'', rqBearer := Some ''u1''\<rparr>"

lemma owner_admitted:
  "\<exists>ad. admit authEnv0 staffed0 POST ownerRequest = Inr ad \<and> adUser ad \<noteq> None
    \<and> adController ad = productsController
    \<and> adHandler ad = (handler POST ''taxes'' ''createTax'' ''productsService.createTax'')\<lparr>hnAudit := audit ''tax.create'' ''ProductTax''\<rparr>"
proof -
  let ?h = "(handler POST ''taxes'' ''createTax'' ''productsService.createTax'')\<lparr>hnAudit := audit ''tax.create'' ''ProductTax''\<rparr>"
  have "(productsController, ?h) \<in> set (entriesOf controllers)"
    by (simp add: entriesOf_def controllers_def productsController_def controller_def)
  then have "dispatch controllers POST ''products/taxes'' = Some (productsController, ?h)"
    using own_path [OF refl] by (force simp: productsController_def controller_def handler_def)
  then show ?thesis
    by (simp add: ownerRequest_def admit_def routeOf_def productsController_def controller_def handler_def
        customerGuardOf_def admitCustomer_def authorize_def Let_def resolveTenant_def tenantIdentifier_def isUuid_def
        jwtAuthGuard_def requestToken_def validate_def handleRequest_def rolesGuard_def tenantRequiredGuard_def bind_res_def
        access_samples account_samples db0_def tenant0_def)
qed

lemma changes_leave_a_row_witness:
  "\<exists>opts row. intercept env0 (Some opts) (\<lambda>_. auditContext0) (Inr (db0, ())) = (Inr (db0, ()), Some row)
    \<and> alAction row = ''tax.create'' \<and> length (auditLogs (recordAudit True row db0)) = Suc (length (auditLogs db0))"
proof -
  obtain ad where ad: "admit authEnv0 staffed0 POST ownerRequest = Inr ad" "adUser ad \<noteq> None"
      "adController ad = productsController"
      "adHandler ad = (handler POST ''taxes'' ''createTax'' ''productsService.createTax'')\<lparr>hnAudit := audit ''tax.create'' ''ProductTax''\<rparr>"
    using owner_admitted by blast
  obtain opts where opts: "auditOf (adController ad) (adHandler ad) = Some opts" "aoAction opts = ''tax.create''"
    by (simp add: ad(3,4) auditOf_def audit_def productsController_def controller_def handler_def)
  obtain answer started where i: "intercept env0 (Some opts) (\<lambda>_. auditContext0) (Inr (db0, ())) = (answer, started)"
    by fastforce
  have "(POST, pattern (adController ad) (adHandler ad)) \<notin> set unaudited"
    by (simp add: ad(3,4) unaudited_def pattern_def segments_def productsController_def controller_def handler_def)
  then have out: "answer = Inr (db0, ())"
      "started \<noteq> None" "\<And>row. started = Some row \<Longrightarrow> recordAudit True row db0 = db0\<lparr>auditLogs := auditLogs db0 @ [row]\<rparr>"
    using changes_leave_a_row [OF ad(1) _ ad(2) i [folded opts(1)]] by auto
  then obtain row where row: "started = Some row" by blast
  have "row = auditRow env0 opts auditContext0" using i row by (simp add: intercept_def)
  then have "alAction row = ''tax.create''" by (simp add: auditRow_def opts(2) Let_def)
  then show ?thesis using i out(1) out(3) [OF row] row by (intro exI [of _ opts] exI [of _ row]) simp
qed

text \<open>
  The audited routes of digital products name the product by a parameter the decorator does not mention, so
  what the log shows for the product is the id of the row the handler returned.
\<close>

lemma digital_audit_names_no_product:
  assumes "map_of (xcParams x) ''id'' = None" and "k \<in> {''digital.asset_upload'', ''digital.asset_delete'', ''product.price_schedule_add''}"
  shows "entityIdOf (the (audit k ''Product'')) x = xcResultId x"
  using assms by (simp add: entityIdOf_def audit_def)

end
