(* ===== verification/Config.thy ===== *)
theory Config
  imports Text
begin

text \<open>
  The start of the server: the checks of \<open>config/validate-env.ts\<close>, which refuse to boot, the values
  \<open>config/index.ts\<close> reads from the environment, \<open>common/utils/trust-proxy.ts\<close>, and the policy
  for foreign origins \<open>main.ts\<close> makes of them. The environment is a function from names to values;
  \<open>parseUrl\<close> is the runtime's \<open>new URL\<close>. Refusing to boot is an error with its message.
\<close>

section \<open>Refusing to boot\<close>

type_synonym vars = "string \<Rightarrow> string option"

definition REQUIRED_ENV_VARS :: "string list" where
  "REQUIRED_ENV_VARS = [''DATABASE_URL'', ''JWT_SECRET'', ''JWT_REFRESH_SECRET'', ''JWT_CUSTOMER_SECRET'',
     ''JWT_CUSTOMER_REFRESH_SECRET'', ''ENCRYPTION_KEY'']"

definition SECRET_VARS :: "string list" where
  "SECRET_VARS = [''JWT_SECRET'', ''JWT_REFRESH_SECRET'', ''JWT_CUSTOMER_SECRET'',
     ''JWT_CUSTOMER_REFRESH_SECRET'', ''ENCRYPTION_KEY'']"

definition MIN_SECRET_LENGTH :: nat where
  "MIN_SECRET_LENGTH = 32"

text \<open>\<open>/^change[_-]?me|^xxx|^secret$|^password$|example/i\<close>.\<close>

definition placeholderSecret :: "string \<Rightarrow> bool" where
  "placeholderSecret v =
     (let t = lower v in
      startsWith ''changeme'' t \<or> startsWith ''change_me'' t \<or> startsWith ''change-me'' t \<or> startsWith ''xxx'' t
      \<or> t = ''secret'' \<or> t = ''password'' \<or> contains ''example'' t)"

definition secretOf :: "vars \<Rightarrow> string \<Rightarrow> string" where
  "secretOf vs k = trim (case vs k of Some t \<Rightarrow> t | None \<Rightarrow> [])"

definition JWT_VARS :: "string list" where
  "JWT_VARS = filter (\<lambda>k. k \<noteq> ''ENCRYPTION_KEY'') SECRET_VARS"

text \<open>
  The length of a text: its UTF-16 units. Texts are their UTF-8 bytes, so a byte that continues a character
  counts nothing, and the first of four counts for a surrogate pair.
\<close>

definition utf16Length :: "string \<Rightarrow> nat" where
  "utf16Length t = sum_list (map (\<lambda>c. let n = of_char c :: nat in
     if 128 \<le> n \<and> n < 192 then 0 else if 240 \<le> n then 2 else 1) t)"

definition secretProblems :: "vars \<Rightarrow> string list" where
  "secretProblems vs =
     concat (map (\<lambda>k. let value = secretOf vs k in
        if placeholderSecret value then [k @ '' is still a placeholder value'']
        else if utf16Length value < MIN_SECRET_LENGTH
        then [k @ '' is shorter than '' @ string_of_nat MIN_SECRET_LENGTH @ '' characters''] else []) SECRET_VARS)
     @ (if length (remdups (map (secretOf vs) JWT_VARS)) \<noteq> length JWT_VARS
        then [''the JWT_* secrets must all be different from each other''] else [])
     @ (if list_ex (\<lambda>k. secretOf vs k = secretOf vs ''ENCRYPTION_KEY'') JWT_VARS
        then [''ENCRYPTION_KEY must differ from every JWT_* secret''] else [])"

definition assertProductionSecrets :: "vars \<Rightarrow> unit res" where
  "assertProductionSecrets vs =
     (if secretProblems vs \<noteq> []
      then Inl (InternalError (''Unsafe secrets for NODE_ENV=production: '' @ joinWith ''; '' (secretProblems vs)))
      else Inr ())"

definition isHttpUrl :: "(string \<Rightarrow> url option) \<Rightarrow> string \<Rightarrow> bool" where
  "isHttpUrl parseUrl value =
     (case parseUrl value of Some u \<Rightarrow> urlProtocol u = ''http:'' \<or> urlProtocol u = ''https:'' | None \<Rightarrow> False)"

text \<open>\<open>/^\.?[a-z0-9]([a-z0-9.-]*[a-z0-9])?$/i\<close>.\<close>

definition alnum :: "char \<Rightarrow> bool" where
  "alnum c = (isDigitChar c \<or> isLetterChar c)"

definition bareDomain :: "string \<Rightarrow> bool" where
  "bareDomain v =
     (let d = (if startsWith ''.'' v then drop 1 v else v)
      in d \<noteq> [] \<and> alnum (hd d) \<and> alnum (last d) \<and> list_all (\<lambda>c. alnum c \<or> c = CHR ''.'' \<or> c = CHR ''-'') d)"

text \<open>What Express is told to believe of \<open>X-Forwarded-For\<close>: nothing, so many hops, these addresses.\<close>

datatype TrustProxy = TrustNone | TrustHops nat | TrustList string

fun decimal_of :: "string \<Rightarrow> nat \<Rightarrow> nat" where
  "decimal_of [] n = n"
| "decimal_of (c # cs) n = decimal_of cs (10 * n + (of_char c - 48))"

definition parseTrustProxy :: "string option \<Rightarrow> TrustProxy res" where
  "parseTrustProxy raw =
     (let value = trim (case raw of Some t \<Rightarrow> t | None \<Rightarrow> []) in
      if value = [] \<or> value = ''false'' then Inr TrustNone
      else if list_all isDigitChar value then Inr (TrustHops (decimal_of value 0))
      else if value = ''true'' \<or> list_ex (\<lambda>part. trim part \<in> {''*'', []}) (splitOn (CHR '','') value)
      then Inl (InternalError ''TRUST_PROXY must be a hop count (e.g. 2) or a list of proxy addresses, not true or *.'')
      else Inr (TrustList (joinWith '','' (map trim (splitOn (CHR '','') value)))))"

definition blank :: "string option \<Rightarrow> bool" where
  "blank v = (case v of Some t \<Rightarrow> trim t = [] | None \<Rightarrow> True)"

definition production :: "vars \<Rightarrow> bool" where
  "production vs = (vs ''NODE_ENV'' = Some ''production'')"

definition validateEnv :: "(string \<Rightarrow> url option) \<Rightarrow> vars \<Rightarrow> vars res" where
  "validateEnv parseUrl vs =
     (let missing = filter (\<lambda>k. blank (vs k)) REQUIRED_ENV_VARS in
      if missing \<noteq> []
      then Inl (InternalError (''Missing required environment variable(s): '' @ joinWith '', '' missing))
      else
      bind_res (if production vs then assertProductionSecrets vs else Inr ()) (\<lambda>_.
      if production vs \<and> blank (vs ''CORS_ORIGINS'')
      then Inl (InternalError ''CORS_ORIGINS is required when NODE_ENV=production'')
      else if \<not> blank (vs ''PUBLIC_WEB_URL'') \<and> \<not> isHttpUrl parseUrl (trim (the (vs ''PUBLIC_WEB_URL'')))
      then Inl (InternalError ''PUBLIC_WEB_URL must be an absolute http(s) URL'')
      else if \<not> blank (vs ''STOREFRONT_ROOT_DOMAIN'') \<and> \<not> bareDomain (trim (the (vs ''STOREFRONT_ROOT_DOMAIN'')))
      then Inl (InternalError ''STOREFRONT_ROOT_DOMAIN must be a bare domain'')
      else bind_res (parseTrustProxy (vs ''TRUST_PROXY'')) (\<lambda>_. Inr vs)))"

section \<open>The values of the configuration\<close>

text \<open>\<open>parseInt(t, 10)\<close>, nothing for \<open>NaN\<close>.\<close>

definition parseInt :: "string \<Rightarrow> int option" where
  "parseInt t =
     (let w = dropWhile isSpace t; neg = startsWith ''-'' w;
          digits = takeWhile isDigitChar (if neg \<or> startsWith ''+'' w then drop 1 w else w)
      in if digits = [] then None
         else Some (if neg then - int (decimal_of digits 0) else int (decimal_of digits 0)))"

definition var :: "vars \<Rightarrow> string \<Rightarrow> string \<Rightarrow> string" where
  "var vs k d = (case vs k of Some t \<Rightarrow> t | None \<Rightarrow> d)"

record AppConfig =
  apPort :: "int option"
  apPrefix :: string
  apCorsOrigins :: "string list"
  apTrustProxy :: TrustProxy
  apPublicWebUrl :: "string option"
  apRootDomain :: "string option"
  apEnv :: string

definition corsOriginsOf :: "vars \<Rightarrow> string list" where
  "corsOriginsOf vs = filter (\<lambda>w. w \<noteq> []) (map trim (splitOn (CHR '','') (var vs ''CORS_ORIGINS'' [])))"

definition appConfig :: "vars \<Rightarrow> AppConfig res" where
  "appConfig vs =
     bind_res (parseTrustProxy (vs ''TRUST_PROXY'')) (\<lambda>trust.
       let root = dropWhile (\<lambda>c. c = CHR ''.'') (lower (trim (var vs ''STOREFRONT_ROOT_DOMAIN'' [])))
       in Inr \<lparr>apPort = parseInt (var vs ''PORT'' ''3000''), apPrefix = var vs ''API_PREFIX'' ''api/v1'',
            apCorsOrigins = corsOriginsOf vs, apTrustProxy = trust,
            apPublicWebUrl = resolvePublicWebUrl (vs ''PUBLIC_WEB_URL'') (corsOriginsOf vs),
            apRootDomain = (if root = [] then None else Some root), apEnv = var vs ''NODE_ENV'' ''development''\<rparr>)"

record JwtConfig =
  jcSecret :: "string option"
  jcExpiresIn :: string
  jcRefreshSecret :: "string option"
  jcRefreshExpiresIn :: string

definition jwtConfig :: "vars \<Rightarrow> JwtConfig" where
  "jwtConfig vs =
     \<lparr>jcSecret = vs ''JWT_SECRET'', jcExpiresIn = var vs ''JWT_EXPIRES_IN'' ''15m'',
      jcRefreshSecret = vs ''JWT_REFRESH_SECRET'', jcRefreshExpiresIn = var vs ''JWT_REFRESH_EXPIRES_IN'' ''30d''\<rparr>"

definition jwtCustomerConfig :: "vars \<Rightarrow> JwtConfig" where
  "jwtCustomerConfig vs =
     \<lparr>jcSecret = vs ''JWT_CUSTOMER_SECRET'', jcExpiresIn = var vs ''JWT_CUSTOMER_EXPIRES_IN'' ''15m'',
      jcRefreshSecret = vs ''JWT_CUSTOMER_REFRESH_SECRET'',
      jcRefreshExpiresIn = var vs ''JWT_CUSTOMER_REFRESH_EXPIRES_IN'' ''30d''\<rparr>"

text \<open>The days of a mobile session, of the staff and of customers.\<close>

definition mobileAuthConfig :: "vars \<Rightarrow> int option \<times> int option" where
  "mobileAuthConfig vs =
     (parseInt (var vs ''MOBILE_STAFF_REFRESH_TTL_DAYS'' ''7''), parseInt (var vs ''MOBILE_CUSTOMER_REFRESH_TTL_DAYS'' ''30''))"

record RedisConfig =
  rdHost :: string
  rdPort :: "int option"
  rdPassword :: "string option"

definition redisConfig :: "vars \<Rightarrow> RedisConfig" where
  "redisConfig vs =
     \<lparr>rdHost = var vs ''REDIS_HOST'' ''localhost'', rdPort = parseInt (var vs ''REDIS_PORT'' ''6379''),
      rdPassword = (if truthy (vs ''REDIS_PASSWORD'') then vs ''REDIS_PASSWORD'' else None)\<rparr>"

record PayPalConfig =
  ycClientId :: "string option"
  ycClientSecret :: "string option"
  ycWebhookId :: "string option"
  ycMode :: string
  ycBaseUrl :: string

definition paypalConfig :: "vars \<Rightarrow> PayPalConfig" where
  "paypalConfig vs =
     (let live = (vs ''PAYPAL_MODE'' = Some ''live'')
      in \<lparr>ycClientId = vs ''PAYPAL_CLIENT_ID'', ycClientSecret = vs ''PAYPAL_CLIENT_SECRET'',
          ycWebhookId = vs ''PAYPAL_WEBHOOK_ID'', ycMode = (if live then ''live'' else ''sandbox''),
          ycBaseUrl = (if live then ''https://api-m.paypal.com'' else ''https://api-m.sandbox.paypal.com'')\<rparr>)"

section \<open>Foreign origins\<close>

text \<open>\<open>enableCors\<close>, with credentials: any origin, or the listed ones.\<close>

datatype CorsPolicy = AnyOrigin | Origins "string list"

definition corsPolicy :: "AppConfig \<Rightarrow> CorsPolicy" where
  "corsPolicy app = (if apCorsOrigins app \<noteq> [] then Origins (apCorsOrigins app) else AnyOrigin)"

text \<open>The values and the policy of a server that starts.\<close>

definition boot :: "(string \<Rightarrow> url option) \<Rightarrow> vars \<Rightarrow> (AppConfig \<times> CorsPolicy) res" where
  "boot parseUrl vs =
     bind_res (validateEnv parseUrl vs) (\<lambda>ws. bind_res (appConfig ws) (\<lambda>app. Inr (app, corsPolicy app)))"

section \<open>Properties\<close>

lemma secretProblems_Nil:
  assumes "secretProblems vs = []"
  shows "k \<in> set SECRET_VARS \<Longrightarrow> \<not> placeholderSecret (secretOf vs k) \<and> utf16Length (secretOf vs k) \<ge> 32"
    and "distinct (map (secretOf vs) SECRET_VARS)"
proof -
  note parts = assms [unfolded secretProblems_def append_is_Nil_conv concat_eq_Nil_conv set_map]
  show "\<not> placeholderSecret (secretOf vs k) \<and> utf16Length (secretOf vs k) \<ge> 32" if k: "k \<in> set SECRET_VARS"
  proof -
    have "(let value = secretOf vs k in
        if placeholderSecret value then [k @ '' is still a placeholder value'']
        else if utf16Length value < MIN_SECRET_LENGTH
        then [k @ '' is shorter than '' @ string_of_nat MIN_SECRET_LENGTH @ '' characters''] else []) = []"
      using parts k by blast
    then show ?thesis unfolding Let_def MIN_SECRET_LENGTH_def by (simp split: if_splits)
  qed
  have "length (remdups (map (secretOf vs) JWT_VARS)) = length (map (secretOf vs) JWT_VARS)"
    using parts by (simp split: if_splits)
  then have "distinct (map (secretOf vs) JWT_VARS)" by (metis distinct_remdups length_remdups_eq)
  moreover have "\<forall>k \<in> set JWT_VARS. secretOf vs k \<noteq> secretOf vs ''ENCRYPTION_KEY''"
    using parts by (simp add: list_ex_iff split: if_splits)
  ultimately have "distinct (map (secretOf vs) JWT_VARS @ [secretOf vs ''ENCRYPTION_KEY''])"
    by auto
  then show "distinct (map (secretOf vs) SECRET_VARS)"
    by (simp add: JWT_VARS_def SECRET_VARS_def)
qed

lemma assertProductionSecrets_Inr: "assertProductionSecrets vs = Inr u \<longleftrightarrow> secretProblems vs = []"
  by (simp add: assertProductionSecrets_def)

lemma validateEnv_InrD:
  assumes "validateEnv parseUrl vs = Inr ws"
  shows "ws = vs" "production vs \<Longrightarrow> secretProblems vs = []" "\<exists>t. parseTrustProxy (vs ''TRUST_PROXY'') = Inr t"
  using assms [unfolded validateEnv_def Let_def if_Inl_eq_Inr bind_res_eq_Inr]
  by (auto simp: assertProductionSecrets_Inr)

lemma splitOn_chars: "(\<exists>w \<in> set (splitOn c t). x \<in> set w) \<longleftrightarrow> x \<in> set t \<and> x \<noteq> c"
proof (induction t)
  case (Cons y t)
  obtain w ws where "splitOn c t = w # ws" by (cases "splitOn c t") simp_all
  then show ?case using Cons by auto
qed simp

lemma trim_Nil: "trim t = [] \<longleftrightarrow> list_all isSpace t"
proof -
  have "(\<forall>x \<in> set (dropWhile isSpace t). isSpace x) \<longleftrightarrow> (\<forall>x \<in> set t. isSpace x)"
    by (metis Un_iff set_append set_takeWhileD takeWhile_dropWhile_id)
  then show ?thesis by (simp only: trim_def rev_is_Nil_conv dropWhile_eq_Nil_conv set_rev list_all_iff)
qed

lemma set_trim: "set (trim t) \<subseteq> set t"
  unfolding trim_def by (auto dest!: set_dropWhileD)

lemma parseTrustProxy_parts:
  assumes "parseTrustProxy raw = Inr r" and "part \<in> set (splitOn (CHR '','') (trim (case raw of Some t \<Rightarrow> t | None \<Rightarrow> [])))"
  shows "trim part \<noteq> ''*''"
proof
  define v where "v = trim (case raw of Some t \<Rightarrow> t | None \<Rightarrow> [])"
  assume star: "trim part = ''*''"
  then have "CHR ''*'' \<in> set part" using set_trim [of part] by simp
  then have "CHR ''*'' \<in> set v" using assms(2) splitOn_chars [of "CHR '',''" v] unfolding v_def by blast
  moreover have "\<not> isDigitChar (CHR ''*'')" by code_simp
  ultimately have plain: "v \<noteq> []" "v \<noteq> ''false''" "\<not> list_all isDigitChar v"
    by (auto simp: list_all_iff)
  have "\<not> list_ex (\<lambda>part. trim part \<in> {''*'', []}) (splitOn (CHR '','') v)"
    using assms(1) plain unfolding parseTrustProxy_def Let_def v_def [symmetric] by (simp split: if_splits)
  then show False using assms(2) star unfolding v_def [symmetric] by (simp add: list_ex_iff)
qed

lemma parseTrustProxy_true: "parseTrustProxy raw = Inr r \<Longrightarrow> trim (case raw of Some t \<Rightarrow> t | None \<Rightarrow> []) \<noteq> ''true''"
proof
  assume p: "parseTrustProxy raw = Inr r" and v: "trim (case raw of Some t \<Rightarrow> t | None \<Rightarrow> []) = ''true''"
  have "\<not> list_all isDigitChar ''true''" by code_simp
  then show False using p unfolding parseTrustProxy_def v Let_def by (simp only: if_False simp_thms) simp
qed

lemma corsOrigins_Nil:
  assumes "corsOriginsOf vs = []"
  shows "list_all (\<lambda>c. isSpace c \<or> c = CHR '','') (var vs ''CORS_ORIGINS'' [])"
proof -
  have "list_all isSpace w" if "w \<in> set (splitOn (CHR '','') (var vs ''CORS_ORIGINS'' []))" for w
    using assms that by (simp add: corsOriginsOf_def filter_empty_conv trim_Nil)
  then show ?thesis
    unfolding list_all_iff using splitOn_chars [of "CHR '',''" "var vs ''CORS_ORIGINS'' []"] by metis
qed

text \<open>
  C38: A server that starts in production is not open by its configuration, as far as its start checks it.
  Each of its five secrets is at least 32 characters long (UTF-16 units) and none of the values of the
  example file, and no two are the same. \<open>TRUST_PROXY\<close> is neither \<open>true\<close> nor has an entry \<open>*\<close>, and what
  Express is told is what it says; a range of all addresses is not recognised (\<open>range_of_all_passes\<close>).
  Requests with credentials are taken from the origins listed, unless \<open>CORS_ORIGINS\<close> is written of
  commas and spaces alone.
\<close>

theorem production_boot_is_safe:
  assumes "boot parseUrl vs = Inr (app, cors)" and "production vs"
  shows "(\<forall>k \<in> set SECRET_VARS. \<not> placeholderSecret (secretOf vs k) \<and> utf16Length (secretOf vs k) \<ge> 32)
    \<and> distinct (map (secretOf vs) SECRET_VARS)
    \<and> trim (var vs ''TRUST_PROXY'' []) \<noteq> ''true''
    \<and> (\<forall>part \<in> set (splitOn (CHR '','') (trim (var vs ''TRUST_PROXY'' []))). trim part \<noteq> ''*'')
    \<and> parseTrustProxy (vs ''TRUST_PROXY'') = Inr (apTrustProxy app)
    \<and> (cors = Origins (corsOriginsOf vs) \<and> corsOriginsOf vs \<noteq> []
       \<or> list_all (\<lambda>c. isSpace c \<or> c = CHR '','') (var vs ''CORS_ORIGINS'' []))"
proof -
  have v: "validateEnv parseUrl vs = Inr vs" and app: "appConfig vs = Inr app" and cors: "cors = corsPolicy app"
    using assms(1) by (auto simp: boot_def bind_res_eq_Inr dest: validateEnv_InrD(1))
  have none: "secretProblems vs = []" using validateEnv_InrD(2) [OF v assms(2)] .
  have secrets: "\<forall>k \<in> set SECRET_VARS. \<not> placeholderSecret (secretOf vs k) \<and> utf16Length (secretOf vs k) \<ge> 32"
    using secretProblems_Nil(1) [OF none] by blast
  obtain t where t: "parseTrustProxy (vs ''TRUST_PROXY'') = Inr t" using validateEnv_InrD(3) [OF v] by blast
  have hops: "\<forall>part \<in> set (splitOn (CHR '','') (trim (var vs ''TRUST_PROXY'' []))). trim part \<noteq> ''*''"
    using parseTrustProxy_parts [OF t] unfolding var_def by blast
  have yes: "trim (var vs ''TRUST_PROXY'' []) \<noteq> ''true''"
    using parseTrustProxy_true [OF t] unfolding var_def by blast
  have trust: "parseTrustProxy (vs ''TRUST_PROXY'') = Inr (apTrustProxy app)" and "apCorsOrigins app = corsOriginsOf vs"
    using app by (auto simp: appConfig_def Let_def bind_res_eq_Inr)
  then have "cors = Origins (corsOriginsOf vs) \<and> corsOriginsOf vs \<noteq> []
      \<or> list_all (\<lambda>c. isSpace c \<or> c = CHR '','') (var vs ''CORS_ORIGINS'' [])"
    using corsOrigins_Nil [of vs] unfolding cors corsPolicy_def by (cases "corsOriginsOf vs = []") simp_all
  with secrets secretProblems_Nil(2) [OF none] hops yes trust show ?thesis by blast
qed

text \<open>An environment for production, with one origin or with a comma for origins.\<close>

definition vars0 :: "string \<Rightarrow> vars" where
  "vars0 origins =
     map_of [(''NODE_ENV'', ''production''), (''DATABASE_URL'', ''postgresql://db''), (''CORS_ORIGINS'', origins),
       (''JWT_SECRET'', replicate 32 (CHR ''a'')), (''JWT_REFRESH_SECRET'', replicate 32 (CHR ''b'')),
       (''JWT_CUSTOMER_SECRET'', replicate 32 (CHR ''c'')), (''JWT_CUSTOMER_REFRESH_SECRET'', replicate 32 (CHR ''d'')),
       (''ENCRYPTION_KEY'', replicate 32 (CHR ''e''))]"

lemma production_boot_is_safe_witness:
  "utf16Length (secretOf (vars0 ''https://web'') ''JWT_SECRET'') \<ge> 32"
proof -
  have "\<not> isl (boot (\<lambda>_. None) (vars0 ''https://web''))" by code_simp
  then obtain app cors where "boot (\<lambda>_. None) (vars0 ''https://web'') = Inr (app, cors)"
    by (cases "boot (\<lambda>_. None) (vars0 ''https://web'')") auto
  moreover have "production (vars0 ''https://web'')" by code_simp
  ultimately show ?thesis using production_boot_is_safe by (fastforce simp: SECRET_VARS_def)
qed

text \<open>A range that holds every address is taken as a list of proxies, so every hop is believed.\<close>

lemma range_of_all_passes: "parseTrustProxy (Some ''0.0.0.0/0'') = Inr (TrustList ''0.0.0.0/0'')"
  by code_simp

text \<open>The check asks that the text is not blank, the policy that it names an origin: a comma passes the one alone.\<close>

lemma comma_opens_cors: "map_sum id snd (boot (\<lambda>_. None) (vars0 '','')) = Inr AnyOrigin"
  by code_simp

end
