(* ===== verification/Backups.thy ===== *)
theory Backups
  imports Uri
begin

text \<open>
  Backups of the data base: \<open>backups/backups.service.ts\<close> and the guard of a restore in
  \<open>backups/pg-tools.util.ts\<close>. The bucket is a list of objects; \<open>pg_dump\<close> and \<open>pg_restore\<close>, the
  runtime's \<open>new URL\<close> on a connection address and the look-up of names are parameters. Temporary files
  and the log are left out.
\<close>

section \<open>Connection addresses\<close>

record dbUrl =
  duUsername :: string \<comment> \<open>decoded; read by the client of the address only\<close>
  duHostname :: string
  duPort :: string
  duPathname :: string
  duParams :: "string list" \<comment> \<open>the names of the query's parameters\<close>

definition portOf :: "dbUrl \<Rightarrow> string" where
  "portOf u = (if duPort u = [] then ''5432'' else duPort u)"

definition dbNameOf :: "dbUrl \<Rightarrow> string option" where
  "dbNameOf u = decodeURIComponent (if startsWith ''/'' (duPathname u) then drop 1 (duPathname u) else duPathname u)"

text \<open>An address that cannot be read counts as the same.\<close>

definition pointsAtSameDatabase :: "(string \<Rightarrow> dbUrl option) \<Rightarrow> string option \<Rightarrow> string option \<Rightarrow> bool" where
  "pointsAtSameDatabase parse a b =
     (if \<not> truthy a \<or> \<not> truthy b then False
      else case (parse (the a), parse (the b)) of
        (Some x, Some y) \<Rightarrow>
          lower (duHostname x) = lower (duHostname y) \<and> portOf x = portOf y
          \<and> (case (dbNameOf x, dbNameOf y) of (Some d, Some d') \<Rightarrow> d = d' | _ \<Rightarrow> True)
      | _ \<Rightarrow> True)"

definition SAFE_QUERY_PARAMS :: "string list" where
  "SAFE_QUERY_PARAMS = [''sslmode'', ''sslrootcert'', ''connect_timeout'', ''application_name'']"

definition LIVE_REFUSED :: error where
  "LIVE_REFUSED = Forbidden ''Refusing to restore over the live database - point this at a scratch one''"

text \<open>The comparison with one live address by what its name resolves to.\<close>

fun checkAddresses ::
    "(string \<Rightarrow> dbUrl option) \<Rightarrow> (string \<Rightarrow> string list) \<Rightarrow> dbUrl \<Rightarrow> string list \<Rightarrow> string list \<Rightarrow> unit res" where
  "checkAddresses parse lookup target addresses [] = Inr ()"
| "checkAddresses parse lookup target addresses (live # lives) =
     (case parse live of
        None \<Rightarrow> Inl (InternalError ''Invalid URL'')
      | Some u \<Rightarrow>
          (case (decodeURIComponent (duPathname u), decodeURIComponent (duPathname target)) of
             (Some p, Some q) \<Rightarrow>
               if portOf u = portOf target \<and> p = q \<and> list_ex (\<lambda>a. a \<in> set addresses) (lookup (duHostname u))
               then Inl LIVE_REFUSED else checkAddresses parse lookup target addresses lives
           | _ \<Rightarrow> Inl (InternalError ''URI malformed'')))"

definition assertSafeRestoreTarget ::
    "(string \<Rightarrow> dbUrl option) \<Rightarrow> (string \<Rightarrow> string list) \<Rightarrow> string \<Rightarrow> string option list \<Rightarrow> unit res" where
  "assertSafeRestoreTarget parse lookup target liveUrls =
     (case parse target of
        None \<Rightarrow> Inl (Forbidden ''Restore target is not a valid connection URL'')
      | Some u \<Rightarrow>
          (case findFirst (\<lambda>k. k \<notin> set SAFE_QUERY_PARAMS) (duParams u) of
             Some k \<Rightarrow> Inl (Forbidden (''Restore target may not set the connection parameter '' @ k))
           | None \<Rightarrow>
               let lives = map the (filter truthy liveUrls); addresses = lookup (duHostname u)
               in if list_ex (\<lambda>live. pointsAtSameDatabase parse (Some target) (Some live)) lives then Inl LIVE_REFUSED
                  else if addresses = [] then Inl (Forbidden ''Restore target host does not resolve'')
                  else checkAddresses parse lookup u addresses lives))"

section \<open>The bucket\<close>

record storedObject =
  soKey :: string
  soSize :: int
  soModified :: time

text \<open>\<open>slice(n)\<close>; \<open>NaN\<close> counts as zero.\<close>

definition sliceFrom :: "int option \<Rightarrow> 'a list \<Rightarrow> 'a list" where
  "sliceFrom n xs =
     (case n of None \<Rightarrow> xs
      | Some k \<Rightarrow> if k \<ge> 0 then drop (nat k) xs else drop (nat (int (length xs) + k)) xs)"

definition newestFirst :: "storedObject list \<Rightarrow> storedObject list" where
  "newestFirst = sort_key (\<lambda>b. - soModified b)"

definition selectStaleKeys :: "storedObject list \<Rightarrow> int option \<Rightarrow> string list" where
  "selectStaleKeys objects retentionCount = map soKey (sliceFrom retentionCount (newestFirst objects))"

record BackupConfig =
  bkDatabaseUrl :: "string option"
  bkEndpoint :: "string option"
  bkBucket :: "string option"
  bkAccessKeyId :: "string option"
  bkSecretAccessKey :: "string option"
  bkPrefix :: string
  bkRetentionCount :: "int option" \<comment> \<open>nothing for \<open>NaN\<close>\<close>

definition isConfigured :: "BackupConfig \<Rightarrow> bool" where
  "isConfigured c =
     (truthy (bkDatabaseUrl c) \<and> truthy (bkEndpoint c) \<and> truthy (bkBucket c) \<and> truthy (bkAccessKeyId c)
      \<and> truthy (bkSecretAccessKey c))"

definition listAllObjects :: "BackupConfig \<Rightarrow> storedObject list \<Rightarrow> storedObject list" where
  "listAllObjects c bucket = filter (\<lambda>b. startsWith (bkPrefix c @ ''/'') (soKey b)) bucket"

definition deleteObject :: "string \<Rightarrow> storedObject list \<Rightarrow> storedObject list" where
  "deleteObject k = filter (\<lambda>b. soKey b \<noteq> k)"

definition putObject :: "storedObject \<Rightarrow> storedObject list \<Rightarrow> storedObject list" where
  "putObject x bucket = deleteObject (soKey x) bucket @ [x]"

definition pruneOld :: "BackupConfig \<Rightarrow> storedObject list \<Rightarrow> storedObject list" where
  "pruneOld c bucket = fold deleteObject (selectStaleKeys (listAllObjects c bucket) (bkRetentionCount c)) bucket"

definition backupKey :: "BackupConfig \<Rightarrow> time \<Rightarrow> string" where
  "backupKey c now =
     bkPrefix c @ ''/yws-'' @ map (\<lambda>x. if x = CHR '':'' \<or> x = CHR ''.'' then CHR ''-'' else x) (toISOString now) @ ''.dump''"

text \<open>The size of a dump of the data base at an address, or the error of \<open>pg_dump\<close>.\<close>

definition runBackup ::
    "BackupConfig \<Rightarrow> time \<Rightarrow> (string \<Rightarrow> int res) \<Rightarrow> storedObject list \<Rightarrow> (storedObject list \<times> storedObject) res" where
  "runBackup c now dump bucket =
     (if \<not> isConfigured c \<or> \<not> truthy (bkBucket c) then Inl (ServiceUnavailable ''Backups are not configured'')
      else if \<not> truthy (bkDatabaseUrl c) then Inl (ServiceUnavailable ''BACKUP_DATABASE_URL is not set'')
      else bind_res (dump (the (bkDatabaseUrl c))) (\<lambda>size.
        let x = \<lparr>soKey = backupKey c now, soSize = size, soModified = now\<rparr>
        in Inr (pruneOld c (putObject x bucket), x)))"

definition listBackups :: "BackupConfig \<Rightarrow> storedObject list \<Rightarrow> storedObject list" where
  "listBackups c bucket = (if \<not> isConfigured c then [] else newestFirst (listAllObjects c bucket))"

text \<open>The address a restore overwrites and the object it reads.\<close>

definition restoreBackup ::
    "BackupConfig \<Rightarrow> (string \<Rightarrow> dbUrl option) \<Rightarrow> (string \<Rightarrow> string list) \<Rightarrow> string option \<Rightarrow> storedObject list
      \<Rightarrow> string \<Rightarrow> string \<Rightarrow> (string \<times> storedObject) res" where
  "restoreBackup c parse lookup databaseUrl bucket key target =
     (if \<not> isConfigured c then Inl (ServiceUnavailable ''Backups are not configured'')
      else bind_res (assertSafeRestoreTarget parse lookup target [databaseUrl, bkDatabaseUrl c]) (\<lambda>_.
        case findFirst (\<lambda>b. soKey b = key) bucket of
          None \<Rightarrow> Inl (InternalError ''NoSuchKey'')
        | Some b \<Rightarrow> Inr (target, b)))"

section \<open>A restore spares the live data base\<close>

text \<open>
  Where a client of an address (\<open>libpq\<close>, as it documents itself) ends up: an address of its host, a port, a
  data base. Without a name in the path the data base is that of the user's name, and without a user that
  of the account the client runs under, \<open>account\<close>.
\<close>

definition reachedDatabase :: "string \<Rightarrow> dbUrl \<Rightarrow> string option" where
  "reachedDatabase account u =
     (if dbNameOf u = Some [] then Some (if duUsername u \<noteq> [] then duUsername u else account) else dbNameOf u)"

definition endpoints :: "string \<Rightarrow> (string \<Rightarrow> string list) \<Rightarrow> dbUrl \<Rightarrow> (string \<times> string \<times> string option) list" where
  "endpoints account lookup u = map (\<lambda>a. (a, portOf u, reachedDatabase account u)) (lookup (duHostname u))"

text \<open>The address names its data base in its path.\<close>

definition namesDatabase :: "dbUrl \<Rightarrow> bool" where
  "namesDatabase u = (startsWith ''/'' (duPathname u) \<and> dbNameOf u \<noteq> Some [])"

lemma dbNameOf_path:
  assumes "startsWith ''/'' (duPathname u)" "startsWith ''/'' (duPathname v)" "dbNameOf u = dbNameOf v"
  shows "decodeURIComponent (duPathname u) = decodeURIComponent (duPathname v)"
proof -
  obtain p q where "duPathname u = CHR ''/'' # p" "duPathname v = CHR ''/'' # q"
    using assms(1,2) by (auto simp: startsWith_def prefix_def)
  then show ?thesis using assms by (simp add: dbNameOf_def decodeURIComponent_plain)
qed

lemma checkAddresses_InrD:
  assumes "checkAddresses parse lookup target addresses lives = Inr ()" and "live \<in> set lives"
  obtains u p q where "parse live = Some u" "decodeURIComponent (duPathname u) = Some p"
    "decodeURIComponent (duPathname target) = Some q"
    "portOf u = portOf target \<and> p = q \<longrightarrow> (\<forall>a \<in> set (lookup (duHostname u)). a \<notin> set addresses)"
  using assms
proof (induction lives)
  case (Cons l ls)
  then show ?case by (auto simp: list_ex_iff split: option.splits if_splits)
qed simp

text \<open>
  C39: A restore does not overwrite the data base that is serving, when the addresses name their data bases.
  When a restore goes through, its target is a connection address that sets none of the parameters by which
  a client can be sent elsewhere, its host resolves, and no place a client of it ends up at (an address of
  the host, the port, the data base) is one of the server's own data base or of the backups', whatever
  names the hosts go by, provided that the target and the live address both have a data base in their path. The
  guard does not know that a client falls back to the name of the user: what happens to an address
  without a path is \<open>nameless_target_reaches_live\<close>.
\<close>

theorem restore_spares_live_database:
  assumes "restoreBackup c parse lookup databaseUrl bucket key target = Inr (t, b)"
    and "live \<in> {databaseUrl, bkDatabaseUrl c}" "truthy live" "parse (the live) = Some v" "parse target = Some u"
    and "namesDatabase u" "namesDatabase v"
  shows "t = target \<and> set (duParams u) \<subseteq> set SAFE_QUERY_PARAMS \<and> endpoints account lookup u \<noteq> []
    \<and> set (endpoints account lookup u) \<inter> set (endpoints account lookup v) = {}"
proof -
  have safe: "assertSafeRestoreTarget parse lookup target [databaseUrl, bkDatabaseUrl c] = Inr ()" and t: "t = target"
    using assms(1) by (auto simp: restoreBackup_def bind_res_eq_Inr split: if_splits option.splits)
  define lives where "lives = map the (filter truthy [databaseUrl, bkDatabaseUrl c])"
  have params: "findFirst (\<lambda>k. k \<notin> set SAFE_QUERY_PARAMS) (duParams u) = None" and some: "lookup (duHostname u) \<noteq> []"
      and check: "checkAddresses parse lookup u (lookup (duHostname u)) lives = Inr ()"
    using safe assms(5) unfolding assertSafeRestoreTarget_def Let_def lives_def [symmetric]
    by (auto split: option.splits if_splits)
  have mem: "the live \<in> set lives" using assms(2,3) unfolding lives_def by auto
  obtain v' p q where "parse (the live) = Some v'"
      and pq': "decodeURIComponent (duPathname v') = Some p" "decodeURIComponent (duPathname u) = Some q"
      and apart': "portOf v' = portOf u \<and> p = q
        \<longrightarrow> (\<forall>a \<in> set (lookup (duHostname v')). a \<notin> set (lookup (duHostname u)))"
    by (rule checkAddresses_InrD [OF check mem], rule that)
  have v': "v' = v" using \<open>parse (the live) = Some v'\<close> assms(4) by simp
  note pq = pq' [unfolded v'] and apart = apart' [unfolded v']
  have "portOf v \<noteq> portOf u \<or> dbNameOf v \<noteq> dbNameOf u \<or> (\<forall>a \<in> set (lookup (duHostname v)). a \<notin> set (lookup (duHostname u)))"
    using apart pq dbNameOf_path [of v u] assms(6,7) by (auto simp: namesDatabase_def)
  then have "set (endpoints account lookup u) \<inter> set (endpoints account lookup v) = {}"
    using assms(6,7) by (auto simp: endpoints_def reachedDatabase_def namesDatabase_def)
  moreover have "set (duParams u) \<subseteq> set SAFE_QUERY_PARAMS" using params by (auto simp: findFirst_None_iff)
  ultimately show ?thesis using t some by (simp add: endpoints_def)
qed

definition urlOf0 :: "string \<Rightarrow> dbUrl option" where
  "urlOf0 t =
     map_of [(''live'', \<lparr>duUsername = ''api'', duHostname = ''db'', duPort = [], duPathname = ''/shop'', duParams = [''schema'']\<rparr>),
       (''backup'', \<lparr>duUsername = ''api'', duHostname = ''db'', duPort = ''5432'', duPathname = ''/shop'', duParams = []\<rparr>),
       (''scratch'', \<lparr>duUsername = ''api'', duHostname = ''db'', duPort = [], duPathname = ''/drill'', duParams = [''sslmode'']\<rparr>),
       (''nameless'', \<lparr>duUsername = ''shop'', duHostname = ''db'', duPort = [], duPathname = ''/'', duParams = []\<rparr>)] t"

definition backup0 :: BackupConfig where
  "backup0 = \<lparr>bkDatabaseUrl = Some ''backup'', bkEndpoint = Some ''r2'', bkBucket = Some ''b'', bkAccessKeyId = Some ''k'',
     bkSecretAccessKey = Some ''s'', bkPrefix = ''pg'', bkRetentionCount = Some 2\<rparr>"

definition stored0 :: "storedObject list" where
  "stored0 = [\<lparr>soKey = ''pg/a'', soSize = 1, soModified = 10\<rparr>, \<lparr>soKey = ''logo'', soSize = 1, soModified = 5\<rparr>,
     \<lparr>soKey = ''pg/b'', soSize = 1, soModified = 20\<rparr>]"

lemma restore_spares_live_database_witness:
  "\<exists>u v. urlOf0 ''scratch'' = Some u \<and> urlOf0 ''live'' = Some v
    \<and> set (endpoints ''root'' (\<lambda>_. [''10.0.0.1'']) u) \<inter> set (endpoints ''root'' (\<lambda>_. [''10.0.0.1'']) v) = {}"
proof -
  have "\<not> isl (restoreBackup backup0 urlOf0 (\<lambda>_. [''10.0.0.1'']) (Some ''live'') stored0 ''pg/a'' ''scratch'')" by code_simp
  then obtain t b where r: "restoreBackup backup0 urlOf0 (\<lambda>_. [''10.0.0.1'']) (Some ''live'') stored0 ''pg/a'' ''scratch'' = Inr (t, b)"
    by (cases "restoreBackup backup0 urlOf0 (\<lambda>_. [''10.0.0.1'']) (Some ''live'') stored0 ''pg/a'' ''scratch''") auto
  show ?thesis
    using restore_spares_live_database [OF r, of "Some ''live''"]
    by (simp add: urlOf0_def namesDatabase_def dbNameOf_def startsWith_def decodeURIComponent_plain isHexChar_def)
qed

text \<open>\<open>postgresql://shop@db/\<close> passes the guard of a live data base \<open>shop\<close> on \<open>db\<close>, and its client ends up there.\<close>

lemma nameless_target_reaches_live:
  "\<not> isl (restoreBackup backup0 urlOf0 (\<lambda>_. [''10.0.0.1'']) (Some ''live'') stored0 ''pg/a'' ''nameless'')"
  "endpoints ''root'' (\<lambda>_. [''10.0.0.1'']) (the (urlOf0 ''nameless'')) = endpoints ''root'' (\<lambda>_. [''10.0.0.1'']) (the (urlOf0 ''live''))"
  by code_simp+

section \<open>What is kept\<close>

lemma fold_deleteObject: "fold deleteObject ks bucket = filter (\<lambda>b. soKey b \<notin> set ks) bucket"
  by (induction ks arbitrary: bucket) (auto simp: deleteObject_def intro!: filter_cong)

definition mine :: "BackupConfig \<Rightarrow> storedObject \<Rightarrow> bool" where
  "mine c b = startsWith (bkPrefix c @ ''/'') (soKey b)"

lemma distinct_putObject: "distinct (map soKey bucket) \<Longrightarrow> distinct (map soKey (putObject x bucket))"
  by (auto simp: putObject_def deleteObject_def distinct_map inj_on_def)

text \<open>With distinct keys, deleting the keys of some objects deletes these objects.\<close>

lemma delete_keys:
  assumes "distinct (map soKey bucket)" and "set zs \<subseteq> set bucket"
  shows "filter (\<lambda>b. soKey b \<notin> soKey ` set zs) bucket = filter (\<lambda>b. b \<notin> set zs) bucket"
  using assms by (intro filter_cong) (auto simp: distinct_map dest: inj_onD)

text \<open>
  C40: Pruning keeps the newest backups. After a backup that succeeded, at most the number the configuration
  names is left, none of the deleted ones is newer than one that is left, the new one is among them when it is
  newer than the others, and objects that are no backups are not touched.
\<close>

theorem backups_keep_newest:
  assumes "runBackup c now dump bucket = Inr (bucket', x)" and "bkRetentionCount c = Some (int n)"
    and "distinct (map soKey bucket)"
  shows "length (listAllObjects c bucket') = min n (length (listAllObjects c (putObject x bucket)))
    \<and> (\<forall>kept \<in> set (listAllObjects c bucket'). \<forall>gone \<in> set (putObject x bucket) - set bucket'. soModified gone \<le> soModified kept)
    \<and> (n > 0 \<and> (\<forall>b \<in> set bucket. soModified b < now) \<longrightarrow> x \<in> set bucket')
    \<and> filter (\<lambda>b. \<not> mine c b) bucket' = filter (\<lambda>b. \<not> mine c b) (putObject x bucket)"
proof -
  define all where "all = putObject x bucket"
  define S where "S = newestFirst (listAllObjects c all)"
  have x: "x = \<lparr>soKey = backupKey c now, soSize = soSize x, soModified = now\<rparr>" and b': "bucket' = pruneOld c all"
    using assms(1) unfolding all_def by (auto simp: runBackup_def Let_def bind_res_eq_Inr split: if_splits)
  have dist: "distinct (map soKey all)" unfolding all_def by (rule distinct_putObject [OF assms(3)])
  have S: "set S = {b \<in> set all. mine c b}" "sorted (map (\<lambda>b. - soModified b) S)" "distinct S"
      "length S = length (listAllObjects c all)"
    using dist unfolding S_def newestFirst_def by (auto simp: listAllObjects_def mine_def distinct_map)
  have sub: "set (drop n S) \<subseteq> set all" using S(1) by (auto dest: in_set_dropD)
  have kept: "bucket' = filter (\<lambda>b. b \<notin> set (drop n S)) all"
    unfolding b' pruneOld_def selectStaleKeys_def S_def [symmetric] assms(2) fold_deleteObject sliceFrom_def
    using delete_keys [OF dist sub] by simp
  have split: "set S = set (take n S) \<union> set (drop n S)" "set (take n S) \<inter> set (drop n S) = {}"
    using S(3) by (metis append_take_drop_id set_append) (metis S(3) append_take_drop_id distinct_append)
  have list: "set (listAllObjects c bucket') = set (take n S)"
    unfolding kept listAllObjects_def using S(1) split by (auto simp: mine_def)
  have "distinct all" using dist by (simp add: distinct_map)
  then have "distinct (listAllObjects c bucket')" unfolding kept listAllObjects_def by simp
  then have "length (listAllObjects c bucket') = card (set (take n S))" unfolding list [symmetric] by (simp add: distinct_card)
  then have len: "length (listAllObjects c bucket') = min n (length (listAllObjects c all))"
    using S(3,4) by (simp add: distinct_card min.commute)
  have gone: "g \<in> set (drop n S)" if "g \<in> set all - set bucket'" for g
    using that unfolding kept by auto
  have newest: "\<forall>k \<in> set (listAllObjects c bucket'). \<forall>g \<in> set all - set bucket'. soModified g \<le> soModified k"
    using sorted_take_drop [OF S(2)] gone unfolding list by fastforce
  have new: "x \<in> set bucket'" if n: "n > 0" "\<forall>b \<in> set bucket. soModified b < now"
  proof (rule ccontr)
    assume "x \<notin> set bucket'"
    moreover have "x \<in> set all" unfolding all_def putObject_def by simp
    ultimately have xd: "x \<in> set (drop n S)" unfolding kept by simp
    then have "S \<noteq> []" by auto
    then obtain y where y: "y \<in> set (take n S)" using n(1) by (cases S; cases n) auto
    then have "y \<noteq> x" using split(2) xd by auto
    moreover have "y \<in> set all" using y S(1) by (auto dest: in_set_takeD)
    ultimately have "y \<in> set bucket" unfolding all_def putObject_def deleteObject_def by auto
    then have "soModified y < now" using n(2) by auto
    moreover have "soModified x \<le> soModified y" using sorted_take_drop [OF S(2) y xd] by simp
    ultimately show False using x by (metis leD storedObject.select_convs(3))
  qed
  have "filter (\<lambda>b. \<not> mine c b) bucket' = filter (\<lambda>b. \<not> mine c b) all"
    unfolding kept using S(1) by (auto intro!: filter_cong dest: in_set_dropD)
  with len newest new show ?thesis unfolding all_def by blast
qed

lemma backups_keep_newest_witness:
  "\<exists>b' x. runBackup backup0 30 (\<lambda>_. Inr 7) stored0 = Inr (b', x) \<and> x \<in> set b' \<and> length (listAllObjects backup0 b') \<le> 2"
proof -
  have "\<not> isl (runBackup backup0 30 (\<lambda>_. Inr 7) stored0)" by code_simp
  then obtain b' x where r: "runBackup backup0 30 (\<lambda>_. Inr 7) stored0 = Inr (b', x)"
    by (cases "runBackup backup0 30 (\<lambda>_. Inr 7) stored0") auto
  have "bkRetentionCount backup0 = Some (int 2)" "distinct (map soKey stored0)" "\<forall>b \<in> set stored0. soModified b < 30"
    by (simp_all add: backup0_def stored0_def)
  then show ?thesis using backups_keep_newest [OF r] r by simp
qed

text \<open>A count that is no number counts as none: the run deletes every backup, its own too.\<close>

lemma unreadable_retention_deletes_all:
  assumes "bkRetentionCount c = None" and "runBackup c now dump bucket = Inr (bucket', x)"
  shows "listAllObjects c bucket' = []"
proof -
  have "bucket' = pruneOld c (putObject x bucket)"
    using assms(2) by (auto simp: runBackup_def Let_def bind_res_eq_Inr split: if_splits)
  then show ?thesis
    using assms(1) by (auto simp: pruneOld_def fold_deleteObject selectStaleKeys_def sliceFrom_def newestFirst_def
        listAllObjects_def filter_empty_conv)
qed

end
