(* ===== verification/Spec2Isabelle.thy ===== *)
theory Spec2Isabelle
  imports OrderSystem Billing CategoryTemplates Shippings PlatformTenants Mail AuditTrail Preview Routes
    Config Backups
begin

text \<open>
  A verification development for the Yorde What Store API, a multi-tenant shop server (NestJS,
  Prisma, PostgreSQL; the paths below are under \<open>src/src\<close>).

  \<^bold>\<open>The program.\<close> A tenant is a store with a catalogue, coupons, shipping methods, customers and
  staff. Customers place orders, which are priced, take stock and are paid by Stripe, MercadoPago,
  PayPal, Zelle or by message; digital stores deliver files by links that run out. A store has a plan
  that limits it and is paid through Stripe or by hand; sweeps expire unpaid orders and lapsed plans.
  Staff and customers have sessions, and guards confine every request to one store. Owners run the
  settings of their stores and open further ones; the platform's administrators create, suspend,
  delete and enter stores.

  \<^bold>\<open>State and operations.\<close> A table is a list of rows and \<open>db\<close> (theory \<open>Schema\<close>) the record of the
  tables, with the effects that leave the process (queued jobs, e-mails, calls that move money) as a
  log. \<open>findFirst\<close>, \<open>updateMany\<close>, \<open>count\<close> and the like are those of Prisma over lists; a conditional
  update reads its guard in the same step, as one SQL statement does. A handler is a function from the
  state to \<open>Inl error\<close> or \<open>Inr\<close> of the new state and its answer: an exception rolls the request's
  transaction back, so it leaves no state. Where the code works outside a transaction, or keeps what it
  wrote when it refuses (a refresh token presented twice, a failure counter), the function returns the
  state in that case too. Amounts are exact decimals, the doubles JavaScript computes with in between
  are written out (theory \<open>Money\<close>). Times are milliseconds. What is outside \<open>src/\<close> is a parameter:
  \<open>env\<close> and \<open>authEnv\<close> hold the clock, generated ids and tokens, hashes, signatures and what a provider
  answers; a webhook's event is an argument, and so are Unicode's removal of accents in a slug, the
  database's collation where a list is sorted by name, the look-up of a mail server's addresses, what
  it answers to a mail, which texts Prisma takes for an id, which of the platform's payment accounts
  are configured, the block cipher of the vault (of which its round trip and the lengths of its outputs
  are assumed where a property needs them), the parser of JSON and the tools that dump and restore a
  data base.

  \<^bold>\<open>Theories.\<close>
  \<^item> \<open>Prelude\<close>, \<open>Money\<close>, \<open>Calendar\<close>, \<open>Text\<close>, \<open>Schema\<close>, \<open>Samples\<close>: results and tables; decimals and
    rounding (\<open>common/utils/money.ts\<close>, \<open>orders/pricing.util.ts\<close>); dates; strings, templates, links and
    CSV (\<open>orders/fulfillment\<close>, \<open>common/utils\<close>, \<open>uploads\<close>); the tables; concrete rows.
  \<^item> \<open>Plans\<close>: \<open>plans/plans.service.ts\<close>. Entitlements, grace, renewals, limits.
  \<^item> \<open>Coupons\<close>: \<open>coupons/coupons.service.ts\<close> and the redemption of \<open>orders.service.ts\<close>.
  \<^item> \<open>Digital\<close>: \<open>digital/digital.service.ts\<close>. Deliveries, grants, price schedules.
  \<^item> \<open>Payments\<close>: \<open>payments/payments.service.ts\<close> and what its adapters charge.
  \<^item> \<open>Orders\<close>, \<open>OrderOps\<close>, \<open>OrderEdit\<close>: \<open>orders/orders.service.ts\<close>, split into pricing and creating,
    reading and changing status, editing.
  \<^item> \<open>Sweep\<close>: \<open>queue/processors/stale-orders.processor.ts\<close>.
  \<^item> \<open>OrderSystem\<close>: requests, webhooks and jobs in any order, as a step relation over all of these.
  \<^item> \<open>Billing\<close>: \<open>billing/billing.service.ts\<close> and \<open>billing/subscription-lifecycle.service.ts\<close>.
  \<^item> \<open>Accounts\<close>, \<open>CustomerAccounts\<close>, \<open>Members\<close>: \<open>auth/auth.service.ts\<close>, \<open>customers/\<close>, \<open>users/\<close>,
    \<open>devices/\<close>.
  \<^item> \<open>Sessions\<close>: every operation that writes a session, as a step relation.
  \<^item> \<open>Access\<close>: the tenant of a request and the guards (\<open>common/middleware\<close>, \<open>common/guards\<close>).
  \<^item> \<open>Catalogue\<close>, \<open>CategoryTemplates\<close>, \<open>Shippings\<close>: \<open>products/products.service.ts\<close>,
    \<open>category-templates/\<close> and \<open>locations-shipping/\<close>; the deletes write out the cascades of
    \<open>schema.prisma\<close> (orders keep their lines, with the links cleared).
  \<^item> \<open>SmtpGuard\<close>, \<open>Stores\<close>: \<open>common/utils/smtp-guard.util.ts\<close>, \<open>tenants/tenants.service.ts\<close>
    and \<open>common/utils/mask-tenant-secrets.util.ts\<close>.
  \<^item> \<open>Vault\<close>: \<open>common/utils/crypto.util.ts\<close>, the layout of an encrypted secret and its base64 text.
  \<^item> \<open>PlatformTenants\<close>: \<open>platform/tenants/platform-tenants.service.ts\<close>, with a step relation of
    every operation that writes a store. A purge returns the directories it removes.
  \<^item> \<open>Templates\<close>, \<open>Mail\<close>: \<open>email-templates/\<close>, \<open>platform-settings/\<close> and the processors of
    \<open>queue/processors\<close> that send: \<open>email\<close>, \<open>digital-delivery\<close>, \<open>order-notification\<close>. A text is the
    list of its bytes.
  \<^item> \<open>AuditTrail\<close>: \<open>audit/\<close>. \<open>Preview\<close>: \<open>preview/\<close>, the page of a link as text, with the escapes and
    the addresses of theory \<open>Uri\<close>.
  \<^item> \<open>Routes\<close>: every controller with its decorators, the router's choice of a handler, the guards in
    the order they run, the table of who may call what, and the interceptor of the log.
  \<^item> \<open>Config\<close>, \<open>Backups\<close>: \<open>config/validate-env.ts\<close> and \<open>platform/backups/\<close>.

  \<^bold>\<open>Interfaces.\<close> A contract several operations share is a locale, proved once and interpreted on the
  code's definitions in the theory that provides them: settlements of a payment (\<open>Payments\<close>), steps
  that keep stock and closed orders (\<open>OrderSystem\<close>), families of refresh tokens (\<open>Sessions\<close>,
  interpreted for staff and for customers).

  \<^bold>\<open>What the properties show.\<close> Money: an order is stored with the exact sums of its lines, charged
  that amount, and paid only by a payment of that amount and currency, once, whatever is redelivered
  and however stale the row a webhook read. Stock: what orders hold plus what is on the shelf is
  constant over every run, and no count goes below zero. Coupons, downloads, plans and notices keep
  within their limits. Sessions: a token family has one token in use at most, a replay ends it, a
  reset or a removal ends every session it should. Access: a session reaches no other store,
  an administrator's impersonation is confined to its store and half an hour and leaves a log row.
  Catalogue: what an order is priced from is always well formed, and live products keep within the
  plan; a template's slug is found after finitely many tries. Stores: status, activity and deletion
  stay in step, a suspended store is off the air, a purge takes one store's rows and no other's, a
  method that is offered is accepted, credentials are read back as saved, and the mail server guard
  refuses exactly the ranges it names. Mail: a template is filled in one pass, a store's own text is the
  one sent until it is taken back, mail that carries a credential goes over the platform's server, a
  store's mail never into the platform's network. The audit log keeps no secret and names the person who
  acted; no text of a store becomes markup in the preview of a link. Routes: every path has one handler
  whatever the order of the controllers, an admitted request has proved what the matrix asks of that
  handler's row, and what an account changed starts the insert of one row of the log. Operation: a
  production server boots only with the settings it needs, a restore whose address names its data base
  never reaches the live one, and old dumps leave from the oldest. Errors
  and findings are theorems too: each states what the code does on the branch in question.

  \<^bold>\<open>Interleaving.\<close> A conditional update is one step. Where the code checks first and writes later (a
  refresh token, the claim and release of a notice, a stale row a webhook read) the read and the write are
  definitions of their own, and the theorems say what holds when other requests run in between: \<open>Sessions\<close>
  shows which guarantee of a token family overlapping refreshes keep and which they lose, \<open>Billing\<close> what
  a release must not overlap, \<open>Payments\<close> that no stale row settles an order twice.

  \<^bold>\<open>Bounds.\<close> No definition uses fuel: every loop of the modelled code is a recursion on data or a
  \<open>function\<close> with its termination proof (the search of a free slug, a v4 address inside a v6 one, the
  pieces of a template, the escapes of a path). Counts
  and money are unbounded, and the bounds of the columns (\<open>Decimal(12,2)\<close>, \<open>Int\<close>) are written out
  where a write checks them.

  \<^bold>\<open>Not modelled.\<close> The HTTP layer beyond the guards (parsing, rate limits, the
  validation of the DTOs other than the catalogue's amounts and counts);
  PostgreSQL's row-level security, so a query of a handler carries its tenant as the code writes it
  (in the catalogue some statements carry none and rely on the policies; there the model writes the
  tenant); the catalogue's sitemap; the platform's figures and its list of all products;
  the adapters' HTTP and signature checks; Redis failing; the drawing of a PDF; statistics
  written in SQL. The manifest lists each with its reason.
\<close>

end
